(* ===== verification/Prelude.thy ===== *)
theory Prelude
  imports
    Complex_Main
    "HOL-Library.Char_ord"
    "HOL-Library.List_Lexorder"
    "HOL-Library.Product_Lexorder"
begin

text \<open>
  What every theory of the development shares: the names of the base types, the collections
  of rewrite rules, Python's truthiness on optional strings, and generic facts about lists,
  sums over lists and sorted lists.

  Python's floats and decimals are both the type \<^typ>\<open>real\<close>: arithmetic is exact, binary64
  rounding and the 28 digits of the decimal context are not modelled. A moment is the number
  of microseconds since the Unix epoch (the resolution of Python's datetime), an \<^typ>\<open>int\<close>.
\<close>

type_synonym decimal = real
type_synonym pyfloat = real
type_synonym moment = int
type_synonym ('e, 'a) result = "'e + 'a"

named_theorems frame_simps \<open>what an operation leaves unchanged\<close>
named_theorems money_simps \<open>rounding of amounts to whole cents\<close>
named_theorems inv_intros \<open>preservation of invariants by operations\<close>

subsection \<open>Python values\<close>

text \<open>An optional string is truthy when it is present and not empty.\<close>

definition truthy :: "string option \<Rightarrow> bool" where
  "truthy s = (case s of None \<Rightarrow> False | Some t \<Rightarrow> t \<noteq> [])"

text \<open>\<open>a or b\<close> on optional strings.\<close>

definition py_or :: "string option \<Rightarrow> string option \<Rightarrow> string option" where
  "py_or a b = (if truthy a then a else b)"

lemma truthy_simps [simp]: "\<not> truthy None" "truthy (Some s) \<longleftrightarrow> s \<noteq> []"
  by (simp_all add: truthy_def)

lemma py_or_simps [simp]: "py_or None b = b" "s \<noteq> [] \<Longrightarrow> py_or (Some s) b = Some s"
  by (simp_all add: py_or_def)

subsection \<open>Durations\<close>

text \<open>\<open>timedelta.total_seconds()\<close> of a difference of moments, and the divisions the code
  makes of it.\<close>

definition total_seconds :: "int \<Rightarrow> pyfloat" where
  "total_seconds d = of_int d / 1000000"

definition hours_of :: "int \<Rightarrow> pyfloat" where
  "hours_of d = total_seconds d / 3600"

definition days_of :: "int \<Rightarrow> pyfloat" where
  "days_of d = total_seconds d / 86400"

text \<open>\<open>timedelta(minutes=m)\<close> and \<open>timedelta(days=d)\<close> in microseconds: the constructor rounds
  to whole microseconds, ties to even (\<open>round\<close> on a float).\<close>

definition round_half_even :: "real \<Rightarrow> int" where
  "round_half_even x =
     (let f = \<lfloor>x\<rfloor>; r = x - of_int f
      in if r < 1/2 then f else if r > 1/2 then f + 1 else if even f then f else f + 1)"

definition timedelta_minutes :: "pyfloat \<Rightarrow> int" where
  "timedelta_minutes m = round_half_even (m * 60000000)"

definition timedelta_days :: "pyfloat \<Rightarrow> int" where
  "timedelta_days d = round_half_even (d * 86400000000)"

lemma hours_of_mono: "a \<le> b \<Longrightarrow> hours_of a \<le> hours_of b"
  by (simp add: hours_of_def total_seconds_def divide_right_mono)

lemma hours_of_nonneg [simp]: "0 \<le> hours_of a \<longleftrightarrow> 0 \<le> a"
  by (simp add: hours_of_def total_seconds_def)

lemma hours_of_0 [simp]: "hours_of 0 = 0" "days_of 0 = 0" "total_seconds 0 = 0"
  by (simp_all add: hours_of_def days_of_def total_seconds_def)

lemma days_of_nonneg [simp]: "0 \<le> days_of a \<longleftrightarrow> 0 \<le> a"
  by (simp add: days_of_def total_seconds_def)

subsection \<open>Lists\<close>

lemma sum_list_filter_partition:
  "(\<Sum>x\<leftarrow>filter P xs. f x) + (\<Sum>x\<leftarrow>filter (\<lambda>x. \<not> P x) xs. f x) = (\<Sum>x\<leftarrow>xs. (f x :: real))"
  by (induction xs) auto

lemma sum_list_nonneg_real: "(\<And>x. x \<in> set xs \<Longrightarrow> 0 \<le> (f x :: real)) \<Longrightarrow> 0 \<le> (\<Sum>x\<leftarrow>xs. f x)"
  by (induction xs) auto

lemma sum_list_mono_real:
  "(\<And>x. x \<in> set xs \<Longrightarrow> (f x :: real) \<le> g x) \<Longrightarrow> (\<Sum>x\<leftarrow>xs. f x) \<le> (\<Sum>x\<leftarrow>xs. g x)"
  by (induction xs) (auto intro: add_mono)

lemma sum_list_map_filter_if:
  "(\<Sum>x\<leftarrow>filter P xs. f x) = (\<Sum>x\<leftarrow>xs. if P x then f x else (0::real))"
  by (induction xs) auto

lemma sum_list_filter_conj:
  "(\<Sum>x\<leftarrow>filter (\<lambda>x. P x \<and> Q x) xs. f x) = (\<Sum>x\<leftarrow>filter P xs. if Q x then f x else (0::real))"
  by (induction xs) auto

lemma map_of_fst_distinct:
  "distinct (map f xs) \<Longrightarrow> x \<in> set xs \<Longrightarrow> y \<in> set xs \<Longrightarrow> f x = f y \<Longrightarrow> x = y"
  by (simp add: distinct_map inj_on_def)

lemma find_distinct_key:
  "distinct (map f xs) \<Longrightarrow> x \<in> set xs \<Longrightarrow> find (\<lambda>y. f y = f x) xs = Some x"
  by (induction xs) (auto simp: rev_image_eqI)

lemma find_Some_set: "find P xs = Some x \<Longrightarrow> x \<in> set xs \<and> P x"
  by (auto simp: find_Some_iff)

lemma find_map_key:
  "(\<And>x. f (g x) = f x) \<Longrightarrow> find (\<lambda>y. f y = k) (map g xs) = map_option g (find (\<lambda>y. f y = k) xs)"
  by (induction xs) auto

lemma filter_length_one_unique:
  "length (filter P xs) = 1 \<Longrightarrow> x \<in> set xs \<Longrightarrow> P x \<Longrightarrow> y \<in> set xs \<Longrightarrow> P y \<Longrightarrow> x = y"
proof -
  assume len: "length (filter P xs) = 1" and x: "x \<in> set xs" "P x" and y: "y \<in> set xs" "P y"
  from len obtain z where z: "filter P xs = [z]" by (auto simp: length_Suc_conv)
  from x have "x \<in> set (filter P xs)" by simp
  moreover from y have "y \<in> set (filter P xs)" by simp
  ultimately show "x = y" using z by simp
qed

lemma filter_length_one_distinct:
  assumes "distinct (map f xs)" and "x \<in> set xs" and "P x" and "\<And>y. P y \<Longrightarrow> f y = f x"
  shows "length (filter P xs) = 1"
  using assms(1,2)
proof (induction xs)
  case Nil
  then show ?case by simp
next
  case (Cons a xs)
  show ?case
  proof (cases "a = x")
    case True
    have "\<not> P y" if "y \<in> set xs" for y
      using assms(4) [of y] that Cons.prems(1) True by (metis distinct.simps(2) image_eqI list.simps(9) list.set_map)
    then show ?thesis using True assms(3) by (simp add: filter_False)
  next
    case False
    then have x: "x \<in> set xs" using Cons.prems by simp
    then have "\<not> P a"
      using assms(4) [of a] Cons.prems(1) by (metis distinct.simps(2) image_eqI list.simps(9) list.set_map)
    then show ?thesis using x Cons by simp
  qed
qed

text \<open>The elements before a position of a list sorted on a key have no larger key.\<close>

lemma sorted_map_nth_mono:
  "sorted (map f xs) \<Longrightarrow> i \<le> j \<Longrightarrow> j < length xs \<Longrightarrow> f (xs ! i) \<le> f (xs ! j)"
  using sorted_nth_mono [of "map f xs" i j] by simp

end
