(* ===== verification/Lifecycle.thy ===== *)
theory Lifecycle
  imports Prelude
begin

text \<open>
  The job lifecycle of \<^verbatim>\<open>gpu_broker/states.py\<close>: the states, the sets of terminal, active and
  budget-holding states, the table of legal transitions, the import-time check of that table,
  and the walk relation it induces. The facts here say what the graph guarantees: terminal
  states are dead ends, every live state can still end, and budget is held exactly by the
  states that are not terminal.
\<close>

datatype job_state =
    QUEUED | ALLOCATING | RUNNING | COMPLETED | FAILED | CANCELLED | REFUSED
  | CHECKPOINTING | PREEMPTED | RESUMING | RECLAIMED

instantiation job_state :: enum
begin

definition enum_job_state :: "job_state list" where
  "enum_job_state = [QUEUED, ALLOCATING, RUNNING, COMPLETED, FAILED, CANCELLED, REFUSED,
     CHECKPOINTING, PREEMPTED, RESUMING, RECLAIMED]"

definition enum_all_job_state :: "(job_state \<Rightarrow> bool) \<Rightarrow> bool" where
  "enum_all_job_state P = list_all P enum_class.enum"

definition enum_ex_job_state :: "(job_state \<Rightarrow> bool) \<Rightarrow> bool" where
  "enum_ex_job_state P = list_ex P enum_class.enum"

instance
proof
  have "x \<in> set (enum_class.enum :: job_state list)" for x :: job_state
    by (cases x) (simp_all add: enum_job_state_def)
  then show univ: "(UNIV :: job_state set) = set enum_class.enum" by blast
  show "distinct (enum_class.enum :: job_state list)" by (simp add: enum_job_state_def)
  show "enum_class.enum_all P = Ball (UNIV :: job_state set) P" for P
    unfolding enum_all_job_state_def list_all_iff univ [symmetric] by simp
  show "enum_class.enum_ex P = Bex (UNIV :: job_state set) P" for P
    unfolding enum_ex_job_state_def list_ex_iff univ [symmetric] by simp
qed

end

text \<open>The value of the enumeration, as it is printed.\<close>

fun state_name :: "job_state \<Rightarrow> string" where
  "state_name QUEUED = ''QUEUED''"
| "state_name ALLOCATING = ''ALLOCATING''"
| "state_name RUNNING = ''RUNNING''"
| "state_name COMPLETED = ''COMPLETED''"
| "state_name FAILED = ''FAILED''"
| "state_name CANCELLED = ''CANCELLED''"
| "state_name REFUSED = ''REFUSED''"
| "state_name CHECKPOINTING = ''CHECKPOINTING''"
| "state_name PREEMPTED = ''PREEMPTED''"
| "state_name RESUMING = ''RESUMING''"
| "state_name RECLAIMED = ''RECLAIMED''"

definition TERMINAL :: "job_state list" where
  "TERMINAL = [COMPLETED, FAILED, CANCELLED, REFUSED, RECLAIMED]"

definition ACTIVE :: "job_state list" where
  "ACTIVE = [ALLOCATING, RUNNING, CHECKPOINTING, RESUMING]"

definition HOLDS_BUDGET :: "job_state list" where
  "HOLDS_BUDGET = [QUEUED] @ ACTIVE @ [PREEMPTED]"

fun LEGAL_TRANSITIONS :: "job_state \<Rightarrow> job_state list" where
  "LEGAL_TRANSITIONS QUEUED = [ALLOCATING, CANCELLED, FAILED]"
| "LEGAL_TRANSITIONS ALLOCATING = [RUNNING, RESUMING, COMPLETED, FAILED, CANCELLED, PREEMPTED]"
| "LEGAL_TRANSITIONS RESUMING = [RUNNING, COMPLETED, FAILED, CANCELLED]"
| "LEGAL_TRANSITIONS RUNNING = [COMPLETED, FAILED, CANCELLED, CHECKPOINTING, PREEMPTED, RECLAIMED]"
| "LEGAL_TRANSITIONS CHECKPOINTING = [PREEMPTED, FAILED, COMPLETED]"
| "LEGAL_TRANSITIONS PREEMPTED = [QUEUED, CANCELLED, FAILED]"
| "LEGAL_TRANSITIONS COMPLETED = []"
| "LEGAL_TRANSITIONS FAILED = []"
| "LEGAL_TRANSITIONS CANCELLED = []"
| "LEGAL_TRANSITIONS REFUSED = []"
| "LEGAL_TRANSITIONS RECLAIMED = []"

definition can_transition :: "job_state \<Rightarrow> job_state \<Rightarrow> bool" where
  "can_transition from_state to_state = (to_state \<in> set (LEGAL_TRANSITIONS from_state))"

text \<open>The import-time check. Totality of the table and membership of every target in the
  enumeration hold by typing; what is left to test is that a terminal source has no target.\<close>

definition assert_table_is_total :: "bool" where
  "assert_table_is_total =
     list_all (\<lambda>src. \<not> (src \<in> set TERMINAL \<and> LEGAL_TRANSITIONS src \<noteq> [])) enum_class.enum"

text \<open>A walk through the table: the shape every job history has.\<close>

inductive lifecycle_walk :: "job_state \<Rightarrow> job_state \<Rightarrow> bool" where
  stay: "lifecycle_walk s s"
| move: "lifecycle_walk s t \<Longrightarrow> can_transition t u \<Longrightarrow> lifecycle_walk s u"

lemmas state_sets = TERMINAL_def ACTIVE_def HOLDS_BUDGET_def

lemma terminal_no_successor [simp]: "s \<in> set TERMINAL \<Longrightarrow> \<not> can_transition s t"
  by (cases s) (simp_all add: state_sets can_transition_def)

lemma terminal_legal_targets: "s \<in> set TERMINAL \<Longrightarrow> LEGAL_TRANSITIONS s = []"
  by (cases s) (simp_all add: state_sets)

lemma assert_table_holds: "assert_table_is_total"
  by (simp add: assert_table_is_total_def list_all_iff terminal_legal_targets)

lemma active_not_terminal: "s \<in> set ACTIVE \<Longrightarrow> s \<notin> set TERMINAL"
  by (cases s) (simp_all add: state_sets)

lemma queued_not_terminal [simp]: "QUEUED \<notin> set TERMINAL" "QUEUED \<notin> set ACTIVE"
  "PREEMPTED \<notin> set TERMINAL" "PREEMPTED \<notin> set ACTIVE" "REFUSED \<in> set TERMINAL"
  "ALLOCATING \<in> set ACTIVE" "ALLOCATING \<notin> set TERMINAL"
  by (simp_all add: state_sets)

lemma holds_budget_iff: "s \<in> set HOLDS_BUDGET \<longleftrightarrow> s \<notin> set TERMINAL"
  by (cases s) (simp_all add: state_sets)

lemma can_transition_cancel_fail:
  "s \<notin> set TERMINAL \<Longrightarrow> can_transition s FAILED"
  by (cases s) (simp_all add: state_sets can_transition_def)

lemma not_into_refused: "\<not> can_transition s REFUSED"
  by (cases s) (simp_all add: can_transition_def)

lemma only_preempted_requeues: "can_transition s QUEUED \<Longrightarrow> s = PREEMPTED"
  by (cases s) (simp_all add: can_transition_def)

lemma lifecycle_walk_terminal:
  "lifecycle_walk s t \<Longrightarrow> s \<in> set TERMINAL \<Longrightarrow> t = s"
  by (induction rule: lifecycle_walk.induct) auto

lemma lifecycle_walk_trans:
  assumes "lifecycle_walk t u" and "lifecycle_walk s t"
  shows "lifecycle_walk s u"
  using assms by (induction rule: lifecycle_walk.induct) (auto intro: lifecycle_walk.move)

text \<open>
  C40. A terminal state is a dead end of the lifecycle: a walk through the table that starts in
  a terminal state never leaves it. A state outside the terminal set holds budget, still has a
  legal edge into \<^const>\<open>FAILED\<close>, and no edge enters \<^const>\<open>REFUSED\<close> or (except from
  \<^const>\<open>PREEMPTED\<close>) goes back to \<^const>\<open>QUEUED\<close>.
\<close>

theorem lifecycle_graph:
  "(s \<in> set TERMINAL \<longrightarrow> (\<forall>t. lifecycle_walk s t \<longrightarrow> t = s)) \<and>
   (s \<notin> set TERMINAL \<longrightarrow> s \<in> set HOLDS_BUDGET \<and> can_transition s FAILED) \<and>
   \<not> can_transition s REFUSED \<and> (can_transition s QUEUED \<longrightarrow> s = PREEMPTED)"
  using lifecycle_walk_terminal [of s] holds_budget_iff can_transition_cancel_fail
    not_into_refused only_preempted_requeues by blast

theorem lifecycle_graph_witness:
  "{t. lifecycle_walk COMPLETED t} = {COMPLETED} \<and> can_transition RUNNING FAILED \<and> RUNNING \<in> set HOLDS_BUDGET"
  using lifecycle_graph [of COMPLETED] lifecycle_graph [of RUNNING] lifecycle_walk.stay [of COMPLETED]
  by (auto simp: state_sets)

end
