(* ===== verification/Money.thy ===== *)
theory Money
  imports Lifecycle
begin

text \<open>
  Currencies, rounding to cents, rendering of amounts, billing periods and the manual clock:
  \<^verbatim>\<open>gpu_broker/money.py\<close> and \<^verbatim>\<open>gpu_broker/clock.py\<close>. Coercion to a decimal (\<open>money\<close>) is the
  identity on the model's numbers. The rounding facts are what the ledger proofs rest on:
  \<open>quantize\<close> is monotone, leaves whole cents alone and moves a value by at most half a cent.
\<close>

datatype currency = USD | GPU_HOUR

instantiation currency :: enum
begin

definition enum_currency :: "currency list" where
  "enum_currency = [USD, GPU_HOUR]"

definition enum_all_currency :: "(currency \<Rightarrow> bool) \<Rightarrow> bool" where
  "enum_all_currency P = list_all P enum_class.enum"

definition enum_ex_currency :: "(currency \<Rightarrow> bool) \<Rightarrow> bool" where
  "enum_ex_currency P = list_ex P enum_class.enum"

instance
proof
  have "x \<in> set (enum_class.enum :: currency list)" for x :: currency
    by (cases x) (simp_all add: enum_currency_def)
  then show univ: "(UNIV :: currency set) = set enum_class.enum" by blast
  show "distinct (enum_class.enum :: currency list)" by (simp add: enum_currency_def)
  show "enum_class.enum_all P = Ball (UNIV :: currency set) P" for P
    unfolding enum_all_currency_def list_all_iff univ [symmetric] by simp
  show "enum_class.enum_ex P = Bex (UNIV :: currency set) P" for P
    unfolding enum_ex_currency_def list_ex_iff univ [symmetric] by simp
qed

end

fun currency_name :: "currency \<Rightarrow> string" where
  "currency_name USD = ''USD''"
| "currency_name GPU_HOUR = ''GPU_HOUR''"

fun currency_symbol :: "currency \<Rightarrow> string" where
  "currency_symbol USD = ''$''"
| "currency_symbol GPU_HOUR = ''''"

fun currency_suffix :: "currency \<Rightarrow> string" where
  "currency_suffix USD = ''''"
| "currency_suffix GPU_HOUR = '' gpu-hr''"

definition money :: "real \<Rightarrow> decimal" where
  "money value = value"

text \<open>\<open>Decimal.quantize(0.01, ROUND_HALF_UP)\<close>: to the nearest cent, ties away from zero.\<close>

definition quantize :: "decimal \<Rightarrow> currency \<Rightarrow> decimal" where
  "quantize value cur = sgn (money value) * of_int \<lfloor>\<bar>money value\<bar> * 100 + 1/2\<rfloor> / 100"

text \<open>Whole cents, the amounts the ledger holds.\<close>

definition whole_cents :: "decimal \<Rightarrow> bool" where
  "whole_cents x = (of_int \<lfloor>x * 100\<rfloor> = x * 100)"

subsection \<open>Rendering\<close>

definition digit_char :: "nat \<Rightarrow> char" where
  "digit_char n = char_of (48 + n)"

fun show_nat :: "nat \<Rightarrow> string" where
  "show_nat n = (if n < 10 then [digit_char n] else show_nat (n div 10) @ [digit_char (n mod 10)])"

declare show_nat.simps [simp del]

definition show_int :: "int \<Rightarrow> string" where
  "show_int i = (if i < 0 then ''-'' @ show_nat (nat (- i)) else show_nat (nat i))"

definition pad_left :: "nat \<Rightarrow> string \<Rightarrow> string" where
  "pad_left w s = replicate (w - length s) (CHR ''0'') @ s"

text \<open>Thousands separators, on the reversed digits.\<close>

fun group_thousands :: "string \<Rightarrow> string" where
  "group_thousands (a # b # c # d # rest) = a # b # c # CHR '','' # group_thousands (d # rest)"
| "group_thousands s = s"

text \<open>\<open>{x:,.2f}\<close> of an amount that is already in whole cents.\<close>

definition show_cents :: "int \<Rightarrow> string" where
  "show_cents c =
     (let a = nat \<bar>c\<bar>
      in (if c < 0 then ''-'' else '''') @ rev (group_thousands (rev (show_nat (a div 100)))) @
         ''.'' @ pad_left 2 (show_nat (a mod 100)))"

definition fmt :: "decimal \<Rightarrow> currency \<Rightarrow> string" where
  "fmt value cur =
     (let amount = quantize (money value) cur
      in currency_symbol cur @ show_cents \<lfloor>amount * 100\<rfloor> @ currency_suffix cur)"

text \<open>\<open>{x:.df}\<close> of a float: \<open>d\<close> decimals, the exact value rounded half to even.\<close>

definition show_fixed :: "nat \<Rightarrow> pyfloat \<Rightarrow> string" where
  "show_fixed d x =
     (let a = nat (round_half_even (\<bar>x\<bar> * 10 ^ d))
      in (if x < 0 then ''-'' else '''') @ show_nat (a div 10 ^ d) @
         (if d = 0 then '''' else ''.'' @ pad_left d (show_nat (a mod 10 ^ d))))"

subsection \<open>Billing periods\<close>

text \<open>Year and month of a day number (days since 1970-01-01) in the proleptic Gregorian
  calendar, as Python's datetime computes them.\<close>

definition civil_year_month :: "int \<Rightarrow> int \<times> int" where
  "civil_year_month days =
     (let z = days + 719468;
          era = z div 146097;
          doe = z mod 146097;
          yoe = (doe - doe div 1460 + doe div 36524 - doe div 146096) div 365;
          doy = doe - (365 * yoe + yoe div 4 - yoe div 100);
          mp = (5 * doy + 2) div 153;
          m = (if mp < 10 then mp + 3 else mp - 9)
      in (yoe + era * 400 + (if m \<le> 2 then 1 else 0), m))"

text \<open>The time zone database is not part of the program: a zone is its UTC offset, in
  microseconds, as a function of the moment.\<close>

type_synonym tz = "moment \<Rightarrow> int"

definition billing_period :: "moment \<Rightarrow> tz \<Rightarrow> string" where
  "billing_period moment timezone =
     (let local_days = (moment + timezone moment) div 86400000000;
          (y, m) = civil_year_month local_days
      in pad_left 4 (show_int y) @ ''-'' @ pad_left 2 (show_int m))"

subsection \<open>The manual clock\<close>

datatype clock_error = ClockBackwards

text \<open>\<open>ManualClock.advance\<close>, with the timedelta already in microseconds.\<close>

definition clock_advance :: "moment \<Rightarrow> int \<Rightarrow> (clock_error, moment) result" where
  "clock_advance now delta =
     (if total_seconds delta < 0 then Inl ClockBackwards else Inr (now + delta))"

subsection \<open>Facts about rounding\<close>

lemma quantize_cur: "quantize x c = quantize x d"
  by (simp add: quantize_def)

lemma quantize_0 [simp]: "quantize 0 c = 0"
  by (simp add: quantize_def money_def)

lemma quantize_nonneg_eq: "0 \<le> x \<Longrightarrow> quantize x c = of_int \<lfloor>x * 100 + 1/2\<rfloor> / 100"
proof (cases "x = 0")
  case False
  assume "0 \<le> x"
  with False show ?thesis by (simp add: quantize_def money_def)
qed (simp add: quantize_def money_def)

lemma quantize_minus: "quantize (- x) c = - quantize x c"
  by (simp add: quantize_def money_def sgn_minus)

lemma quantize_nonneg [simp]: "0 \<le> x \<Longrightarrow> 0 \<le> quantize x c"
  by (simp add: quantize_nonneg_eq)

lemma quantize_nonpos: "x \<le> 0 \<Longrightarrow> quantize x c \<le> 0"
  using quantize_nonneg [of "- x" c] by (simp add: quantize_minus)

lemma quantize_mono: "x \<le> y \<Longrightarrow> quantize x c \<le> quantize y c"
proof -
  assume le: "x \<le> y"
  have pos: "quantize a c \<le> quantize b c" if "0 \<le> a" "a \<le> b" for a b :: real
  proof -
    have "\<lfloor>a * 100 + 1/2\<rfloor> \<le> \<lfloor>b * 100 + 1/2\<rfloor>" using that by (intro floor_mono) simp
    then show ?thesis using that by (simp add: quantize_nonneg_eq divide_right_mono)
  qed
  consider "0 \<le> x" | "y \<le> 0" | "x < 0" "0 < y" by linarith
  then show ?thesis
  proof cases
    case 1
    then show ?thesis using pos le by simp
  next
    case 2
    then have "quantize (- y) c \<le> quantize (- x) c" using pos le by simp
    then show ?thesis by (simp add: quantize_minus)
  next
    case 3
    then have "quantize x c \<le> 0" "0 \<le> quantize y c" by (simp_all add: quantize_nonpos)
    then show ?thesis by linarith
  qed
qed

lemma whole_cents_iff: "whole_cents x \<longleftrightarrow> (\<exists>k :: int. x = of_int k / 100)"
proof
  assume "whole_cents x"
  then have "of_int \<lfloor>x * 100\<rfloor> = x * 100" unfolding whole_cents_def .
  then have "x = of_int \<lfloor>x * 100\<rfloor> / 100" by linarith
  then show "\<exists>k :: int. x = of_int k / 100" by blast
next
  assume "\<exists>k :: int. x = of_int k / 100"
  then obtain k :: int where "x * 100 = of_int k" by auto
  then show "whole_cents x" by (simp add: whole_cents_def)
qed

lemma whole_cents_quantize [simp]: "whole_cents (quantize x c)"
proof -
  have "quantize x c = of_int (sgn \<lfloor>sgn x\<rfloor> * \<lfloor>\<bar>x\<bar> * 100 + 1/2\<rfloor>) / 100"
    by (cases "x = 0"; cases "0 < x") (simp_all add: quantize_def money_def)
  then show ?thesis unfolding whole_cents_iff by blast
qed

lemma whole_cents_0 [simp]: "whole_cents 0"
  by (simp add: whole_cents_def)

lemma whole_cents_add: "whole_cents x \<Longrightarrow> whole_cents y \<Longrightarrow> whole_cents (x + y)"
  unfolding whole_cents_iff by (metis add_divide_distrib of_int_add)

lemma whole_cents_minus: "whole_cents x \<Longrightarrow> whole_cents (- x)"
  unfolding whole_cents_iff by (metis minus_divide_left of_int_minus)

lemma whole_cents_diff: "whole_cents x \<Longrightarrow> whole_cents y \<Longrightarrow> whole_cents (x - y)"
  using whole_cents_add [of x "- y"] by (simp add: whole_cents_minus)

lemma whole_cents_min: "whole_cents x \<Longrightarrow> whole_cents y \<Longrightarrow> whole_cents (min x y)"
  by (simp add: min_def)

lemma whole_cents_max: "whole_cents x \<Longrightarrow> whole_cents y \<Longrightarrow> whole_cents (max x y)"
  by (simp add: max_def)

lemma quantize_whole_cents [simp]: "whole_cents x \<Longrightarrow> quantize x c = x"
proof -
  have pos: "quantize (of_int k / 100) c = of_int k / 100" if "0 \<le> k" for k :: int
  proof -
    have "\<lfloor>(of_int k / 100) * 100 + 1/2 :: real\<rfloor> = k" by (simp add: floor_eq_iff)
    then show ?thesis using that by (simp add: quantize_nonneg_eq)
  qed
  assume "whole_cents x"
  then obtain k :: int where k: "x = of_int k / 100" unfolding whole_cents_iff by blast
  show ?thesis
  proof (cases "0 \<le> k")
    case True
    then show ?thesis unfolding k by (rule pos)
  next
    case False
    then have "quantize (of_int (- k) / 100) c = of_int (- k) / 100" by (intro pos) simp
    then show ?thesis using quantize_minus [of x c] by (simp add: k)
  qed
qed

lemma quantize_error: "\<bar>quantize x c - x\<bar> \<le> 1 / 200"
proof -
  have pos: "\<bar>quantize a c - a\<bar> \<le> 1 / 200" if "0 \<le> a" for a :: real
  proof -
    have "of_int \<lfloor>a * 100 + 1/2\<rfloor> \<le> a * 100 + 1/2" "a * 100 + 1/2 - 1 < of_int \<lfloor>a * 100 + 1/2\<rfloor>"
      by linarith+
    then have "\<bar>of_int \<lfloor>a * 100 + 1/2\<rfloor> - a * 100\<bar> \<le> (1 / 2 :: real)" by linarith
    then show ?thesis unfolding quantize_nonneg_eq [OF that] by linarith
  qed
  show ?thesis
  proof (cases "0 \<le> x")
    case False
    then have "\<bar>quantize (- x) c - (- x)\<bar> \<le> 1 / 200" by (intro pos) simp
    then show ?thesis unfolding quantize_minus by linarith
  qed (rule pos)
qed

lemmas [money_simps] = money_def quantize_whole_cents whole_cents_quantize

lemmas whole_cents_intros = whole_cents_add whole_cents_minus whole_cents_diff whole_cents_min
  whole_cents_max

lemma whole_cents_sum_list:
  "(\<And>x. x \<in> set xs \<Longrightarrow> whole_cents (f x)) \<Longrightarrow> whole_cents (\<Sum>x\<leftarrow>xs. f x)"
  by (induction xs) (auto intro: whole_cents_add)

text \<open>
  Rounding an amount to cents is a monotone projection onto the whole cents: the result is
  always a whole number of cents, an amount already in whole cents is unchanged, the order of
  two amounts is never reversed, and no amount moves by more than half a cent. The tie goes
  away from zero on both sides.
\<close>

theorem quantize_projection:
  "whole_cents (quantize x c) \<and> (whole_cents x \<longrightarrow> quantize x c = x) \<and>
   (x \<le> y \<longrightarrow> quantize x c \<le> quantize y c) \<and> \<bar>quantize x c - x\<bar> \<le> 1 / 200 \<and>
   quantize (of_int k / 100 + 1 / 200) c = (if 0 \<le> k then of_int (k + 1) / 100 else of_int k / 100)"
proof -
  have tie: "quantize (of_int k / 100 + 1 / 200) c =
      (if 0 \<le> k then of_int (k + 1) / 100 else of_int k / 100)"
  proof (cases "0 \<le> k")
    case True
    have "\<lfloor>(of_int k / 100 + 1 / 200) * 100 + 1/2 :: real\<rfloor> = k + 1" by (simp add: floor_eq_iff field_simps)
    then show ?thesis using True by (simp add: quantize_nonneg_eq)
  next
    case False
    then have neg: "of_int k / 100 + 1 / 200 < (0::real)" by (simp add: field_simps)
    have "\<lfloor>- (of_int k / 100 + 1 / 200) * 100 + 1/2 :: real\<rfloor> = - k"
      by (simp add: floor_eq_iff field_simps)
    then have "quantize (- (of_int k / 100 + 1 / 200)) c = of_int (- k) / 100"
      using neg by (subst quantize_nonneg_eq) simp_all
    then show ?thesis using False unfolding quantize_minus by simp
  qed
  show ?thesis using tie quantize_error quantize_mono by simp
qed

theorem quantize_projection_witness:
  "quantize (1 / 200) USD = 1 / 100 \<and> quantize (- (1 / 200)) USD = - (1 / 100) \<and>
   quantize (1 / 200) USD \<le> quantize 1 USD"
  using quantize_projection [of 1 USD 1 0] quantize_projection [of 1 USD 1 "- 1"]
    quantize_projection [of "1 / 200" USD 1 0] by simp

end
