(* ===== verification/Models.thy ===== *)
theory Models
  imports Money
begin

text \<open>
  The plain records of \<^verbatim>\<open>gpu_broker/models.py\<close> and the errors of \<^verbatim>\<open>gpu_broker/errors.py\<close>. An
  exception carries the data its constructor is given; the sentence it renders is modelled where code
  reads it again (\<open>str(exc)\<close>) or where there is nothing else in it. \<open>CheckpointError\<close> is declared in \<^verbatim>\<open>checkpoint.py\<close>; \<open>ValueError\<close> is Python's, \<open>IntegrityError\<close> is SQLite's, raised when a constraint of the schema is violated.
\<close>

subsection \<open>Errors\<close>

datatype broker_problem =
    HoursNotPositive pyfloat
  | HoursOverLimit pyfloat pyfloat
  | CommandTooLong nat int
  | UnknownEnvironment string
  | NothingToCancel string job_state
  | QueueNotDrained nat
  | NoLocalPool
  | NoPrice string
  | TiersNeverUsed "string list"
  | BrokerText string

datatype config_problem =
    UnknownBackend string
  | NoBackends
  | NoPlacementOrder
  | UnknownCheckpointStore string
  | BucketMissing
  | SpotNeedsS3
  | IdleMinSamples
  | IdleThreshold
  | IdleGrace
  | CriticalAfterWarning
  | WeightsNegative
  | WeightsZero
  | Starvation
  | StartupNegative
  | LimitBelowOne string
  | AgeMaxNotPositive
  | HalfLifeNotPositive
  | NoGpuTypes
  | DuplicateGpuTypes
  | ConfigText string

datatype error =
    BrokerError broker_problem
  | ConfigError config_problem
  | MigrationError
  | IllegalTransition string job_state job_state
  | Unauthorized string
  | UnknownJob string
  | UnknownUser string
  | UnknownGpuType string "string list"
  | BackendError string
  | CheckpointError string
  | ValueError string
  | IntegrityError
  | OverflowError string
  | EnvironmentError string
  | PricingError string
  | AuthError string
  | TraceError string
  | AssertionError
  | PyException string string

subsection \<open>Users, jobs and the ledger\<close>

datatype ledger_kind = RESERVE | RELEASE | SETTLE | ABANDONED

record user =
  u_id :: string
  u_display_name :: string
  u_budget_usd :: decimal
  u_budget_gpu_hours :: decimal
  u_is_admin :: bool
  u_created_at :: moment
  u_suspended_at :: "moment option"
  u_suspended_reason :: string
  u_suspended_by :: string

definition is_suspended :: "user \<Rightarrow> bool" where
  "is_suspended u = (u_suspended_at u \<noteq> None)"

definition user_budget :: "user \<Rightarrow> currency \<Rightarrow> decimal" where
  "user_budget u cur = (if cur = USD then u_budget_usd u else u_budget_gpu_hours u)"

record job =
  j_id :: string
  j_user :: string
  j_command :: string
  j_gpu_type :: string
  j_requested_hours :: pyfloat
  j_currency :: currency
  j_reserved :: decimal
  j_state :: job_state
  j_submitted_at :: moment
  j_updated_at :: moment
  j_backend :: "string option"
  j_handle :: "string option"
  j_started_at :: "moment option"
  j_finished_at :: "moment option"
  j_exit_code :: "int option"
  j_refusal_reason :: "string option"
  j_logs_fetched :: nat
  j_attempts :: int
  j_preemptions :: int
  j_pinned_tier :: "string option"
  j_checkpoint_step :: "int option"
  j_checkpoint_key :: "string option"
  j_checkpoint_at :: "moment option"
  j_environment :: "string option"
  j_cancel_requested :: "string option"
  j_origin :: string

definition resumable :: "job \<Rightarrow> bool" where
  "resumable j = (j_checkpoint_key j \<noteq> None)"

definition is_terminal :: "job \<Rightarrow> bool" where
  "is_terminal j = (j_state j \<in> set TERMINAL)"

definition short_id :: "job \<Rightarrow> string" where
  "short_id j = take 8 (j_id j)"

definition wait_hours :: "job \<Rightarrow> moment \<Rightarrow> pyfloat" where
  "wait_hours j now =
     (let end = (case j_started_at j of Some t \<Rightarrow> t | None \<Rightarrow> now)
      in max 0 (hours_of (end - j_submitted_at j)))"

definition elapsed_hours :: "job \<Rightarrow> moment \<Rightarrow> pyfloat" where
  "elapsed_hours j now =
     (case j_started_at j of
        None \<Rightarrow> 0
      | Some s \<Rightarrow>
          (let end = (case j_finished_at j of Some t \<Rightarrow> t | None \<Rightarrow> now)
           in max 0 (hours_of (end - s))))"

record ledger_entry =
  l_job :: "string option"
  l_user :: "string option"
  l_currency :: currency
  l_kind :: ledger_kind
  l_amount :: decimal
  l_period :: string
  l_at :: moment
  l_note :: "string option"
  l_resource_handle :: "string option"

record balance =
  b_user :: string
  b_currency :: currency
  b_budget :: decimal
  b_held :: decimal
  b_spent :: decimal

definition b_committed :: "balance \<Rightarrow> decimal" where
  "b_committed b = b_held b + b_spent b"

definition b_available :: "balance \<Rightarrow> decimal" where
  "b_available b = b_budget b - b_committed b"

subsection \<open>Environments, samples, notifications, prices\<close>

record environment =
  e_name :: string
  e_base_image :: string
  e_python_version :: string
  e_requirements :: "string list"
  e_apt_packages :: "string list"
  e_owner :: string
  e_description :: string
  e_created_at :: "moment option"
  e_updated_at :: "moment option"

record build =
  bd_digest :: string
  bd_target :: string
  bd_state :: string
  bd_reference :: string
  bd_detail :: string
  bd_built_at :: moment

record sample =
  sm_at :: moment
  sm_gpu_percent :: pyfloat
  sm_memory_mb :: int
  sm_source :: string

record notification =
  n_id :: nat
  n_job :: "string option"
  n_user :: string
  n_kind :: string
  n_message :: string
  n_at :: moment
  n_seen_at :: "moment option"

record price =
  p_gpu_type :: string
  p_hourly :: decimal
  p_currency :: currency
  p_source :: string
  p_priced_at :: moment
  p_instance_type :: string
  p_region :: string

definition age_days :: "price \<Rightarrow> moment \<Rightarrow> pyfloat" where
  "age_days p now = max 0 (days_of (now - p_priced_at p))"

subsection \<open>Priorities, refusals and reports\<close>

record priority =
  pr_job :: string
  pr_user :: string
  pr_score :: pyfloat
  pr_fair_term :: pyfloat
  pr_age_term :: pyfloat
  pr_usage_share :: pyfloat
  pr_wait_hours :: pyfloat

datatype refusal_code =
    INVALID_BUDGET | JOB_CAP_EXCEEDED | QUEUE_DEPTH_EXCEEDED | USER_SUSPENDED | USER_BUDGET_EXCEEDED

record refusal =
  rf_code :: refusal_code
  rf_reason :: string
  rf_shortfall :: "decimal option"
  rf_currency :: "currency option"

record submit_result =
  sr_job :: job
  sr_refusal :: "refusal option"
  sr_warning :: "string option"

definition accepted :: "submit_result \<Rightarrow> bool" where
  "accepted r = (sr_refusal r = None)"

datatype drift_kind = UNTAGGED | ORPHAN | LOST

record drift =
  d_kind :: drift_kind
  d_backend :: string
  d_handle :: string
  d_job :: "string option"
  d_detail :: string

datatype action =
    DISPATCH | BLOCKED_POOL | BLOCKED_CAPACITY | BLOCKED_TENANT | BLOCKED_UNAUTHORIZED

record decision =
  dc_job :: job
  dc_action :: action
  dc_backend :: "string option"
  dc_detail :: string

record dry_run_plan =
  dp_at :: moment
  dp_decisions :: "decision list"
  dp_checks :: "(string \<times> string) list"
  dp_problems :: "(string \<times> string) list"

definition would_dispatch :: "dry_run_plan \<Rightarrow> decision list" where
  "would_dispatch p = filter (\<lambda>d. dc_action d = DISPATCH) (dp_decisions p)"

record tick_report =
  t_at :: moment
  t_dispatched :: "string list"
  t_completed :: "string list"
  t_failed :: "string list"
  t_settled :: "string list"
  t_blocked_on_pool_cap :: "string list"
  t_blocked_on_capacity :: "string list"
  t_blocked_on_tenant :: "string list"
  t_blocked_on_authorization :: "string list"
  t_stopped_at_ceiling :: "string list"

subsection \<open>Facts\<close>

lemma wait_hours_nonneg [simp]: "0 \<le> wait_hours j now"
  by (simp add: wait_hours_def Let_def)

lemma elapsed_hours_nonneg [simp]: "0 \<le> elapsed_hours j now"
  by (simp add: elapsed_hours_def Let_def split: option.splits)

lemma wait_hours_mono: "now \<le> now' \<Longrightarrow> wait_hours j now \<le> wait_hours j now'"
  by (auto simp: wait_hours_def Let_def hours_of_mono max.coboundedI2 split: option.splits)

lemma elapsed_hours_mono: "now \<le> now' \<Longrightarrow> elapsed_hours j now \<le> elapsed_hours j now'"
  by (auto simp: elapsed_hours_def Let_def hours_of_mono max.coboundedI2 split: option.splits)

end
