(* ===== verification/Config.thy ===== *)
theory Config
  imports Models
begin

text \<open>
  The tunables of \<^verbatim>\<open>gpu_broker/config.py\<close> that the modelled code reads, the lookups on them and
  \<open>validate\<close>, which the loader runs before anything else. The defaults are the source's. The
  time zone name is replaced by the zone's offset function; the nested AWS settings are
  represented by the region and the instance type map, the only parts the price book reads.
\<close>

record gpu_type =
  g_name :: string
  g_currency :: currency
  g_hourly_price :: decimal
  g_description :: string
  g_memory_mb :: int

record broker_config =
  c_timezone :: tz
  c_w_fair :: pyfloat
  c_w_age :: pyfloat
  c_age_max_hours :: pyfloat
  c_fairshare_window_days :: pyfloat
  c_fairshare_half_life_days :: pyfloat
  c_w_usd_share :: pyfloat
  c_w_gpu_hour_share :: pyfloat
  c_default_budget_usd :: decimal
  c_default_budget_gpu_hours :: decimal
  c_pool_budget_usd :: decimal
  c_pool_budget_gpu_hours :: decimal
  c_max_job_usd :: decimal
  c_max_job_gpu_hours :: decimal
  c_max_job_hours :: pyfloat
  c_max_command_bytes :: int
  c_max_queued_jobs_per_user :: int
  c_max_running_jobs_per_user :: int
  c_max_log_lines_per_job :: int
  c_max_log_line_bytes :: int
  c_startup_allowance_hours :: pyfloat
  c_gpu_types :: "gpu_type list"
  c_placement_order :: "string list"
  c_forecast_window_days :: pyfloat
  c_forecast_min_days :: pyfloat
  c_forecast_warning_days :: pyfloat
  c_forecast_critical_days :: pyfloat
  c_idle_threshold_percent :: pyfloat
  c_idle_window_minutes :: pyfloat
  c_idle_min_samples :: int
  c_idle_grace_minutes :: pyfloat
  c_idle_sample_interval_seconds :: pyfloat
  c_reclaim_enabled :: bool
  c_spot_max_preemptions_without_progress :: int
  c_checkpoint_store :: string
  c_checkpoint_bucket :: string
  c_backends :: "string list"
  c_region :: string
  c_instance_types :: "(string \<times> string) list"

definition DEFAULT_GPU_TYPES :: "gpu_type list" where
  "DEFAULT_GPU_TYPES =
    [\<lparr>g_name = ''t4'', g_currency = USD, g_hourly_price = 526/1000,
       g_description = ''g4dn.xlarge, 16GB'', g_memory_mb = 16384\<rparr>,
     \<lparr>g_name = ''a10g'', g_currency = USD, g_hourly_price = 1006/1000,
       g_description = ''g5.xlarge, 24GB'', g_memory_mb = 24576\<rparr>,
     \<lparr>g_name = ''l4'', g_currency = USD, g_hourly_price = 8048/10000,
       g_description = ''g6.xlarge, 24GB'', g_memory_mb = 24576\<rparr>,
     \<lparr>g_name = ''a100'', g_currency = USD, g_hourly_price = 410/100,
       g_description = ''p4d slice, 40GB'', g_memory_mb = 40960\<rparr>,
     \<lparr>g_name = ''a6000'', g_currency = GPU_HOUR, g_hourly_price = 1,
       g_description = ''lab machine, 48GB, free'', g_memory_mb = 49152\<rparr>]"

text \<open>The defaults of the dataclass, given a zone for its default time zone name.\<close>

definition default_config :: "tz \<Rightarrow> broker_config" where
  "default_config zone =
    \<lparr>c_timezone = zone, c_w_fair = 1/2, c_w_age = 1/2, c_age_max_hours = 12,
     c_fairshare_window_days = 30, c_fairshare_half_life_days = 14,
     c_w_usd_share = 7/10, c_w_gpu_hour_share = 3/10,
     c_default_budget_usd = 25, c_default_budget_gpu_hours = 8,
     c_pool_budget_usd = 500, c_pool_budget_gpu_hours = 400,
     c_max_job_usd = 50, c_max_job_gpu_hours = 24, c_max_job_hours = 24,
     c_max_command_bytes = 4096, c_max_queued_jobs_per_user = 32,
     c_max_running_jobs_per_user = 4, c_max_log_lines_per_job = 10000,
     c_max_log_line_bytes = 2000, c_startup_allowance_hours = 1/4,
     c_gpu_types = DEFAULT_GPU_TYPES, c_placement_order = [''local'', ''spot'', ''ondemand''],
     c_forecast_window_days = 30, c_forecast_min_days = 1/4, c_forecast_warning_days = 14,
     c_forecast_critical_days = 7, c_idle_threshold_percent = 5, c_idle_window_minutes = 10,
     c_idle_min_samples = 5, c_idle_grace_minutes = 15, c_idle_sample_interval_seconds = 60,
     c_reclaim_enabled = False, c_spot_max_preemptions_without_progress = 2,
     c_checkpoint_store = ''local'', c_checkpoint_bucket = '''', c_backends = [''fake''],
     c_region = ''us-west-2'',
     c_instance_types = [(''t4'', ''g4dn.xlarge''), (''a10g'', ''g5.xlarge''), (''l4'', ''g6.xlarge''), (''a100'', ''p4d.24xlarge'')]\<rparr>"

definition config_gpu :: "broker_config \<Rightarrow> string \<Rightarrow> (error, gpu_type) result" where
  "config_gpu cfg name =
     (case find (\<lambda>g. g_name g = name) (c_gpu_types cfg) of
        Some g \<Rightarrow> Inr g
      | None \<Rightarrow> Inl (UnknownGpuType name (map g_name (c_gpu_types cfg))))"

definition pool_budget :: "broker_config \<Rightarrow> currency \<Rightarrow> decimal" where
  "pool_budget cfg cur = (if cur = USD then c_pool_budget_usd cfg else c_pool_budget_gpu_hours cfg)"

definition max_job :: "broker_config \<Rightarrow> currency \<Rightarrow> decimal" where
  "max_job cfg cur = (if cur = USD then c_max_job_usd cfg else c_max_job_gpu_hours cfg)"

definition share_weight :: "broker_config \<Rightarrow> currency \<Rightarrow> pyfloat" where
  "share_weight cfg cur = (if cur = USD then c_w_usd_share cfg else c_w_gpu_hour_share cfg)"

definition limit_settings :: "broker_config \<Rightarrow> (string \<times> int) list" where
  "limit_settings cfg =
     [(''max_command_bytes'', c_max_command_bytes cfg),
      (''max_queued_jobs_per_user'', c_max_queued_jobs_per_user cfg),
      (''max_running_jobs_per_user'', c_max_running_jobs_per_user cfg),
      (''max_log_lines_per_job'', c_max_log_lines_per_job cfg),
      (''max_log_line_bytes'', c_max_log_line_bytes cfg)]"

text \<open>\<open>BrokerConfig.validate\<close>: a sequence of tests, each raising its own problem. The list holds
  the tests in the order of the source, the two loops unrolled; the first that fires is
  raised.\<close>

definition config_checks :: "broker_config \<Rightarrow> (bool \<times> config_problem) list" where
  "config_checks cfg =
     map (\<lambda>n. (n \<notin> {''fake'', ''ec2'', ''ec2-spot'', ''gce'', ''local''}, UnknownBackend n)) (c_backends cfg) @
     [(c_backends cfg = [], NoBackends),
      (c_placement_order cfg = [], NoPlacementOrder),
      (c_checkpoint_store cfg \<notin> {''local'', ''s3''}, UnknownCheckpointStore (c_checkpoint_store cfg)),
      (c_checkpoint_store cfg = ''s3'' \<and> c_checkpoint_bucket cfg = [], BucketMissing),
      (''ec2-spot'' \<in> set (c_backends cfg) \<and> c_checkpoint_store cfg \<noteq> ''s3'', SpotNeedsS3),
      (c_idle_min_samples cfg < 1, IdleMinSamples),
      (\<not> (0 \<le> c_idle_threshold_percent cfg \<and> c_idle_threshold_percent cfg \<le> 100), IdleThreshold),
      (c_idle_grace_minutes cfg < 0, IdleGrace),
      (c_forecast_critical_days cfg > c_forecast_warning_days cfg, CriticalAfterWarning),
      (c_w_fair cfg < 0 \<or> c_w_age cfg < 0, WeightsNegative),
      (c_w_fair cfg = 0 \<and> c_w_age cfg = 0, WeightsZero),
      (c_w_age cfg < c_w_fair cfg, Starvation),
      (c_startup_allowance_hours cfg < 0, StartupNegative)] @
     map (\<lambda>(n, v). (v < 1, LimitBelowOne n)) (limit_settings cfg) @
     [(c_age_max_hours cfg \<le> 0, AgeMaxNotPositive),
      (c_fairshare_half_life_days cfg \<le> 0, HalfLifeNotPositive),
      (c_gpu_types cfg = [], NoGpuTypes),
      (\<not> distinct (map g_name (c_gpu_types cfg)), DuplicateGpuTypes)]"

definition validate_config :: "broker_config \<Rightarrow> (error, unit) result" where
  "validate_config cfg =
     (case find fst (config_checks cfg) of
        Some (_, problem) \<Rightarrow> Inl (ConfigError problem)
      | None \<Rightarrow> Inr ())"

subsection \<open>What a validated configuration guarantees\<close>

definition valid_config :: "broker_config \<Rightarrow> bool" where
  "valid_config cfg \<longleftrightarrow> validate_config cfg = Inr ()"

lemma valid_config_iff: "valid_config cfg \<longleftrightarrow> list_all (\<lambda>c. \<not> fst c) (config_checks cfg)"
  unfolding valid_config_def validate_config_def list_all_iff
  by (auto split: option.splits simp: find_None_iff dest: find_Some_set)

lemma valid_config_facts:
  assumes "valid_config cfg"
  shows "c_backends cfg \<noteq> []" "c_placement_order cfg \<noteq> []" "1 \<le> c_idle_min_samples cfg"
    "0 \<le> c_w_fair cfg" "0 \<le> c_w_age cfg" "\<not> (c_w_fair cfg = 0 \<and> c_w_age cfg = 0)"
    "c_w_fair cfg \<le> c_w_age cfg" "0 \<le> c_startup_allowance_hours cfg"
    "0 < c_age_max_hours cfg" "0 < c_fairshare_half_life_days cfg" "c_gpu_types cfg \<noteq> []"
    "distinct (map g_name (c_gpu_types cfg))" "0 \<le> c_idle_grace_minutes cfg"
    "c_forecast_critical_days cfg \<le> c_forecast_warning_days cfg"
  using assms unfolding valid_config_iff config_checks_def by simp_all

lemma valid_config_w_age: "valid_config cfg \<Longrightarrow> 0 < c_w_age cfg"
  using valid_config_facts(4-7) [of cfg] by linarith

lemma valid_config_limits:
  assumes "valid_config cfg"
  shows "1 \<le> c_max_command_bytes cfg" "1 \<le> c_max_queued_jobs_per_user cfg"
    "1 \<le> c_max_running_jobs_per_user cfg" "1 \<le> c_max_log_lines_per_job cfg"
    "1 \<le> c_max_log_line_bytes cfg"
  using assms unfolding valid_config_iff config_checks_def limit_settings_def by simp_all

lemma config_gpu_name: "config_gpu cfg n = Inr g \<Longrightarrow> g \<in> set (c_gpu_types cfg) \<and> g_name g = n"
  by (auto simp: config_gpu_def split: option.splits dest: find_Some_set)

lemma default_config_valid: "valid_config (default_config zone)"
  by (simp add: valid_config_iff config_checks_def default_config_def limit_settings_def
      DEFAULT_GPU_TYPES_def)

lemma default_config_simps [simp]:
  "c_age_max_hours (default_config z) = 12" "c_w_fair (default_config z) = 1/2" "c_w_age (default_config z) = 1/2"
  "c_w_usd_share (default_config z) = 7/10" "c_w_gpu_hour_share (default_config z) = 3/10"
  "c_fairshare_window_days (default_config z) = 30" "c_fairshare_half_life_days (default_config z) = 14"
  "c_placement_order (default_config z) = [''local'', ''spot'', ''ondemand'']"
  "c_max_running_jobs_per_user (default_config z) = 4" "c_gpu_types (default_config z) = DEFAULT_GPU_TYPES"
  "c_timezone (default_config z) = z" "pool_budget (default_config z) USD = 500"
  "pool_budget (default_config z) GPU_HOUR = 400"
  by (simp_all add: default_config_def pool_budget_def)

end
