(* ===== verification/Store.thy ===== *)
theory Store
  imports Config
begin

text \<open>
  \<^verbatim>\<open>gpu_broker/store.py\<close>, the only module that writes SQL. A \<open>store\<close> is the content of the
  database together with the clock's current time and the configuration, which the Python
  object holds beside its connection. Each table is the list of its rows in insertion order.
  A method that runs one transaction is one function from store to store; a method that can
  raise returns a sum, and on \<^const>\<open>Inl\<close> nothing was written. Timestamps are stored as text of
  fixed width in UTC, so SQL's order on them is the order of moments, which the model uses.
  Constraints of the schema that callers can run into are checked (the primary key, the check on
  hours and the owner of \<open>jobs\<close>, the unique pair of backend and handle); the foreign keys of the
  append-only tables always hold because job rows are never deleted.
\<close>

record ledger_write =
  w_kind :: ledger_kind
  w_amount :: decimal
  w_currency :: currency
  w_note :: "string option"

record transition_row =
  tr_job :: string
  tr_from :: "job_state option"
  tr_to :: job_state
  tr_at :: moment
  tr_reason :: "string option"

record log_row =
  lg_id :: nat
  lg_job :: string
  lg_at :: moment
  lg_stream :: string
  lg_line :: string

record observation_row =
  ob_job :: string
  ob_at :: moment
  ob_decision :: action
  ob_resource_class :: string
  ob_requested_memory_mb :: int
  ob_backend :: "string option"
  ob_tier :: "string option"
  ob_detail :: string

record drain_row =
  dr_hostname :: string
  dr_reason :: string
  dr_at :: moment
  dr_by :: string

record metric_row =
  mt_name :: string
  mt_at :: moment
  mt_value :: pyfloat
  mt_labels :: string

record baseline_row =
  bl_period :: string
  bl_instance_hours :: pyfloat
  bl_dollars :: decimal
  bl_source :: string
  bl_recorded_at :: moment

record store =
  st_now :: moment
  st_cfg :: broker_config
  st_users :: "user list"
  st_jobs :: "job list"
  st_transitions :: "transition_row list"
  st_ledger :: "ledger_entry list"
  st_logs :: "log_row list"
  st_observations :: "observation_row list"
  st_samples :: "(string \<times> sample) list"
  st_notifications :: "notification list"
  st_prices :: "price list"
  st_drains :: "drain_row list"
  st_environments :: "environment list"
  st_metrics :: "metric_row list"
  st_builds :: "build list"
  st_baseline :: "baseline_row list"

definition empty_store :: "moment \<Rightarrow> broker_config \<Rightarrow> store" where
  "empty_store now cfg =
     \<lparr>st_now = now, st_cfg = cfg, st_users = [], st_jobs = [], st_transitions = [], st_ledger = [],
      st_logs = [], st_observations = [], st_samples = [], st_notifications = [], st_prices = [],
      st_drains = [], st_environments = [], st_metrics = [], st_builds = [], st_baseline = []\<rparr>"

subsection \<open>Users\<close>

definition maybe_user :: "store \<Rightarrow> string \<Rightarrow> user option" where
  "maybe_user st uid = find (\<lambda>u. u_id u = uid) (st_users st)"

definition get_user :: "store \<Rightarrow> string \<Rightarrow> (error, user) result" where
  "get_user st uid = (case maybe_user st uid of None \<Rightarrow> Inl (UnknownUser uid) | Some u \<Rightarrow> Inr u)"

definition list_users :: "store \<Rightarrow> user list" where
  "list_users st = sort_key u_id (st_users st)"

definition has_admins :: "store \<Rightarrow> bool" where
  "has_admins st = list_ex u_is_admin (st_users st)"

definition update_users :: "string \<Rightarrow> (user \<Rightarrow> user) \<Rightarrow> store \<Rightarrow> store" where
  "update_users uid f st = st\<lparr>st_users := map (\<lambda>u. if u_id u = uid then f u else u) (st_users st)\<rparr>"

text \<open>Create the user, or update only the fields given. \<open>display_name or x\<close> ignores an empty
  name; the suspension columns are carried over.\<close>

definition upsert_user ::
  "store \<Rightarrow> string \<Rightarrow> string option \<Rightarrow> decimal option \<Rightarrow> decimal option \<Rightarrow> bool option \<Rightarrow> user \<times> store"
where
  "upsert_user st uid display_name budget_usd budget_gpu_hours is_admin =
     (case maybe_user st uid of
        None \<Rightarrow>
          (let u = \<lparr>u_id = uid,
                u_display_name = (if truthy display_name then the display_name else uid),
                u_budget_usd = (case budget_usd of Some b \<Rightarrow> b | None \<Rightarrow> c_default_budget_usd (st_cfg st)),
                u_budget_gpu_hours =
                  (case budget_gpu_hours of Some b \<Rightarrow> b | None \<Rightarrow> c_default_budget_gpu_hours (st_cfg st)),
                u_is_admin = (is_admin = Some True),
                u_created_at = st_now st,
                u_suspended_at = None, u_suspended_reason = '''', u_suspended_by = ''''\<rparr>
           in (u, st\<lparr>st_users := st_users st @ [u]\<rparr>))
      | Some old \<Rightarrow>
          (let u = old\<lparr>
                u_display_name := (if truthy display_name then the display_name else u_display_name old),
                u_budget_usd := (case budget_usd of Some b \<Rightarrow> b | None \<Rightarrow> u_budget_usd old),
                u_budget_gpu_hours :=
                  (case budget_gpu_hours of Some b \<Rightarrow> b | None \<Rightarrow> u_budget_gpu_hours old),
                u_is_admin := (case is_admin of None \<Rightarrow> u_is_admin old | Some b \<Rightarrow> b)\<rparr>
           in (u, update_users uid
                    (\<lambda>r. r\<lparr>u_display_name := u_display_name u, u_budget_usd := u_budget_usd u,
                           u_budget_gpu_hours := u_budget_gpu_hours u, u_is_admin := u_is_admin u\<rparr>) st)))"

definition suspend_user :: "store \<Rightarrow> string \<Rightarrow> string \<Rightarrow> string \<Rightarrow> (error, user \<times> store) result" where
  "suspend_user st uid reason actor =
     (case get_user st uid of
        Inl e \<Rightarrow> Inl e
      | Inr _ \<Rightarrow>
          (let st' = update_users uid (\<lambda>u. u\<lparr>u_suspended_at := Some (st_now st),
                 u_suspended_reason := reason, u_suspended_by := actor\<rparr>) st
           in case get_user st' uid of Inl e \<Rightarrow> Inl e | Inr u \<Rightarrow> Inr (u, st')))"

definition restore_user :: "store \<Rightarrow> string \<Rightarrow> (error, user \<times> store) result" where
  "restore_user st uid =
     (case get_user st uid of
        Inl e \<Rightarrow> Inl e
      | Inr _ \<Rightarrow>
          (let st' = update_users uid (\<lambda>u. u\<lparr>u_suspended_at := None,
                 u_suspended_reason := '''', u_suspended_by := ''''\<rparr>) st
           in case get_user st' uid of Inl e \<Rightarrow> Inl e | Inr u \<Rightarrow> Inr (u, st')))"

text \<open>The dictionary of suspended users and their reasons.\<close>

definition suspended_users :: "store \<Rightarrow> (string \<times> string) list" where
  "suspended_users st =
     map (\<lambda>u. (u_id u, u_suspended_reason u)) (filter (\<lambda>u. u_suspended_at u \<noteq> None) (st_users st))"

subsection \<open>Scheduling observations\<close>

definition latest_observation :: "store \<Rightarrow> string \<Rightarrow> observation_row option" where
  "latest_observation st jid =
     (case rev (filter (\<lambda>o1. ob_job o1 = jid) (st_observations st)) of [] \<Rightarrow> None | o1 # _ \<Rightarrow> Some o1)"

definition record_schedule_observation ::
  "store \<Rightarrow> string \<Rightarrow> action \<Rightarrow> string \<Rightarrow> int \<Rightarrow> string option \<Rightarrow> string option \<Rightarrow> string \<Rightarrow> store"
where
  "record_schedule_observation st jid decision resource_class memory backend tier detail =
     (let same = (case latest_observation st jid of
                    None \<Rightarrow> False
                  | Some o1 \<Rightarrow> ob_decision o1 = decision \<and> ob_backend o1 = backend \<and>
                      ob_tier o1 = tier \<and> ob_detail o1 = detail)
      in if decision \<noteq> DISPATCH \<and> same then st
         else st\<lparr>st_observations := st_observations st @
                [\<lparr>ob_job = jid, ob_at = st_now st, ob_decision = decision,
                  ob_resource_class = resource_class, ob_requested_memory_mb = max 0 memory,
                  ob_backend = backend, ob_tier = tier, ob_detail = detail\<rparr>]\<rparr>)"

definition delete_schedule_observations_before :: "store \<Rightarrow> moment \<Rightarrow> nat \<times> store" where
  "delete_schedule_observations_before st cutoff =
     (length (filter (\<lambda>o1. ob_at o1 < cutoff) (st_observations st)),
      st\<lparr>st_observations := filter (\<lambda>o1. \<not> ob_at o1 < cutoff) (st_observations st)\<rparr>)"

subsection \<open>Reading jobs\<close>

definition get_job :: "store \<Rightarrow> string \<Rightarrow> (error, job) result" where
  "get_job st jid =
     (case find (\<lambda>j. j_id j = jid) (st_jobs st) of None \<Rightarrow> Inl (UnknownJob jid) | Some j \<Rightarrow> Inr j)"

text \<open>SQL's LIKE: \<open>%\<close> stands for any string, \<open>_\<close> for any character, ASCII letters compare
  without case.\<close>

definition ascii_lower :: "char \<Rightarrow> char" where
  "ascii_lower c =
     (let n = of_char c :: nat in if 65 \<le> n \<and> n \<le> 90 then char_of (n + 32) else c)"

fun sql_like :: "string \<Rightarrow> string \<Rightarrow> bool" where
  "sql_like [] s = (s = [])"
| "sql_like (p # ps) [] = (p = CHR ''%'' \<and> sql_like ps [])"
| "sql_like (p # ps) (c # s) =
     (if p = CHR ''%'' then sql_like ps (c # s) \<or> sql_like (p # ps) s
      else (p = CHR ''_'' \<or> ascii_lower p = ascii_lower c) \<and> sql_like ps s)"

text \<open>A job by an unambiguous prefix of its id.\<close>

definition find_job :: "store \<Rightarrow> string \<Rightarrow> (error, job) result" where
  "find_job st prefix =
     (case filter (\<lambda>j. sql_like (prefix @ ''%'') (j_id j)) (st_jobs st) of
        [] \<Rightarrow> Inl (UnknownJob prefix)
      | [j] \<Rightarrow> Inr j
      | _ \<Rightarrow> Inl (UnknownJob prefix))"

definition job_order :: "job \<Rightarrow> moment \<times> string" where
  "job_order j = (j_submitted_at j, j_id j)"

text \<open>\<open>list_jobs\<close>: filters conjoined, ordered by submission time and id, then limited.\<close>

definition list_jobs ::
  "store \<Rightarrow> string option \<Rightarrow> job_state list option \<Rightarrow> nat option \<Rightarrow> job list"
where
  "list_jobs st uid states limit =
     (if states = Some [] then []
      else
        (let rows = filter (\<lambda>j. (truthy uid \<longrightarrow> Some (j_user j) = uid) \<and>
                      (case states of None \<Rightarrow> True | Some ss \<Rightarrow> j_state j \<in> set ss)) (st_jobs st);
             ordered = sort_key job_order rows
         in case limit of None \<Rightarrow> ordered | Some n \<Rightarrow> take n ordered))"

definition queued_jobs :: "store \<Rightarrow> job list" where
  "queued_jobs st = list_jobs st None (Some [QUEUED]) None"

definition active_jobs :: "store \<Rightarrow> job list" where
  "active_jobs st = list_jobs st None (Some ACTIVE) None"

definition count_in_states :: "store \<Rightarrow> string \<Rightarrow> job_state list \<Rightarrow> int" where
  "count_in_states st uid states =
     int (length (filter (\<lambda>j. j_user j = uid \<and> j_state j \<in> set states) (st_jobs st)))"

definition queued_count :: "store \<Rightarrow> string \<Rightarrow> int" where
  "queued_count st uid = count_in_states st uid [QUEUED]"

definition running_count :: "store \<Rightarrow> string \<Rightarrow> int" where
  "running_count st uid = count_in_states st uid ACTIVE"

definition history :: "store \<Rightarrow> string \<Rightarrow> transition_row list" where
  "history st jid = filter (\<lambda>t. tr_job t = jid) (st_transitions st)"

subsection \<open>The ledger\<close>

fun aggregate_row :: "decimal \<times> decimal \<Rightarrow> ledger_entry \<Rightarrow> decimal \<times> decimal" where
  "aggregate_row (held, spent) e =
     (case l_kind e of
        RESERVE \<Rightarrow> (held + l_amount e, spent)
      | RELEASE \<Rightarrow> (held - l_amount e, spent)
      | _ \<Rightarrow> (held, spent + l_amount e))"

definition aggregate :: "ledger_entry list \<Rightarrow> decimal \<times> decimal" where
  "aggregate rows = foldl aggregate_row (0, 0) rows"

definition period_now :: "store \<Rightarrow> string" where
  "period_now st = billing_period (st_now st) (c_timezone (st_cfg st))"

text \<open>\<open>balance(user, currency, period)\<close>; an absent period is the current one.\<close>

definition balance_in :: "store \<Rightarrow> string \<Rightarrow> currency \<Rightarrow> string \<Rightarrow> (error, balance) result" where
  "balance_in st uid cur period =
     (case get_user st uid of
        Inl e \<Rightarrow> Inl e
      | Inr u \<Rightarrow>
          (let (held, spent) = aggregate (filter (\<lambda>e. l_user e = Some uid \<and> l_currency e = cur \<and>
                 l_period e = period) (st_ledger st))
           in Inr \<lparr>b_user = uid, b_currency = cur, b_budget = user_budget u cur,
                   b_held = held, b_spent = spent\<rparr>))"

definition user_balance :: "store \<Rightarrow> string \<Rightarrow> currency \<Rightarrow> (error, balance) result" where
  "user_balance st uid cur = balance_in st uid cur (period_now st)"

definition pool_balance_in :: "store \<Rightarrow> currency \<Rightarrow> string \<Rightarrow> balance" where
  "pool_balance_in st cur period =
     (let (held, spent) = aggregate (filter (\<lambda>e. l_currency e = cur \<and> l_period e = period) (st_ledger st))
      in \<lparr>b_user = ''<pool>'', b_currency = cur, b_budget = pool_budget (st_cfg st) cur,
          b_held = held, b_spent = spent\<rparr>)"

definition pool_balance :: "store \<Rightarrow> currency \<Rightarrow> balance" where
  "pool_balance st cur = pool_balance_in st cur (period_now st)"

definition job_holding :: "store \<Rightarrow> string \<Rightarrow> currency \<Rightarrow> decimal" where
  "job_holding st jid cur =
     fst (aggregate (filter (\<lambda>e. l_job e = Some jid \<and> l_currency e = cur) (st_ledger st)))"

definition job_spend :: "store \<Rightarrow> string \<Rightarrow> decimal" where
  "job_spend st jid = snd (aggregate (filter (\<lambda>e. l_job e = Some jid) (st_ledger st)))"

definition pool_committed :: "store \<Rightarrow> currency \<Rightarrow> decimal" where
  "pool_committed st cur =
     (let spent = snd (aggregate (filter (\<lambda>e. l_currency e = cur \<and> l_period e = period_now st) (st_ledger st)));
          active_holds = foldl (\<lambda>acc j. if j_currency j = cur then acc + job_holding st (j_id j) cur else acc)
                           0 (active_jobs st)
      in spent + active_holds)"

definition pool_headroom :: "store \<Rightarrow> currency \<Rightarrow> decimal" where
  "pool_headroom st cur = pool_budget (st_cfg st) cur - pool_committed st cur"

definition settlements_since :: "store \<Rightarrow> moment \<Rightarrow> currency \<Rightarrow> (string option \<times> decimal \<times> moment) list" where
  "settlements_since st cutoff cur =
     map (\<lambda>e. (l_user e, l_amount e, l_at e))
       (sort_key l_at (filter (\<lambda>e. l_kind e = SETTLE \<and> l_currency e = cur \<and> cutoff \<le> l_at e) (st_ledger st)))"

definition ledger_for_job :: "store \<Rightarrow> string \<Rightarrow> ledger_entry list" where
  "ledger_for_job st jid = filter (\<lambda>e. l_job e = Some jid) (st_ledger st)"

subsection \<open>Writing rows\<close>

text \<open>\<open>_insert_job\<close>, with the constraints of the \<open>jobs\<close> table.\<close>

definition insert_job :: "store \<Rightarrow> job \<Rightarrow> (error, store) result" where
  "insert_job st j =
     (if j_id j \<in> j_id ` set (st_jobs st) \<or> \<not> 0 < j_requested_hours j \<or> maybe_user st (j_user j) = None
      then Inl IntegrityError
      else Inr (st\<lparr>st_jobs := st_jobs st @ [j]\<rparr>))"

definition insert_transition ::
  "store \<Rightarrow> string \<Rightarrow> job_state option \<Rightarrow> job_state \<Rightarrow> moment \<Rightarrow> string option \<Rightarrow> store"
where
  "insert_transition st jid from_state to_state stamp reason =
     st\<lparr>st_transitions := st_transitions st @
        [\<lparr>tr_job = jid, tr_from = from_state, tr_to = to_state, tr_at = stamp, tr_reason = reason\<rparr>]\<rparr>"

definition insert_ledger ::
  "store \<Rightarrow> string option \<Rightarrow> string option \<Rightarrow> currency \<Rightarrow> ledger_kind \<Rightarrow> decimal \<Rightarrow> moment \<Rightarrow> string option \<Rightarrow>
   string option \<Rightarrow> store"
where
  "insert_ledger st jid uid cur kind amount stamp note handle =
     st\<lparr>st_ledger := st_ledger st @
        [\<lparr>l_job = jid, l_user = uid, l_currency = cur, l_kind = kind, l_amount = quantize amount cur,
          l_period = billing_period stamp (c_timezone (st_cfg st)), l_at = stamp, l_note = note,
          l_resource_handle = handle\<rparr>]\<rparr>"

text \<open>\<open>UPDATE jobs SET ... WHERE job_id = ?\<close>.\<close>

definition update_job :: "string \<Rightarrow> (job \<Rightarrow> job) \<Rightarrow> store \<Rightarrow> store" where
  "update_job jid f st = st\<lparr>st_jobs := map (\<lambda>j. if j_id j = jid then f j else j) (st_jobs st)\<rparr>"

subsection \<open>Admitting and refusing\<close>

text \<open>A fresh job object. \<open>fresh\<close> is the id the uuid generator returns.\<close>

definition new_job ::
  "string \<Rightarrow> string \<Rightarrow> string \<Rightarrow> string \<Rightarrow> pyfloat \<Rightarrow> currency \<Rightarrow> decimal \<Rightarrow> job_state \<Rightarrow> moment \<Rightarrow> string option \<Rightarrow>
   string \<Rightarrow> job"
where
  "new_job jid uid command gpu hours cur reserved state now env origin =
     \<lparr>j_id = jid, j_user = uid, j_command = command, j_gpu_type = gpu, j_requested_hours = hours,
      j_currency = cur, j_reserved = quantize reserved cur, j_state = state, j_submitted_at = now,
      j_updated_at = now, j_backend = None, j_handle = None, j_started_at = None, j_finished_at = None,
      j_exit_code = None, j_refusal_reason = None, j_logs_fetched = 0, j_attempts = 0,
      j_preemptions = 0, j_pinned_tier = None, j_checkpoint_step = None, j_checkpoint_key = None,
      j_checkpoint_at = None, j_environment = env, j_cancel_requested = None, j_origin = origin\<rparr>"

definition create_job ::
  "store \<Rightarrow> string \<Rightarrow> string \<Rightarrow> string \<Rightarrow> string \<Rightarrow> pyfloat \<Rightarrow> currency \<Rightarrow> decimal \<Rightarrow> string option \<Rightarrow> string option \<Rightarrow>
   string \<Rightarrow> (error, job \<times> store) result"
where
  "create_job st fresh uid command gpu hours cur reserved job_id env origin =
     (case get_user st uid of
        Inl e \<Rightarrow> Inl e
      | Inr _ \<Rightarrow>
          (let now = st_now st;
               j = new_job (the (py_or job_id (Some fresh))) uid command gpu hours cur reserved QUEUED now env origin
           in case insert_job st j of
                Inl e \<Rightarrow> Inl e
              | Inr st1 \<Rightarrow>
                  (let st2 = insert_transition st1 (j_id j) None QUEUED now (Some ''submitted'');
                       st3 = (if j_reserved j > 0
                              then insert_ledger st2 (Some (j_id j)) (Some uid) cur RESERVE (j_reserved j) now
                                     (Some ''admission hold'') None
                              else st2)
                   in Inr (j, st3))))"

definition record_refusal ::
  "store \<Rightarrow> string \<Rightarrow> string \<Rightarrow> string \<Rightarrow> string \<Rightarrow> pyfloat \<Rightarrow> currency \<Rightarrow> decimal \<Rightarrow> string \<Rightarrow> string \<Rightarrow>
   (error, job \<times> store) result"
where
  "record_refusal st fresh uid command gpu hours cur reserved reason origin =
     (let now = st_now st;
          j = (new_job fresh uid command gpu hours cur reserved REFUSED now None origin)
                \<lparr>j_finished_at := Some now, j_refusal_reason := Some reason\<rparr>
      in case insert_job st j of
           Inl e \<Rightarrow> Inl e
         | Inr st1 \<Rightarrow> Inr (j, insert_transition st1 (j_id j) None REFUSED now (Some reason)))"

subsection \<open>State transitions\<close>

definition msg_unused_hold :: "job_state \<Rightarrow> string" where
  "msg_unused_hold s =
     ''unused hold returned on '' @
     (case s of QUEUED \<Rightarrow> ''queued'' | ALLOCATING \<Rightarrow> ''allocating'' | RUNNING \<Rightarrow> ''running''
        | COMPLETED \<Rightarrow> ''completed'' | FAILED \<Rightarrow> ''failed'' | CANCELLED \<Rightarrow> ''cancelled''
        | REFUSED \<Rightarrow> ''refused'' | CHECKPOINTING \<Rightarrow> ''checkpointing'' | PREEMPTED \<Rightarrow> ''preempted''
        | RESUMING \<Rightarrow> ''resuming'' | RECLAIMED \<Rightarrow> ''reclaimed'') @ '' -> terminal''"

fun outstanding_after :: "currency \<Rightarrow> decimal \<Rightarrow> ledger_write list \<Rightarrow> decimal" where
  "outstanding_after cur out [] = out"
| "outstanding_after cur out (w # ws) =
     outstanding_after cur
       (if w_currency w \<noteq> cur then out
        else case w_kind w of
               RESERVE \<Rightarrow> out + w_amount w
             | RELEASE \<Rightarrow> out - w_amount w
             | SETTLE \<Rightarrow> out - w_amount w
             | ABANDONED \<Rightarrow> out) ws"

definition release_remaining_hold :: "store \<Rightarrow> job \<Rightarrow> ledger_write list \<Rightarrow> ledger_write list" where
  "release_remaining_hold st j extra =
     (let outstanding = outstanding_after (j_currency j) (job_holding st (j_id j) (j_currency j)) extra
      in if outstanding \<le> 0 then []
         else [\<lparr>w_kind = RELEASE, w_amount = quantize outstanding (j_currency j),
                w_currency = j_currency j, w_note = Some (msg_unused_hold (j_state j))\<rparr>])"

text \<open>The job object \<open>transition\<close> returns. It is built field by field and leaves out \<open>origin\<close>,
  which therefore gets the dataclass default.\<close>

definition transitioned ::
  "job \<Rightarrow> job_state \<Rightarrow> moment \<Rightarrow> string option \<Rightarrow> string option \<Rightarrow> int option \<Rightarrow> bool \<Rightarrow> job"
where
  "transitioned cur to_state now backend handle exit_code clear_handle =
     cur\<lparr>j_state := to_state, j_updated_at := now,
         j_backend := py_or backend (j_backend cur),
         j_handle := (if clear_handle then None else py_or handle (j_handle cur)),
         j_started_at := (if to_state \<in> set ACTIVE \<and> j_started_at cur = None then Some now else j_started_at cur),
         j_finished_at := (if to_state \<in> set TERMINAL then Some now else j_finished_at cur),
         j_exit_code := (if exit_code \<noteq> None then exit_code else j_exit_code cur),
         j_origin := ''real''\<rparr>"

definition handle_taken :: "store \<Rightarrow> job \<Rightarrow> bool" where
  "handle_taken st j =
     (j_handle j \<noteq> None \<and> j_backend j \<noteq> None \<and>
      list_ex (\<lambda>r. j_id r \<noteq> j_id j \<and> j_backend r = j_backend j \<and> j_handle r = j_handle j) (st_jobs st))"

definition apply_transition_row :: "job \<Rightarrow> job \<Rightarrow> job" where
  "apply_transition_row u r =
     r\<lparr>j_state := j_state u, j_updated_at := j_updated_at u, j_backend := j_backend u,
       j_handle := j_handle u, j_started_at := j_started_at u, j_finished_at := j_finished_at u,
       j_exit_code := j_exit_code u\<rparr>"

definition write_ledger :: "string \<Rightarrow> string \<Rightarrow> moment \<Rightarrow> ledger_write list \<Rightarrow> store \<Rightarrow> store" where
  "write_ledger jid uid now ws st =
     foldl (\<lambda>s w. insert_ledger s (Some jid) (Some uid) (w_currency w) (w_kind w) (w_amount w) now (w_note w) None)
       st ws"

definition transition ::
  "store \<Rightarrow> job \<Rightarrow> job_state \<Rightarrow> string option \<Rightarrow> ledger_write list \<Rightarrow> string option \<Rightarrow> string option \<Rightarrow>
   int option \<Rightarrow> bool \<Rightarrow> (error, job \<times> store) result"
where
  "transition st cur to_state reason ledger backend handle exit_code clear_handle =
     (if \<not> can_transition (j_state cur) to_state
      then Inl (IllegalTransition (j_id cur) (j_state cur) to_state)
      else
        (let now = st_now st;
             writes = ledger @ (if to_state \<in> set TERMINAL then release_remaining_hold st cur ledger else []);
             updated = transitioned cur to_state now backend handle exit_code clear_handle;
             matching = filter (\<lambda>r. j_id r = j_id cur \<and> j_state r = j_state cur) (st_jobs st)
         in if matching \<noteq> [] \<and> handle_taken st updated then Inl IntegrityError
            else if length matching \<noteq> 1
            then Inl (IllegalTransition (j_id cur) (j_state cur) to_state)
            else Inr (updated,
                   write_ledger (j_id cur) (j_user cur) now writes
                     (insert_transition
                       (st\<lparr>st_jobs := map (\<lambda>r. if j_id r = j_id cur \<and> j_state r = j_state cur
                                               then apply_transition_row updated r else r) (st_jobs st)\<rparr>)
                       (j_id cur) (Some (j_state cur)) to_state now reason))))"

subsection \<open>Settling\<close>

definition settle :: "store \<Rightarrow> job \<Rightarrow> decimal \<Rightarrow> string option \<Rightarrow> store" where
  "settle st j amount0 note =
     (let amount = quantize amount0 (j_currency j); now = st_now st
      in if amount \<le> 0 then st
         else
           (let st1 = insert_ledger st (Some (j_id j)) (Some (j_user j)) (j_currency j) SETTLE amount now
                        (py_or note (Some ''accrued'')) None;
                st2 = insert_ledger st1 (Some (j_id j)) (Some (j_user j)) (j_currency j) RELEASE amount now
                        (Some ''hold converted to spend'') None
            in update_job (j_id j) (\<lambda>r. r\<lparr>j_updated_at := now\<rparr>) st2))"

definition abandoned_for_handle :: "store \<Rightarrow> string \<Rightarrow> currency \<Rightarrow> decimal" where
  "abandoned_for_handle st handle cur =
     (\<Sum>e\<leftarrow>filter (\<lambda>e. l_resource_handle e = Some handle \<and> l_currency e = cur \<and> l_kind e = ABANDONED)
        (st_ledger st). l_amount e)"

definition record_abandoned ::
  "store \<Rightarrow> string \<Rightarrow> string option \<Rightarrow> string option \<Rightarrow> currency \<Rightarrow> decimal \<Rightarrow> string \<Rightarrow> decimal \<times> store"
where
  "record_abandoned st handle jid uid cur burned note =
     (let already = abandoned_for_handle st handle cur;
          delta = quantize (money burned - already) cur
      in if delta \<le> 0 then (0, st)
         else
           (let known = (if truthy jid \<and> the jid \<in> j_id ` set (st_jobs st) then jid else None);
                owner = (if truthy uid \<and> the uid \<in> u_id ` set (st_users st) then uid else None)
            in (delta, insert_ledger st known owner cur ABANDONED delta (st_now st) (Some note) (Some handle))))"

definition abandoned_entries :: "store \<Rightarrow> currency \<Rightarrow> ledger_entry list" where
  "abandoned_entries st cur = filter (\<lambda>e. l_kind e = ABANDONED \<and> l_currency e = cur) (st_ledger st)"

subsection \<open>Cancel requests and resumption\<close>

definition append_row :: "string \<Rightarrow> moment \<Rightarrow> string \<Rightarrow> string \<Rightarrow> store \<Rightarrow> store" where
  "append_row jid stamp stream line st =
     st\<lparr>st_logs := st_logs st @ [\<lparr>lg_id = length (st_logs st) + 1, lg_job = jid, lg_at = stamp,
          lg_stream = stream, lg_line = line\<rparr>]\<rparr>"

definition append_rows :: "string \<Rightarrow> moment \<Rightarrow> (string \<times> string) list \<Rightarrow> store \<Rightarrow> store" where
  "append_rows jid stamp lines st = foldl (\<lambda>s (stream, line). append_row jid stamp stream line s) st lines"

definition request_cancel :: "store \<Rightarrow> job \<Rightarrow> string \<Rightarrow> job \<times> store" where
  "request_cancel st j actor =
     (let now = st_now st;
          st1 = update_job (j_id j) (\<lambda>r. r\<lparr>j_cancel_requested := Some actor, j_updated_at := now\<rparr>) st;
          st2 = append_row (j_id j) now ''broker'' (''cancel requested by '' @ actor) st1
      in (j\<lparr>j_cancel_requested := Some actor, j_updated_at := now\<rparr>, st2))"

definition record_attempt :: "store \<Rightarrow> job \<Rightarrow> job \<times> store" where
  "record_attempt st j =
     (let now = st_now st
      in (j\<lparr>j_attempts := j_attempts j + 1, j_updated_at := now\<rparr>,
          update_job (j_id j) (\<lambda>r. r\<lparr>j_attempts := j_attempts r + 1, j_updated_at := now\<rparr>) st))"

definition record_preemption :: "store \<Rightarrow> job \<Rightarrow> job \<times> store" where
  "record_preemption st j =
     (let now = st_now st
      in (j\<lparr>j_preemptions := j_preemptions j + 1, j_updated_at := now\<rparr>,
          update_job (j_id j) (\<lambda>r. r\<lparr>j_preemptions := j_preemptions r + 1, j_updated_at := now\<rparr>) st))"

definition record_checkpoint :: "store \<Rightarrow> job \<Rightarrow> int \<Rightarrow> string \<Rightarrow> job \<times> store" where
  "record_checkpoint st j step key =
     (let now = st_now st
      in (j\<lparr>j_checkpoint_step := Some step, j_checkpoint_key := Some key, j_checkpoint_at := Some now\<rparr>,
          update_job (j_id j) (\<lambda>r. r\<lparr>j_checkpoint_step := Some step, j_checkpoint_key := Some key,
              j_checkpoint_at := Some now, j_updated_at := now\<rparr>) st))"

definition pin_tier :: "store \<Rightarrow> job \<Rightarrow> string \<Rightarrow> string \<Rightarrow> job \<times> store" where
  "pin_tier st j tier reason =
     (let now = st_now st;
          st1 = update_job (j_id j) (\<lambda>r. r\<lparr>j_pinned_tier := Some tier, j_updated_at := now\<rparr>) st;
          st2 = append_row (j_id j) now ''broker'' (''pinned to '' @ tier @ '': '' @ reason) st1
      in (j\<lparr>j_pinned_tier := Some tier, j_updated_at := now\<rparr>, st2))"

subsection \<open>Utilization samples\<close>

definition record_samples :: "store \<Rightarrow> string \<Rightarrow> sample list \<Rightarrow> store" where
  "record_samples st jid samples = st\<lparr>st_samples := st_samples st @ map (Pair jid) samples\<rparr>"

text \<open>The newest \<open>limit\<close> samples of a job (within the window, if one is given), oldest first.\<close>

definition samples_for :: "store \<Rightarrow> string \<Rightarrow> moment option \<Rightarrow> nat \<Rightarrow> sample list" where
  "samples_for st jid since limit =
     rev (take limit (rev (map snd (filter (\<lambda>(j, s). j = jid \<and>
       (case since of None \<Rightarrow> True | Some t \<Rightarrow> t \<le> sm_at s)) (st_samples st)))))"

definition last_sample_at :: "store \<Rightarrow> string \<Rightarrow> moment option" where
  "last_sample_at st jid =
     (case map (sm_at \<circ> snd) (filter (\<lambda>(j, s). j = jid) (st_samples st)) of
        [] \<Rightarrow> None
      | t # ts \<Rightarrow> Some (foldl max t ts))"

subsection \<open>Notifications\<close>

definition store_notify :: "store \<Rightarrow> string \<Rightarrow> string \<Rightarrow> string \<Rightarrow> string option \<Rightarrow> notification \<times> store" where
  "store_notify st uid kind message jid =
     (let n = \<lparr>n_id = length (st_notifications st) + 1, n_job = jid, n_user = uid, n_kind = kind,
                n_message = message, n_at = st_now st, n_seen_at = None\<rparr>
      in (n, st\<lparr>st_notifications := st_notifications st @ [n]\<rparr>))"

definition notifications_for_job :: "store \<Rightarrow> string \<Rightarrow> string option \<Rightarrow> notification list" where
  "notifications_for_job st jid kind =
     filter (\<lambda>n. n_job n = Some jid \<and> (case kind of None \<Rightarrow> True | Some k \<Rightarrow> n_kind n = k)) (st_notifications st)"

definition notifications_for_user :: "store \<Rightarrow> string \<Rightarrow> nat \<Rightarrow> notification list" where
  "notifications_for_user st uid limit =
     rev (take limit (rev (filter (\<lambda>n. n_user n = uid) (st_notifications st))))"

subsection \<open>Prices and host drains\<close>

fun upsert_price :: "price \<Rightarrow> price list \<Rightarrow> price list" where
  "upsert_price p [] = [p]"
| "upsert_price p (q # qs) = (if p_gpu_type q = p_gpu_type p then p # qs else q # upsert_price p qs)"

definition save_prices :: "store \<Rightarrow> price list \<Rightarrow> store" where
  "save_prices st ps = st\<lparr>st_prices := foldl (\<lambda>t p. upsert_price p t) (st_prices st) ps\<rparr>"

definition drained_hosts :: "store \<Rightarrow> (string \<times> string) list" where
  "drained_hosts st = map (\<lambda>d. (dr_hostname d, dr_reason d)) (sort_key dr_hostname (st_drains st))"

fun upsert_drain :: "drain_row \<Rightarrow> drain_row list \<Rightarrow> drain_row list" where
  "upsert_drain d [] = [d]"
| "upsert_drain d (e # es) = (if dr_hostname e = dr_hostname d then d # es else e # upsert_drain d es)"

definition store_drain_host :: "store \<Rightarrow> string \<Rightarrow> string \<Rightarrow> string \<Rightarrow> store" where
  "store_drain_host st hostname reason actor =
     st\<lparr>st_drains := upsert_drain \<lparr>dr_hostname = hostname, dr_reason = reason, dr_at = st_now st, dr_by = actor\<rparr>
          (st_drains st)\<rparr>"

definition store_undrain_host :: "store \<Rightarrow> string \<Rightarrow> store" where
  "store_undrain_host st hostname = st\<lparr>st_drains := filter (\<lambda>d. dr_hostname d \<noteq> hostname) (st_drains st)\<rparr>"

subsection \<open>Environments\<close>

definition find_environment :: "store \<Rightarrow> string \<Rightarrow> environment option" where
  "find_environment st name = find (\<lambda>e. e_name e = name) (st_environments st)"

definition environments :: "store \<Rightarrow> environment list" where
  "environments st = sort_key e_name (st_environments st)"

definition delete_environment :: "store \<Rightarrow> string \<Rightarrow> store" where
  "delete_environment st name = st\<lparr>st_environments := filter (\<lambda>e. e_name e \<noteq> name) (st_environments st)\<rparr>"

subsection \<open>Logs\<close>

text \<open>Python's \<open>xs[:n]\<close>, which counts from the end when \<open>n\<close> is negative.\<close>

definition py_take :: "int \<Rightarrow> 'a list \<Rightarrow> 'a list" where
  "py_take n xs = (if 0 \<le> n then take (nat n) xs else take (nat (int (length xs) + n)) xs)"

definition truncation_notice :: "int \<Rightarrow> string" where
  "truncation_notice limit =
     ''[broker] output truncated: this job hit the '' @ rev (group_thousands (rev (show_int limit))) @
     '' line limit. Write anything longer to a file under /data.''"

definition clip_line :: "int \<Rightarrow> string \<Rightarrow> string" where
  "clip_line width line =
     (if int (length line) \<le> width then line else py_take (width - 3) line @ ''...'')"

definition stored_lines :: "store \<Rightarrow> string \<Rightarrow> int" where
  "stored_lines st jid = int (length (filter (\<lambda>r. lg_job r = jid) (st_logs st)))"

definition within_log_budget :: "store \<Rightarrow> string \<Rightarrow> (string \<times> string) list \<Rightarrow> (string \<times> string) list" where
  "within_log_budget st jid lines =
     (let cap = c_max_log_lines_per_job (st_cfg st); stored = stored_lines st jid
      in if stored \<ge> cap then []
         else
           (let width = c_max_log_line_bytes (st_cfg st);
                clipped = map (\<lambda>(stream, line). (stream, clip_line width line)) lines;
                room = cap - stored
            in if int (length clipped) < room then clipped
               else py_take (room - 1) clipped @ [(''broker'', truncation_notice cap)]))"

definition append_log :: "store \<Rightarrow> string \<Rightarrow> string \<Rightarrow> string \<Rightarrow> store" where
  "append_log st jid stream line =
     (let keep = within_log_budget st jid [(stream, line)]
      in if keep = [] then st else append_rows jid (st_now st) keep st)"

text \<open>Store a poll's worth of output and advance the cursor by what was polled.\<close>

definition append_backend_logs :: "store \<Rightarrow> job \<Rightarrow> (string \<times> string) list \<Rightarrow> nat \<times> store" where
  "append_backend_logs st j lines =
     (if lines = [] then (j_logs_fetched j, st)
      else
        (let now = st_now st;
             cursor = j_logs_fetched j + length lines;
             keep = within_log_budget st (j_id j) lines
         in (cursor, update_job (j_id j) (\<lambda>r. r\<lparr>j_logs_fetched := cursor, j_updated_at := now\<rparr>)
                       (append_rows (j_id j) now keep st))))"

definition read_logs :: "store \<Rightarrow> string \<Rightarrow> nat \<Rightarrow> nat \<Rightarrow> log_row list" where
  "read_logs st jid after_id limit =
     take limit (filter (\<lambda>r. lg_job r = jid \<and> after_id < lg_id r) (st_logs st))"

end
