(* ===== verification/Ledger.thy ===== *)
theory Ledger
  imports Store
begin

text \<open>
  Arithmetic of the append-only ledger. Balances are never stored: they are aggregated from the
  rows on read. This theory gives the aggregation as sums, says how one appended row moves each
  of the derived numbers, and proves the per-operation consequences: settling moves money from
  held to spent, a terminal transition gives back exactly what is left of the hold, and the
  charge for an abandoned machine is a running total rather than a repeated one.
\<close>

subsection \<open>Aggregation as sums\<close>

definition hold_delta :: "ledger_kind \<Rightarrow> decimal \<Rightarrow> decimal" where
  "hold_delta k a = (case k of RESERVE \<Rightarrow> a | RELEASE \<Rightarrow> - a | _ \<Rightarrow> 0)"

definition spend_delta :: "ledger_kind \<Rightarrow> decimal \<Rightarrow> decimal" where
  "spend_delta k a = (case k of RESERVE \<Rightarrow> 0 | RELEASE \<Rightarrow> 0 | _ \<Rightarrow> a)"

lemma delta_simps [simp]:
  "hold_delta RESERVE a = a" "hold_delta RELEASE a = - a" "hold_delta SETTLE a = 0"
  "hold_delta ABANDONED a = 0" "spend_delta RESERVE a = 0" "spend_delta RELEASE a = 0"
  "spend_delta SETTLE a = a" "spend_delta ABANDONED a = a"
  by (simp_all add: hold_delta_def spend_delta_def)

lemma aggregate_row_delta:
  "aggregate_row (h, s) e = (h + hold_delta (l_kind e) (l_amount e), s + spend_delta (l_kind e) (l_amount e))"
  by (cases "l_kind e") simp_all

lemma foldl_aggregate_row:
  "foldl aggregate_row (h, s) es =
     (h + (\<Sum>e\<leftarrow>es. hold_delta (l_kind e) (l_amount e)), s + (\<Sum>e\<leftarrow>es. spend_delta (l_kind e) (l_amount e)))"
  by (induction es arbitrary: h s) (simp_all add: aggregate_row_delta del: aggregate_row.simps)

lemma aggregate_sums:
  "aggregate es = ((\<Sum>e\<leftarrow>es. hold_delta (l_kind e) (l_amount e)), (\<Sum>e\<leftarrow>es. spend_delta (l_kind e) (l_amount e)))"
  by (simp add: aggregate_def foldl_aggregate_row)

text \<open>What a job has actually been charged for running.\<close>

definition job_settled :: "store \<Rightarrow> string \<Rightarrow> decimal" where
  "job_settled st jid =
     (\<Sum>e\<leftarrow>filter (\<lambda>e. l_job e = Some jid \<and> l_kind e = SETTLE) (st_ledger st). l_amount e)"

subsection \<open>Frames of the row writers\<close>

lemma insert_ledger_frame [frame_simps, simp]:
  "st_now (insert_ledger st a b c d e f g h) = st_now st"
  "st_cfg (insert_ledger st a b c d e f g h) = st_cfg st"
  "st_users (insert_ledger st a b c d e f g h) = st_users st"
  "st_jobs (insert_ledger st a b c d e f g h) = st_jobs st"
  "st_transitions (insert_ledger st a b c d e f g h) = st_transitions st"
  "st_logs (insert_ledger st a b c d e f g h) = st_logs st"
  "st_samples (insert_ledger st a b c d e f g h) = st_samples st"
  "st_notifications (insert_ledger st a b c d e f g h) = st_notifications st"
  by (simp_all add: insert_ledger_def)

lemma insert_transition_frame [frame_simps, simp]:
  "st_now (insert_transition st a b c d e) = st_now st"
  "st_cfg (insert_transition st a b c d e) = st_cfg st"
  "st_users (insert_transition st a b c d e) = st_users st"
  "st_jobs (insert_transition st a b c d e) = st_jobs st"
  "st_ledger (insert_transition st a b c d e) = st_ledger st"
  "st_logs (insert_transition st a b c d e) = st_logs st"
  "st_samples (insert_transition st a b c d e) = st_samples st"
  "st_notifications (insert_transition st a b c d e) = st_notifications st"
  by (simp_all add: insert_transition_def)

lemma update_job_frame [frame_simps, simp]:
  "st_now (update_job jid f st) = st_now st"
  "st_cfg (update_job jid f st) = st_cfg st"
  "st_users (update_job jid f st) = st_users st"
  "st_transitions (update_job jid f st) = st_transitions st"
  "st_ledger (update_job jid f st) = st_ledger st"
  "st_logs (update_job jid f st) = st_logs st"
  "st_samples (update_job jid f st) = st_samples st"
  "st_notifications (update_job jid f st) = st_notifications st"
  by (simp_all add: update_job_def)

lemma write_ledger_frame [frame_simps, simp]:
  "st_now (write_ledger jid uid t ws st) = st_now st"
  "st_cfg (write_ledger jid uid t ws st) = st_cfg st"
  "st_users (write_ledger jid uid t ws st) = st_users st"
  "st_jobs (write_ledger jid uid t ws st) = st_jobs st"
  "st_transitions (write_ledger jid uid t ws st) = st_transitions st"
  "st_logs (write_ledger jid uid t ws st) = st_logs st"
  "st_samples (write_ledger jid uid t ws st) = st_samples st"
  "st_notifications (write_ledger jid uid t ws st) = st_notifications st"
  by (induction ws arbitrary: st) (simp_all add: write_ledger_def)

text \<open>The derived numbers read the ledger only.\<close>

lemma ledger_reads_cong:
  assumes "st_ledger s = st_ledger t"
  shows "job_holding s jid c = job_holding t jid c" "job_spend s jid = job_spend t jid"
    "job_settled s jid = job_settled t jid" "abandoned_for_handle s h c = abandoned_for_handle t h c"
  using assms by (simp_all add: job_holding_def job_spend_def job_settled_def abandoned_for_handle_def)

subsection \<open>One row more\<close>

lemma job_holding_insert_ledger [simp]:
  "job_holding (insert_ledger st jid uid cur k a t n h) x c =
     job_holding st x c + (if jid = Some x \<and> cur = c then hold_delta k (quantize a cur) else 0)"
  by (simp add: job_holding_def insert_ledger_def aggregate_sums)

lemma job_spend_insert_ledger [simp]:
  "job_spend (insert_ledger st jid uid cur k a t n h) x =
     job_spend st x + (if jid = Some x then spend_delta k (quantize a cur) else 0)"
  by (simp add: job_spend_def insert_ledger_def aggregate_sums)

lemma job_settled_insert_ledger [simp]:
  "job_settled (insert_ledger st jid uid cur k a t n h) x =
     job_settled st x + (if jid = Some x \<and> k = SETTLE then quantize a cur else 0)"
  by (simp add: job_settled_def insert_ledger_def)

lemma abandoned_insert_ledger [simp]:
  "abandoned_for_handle (insert_ledger st jid uid cur k a t n h) x c =
     abandoned_for_handle st x c + (if h = Some x \<and> cur = c \<and> k = ABANDONED then quantize a cur else 0)"
  by (simp add: abandoned_for_handle_def insert_ledger_def)

lemma reads_insert_transition [simp]:
  "job_holding (insert_transition st a b c d e) x cur = job_holding st x cur"
  "job_spend (insert_transition st a b c d e) x = job_spend st x"
  "job_settled (insert_transition st a b c d e) x = job_settled st x"
  "job_holding (update_job jid f st) x cur = job_holding st x cur"
  "job_spend (update_job jid f st) x = job_spend st x"
  "job_settled (update_job jid f st) x = job_settled st x"
  "job_holding (st\<lparr>st_jobs := js\<rparr>) x cur = job_holding st x cur"
  "job_spend (st\<lparr>st_jobs := js\<rparr>) x = job_spend st x"
  "job_settled (st\<lparr>st_jobs := js\<rparr>) x = job_settled st x"
  by (rule ledger_reads_cong; simp)+

text \<open>A user's and the pool's balance, in terms of the ledger.\<close>

definition account_committed :: "store \<Rightarrow> string \<Rightarrow> currency \<Rightarrow> string \<Rightarrow> decimal" where
  "account_committed st uid cur per =
     (\<Sum>e\<leftarrow>filter (\<lambda>e. l_user e = Some uid \<and> l_currency e = cur \<and> l_period e = per) (st_ledger st).
        hold_delta (l_kind e) (l_amount e) + spend_delta (l_kind e) (l_amount e))"

lemma balance_in_committed:
  "balance_in st uid cur per = Inr b \<Longrightarrow>
     b_committed b = account_committed st uid cur per \<and>
     b_available b = b_budget b - account_committed st uid cur per"
  by (auto simp: balance_in_def account_committed_def aggregate_sums b_committed_def b_available_def
      sum_list_addf Let_def split: sum.splits)

lemma account_committed_insert_ledger [simp]:
  "account_committed (insert_ledger st jid uid cur k a t n h) x c per =
     account_committed st x c per +
     (if uid = Some x \<and> cur = c \<and> billing_period t (c_timezone (st_cfg st)) = per
      then hold_delta k (quantize a cur) + spend_delta k (quantize a cur) else 0)"
  by (simp add: account_committed_def insert_ledger_def)

lemma account_committed_cong:
  "st_ledger s = st_ledger t \<Longrightarrow> account_committed s uid c per = account_committed t uid c per"
  by (simp add: account_committed_def)

subsection \<open>Settling and releasing\<close>

lemma settle_reads:
  assumes "0 < quantize a (j_currency j)"
  shows "job_holding (settle st j a note) (j_id j) (j_currency j) =
           job_holding st (j_id j) (j_currency j) - quantize a (j_currency j)"
    and "job_spend (settle st j a note) (j_id j) = job_spend st (j_id j) + quantize a (j_currency j)"
    and "job_settled (settle st j a note) (j_id j) = job_settled st (j_id j) + quantize a (j_currency j)"
  using assms by (simp_all add: settle_def Let_def)

lemma settle_reads_other:
  assumes "jid \<noteq> j_id j"
  shows "job_holding (settle st j a note) jid c = job_holding st jid c"
    and "job_spend (settle st j a note) jid = job_spend st jid"
    and "job_settled (settle st j a note) jid = job_settled st jid"
  using assms by (simp_all add: settle_def Let_def)

lemma settle_account_committed [simp]:
  "account_committed (settle st j a note) uid c per = account_committed st uid c per"
  by (simp add: settle_def Let_def account_committed_cong [of "update_job _ _ _" "_"])

lemma settle_frame [frame_simps, simp]:
  "st_now (settle st j a note) = st_now st" "st_cfg (settle st j a note) = st_cfg st"
  "st_users (settle st j a note) = st_users st" "st_transitions (settle st j a note) = st_transitions st"
  "st_logs (settle st j a note) = st_logs st" "st_samples (settle st j a note) = st_samples st"
  "st_notifications (settle st j a note) = st_notifications st"
  by (simp_all add: settle_def Let_def)

text \<open>What the extra writes of a transition do to a job's hold, row by row, against what
  \<open>_release_remaining_hold\<close> assumes of them.\<close>

fun extra_hold :: "currency \<Rightarrow> ledger_write list \<Rightarrow> decimal" where
  "extra_hold cur [] = 0"
| "extra_hold cur (w # ws) =
     (if w_currency w = cur then hold_delta (w_kind w) (quantize (w_amount w) cur) else 0) + extra_hold cur ws"

fun extra_settled :: "currency \<Rightarrow> ledger_write list \<Rightarrow> decimal" where
  "extra_settled cur [] = 0"
| "extra_settled cur (w # ws) =
     (if w_currency w = cur \<and> w_kind w = SETTLE then quantize (w_amount w) cur else 0) + extra_settled cur ws"

lemma write_ledger_Cons [simp]:
  "write_ledger jid uid t (w # ws) st =
     write_ledger jid uid t ws
       (insert_ledger st (Some jid) (Some uid) (w_currency w) (w_kind w) (w_amount w) t (w_note w) None)"
  by (simp add: write_ledger_def)

lemma write_ledger_Nil [simp]: "write_ledger jid uid t [] st = st"
  by (simp add: write_ledger_def)

lemma write_ledger_append [simp]:
  "write_ledger jid uid t (ws @ vs) st = write_ledger jid uid t vs (write_ledger jid uid t ws st)"
  by (simp add: write_ledger_def)

lemma write_ledger_holding:
  "job_holding (write_ledger jid uid t ws st) jid c = job_holding st jid c + extra_hold c ws"
  by (induction ws arbitrary: st) simp_all

lemma write_ledger_holding_other:
  "x \<noteq> jid \<Longrightarrow> job_holding (write_ledger jid uid t ws st) x c = job_holding st x c"
  by (induction ws arbitrary: st) simp_all

lemma write_ledger_settled_other:
  "x \<noteq> jid \<Longrightarrow> job_settled (write_ledger jid uid t ws st) x = job_settled st x"
  by (induction ws arbitrary: st) simp_all

lemma outstanding_after_eq:
  "(\<And>w. w \<in> set ws \<Longrightarrow> whole_cents (w_amount w)) \<Longrightarrow>
     outstanding_after cur h ws = h + extra_hold cur ws - extra_settled cur ws"
proof (induction ws arbitrary: h)
  case (Cons w ws)
  then have "whole_cents (w_amount w)" by simp
  with Cons show ?case by (cases "w_kind w") (simp_all add: algebra_simps)
qed simp

lemma extra_hold_whole_cents: "whole_cents (extra_hold c ws)"
proof (induction ws)
  case (Cons w ws)
  have "whole_cents (hold_delta (w_kind w) (quantize (w_amount w) c))"
    by (cases "w_kind w") (simp_all add: whole_cents_minus)
  with Cons show ?case by (simp add: whole_cents_add)
qed simp

lemma extra_settled_whole_cents: "whole_cents (extra_settled c ws)"
  by (induction ws) (auto intro: whole_cents_add)

subsection \<open>Abandoned capacity\<close>

lemma quantize_diff_whole:
  assumes "whole_cents a" and "0 \<le> a" and "a \<le> b"
  shows "quantize (b - a) c = quantize b c - a"
proof -
  obtain k :: int where k: "a = of_int k / 100" using assms(1) whole_cents_iff by blast
  have "(b - a) * 100 + 1/2 = (b * 100 + 1/2) - of_int k" using k by simp
  then have "\<lfloor>(b - a) * 100 + 1/2\<rfloor> = \<lfloor>b * 100 + 1/2\<rfloor> - k" by (metis floor_diff_of_int)
  then show ?thesis using assms(2,3) k by (simp add: quantize_nonneg_eq diff_divide_distrib)
qed

lemma record_abandoned_total:
  assumes "whole_cents (abandoned_for_handle st h c)" and "0 \<le> abandoned_for_handle st h c"
  shows "abandoned_for_handle (snd (record_abandoned st h jid uid c burned note)) h c =
           max (abandoned_for_handle st h c) (quantize burned c)"
proof -
  let ?a = "abandoned_for_handle st h c"
  show ?thesis
  proof (cases "?a \<le> burned")
    case True
    then have d: "quantize (burned - ?a) c = quantize burned c - ?a"
      using quantize_diff_whole assms by blast
    moreover have "whole_cents (quantize burned c - ?a)" using assms(1) by (simp add: whole_cents_diff)
    ultimately show ?thesis by (simp add: record_abandoned_def Let_def money_def max_def)
  next
    case False
    then have "quantize (burned - ?a) c \<le> 0" by (intro quantize_nonpos) simp
    moreover have "quantize burned c \<le> ?a"
      using False quantize_mono [of burned ?a c] assms(1) by simp
    ultimately show ?thesis by (simp add: record_abandoned_def Let_def money_def max_def)
  qed
qed

end
