(* ===== verification/StoreInv.thy ===== *)
theory StoreInv
  imports Ledger
begin

text \<open>
  The invariant of the database and its preservation by every method of the store that touches
  users, jobs, transitions or the ledger. Per job it says: the recorded history replays through
  the legal-transition table and ends in the job's state; amounts are whole cents; a job that is
  not terminal holds exactly its reservation less what has been settled, and a terminal job
  holds nothing.
\<close>

subsection \<open>The invariant\<close>

fun legal_step :: "job_state option \<Rightarrow> job_state \<Rightarrow> bool" where
  "legal_step None t = (t = QUEUED \<or> t = REFUSED)"
| "legal_step (Some s) t = can_transition s t"

text \<open>Replaying a history: \<^const>\<open>None\<close> when a row does not continue the one before or is not a
  legal edge.\<close>

fun replay :: "job_state option \<Rightarrow> transition_row list \<Rightarrow> job_state option option" where
  "replay s [] = Some s"
| "replay s (t # ts) =
     (if tr_from t = s \<and> legal_step s (tr_to t) then replay (Some (tr_to t)) ts else None)"

definition money_ok :: "store \<Rightarrow> job \<Rightarrow> bool" where
  "money_ok st j \<longleftrightarrow>
     whole_cents (j_reserved j) \<and> 0 \<le> job_settled st (j_id j) \<and>
     (if j_state j \<in> set TERMINAL
      then job_holding st (j_id j) (j_currency j) = 0 \<and> (j_state j = REFUSED \<or> job_settled st (j_id j) \<le> j_reserved j)
      else job_holding st (j_id j) (j_currency j) = j_reserved j - job_settled st (j_id j) \<and>
           job_settled st (j_id j) \<le> j_reserved j)"

definition history_ok :: "store \<Rightarrow> job \<Rightarrow> bool" where
  "history_ok st j \<longleftrightarrow> replay None (history st (j_id j)) = Some (Some (j_state j))"

definition store_inv :: "store \<Rightarrow> bool" where
  "store_inv st \<longleftrightarrow>
     distinct (map u_id (st_users st)) \<and> distinct (map j_id (st_jobs st)) \<and>
     (\<forall>j\<in>set (st_jobs st). j_user j \<in> u_id ` set (st_users st)) \<and>
     (\<forall>e\<in>set (st_ledger st). whole_cents (l_amount e) \<and> 0 \<le> l_amount e \<and>
        (\<forall>x. l_job e = Some x \<longrightarrow> x \<in> j_id ` set (st_jobs st))) \<and>
     (\<forall>t\<in>set (st_transitions st). tr_job t \<in> j_id ` set (st_jobs st)) \<and>
     (\<forall>j\<in>set (st_jobs st). money_ok st j \<and> history_ok st j)"

lemma store_invD:
  assumes "store_inv st"
  shows "distinct (map u_id (st_users st))" "distinct (map j_id (st_jobs st))"
    "j \<in> set (st_jobs st) \<Longrightarrow> j_user j \<in> u_id ` set (st_users st)"
    "e \<in> set (st_ledger st) \<Longrightarrow> whole_cents (l_amount e)"
    "e \<in> set (st_ledger st) \<Longrightarrow> 0 \<le> l_amount e"
    "e \<in> set (st_ledger st) \<Longrightarrow> l_job e = Some x \<Longrightarrow> x \<in> j_id ` set (st_jobs st)"
    "t \<in> set (st_transitions st) \<Longrightarrow> tr_job t \<in> j_id ` set (st_jobs st)"
    "j \<in> set (st_jobs st) \<Longrightarrow> money_ok st j" "j \<in> set (st_jobs st) \<Longrightarrow> history_ok st j"
  using assms unfolding store_inv_def by blast+

lemma empty_store_inv: "store_inv (empty_store now cfg)"
  by (simp add: store_inv_def empty_store_def)

subsection \<open>What the invariant depends on\<close>

lemma money_ok_cong: "st_ledger s = st_ledger t \<Longrightarrow> money_ok s j = money_ok t j"
  by (simp add: money_ok_def ledger_reads_cong [of s t])

lemma money_ok_columns:
  "j_id y = j_id x \<Longrightarrow> j_currency y = j_currency x \<Longrightarrow> j_reserved y = j_reserved x \<Longrightarrow> j_state y = j_state x \<Longrightarrow>
     money_ok st y = money_ok st x"
  by (simp add: money_ok_def)

lemma history_ok_cong: "st_transitions s = st_transitions t \<Longrightarrow> history_ok s j = history_ok t j"
  by (simp add: history_ok_def history_def)

lemma store_inv_cong:
  assumes "st_users s = st_users t" "st_jobs s = st_jobs t" "st_transitions s = st_transitions t"
    "st_ledger s = st_ledger t"
  shows "store_inv s = store_inv t"
  using assms by (simp add: store_inv_def money_ok_cong [of s t] history_ok_cong [of s t])

text \<open>An operation that keeps the users and the job ids preserves the invariant if its new ledger and
  history rows are about existing jobs and the rows it leaves are consistent.\<close>

lemma store_inv_step:
  assumes inv: "store_inv st" and ids: "map j_id (st_jobs st') = map j_id (st_jobs st)"
    and users: "st_users st' = st_users st"
    and ledger: "\<And>e. e \<in> set (st_ledger st') \<Longrightarrow> e \<in> set (st_ledger st) \<or>
        (whole_cents (l_amount e) \<and> 0 \<le> l_amount e \<and> (\<forall>x. l_job e = Some x \<longrightarrow> x \<in> j_id ` set (st_jobs st)))"
    and trans: "\<And>t. t \<in> set (st_transitions st') \<Longrightarrow> t \<in> set (st_transitions st) \<or> tr_job t \<in> j_id ` set (st_jobs st)"
    and rows: "\<And>y. y \<in> set (st_jobs st') \<Longrightarrow>
        money_ok st' y \<and> history_ok st' y \<and> j_user y \<in> u_id ` set (st_users st)"
  shows "store_inv st'"
proof -
  have idset: "j_id ` set (st_jobs st') = j_id ` set (st_jobs st)" using ids by (metis list.set_map)
  have l: "whole_cents (l_amount e) \<and> 0 \<le> l_amount e \<and> (\<forall>x. l_job e = Some x \<longrightarrow> x \<in> j_id ` set (st_jobs st))"
    if "e \<in> set (st_ledger st')" for e
    using ledger [OF that] store_invD(4,5,6) [OF inv] by blast
  have t: "tr_job t \<in> j_id ` set (st_jobs st)" if "t \<in> set (st_transitions st')" for t
    using trans [OF that] store_invD(7) [OF inv] by blast
  show ?thesis
    unfolding store_inv_def ids idset users using store_invD(1,2) [OF inv] l t rows by blast
qed

text \<open>Columns no method ever changes once the row exists.\<close>

definition same_identity :: "job \<Rightarrow> job \<Rightarrow> bool" where
  "same_identity r j \<longleftrightarrow> j_id r = j_id j \<and> j_user r = j_user j \<and> j_currency r = j_currency j \<and>
     j_reserved r = j_reserved j \<and> j_gpu_type r = j_gpu_type j \<and> j_submitted_at r = j_submitted_at j"

lemma same_identity_refl [simp]: "same_identity j j"
  by (simp add: same_identity_def)

text \<open>A job object that was read from the table, possibly before other columns changed.\<close>

definition known_job :: "store \<Rightarrow> job \<Rightarrow> bool" where
  "known_job st j \<longleftrightarrow> (\<exists>r\<in>set (st_jobs st). same_identity r j)"

lemma known_job_row: "j \<in> set (st_jobs st) \<Longrightarrow> known_job st j"
  unfolding known_job_def by (rule bexI [of _ j]) simp_all

lemma known_job_id: "known_job st j \<Longrightarrow> j_id j \<in> j_id ` set (st_jobs st)"
  unfolding known_job_def same_identity_def by (metis imageI)

lemma update_job_row_set:
  "set (st_jobs (update_job jid f st)) = (\<lambda>r. if j_id r = jid then f r else r) ` set (st_jobs st)"
  by (simp add: update_job_def)

lemma update_job_ids:
  "(\<And>r. j_id (f r) = j_id r) \<Longrightarrow> map j_id (st_jobs (update_job jid f st)) = map j_id (st_jobs st)"
  by (simp add: update_job_def)

lemma update_job_inv [inv_intros]:
  assumes "store_inv st" and "\<And>r. same_identity (f r) r" and "\<And>r. j_state (f r) = j_state r"
  shows "store_inv (update_job jid f st)"
proof -
  have f: "j_id (f r) = j_id r" "j_user (f r) = j_user r" "j_currency (f r) = j_currency r"
    "j_reserved (f r) = j_reserved r" for r
    using assms(2) [of r] by (simp_all add: same_identity_def)
  have ids: "map j_id (st_jobs (update_job jid f st)) = map j_id (st_jobs st)"
    using update_job_ids [of f] f(1) by blast
  then have idset: "j_id ` set (st_jobs (update_job jid f st)) = j_id ` set (st_jobs st)"
    by (metis list.set_map)
  have rows: "money_ok (update_job jid f st) j \<and> history_ok (update_job jid f st) j \<and>
      j_user j \<in> u_id ` set (st_users st)" if "j \<in> set (st_jobs (update_job jid f st))" for j
  proof -
    from that obtain r where r: "r \<in> set (st_jobs st)" and j: "j = (if j_id r = jid then f r else r)"
      by (auto simp: update_job_row_set)
    have "money_ok (update_job jid f st) j = money_ok st r" "history_ok (update_job jid f st) j = history_ok st r"
      "j_user j = j_user r"
      using j f assms(3) by (simp_all add: money_ok_def history_ok_def history_def)
    then show ?thesis using store_invD [OF assms(1)] r by simp
  qed
  show ?thesis
    unfolding store_inv_def ids idset using rows assms(1) unfolding store_inv_def by simp
qed

subsection \<open>Replaying one row more\<close>

lemma replay_append:
  "replay s (ts @ us) = (case replay s ts of None \<Rightarrow> None | Some s' \<Rightarrow> replay s' us)"
  by (induction ts arbitrary: s) simp_all

lemma history_insert_transition:
  "history (insert_transition st jid f t0 n r) x =
     history st x @ (if x = jid then [\<lparr>tr_job = jid, tr_from = f, tr_to = t0, tr_at = n, tr_reason = r\<rparr>] else [])"
  by (simp add: history_def insert_transition_def)

lemma history_unknown:
  "store_inv st \<Longrightarrow> x \<notin> j_id ` set (st_jobs st) \<Longrightarrow> history st x = []"
  using store_invD(7) by (fastforce simp: history_def filter_empty_conv)

lemma ledger_unknown:
  assumes "store_inv st" and "x \<notin> j_id ` set (st_jobs st)"
  shows "job_holding st x c = 0" "job_settled st x = 0" "job_spend st x = 0"
proof -
  have "filter (\<lambda>e. l_job e = Some x \<and> P e) (st_ledger st) = []" for P
    using store_invD(6) [OF assms(1)] assms(2) by (fastforce simp: filter_empty_conv)
  from this [of "\<lambda>e. l_currency e = c"] this [of "\<lambda>e. l_kind e = SETTLE"] this [of "\<lambda>_. True"]
  show "job_holding st x c = 0" "job_settled st x = 0" "job_spend st x = 0"
    by (simp_all add: job_holding_def job_settled_def job_spend_def aggregate_sums)
qed

text \<open>A replayed history is a walk of the lifecycle graph from where it starts.\<close>

lemma replay_walk: "replay (Some s) ts = Some (Some t) \<Longrightarrow> lifecycle_walk s t"
proof (induction ts arbitrary: s)
  case Nil
  then show ?case by (simp add: lifecycle_walk.stay)
next
  case (Cons x xs)
  then have "can_transition s (tr_to x)" "replay (Some (tr_to x)) xs = Some (Some t)"
    by (auto split: if_splits)
  then show ?case
    using Cons.IH lifecycle_walk.move [OF lifecycle_walk.stay] lifecycle_walk_trans by blast
qed

subsection \<open>New rows\<close>

lemma get_user_iff: "(\<exists>u. get_user st uid = Inr u) \<longleftrightarrow> uid \<in> u_id ` set (st_users st)"
  by (auto simp: get_user_def maybe_user_def find_None_iff image_iff split: option.splits dest: find_Some_set)

lemma maybe_user_iff: "maybe_user st uid \<noteq> None \<longleftrightarrow> uid \<in> u_id ` set (st_users st)"
  by (auto simp: maybe_user_def find_None_iff image_iff)

text \<open>Appending a fresh row with its first history row and, for a positive reservation of a
  queued job, its hold.\<close>

lemma admit_row_inv:
  assumes inv: "store_inv st" and fresh: "j_id j \<notin> j_id ` set (st_jobs st)"
    and user: "j_user j \<in> u_id ` set (st_users st)"
    and money: "whole_cents (j_reserved j)"
    and kind: "j_state j = REFUSED \<and> \<not> hold \<or> j_state j = QUEUED \<and> 0 \<le> j_reserved j \<and> (hold \<longleftrightarrow> 0 < j_reserved j)"
    and st2: "st2 = insert_transition (st\<lparr>st_jobs := st_jobs st @ [j]\<rparr>) (j_id j) None (j_state j) t r"
    and st3: "st3 = (if hold then insert_ledger st2 (Some (j_id j)) (Some u) (j_currency j) RESERVE (j_reserved j) t n None
                     else st2)"
  shows "store_inv st3"
proof -
  have jobs: "st_jobs st3 = st_jobs st @ [j]" and users: "st_users st3 = st_users st" and
    ledger: "\<And>e. e \<in> set (st_ledger st3) \<Longrightarrow> e \<in> set (st_ledger st) \<or>
        (l_job e = Some (j_id j) \<and> whole_cents (l_amount e) \<and> 0 \<le> l_amount e)" and
    trans: "\<And>x. x \<in> set (st_transitions st3) \<Longrightarrow> x \<in> set (st_transitions st) \<or> tr_job x = j_id j"
    using st2 st3 kind by (auto simp: insert_ledger_def insert_transition_def split: if_splits)
  have hist: "history st3 x = history st x @ (if x = j_id j then
      [\<lparr>tr_job = j_id j, tr_from = None, tr_to = j_state j, tr_at = t, tr_reason = r\<rparr>] else [])" for x
    using st2 st3 by (simp add: history_def insert_transition_def insert_ledger_def)
  have old: "money_ok st3 i \<and> history_ok st3 i" if "i \<in> set (st_jobs st)" for i
  proof -
    have ne: "j_id i \<noteq> j_id j" using fresh that by (metis imageI)
    have "job_holding st3 (j_id i) c = job_holding st (j_id i) c" "job_settled st3 (j_id i) = job_settled st (j_id i)" for c
      using st2 st3 ne by simp_all
    then have "money_ok st3 i = money_ok st i" by (simp add: money_ok_def)
    moreover have "history_ok st3 i = history_ok st i" using ne hist by (simp add: history_ok_def)
    ultimately show ?thesis using store_invD(8,9) [OF inv that] by simp
  qed
  have new: "money_ok st3 j \<and> history_ok st3 j"
  proof -
    have "job_settled st3 (j_id j) = 0" using st2 st3 ledger_unknown [OF inv fresh] by simp
    moreover have "job_holding st3 (j_id j) (j_currency j) = (if hold then j_reserved j else 0)"
      using st2 st3 ledger_unknown [OF inv fresh] money by simp
    ultimately have "money_ok st3 j" using kind money by (auto simp: money_ok_def)
    moreover have "history_ok st3 j"
      using hist [of "j_id j"] history_unknown [OF inv fresh] kind by (auto simp: history_ok_def)
    ultimately show ?thesis by simp
  qed
  show ?thesis
    unfolding store_inv_def jobs users
    using store_invD(1,2,3) [OF inv] fresh user old new ledger trans store_invD(4,5,6,7) [OF inv]
    by fastforce
qed

lemma insert_job_Inr:
  "insert_job st j = Inr st1 \<longleftrightarrow> j_id j \<notin> j_id ` set (st_jobs st) \<and> 0 < j_requested_hours j \<and>
     j_user j \<in> u_id ` set (st_users st) \<and> st1 = st\<lparr>st_jobs := st_jobs st @ [j]\<rparr>"
  using maybe_user_iff [of st "j_user j"] by (auto simp: insert_job_def)

lemma new_job_simps [simp]:
  "j_id (new_job a b c d e f g h i k l) = a" "j_user (new_job a b c d e f g h i k l) = b"
  "j_currency (new_job a b c d e f g h i k l) = f" "j_reserved (new_job a b c d e f g h i k l) = quantize g f"
  "j_state (new_job a b c d e f g h i k l) = h" "j_requested_hours (new_job a b c d e f g h i k l) = e"
  "j_gpu_type (new_job a b c d e f g h i k l) = d" "j_submitted_at (new_job a b c d e f g h i k l) = i"
  "j_cancel_requested (new_job a b c d e f g h i k l) = None" "j_origin (new_job a b c d e f g h i k l) = l"
  by (simp_all add: new_job_def)

lemma create_job_inv [inv_intros]:
  assumes "store_inv st" and "create_job st fresh uid cmd gpu hours cur res jid env origin = Inr (j, st')"
    and "0 \<le> res"
  shows "store_inv st'"
proof -
  let ?j = "new_job (the (py_or jid (Some fresh))) uid cmd gpu hours cur res QUEUED (st_now st) env origin"
  from assms(2) obtain st1 where ins: "insert_job st ?j = Inr st1"
    and st': "st' = (if j_reserved ?j > 0
        then insert_ledger (insert_transition st1 (j_id ?j) None QUEUED (st_now st) (Some ''submitted''))
               (Some (j_id ?j)) (Some uid) cur RESERVE (j_reserved ?j) (st_now st) (Some ''admission hold'') None
        else insert_transition st1 (j_id ?j) None QUEUED (st_now st) (Some ''submitted''))"
    unfolding create_job_def Let_def by (auto split: sum.splits simp del: new_job_simps)
  show ?thesis
    by (rule admit_row_inv [OF assms(1), where j = ?j and hold = "0 < j_reserved ?j" and u = uid and
        t = "st_now st" and r = "Some ''submitted''" and n = "Some ''admission hold''", OF _ _ _ _ refl])
      (use ins st' assms(3) in \<open>simp_all add: insert_job_Inr\<close>)
qed

lemma record_refusal_inv [inv_intros]:
  assumes "store_inv st" and "record_refusal st fresh uid cmd gpu hours cur res reason origin = Inr (j, st')"
  shows "store_inv st'"
proof -
  let ?j = "(new_job fresh uid cmd gpu hours cur res REFUSED (st_now st) None origin)
              \<lparr>j_finished_at := Some (st_now st), j_refusal_reason := Some reason\<rparr>"
  from assms(2) obtain st1 where ins: "insert_job st ?j = Inr st1"
    and st': "st' = insert_transition st1 (j_id ?j) None REFUSED (st_now st) (Some reason)"
    unfolding record_refusal_def Let_def by (auto split: sum.splits)
  show ?thesis
    by (rule admit_row_inv [OF assms(1), where j = ?j and hold = False and t = "st_now st" and
        r = "Some reason", OF _ _ _ _ refl])
      (use ins st' in \<open>simp_all add: insert_job_Inr\<close>)
qed

subsection \<open>Transitions\<close>

lemma job_holding_whole_cents: "store_inv st \<Longrightarrow> whole_cents (job_holding st jid c)"
proof -
  assume inv: "store_inv st"
  have "whole_cents (hold_delta (l_kind e) (l_amount e))" if "e \<in> set (st_ledger st)" for e
    using store_invD(4) [OF inv that] by (cases "l_kind e") (simp_all add: whole_cents_minus)
  then show ?thesis unfolding job_holding_def aggregate_sums
    by (auto intro!: whole_cents_sum_list)
qed

lemma job_settled_nonneg: "store_inv st \<Longrightarrow> 0 \<le> job_settled st jid"
  unfolding job_settled_def by (rule sum_list_nonneg_real) (auto dest: store_invD(5))

lemma job_spend_ge_settled: "store_inv st \<Longrightarrow> job_settled st jid \<le> job_spend st jid"
proof -
  assume inv: "store_inv st"
  have "job_settled st jid =
      (\<Sum>e\<leftarrow>filter (\<lambda>e. l_job e = Some jid) (st_ledger st). if l_kind e = SETTLE then l_amount e else 0)"
    unfolding job_settled_def by (rule sum_list_filter_conj)
  also have "\<dots> \<le> job_spend st jid"
    unfolding job_spend_def aggregate_sums snd_conv
  proof (rule sum_list_mono_real)
    fix e assume "e \<in> set (filter (\<lambda>e. l_job e = Some jid) (st_ledger st))"
    then have "0 \<le> l_amount e" using store_invD(5) [OF inv] by simp
    then show "(if l_kind e = SETTLE then l_amount e else 0) \<le> spend_delta (l_kind e) (l_amount e)"
      by (cases "l_kind e") simp_all
  qed
  finally show ?thesis .
qed

lemma live_holding:
  assumes "store_inv st" and "j \<in> set (st_jobs st)" and "j_state j \<notin> set TERMINAL"
  shows "job_holding st (j_id j) (j_currency j) = j_reserved j - job_settled st (j_id j)"
    and "0 \<le> job_holding st (j_id j) (j_currency j)"
    and "job_settled st (j_id j) \<le> j_reserved j"
  using store_invD(8) [OF assms(1,2)] assms(3) by (simp_all add: money_ok_def)

lemma known_job_matching:
  assumes "store_inv st" and "known_job st cur" and "r \<in> set (st_jobs st)" and "j_id r = j_id cur"
  shows "same_identity r cur"
proof -
  from assms(2) obtain r' where r': "r' \<in> set (st_jobs st)" "same_identity r' cur"
    by (auto simp: known_job_def)
  then have "r' = r"
    using map_of_fst_distinct [OF store_invD(2) [OF assms(1)], of r' r] assms(3,4)
    by (simp add: same_identity_def)
  with r' show ?thesis by simp
qed

lemma transition_Inr:
  assumes "transition st cur to reason ws b h ec clr = Inr (j, st')"
  shows "can_transition (j_state cur) to"
    and "j = transitioned cur to (st_now st) b h ec clr"
    and "length (filter (\<lambda>r. j_id r = j_id cur \<and> j_state r = j_state cur) (st_jobs st)) = 1"
    and "st' = write_ledger (j_id cur) (j_user cur) (st_now st)
           (ws @ (if to \<in> set TERMINAL then release_remaining_hold st cur ws else []))
           (insert_transition (st\<lparr>st_jobs := map (\<lambda>r. if j_id r = j_id cur \<and> j_state r = j_state cur
              then apply_transition_row j r else r) (st_jobs st)\<rparr>)
              (j_id cur) (Some (j_state cur)) to (st_now st) reason)"
  using assms by (auto simp: transition_def Let_def split: if_splits)

lemma apply_transition_row_identity [simp]:
  "same_identity (apply_transition_row u r) r" "j_id (apply_transition_row u r) = j_id r"
  "j_user (apply_transition_row u r) = j_user r" "j_currency (apply_transition_row u r) = j_currency r"
  "j_reserved (apply_transition_row u r) = j_reserved r" "j_state (apply_transition_row u r) = j_state u"
  by (simp_all add: apply_transition_row_def same_identity_def)

lemma transitioned_simps [simp]:
  "j_id (transitioned c t n b h e x) = j_id c" "j_user (transitioned c t n b h e x) = j_user c"
  "j_currency (transitioned c t n b h e x) = j_currency c" "j_state (transitioned c t n b h e x) = t"
  "j_reserved (transitioned c t n b h e x) = j_reserved c"
  "j_gpu_type (transitioned c t n b h e x) = j_gpu_type c"
  "j_submitted_at (transitioned c t n b h e x) = j_submitted_at c"
  "same_identity r (transitioned c t n b h e x) = same_identity r c"
  by (simp_all add: transitioned_def same_identity_def)

text \<open>What a terminal transition leaves of the job's hold: everything is given back, except that
  a settlement passed along in the same call stays held.\<close>

lemma release_hold_result:
  assumes "whole_cents H" and "\<And>w. w \<in> set ws \<Longrightarrow> whole_cents (w_amount w)"
    and "job_holding st (j_id cur) (j_currency cur) = H"
    and "0 \<le> outstanding_after (j_currency cur) H ws"
  shows "H + extra_hold (j_currency cur) (ws @ release_remaining_hold st cur ws) =
           extra_settled (j_currency cur) ws"
proof -
  let ?c = "j_currency cur"
  have eh_append: "extra_hold c (xs @ ys) = extra_hold c xs + extra_hold c ys" for c xs ys
    by (induction xs) simp_all
  have out: "outstanding_after ?c H ws = H + extra_hold ?c ws - extra_settled ?c ws"
    using outstanding_after_eq assms(2) by blast
  have "whole_cents (H + extra_hold ?c ws - extra_settled ?c ws)"
    using assms(1) by (intro whole_cents_diff whole_cents_add extra_hold_whole_cents extra_settled_whole_cents)
  then have "extra_hold ?c (release_remaining_hold st cur ws) = - outstanding_after ?c H ws"
    using assms(3,4) out by (auto simp: release_remaining_hold_def Let_def)
  then show ?thesis using out eh_append by simp
qed

lemma transition_row_set:
  assumes "transition st cur to reason ws b h ec clr = Inr (j, st')" and "store_inv st"
  obtains r where "r \<in> set (st_jobs st)" "j_id r = j_id cur" "j_state r = j_state cur"
    "st_jobs st' = map (\<lambda>x. if j_id x = j_id cur then apply_transition_row j x else x) (st_jobs st)"
proof -
  note tr = transition_Inr [OF assms(1)]
  from tr(3) obtain r where r: "filter (\<lambda>r. j_id r = j_id cur \<and> j_state r = j_state cur) (st_jobs st) = [r]"
    by (auto simp: length_Suc_conv)
  then have rs: "r \<in> set (st_jobs st)" "j_id r = j_id cur" "j_state r = j_state cur"
    by (auto simp: filter_eq_Cons_iff)
  have "j_id x = j_id cur \<and> j_state x = j_state cur \<longleftrightarrow> j_id x = j_id cur" if "x \<in> set (st_jobs st)" for x
    using map_of_fst_distinct [OF store_invD(2) [OF assms(2)] that rs(1)] rs by auto
  then have "st_jobs st' = map (\<lambda>x. if j_id x = j_id cur then apply_transition_row j x else x) (st_jobs st)"
    unfolding tr(4) by auto
  with rs that show ?thesis by blast
qed

lemma transition_holding:
  assumes tr: "transition st cur to reason [] b h ec clr = Inr (j, st')"
    and inv: "store_inv st" and known: "known_job st cur"
  shows "job_holding st' (j_id cur) (j_currency cur) =
           (if to \<in> set TERMINAL then 0 else job_holding st (j_id cur) (j_currency cur))"
    and "job_settled st' x = job_settled st x"
    and "x \<noteq> j_id cur \<Longrightarrow> job_holding st' x c = job_holding st x c"
proof -
  note st' = transition_Inr(4) [OF tr]
  obtain r where r: "r \<in> set (st_jobs st)" "j_id r = j_id cur" "j_state r = j_state cur"
    using transition_row_set [OF tr inv] .
  have live: "j_state r \<notin> set TERMINAL" using transition_Inr(1) [OF tr] r(3) by auto
  have cur: "j_currency r = j_currency cur"
    using known_job_matching [OF inv known r(1,2)] by (simp add: same_identity_def)
  have nonneg: "0 \<le> job_holding st (j_id cur) (j_currency cur)"
    using live_holding(2) [OF inv r(1) live] r(2) cur by simp
  show "job_holding st' (j_id cur) (j_currency cur) =
           (if to \<in> set TERMINAL then 0 else job_holding st (j_id cur) (j_currency cur))"
    unfolding st' write_ledger_holding
    using release_hold_result [of _ "[]", OF job_holding_whole_cents [OF inv] _ refl] nonneg by simp
  show "x \<noteq> j_id cur \<Longrightarrow> job_holding st' x c = job_holding st x c"
    unfolding st' by (simp add: write_ledger_holding_other)
  show "job_settled st' x = job_settled st x"
    unfolding st' by (simp add: release_remaining_hold_def Let_def)
qed

lemma transition_history:
  assumes tr: "transition st cur to reason ws b h ec clr = Inr (j, st')"
  shows "st_transitions st' = st_transitions st @ [\<lparr>tr_job = j_id cur, tr_from = Some (j_state cur),
            tr_to = to, tr_at = st_now st, tr_reason = reason\<rparr>]"
    and "history st' x = history st x @ (if x = j_id cur then [\<lparr>tr_job = j_id cur,
            tr_from = Some (j_state cur), tr_to = to, tr_at = st_now st, tr_reason = reason\<rparr>] else [])"
  unfolding transition_Inr(4) [OF tr] by (simp_all add: insert_transition_def history_def)

lemma write_ledger_rows:
  assumes "e \<in> set (st_ledger (write_ledger jid uid t ws st))"
  shows "e \<in> set (st_ledger st) \<or> (l_job e = Some jid \<and> l_user e = Some uid \<and>
     (\<exists>w\<in>set ws. l_amount e = quantize (w_amount w) (w_currency w) \<and> l_kind e = w_kind w \<and>
        l_currency e = w_currency w \<and> l_at e = t))"
  using assms
proof (induction ws arbitrary: st)
  case (Cons w ws)
  from Cons.IH Cons.prems show ?case by (fastforce simp: insert_ledger_def)
qed simp

lemma release_rows: "w \<in> set (release_remaining_hold st cur ws) \<Longrightarrow>
    0 \<le> w_amount w \<and> w_kind w = RELEASE \<and> w_currency w = j_currency cur"
  by (auto simp: release_remaining_hold_def Let_def split: if_splits)

lemma transition_ledger_rows:
  assumes tr: "transition st cur to reason [] b h ec clr = Inr (j, st')" and e: "e \<in> set (st_ledger st')"
  shows "e \<in> set (st_ledger st) \<or> (l_job e = Some (j_id cur) \<and> l_user e = Some (j_user cur) \<and>
     l_kind e = RELEASE \<and> whole_cents (l_amount e) \<and> 0 \<le> l_amount e)"
proof -
  let ?ws = "if to \<in> set TERMINAL then release_remaining_hold st cur [] else []"
  from e have "e \<in> set (st_ledger st) \<or> (l_job e = Some (j_id cur) \<and> l_user e = Some (j_user cur) \<and>
     (\<exists>w\<in>set ?ws. l_amount e = quantize (w_amount w) (w_currency w) \<and> l_kind e = w_kind w))"
    unfolding transition_Inr(4) [OF tr] using write_ledger_rows by fastforce
  then show ?thesis
  proof
    assume "l_job e = Some (j_id cur) \<and> l_user e = Some (j_user cur) \<and>
     (\<exists>w\<in>set ?ws. l_amount e = quantize (w_amount w) (w_currency w) \<and> l_kind e = w_kind w)"
    then obtain w where "w \<in> set (release_remaining_hold st cur [])" "l_kind e = w_kind w"
      "l_amount e = quantize (w_amount w) (w_currency w)" "l_job e = Some (j_id cur)" "l_user e = Some (j_user cur)"
      by (auto split: if_splits)
    then show ?thesis using release_rows [of w st cur "[]"] by simp
  qed simp
qed

lemma transition_rows_ok:
  assumes tr: "transition st cur to reason [] b h ec clr = Inr (j, st')"
    and inv: "store_inv st" and known: "known_job st cur" and y: "y \<in> set (st_jobs st')"
  shows "money_ok st' y \<and> history_ok st' y \<and> j_user y \<in> u_id ` set (st_users st)"
proof -
  obtain r where r: "r \<in> set (st_jobs st)" "j_id r = j_id cur" "j_state r = j_state cur"
    and jobs: "st_jobs st' = map (\<lambda>x. if j_id x = j_id cur then apply_transition_row j x else x) (st_jobs st)"
    using transition_row_set [OF tr inv] .
  note hold = transition_holding [OF tr inv known] and hist = transition_history(2) [OF tr]
  have legal: "can_transition (j_state cur) to" using transition_Inr(1) [OF tr] .
  have j: "j_state j = to" using transition_Inr(2) [OF tr] by simp
  from y obtain x where x: "x \<in> set (st_jobs st)"
    and yx: "y = (if j_id x = j_id cur then apply_transition_row j x else x)"
    unfolding jobs by auto
  note old = store_invD(3,8,9) [OF inv x]
  show ?thesis
  proof (cases "j_id x = j_id cur")
    case True
    have cx: "j_currency x = j_currency cur"
      using known_job_matching [OF inv known x True] by (simp add: same_identity_def)
    have sx: "j_state x = j_state cur"
      using map_of_fst_distinct [OF store_invD(2) [OF inv] x r(1)] r True by simp
    then have live: "j_state x \<notin> set TERMINAL" using legal by auto
    have "money_ok st' y"
      using old(2) yx True cx hold j live by (simp add: money_ok_def split: if_splits)
    moreover have "history_ok st' y"
      using old(3) yx True hist j sx legal by (simp add: history_ok_def replay_append)
    ultimately show ?thesis using old(1) yx True by simp
  next
    case False
    then show ?thesis using old yx hold hist by (simp add: money_ok_def history_ok_def)
  qed
qed

lemma transition_inv [inv_intros]:
  assumes tr: "transition st cur to reason [] b h ec clr = Inr (j, st')"
    and inv: "store_inv st" and known: "known_job st cur"
  shows "store_inv st'"
proof (rule store_inv_step [OF inv])
  obtain r where jobs: "st_jobs st' = map (\<lambda>x. if j_id x = j_id cur then apply_transition_row j x else x) (st_jobs st)"
    using transition_row_set [OF tr inv] .
  then show "map j_id (st_jobs st') = map j_id (st_jobs st)" by simp
  show "st_users st' = st_users st" unfolding transition_Inr(4) [OF tr] by simp
  show "e \<in> set (st_ledger st') \<Longrightarrow> e \<in> set (st_ledger st) \<or>
      (whole_cents (l_amount e) \<and> 0 \<le> l_amount e \<and> (\<forall>x. l_job e = Some x \<longrightarrow> x \<in> j_id ` set (st_jobs st)))" for e
    using transition_ledger_rows [OF tr, of e] known_job_id [OF known] by (metis option.inject)
  show "t \<in> set (st_transitions st') \<Longrightarrow> t \<in> set (st_transitions st) \<or> tr_job t \<in> j_id ` set (st_jobs st)" for t
    using known_job_id [OF known] unfolding transition_history(1) [OF tr] by auto
  show "y \<in> set (st_jobs st') \<Longrightarrow> money_ok st' y \<and> history_ok st' y \<and> j_user y \<in> u_id ` set (st_users st)" for y
    by (rule transition_rows_ok [OF tr inv known])
qed

subsection \<open>Settling, abandoning, administering\<close>

lemma settle_rows:
  "e \<in> set (st_ledger (settle st j a note)) \<Longrightarrow>
     e \<in> set (st_ledger st) \<or> (l_job e = Some (j_id j) \<and> l_amount e = quantize a (j_currency j) \<and> 0 < l_amount e)"
  by (auto simp: settle_def Let_def insert_ledger_def split: if_splits)

lemma settle_jobs:
  "st_jobs (settle st j a note) = map (\<lambda>r. if j_id r = j_id j \<and> 0 < quantize a (j_currency j)
     then r\<lparr>j_updated_at := st_now st\<rparr> else r) (st_jobs st)"
  by (auto simp: settle_def Let_def update_job_def)

lemma settle_money_ok:
  assumes inv: "store_inv st" and known: "known_job st j" and x: "x \<in> set (st_jobs st)"
    and pos: "0 < quantize a (j_currency j)"
    and fits: "quantize a (j_currency j) \<le> job_holding st (j_id j) (j_currency j)"
  shows "money_ok (settle st j a n) x"
proof (cases "j_id x = j_id j")
  case True
  have "j_currency x = j_currency j"
    using known_job_matching [OF inv known x True] by (simp add: same_identity_def)
  then show ?thesis
    using store_invD(8) [OF inv x] True settle_reads [OF pos] fits pos by (auto simp: money_ok_def)
next
  case False
  then show ?thesis using store_invD(8) [OF inv x] by (simp add: money_ok_def settle_reads_other)
qed

lemma settle_inv [inv_intros]:
  assumes inv: "store_inv st" and known: "known_job st j"
    and fits: "quantize a (j_currency j) \<le> job_holding st (j_id j) (j_currency j)"
  shows "store_inv (settle st j a n)"
proof (cases "0 < quantize a (j_currency j)")
  case False
  then show ?thesis using inv by (simp add: settle_def Let_def)
next
  case True
  let ?st = "settle st j a n"
  show ?thesis
  proof (rule store_inv_step [OF inv])
    show "map j_id (st_jobs ?st) = map j_id (st_jobs st)" by (simp add: settle_jobs)
    show "e \<in> set (st_ledger ?st) \<Longrightarrow> e \<in> set (st_ledger st) \<or>
        (whole_cents (l_amount e) \<and> 0 \<le> l_amount e \<and> (\<forall>x. l_job e = Some x \<longrightarrow> x \<in> j_id ` set (st_jobs st)))" for e
      using settle_rows [of e st j a n] known_job_id [OF known] by force
    fix y assume "y \<in> set (st_jobs ?st)"
    then obtain x where x: "x \<in> set (st_jobs st)"
      and yx: "y = (if j_id x = j_id j then x\<lparr>j_updated_at := st_now st\<rparr> else x)"
      using True by (auto simp: settle_jobs)
    have "money_ok ?st y = money_ok ?st x" unfolding yx by (rule money_ok_columns) simp_all
    moreover have "history_ok ?st y" using store_invD(9) [OF inv x] unfolding yx
      by (cases "j_id x = j_id j") (auto simp: history_ok_def history_def)
    ultimately show "money_ok ?st y \<and> history_ok ?st y \<and> j_user y \<in> u_id ` set (st_users st)"
      using settle_money_ok [OF inv known x True fits] store_invD(3) [OF inv x] yx by auto
  qed simp_all
qed

lemma record_abandoned_inv [inv_intros]:
  assumes inv: "store_inv st"
  shows "store_inv (snd (record_abandoned st h jid uid c burned note))"
proof -
  let ?st = "snd (record_abandoned st h jid uid c burned note)"
  have frame: "st_jobs ?st = st_jobs st" "st_users ?st = st_users st" "st_transitions ?st = st_transitions st"
    "\<And>x k. job_holding ?st x k = job_holding st x k" "\<And>x. job_settled ?st x = job_settled st x"
    by (simp_all add: record_abandoned_def Let_def)
  have rows: "e \<in> set (st_ledger st) \<or> (whole_cents (l_amount e) \<and> 0 \<le> l_amount e \<and>
      (\<forall>x. l_job e = Some x \<longrightarrow> x \<in> j_id ` set (st_jobs st)))" if "e \<in> set (st_ledger ?st)" for e
    using that by (auto simp: record_abandoned_def Let_def insert_ledger_def split: if_splits)
  have "money_ok ?st j = money_ok st j" "history_ok ?st j = history_ok st j" for j
    using frame by (simp_all add: money_ok_def history_ok_def history_def)
  then show ?thesis
    unfolding store_inv_def frame(1-3) using inv rows unfolding store_inv_def by metis
qed

lemma users_inv:
  assumes inv: "store_inv st" and "distinct (map u_id us)" and "u_id ` set (st_users st) \<subseteq> u_id ` set us"
  shows "store_inv (st\<lparr>st_users := us\<rparr>)"
proof -
  have "money_ok (st\<lparr>st_users := us\<rparr>) j = money_ok st j" "history_ok (st\<lparr>st_users := us\<rparr>) j = history_ok st j" for j
    by (rule money_ok_cong history_ok_cong; simp)+
  then show ?thesis using assms unfolding store_inv_def by (simp add: subset_iff)
qed

lemma update_users_inv [inv_intros]:
  assumes "store_inv st" and "\<And>u. u_id (f u) = u_id u"
  shows "store_inv (update_users uid f st)"
  unfolding update_users_def
proof (rule users_inv [OF assms(1)])
  let ?us = "map (\<lambda>u. if u_id u = uid then f u else u) (st_users st)"
  have ids: "map u_id ?us = map u_id (st_users st)" using assms(2) by simp
  show "distinct (map u_id ?us)" unfolding ids by (rule store_invD(1) [OF assms(1)])
  have "set (map u_id ?us) = set (map u_id (st_users st))" using ids by simp
  then show "u_id ` set (st_users st) \<subseteq> u_id ` set ?us" by (simp only: set_map)
qed

lemma upsert_user_inv [inv_intros]: "store_inv st \<Longrightarrow> store_inv (snd (upsert_user st uid d b g a))"
proof (cases "maybe_user st uid")
  case None
  assume inv: "store_inv st"
  have "uid \<notin> u_id ` set (st_users st)" using None maybe_user_iff by blast
  then have "store_inv (st\<lparr>st_users := st_users st @ [u]\<rparr>)" if "u_id u = uid" for u
    using that store_invD(1) [OF inv] by (intro users_inv [OF inv]) auto
  then show ?thesis using None by (simp add: upsert_user_def Let_def)
next
  case (Some u)
  assume "store_inv st"
  then show ?thesis using Some by (simp add: upsert_user_def Let_def update_users_inv)
qed

lemma suspend_user_inv [inv_intros]: "store_inv st \<Longrightarrow> suspend_user st uid r a = Inr (u, st') \<Longrightarrow> store_inv st'"
  by (auto simp: suspend_user_def Let_def split: sum.splits intro!: update_users_inv)

lemma restore_user_inv [inv_intros]: "store_inv st \<Longrightarrow> restore_user st uid = Inr (u, st') \<Longrightarrow> store_inv st'"
  by (auto simp: restore_user_def Let_def split: sum.splits intro!: update_users_inv)

subsection \<open>Everything else leaves the four tables alone or touches harmless columns\<close>

lemma append_row_frame [frame_simps, simp]:
  "st_now (append_row a b c d st) = st_now st" "st_cfg (append_row a b c d st) = st_cfg st"
  "st_users (append_row a b c d st) = st_users st" "st_jobs (append_row a b c d st) = st_jobs st"
  "st_transitions (append_row a b c d st) = st_transitions st" "st_ledger (append_row a b c d st) = st_ledger st"
  "st_samples (append_row a b c d st) = st_samples st"
  "st_notifications (append_row a b c d st) = st_notifications st"
  by (simp_all add: append_row_def)

lemma append_rows_frame [frame_simps, simp]:
  "st_now (append_rows a b ls st) = st_now st" "st_cfg (append_rows a b ls st) = st_cfg st"
  "st_users (append_rows a b ls st) = st_users st" "st_jobs (append_rows a b ls st) = st_jobs st"
  "st_transitions (append_rows a b ls st) = st_transitions st" "st_ledger (append_rows a b ls st) = st_ledger st"
  "st_samples (append_rows a b ls st) = st_samples st"
  "st_notifications (append_rows a b ls st) = st_notifications st"
  unfolding append_rows_def by (induction ls arbitrary: st) auto

lemma append_log_frame [frame_simps, simp]:
  "st_now (append_log st a b c) = st_now st" "st_cfg (append_log st a b c) = st_cfg st"
  "st_users (append_log st a b c) = st_users st" "st_jobs (append_log st a b c) = st_jobs st"
  "st_transitions (append_log st a b c) = st_transitions st" "st_ledger (append_log st a b c) = st_ledger st"
  "st_samples (append_log st a b c) = st_samples st"
  "st_notifications (append_log st a b c) = st_notifications st"
  by (simp_all add: append_log_def Let_def)

lemma record_schedule_observation_frame [frame_simps, simp]:
  "st_now (record_schedule_observation st a b c d e f g) = st_now st"
  "st_cfg (record_schedule_observation st a b c d e f g) = st_cfg st"
  "st_users (record_schedule_observation st a b c d e f g) = st_users st"
  "st_jobs (record_schedule_observation st a b c d e f g) = st_jobs st"
  "st_transitions (record_schedule_observation st a b c d e f g) = st_transitions st"
  "st_ledger (record_schedule_observation st a b c d e f g) = st_ledger st"
  "st_samples (record_schedule_observation st a b c d e f g) = st_samples st"
  "st_notifications (record_schedule_observation st a b c d e f g) = st_notifications st"
  by (simp_all add: record_schedule_observation_def Let_def)

lemma record_samples_frame [frame_simps, simp]:
  "st_now (record_samples st a b) = st_now st" "st_cfg (record_samples st a b) = st_cfg st"
  "st_users (record_samples st a b) = st_users st" "st_jobs (record_samples st a b) = st_jobs st"
  "st_transitions (record_samples st a b) = st_transitions st" "st_ledger (record_samples st a b) = st_ledger st"
  "st_notifications (record_samples st a b) = st_notifications st"
  by (simp_all add: record_samples_def)

lemma store_notify_frame [frame_simps, simp]:
  "st_now (snd (store_notify st a b c d)) = st_now st" "st_cfg (snd (store_notify st a b c d)) = st_cfg st"
  "st_users (snd (store_notify st a b c d)) = st_users st" "st_jobs (snd (store_notify st a b c d)) = st_jobs st"
  "st_transitions (snd (store_notify st a b c d)) = st_transitions st"
  "st_ledger (snd (store_notify st a b c d)) = st_ledger st"
  "st_samples (snd (store_notify st a b c d)) = st_samples st"
  by (simp_all add: store_notify_def Let_def)

lemma quiet_ops_inv [inv_intros]:
  "store_inv (append_log st a b c) = store_inv st"
  "store_inv (record_schedule_observation st a d e f g h k) = store_inv st"
  "store_inv (record_samples st a ss) = store_inv st"
  "store_inv (snd (store_notify st a b c m)) = store_inv st"
  "store_inv (append_row a n b c st) = store_inv st"
  "store_inv (append_rows a n ls st) = store_inv st"
  by (rule store_inv_cong; simp)+

lemma row_ops_inv [inv_intros]:
  assumes "store_inv st"
  shows "store_inv (snd (request_cancel st j actor))" "store_inv (snd (record_attempt st j))"
    "store_inv (snd (record_preemption st j))" "store_inv (snd (record_checkpoint st j step key))"
    "store_inv (snd (pin_tier st j tier reason))" "store_inv (snd (append_backend_logs st j lines))"
  using assms
  by (auto simp: request_cancel_def record_attempt_def record_preemption_def record_checkpoint_def
      pin_tier_def append_backend_logs_def Let_def quiet_ops_inv same_identity_def intro!: update_job_inv)

end
