(* ===== verification/Backend.thy ===== *)
theory Backend
  imports StoreInv
begin

text \<open>
  \<^verbatim>\<open>gpu_broker/backends/base.py\<close>: what the broker sees of capacity. The machines of all
  backends together are an external state of some type \<open>'e\<close>; a backend is a record of operations on
  it, each given the current time, each of which may raise and may change the external state.
  Broker code that works on the store and on machines is a function from a world (store and
  external state) to a result and a world: an exception does not undo what was written before it.
  The second half is a small calculus of triples for such functions.
\<close>

subsection \<open>The protocol\<close>

datatype backend_status =
    BS_PENDING | BS_READY | BS_RUNNING | BS_COMPLETED | BS_FAILED | BS_INTERRUPTED | BS_GONE

definition TERMINAL_STATUSES :: "backend_status list" where
  "TERMINAL_STATUSES = [BS_COMPLETED, BS_FAILED, BS_INTERRUPTED, BS_GONE]"

fun status_name :: "backend_status \<Rightarrow> string" where
  "status_name BS_PENDING = ''PENDING''"
| "status_name BS_READY = ''READY''"
| "status_name BS_RUNNING = ''RUNNING''"
| "status_name BS_COMPLETED = ''COMPLETED''"
| "status_name BS_FAILED = ''FAILED''"
| "status_name BS_INTERRUPTED = ''INTERRUPTED''"
| "status_name BS_GONE = ''GONE''"

type_synonym tags = "(string \<times> string) list"

record allocation =
  al_handle :: string
  al_gpu_type :: string
  al_tags :: tags

record observation =
  os_status :: backend_status
  os_exit_code :: "int option"
  os_detail :: "string option"

record utilization_sample =
  ut_at :: pyfloat
  ut_gpu_percent :: pyfloat
  ut_memory_mb :: int

record resource =
  rs_handle :: string
  rs_gpu_type :: string
  rs_status :: backend_status
  rs_tags :: tags

definition rs_job_id :: "resource \<Rightarrow> string option" where
  "rs_job_id r = map_of (rs_tags r) ''broker-job-id''"

definition rs_user_id :: "resource \<Rightarrow> string option" where
  "rs_user_id r = map_of (rs_tags r) ''broker-user''"

definition tags_for :: "job \<Rightarrow> string \<Rightarrow> tags" where
  "tags_for j launched_at_iso =
     [(''broker-job-id'', j_id j), (''broker-user'', j_user j), (''broker-launched-at'', launched_at_iso)]"

type_synonym ('e, 'a) ext_op = "moment \<Rightarrow> 'e \<Rightarrow> (error, 'a) result \<times> 'e"

text \<open>\<open>bk_tier\<close> is \<^const>\<open>None\<close> when the object has no attribute \<open>tier\<close>.\<close>

record 'e backend =
  bk_name :: string
  bk_currency :: currency
  bk_tier :: "string option"
  bk_supports :: "string \<Rightarrow> bool"
  bk_free_slots :: "string \<Rightarrow> ('e, int) ext_op"
  bk_launch :: "job \<Rightarrow> ('e, allocation) ext_op"
  bk_start :: "string \<Rightarrow> job \<Rightarrow> ('e, unit) ext_op"
  bk_poll :: "string \<Rightarrow> ('e, observation) ext_op"
  bk_validate_launch :: "job \<Rightarrow> ('e, string) ext_op"
  bk_fetch_logs :: "string \<Rightarrow> nat \<Rightarrow> ('e, (string \<times> string) list) ext_op"
  bk_terminate :: "string \<Rightarrow> string \<Rightarrow> ('e, unit) ext_op"
  bk_list_resources :: "('e, resource list) ext_op"
  bk_sample_utilization :: "string \<Rightarrow> ('e, utilization_sample list) ext_op"

text \<open>One complete checkpoint, and the only question the scheduler asks of a checkpoint store: the
  newest complete checkpoint of a job.\<close>

record checkpoint_ref =
  cr_job :: string
  cr_step :: int
  cr_key :: string
  cr_written_at :: moment
  cr_files :: "string list"
  cr_bytes :: int

type_synonym 'e checkpoint_reader = "string \<Rightarrow> ('e, checkpoint_ref option) ext_op"

subsection \<open>Broker code over a world\<close>

record 'e world =
  w_store :: store
  w_ext :: 'e

type_synonym ('e, 'a) act = "'e world \<Rightarrow> (error, 'a) result \<times> 'e world"

definition ret :: "'a \<Rightarrow> ('e, 'a) act" where
  "ret a w = (Inr a, w)"

definition raise :: "error \<Rightarrow> ('e, 'a) act" where
  "raise e w = (Inl e, w)"

definition and_then :: "('e, 'a) act \<Rightarrow> ('a \<Rightarrow> ('e, 'b) act) \<Rightarrow> ('e, 'b) act" where
  "and_then m k w = (case m w of (Inl e, w') \<Rightarrow> (Inl e, w') | (Inr a, w') \<Rightarrow> k a w')"

text \<open>Reading the store, writing it, and a store operation that may raise.\<close>

definition reads :: "(store \<Rightarrow> 'a) \<Rightarrow> ('e, 'a) act" where
  "reads f w = (Inr (f (w_store w)), w)"

definition reads_try :: "(store \<Rightarrow> (error, 'a) result) \<Rightarrow> ('e, 'a) act" where
  "reads_try f w = (f (w_store w), w)"

definition writes :: "(store \<Rightarrow> store) \<Rightarrow> ('e, unit) act" where
  "writes f w = (Inr (), w\<lparr>w_store := f (w_store w)\<rparr>)"

definition writes_with :: "(store \<Rightarrow> 'a \<times> store) \<Rightarrow> ('e, 'a) act" where
  "writes_with f w = (Inr (fst (f (w_store w))), w\<lparr>w_store := snd (f (w_store w))\<rparr>)"

definition writes_try :: "(store \<Rightarrow> (error, 'a \<times> store) result) \<Rightarrow> ('e, 'a) act" where
  "writes_try f w =
     (case f (w_store w) of Inl e \<Rightarrow> (Inl e, w) | Inr (a, st) \<Rightarrow> (Inr a, w\<lparr>w_store := st\<rparr>))"

text \<open>A call of a backend: it sees the clock and its own machines.\<close>

definition calls :: "('e, 'a) ext_op \<Rightarrow> ('e, 'a) act" where
  "calls op w = (case op (st_now (w_store w)) (w_ext w) of (r, e) \<Rightarrow> (r, w\<lparr>w_ext := e\<rparr>))"

definition is_backend_error :: "error \<Rightarrow> bool" where
  "is_backend_error e = (case e of BackendError _ \<Rightarrow> True | _ \<Rightarrow> False)"

definition error_text :: "error \<Rightarrow> string" where
  "error_text e = (case e of BackendError s \<Rightarrow> s | CheckpointError s \<Rightarrow> s | PricingError s \<Rightarrow> s | _ \<Rightarrow> '''')"

text \<open>\<open>try: m except <class>: h\<close>.\<close>

definition catching :: "(error \<Rightarrow> bool) \<Rightarrow> ('e, 'a) act \<Rightarrow> (error \<Rightarrow> ('e, 'a) act) \<Rightarrow> ('e, 'a) act" where
  "catching caught m h w =
     (case m w of (Inl e, w') \<Rightarrow> if caught e then h e w' else (Inl e, w') | (Inr a, w') \<Rightarrow> (Inr a, w'))"

text \<open>The loop \<open>for x in xs\<close> with an accumulator.\<close>

fun for_each :: "('x \<Rightarrow> 'a \<Rightarrow> ('e, 'a) act) \<Rightarrow> 'x list \<Rightarrow> 'a \<Rightarrow> ('e, 'a) act" where
  "for_each f [] a = ret a"
| "for_each f (x # xs) a = and_then (f x a) (for_each f xs)"

subsection \<open>Triples\<close>

text \<open>\<open>triple P m Q E\<close>: from a world with \<open>P\<close>, the code either returns a value in a world with
  \<open>Q\<close>, or raises and leaves a world with \<open>E\<close>.\<close>

definition triple ::
  "('e world \<Rightarrow> bool) \<Rightarrow> ('e, 'a) act \<Rightarrow> ('a \<Rightarrow> 'e world \<Rightarrow> bool) \<Rightarrow> ('e world \<Rightarrow> bool) \<Rightarrow> bool"
where
  "triple P m Q E \<longleftrightarrow> (\<forall>w. P w \<longrightarrow> (case m w of (Inl _, w') \<Rightarrow> E w' | (Inr a, w') \<Rightarrow> Q a w'))"

named_theorems run_simps \<open>runs of broker code taken apart\<close>
named_theorems triple_rules \<open>triples for the building blocks of broker code\<close>

lemma tripleI: "(\<And>w. P w \<Longrightarrow> case m w of (Inl _, w') \<Rightarrow> E w' | (Inr a, w') \<Rightarrow> Q a w') \<Longrightarrow> triple P m Q E"
  by (simp add: triple_def)

lemma tripleD:
  "triple P m Q E \<Longrightarrow> P w \<Longrightarrow> m w = (Inr a, w') \<Longrightarrow> Q a w'"
  "triple P m Q E \<Longrightarrow> P w \<Longrightarrow> m w = (Inl x, w') \<Longrightarrow> E w'"
  unfolding triple_def by force+

lemma triple_ret: "(\<And>w. P w \<Longrightarrow> Q a w) \<Longrightarrow> triple P (ret a) Q E"
  by (simp add: triple_def ret_def)

lemma triple_raise: "(\<And>w. P w \<Longrightarrow> E w) \<Longrightarrow> triple P (raise e) Q E"
  by (simp add: triple_def raise_def)

lemma triple_then:
  assumes "triple P m R E" and "\<And>a. triple (R a) (k a) Q E"
  shows "triple P (and_then m k) Q E"
proof (rule tripleI)
  fix w assume p: "P w"
  obtain r w' where mw: "m w = (r, w')" by (cases "m w")
  show "case and_then m k w of (Inl _, w') \<Rightarrow> E w' | (Inr a, w') \<Rightarrow> Q a w'"
  proof (cases r)
    case (Inl e)
    then show ?thesis using tripleD(2) [OF assms(1) p] mw by (simp add: and_then_def)
  next
    case (Inr a)
    then have "R a w'" using tripleD(1) [OF assms(1) p] mw by simp
    with assms(2) [of a] show ?thesis using mw Inr by (simp add: and_then_def triple_def)
  qed
qed

lemma triple_if:
  "(c \<Longrightarrow> triple P m Q E) \<Longrightarrow> (\<not> c \<Longrightarrow> triple P n Q E) \<Longrightarrow> triple P (if c then m else n) Q E"
  by simp

lemma triple_weaken:
  assumes "triple P' m Q' E'" and "\<And>w. P w \<Longrightarrow> P' w" and "\<And>a w. Q' a w \<Longrightarrow> Q a w"
    and "\<And>w. E' w \<Longrightarrow> E w"
  shows "triple P m Q E"
proof (rule tripleI)
  fix w assume p: "P w"
  obtain r w' where mw: "m w = (r, w')" by (cases "m w")
  show "case m w of (Inl _, w') \<Rightarrow> E w' | (Inr a, w') \<Rightarrow> Q a w'"
    using tripleD [OF assms(1) assms(2) [OF p]] assms(3,4) mw by (cases r) simp_all
qed

text \<open>A fact that does not depend on the world: into the context, or through the code.\<close>

lemma triple_fact: "(\<phi> \<Longrightarrow> triple P m Q E) \<Longrightarrow> triple (\<lambda>w. P w \<and> \<phi>) m Q E"
  by (simp add: triple_def)

lemma triple_keep_fact:
  assumes "triple P m Q E"
  shows "triple (\<lambda>w. P w \<and> \<phi>) m (\<lambda>a w. Q a w \<and> \<phi>) E"
  by (rule triple_fact) (rule triple_weaken [OF assms], simp_all)

lemma triple_reads: "(\<And>w. P w \<Longrightarrow> Q (f (w_store w)) w) \<Longrightarrow> triple P (reads f) Q E"
  by (simp add: triple_def reads_def)

lemma triple_reads_try:
  "(\<And>w a. P w \<Longrightarrow> f (w_store w) = Inr a \<Longrightarrow> Q a w) \<Longrightarrow> (\<And>w. P w \<Longrightarrow> E w) \<Longrightarrow> triple P (reads_try f) Q E"
  by (auto simp: triple_def reads_try_def split: sum.splits)

lemma triple_writes:
  "(\<And>w. P w \<Longrightarrow> Q () (w\<lparr>w_store := f (w_store w)\<rparr>)) \<Longrightarrow> triple P (writes f) Q E"
  by (simp add: triple_def writes_def)

lemma triple_writes_with:
  "(\<And>w. P w \<Longrightarrow> Q (fst (f (w_store w))) (w\<lparr>w_store := snd (f (w_store w))\<rparr>)) \<Longrightarrow> triple P (writes_with f) Q E"
  by (simp add: triple_def writes_with_def)

lemma triple_writes_try:
  "(\<And>w a st. P w \<Longrightarrow> f (w_store w) = Inr (a, st) \<Longrightarrow> Q a (w\<lparr>w_store := st\<rparr>)) \<Longrightarrow>
   (\<And>w. P w \<Longrightarrow> E w) \<Longrightarrow> triple P (writes_try f) Q E"
  by (auto simp: triple_def writes_try_def split: sum.splits)

text \<open>A predicate of the store alone does not notice what happens to the machines.\<close>

lemma triple_calls:
  "(\<And>w. P w \<Longrightarrow> S (w_store w)) \<Longrightarrow> (\<And>w. S (w_store w) \<Longrightarrow> E w) \<Longrightarrow>
     triple P (calls op) (\<lambda>_ w. S (w_store w)) E"
  by (simp add: triple_def calls_def split: prod.splits sum.splits)

lemma triple_catching:
  assumes "triple P m Q R" and "\<And>e. triple R (h e) Q E" and "\<And>w. R w \<Longrightarrow> E w"
  shows "triple P (catching c m h) Q E"
proof (rule tripleI)
  fix w assume p: "P w"
  obtain r w' where mw: "m w = (r, w')" by (cases "m w")
  show "case catching c m h w of (Inl _, w') \<Rightarrow> E w' | (Inr a, w') \<Rightarrow> Q a w'"
  proof (cases r)
    case (Inl e)
    then have "R w'" using assms(1) p mw tripleD(2) by fast
    then show ?thesis using assms(2,3) mw Inl unfolding triple_def catching_def by simp
  next
    case (Inr a)
    then show ?thesis using tripleD(1) [OF assms(1) p] mw by (simp add: catching_def)
  qed
qed

lemma triple_for_each:
  assumes "\<And>x a pre rest. xs = pre @ x # rest \<Longrightarrow>
      triple (I pre a) (f x a) (\<lambda>a. I (pre @ [x]) a) E"
  shows "triple (I [] a) (for_each f xs a) (I xs) E"
proof -
  have gen: "triple (I pre a) (for_each f rest a) (I xs) E" if "xs = pre @ rest" for pre rest a
    using that
  proof (induction rest arbitrary: pre a)
    case Nil
    then show ?case by (simp add: triple_ret)
  next
    case (Cons x rest)
    show ?case unfolding for_each.simps
      by (rule triple_then [OF assms [OF Cons.prems]]) (rule Cons.IH, simp add: Cons.prems)
  qed
  show ?thesis by (rule gen) simp
qed

text \<open>What a finished run says about its parts.\<close>

lemma run_Inr [run_simps]:
  "ret a w = (Inr b, w') \<longleftrightarrow> a = b \<and> w' = w"
  "raise e w = (Inr b, w') \<longleftrightarrow> False"
  "reads f w = (Inr b, w') \<longleftrightarrow> b = f (w_store w) \<and> w' = w"
  "reads_try g w = (Inr b, w') \<longleftrightarrow> g (w_store w) = Inr b \<and> w' = w"
  "writes_try h w = (Inr c, w') \<longleftrightarrow> (\<exists>st. h (w_store w) = Inr (c, st) \<and> w' = w\<lparr>w_store := st\<rparr>)"
  "and_then m k w = (Inr d, w') \<longleftrightarrow> (\<exists>a w1. m w = (Inr a, w1) \<and> k a w1 = (Inr d, w'))"
  by (auto simp: ret_def raise_def reads_def reads_try_def writes_try_def and_then_def split: sum.splits prod.splits)

lemma run_Inl [run_simps]:
  "ret a w = (Inl e, w') \<longleftrightarrow> False"
  "raise e' w = (Inl e, w') \<longleftrightarrow> e' = e \<and> w' = w"
  "reads f w = (Inl e, w') \<longleftrightarrow> False"
  "reads_try g w = (Inl e, w') \<longleftrightarrow> g (w_store w) = Inl e \<and> w' = w"
  "writes_try h w = (Inl e, w') \<longleftrightarrow> h (w_store w) = Inl e \<and> w' = w"
  "and_then m k w = (Inl e, w') \<longleftrightarrow>
     m w = (Inl e, w') \<or> (\<exists>a w1. m w = (Inr a, w1) \<and> k a w1 = (Inl e, w'))"
  by (auto simp: ret_def raise_def reads_def reads_try_def writes_try_def and_then_def split: sum.splits prod.splits)

lemmas [triple_rules] = triple_ret triple_raise triple_reads triple_writes triple_writes_with

end
