(* ===== verification/Admission.thy ===== *)
theory Admission
  imports StoreInv
begin

text \<open>
  \<^verbatim>\<open>gpu_broker/admission.py\<close>: whether a submission is allowed in. \<open>validate_request\<close> raises on
  nonsense; the four checks return a refusal, which the broker records. The default reservation
  and the ceiling warning share one notion of billable hours. A refusal's sentence is rendered
  from the same amounts as the source; Python's \<open>:g\<close> format is \<open>show_general\<close>.
\<close>

definition validate_request :: "broker_config \<Rightarrow> string \<Rightarrow> pyfloat \<Rightarrow> string \<Rightarrow> (error, unit) result" where
  "validate_request cfg gpu hours command =
     (case config_gpu cfg gpu of
        Inl e \<Rightarrow> Inl e
      | Inr _ \<Rightarrow>
          if hours \<le> 0 then Inl (BrokerError (HoursNotPositive hours))
          else if hours > c_max_job_hours cfg then Inl (BrokerError (HoursOverLimit hours (c_max_job_hours cfg)))
          else if int (length command) > c_max_command_bytes cfg
          then Inl (BrokerError (CommandTooLong (length command) (c_max_command_bytes cfg)))
          else Inr ())"

definition billable_hours :: "broker_config \<Rightarrow> pyfloat \<Rightarrow> pyfloat" where
  "billable_hours cfg hours = hours + c_startup_allowance_hours cfg"

definition default_reservation :: "broker_config \<Rightarrow> string \<Rightarrow> pyfloat \<Rightarrow> (error, decimal) result" where
  "default_reservation cfg gpu hours =
     (case config_gpu cfg gpu of
        Inl e \<Rightarrow> Inl e
      | Inr g \<Rightarrow> Inr (quantize (g_hourly_price g * money (billable_hours cfg hours)) (g_currency g)))"

definition msg_job_cap :: "decimal \<Rightarrow> decimal \<Rightarrow> currency \<Rightarrow> string" where
  "msg_job_cap reserved cap cur =
     ''refused: this job reserves '' @ fmt reserved cur @ '', over the per-job cap of '' @ fmt cap cur @
     '' (short '' @ fmt (quantize (reserved - cap) cur) cur @
     ''). Lower --hours, or set --budget under the cap to stop it early.''"

definition check_job_cap :: "broker_config \<Rightarrow> currency \<Rightarrow> decimal \<Rightarrow> refusal option" where
  "check_job_cap cfg cur reserved =
     (if reserved \<le> 0
      then Some \<lparr>rf_code = INVALID_BUDGET, rf_reason = ''--budget must be positive, got '' @ fmt reserved cur,
                 rf_shortfall = None, rf_currency = None\<rparr>
      else
        (let cap = max_job cfg cur
         in if reserved > cap
            then Some \<lparr>rf_code = JOB_CAP_EXCEEDED, rf_reason = msg_job_cap reserved cap cur,
                       rf_shortfall = Some (quantize (reserved - cap) cur), rf_currency = Some cur\<rparr>
            else None))"

definition msg_queue_depth :: "int \<Rightarrow> int \<Rightarrow> string" where
  "msg_queue_depth queued limit =
     ''refused: you already have '' @ show_int queued @ '' jobs waiting, which is the limit of '' @
     show_int limit @ ''. They go as capacity frees up; cancel one with `gpu cancel` if you would rather submit this instead.''"

definition check_queue_depth :: "broker_config \<Rightarrow> int \<Rightarrow> refusal option" where
  "check_queue_depth cfg queued =
     (if queued < c_max_queued_jobs_per_user cfg then None
      else Some \<lparr>rf_code = QUEUE_DEPTH_EXCEEDED,
                 rf_reason = msg_queue_depth queued (c_max_queued_jobs_per_user cfg),
                 rf_shortfall = None, rf_currency = None\<rparr>)"

definition msg_membership :: "string \<Rightarrow> string \<Rightarrow> string" where
  "msg_membership uid reason =
     ''refused: '' @ uid @ '' is suspended from the pool ('' @
     (if reason = [] then ''no reason recorded'' else reason) @
     ''). Ask an officer to restore you with `gpu admin restore '' @ uid @ ''`.''"

definition check_membership :: "user \<Rightarrow> refusal option" where
  "check_membership u =
     (if \<not> is_suspended u then None
      else Some \<lparr>rf_code = USER_SUSPENDED, rf_reason = msg_membership (u_id u) (u_suspended_reason u),
                 rf_shortfall = None, rf_currency = None\<rparr>)"

definition msg_user_budget :: "balance \<Rightarrow> decimal \<Rightarrow> decimal \<Rightarrow> string" where
  "msg_user_budget b reserved shortfall =
     (let c = b_currency b
      in ''refused: this job needs '' @ fmt reserved c @ '' but you have '' @ fmt (b_available b) c @
         '' left this month (short '' @ fmt shortfall c @ ''). Your '' @ fmt (b_budget b) c @
         '' budget is '' @ fmt (b_spent b) c @ '' spent and '' @ fmt (b_held b) c @ '' held by running jobs.'')"

definition check_user_budget :: "balance \<Rightarrow> decimal \<Rightarrow> refusal option" where
  "check_user_budget b reserved =
     (if reserved \<le> b_available b then None
      else
        (let shortfall = quantize (reserved - b_available b) (b_currency b)
         in Some \<lparr>rf_code = USER_BUDGET_EXCEEDED, rf_reason = msg_user_budget b reserved shortfall,
                  rf_shortfall = Some shortfall, rf_currency = Some (b_currency b)\<rparr>))"

text \<open>Python's \<open>{x:g}\<close>: six significant digits, trailing zeros dropped, scientific notation outside
  the exponents -4 to 5.\<close>

fun exponent10 :: "nat \<Rightarrow> real \<Rightarrow> int" where
  "exponent10 0 x = 0"
| "exponent10 (Suc n) x =
     (if x \<ge> 10 then exponent10 n (x / 10) + 1 else if x < 1 then exponent10 n (x * 10) - 1 else 0)"

definition strip_zeros :: "string \<Rightarrow> string" where
  "strip_zeros s = rev (dropWhile (\<lambda>c. c = CHR ''0'') (rev s))"

definition power10 :: "int \<Rightarrow> real" where
  "power10 e = (if 0 \<le> e then 10 ^ nat e else 1 / 10 ^ nat (- e))"

definition show_general :: "pyfloat \<Rightarrow> string" where
  "show_general x =
     (if x = 0 then ''0''
      else
        (let a = \<bar>x\<bar>; e0 = exponent10 400 a;
             m0 = round_half_even (a * power10 (5 - e0));
             (m, e) = (if m0 \<ge> 1000000 then (100000, e0 + 1) else (m0, e0));
             ds = show_nat (nat m);
             sgn_s = (if x < 0 then ''-'' else '''')
         in if e < - 4 \<or> e \<ge> 6
            then sgn_s @ take 1 ds @ (let f = strip_zeros (drop 1 ds) in if f = [] then '''' else ''.'' @ f) @
                 ''e'' @ (if e < 0 then ''-'' else ''+'') @ pad_left 2 (show_nat (nat \<bar>e\<bar>))
            else if e < 0
            then sgn_s @ ''0.'' @ replicate (nat (- e - 1)) (CHR ''0'') @ strip_zeros ds
            else sgn_s @ take (nat (e + 1)) ds @
                 (let f = strip_zeros (drop (nat (e + 1)) ds) in if f = [] then '''' else ''.'' @ f)))"

definition msg_ceiling :: "decimal \<Rightarrow> currency \<Rightarrow> pyfloat \<Rightarrow> string \<Rightarrow> pyfloat \<Rightarrow> decimal \<Rightarrow> string" where
  "msg_ceiling reserved cur usable gpu hours full_cost =
     ''heads up: '' @ fmt reserved cur @ '' buys about '' @ show_fixed 1 usable @ ''h of compute on '' @ gpu @
     '' (after startup), but you asked for '' @ show_general hours @
     ''h. The job will be stopped at its ceiling. Raise --budget to '' @ fmt full_cost cur @
     '' to run the full '' @ show_general hours @ ''h.''"

text \<open>\<open>usable\<close> divides by the hourly price, which a configured gpu type has positive.\<close>

definition ceiling_warning ::
  "broker_config \<Rightarrow> string \<Rightarrow> pyfloat \<Rightarrow> decimal \<Rightarrow> (error, string option) result"
where
  "ceiling_warning cfg gpu hours reserved =
     (case config_gpu cfg gpu of
        Inl e \<Rightarrow> Inl e
      | Inr g \<Rightarrow>
          (let full_cost = quantize (g_hourly_price g * money (billable_hours cfg hours)) (g_currency g)
           in if full_cost \<le> reserved then Inr None
              else Inr (Some (msg_ceiling reserved (g_currency g)
                     (max 0 (reserved / g_hourly_price g - c_startup_allowance_hours cfg)) gpu hours full_cost))))"

subsection \<open>Facts\<close>

lemma validate_request_Inr:
  "validate_request cfg gpu hours cmd = Inr () \<longleftrightarrow>
     (\<exists>g. config_gpu cfg gpu = Inr g) \<and> 0 < hours \<and> hours \<le> c_max_job_hours cfg \<and>
     int (length cmd) \<le> c_max_command_bytes cfg"
  by (auto simp: validate_request_def split: sum.splits)

lemma check_job_cap_None: "check_job_cap cfg cur r = None \<longleftrightarrow> 0 < r \<and> r \<le> max_job cfg cur"
  by (auto simp: check_job_cap_def Let_def)

lemma check_user_budget_None: "check_user_budget b r = None \<longleftrightarrow> r \<le> b_available b"
  by (simp add: check_user_budget_def Let_def)

lemma check_queue_depth_None: "check_queue_depth cfg q = None \<longleftrightarrow> q < c_max_queued_jobs_per_user cfg"
  by (simp add: check_queue_depth_def)

lemma check_membership_None: "check_membership u = None \<longleftrightarrow> \<not> is_suspended u"
  by (simp add: check_membership_def)

text \<open>
  A job that reserves the default amount for its hours gets no ceiling warning, and its
  reservation, multiplied out, pays for the requested hours and the startup allowance to within
  half a cent.
\<close>

theorem default_reservation_covers:
  assumes "default_reservation cfg gpu hours = Inr r"
  shows "ceiling_warning cfg gpu hours r = Inr None \<and> whole_cents r \<and>
    (\<exists>g. config_gpu cfg gpu = Inr g \<and> \<bar>r - g_hourly_price g * (hours + c_startup_allowance_hours cfg)\<bar> \<le> 1/200)"
  using assms quantize_error
  by (auto simp: default_reservation_def ceiling_warning_def Let_def billable_hours_def money_def split: sum.splits)

theorem default_reservation_covers_witness:
  "default_reservation (default_config (\<lambda>_. 0)) ''a6000'' 2 = Inr (225 / 100) \<and>
   ceiling_warning (default_config (\<lambda>_. 0)) ''a6000'' 2 (225 / 100) = Inr None"
proof -
  have "whole_cents (225 / 100)" by (simp add: whole_cents_def)
  then have d: "default_reservation (default_config (\<lambda>_. 0)) ''a6000'' 2 = Inr (225 / 100)"
    by (simp add: default_reservation_def config_gpu_def default_config_def DEFAULT_GPU_TYPES_def
        billable_hours_def money_def)
  then show ?thesis using default_reservation_covers [OF d] by blast
qed

end
