(* ===== verification/Placement.thy ===== *)
theory Placement
  imports Backend FairShare
begin

text \<open>
  \<^verbatim>\<open>gpu_broker/placement.py\<close>: the ordered tiers and the first backend with room. The two nested
  loops over tiers and the backends of a tier are one scan over the pairs in that order, with the
  early return of the source. The facts say that the scan is the first fit of the policy and that
  a pinned job never goes back to a tier above its pin.
\<close>

definition DEFAULT_ORDER :: "string list" where
  "DEFAULT_ORDER = [''local'', ''spot'', ''ondemand'']"

record 'e placement =
  pl_backend :: "'e backend option"
  pl_tier :: "string option"
  pl_reason :: string
  pl_skipped :: "(string \<times> string) list"

definition placed :: "'e placement \<Rightarrow> bool" where
  "placed p = (pl_backend p \<noteq> None)"

fun py_join :: "string \<Rightarrow> string list \<Rightarrow> string" where
  "py_join sep [] = ''''"
| "py_join sep [x] = x"
| "py_join sep (x # xs) = x @ sep @ py_join sep xs"

definition explain :: "'e placement \<Rightarrow> string" where
  "explain p = py_join [CHR 0x0A]
     (pl_reason p # map (\<lambda>(name, why). ''  skipped '' @ name @ '': '' @ why) (pl_skipped p))"

definition one_line :: "'e placement \<Rightarrow> string" where
  "one_line p =
     (case pl_backend p of
        Some b \<Rightarrow>
          (let skipped = py_join ''; '' (map (\<lambda>(name, why). name @ '' ('' @ why @ '')'') (pl_skipped p))
           in ''placed on '' @ bk_name b @ '' ['' @ (case pl_tier p of Some t \<Rightarrow> t | None \<Rightarrow> ''None'') @ '']: '' @
              pl_reason p @ (if skipped = [] then '''' else '' -- after '' @ skipped))
      | None \<Rightarrow> ''not placed: '' @ pl_reason p)"

definition tier_of :: "'e backend \<Rightarrow> string" where
  "tier_of b = (case bk_tier b of Some t \<Rightarrow> t | None \<Rightarrow> ''ondemand'')"

text \<open>Python's rendering of a list of names that hold no quotes.\<close>

definition show_names :: "string list \<Rightarrow> string" where
  "show_names ns = ''['' @ py_join '', '' (map (\<lambda>n. [CHR 0x27] @ n @ [CHR 0x27]) ns) @ '']''"

definition effective_order :: "broker_config \<Rightarrow> job \<Rightarrow> string list" where
  "effective_order cfg j =
     (let order = (if c_placement_order cfg = [] then DEFAULT_ORDER else c_placement_order cfg)
      in if truthy (j_pinned_tier j)
         then (let pin = the (j_pinned_tier j)
               in if pin \<notin> set order then [pin] else dropWhile (\<lambda>t. t \<noteq> pin) order)
         else order)"

definition tier_candidates :: "'e backend list \<Rightarrow> string list \<Rightarrow> (string \<times> 'e backend) list" where
  "tier_candidates backends order =
     concat (map (\<lambda>tier. map (Pair tier) (filter (\<lambda>b. tier_of b = tier) backends)) order)"

definition not_placed ::
  "'e backend list \<Rightarrow> string list \<Rightarrow> job \<Rightarrow> (string \<times> string) list \<Rightarrow> 'e placement"
where
  "not_placed backends order j skipped =
     (let unknown = filter (\<lambda>tier. \<not> list_ex (\<lambda>b. tier_of b = tier) backends) order
      in if unknown \<noteq> [] \<and> skipped = []
         then \<lparr>pl_backend = None, pl_tier = None,
               pl_reason = ''no backend is in any configured tier. placement_order is '' @ show_names order @
                 '' and the tiers present are '' @ show_names (sort (remdups (map tier_of backends))),
               pl_skipped = []\<rparr>
         else \<lparr>pl_backend = None, pl_tier = None,
               pl_reason = ''nothing has a free '' @ j_gpu_type j @ '' right now'', pl_skipped = skipped\<rparr>)"

definition placed_on :: "job \<Rightarrow> string \<Rightarrow> 'e backend \<Rightarrow> int \<Rightarrow> (string \<times> string) list \<Rightarrow> 'e placement" where
  "placed_on j tier b free skipped =
     \<lparr>pl_backend = Some b, pl_tier = Some tier,
      pl_reason = ''first tier in the policy with a free '' @ j_gpu_type j @ '' ('' @ show_int free @
        '' slot'' @ (if free \<noteq> 1 then ''s'' else '''') @ '' available)'',
      pl_skipped = skipped\<rparr>"

fun scan ::
  "'e backend list \<Rightarrow> string list \<Rightarrow> job \<Rightarrow> currency \<Rightarrow> (string \<times> 'e backend) list \<Rightarrow>
   (string \<times> string) list \<Rightarrow> ('e, 'e placement) act"
where
  "scan backends order j cur [] skipped = ret (not_placed backends order j skipped)"
| "scan backends order j cur ((tier, b) # rest) skipped =
     (if bk_currency b \<noteq> cur
      then scan backends order j cur rest (skipped @ [(bk_name b, ''bills in '' @ currency_name (bk_currency b) @
             '', '' @ j_gpu_type j @ '' is priced in '' @ currency_name cur)])
      else if \<not> bk_supports b (j_gpu_type j)
      then scan backends order j cur rest (skipped @ [(bk_name b, ''has no '' @ j_gpu_type j)])
      else and_then (calls (bk_free_slots b (j_gpu_type j))) (\<lambda>free.
        if free \<le> 0
        then scan backends order j cur rest
               (skipped @ [(bk_name b, ''no free '' @ j_gpu_type j @ '' right now'')])
        else ret (placed_on j tier b free skipped)))"

definition choose_placement :: "job \<Rightarrow> 'e backend list \<Rightarrow> broker_config \<Rightarrow> ('e, 'e placement) act" where
  "choose_placement j backends cfg =
     (case config_gpu cfg (j_gpu_type j) of
        Inl e \<Rightarrow> raise e
      | Inr gpu \<Rightarrow>
          (let order = effective_order cfg j
           in scan backends order j (g_currency gpu) (tier_candidates backends order) []))"

definition validate_order :: "string list \<Rightarrow> 'e backend list \<Rightarrow> (error, unit) result" where
  "validate_order order backends =
     (let missing = sort (remdups (filter (\<lambda>t. t \<notin> set order) (map tier_of backends)))
      in if missing \<noteq> [] then Inl (BrokerError (TiersNeverUsed missing)) else Inr ())"

subsection \<open>Facts\<close>

text \<open>Whether a backend could take the job, and whether it has room.\<close>

definition eligible :: "job \<Rightarrow> currency \<Rightarrow> 'e backend \<Rightarrow> bool" where
  "eligible j cur b \<longleftrightarrow> bk_currency b = cur \<and> bk_supports b (j_gpu_type j)"

lemma placed_on_simps [simp]:
  "pl_backend (placed_on j t b n sk) = Some b" "pl_tier (placed_on j t b n sk) = Some t"
  by (simp_all add: placed_on_def)

text \<open>A scan leaves the store alone, and what it places on is an eligible candidate.\<close>

definition placed_well :: "job \<Rightarrow> currency \<Rightarrow> (string \<times> 'e backend) list \<Rightarrow> 'e placement \<Rightarrow> bool" where
  "placed_well j cur cs p \<longleftrightarrow> (\<forall>b. pl_backend p = Some b \<longrightarrow>
     (\<exists>tier. (tier, b) \<in> set cs \<and> pl_tier p = Some tier \<and> eligible j cur b))"

lemma scan_triple:
  "triple (\<lambda>w. w_store w = s) (scan backends order j cur cs sk)
     (\<lambda>p w. w_store w = s \<and> placed_well j cur cs p) (\<lambda>w. w_store w = s)"
proof (induction cs arbitrary: sk)
  case Nil
  show ?case unfolding scan.simps by (rule triple_ret) (simp add: not_placed_def Let_def placed_well_def)
next
  case (Cons c cs)
  obtain tier b where c: "c = (tier, b)" by (cases c)
  have ih: "triple (\<lambda>w. w_store w = s) (scan backends order j cur cs sk)
     (\<lambda>p w. w_store w = s \<and> placed_well j cur ((tier, b) # cs) p) (\<lambda>w. w_store w = s)" for sk
    by (rule triple_weaken [OF Cons.IH]) (auto simp: placed_well_def)
  have call: "triple (\<lambda>w. w_store w = s) (calls (bk_free_slots b (j_gpu_type j))) (\<lambda>_ w. w_store w = s)
      (\<lambda>w. w_store w = s)"
    by (rule triple_calls)
  show ?case unfolding c scan.simps
  proof (intro triple_if triple_then [OF call] ih)
    assume "\<not> bk_currency b \<noteq> cur" "\<not> \<not> bk_supports b (j_gpu_type j)"
    then show "triple (\<lambda>w. w_store w = s) (ret (placed_on j tier b a sk))
      (\<lambda>p w. w_store w = s \<and> placed_well j cur ((tier, b) # cs) p) (\<lambda>w. w_store w = s)" for a
      by (intro triple_ret) (simp add: placed_well_def eligible_def)
  qed
qed

lemma choose_triple:
  "triple (\<lambda>w. w_store w = s) (choose_placement j backends cfg)
     (\<lambda>p w. w_store w = s \<and> (\<forall>b. pl_backend p = Some b \<longrightarrow>
        (\<exists>gpu. config_gpu cfg (j_gpu_type j) = Inr gpu \<and>
           placed_well j (g_currency gpu) (tier_candidates backends (effective_order cfg j)) p)))
     (\<lambda>w. w_store w = s)"
proof (cases "config_gpu cfg (j_gpu_type j)")
  case (Inr gpu)
  then show ?thesis unfolding choose_placement_def Let_def
    by simp (rule triple_weaken [OF scan_triple], auto)
qed (simp add: choose_placement_def triple_raise)

lemma tier_candidates_set:
  "(tier, b) \<in> set (tier_candidates backends order) \<longleftrightarrow> tier \<in> set order \<and> b \<in> set backends \<and> tier_of b = tier"
  by (auto simp: tier_candidates_def)

text \<open>The policy, stated as a search: the first pair in tier order whose backend is eligible and
  has a free slot.\<close>

definition first_fit ::
  "('e backend \<Rightarrow> int) \<Rightarrow> job \<Rightarrow> currency \<Rightarrow> (string \<times> 'e backend) list \<Rightarrow> (string \<times> 'e backend) option"
where
  "first_fit slots j cur cs = find (\<lambda>(tier, b). eligible j cur b \<and> 0 < slots b) cs"

lemma scan_first_fit:
  assumes "\<And>tier b. (tier, b) \<in> set cs \<Longrightarrow>
      bk_free_slots b (j_gpu_type j) (st_now (w_store w)) (w_ext w) = (Inr (slots b), w_ext w)"
  shows "\<exists>p. scan backends order j cur cs sk w = (Inr p, w) \<and>
    (case first_fit slots j cur cs of
       None \<Rightarrow> pl_backend p = None
     | Some (tier, b) \<Rightarrow> pl_backend p = Some b \<and> pl_tier p = Some tier)"
  using assms
proof (induction cs arbitrary: sk)
  case Nil
  then show ?case by (simp add: ret_def first_fit_def not_placed_def Let_def)
next
  case (Cons c cs)
  obtain tier b where c: "c = (tier, b)" by (cases c)
  have op: "calls (bk_free_slots b (j_gpu_type j)) w = (Inr (slots b), w)"
    using Cons.prems [of tier b] c by (simp add: calls_def)
  have ih: "\<exists>p. scan backends order j cur cs sk w = (Inr p, w) \<and>
    (case first_fit slots j cur cs of
       None \<Rightarrow> pl_backend p = None
     | Some (tier, b) \<Rightarrow> pl_backend p = Some b \<and> pl_tier p = Some tier)" for sk
    using Cons.IH Cons.prems by auto
  show ?case
  proof (cases "eligible j cur b \<and> 0 < slots b")
    case True
    then show ?thesis using op unfolding c
      by (simp add: and_then_def ret_def first_fit_def eligible_def)
  next
    case False
    then have "first_fit slots j cur (c # cs) = first_fit slots j cur cs" unfolding c by (auto simp: first_fit_def)
    moreover have "\<exists>sk'. scan backends order j cur (c # cs) sk w = scan backends order j cur cs sk' w"
      using False op unfolding c by (auto simp: and_then_def eligible_def)
    ultimately show ?thesis using ih by metis
  qed
qed

text \<open>
  When the backends answer how many slots they have free, \<^const>\<open>choose_placement\<close> is exactly the first
  fit of the placement policy: it returns the first backend, in tier order, that bills in the
  currency of the job's gpu type, offers that type and has a free slot, and places nothing only
  if there is none.
\<close>

theorem choose_is_first_fit:
  assumes "config_gpu cfg (j_gpu_type j) = Inr gpu"
    and "\<forall>b\<in>set backends. bk_free_slots b (j_gpu_type j) (st_now (w_store w)) (w_ext w) = (Inr (slots b), w_ext w)"
  shows "\<exists>p. choose_placement j backends cfg w = (Inr p, w) \<and>
    (case first_fit slots j (g_currency gpu) (tier_candidates backends (effective_order cfg j)) of
       None \<Rightarrow> \<not> placed p
     | Some (tier, b) \<Rightarrow> pl_backend p = Some b \<and> pl_tier p = Some tier)"
proof -
  have "\<exists>p. scan backends (effective_order cfg j) j (g_currency gpu)
      (tier_candidates backends (effective_order cfg j)) [] w = (Inr p, w) \<and>
    (case first_fit slots j (g_currency gpu) (tier_candidates backends (effective_order cfg j)) of
       None \<Rightarrow> pl_backend p = None
     | Some (tier, b) \<Rightarrow> pl_backend p = Some b \<and> pl_tier p = Some tier)"
    by (rule scan_first_fit) (use assms(2) in \<open>auto simp: tier_candidates_set\<close>)
  then show ?thesis unfolding placed_def not_not by (simp add: choose_placement_def assms(1) Let_def)
qed

text \<open>A backend with a fixed number of free slots that never fails, to evaluate policies on.\<close>

definition fixed_backend :: "string \<Rightarrow> currency \<Rightarrow> string \<Rightarrow> string list \<Rightarrow> int \<Rightarrow> 'e backend" where
  "fixed_backend name cur tier gpus slots =
     \<lparr>bk_name = name, bk_currency = cur, bk_tier = Some tier, bk_supports = (\<lambda>g. g \<in> set gpus),
      bk_free_slots = (\<lambda>g now e. (Inr slots, e)),
      bk_launch = (\<lambda>j now e. (Inr \<lparr>al_handle = name @ ''-'' @ j_id j, al_gpu_type = j_gpu_type j, al_tags = []\<rparr>, e)),
      bk_start = (\<lambda>h j now e. (Inr (), e)),
      bk_poll = (\<lambda>h now e. (Inr \<lparr>os_status = BS_RUNNING, os_exit_code = None, os_detail = None\<rparr>, e)),
      bk_validate_launch = (\<lambda>j now e. (Inr ''ok'', e)),
      bk_fetch_logs = (\<lambda>h after now e. (Inr [], e)),
      bk_terminate = (\<lambda>h r now e. (Inr (), e)),
      bk_list_resources = (\<lambda>now e. (Inr [], e)),
      bk_sample_utilization = (\<lambda>h now e. (Inr [], e))\<rparr>"

lemma fixed_backend_simps [simp]:
  "bk_name (fixed_backend n c t gs k) = n" "bk_currency (fixed_backend n c t gs k) = c"
  "tier_of (fixed_backend n c t gs k) = t" "bk_supports (fixed_backend n c t gs k) g = (g \<in> set gs)"
  "bk_free_slots (fixed_backend n c t gs k) g now e = (Inr k, e)"
  "bk_launch (fixed_backend n c t gs k) j now e =
     (Inr \<lparr>al_handle = n @ ''-'' @ j_id j, al_gpu_type = j_gpu_type j, al_tags = []\<rparr>, e)"
  by (simp_all add: fixed_backend_def tier_of_def)

theorem choose_is_first_fit_witness:
  "\<exists>p. choose_placement (demo_job ''a'' ''ada'' 0)
        [fixed_backend ''gce'' GPU_HOUR ''ondemand'' [''a6000''] 3, fixed_backend ''lab'' GPU_HOUR ''local'' [''a6000''] 3]
        (default_config (\<lambda>_. 0)) \<lparr>w_store = empty_store 0 (default_config (\<lambda>_. 0)), w_ext = ()\<rparr>
      = (Inr p, \<lparr>w_store = empty_store 0 (default_config (\<lambda>_. 0)), w_ext = ()\<rparr>) \<and>
    pl_backend p = Some (fixed_backend ''lab'' GPU_HOUR ''local'' [''a6000''] 3) \<and> pl_tier p = Some ''local''"
proof -
  let ?j = "demo_job ''a'' ''ada'' 0"
  let ?lab = "fixed_backend ''lab'' GPU_HOUR ''local'' [''a6000''] 3 :: unit backend"
  let ?bs = "[fixed_backend ''gce'' GPU_HOUR ''ondemand'' [''a6000''] 3, ?lab]"
  let ?cfg = "default_config (\<lambda>_. 0)"
  let ?w = "\<lparr>w_store = empty_store 0 ?cfg, w_ext = ()\<rparr>"
  have gpu: "\<exists>gpu. config_gpu ?cfg (j_gpu_type ?j) = Inr gpu \<and> g_currency gpu = GPU_HOUR"
    by (simp add: config_gpu_def DEFAULT_GPU_TYPES_def demo_job_def new_job_def)
  then obtain gpu where gpu: "config_gpu ?cfg (j_gpu_type ?j) = Inr gpu" "g_currency gpu = GPU_HOUR" by blast
  have "first_fit (\<lambda>_. 3) ?j GPU_HOUR (tier_candidates ?bs (effective_order ?cfg ?j)) = Some (''local'', ?lab)"
    by (simp add: first_fit_def tier_candidates_def effective_order_def eligible_def demo_job_def new_job_def)
  then show ?thesis
    using choose_is_first_fit [of ?cfg ?j gpu ?bs ?w "\<lambda>_. 3"] gpu by auto
qed

text \<open>
  Whatever the backends answer, a placement obeys the policy: the backend is one of those
  configured, sits in the tier named in the decision, bills in the currency of the job's gpu type
  and offers that type; the store is not touched; and a job pinned to a tier is never placed in a
  tier that the policy lists before its pin.
\<close>

theorem placement_respects_policy:
  assumes "choose_placement j backends cfg w = (Inr p, w')" and "pl_backend p = Some b"
  shows "b \<in> set backends \<and> pl_tier p = Some (tier_of b) \<and> bk_supports b (j_gpu_type j) \<and>
    (\<exists>gpu. config_gpu cfg (j_gpu_type j) = Inr gpu \<and> bk_currency b = g_currency gpu) \<and>
    w_store w' = w_store w \<and>
    (\<forall>pin. j_pinned_tier j = Some pin \<and> pin \<noteq> [] \<and> distinct (c_placement_order cfg) \<longrightarrow>
       tier_of b \<notin> set (takeWhile (\<lambda>t. t \<noteq> pin) (c_placement_order cfg)))"
proof -
  obtain gpu where st: "w_store w' = w_store w" and gpu: "config_gpu cfg (j_gpu_type j) = Inr gpu"
    and well: "placed_well j (g_currency gpu) (tier_candidates backends (effective_order cfg j)) p"
    using tripleD(1) [OF choose_triple _ assms(1)] assms(2) by blast
  from well assms(2) have b: "tier_of b \<in> set (effective_order cfg j)" "b \<in> set backends"
      "pl_tier p = Some (tier_of b)" "bk_currency b = g_currency gpu" "bk_supports b (j_gpu_type j)"
    by (auto simp: placed_well_def tier_candidates_set eligible_def)
  have "tier_of b \<notin> set (takeWhile (\<lambda>t. t \<noteq> pin) (c_placement_order cfg))"
    if pin: "j_pinned_tier j = Some pin" "pin \<noteq> []" and d: "distinct (c_placement_order cfg)" for pin
  proof (cases "pin \<in> set (c_placement_order cfg)")
    case True
    then have "c_placement_order cfg \<noteq> []" by auto
    then have "effective_order cfg j = dropWhile (\<lambda>t. t \<noteq> pin) (c_placement_order cfg)"
      using pin True by (simp add: effective_order_def)
    with b(1) d show ?thesis by (metis takeWhile_dropWhile_id distinct_append disjoint_iff)
  next
    case False
    show ?thesis
    proof (cases "c_placement_order cfg = []")
      case False': False
      then have "tier_of b = pin" using b(1) pin False by (simp add: effective_order_def)
      then show ?thesis using False by (meson set_takeWhileD)
    qed simp
  qed
  then show ?thesis using b st gpu by blast
qed

theorem placement_respects_policy_witness:
  "tier_of (fixed_backend ''gce'' GPU_HOUR ''ondemand'' [''a6000''] 3 :: unit backend)
     \<notin> set (takeWhile (\<lambda>t. t \<noteq> ''spot'') (c_placement_order (default_config (\<lambda>_. 0))))"
proof -
  let ?j = "(demo_job ''a'' ''ada'' 0)\<lparr>j_pinned_tier := Some ''spot''\<rparr>"
  let ?gce = "fixed_backend ''gce'' GPU_HOUR ''ondemand'' [''a6000''] 3 :: unit backend"
  let ?bs = "[fixed_backend ''lab'' GPU_HOUR ''local'' [''a6000''] 3, ?gce]"
  let ?cfg = "default_config (\<lambda>_. 0)"
  let ?w = "\<lparr>w_store = empty_store 0 ?cfg, w_ext = ()\<rparr>"
  have "choose_placement ?j ?bs ?cfg ?w = (Inr (placed_on ?j ''ondemand'' ?gce 3 []), ?w)"
    by (simp add: choose_placement_def config_gpu_def DEFAULT_GPU_TYPES_def demo_job_def new_job_def
        effective_order_def tier_candidates_def and_then_def calls_def ret_def)
  then have "\<forall>pin. j_pinned_tier ?j = Some pin \<and> pin \<noteq> [] \<and> distinct (c_placement_order ?cfg) \<longrightarrow>
       tier_of ?gce \<notin> set (takeWhile (\<lambda>t. t \<noteq> pin) (c_placement_order ?cfg))"
    using placement_respects_policy [of ?j ?bs ?cfg ?w _ ?w ?gce] placed_on_simps(1) by blast
  then show ?thesis by simp
qed

end
