(* ===== verification/Iso.thy ===== *)
theory Iso
  imports Money
begin

text \<open>
  Timestamps as text: \<open>to_iso\<close> and \<open>from_iso\<close> of \<^verbatim>\<open>gpu_broker/clock.py\<close>, and the date and time
  fields that Python's \<open>strftime\<close> prints. Reading covers the one format that \<open>to_iso\<close> writes,
  \<open>YYYY-MM-DDTHH:MM:SS.ffffff+00:00\<close>; the other forms \<open>fromisoformat\<close> accepts are never
  produced by the broker.
\<close>

text \<open>Year, month and day of a day number, and back, in the proleptic Gregorian calendar.\<close>

definition civil_date :: "int \<Rightarrow> int \<times> int \<times> int" where
  "civil_date days =
     (let doe = (days + 719468) mod 146097;
          yoe = (doe - doe div 1460 + doe div 36524 - doe div 146096) div 365;
          doy = doe - (365 * yoe + yoe div 4 - yoe div 100);
          mp = (5 * doy + 2) div 153
      in (fst (civil_year_month days), snd (civil_year_month days), doy - (153 * mp + 2) div 5 + 1))"

definition days_from_civil :: "int \<Rightarrow> int \<Rightarrow> int \<Rightarrow> int" where
  "days_from_civil y0 m d =
     (let y = (if m \<le> 2 then y0 - 1 else y0);
          era = y div 400;
          yoe = y - era * 400;
          doy = (153 * (if m > 2 then m - 3 else m + 9) + 2) div 5 + d - 1;
          doe = yoe * 365 + yoe div 4 - yoe div 100 + doy
      in era * 146097 + doe - 719468)"

definition two_digits :: "int \<Rightarrow> string" where
  "two_digits n = pad_left 2 (show_int n)"

definition show_date :: "moment \<Rightarrow> string" where
  "show_date t =
     (case civil_date (t div 86400000000) of
        (y, m, d) \<Rightarrow> pad_left 4 (show_int y) @ ''-'' @ two_digits m @ ''-'' @ two_digits d)"

definition show_time :: "moment \<Rightarrow> string" where
  "show_time t =
     (let s = (t mod 86400000000) div 1000000
      in two_digits (s div 3600) @ '':'' @ two_digits (s div 60 mod 60) @ '':'' @ two_digits (s mod 60))"

definition to_iso :: "moment \<Rightarrow> string" where
  "to_iso t = show_date t @ ''T'' @ show_time t @ ''.'' @ pad_left 6 (show_int (t mod 1000000)) @ ''+00:00''"

definition digit_of :: "char \<Rightarrow> int option" where
  "digit_of c = (let n = of_char c :: int in if 48 \<le> n \<and> n \<le> 57 then Some (n - 48) else None)"

fun read_digits :: "int \<Rightarrow> string \<Rightarrow> int option" where
  "read_digits acc [] = Some acc"
| "read_digits acc (c # cs) = (case digit_of c of None \<Rightarrow> None | Some d \<Rightarrow> read_digits (acc * 10 + d) cs)"

definition field_at :: "nat \<Rightarrow> nat \<Rightarrow> string \<Rightarrow> int option" where
  "field_at pos len s = read_digits 0 (take len (drop pos s))"

definition from_iso :: "string \<Rightarrow> moment option" where
  "from_iso s =
     (if length s = 32 \<and> s ! 4 = CHR ''-'' \<and> s ! 7 = CHR ''-'' \<and> s ! 10 = CHR ''T'' \<and> s ! 13 = CHR '':'' \<and>
         s ! 16 = CHR '':'' \<and> s ! 19 = CHR ''.'' \<and> drop 26 s = ''+00:00''
      then
        (case (field_at 0 4 s, field_at 5 2 s, field_at 8 2 s, field_at 11 2 s, field_at 14 2 s, field_at 17 2 s,
               field_at 20 6 s) of
           (Some y, Some mo, Some d, Some h, Some mi, Some se, Some us) \<Rightarrow>
             if 1 \<le> y \<and> 1 \<le> mo \<and> mo \<le> 12 \<and> 1 \<le> d \<and> civil_date (days_from_civil y mo d) = (y, mo, d) \<and>
                h < 24 \<and> mi < 60 \<and> se < 60
             then Some (days_from_civil y mo d * 86400000000 + (h * 3600 + mi * 60 + se) * 1000000 + us)
             else None
         | _ \<Rightarrow> None)
      else None)"

lemma to_iso_epoch: "to_iso 0 = ''1970-01-01T00:00:00.000000+00:00''"
  by code_simp


end
