(* ===== verification/Idle.thy ===== *)
theory Idle
  imports FairShare Iso
begin

text \<open>
  \<^verbatim>\<open>gpu_broker/idle.py\<close>: verdicts on running jobs, the warning, and the test that a reclaim must
  pass. A validated configuration asks for at least one sample, so the maximum over the samples is
  always taken over a non-empty list.
\<close>

definition IDLE_NOTIFICATION :: string where
  "IDLE_NOTIFICATION = ''idle-warning''"

record idle_verdict =
  v_job :: job
  v_idle :: bool
  v_reason :: string
  v_samples :: "sample list"
  v_idle_since :: "moment option"
  v_peak_percent :: pyfloat
  v_notified_at :: "moment option"
  v_grace_ends_at :: "moment option"
  v_wasted :: decimal
  v_currency :: currency

definition v_notified :: "idle_verdict \<Rightarrow> bool" where
  "v_notified v = (v_notified_at v \<noteq> None)"

definition idle_hours :: "idle_verdict \<Rightarrow> moment \<Rightarrow> pyfloat" where
  "idle_hours v now =
     (case v_idle_since v of None \<Rightarrow> 0 | Some t \<Rightarrow> max 0 (hours_of (now - t)))"

definition pad_blank :: "nat \<Rightarrow> string \<Rightarrow> string" where
  "pad_blank w s = replicate (w - length s) (CHR '' '') @ s"

text \<open>The last eight samples, one per line.\<close>

definition evidence :: "idle_verdict \<Rightarrow> string" where
  "evidence v =
     (let shown = drop (length (v_samples v) - 8) (v_samples v);
          line = (\<lambda>s. ''  '' @ show_date (sm_at s) @ '' '' @ show_time (sm_at s) @ ''  gpu '' @
                   pad_blank 5 (show_fixed 1 (sm_gpu_percent s)) @ ''%  '' @ show_int (sm_memory_mb s) @ ''MB'')
      in concat (map (\<lambda>(i, s). (if i = 0 then '''' else [CHR 0x0A]) @ line s) (enumerate 0 shown)))"

definition last_notified :: "store \<Rightarrow> job \<Rightarrow> moment option" where
  "last_notified st j =
     (case rev (notifications_for_job st (j_id j) (Some IDLE_NOTIFICATION)) of [] \<Rightarrow> None | n # _ \<Rightarrow> Some (n_at n))"

text \<open>The walk back from the newest sample to the last one above the threshold.\<close>

fun quiet_since :: "pyfloat \<Rightarrow> moment \<Rightarrow> sample list \<Rightarrow> moment" where
  "quiet_since threshold since [] = since"
| "quiet_since threshold since (s # older) =
     (if sm_gpu_percent s > threshold then since else quiet_since threshold (sm_at s) older)"

definition idle_since :: "store \<Rightarrow> job \<Rightarrow> broker_config \<Rightarrow> sample list \<Rightarrow> moment" where
  "idle_since st j cfg window_samples =
     (case rev (samples_for st (j_id j) None 20000) of
        [] \<Rightarrow> sm_at (hd window_samples)
      | newest # older \<Rightarrow> quiet_since (c_idle_threshold_percent cfg) (sm_at newest) (newest # older))"

definition peak_percent :: "sample list \<Rightarrow> pyfloat" where
  "peak_percent ss = (case map sm_gpu_percent ss of [] \<Rightarrow> 0 | p # ps \<Rightarrow> foldl max p ps)"

definition evaluate :: "store \<Rightarrow> job \<Rightarrow> broker_config \<Rightarrow> (error, idle_verdict) result" where
  "evaluate st j cfg =
     (let now = st_now st;
          samples = samples_for st (j_id j) (Some (now - timedelta_minutes (c_idle_window_minutes cfg))) 5000;
          notified = last_notified st j;
          grace_ends = map_option (\<lambda>t. t + timedelta_minutes (c_idle_grace_minutes cfg)) notified;
          window = show_general (c_idle_window_minutes cfg);
          quiet = \<lparr>v_job = j, v_idle = False, v_reason = '''', v_samples = samples, v_idle_since = None,
                   v_peak_percent = 0, v_notified_at = notified, v_grace_ends_at = grace_ends,
                   v_wasted = 0, v_currency = USD\<rparr>
      in if int (length samples) < c_idle_min_samples cfg
         then Inr (quiet\<lparr>v_reason := ''only '' @ show_nat (length samples) @ '' sample(s) in the last '' @ window @
                '' minutes; needs '' @ show_int (c_idle_min_samples cfg) @ '' before anything is decided''\<rparr>)
         else
           (let peak = peak_percent samples
            in if peak > c_idle_threshold_percent cfg
               then Inr (quiet\<lparr>v_reason := ''peaked at '' @ show_fixed 1 peak @ ''% in the last '' @ window @
                      '' minutes'', v_peak_percent := peak\<rparr>)
               else
                 (let since = idle_since st j cfg samples; hours = max 0 (hours_of (now - since))
                  in case config_gpu cfg (j_gpu_type j) of
                       Inl e \<Rightarrow> Inl e
                     | Inr price \<Rightarrow>
                         Inr (quiet\<lparr>v_idle := True,
                            v_reason := ''never went above '' @ show_general (c_idle_threshold_percent cfg) @ ''% across '' @
                              show_nat (length samples) @ '' samples over '' @ window @ '' minutes'',
                            v_idle_since := Some since, v_peak_percent := peak,
                            v_wasted := quantize (money (g_hourly_price price) * money hours) (g_currency price),
                            v_currency := g_currency price\<rparr>))))"

definition msg_idle_warning :: "idle_verdict \<Rightarrow> broker_config \<Rightarrow> string" where
  "msg_idle_warning v cfg =
     (let j = v_job v
      in ''Job '' @ short_id j @ '' ('' @ take 60 (j_command j) @ '') has used no GPU for '' @
         show_general (c_idle_window_minutes cfg) @ '' minutes -- it never went above '' @
         show_fixed 1 (v_peak_percent v) @ ''%. It has spent '' @ fmt (v_wasted v) (v_currency v) @
         '' doing nothing. If it is still working, ignore this. Otherwise it will be listed for reclaim in '' @
         show_general (c_idle_grace_minutes cfg) @ '' minutes. Run `gpu status '' @ short_id j @
         ''` to see the samples.'')"

definition idle_notify :: "store \<Rightarrow> idle_verdict \<Rightarrow> broker_config \<Rightarrow> idle_verdict \<times> store" where
  "idle_notify st v cfg =
     (if v_notified v \<or> \<not> v_idle v then (v, st)
      else
        (let j = v_job v;
             (record1, st1) = store_notify st (j_user j) IDLE_NOTIFICATION (msg_idle_warning v cfg) (Some (j_id j));
             st2 = append_log st1 (j_id j) ''broker'' (''idle warning sent to '' @ j_user j)
         in (v\<lparr>v_notified_at := Some (n_at record1),
               v_grace_ends_at := Some (n_at record1 + timedelta_minutes (c_idle_grace_minutes cfg))\<rparr>, st2)))"

definition reclaimable :: "idle_verdict \<Rightarrow> moment \<Rightarrow> bool \<times> string" where
  "reclaimable v now =
     (if \<not> v_idle v then (False, ''not idle'')
      else if \<not> v_notified v then (False, ''nobody has been told yet'')
      else
        (case v_grace_ends_at v of
           None \<Rightarrow> (False, ''no grace period recorded'')
         | Some ends \<Rightarrow>
             if now < ends
             then (False, show_fixed 0 (total_seconds (ends - now) / 60) @ '' minutes of grace left'')
             else (True, ''idle, notified, and out of grace'')))"

fun evaluate_all :: "store \<Rightarrow> broker_config \<Rightarrow> job list \<Rightarrow> (error, idle_verdict list) result" where
  "evaluate_all st cfg [] = Inr []"
| "evaluate_all st cfg (j # js) =
     (case evaluate st j cfg of
        Inl e \<Rightarrow> Inl e
      | Inr v \<Rightarrow> (case evaluate_all st cfg js of Inl e \<Rightarrow> Inl e | Inr vs \<Rightarrow> Inr (v # vs)))"

definition candidates :: "store \<Rightarrow> broker_config \<Rightarrow> (error, idle_verdict list) result" where
  "candidates st cfg =
     (case evaluate_all st cfg (list_jobs st None (Some ACTIVE) None) of
        Inl e \<Rightarrow> Inl e
      | Inr vs \<Rightarrow> Inr (sort_key (\<lambda>v. - v_wasted v) (filter v_idle vs)))"

subsection \<open>Facts\<close>

lemma idle_notify_inv [inv_intros]: "store_inv (snd (idle_notify st v cfg)) = store_inv st"
  by (simp add: idle_notify_def Let_def split_def quiet_ops_inv)

lemma idle_notify_frame [frame_simps, simp]:
  "st_now (snd (idle_notify st v cfg)) = st_now st" "st_cfg (snd (idle_notify st v cfg)) = st_cfg st"
  "st_users (snd (idle_notify st v cfg)) = st_users st" "st_jobs (snd (idle_notify st v cfg)) = st_jobs st"
  "st_transitions (snd (idle_notify st v cfg)) = st_transitions st"
  "st_ledger (snd (idle_notify st v cfg)) = st_ledger st"
  by (simp_all add: idle_notify_def Let_def split_def)

lemma foldl_max_ge: "(p :: real) \<le> foldl max p ps"
proof (induction ps arbitrary: p)
  case (Cons q ps)
  from Cons.IH [of "max p q"] show ?case by simp
qed simp

lemma foldl_max_upper: "x \<in> set ps \<Longrightarrow> (x :: real) \<le> foldl max p ps"
proof (induction ps arbitrary: p)
  case (Cons q ps)
  show ?case
  proof (cases "x = q")
    case True
    then show ?thesis using foldl_max_ge [of "max p q" ps] by simp
  next
    case False
    then show ?thesis using Cons by simp
  qed
qed simp

lemma peak_percent_upper: "s \<in> set ss \<Longrightarrow> sm_gpu_percent s \<le> peak_percent ss"
proof (cases ss)
  case (Cons t ts)
  assume "s \<in> set ss"
  then show ?thesis using foldl_max_ge [of "sm_gpu_percent t"] foldl_max_upper Cons
    by (auto simp: peak_percent_def)
qed simp

lemma samples_for_set:
  "s \<in> set (samples_for st jid (Some t) n) \<Longrightarrow> (jid, s) \<in> set (st_samples st) \<and> t \<le> sm_at s"
  by (auto simp: samples_for_def dest!: in_set_takeD)

lemma last_notified_Some:
  assumes "last_notified st j = Some t"
  shows "\<exists>n\<in>set (st_notifications st). n_job n = Some (j_id j) \<and> n_kind n = IDLE_NOTIFICATION \<and> n_at n = t"
proof -
  let ?ns = "notifications_for_job st (j_id j) (Some IDLE_NOTIFICATION)"
  from assms obtain n ns where r: "rev ?ns = n # ns" and t: "n_at n = t"
    by (auto simp: last_notified_def split: list.splits)
  have "n \<in> set ?ns" using r by (metis list.set_intros(1) set_rev)
  then show ?thesis using t by (auto simp: notifications_for_job_def)
qed

text \<open>What a verdict of idleness rests on.\<close>

lemma evaluate_idle:
  assumes "evaluate st j cfg = Inr v" and "v_idle v"
  shows "v_samples v = samples_for st (j_id j) (Some (st_now st - timedelta_minutes (c_idle_window_minutes cfg))) 5000"
    and "c_idle_min_samples cfg \<le> int (length (v_samples v))"
    and "peak_percent (v_samples v) \<le> c_idle_threshold_percent cfg"
  using assms unfolding evaluate_def Let_def by (auto split: if_splits sum.splits)

lemma evaluate_total: "config_gpu cfg (j_gpu_type j) = Inr g \<Longrightarrow> \<exists>v. evaluate st j cfg = Inr v"
  unfolding evaluate_def Let_def by simp

lemma evaluate_idle_iff:
  assumes "evaluate st j cfg = Inr v"
    and "samples_for st (j_id j) (Some (st_now st - timedelta_minutes (c_idle_window_minutes cfg))) 5000 = ss"
  shows "v_idle v \<longleftrightarrow> c_idle_min_samples cfg \<le> int (length ss) \<and> peak_percent ss \<le> c_idle_threshold_percent cfg"
  using assms unfolding evaluate_def Let_def by (auto split: if_splits sum.splits)

lemma evaluate_notified:
  assumes "evaluate st j cfg = Inr v"
  shows "v_job v = j" and "v_notified_at v = last_notified st j"
    and "v_grace_ends_at v = map_option (\<lambda>t. t + timedelta_minutes (c_idle_grace_minutes cfg)) (last_notified st j)"
  using assms unfolding evaluate_def Let_def by (auto split: if_splits sum.splits)

lemma reclaimable_iff:
  "fst (reclaimable v now) \<longleftrightarrow> v_idle v \<and> v_notified v \<and> (\<exists>ends. v_grace_ends_at v = Some ends \<and> ends \<le> now)"
  by (auto simp: reclaimable_def split: option.splits)

text \<open>
  A job may be reclaimed only on evidence that is on disk: its owner was sent an idle warning
  that is recorded in the notifications table and whose grace period is over, there are at least
  the configured number of samples in the window, and every one of those recorded samples is at or
  below the threshold.
\<close>

theorem reclaim_needs_evidence:
  assumes "evaluate st j cfg = Inr v" and "fst (reclaimable v (st_now st))"
  shows "(\<exists>n\<in>set (st_notifications st). n_job n = Some (j_id j) \<and> n_kind n = IDLE_NOTIFICATION \<and>
       n_at n + timedelta_minutes (c_idle_grace_minutes cfg) \<le> st_now st) \<and>
    c_idle_min_samples cfg \<le> int (length (v_samples v)) \<and>
    (\<forall>s\<in>set (v_samples v). (j_id j, s) \<in> set (st_samples st) \<and>
       sm_gpu_percent s \<le> c_idle_threshold_percent cfg \<and>
       st_now st - timedelta_minutes (c_idle_window_minutes cfg) \<le> sm_at s)"
proof (intro conjI ballI)
  from assms(2) obtain ends where v: "v_idle v" "v_grace_ends_at v = Some ends" "ends \<le> st_now st"
    by (auto simp: reclaimable_iff)
  note ev = evaluate_idle [OF assms(1) v(1)]
  from v(2) evaluate_notified(3) [OF assms(1)] obtain t where t: "last_notified st j = Some t"
    "ends = t + timedelta_minutes (c_idle_grace_minutes cfg)" by auto
  show "\<exists>n\<in>set (st_notifications st). n_job n = Some (j_id j) \<and> n_kind n = IDLE_NOTIFICATION \<and>
       n_at n + timedelta_minutes (c_idle_grace_minutes cfg) \<le> st_now st"
    using last_notified_Some [OF t(1)] t(2) v(3) by auto
  show "c_idle_min_samples cfg \<le> int (length (v_samples v))" by (rule ev(2))
  fix s assume s: "s \<in> set (v_samples v)"
  show "(j_id j, s) \<in> set (st_samples st)"
    "st_now st - timedelta_minutes (c_idle_window_minutes cfg) \<le> sm_at s"
    using samples_for_set s ev(1) by metis+
  show "sm_gpu_percent s \<le> c_idle_threshold_percent cfg"
    using peak_percent_upper [OF s] ev(3) by linarith
qed

text \<open>A job whose card has been at zero for five minutes, at the end of the given moment, and whose
  owner was warned sixteen minutes before that.\<close>

definition demo_idle_store :: "bool \<Rightarrow> store" where
  "demo_idle_store warned =
     (empty_store 3600000000 (default_config (\<lambda>_. 0)))
       \<lparr>st_samples := map (\<lambda>m. (''a'', \<lparr>sm_at = 3600000000 - m * 60000000, sm_gpu_percent = 0, sm_memory_mb = 10,
            sm_source = ''lab''\<rparr>)) [5, 4, 3, 2, 1],
        st_notifications := (if warned then [\<lparr>n_id = 1, n_job = Some ''a'', n_user = ''ada'', n_kind = IDLE_NOTIFICATION,
            n_message = '''', n_at = 2640000000, n_seen_at = None\<rparr>] else [])\<rparr>"

lemma demo_gpu: "\<exists>g. config_gpu (default_config (\<lambda>_. 0)) (j_gpu_type (demo_job a b t)) = Inr g"
  by (simp add: config_gpu_def DEFAULT_GPU_TYPES_def demo_job_def new_job_def)

lemma demo_idle_verdict:
  assumes st: "st_now st = 3600000000" "st_samples st = st_samples (demo_idle_store warned)"
    "st_notifications st = st_notifications (demo_idle_store warned)"
    and j: "j_id j = ''a''" "j_gpu_type j = ''a6000''"
  shows "\<exists>v. evaluate st j (default_config (\<lambda>_. 0)) = Inr v \<and> v_idle v \<and>
     v_notified v = warned \<and> fst (reclaimable v 3600000000) = warned"
proof -
  have minutes: "timedelta_minutes 10 = 600000000" "timedelta_minutes 15 = 900000000"
    by (simp_all add: timedelta_minutes_def round_half_even_def)
  have ss: "samples_for st ''a'' (Some 3000000000) 5000 = map snd (st_samples (demo_idle_store warned))"
    by (simp add: samples_for_def st demo_idle_store_def)
  have cfg: "c_idle_window_minutes (default_config (\<lambda>_. 0)) = 10" "c_idle_grace_minutes (default_config (\<lambda>_. 0)) = 15"
    "c_idle_threshold_percent (default_config (\<lambda>_. 0)) = 5" "c_idle_min_samples (default_config (\<lambda>_. 0)) = 5"
    by (simp_all add: default_config_def)
  have "\<exists>g. config_gpu (default_config (\<lambda>_. 0)) (j_gpu_type j) = Inr g"
    using demo_gpu [of "''a''" "''ada''" 0] by (simp add: j demo_job_def)
  then obtain v where v: "evaluate st j (default_config (\<lambda>_. 0)) = Inr v" using evaluate_total by blast
  have "v_idle v" using evaluate_idle_iff [OF v] ss by (simp add: st(1) j cfg minutes peak_percent_def demo_idle_store_def)
  moreover have "last_notified st j = (if warned then Some 2640000000 else None)"
    by (simp add: last_notified_def notifications_for_job_def st(3) j demo_idle_store_def empty_store_def)
  ultimately show ?thesis using evaluate_notified [OF v] v by (auto simp: reclaimable_iff v_notified_def cfg minutes)
qed

lemma demo_idle_now: "st_now (demo_idle_store warned) = 3600000000"
  by (simp add: demo_idle_store_def empty_store_def)

lemma demo_job_type [simp]: "j_gpu_type (demo_job a b t) = ''a6000''"
  by (simp add: demo_job_def)
theorem reclaim_needs_evidence_witness:
  "\<exists>n\<in>set (st_notifications (demo_idle_store True)). n_kind n = IDLE_NOTIFICATION \<and>
     n_at n + timedelta_minutes (c_idle_grace_minutes (default_config (\<lambda>_. 0))) \<le> 3600000000"
proof -
  note now = demo_idle_now [of True]
  obtain v where v: "evaluate (demo_idle_store True) (demo_job ''a'' ''ada'' 0) (default_config (\<lambda>_. 0)) = Inr v"
    "fst (reclaimable v (st_now (demo_idle_store True)))"
    using demo_idle_verdict [OF now refl refl, of "demo_job ''a'' ''ada'' 0"] unfolding now by auto
  show ?thesis using reclaim_needs_evidence [OF v] unfolding now by blast
qed

text \<open>
  The owner is warned once: after \<^const>\<open>idle_notify\<close> has acted on an idle verdict, the job
  counts as notified in every later evaluation at that time, so the same call does nothing more,
  and the job is not reclaimable before the grace period has passed.
\<close>

theorem warned_once:
  assumes "evaluate st j cfg = Inr v" and "v_idle v" and "idle_notify st v cfg = (v', st')"
    and "evaluate st' j cfg = Inr v2"
  shows "v_notified v' \<and> v_notified v2 \<and> idle_notify st' v2 cfg = (v2, st') \<and>
    (\<not> v_notified v \<and> 0 < timedelta_minutes (c_idle_grace_minutes cfg) \<longrightarrow> \<not> fst (reclaimable v2 (st_now st')))"
proof (cases "v_notified v")
  case True
  then have "v' = v" "st' = st" using assms(3) by (simp_all add: idle_notify_def)
  then show ?thesis using True assms(1,4) by (simp add: idle_notify_def)
next
  case False
  have vj: "v_job v = j" using evaluate_notified(1) [OF assms(1)] .
  have st': "st_notifications st' = st_notifications st @ [fst (store_notify st (j_user j) IDLE_NOTIFICATION
        (msg_idle_warning v cfg) (Some (j_id j)))]" and v': "v_notified v'" and now: "st_now st' = st_now st"
    using assms(3) False assms(2) vj
    by (auto simp: idle_notify_def Let_def split_def store_notify_def v_notified_def)
  have "last_notified st' j = Some (st_now st)"
    by (simp add: last_notified_def notifications_for_job_def st' store_notify_def Let_def)
  then have "v_notified_at v2 = Some (st_now st)"
      "v_grace_ends_at v2 = Some (st_now st + timedelta_minutes (c_idle_grace_minutes cfg))"
    using evaluate_notified(2,3) [OF assms(4)] by simp_all
  then show ?thesis using v' now by (auto simp: v_notified_def idle_notify_def reclaimable_iff)
qed
theorem warned_once_witness:
  "\<exists>v v' st' v2. evaluate (demo_idle_store False) (demo_job ''a'' ''ada'' 0) (default_config (\<lambda>_. 0)) = Inr v \<and>
     idle_notify (demo_idle_store False) v (default_config (\<lambda>_. 0)) = (v', st') \<and> \<not> v_notified v \<and>
     evaluate st' (demo_job ''a'' ''ada'' 0) (default_config (\<lambda>_. 0)) = Inr v2 \<and> v_notified v2"
proof -
  let ?cfg = "default_config (\<lambda>_. 0)" and ?j = "demo_job ''a'' ''ada'' 0"
  obtain v where v: "evaluate (demo_idle_store False) ?j ?cfg = Inr v" "v_idle v" "\<not> v_notified v"
    using demo_idle_verdict [OF demo_idle_now refl refl, of "demo_job ''a'' ''ada'' 0" False] by auto
  obtain v' st' where n: "idle_notify (demo_idle_store False) v ?cfg = (v', st')" by fastforce
  obtain v2 where v2: "evaluate st' ?j ?cfg = Inr v2" using evaluate_total demo_gpu by blast
  show ?thesis using warned_once [OF v(1,2) n v2] v n v2 by blast
qed
end
