(* ===== verification/Metrics.thy ===== *)
theory Metrics
  imports Backend FairShare
begin

text \<open>
  \<^verbatim>\<open>gpu_broker/metrics.py\<close>: the gauges a tick writes down, and the reads over the series. A point
  is a name, a value and its labels; the table keeps the labels as one sorted string.
\<close>

type_synonym metric_point = "string \<times> pyfloat \<times> (string \<times> string) list"

definition encode_labels :: "(string \<times> string) list \<Rightarrow> string" where
  "encode_labels labels =
     concat (map (\<lambda>(i, key, value). (if i = 0 then '''' else '','') @ key @ ''='' @ value)
       (enumerate 0 (sort labels)))"

definition record_metrics :: "store \<Rightarrow> metric_point list \<Rightarrow> store" where
  "record_metrics st points =
     (if points = [] then st
      else st\<lparr>st_metrics := st_metrics st @
             map (\<lambda>(name, value, labels). \<lparr>mt_name = name, mt_at = st_now st, mt_value = value,
                    mt_labels = encode_labels labels\<rparr>) points\<rparr>)"

definition metric_series :: "store \<Rightarrow> string \<Rightarrow> moment option \<Rightarrow> (string \<times> string) list option \<Rightarrow> metric_row list" where
  "metric_series st name since labels =
     filter (\<lambda>m. mt_name m = name \<and> (case since of None \<Rightarrow> True | Some t \<Rightarrow> t \<le> mt_at m) \<and>
       (case labels of None \<Rightarrow> True | Some ls \<Rightarrow> mt_labels m = encode_labels ls)) (st_metrics st)"

definition metric_average :: "store \<Rightarrow> string \<Rightarrow> moment \<Rightarrow> (string \<times> string) list option \<Rightarrow> pyfloat option" where
  "metric_average st name since labels =
     (let points = metric_series st name (Some since) labels
      in if points = [] then None else Some ((\<Sum>p\<leftarrow>points. mt_value p) / of_nat (length points)))"

definition metric_prune :: "store \<Rightarrow> moment \<Rightarrow> nat \<times> store" where
  "metric_prune st older_than =
     (length (filter (\<lambda>m. mt_at m < older_than) (st_metrics st)),
      st\<lparr>st_metrics := filter (\<lambda>m. \<not> mt_at m < older_than) (st_metrics st)\<rparr>)"

definition head_wait :: "store \<Rightarrow> pyfloat" where
  "head_wait st =
     (case map (\<lambda>j. wait_hours j (st_now st)) (queued_jobs st) of [] \<Rightarrow> 0 | x # xs \<Rightarrow> foldl max x xs)"

definition utilization_points :: "store \<Rightarrow> metric_point list" where
  "utilization_points st =
     concat (map (\<lambda>j. let samples = samples_for st (j_id j) None 3
       in if samples = [] then []
          else [(''gpu_utilization_percent'', (\<Sum>s\<leftarrow>samples. sm_gpu_percent s) / of_nat (length samples),
                 [(''job'', short_id j), (''user'', j_user j)])]) (active_jobs st))"

definition money_points :: "store \<Rightarrow> metric_point list" where
  "money_points st =
     concat (map (\<lambda>cur. let pool = pool_balance st cur
       in [(''spend_total'', b_spent pool, [(''currency'', currency_name cur)]),
           (''pool_remaining'', b_budget pool - pool_committed st cur, [(''currency'', currency_name cur)])])
       enum_class.enum)"

definition total_free :: "'e backend list \<Rightarrow> string \<Rightarrow> ('e, int) act" where
  "total_free backends gpu =
     for_each (\<lambda>b n. and_then (calls (bk_free_slots b gpu)) (\<lambda>free. ret (n + free))) backends 0"

text \<open>One tick's gauges. \<open>free_slots\<close> is asked of every backend for every type and may raise.\<close>

definition collect :: "'e backend list \<Rightarrow> ('e, metric_point list) act" where
  "collect backends =
     and_then (reads (\<lambda>st. st)) (\<lambda>st.
     and_then (for_each (\<lambda>g points.
        and_then (total_free backends (g_name g)) (\<lambda>free.
          ret (points @
            [(''queue_depth_by_gpu'', of_nat (length (filter (\<lambda>j. j_gpu_type j = g_name g) (queued_jobs st))),
               [(''gpu'', g_name g)]),
             (''free_slots'', of_int free, [(''gpu'', g_name g)])])))
        (c_gpu_types (st_cfg st))
        [(''queue_depth'', of_nat (length (queued_jobs st)), []),
         (''running_jobs'', of_nat (length (active_jobs st)), []),
         (''head_wait_hours'', head_wait st, [])]) (\<lambda>points.
     ret (points @ utilization_points st @ money_points st)))"

subsection \<open>Facts\<close>

lemma record_metrics_frame [frame_simps, simp]:
  "st_now (record_metrics st ps) = st_now st" "st_cfg (record_metrics st ps) = st_cfg st"
  "st_users (record_metrics st ps) = st_users st" "st_jobs (record_metrics st ps) = st_jobs st"
  "st_transitions (record_metrics st ps) = st_transitions st" "st_ledger (record_metrics st ps) = st_ledger st"
  by (simp_all add: record_metrics_def)

lemma record_metrics_inv [inv_intros]: "store_inv (record_metrics st ps) = store_inv st"
  by (rule store_inv_cong) simp_all

lemma total_free_store: "triple (\<lambda>w. S (w_store w)) (total_free bs g) (\<lambda>_ w. S (w_store w)) (\<lambda>w. S (w_store w))"
  unfolding total_free_def
  by (rule triple_for_each [where I = "\<lambda>_ _ w. S (w_store w)"])
    (rule triple_then [OF triple_calls [where S = S]], simp_all add: triple_ret)

lemma collect_store: "triple (\<lambda>w. S (w_store w)) (collect bs) (\<lambda>_ w. S (w_store w)) (\<lambda>w. S (w_store w))"
  unfolding collect_def
  by (intro triple_then [OF triple_reads [where Q = "\<lambda>_ w. S (w_store w)"]]
      triple_then [OF triple_for_each [where I = "\<lambda>_ _ w. S (w_store w)"]]
      triple_then [OF total_free_store] triple_ret)

end
