(* ===== verification/Scheduler.thy ===== *)
theory Scheduler
  imports Placement Idle Metrics
begin

text \<open>
  \<^verbatim>\<open>gpu_broker/scheduler.py\<close>: one pass of the broker. Every handler is written in full over a
  world: it settles, talks to the backend, writes the store, and an exception leaves what was
  written before it. The generator \<open>decisions\<close> runs interleaved with its consumer, as in
  Python: \<open>decisions_loop\<close> takes the consumer as an argument, and what the consumer launches is
  seen by the placements that follow. Spans of the tracing library are left out: they write
  nothing that scheduling reads.
\<close>

record 'e scheduler =
  sc_backends :: "'e backend list"
  sc_checkpoints :: "'e checkpoint_reader option"

definition or_empty :: "string option \<Rightarrow> string" where
  "or_empty s = (case s of None \<Rightarrow> '''' | Some t \<Rightarrow> t)"

definition py_lower :: "string \<Rightarrow> string" where
  "py_lower s = map ascii_lower s"

definition scheduler_backend :: "'e scheduler \<Rightarrow> string \<Rightarrow> 'e backend option" where
  "scheduler_backend sc name = find (\<lambda>b. bk_name b = name) (sc_backends sc)"

fun state_for :: "backend_status \<Rightarrow> job_state option" where
  "state_for BS_PENDING = Some ALLOCATING"
| "state_for BS_READY = Some ALLOCATING"
| "state_for BS_RUNNING = Some RUNNING"
| "state_for BS_COMPLETED = Some COMPLETED"
| "state_for BS_FAILED = Some FAILED"
| "state_for BS_INTERRUPTED = Some PREEMPTED"
| "state_for BS_GONE = Some FAILED"

fun dedupe :: "string list \<Rightarrow> string list \<Rightarrow> string list" where
  "dedupe seen [] = []"
| "dedupe seen (x # xs) = (if x \<in> set seen then dedupe seen xs else x # dedupe (x # seen) xs)"

subsection \<open>Running jobs\<close>

record outcome =
  o_settled :: bool
  o_hit_ceiling :: bool
  o_preempted :: bool
  o_final :: "job_state option"

definition new_outcome :: outcome where
  "new_outcome = \<lparr>o_settled = False, o_hit_ceiling = False, o_preempted = False, o_final = None\<rparr>"

definition accrue :: "store \<Rightarrow> job \<Rightarrow> moment \<Rightarrow> (error, decimal) result" where
  "accrue st j now =
     (case config_gpu (st_cfg st) (j_gpu_type j) of
        Inl e \<Rightarrow> Inl e
      | Inr gpu \<Rightarrow>
          (let total = min (quantize (g_hourly_price gpu * money (elapsed_hours j now)) (j_currency j)) (j_reserved j);
               already = job_spend st (j_id j)
           in Inr (max 0 (total - already))))"

definition at_ceiling :: "store \<Rightarrow> job \<Rightarrow> moment \<Rightarrow> (error, bool) result" where
  "at_ceiling st j now =
     (case config_gpu (st_cfg st) (j_gpu_type j) of
        Inl e \<Rightarrow> Inl e
      | Inr gpu \<Rightarrow>
          Inr (quantize (g_hourly_price gpu * money (elapsed_hours j now)) (j_currency j) \<ge> j_reserved j))"

text \<open>\<open>store.transition\<close> as the scheduler calls it: no ledger rows of its own.\<close>

definition move :: "job \<Rightarrow> job_state \<Rightarrow> string \<Rightarrow> int option \<Rightarrow> bool \<Rightarrow> ('e, job) act" where
  "move j to_state reason exit_code clear_handle =
     writes_try (\<lambda>st. transition st j to_state (Some reason) [] None None exit_code clear_handle)"

definition log_line :: "job \<Rightarrow> string \<Rightarrow> ('e, unit) act" where
  "log_line j line = writes (\<lambda>st. append_log st (j_id j) ''broker'' line)"

definition drain_logs :: "job \<Rightarrow> 'e backend \<Rightarrow> ('e, job) act" where
  "drain_logs j b =
     and_then
       (catching is_backend_error
          (and_then (calls (bk_fetch_logs b (or_empty (j_handle j)) (j_logs_fetched j))) (\<lambda>new_lines. ret (Some new_lines)))
          (\<lambda>e. and_then (log_line j (''could not read logs: '' @ error_text e)) (\<lambda>_. ret None)))
       (\<lambda>answer. case answer of
          None \<Rightarrow> ret j
        | Some new_lines \<Rightarrow>
            if new_lines = [] then ret j
            else and_then (writes_with (\<lambda>st. append_backend_logs st j new_lines))
                   (\<lambda>cursor. ret (j\<lparr>j_logs_fetched := cursor\<rparr>)))"

definition from_timestamp :: "pyfloat \<Rightarrow> moment" where
  "from_timestamp t = round_half_even (t * 1000000)"

text \<open>\<open>_sample\<close>: at most one reading per interval, only readings newer than the last recorded one,
  and a warning when they make the job look idle.\<close>

definition sample_job :: "job \<Rightarrow> 'e backend \<Rightarrow> ('e, unit) act" where
  "sample_job j b =
     and_then (reads (\<lambda>st. (st_now st, last_sample_at st (j_id j), c_idle_sample_interval_seconds (st_cfg st))))
       (\<lambda>(now, last_at, interval).
        if (case last_at of Some t \<Rightarrow> total_seconds (now - t) < interval | None \<Rightarrow> False) then ret ()
        else
          and_then (catching is_backend_error (calls (bk_sample_utilization b (or_empty (j_handle j)))) (\<lambda>_. ret []))
            (\<lambda>readings.
             let cutoff = (case last_at of Some t \<Rightarrow> total_seconds t | None \<Rightarrow> 0);
                 fresh = filter (\<lambda>r. ut_at r > cutoff) readings
             in if fresh = [] then ret ()
                else
                  and_then (writes (\<lambda>st. record_samples st (j_id j)
                      (map (\<lambda>r. \<lparr>sm_at = from_timestamp (ut_at r), sm_gpu_percent = ut_gpu_percent r,
                                 sm_memory_mb = ut_memory_mb r, sm_source = bk_name b\<rparr>) fresh))) (\<lambda>_.
                  and_then (reads_try (\<lambda>st. evaluate st j (st_cfg st))) (\<lambda>verdict.
                  if v_idle verdict \<and> \<not> v_notified verdict
                  then writes (\<lambda>st. snd (idle_notify st verdict (st_cfg st)))
                  else ret ()))))"

definition fallback_tier :: "'e scheduler \<Rightarrow> broker_config \<Rightarrow> job \<Rightarrow> (error, string option) result" where
  "fallback_tier sc cfg j =
     (case config_gpu cfg (j_gpu_type j) of
        Inl e \<Rightarrow> Inl e
      | Inr gpu \<Rightarrow>
          (let order = c_placement_order cfg;
               current = (if truthy (j_pinned_tier j) then the (j_pinned_tier j) else ''spot'');
               after = (if current \<in> set order then tl (dropWhile (\<lambda>t. t \<noteq> current) order) else order)
           in Inr (find (\<lambda>tier. list_ex (\<lambda>b. tier_of b = tier \<and> bk_currency b = g_currency gpu \<and>
                bk_supports b (j_gpu_type j)) (sc_backends sc)) after)))"

text \<open>\<open>_collect_checkpoint\<close>: anything that goes wrong while looking is a log line.\<close>

definition collect_checkpoint :: "'e scheduler \<Rightarrow> job \<Rightarrow> ('e, job option) act" where
  "collect_checkpoint sc j =
     (case sc_checkpoints sc of
        None \<Rightarrow> ret None
      | Some latest \<Rightarrow>
          and_then
            (catching (\<lambda>_. True) (calls (latest (j_id j)))
               (\<lambda>e. and_then (log_line j (''could not look for a checkpoint: '' @ error_text e)) (\<lambda>_. ret None)))
            (\<lambda>found. case found of
               None \<Rightarrow> ret None
             | Some ref1 \<Rightarrow>
                 if (case j_checkpoint_step j of Some s \<Rightarrow> cr_step ref1 \<le> s | None \<Rightarrow> False) then ret None
                 else and_then (writes_with (\<lambda>st. record_checkpoint st j (cr_step ref1) (cr_key ref1)))
                        (\<lambda>j'. ret (Some j'))))"

definition requeue :: "job \<Rightarrow> outcome \<Rightarrow> ('e, outcome) act" where
  "requeue j out =
     (let where1 = (if resumable j
                   then ''resuming from step '' @ (case j_checkpoint_step j of Some s \<Rightarrow> show_int s | None \<Rightarrow> ''None'')
                   else ''starting again from the beginning'')
      in and_then (log_line j (''preempted; requeued, '' @ where1)) (\<lambda>_.
         and_then (move j QUEUED (''requeued after preemption ('' @ where1 @ '')'') None False) (\<lambda>j'.
         ret (out\<lparr>o_final := Some (j_state j'), o_preempted := True\<rparr>))))"

definition preempt_note :: "job \<Rightarrow> string" where
  "preempt_note j = ''preempted '' @ show_int (j_preemptions j) @ '' times with nothing saved''"

definition msg_pinned :: "job \<Rightarrow> string" where
  "msg_pinned j =
     ''Job '' @ short_id j @ '' has been preempted '' @ show_int (j_preemptions j) @
     '' times without saving a checkpoint, so it will run on on-demand capacity from now on. To use the cheaper spot pool, have it write checkpoints -- see the Checkpointer in the README.''"

definition preempt :: "'e scheduler \<Rightarrow> job \<Rightarrow> 'e backend \<Rightarrow> observation \<Rightarrow> outcome \<Rightarrow> ('e, outcome) act" where
  "preempt sc j b obs out =
     and_then (calls (bk_terminate b (or_empty (j_handle j)) ''preempted'')) (\<lambda>_.
     and_then (collect_checkpoint sc j) (\<lambda>progressed.
     and_then (writes_with (\<lambda>st. record_preemption st (case progressed of Some p \<Rightarrow> p | None \<Rightarrow> j))) (\<lambda>j1.
     and_then (move j1 PREEMPTED (the (py_or (os_detail obs) (Some ''capacity was taken away''))) None True) (\<lambda>j2.
     and_then (reads st_cfg) (\<lambda>cfg.
     if progressed = None \<and> c_spot_max_preemptions_without_progress cfg \<le> j_preemptions j2
     then
       and_then (reads_try (\<lambda>_. fallback_tier sc cfg j2)) (\<lambda>fallback.
       case fallback of
         None \<Rightarrow>
           and_then (log_line j2 (preempt_note j2 @
             '', but no cheaper-than-spot alternative is configured, so it stays here'')) (\<lambda>_. requeue j2 out)
       | Some tier \<Rightarrow>
           and_then (writes_with (\<lambda>st. pin_tier st j2 tier (preempt_note j2))) (\<lambda>j3.
           and_then (writes (\<lambda>st. snd (store_notify st (j_user j3) ''pinned-ondemand'' (msg_pinned j3) (Some (j_id j3)))))
             (\<lambda>_. requeue j3 out)))
     else requeue j2 out)))))"

definition finish :: "job \<Rightarrow> job_state \<Rightarrow> string \<Rightarrow> int option \<Rightarrow> outcome \<Rightarrow> ('e, outcome) act" where
  "finish j to_state reason exit_code out =
     and_then (move j to_state reason exit_code True) (\<lambda>j'. ret (out\<lparr>o_final := Some (j_state j')\<rparr>))"

definition observed_reason :: "observation \<Rightarrow> string" where
  "observed_reason obs = the (py_or (os_detail obs) (Some (''backend reported '' @ status_name (os_status obs))))"

text \<open>\<open>_advance\<close> after the poll: start a machine that is ready, requeue a preempted job, record the
  end the backend reports, stop at the ceiling, or follow the backend forwards.\<close>

definition advance_observed ::
  "'e scheduler \<Rightarrow> job \<Rightarrow> 'e backend \<Rightarrow> string \<Rightarrow> moment \<Rightarrow> observation \<Rightarrow> outcome \<Rightarrow> ('e, outcome) act"
where
  "advance_observed sc j b h now obs out =
     (if os_status obs = BS_READY then
        and_then (catching is_backend_error (and_then (calls (bk_start b h j)) (\<lambda>_. ret None)) (\<lambda>e. ret (Some e)))
          (\<lambda>failure. case failure of
             Some e \<Rightarrow>
               and_then (log_line j (''could not start: '' @ error_text e)) (\<lambda>_.
               and_then (calls (bk_terminate b h ''failed to start'')) (\<lambda>_.
               finish j FAILED (''could not start: '' @ error_text e) None out))
           | None \<Rightarrow> and_then (log_line j ''command sent; job is running'') (\<lambda>_. ret out))
      else
        (let target = state_for (os_status obs)
         in if target = Some PREEMPTED then preempt sc j b obs out
            else if (case target of Some t \<Rightarrow> t \<in> set TERMINAL | None \<Rightarrow> False) then
              and_then (calls (bk_terminate b h (''job '' @ py_lower (state_name (the target))))) (\<lambda>_.
              finish j (the target) (observed_reason obs) (os_exit_code obs) out)
            else
              and_then (reads_try (\<lambda>st. at_ceiling st j now)) (\<lambda>ceiling.
              if ceiling then
                and_then (calls (bk_terminate b h ''budget ceiling reached'')) (\<lambda>_.
                and_then (drain_logs j b) (\<lambda>j1.
                and_then (move j1 FAILED (''stopped at its '' @ fmt (j_reserved j1) (j_currency j1) @ '' ceiling after '' @
                    show_fixed 2 (elapsed_hours j1 now) @ ''h'') None True) (\<lambda>_.
                ret (out\<lparr>o_hit_ceiling := True, o_final := Some FAILED\<rparr>))))
              else
                (let goal = (if target = Some ALLOCATING \<and> resumable j \<and> j_state j = ALLOCATING
                             then Some RESUMING else target)
                 in case goal of
                      None \<Rightarrow> ret out
                    | Some g \<Rightarrow>
                        if g = j_state j then ret out
                        else if \<not> can_transition (j_state j) g then
                          and_then (log_line j (''ignored stale '' @ status_name (os_status obs) @ '' from '' @ bk_name b @
                              ''; job is already '' @ state_name (j_state j))) (\<lambda>_. ret out)
                        else
                          and_then (move j g (observed_reason obs) (os_exit_code obs) False) (\<lambda>j'.
                          ret (out\<lparr>o_final := Some (j_state j')\<rparr>))))))"

definition advance :: "'e scheduler \<Rightarrow> job \<Rightarrow> moment \<Rightarrow> ('e, outcome) act" where
  "advance sc j now =
     (case (scheduler_backend sc (or_empty (j_backend j)), j_handle j) of
        (Some b, Some h) \<Rightarrow>
          and_then (reads_try (\<lambda>st. accrue st j now)) (\<lambda>accrued.
          and_then (if accrued > 0
                    then writes (\<lambda>st. settle st j accrued (Some (show_fixed 4 (elapsed_hours j now) @ ''h elapsed'')))
                    else ret ()) (\<lambda>_.
          let out = new_outcome\<lparr>o_settled := accrued > 0\<rparr>
          in if truthy (j_cancel_requested j) then
               (let why = ''cancelled by '' @ or_empty (j_cancel_requested j)
                in and_then (calls (bk_terminate b h why)) (\<lambda>_.
                   and_then (drain_logs j b) (\<lambda>j1.
                   finish j1 CANCELLED why None out)))
             else
               and_then (calls (bk_poll b h)) (\<lambda>obs.
               and_then (drain_logs j b) (\<lambda>j1.
               and_then (sample_job j1 b) (\<lambda>_.
               advance_observed sc j1 b h now obs out)))))
      | _ \<Rightarrow> ret new_outcome)"

subsection \<open>The queue\<close>

definition ordered_queue :: "store \<Rightarrow> moment \<Rightarrow> (job \<times> priority) list" where
  "ordered_queue st now = order_queue (queued_jobs st) st now (st_cfg st)"

text \<open>What the generator keeps between two decisions.\<close>

record pass_state =
  ps_headroom :: "currency \<Rightarrow> decimal"
  ps_committed :: "currency \<Rightarrow> decimal"
  ps_blocked :: "currency set"
  ps_held :: "string \<Rightarrow> int option"
  ps_suspended :: "(string \<times> string) list"

definition initial_pass :: "store \<Rightarrow> pass_state" where
  "initial_pass st =
     \<lparr>ps_headroom = pool_headroom st, ps_committed = (\<lambda>_. 0), ps_blocked = {}, ps_held = Map.empty,
      ps_suspended = suspended_users st\<rparr>"

definition blocked_decision :: "job \<Rightarrow> action \<Rightarrow> string \<Rightarrow> decision" where
  "blocked_decision j act1 detail = \<lparr>dc_job = j, dc_action = act1, dc_backend = None, dc_detail = detail\<rparr>"

text \<open>How many machines the owner holds: counted on first sight, then kept up to date by the pass.\<close>

definition holding_of :: "store \<Rightarrow> pass_state \<Rightarrow> string \<Rightarrow> int" where
  "holding_of st ps u = (case ps_held ps u of Some n \<Rightarrow> n | None \<Rightarrow> running_count st u)"

definition counted :: "store \<Rightarrow> pass_state \<Rightarrow> string \<Rightarrow> pass_state" where
  "counted st ps u = ps\<lparr>ps_held := (ps_held ps)(u \<mapsto> holding_of st ps u)\<rparr>"

definition remaining :: "pass_state \<Rightarrow> currency \<Rightarrow> decimal" where
  "remaining ps cur = ps_headroom ps cur - ps_committed ps cur"

definition block_currency :: "currency \<Rightarrow> pass_state \<Rightarrow> pass_state" where
  "block_currency cur ps = ps\<lparr>ps_blocked := insert cur (ps_blocked ps)\<rparr>"

definition commit_job :: "job \<Rightarrow> pass_state \<Rightarrow> pass_state" where
  "commit_job j ps =
     ps\<lparr>ps_committed := (ps_committed ps)(j_currency j := ps_committed ps (j_currency j) + j_reserved j),
        ps_held := (ps_held ps)(j_user j \<mapsto> the (ps_held ps (j_user j)) + 1)\<rparr>"

type_synonym 'e verdict = "decision \<times> 'e backend option \<times> pass_state \<times> bool"

definition decide_placed :: "job \<Rightarrow> pass_state \<Rightarrow> 'e placement \<Rightarrow> 'e verdict" where
  "decide_placed j ps p =
     (case pl_backend p of
        None \<Rightarrow> (blocked_decision j BLOCKED_CAPACITY (pl_reason p), None, ps, False)
      | Some b \<Rightarrow>
          (\<lparr>dc_job = j, dc_action = DISPATCH, dc_backend = Some (bk_name b), dc_detail = one_line p\<rparr>,
           Some b, commit_job j ps, False))"

definition decide_open :: "'e scheduler \<Rightarrow> job \<Rightarrow> pass_state \<Rightarrow> broker_config \<Rightarrow> ('e, 'e verdict) act" where
  "decide_open sc j ps cfg =
     (let holding = the (ps_held ps (j_user j))
      in if holding \<ge> c_max_running_jobs_per_user cfg
         then ret (blocked_decision j BLOCKED_TENANT (j_user j @ '' is holding '' @ show_int holding @
                '' jobs, the limit is '' @ show_int (c_max_running_jobs_per_user cfg)), None, ps, False)
         else if j_reserved j > remaining ps (j_currency j)
         then
           (let ps' = block_currency (j_currency j) ps
            in ret (blocked_decision j BLOCKED_POOL (''needs '' @ fmt (j_reserved j) (j_currency j) @ '', pool has '' @
                   fmt (remaining ps (j_currency j)) (j_currency j) @ '' free''), None, ps',
                 \<forall>c\<in>set enum_class.enum. c \<in> ps_blocked ps'))
         else and_then (choose_placement j (sc_backends sc) cfg) (\<lambda>p. ret (decide_placed j ps p)))"

text \<open>The body of the loop for one job: the decision, the backend for a dispatch, the new state, and
  whether this decision blocked the last open currency.\<close>

definition decide :: "'e scheduler \<Rightarrow> job \<Rightarrow> pass_state \<Rightarrow> ('e, 'e verdict) act" where
  "decide sc j ps =
     (case map_of (ps_suspended ps) (j_user j) of
        Some reason \<Rightarrow>
          ret (blocked_decision j BLOCKED_UNAUTHORIZED (j_user j @ '' is suspended from the pool ('' @
                 (if reason = [] then ''no reason recorded'' else reason) @ '')''), None, ps, False)
      | None \<Rightarrow>
          if j_currency j \<in> ps_blocked ps
          then ret (blocked_decision j BLOCKED_POOL ''pool cap already reached'', None, ps, False)
          else and_then (reads (\<lambda>st. st)) (\<lambda>st. decide_open sc j (counted st ps (j_user j)) (st_cfg st)))"
text \<open>The generator with its consumer: \<open>consume\<close> runs between two decisions.\<close>

fun decisions_loop ::
  "'e scheduler \<Rightarrow> (decision \<Rightarrow> 'e backend option \<Rightarrow> 'a \<Rightarrow> ('e, 'a) act) \<Rightarrow> job list \<Rightarrow> pass_state \<Rightarrow> 'a \<Rightarrow> ('e, 'a) act"
where
  "decisions_loop sc consume [] ps acc = ret acc"
| "decisions_loop sc consume (j # queue) ps acc =
     and_then (decide sc j ps) (\<lambda>(d, b, ps', stop).
     and_then (consume d b acc) (\<lambda>acc'.
     if stop
     then for_each (\<lambda>other. consume (blocked_decision other BLOCKED_POOL ''pool cap reached'') None) queue acc'
     else decisions_loop sc consume queue ps' acc'))"

definition decisions ::
  "'e scheduler \<Rightarrow> moment \<Rightarrow> (decision \<Rightarrow> 'e backend option \<Rightarrow> 'a \<Rightarrow> ('e, 'a) act) \<Rightarrow> 'a \<Rightarrow> ('e, 'a) act"
where
  "decisions sc now consume acc =
     and_then (reads (\<lambda>st. (map fst (ordered_queue st now), initial_pass st)))
       (\<lambda>(queue, ps). decisions_loop sc consume queue ps acc)"

definition plan_step :: "decision \<Rightarrow> 'e backend option \<Rightarrow> dry_run_plan \<Rightarrow> ('e, dry_run_plan) act" where
  "plan_step d b p =
     (let p1 = p\<lparr>dp_decisions := dp_decisions p @ [d]\<rparr>
      in case b of
           None \<Rightarrow> ret p1
         | Some backend \<Rightarrow>
             catching is_backend_error
               (and_then (calls (bk_validate_launch backend (dc_job d))) (\<lambda>check.
                ret (p1\<lparr>dp_checks := dp_checks p1 @ [(j_id (dc_job d), check)]\<rparr>)))
               (\<lambda>e. ret (p1\<lparr>dp_problems := dp_problems p1 @ [(j_id (dc_job d), error_text e)]\<rparr>)))"

definition plan :: "'e scheduler \<Rightarrow> moment \<Rightarrow> ('e, dry_run_plan) act" where
  "plan sc now = decisions sc now plan_step \<lparr>dp_at = now, dp_decisions = [], dp_checks = [], dp_problems = []\<rparr>"

record pass_report =
  r_dispatched :: "string list"
  r_blocked_pool :: "string list"
  r_blocked_capacity :: "string list"
  r_blocked_tenant :: "string list"
  r_blocked_auth :: "string list"

definition launch_job :: "decision \<Rightarrow> 'e backend \<Rightarrow> pass_report \<Rightarrow> ('e, pass_report) act" where
  "launch_job d b r =
     (let j = dc_job d
      in and_then
           (catching is_backend_error (and_then (calls (bk_launch b j)) (\<lambda>allocation. ret (Some allocation)))
              (\<lambda>e. and_then (log_line j (''launch failed: '' @ error_text e)) (\<lambda>_. ret None)))
           (\<lambda>answer. case answer of
              None \<Rightarrow> ret (r\<lparr>r_blocked_capacity := r_blocked_capacity r @ [j_id j]\<rparr>)
            | Some allocation \<Rightarrow>
                and_then (writes_with (\<lambda>st. record_attempt st j)) (\<lambda>j1.
                and_then (writes_try (\<lambda>st. transition st j1 ALLOCATING
                    (Some (''placed on '' @ bk_name b @ '' ('' @ al_handle allocation @ '')'' @
                       (if j_attempts j1 > 1 then '', attempt '' @ show_int (j_attempts j1) else '''')))
                    [] (Some (bk_name b)) (Some (al_handle allocation)) None False)) (\<lambda>_.
                and_then (log_line j1 (''dispatched to '' @ bk_name b @ ''/'' @ al_handle allocation @ '' on '' @ j_gpu_type j1)) (\<lambda>_.
                and_then (log_line j1 (''placement: '' @ dc_detail d)) (\<lambda>_.
                ret (r\<lparr>r_dispatched := r_dispatched r @ [j_id j1]\<rparr>)))))))"

definition dispatch_step :: "decision \<Rightarrow> 'e backend option \<Rightarrow> pass_report \<Rightarrow> ('e, pass_report) act" where
  "dispatch_step d b r =
     (let j = dc_job d
      in and_then (reads_try (\<lambda>st. config_gpu (st_cfg st) (j_gpu_type j))) (\<lambda>gpu.
         and_then (writes (\<lambda>st. record_schedule_observation st (j_id j) (dc_action d) (j_gpu_type j) (g_memory_mb gpu)
             (map_option bk_name b) (map_option tier_of b) (dc_detail d))) (\<lambda>_.
         case dc_action d of
           BLOCKED_UNAUTHORIZED \<Rightarrow> ret (r\<lparr>r_blocked_auth := r_blocked_auth r @ [j_id j]\<rparr>)
         | BLOCKED_POOL \<Rightarrow> ret (r\<lparr>r_blocked_pool := r_blocked_pool r @ [j_id j]\<rparr>)
         | BLOCKED_TENANT \<Rightarrow> ret (r\<lparr>r_blocked_tenant := r_blocked_tenant r @ [j_id j]\<rparr>)
         | BLOCKED_CAPACITY \<Rightarrow> ret (r\<lparr>r_blocked_capacity := r_blocked_capacity r @ [j_id j]\<rparr>)
         | DISPATCH \<Rightarrow>
             (case b of
                None \<Rightarrow> ret (r\<lparr>r_blocked_capacity := r_blocked_capacity r @ [j_id j]\<rparr>)
              | Some backend \<Rightarrow> launch_job d backend r))))"

definition empty_report :: pass_report where
  "empty_report = \<lparr>r_dispatched = [], r_blocked_pool = [], r_blocked_capacity = [], r_blocked_tenant = [],
     r_blocked_auth = []\<rparr>"

definition dispatch :: "'e scheduler \<Rightarrow> moment \<Rightarrow> ('e, pass_report) act" where
  "dispatch sc now =
     and_then (decisions sc now dispatch_step empty_report) (\<lambda>r.
     ret (r\<lparr>r_blocked_pool := dedupe [] (r_blocked_pool r)\<rparr>))"

subsection \<open>One tick\<close>

record advance_report =
  a_completed :: "string list"
  a_failed :: "string list"
  a_settled :: "string list"
  a_ceilinged :: "string list"

definition note_outcome :: "string \<Rightarrow> outcome \<Rightarrow> advance_report \<Rightarrow> advance_report" where
  "note_outcome jid out a =
     a\<lparr>a_settled := a_settled a @ (if o_settled out then [jid] else []),
       a_ceilinged := a_ceilinged a @ (if o_hit_ceiling out then [jid] else []),
       a_completed := a_completed a @ (if o_final out = Some COMPLETED then [jid] else []),
       a_failed := a_failed a @ (if o_final out \<in> {Some FAILED, Some CANCELLED} then [jid] else [])\<rparr>"

definition advance_all :: "'e scheduler \<Rightarrow> moment \<Rightarrow> job list \<Rightarrow> ('e, advance_report) act" where
  "advance_all sc now jobs =
     for_each (\<lambda>j a. and_then (advance sc j now) (\<lambda>out. ret (note_outcome (j_id j) out a))) jobs
       \<lparr>a_completed = [], a_failed = [], a_settled = [], a_ceilinged = []\<rparr>"

definition record_gauges :: "'e scheduler \<Rightarrow> ('e, unit) act" where
  "record_gauges sc =
     catching (\<lambda>_. True) (and_then (collect (sc_backends sc)) (\<lambda>points. writes (\<lambda>st. record_metrics st points)))
       (\<lambda>_. ret ())"

definition tick :: "'e scheduler \<Rightarrow> ('e, tick_report) act" where
  "tick sc =
     and_then (reads (\<lambda>st. (st_now st, active_jobs st))) (\<lambda>(now, active).
     and_then (advance_all sc now active) (\<lambda>a.
     and_then (dispatch sc now) (\<lambda>r.
     and_then (record_gauges sc) (\<lambda>_.
     ret \<lparr>t_at = now, t_dispatched = r_dispatched r, t_completed = a_completed a, t_failed = a_failed a,
          t_settled = a_settled a, t_blocked_on_pool_cap = r_blocked_pool r,
          t_blocked_on_capacity = r_blocked_capacity r, t_blocked_on_tenant = r_blocked_tenant r,
          t_blocked_on_authorization = r_blocked_auth r, t_stopped_at_ceiling = a_ceilinged a\<rparr>))))"

subsection \<open>Reconciliation\<close>

type_synonym machine_key = "string option \<times> string"

text \<open>A dictionary assignment: the key keeps its place, the value is the newest.\<close>

fun dict_set :: "'k \<Rightarrow> 'v \<Rightarrow> ('k \<times> 'v) list \<Rightarrow> ('k \<times> 'v) list" where
  "dict_set k v [] = [(k, v)]"
| "dict_set k v ((k', v') # d) = (if k' = k then (k, v) # d else (k', v') # dict_set k v d)"

definition our_active :: "store \<Rightarrow> (machine_key \<times> job) list" where
  "our_active st =
     foldl (\<lambda>d j. case j_handle j of
         Some h \<Rightarrow> if h = [] then d else dict_set (j_backend j, h) j d
       | None \<Rightarrow> d) [] (active_jobs st)"

definition known_state :: "store \<Rightarrow> string \<Rightarrow> string" where
  "known_state st jid = (case get_job st jid of Inr j \<Rightarrow> state_name (j_state j) | Inl _ \<Rightarrow> ''no job record at all'')"

definition show_opt :: "string option \<Rightarrow> string" where
  "show_opt s = (case s of Some t \<Rightarrow> t | None \<Rightarrow> ''None'')"

definition resource_drift ::
  "store \<Rightarrow> (machine_key \<times> job) list \<Rightarrow> string \<Rightarrow> resource \<Rightarrow> drift list"
where
  "resource_drift st ours name r =
     (case rs_job_id r of
        None \<Rightarrow>
          [\<lparr>d_kind = UNTAGGED, d_backend = name, d_handle = rs_handle r, d_job = None,
            d_detail = ''holding capacity with no broker-job-id tag. The broker did not create this, or created it and died before tagging.''\<rparr>]
      | Some jid \<Rightarrow>
          (case map_of ours (Some name, rs_handle r) of
             Some _ \<Rightarrow> []
           | None \<Rightarrow>
               [\<lparr>d_kind = ORPHAN, d_backend = name, d_handle = rs_handle r, d_job = Some jid,
                 d_detail = ''backend is holding this for '' @ show_opt (rs_user_id r) @ '', but our record says '' @
                   known_state st jid @ ''. Nothing will clean it up.''\<rparr>]))"

definition lost_drift :: "machine_key list \<Rightarrow> machine_key \<times> job \<Rightarrow> drift list" where
  "lost_drift seen entry =
     (case entry of ((name, handle), j) \<Rightarrow>
        if (name, handle) \<in> set seen then []
        else [\<lparr>d_kind = LOST, d_backend = (if truthy name then the name else ''?''),
               d_handle = (if handle = [] then ''?'' else handle), d_job = Some (j_id j),
               d_detail = ''we record this job as '' @ state_name (j_state j) @ '' on '' @ show_opt name @
                 '', but the backend has no such resource. It may have been terminated outside the broker.''\<rparr>])"

definition reconcile :: "'e scheduler \<Rightarrow> ('e, drift list) act" where
  "reconcile sc =
     and_then (reads (\<lambda>st. st)) (\<lambda>st.
     let ours = our_active st
     in and_then (for_each (\<lambda>b (drifts, seen).
            and_then (calls (bk_list_resources b)) (\<lambda>rs.
            ret (drifts @ concat (map (resource_drift st ours (bk_name b)) rs),
                 seen @ map (\<lambda>r. (Some (bk_name b), rs_handle r)) rs))) (sc_backends sc) ([], []))
          (\<lambda>(drifts, seen). ret (drifts @ concat (map (lost_drift seen) ours))))"

end
