(* ===== verification/SchedulerInv.thy ===== *)
theory SchedulerInv
  imports Scheduler
begin

text \<open>
  What a tick preserves. \<open>on_job\<close> is the situation a handler of one job works in: the store is
  consistent, the job object it holds agrees with a row of the table on the columns that never
  change, the clock and the configuration are fixed, and some rows of other jobs are known to be
  untouched. Every store operation keeps it, so every handler does, and a tick keeps the store
  invariant whether it returns or raises, whatever the backends do.
\<close>

definition on_job :: "moment \<Rightarrow> broker_config \<Rightarrow> job set \<Rightarrow> job \<Rightarrow> store \<Rightarrow> bool" where
  "on_job n c rows j st \<longleftrightarrow>
     store_inv st \<and> known_job st j \<and> st_now st = n \<and> st_cfg st = c \<and>
     (\<forall>r\<in>rows. j_id r \<noteq> j_id j \<and> r \<in> set (st_jobs st))"

definition sane :: "moment \<Rightarrow> broker_config \<Rightarrow> store \<Rightarrow> bool" where
  "sane n c st \<longleftrightarrow> store_inv st \<and> st_now st = n \<and> st_cfg st = c"

lemma on_job_sane: "on_job n c rows j st \<Longrightarrow> sane n c st"
  by (simp add: on_job_def sane_def)

lemma on_jobD:
  assumes "on_job n c rows j st"
  shows "store_inv st" "known_job st j" "st_now st = n" "st_cfg st = c"
  using assms by (simp_all add: on_job_def)

lemma same_identity_sym: "same_identity a b \<Longrightarrow> same_identity b a"
  by (simp add: same_identity_def)

lemma same_identity_trans: "same_identity a b \<Longrightarrow> same_identity b c \<Longrightarrow> same_identity a c"
  by (simp add: same_identity_def)

lemma known_job_same: "same_identity j' j \<Longrightarrow> known_job st j \<Longrightarrow> known_job st j'"
  unfolding known_job_def using same_identity_sym same_identity_trans by blast

lemma on_job_same: "same_identity j' j \<Longrightarrow> on_job n c rows j st \<Longrightarrow> on_job n c rows j' st"
  using known_job_same by (auto simp: on_job_def same_identity_def)

text \<open>A store operation that rewrites only rows of the job, leaves their identity alone and keeps the
  invariant.\<close>

lemma on_job_step:
  assumes "on_job n c rows j st" and "store_inv st'" and "st_now st' = st_now st" and "st_cfg st' = st_cfg st"
    and "st_jobs st' = map (\<lambda>r. if j_id r = j_id j then f r else r) (st_jobs st)"
    and "\<And>r. same_identity (f r) r"
  shows "on_job n c rows j st'"
proof -
  obtain r where r: "r \<in> set (st_jobs st)" "same_identity r j"
    using on_jobD(2) [OF assms(1)] by (auto simp: known_job_def)
  have "j_id r = j_id j" using r(2) by (simp add: same_identity_def)
  then have "f r \<in> set (st_jobs st')" using r(1) assms(5) by force
  moreover have "same_identity (f r) j" using assms(6) r(2) same_identity_trans by blast
  ultimately have "known_job st' j" unfolding known_job_def by blast
  moreover have "\<forall>r\<in>rows. j_id r \<noteq> j_id j \<and> r \<in> set (st_jobs st')"
    using assms(1,5) by (fastforce simp: on_job_def)
  ultimately show ?thesis using assms by (simp add: on_job_def)
qed

lemma on_job_quiet:
  assumes "on_job n c rows j st" and "store_inv st'" and "st_now st' = st_now st" and "st_cfg st' = st_cfg st"
    and "st_jobs st' = st_jobs st"
  shows "on_job n c rows j st'"
  by (rule on_job_step [OF assms(1-4), where f = "\<lambda>r. r"]) (simp_all add: assms(5))

subsection \<open>Store operations\<close>

lemma transition_frame:
  assumes "transition st cur to reason ws b h ec clr = Inr (j, st')"
  shows "st_now st' = st_now st" "st_cfg st' = st_cfg st" "st_users st' = st_users st"
    "same_identity j cur" "j_state j = to"
  using transition_Inr(4) [OF assms] transition_Inr(2) [OF assms] by (simp_all add: same_identity_def)

lemma transition_on_job:
  assumes "on_job n c rows cur st" and "transition st cur to reason [] b h ec clr = Inr (j, st')"
  shows "on_job n c rows j st'"
proof -
  note D = on_jobD [OF assms(1)] and F = transition_frame [OF assms(2)]
  obtain r where jobs: "st_jobs st' = map (\<lambda>x. if j_id x = j_id cur then apply_transition_row j x else x) (st_jobs st)"
    using transition_row_set [OF assms(2) D(1)] by blast
  have "on_job n c rows cur st'"
    by (rule on_job_step [OF assms(1) _ F(1,2) jobs]) (simp_all add: transition_inv [OF assms(2) D(1,2)])
  then show ?thesis using on_job_same F(4) by blast
qed

lemma settle_on_job:
  assumes "on_job n c rows j st" and "quantize a (j_currency j) \<le> job_holding st (j_id j) (j_currency j)"
  shows "on_job n c rows j (settle st j a note)"
proof (rule on_job_step [OF assms(1)])
  show "store_inv (settle st j a note)"
    using settle_inv [OF on_jobD(1,2) [OF assms(1)] assms(2)] .
  show "st_jobs (settle st j a note) = map (\<lambda>r. if j_id r = j_id j
      then (if 0 < quantize a (j_currency j) then r\<lparr>j_updated_at := st_now st\<rparr> else r) else r) (st_jobs st)"
    by (simp add: settle_jobs)
qed (simp_all add: same_identity_def)

text \<open>An object of the job after a harmless column changed, and the store that goes with it.\<close>

lemma update_job_jobs: "st_jobs (update_job jid f st) = map (\<lambda>r. if j_id r = jid then f r else r) (st_jobs st)"
  by (simp add: update_job_def)

lemma row_ops_on_job:
  assumes "on_job n c rows j st"
  shows "on_job n c rows (fst (record_attempt st j)) (snd (record_attempt st j))"
    and "on_job n c rows (fst (record_preemption st j)) (snd (record_preemption st j))"
    and "on_job n c rows (fst (record_checkpoint st j step key)) (snd (record_checkpoint st j step key))"
    and "on_job n c rows (fst (pin_tier st j tier reason)) (snd (pin_tier st j tier reason))"
    and "on_job n c rows j (snd (append_backend_logs st j lines))"
proof -
  note inv = row_ops_inv [OF on_jobD(1) [OF assms]]
  have upd: "on_job n c rows j st'"
    if "store_inv st'" "st_now st' = st_now st" "st_cfg st' = st_cfg st"
      "st_jobs st' = st_jobs (update_job (j_id j) f st)" "\<And>r. same_identity (f r) r" for st' f
    by (rule on_job_step [OF assms that(1,2,3) _ that(5)]) (simp add: that(4) update_job_jobs)
  have "on_job n c rows j (snd (record_attempt st j))"
    by (rule upd [OF inv(2), where f = "\<lambda>r. r\<lparr>j_attempts := j_attempts r + 1, j_updated_at := st_now st\<rparr>"])
      (simp_all add: record_attempt_def Let_def same_identity_def)
  then show "on_job n c rows (fst (record_attempt st j)) (snd (record_attempt st j))"
    by (rule on_job_same [rotated]) (simp add: record_attempt_def Let_def same_identity_def)
  have "on_job n c rows j (snd (record_preemption st j))"
    by (rule upd [OF inv(3), where f = "\<lambda>r. r\<lparr>j_preemptions := j_preemptions r + 1, j_updated_at := st_now st\<rparr>"])
      (simp_all add: record_preemption_def Let_def same_identity_def)
  then show "on_job n c rows (fst (record_preemption st j)) (snd (record_preemption st j))"
    by (rule on_job_same [rotated]) (simp add: record_preemption_def Let_def same_identity_def)
  have "on_job n c rows j (snd (record_checkpoint st j step key))"
    by (rule upd [OF inv(4), where f = "\<lambda>r. r\<lparr>j_checkpoint_step := Some step, j_checkpoint_key := Some key,
              j_checkpoint_at := Some (st_now st), j_updated_at := st_now st\<rparr>"])
      (simp_all add: record_checkpoint_def Let_def same_identity_def)
  then show "on_job n c rows (fst (record_checkpoint st j step key)) (snd (record_checkpoint st j step key))"
    by (rule on_job_same [rotated]) (simp add: record_checkpoint_def Let_def same_identity_def)
  have "on_job n c rows j (snd (pin_tier st j tier reason))"
    by (rule upd [OF inv(5), where f = "\<lambda>r. r\<lparr>j_pinned_tier := Some tier, j_updated_at := st_now st\<rparr>"])
      (simp_all add: pin_tier_def Let_def same_identity_def)
  then show "on_job n c rows (fst (pin_tier st j tier reason)) (snd (pin_tier st j tier reason))"
    by (rule on_job_same [rotated]) (simp add: pin_tier_def Let_def same_identity_def)
  show "on_job n c rows j (snd (append_backend_logs st j lines))"
  proof (cases "lines = []")
    case True
    then show ?thesis using assms by (simp add: append_backend_logs_def)
  next
    case False
    then show ?thesis
      by (intro upd [OF inv(6), where f = "\<lambda>r. r\<lparr>j_logs_fetched := j_logs_fetched j + length lines, j_updated_at := st_now st\<rparr>"])
        (simp_all add: append_backend_logs_def Let_def same_identity_def update_job_def)
  qed
qed

lemma quiet_ops_on_job:
  assumes "on_job n c rows j st"
  shows "on_job n c rows j (append_log st jid s l)" "on_job n c rows j (record_samples st jid ss)"
    "on_job n c rows j (snd (idle_notify st v cfg))" "on_job n c rows j (snd (store_notify st u k m jo))"
    "on_job n c rows j (record_schedule_observation st jid d rc me bn ti de)"
  by (rule on_job_quiet [OF assms]; use on_jobD(1) [OF assms] in \<open>simp add: quiet_ops_inv idle_notify_inv\<close>)+

subsection \<open>Handlers of one job\<close>

definition left :: "moment \<Rightarrow> broker_config \<Rightarrow> job set \<Rightarrow> store \<Rightarrow> bool" where
  "left n c rows st \<longleftrightarrow> sane n c st \<and> (\<forall>r\<in>rows. r \<in> set (st_jobs st))"

lemma on_job_left: "on_job n c rows j st \<Longrightarrow> left n c rows st"
  by (simp add: left_def on_job_sane) (simp add: on_job_def)

abbreviation job_triple ::
  "moment \<Rightarrow> broker_config \<Rightarrow> job set \<Rightarrow> job \<Rightarrow> ('e, 'a) act \<Rightarrow> ('a \<Rightarrow> 'e world \<Rightarrow> bool) \<Rightarrow> bool"
where
  "job_triple n c rows j m Q \<equiv>
     triple (\<lambda>w. on_job n c rows j (w_store w)) m Q (\<lambda>w. left n c rows (w_store w))"

named_theorems job_steps \<open>triples for the calls a handler makes\<close>

lemma calls_job [job_steps]: "job_triple n c rows j (calls op) (\<lambda>_ w. on_job n c rows j (w_store w))"
  by (rule triple_calls) (auto intro: on_job_left)

lemma reads_job [job_steps]: "job_triple n c rows j (reads f) (\<lambda>_ w. on_job n c rows j (w_store w))"
  by (rule triple_reads)

lemma reads_try_job [job_steps]: "job_triple n c rows j (reads_try f) (\<lambda>_ w. on_job n c rows j (w_store w))"
  by (rule triple_reads_try) (auto intro: on_job_left)

lemma log_line_job [job_steps]: "job_triple n c rows j (log_line k l) (\<lambda>_ w. on_job n c rows j (w_store w))"
  unfolding log_line_def by (rule triple_writes) (simp add: quiet_ops_on_job)

lemma move_job [job_steps]: "job_triple n c rows j (move j to r ec clr) (\<lambda>j' w. on_job n c rows j' (w_store w))"
  unfolding move_def by (rule triple_writes_try) (auto intro: on_job_left transition_on_job)

lemma write_ops_job [job_steps]:
  "job_triple n c rows j (writes (\<lambda>st. record_samples st jid (ss st))) (\<lambda>_ w. on_job n c rows j (w_store w))"
  "job_triple n c rows j (writes (\<lambda>st. snd (idle_notify st v (st_cfg st)))) (\<lambda>_ w. on_job n c rows j (w_store w))"
  "job_triple n c rows j (writes (\<lambda>st. snd (store_notify st u k m jo))) (\<lambda>_ w. on_job n c rows j (w_store w))"
  "job_triple n c rows j (writes (\<lambda>st. record_schedule_observation st jid d rc me bn ti de))
     (\<lambda>_ w. on_job n c rows j (w_store w))"
  by (rule triple_writes; simp add: quiet_ops_on_job)+

lemma writes_with_ops_job [job_steps]:
  "job_triple n c rows j (writes_with (\<lambda>st. record_attempt st j)) (\<lambda>j' w. on_job n c rows j' (w_store w))"
  "job_triple n c rows j (writes_with (\<lambda>st. record_preemption st j)) (\<lambda>j' w. on_job n c rows j' (w_store w))"
  "job_triple n c rows j (writes_with (\<lambda>st. record_checkpoint st j step key)) (\<lambda>j' w. on_job n c rows j' (w_store w))"
  "job_triple n c rows j (writes_with (\<lambda>st. pin_tier st j tier reason)) (\<lambda>j' w. on_job n c rows j' (w_store w))"
  "job_triple n c rows j (writes_with (\<lambda>st. append_backend_logs st j ls)) (\<lambda>_ w. on_job n c rows j (w_store w))"
  by (rule triple_writes_with; simp add: row_ops_on_job)+

lemma left_job: "job_triple n c rows j (ret a) (\<lambda>_ w. left n c rows (w_store w))"
  by (rule triple_ret) (rule on_job_left)

text \<open>A backend that raises leaves the store as it was, so the handler of its exception starts where
  the call started.\<close>

lemma catching_calls_job:
  assumes "\<And>e. job_triple n c rows j (h e) Q" and "\<And>a w. on_job n c rows j (w_store w) \<Longrightarrow> Q a w"
  shows "job_triple n c rows j (catching p (calls op) h) Q"
proof (rule triple_catching [OF _ assms(1)])
  show "triple (\<lambda>w. on_job n c rows j (w_store w)) (calls op) Q (\<lambda>w. on_job n c rows j (w_store w))"
    by (rule triple_weaken [OF triple_calls [where S = "on_job n c rows j" and
          P = "\<lambda>w. on_job n c rows j (w_store w)" and E = "\<lambda>w. on_job n c rows j (w_store w)"]])
      (simp_all add: assms(2))
qed (rule on_job_left)

lemma catching_then_job:
  assumes "\<And>e. job_triple n c rows j (h e) Q" and "\<And>a w. on_job n c rows j (w_store w) \<Longrightarrow> Q (f a) w"
  shows "job_triple n c rows j (catching p (and_then (calls op) (\<lambda>a. ret (f a))) h) Q"
proof (rule triple_catching [OF _ assms(1)])
  show "triple (\<lambda>w. on_job n c rows j (w_store w)) (and_then (calls op) (\<lambda>a. ret (f a))) Q
      (\<lambda>w. on_job n c rows j (w_store w))"
    by (rule triple_then [OF triple_calls [where S = "on_job n c rows j"] triple_ret]) (simp_all add: assms(2))
qed (rule on_job_left)

lemma drain_logs_job [job_steps]: "job_triple n c rows j (drain_logs j b) (\<lambda>j' w. on_job n c rows j' (w_store w))"
  unfolding drain_logs_def
proof (rule triple_then)
  show "job_triple n c rows j
       (catching is_backend_error
          (and_then (calls (bk_fetch_logs b (or_empty (j_handle j)) (j_logs_fetched j))) (\<lambda>new_lines. ret (Some new_lines)))
          (\<lambda>e. and_then (log_line j (''could not read logs: '' @ error_text e)) (\<lambda>_. ret None)))
       (\<lambda>_ w. on_job n c rows j (w_store w))"
    by (rule catching_then_job) (rule triple_then, rule job_steps, rule triple_ret, assumption)
  fix answer :: "(string \<times> string) list option"
  have cur: "job_triple n c rows j (ret (j\<lparr>j_logs_fetched := k\<rparr>)) (\<lambda>j' w. on_job n c rows j' (w_store w))" for k
    by (rule triple_ret) (erule on_job_same [rotated], simp add: same_identity_def)
  show "job_triple n c rows j (case answer of None \<Rightarrow> ret j
        | Some new_lines \<Rightarrow>
            if new_lines = [] then ret j
            else and_then (writes_with (\<lambda>st. append_backend_logs st j new_lines))
                   (\<lambda>cursor. ret (j\<lparr>j_logs_fetched := cursor\<rparr>)))
      (\<lambda>j' w. on_job n c rows j' (w_store w))"
    by (cases answer) (simp_all add: triple_ret triple_then [OF writes_with_ops_job(5) cur])
qed

lemma sample_job_job [job_steps]: "job_triple n c rows j (sample_job j b) (\<lambda>_ w. on_job n c rows j (w_store w))"
proof -
  have catch: "job_triple n c rows j (catching is_backend_error (calls op) (\<lambda>_. ret []))
      (\<lambda>_ w. on_job n c rows j (w_store w))" for op
    by (rule catching_calls_job) (rule triple_ret)
  show ?thesis unfolding sample_job_def Let_def split_def
    by (intro triple_then [OF reads_job] triple_if triple_ret triple_then [OF catch] triple_then [OF write_ops_job(1)]
        triple_then [OF reads_try_job] write_ops_job(2))
qed

lemma collect_checkpoint_job [job_steps]:
  "job_triple n c rows j (collect_checkpoint sc j)
     (\<lambda>p w. on_job n c rows (case p of Some p \<Rightarrow> p | None \<Rightarrow> j) (w_store w))"
proof (cases "sc_checkpoints sc")
  case None
  then show ?thesis by (simp add: collect_checkpoint_def triple_ret)
next
  case (Some latest)
  have catch: "job_triple n c rows j (catching (\<lambda>_. True) (calls op)
      (\<lambda>e. and_then (log_line j (l e)) (\<lambda>_. ret None))) (\<lambda>_ w. on_job n c rows j (w_store w))" for op l
    by (rule catching_calls_job) (rule triple_then [OF log_line_job triple_ret])
  show ?thesis unfolding collect_checkpoint_def Some option.case
    by (rule triple_then [OF catch])
      (auto intro!: triple_ret triple_then [OF writes_with_ops_job(3)] split: option.split)
qed

lemma requeue_job: "job_triple n c rows j (requeue j out) (\<lambda>_ w. left n c rows (w_store w))"
  unfolding requeue_def Let_def by (intro triple_then [OF log_line_job] triple_then [OF move_job] left_job)

lemma finish_job: "job_triple n c rows j (finish j to r ec out) (\<lambda>_ w. left n c rows (w_store w))"
  unfolding finish_def by (intro triple_then [OF move_job] left_job)

lemma preempt_job: "job_triple n c rows j (preempt sc j b obs out) (\<lambda>_ w. left n c rows (w_store w))"
proof -
  have pin: "job_triple n c rows j2
      (case fallback of
         None \<Rightarrow> and_then (log_line j2 l) (\<lambda>_. requeue j2 out)
       | Some tier \<Rightarrow>
           and_then (writes_with (\<lambda>st. pin_tier st j2 tier note1)) (\<lambda>j3.
           and_then (writes (\<lambda>st. snd (store_notify st (j_user j3) k (msg_pinned j3) (Some (j_id j3)))))
             (\<lambda>_. requeue j3 out))) (\<lambda>_ w. left n c rows (w_store w))" for fallback j2 l note1 k
    by (cases fallback) (auto intro!: triple_then [OF log_line_job] triple_then [OF writes_with_ops_job(4)]
        triple_then [OF write_ops_job(3)] requeue_job)
  show ?thesis unfolding preempt_def
    by (intro triple_then [OF calls_job] triple_then [OF collect_checkpoint_job] triple_then [OF writes_with_ops_job(2)]
        triple_then [OF move_job] triple_then [OF reads_job] triple_if triple_then [OF reads_try_job] pin requeue_job)
qed

lemma advance_observed_job:
  "job_triple n c rows j (advance_observed sc j b h now obs out) (\<lambda>_ w. left n c rows (w_store w))"
proof -
  have start: "job_triple n c rows j
      (catching is_backend_error (and_then (calls (bk_start b h j)) (\<lambda>_. ret None)) (\<lambda>e. ret (Some e)))
      (\<lambda>_ w. on_job n c rows j (w_store w))"
    by (rule catching_then_job) (rule triple_ret)
  have started: "job_triple n c rows j (case failure of
             Some e \<Rightarrow>
               and_then (log_line j (l e)) (\<lambda>_.
               and_then (calls (bk_terminate b h ''failed to start'')) (\<lambda>_. finish j FAILED (r e) None out))
           | None \<Rightarrow> and_then (log_line j ''command sent; job is running'') (\<lambda>_. ret out))
      (\<lambda>_ w. left n c rows (w_store w))" for failure l r
    by (cases failure) (simp_all add: triple_then [OF log_line_job] triple_then [OF calls_job] finish_job left_job)
  have follow: "job_triple n c rows j (case goal of None \<Rightarrow> ret out
      | Some g \<Rightarrow> if g = j_state j then ret out
          else if \<not> can_transition (j_state j) g then and_then (log_line j (l g)) (\<lambda>_. ret out)
          else and_then (move j g (observed_reason obs) (os_exit_code obs) False) (\<lambda>j'. ret (out\<lparr>o_final := Some (j_state j')\<rparr>)))
      (\<lambda>_ w. left n c rows (w_store w))" for goal l
    by (cases goal) (simp_all add: left_job triple_then [OF log_line_job] triple_then [OF move_job])
  show ?thesis unfolding advance_observed_def Let_def
    by (intro triple_if triple_then [OF start started] preempt_job triple_then [OF calls_job] finish_job
        triple_then [OF reads_try_job] triple_then [OF drain_logs_job] triple_then [OF move_job] left_job follow)
qed

subsection \<open>Accrual\<close>

lemma accrue_le_holding:
  assumes "store_inv st" and "j \<in> set (st_jobs st)" and "j_state j \<notin> set TERMINAL" and "accrue st j now = Inr a"
  shows "quantize a (j_currency j) \<le> job_holding st (j_id j) (j_currency j)"
proof -
  note live = live_holding [OF assms(1-3)]
  have "a \<le> max 0 (j_reserved j - job_spend st (j_id j))"
    using assms(4) by (auto simp: accrue_def Let_def split: sum.splits)
  also have "\<dots> \<le> job_holding st (j_id j) (j_currency j)"
    using live job_spend_ge_settled [OF assms(1), of "j_id j"] by simp
  finally have "quantize a (j_currency j) \<le> quantize (job_holding st (j_id j) (j_currency j)) (j_currency j)"
    by (rule quantize_mono)
  then show ?thesis using job_holding_whole_cents [OF assms(1)] by simp
qed

lemma advance_job:
  assumes "j_state j \<notin> set TERMINAL"
  shows "triple (\<lambda>w. on_job n c rows j (w_store w) \<and> j \<in> set (st_jobs (w_store w)))
    (advance sc j now) (\<lambda>_ w. left n c rows (w_store w)) (\<lambda>w. left n c rows (w_store w))"
proof -
  let ?P = "\<lambda>w. on_job n c rows j (w_store w) \<and> j \<in> set (st_jobs (w_store w))"
  let ?F = "\<lambda>a w. on_job n c rows j (w_store w) \<and>
      quantize a (j_currency j) \<le> job_holding (w_store w) (j_id j) (j_currency j)"
  have acc: "triple ?P (reads_try (\<lambda>st. accrue st j now)) ?F (\<lambda>w. left n c rows (w_store w))"
    by (rule triple_reads_try) (auto intro: on_job_left accrue_le_holding [OF _ _ assms] dest: on_jobD(1))
  have pay: "triple (?F a) (if a > 0 then writes (\<lambda>st. settle st j a note1) else ret ())
      (\<lambda>_ w. on_job n c rows j (w_store w)) (\<lambda>w. left n c rows (w_store w))" for a note1
    by (auto intro!: triple_ret triple_writes settle_on_job)
  show ?thesis
  proof (cases "scheduler_backend sc (or_empty (j_backend j))")
    case None
    then show ?thesis by (auto simp: advance_def intro!: triple_ret intro: on_job_left)
  next
    case b: (Some b)
    show ?thesis
    proof (cases "j_handle j")
      case None
      then show ?thesis using b by (auto simp: advance_def intro!: triple_ret intro: on_job_left)
    next
      case h: (Some h)
      show ?thesis unfolding advance_def b h option.case prod.case Let_def
        by (intro triple_then [OF acc] triple_then [OF pay] triple_if triple_then [OF calls_job]
            triple_then [OF drain_logs_job] finish_job triple_then [OF sample_job_job] advance_observed_job)
    qed
  qed
qed

lemma active_jobs_set: "j \<in> set (active_jobs st) \<longleftrightarrow> j \<in> set (st_jobs st) \<and> j_state j \<in> set ACTIVE"
  by (auto simp: active_jobs_def list_jobs_def state_sets)

lemma queued_jobs_set: "j \<in> set (queued_jobs st) \<longleftrightarrow> j \<in> set (st_jobs st) \<and> j_state j = QUEUED"
  by (auto simp: queued_jobs_def list_jobs_def)

lemma list_jobs_distinct: "distinct (map j_id (st_jobs st)) \<Longrightarrow> distinct (map j_id (list_jobs st u ss None))"
proof -
  assume "distinct (map j_id (st_jobs st))"
  then have "distinct (map j_id (filter P (st_jobs st)))" for P by (rule distinct_map_filter)
  then have "distinct (map j_id (sort_key job_order (filter P (st_jobs st))))" for P
    unfolding distinct_map by simp
  then show ?thesis unfolding list_jobs_def Let_def by simp
qed

text \<open>A loop over distinct jobs read from the table: each handler finds its own row untouched, because
  the ones before it worked on other jobs. Rows of jobs that are not in the list stay as they are.\<close>

lemma for_each_jobs_left:
  fixes f :: "'x \<Rightarrow> 'a \<Rightarrow> ('e, 'a) act"
  assumes dist: "distinct (map (j_id \<circ> key) xs)" and keep: "\<And>r x. r \<in> keep \<Longrightarrow> x \<in> set xs \<Longrightarrow> j_id r \<noteq> j_id (key x)"
    and step: "\<And>x a rows. x \<in> set xs \<Longrightarrow>
      triple (\<lambda>w. on_job n c rows (key x) (w_store w) \<and> key x \<in> set (st_jobs (w_store w))) (f x a)
        (\<lambda>_ w. left n c rows (w_store w)) (\<lambda>w. left n c rows (w_store w))"
  shows "triple (\<lambda>w. left n c keep (w_store w) \<and> key ` set xs \<subseteq> set (st_jobs (w_store w))) (for_each f xs a)
    (\<lambda>_ w. left n c keep (w_store w)) (\<lambda>w. left n c keep (w_store w))"
proof -
  let ?rest = "\<lambda>pre. keep \<union> key ` (set xs - set pre)"
  let ?I = "\<lambda>pre (_ :: 'a) (w :: 'e world). left n c (?rest pre) (w_store w)"
  let ?E = "\<lambda>w :: 'e world. left n c keep (w_store w)"
  have one: "triple (?I pre a) (f x a) (?I (pre @ [x])) ?E" if "xs = pre @ x # rest" for x a pre rest
  proof (rule triple_weaken [OF step [where x = x and rows = "?rest (pre @ [x])"]])
    show x: "x \<in> set xs" using that by simp
    have "x \<notin> set pre" using that dist by auto
    then have mine: "key x \<in> ?rest pre" using x by blast
    have others: "j_id r \<noteq> j_id (key x)" if "r \<in> ?rest (pre @ [x])" for r
      using that x keep map_of_fst_distinct [OF dist] by fastforce
    show "on_job n c (?rest (pre @ [x])) (key x) (w_store w) \<and> key x \<in> set (st_jobs (w_store w))" if "?I pre a w" for w
      using that mine others by (auto simp: left_def on_job_def sane_def intro: known_job_row)
  qed (auto simp: left_def)
  have "triple (?I [] a) (for_each f xs a) (?I xs) ?E"
    by (rule triple_for_each) (rule one)
  then show ?thesis by (rule triple_weaken) (auto simp: left_def)
qed

lemma advance_all_left:
  assumes "distinct (map j_id jobs)" and "\<And>j. j \<in> set jobs \<Longrightarrow> j_state j \<notin> set TERMINAL"
    and "\<And>r j. r \<in> keep \<Longrightarrow> j \<in> set jobs \<Longrightarrow> j_id r \<noteq> j_id j"
  shows "triple (\<lambda>w. left n c keep (w_store w) \<and> set jobs \<subseteq> set (st_jobs (w_store w))) (advance_all sc now jobs)
    (\<lambda>_ w. left n c keep (w_store w)) (\<lambda>w. left n c keep (w_store w))"
proof -
  have "triple (\<lambda>w. on_job n c rows j (w_store w) \<and> j \<in> set (st_jobs (w_store w)))
      (and_then (advance sc j now) (\<lambda>out. ret (note_outcome (j_id j) out a)))
      (\<lambda>_ w. left n c rows (w_store w)) (\<lambda>w. left n c rows (w_store w))" if "j \<in> set jobs" for j a rows
    by (rule triple_then [OF advance_job [OF assms(2) [OF that]] triple_ret])
  from for_each_jobs_left [where key = "\<lambda>j. j" and keep = keep, OF _ assms(3) this] show ?thesis
    unfolding advance_all_def using assms(1) by (simp add: comp_def)
qed

end
