(* ===== verification/Policy.thy ===== *)
theory Policy
  imports SchedulerInv
begin

text \<open>
  The scheduling policy as a step relation, what it guarantees, and the proof that the generator
  \<open>decisions\<close> of the scheduler implements it. One step decides one job of the queue; a run
  decides the queue in order and, once every currency is blocked, blocks the rest.
\<close>

inductive policy_step ::
  "store \<Rightarrow> job \<Rightarrow> pass_state \<Rightarrow> action \<Rightarrow> pass_state \<Rightarrow> bool \<Rightarrow> bool" for st j ps
where
  unauthorized: "map_of (ps_suspended ps) (j_user j) \<noteq> None \<Longrightarrow> policy_step st j ps BLOCKED_UNAUTHORIZED ps False"
| already: "map_of (ps_suspended ps) (j_user j) = None \<Longrightarrow> j_currency j \<in> ps_blocked ps \<Longrightarrow>
     policy_step st j ps BLOCKED_POOL ps False"
| tenant: "map_of (ps_suspended ps) (j_user j) = None \<Longrightarrow> j_currency j \<notin> ps_blocked ps \<Longrightarrow>
     c_max_running_jobs_per_user (st_cfg st) \<le> holding_of st ps (j_user j) \<Longrightarrow>
     policy_step st j ps BLOCKED_TENANT (counted st ps (j_user j)) False"
| pool: "map_of (ps_suspended ps) (j_user j) = None \<Longrightarrow> j_currency j \<notin> ps_blocked ps \<Longrightarrow>
     holding_of st ps (j_user j) < c_max_running_jobs_per_user (st_cfg st) \<Longrightarrow>
     remaining ps (j_currency j) < j_reserved j \<Longrightarrow>
     ps' = block_currency (j_currency j) (counted st ps (j_user j)) \<Longrightarrow>
     policy_step st j ps BLOCKED_POOL ps' (ps_blocked ps' = UNIV)"
| capacity: "map_of (ps_suspended ps) (j_user j) = None \<Longrightarrow> j_currency j \<notin> ps_blocked ps \<Longrightarrow>
     holding_of st ps (j_user j) < c_max_running_jobs_per_user (st_cfg st) \<Longrightarrow>
     j_reserved j \<le> remaining ps (j_currency j) \<Longrightarrow>
     policy_step st j ps BLOCKED_CAPACITY (counted st ps (j_user j)) False"
| go: "map_of (ps_suspended ps) (j_user j) = None \<Longrightarrow> j_currency j \<notin> ps_blocked ps \<Longrightarrow>
     holding_of st ps (j_user j) < c_max_running_jobs_per_user (st_cfg st) \<Longrightarrow>
     j_reserved j \<le> remaining ps (j_currency j) \<Longrightarrow>
     policy_step st j ps DISPATCH (commit_job j (counted st ps (j_user j))) False"

inductive_cases policy_dispatch: "policy_step st j ps DISPATCH ps' stop"
inductive_cases policy_any: "policy_step st j ps act1 ps' stop"

subsection \<open>The scheduler's decision is a policy step\<close>

definition decided :: "store \<Rightarrow> job \<Rightarrow> pass_state \<Rightarrow> decision \<Rightarrow> 'e backend option \<Rightarrow> pass_state \<Rightarrow> bool \<Rightarrow> bool" where
  "decided st j ps d b ps' stop \<longleftrightarrow>
     dc_job d = j \<and> policy_step st j ps (dc_action d) ps' stop \<and> (b \<noteq> None \<longleftrightarrow> dc_action d = DISPATCH) \<and>
     dc_backend d = map_option bk_name b"

lemma all_currencies_blocked: "(\<forall>c\<in>set enum_class.enum. c \<in> B) \<longleftrightarrow> (B :: currency set) = UNIV"
  using enum_class.UNIV_enum by auto

abbreviation on_store :: "store \<Rightarrow> 'e world \<Rightarrow> bool" where
  "on_store st \<equiv> \<lambda>w. w_store w = st"

lemma counted_simps [simp]:
  "ps_headroom (counted st ps u) = ps_headroom ps" "ps_committed (counted st ps u) = ps_committed ps"
  "ps_blocked (counted st ps u) = ps_blocked ps" "ps_suspended (counted st ps u) = ps_suspended ps"
  "ps_held (counted st ps u) = (ps_held ps)(u \<mapsto> holding_of st ps u)" "remaining (counted st ps u) = remaining ps"
  by (simp_all add: counted_def remaining_def fun_eq_iff)

lemma decide_open_policy:
  assumes "map_of (ps_suspended ps) (j_user j) = None" and "j_currency j \<notin> ps_blocked ps"
  shows "triple (on_store st) (decide_open sc j (counted st ps (j_user j)) (st_cfg st))
     (\<lambda>(d, b, ps', stop) w. w_store w = st \<and> decided st j ps d b ps' stop) (on_store st)"
proof -
  let ?Q = "\<lambda>(d, b, ps', stop) w. w_store w = st \<and> decided st j ps d b ps' stop"
  let ?ps = "counted st ps (j_user j)" and ?M = "c_max_running_jobs_per_user (st_cfg st)"
  have choose: "triple (on_store st) (choose_placement j (sc_backends sc) (st_cfg st)) (\<lambda>_. on_store st) (on_store st)"
    by (rule triple_weaken [OF choose_triple]) simp_all
  consider (ten) "?M \<le> holding_of st ps (j_user j)"
    | (cap) "holding_of st ps (j_user j) < ?M" "remaining ps (j_currency j) < j_reserved j"
    | (go) "holding_of st ps (j_user j) < ?M" "j_reserved j \<le> remaining ps (j_currency j)" by linarith
  then show ?thesis
  proof cases
    case ten
    then show ?thesis unfolding decide_open_def Let_def
      by (simp, intro triple_ret) (simp add: decided_def blocked_decision_def policy_step.tenant assms)
  next
    case cap
    have "decided st j ps (blocked_decision j BLOCKED_POOL l) None (block_currency (j_currency j) ?ps)
        (ps_blocked (block_currency (j_currency j) ?ps) = UNIV)" for l
      using policy_step.pool [OF assms cap refl] by (simp add: decided_def blocked_decision_def)
    then show ?thesis using cap unfolding decide_open_def Let_def all_currencies_blocked
      by (simp, intro triple_ret) simp
  next
    case go
    have "case decide_placed j ?ps p of (d, b, ps', stop) \<Rightarrow> decided st j ps d b ps' stop" for p :: "'a placement"
      using policy_step.capacity [OF assms go] policy_step.go [OF assms go]
      by (simp add: decide_placed_def decided_def blocked_decision_def split: option.split)
    then show ?thesis using go unfolding decide_open_def Let_def
      by (simp, intro triple_then [OF choose] triple_ret) (fastforce split: prod.splits)
  qed
qed

lemma decide_policy:
  "triple (on_store st) (decide sc j ps)
     (\<lambda>(d, b, ps', stop) w. w_store w = st \<and> decided st j ps d b ps' stop) (on_store st)"
proof (cases "map_of (ps_suspended ps) (j_user j)")
  case (Some reason)
  then show ?thesis unfolding decide_def Some option.case
    by (intro triple_ret) (simp add: decided_def blocked_decision_def policy_step.unauthorized Some)
next
  case free: None
  show ?thesis
  proof (cases "j_currency j \<in> ps_blocked ps")
    case True
    then show ?thesis unfolding decide_def free option.case
      by (simp, intro triple_ret) (simp add: decided_def blocked_decision_def policy_step.already free)
  next
    case False
    have rd: "triple (on_store st) (reads (\<lambda>st. st)) (\<lambda>s w. w_store w = st \<and> s = st) (on_store st)"
      by (rule triple_reads) simp
    show ?thesis unfolding decide_def free option.case if_not_P [OF False]
    proof (rule triple_then [OF rd])
      fix s
      show "triple (\<lambda>w. w_store w = st \<and> s = st) (decide_open sc j (counted s ps (j_user j)) (st_cfg s))
         (\<lambda>(d, b, ps', stop) w. w_store w = st \<and> decided st j ps d b ps' stop) (on_store st)"
      proof (cases "s = st")
        case True
        then show ?thesis by (intro triple_weaken [OF decide_open_policy [OF free False]]) simp_all
      qed (simp add: triple_def)
    qed
  qed
qed

subsection \<open>Runs\<close>

inductive policy_run :: "store \<Rightarrow> job list \<Rightarrow> pass_state \<Rightarrow> decision list \<Rightarrow> bool" for st
where
  over: "policy_run st [] ps []"
| step: "policy_step st j ps (dc_action d) ps' False \<Longrightarrow> dc_job d = j \<Longrightarrow> policy_run st q ps' ds \<Longrightarrow>
     policy_run st (j # q) ps (d # ds)"
| halt: "policy_step st j ps (dc_action d) ps' True \<Longrightarrow> dc_job d = j \<Longrightarrow> map dc_job ds = q \<Longrightarrow>
     \<forall>d\<in>set ds. dc_action d = BLOCKED_POOL \<Longrightarrow> policy_run st (j # q) ps (d # ds)"

lemma policy_step_blocked: "policy_step st j ps a ps' stop \<Longrightarrow> ps_blocked ps \<subseteq> ps_blocked ps'"
  by (cases rule: policy_any, assumption) (auto simp: block_currency_def commit_job_def)

lemma policy_step_pool: "policy_step st j ps BLOCKED_POOL ps' stop \<Longrightarrow> j_currency j \<in> ps_blocked ps'"
  by (cases rule: policy_any, assumption) (auto simp: block_currency_def)

lemma policy_step_stop: "policy_step st j ps a ps' True \<Longrightarrow> a = BLOCKED_POOL \<and> ps_blocked ps' = UNIV"
  by (cases rule: policy_any, assumption) auto

lemma policy_step_fixed:
  "policy_step st j ps a ps' stop \<Longrightarrow> ps_headroom ps' = ps_headroom ps \<and> ps_suspended ps' = ps_suspended ps"
  by (cases rule: policy_any, assumption) (auto simp: block_currency_def commit_job_def)

text \<open>Every queued job gets exactly one decision, in the order of the queue.\<close>

lemma run_jobs: "policy_run st q ps ds \<Longrightarrow> map dc_job ds = q"
  by (induction rule: policy_run.induct) simp_all

lemma run_blocked:
  "policy_run st q ps ds \<Longrightarrow> d \<in> set ds \<Longrightarrow> j_currency (dc_job d) \<in> ps_blocked ps \<Longrightarrow> dc_action d \<noteq> DISPATCH"
proof (induction rule: policy_run.induct)
  case (step j ps d' ps' q ds)
  show ?case
  proof (cases "d = d'")
    case True
    then show ?thesis using step by (auto elim: policy_dispatch)
  next
    case False
    then show ?thesis using step policy_step_blocked [OF step.hyps(1)] by auto
  qed
next
  case (halt j ps d' ps' ds q)
  then show ?case using policy_step_stop [OF halt.hyps(1)] by auto
qed simp

lemma run_Cons:
  assumes "policy_run st q ps (d # ds)"
  obtains ps' stop q' where "q = dc_job d # q'" "policy_step st (dc_job d) ps (dc_action d) ps' stop"
    "if stop then \<forall>d\<in>set ds. dc_action d = BLOCKED_POOL else policy_run st q' ps' ds"
  using assms by (cases rule: policy_run.cases) (metis (full_types))+

text \<open>Being first in line means something: behind a job that the pool cannot pay for, no job in the
  same currency is dispatched.\<close>

lemma run_head_of_line:
  "policy_run st q ps (ds1 @ d # ds2) \<Longrightarrow> dc_action d = BLOCKED_POOL \<Longrightarrow> d' \<in> set ds2 \<Longrightarrow>
     j_currency (dc_job d') = j_currency (dc_job d) \<Longrightarrow> dc_action d' \<noteq> DISPATCH"
proof (induction ds1 arbitrary: q ps)
  case Nil
  then obtain ps' stop q' where r: "policy_step st (dc_job d) ps (dc_action d) ps' stop"
    "if stop then \<forall>d\<in>set ds2. dc_action d = BLOCKED_POOL else policy_run st q' ps' ds2"
    by (auto elim: run_Cons)
  have "j_currency (dc_job d') \<in> ps_blocked ps'" using policy_step_pool r(1) Nil.prems(2,4) by metis
  then show ?case using run_blocked r(2) Nil.prems(3) by (cases stop) auto
next
  case (Cons e ds1)
  then obtain ps' stop q' where r:
    "if stop then \<forall>d\<in>set (ds1 @ d # ds2). dc_action d = BLOCKED_POOL else policy_run st q' ps' (ds1 @ d # ds2)"
    by (auto elim: run_Cons)
  show ?case
  proof (cases stop)
    case True
    then show ?thesis using r Cons.prems(3) by auto
  next
    case False
    then show ?thesis using Cons.IH [of q' ps'] r Cons.prems by simp
  qed
qed

lemma run_suspended:
  "policy_run st q ps ds \<Longrightarrow> d \<in> set ds \<Longrightarrow> dc_action d = DISPATCH \<Longrightarrow>
     map_of (ps_suspended ps) (j_user (dc_job d)) = None"
proof (induction rule: policy_run.induct)
  case (step j ps d' ps' q ds)
  show ?case
  proof (cases "d = d'")
    case True
    then show ?thesis using step by (auto elim: policy_dispatch)
  next
    case False
    then show ?thesis using step policy_step_fixed [OF step.hyps(1)] by auto
  qed
next
  case (halt j ps d' ps' ds q)
  then show ?case using policy_step_stop [OF halt.hyps(1)] by auto
qed simp

text \<open>What a run commits in one currency.\<close>

definition committed_by :: "decision list \<Rightarrow> currency \<Rightarrow> decimal" where
  "committed_by ds cur =
     (\<Sum>d\<leftarrow>filter (\<lambda>d. dc_action d = DISPATCH \<and> j_currency (dc_job d) = cur) ds. j_reserved (dc_job d))"

lemma committed_by_simps [simp]:
  "committed_by [] cur = 0"
  "committed_by (d # ds) cur =
     (if dc_action d = DISPATCH \<and> j_currency (dc_job d) = cur then j_reserved (dc_job d) else 0) + committed_by ds cur"
  by (simp_all add: committed_by_def)

lemma committed_by_none: "\<forall>d\<in>set ds. dc_action d = BLOCKED_POOL \<Longrightarrow> committed_by ds cur = 0"
  by (induction ds) auto

lemma policy_step_committed:
  "policy_step st j ps a ps' stop \<Longrightarrow>
     ps_committed ps' cur = ps_committed ps cur + (if a = DISPATCH \<and> j_currency j = cur then j_reserved j else 0) \<and>
     (a = DISPATCH \<longrightarrow> ps_committed ps' (j_currency j) \<le> ps_headroom ps (j_currency j))"
  by (cases rule: policy_any, assumption) (auto simp: block_currency_def commit_job_def remaining_def)

lemma run_pool_cap:
  "policy_run st q ps ds \<Longrightarrow> ps_committed ps cur \<le> ps_headroom ps cur \<or> committed_by ds cur \<noteq> 0 \<Longrightarrow>
     ps_committed ps cur + committed_by ds cur \<le> ps_headroom ps cur"
proof (induction rule: policy_run.induct)
  case (step j ps d ps' q ds)
  note c = policy_step_committed [OF step.hyps(1), of cur] and f = policy_step_fixed [OF step.hyps(1)]
  show ?case
  proof (cases "dc_action d = DISPATCH \<and> j_currency j = cur")
    case True
    then have "ps_committed ps' cur \<le> ps_headroom ps' cur" using c f by auto
    then show ?thesis using step.IH c f True step.hyps(2) by simp
  next
    case False
    then have "ps_committed ps' cur = ps_committed ps cur" using c by auto
    then show ?thesis using step f False by auto
  qed
next
  case (halt j ps d ps' ds q)
  then show ?case using policy_step_stop [OF halt.hyps(1)] committed_by_none [OF halt.hyps(4)] by auto
qed simp

subsection \<open>The dry run\<close>

lemma plan_step_triple:
  "triple (on_store st) (plan_step d b p)
     (\<lambda>p' w. w_store w = st \<and> dp_decisions p' = dp_decisions p @ [d] \<and> dp_at p' = dp_at p) (on_store st)"
proof (cases b)
  case None
  then show ?thesis by (auto simp: plan_step_def Let_def intro!: triple_ret)
next
  case (Some backend)
  show ?thesis unfolding plan_step_def Let_def Some option.case
    by (rule triple_catching [where R = "on_store st"])
      (auto intro!: triple_ret triple_then [OF triple_calls [where S = "\<lambda>s. s = st"]])
qed

lemma plan_loop:
  "triple (on_store st) (decisions_loop sc plan_step queue ps p)
     (\<lambda>p' w. w_store w = st \<and> dp_at p' = dp_at p \<and>
        (\<exists>ds. dp_decisions p' = dp_decisions p @ ds \<and> policy_run st queue ps ds)) (on_store st)"
proof (induction queue arbitrary: ps p)
  case Nil
  show ?case unfolding decisions_loop.simps by (rule triple_ret) (simp add: policy_run.over)
next
  case (Cons j queue)
  let ?goal = "\<lambda>p' w. w_store w = st \<and> dp_at p' = dp_at p \<and>
        (\<exists>ds. dp_decisions p' = dp_decisions p @ ds \<and> policy_run st (j # queue) ps ds)"
  have rest: "triple (on_store st)
      (if stop then for_each (\<lambda>other. plan_step (blocked_decision other BLOCKED_POOL l) None) queue p1
       else decisions_loop sc plan_step queue ps' p1) ?goal (on_store st)"
    if p1: "dp_at p1 = dp_at p" "dp_decisions p1 = dp_decisions p @ [d]" and d: "decided st j ps d b ps' stop"
    for p1 d ps' stop l and b :: "'a backend option"
  proof (cases stop)
    case True
    let ?rest = "\<lambda>pre. map (\<lambda>x. blocked_decision x BLOCKED_POOL l) pre"
    let ?I = "\<lambda>pre p2 w. w_store w = st \<and> dp_at p2 = dp_at p \<and> dp_decisions p2 = dp_decisions p @ [d] @ ?rest pre"
    have one: "triple (?I pre p2) (plan_step (blocked_decision x BLOCKED_POOL l) None p2) (?I (pre @ [x])) (on_store st)"
      for x p2 pre
      by (auto simp: plan_step_def Let_def intro!: triple_ret)
    have loop: "triple (?I [] p1) (for_each (\<lambda>other. plan_step (blocked_decision other BLOCKED_POOL l) None) queue p1)
        (?I queue) (on_store st)"
      by (rule triple_for_each) (rule one)
    have run: "policy_run st (j # queue) ps ([d] @ ?rest queue)"
      using d True unfolding decided_def
      by (auto intro!: policy_run.halt simp: blocked_decision_def comp_def)
    show ?thesis unfolding if_P [OF True]
      by (rule triple_weaken [OF loop]) (use run p1 in auto)
  next
    case False
    have run: "policy_run st (j # queue) ps (d # ds)" if "policy_run st queue ps' ds" for ds
      using d that False unfolding decided_def by (auto intro: policy_run.step)
    show ?thesis unfolding if_not_P [OF False]
    proof (rule triple_weaken [OF Cons.IH [of ps' p1]])
      fix p' and w' :: "'a world"
      assume "w_store w' = st \<and> dp_at p' = dp_at p1 \<and>
        (\<exists>ds. dp_decisions p' = dp_decisions p1 @ ds \<and> policy_run st queue ps' ds)"
      then obtain ds where ds: "w_store w' = st" "dp_at p' = dp_at p1" "dp_decisions p' = dp_decisions p1 @ ds"
        "policy_run st queue ps' ds" by blast
      have "dp_decisions p' = dp_decisions p @ (d # ds)" using ds(3) p1 by simp
      moreover have "dp_at p' = dp_at p" using ds(2) p1 by simp
      ultimately show "?goal p' w'" using run [OF ds(4)] ds(1) by blast
    qed
  qed
  have consume: "triple (on_store st) (and_then (plan_step d b p) (\<lambda>p1.
        if stop then for_each (\<lambda>other. plan_step (blocked_decision other BLOCKED_POOL l) None) queue p1
        else decisions_loop sc plan_step queue ps' p1)) ?goal (on_store st)"
    if "decided st j ps d b ps' stop" for d b ps' stop l
    by (rule triple_then [OF plan_step_triple], rule triple_fact, rule rest [OF _ _ that]) simp_all
  show ?case unfolding decisions_loop.simps
    by (rule triple_then [OF decide_policy]) (auto split: prod.split intro!: triple_fact consume)
qed

lemma plan_run:
  assumes "plan sc now w = (Inr p, w')"
  shows "w_store w' = w_store w" and "dp_at p = now"
    and "policy_run (w_store w) (map fst (ordered_queue (w_store w) now)) (initial_pass (w_store w)) (dp_decisions p)"
proof -
  let ?st = "w_store w"
  have "triple (on_store ?st) (plan sc now)
     (\<lambda>p w'. w_store w' = ?st \<and> dp_at p = now \<and>
        policy_run ?st (map fst (ordered_queue ?st now)) (initial_pass ?st) (dp_decisions p)) (on_store ?st)"
    unfolding plan_def decisions_def
    by (rule triple_then [OF triple_reads [where Q = "\<lambda>a w'. w_store w' = ?st \<and>
          a = (map fst (ordered_queue ?st now), initial_pass ?st)"]])
      (simp, rule triple_fact, simp, rule triple_weaken [OF plan_loop], simp_all)
  from tripleD(1) [OF this refl assms] show "w_store w' = ?st" "dp_at p = now"
    "policy_run ?st (map fst (ordered_queue ?st now)) (initial_pass ?st) (dp_decisions p)" by blast+
qed

definition dispatched_to :: "decision list \<Rightarrow> string \<Rightarrow> int" where
  "dispatched_to ds u = int (length (filter (\<lambda>d. dc_action d = DISPATCH \<and> j_user (dc_job d) = u) ds))"

lemma dispatched_to_simps [simp]:
  "dispatched_to [] u = 0"
  "dispatched_to (d # ds) u = (if dc_action d = DISPATCH \<and> j_user (dc_job d) = u then 1 else 0) + dispatched_to ds u"
  by (simp_all add: dispatched_to_def)

lemma dispatched_to_none: "\<forall>d\<in>set ds. dc_action d = BLOCKED_POOL \<Longrightarrow> dispatched_to ds u = 0"
  by (induction ds) auto

lemma policy_step_holding:
  "policy_step st j ps a ps' stop \<Longrightarrow>
     holding_of st ps' u = holding_of st ps u + (if a = DISPATCH \<and> j_user j = u then 1 else 0) \<and>
     (a = DISPATCH \<longrightarrow> holding_of st ps (j_user j) < c_max_running_jobs_per_user (st_cfg st))"
  by (cases rule: policy_any, assumption)
    (auto simp: block_currency_def commit_job_def holding_of_def counted_def split: option.splits)

lemma run_tenant_cap:
  "policy_run st q ps ds \<Longrightarrow> dispatched_to ds u \<noteq> 0 \<Longrightarrow>
     holding_of st ps u + dispatched_to ds u \<le> c_max_running_jobs_per_user (st_cfg st)"
proof (induction rule: policy_run.induct)
  case (step j ps d ps' q ds)
  note h = policy_step_holding [OF step.hyps(1), of u]
  show ?case
  proof (cases "dispatched_to ds u = 0")
    case True
    then show ?thesis using step.prems h step.hyps(2) by (auto split: if_splits)
  next
    case False
    then show ?thesis using step.IH h step.hyps(2) by simp
  qed
next
  case (halt j ps d ps' ds q)
  then show ?case using policy_step_stop [OF halt.hyps(1)] dispatched_to_none [OF halt.hyps(4)] by auto
qed simp

lemma suspended_users_None: "map_of (suspended_users st) u = None \<Longrightarrow> x \<in> set (st_users st) \<Longrightarrow> u_id x = u \<Longrightarrow> \<not> is_suspended x"
  by (force simp: suspended_users_def is_suspended_def map_of_eq_None_iff image_iff)

text \<open>
  A dry run changes nothing in the store and gives every queued job exactly one decision, in the
  order of the fair-share queue; nothing is decided about any other job.
\<close>

theorem plan_decides_the_queue:
  assumes "plan sc now w = (Inr p, w')"
  shows "w_store w' = w_store w \<and> map dc_job (dp_decisions p) = map fst (ordered_queue (w_store w) now)"
  using plan_run [OF assms] run_jobs by blast

text \<open>
  What a pass decides to dispatch respects every limit at once: in each currency the
  reservations it dispatches fit into the pool's headroom, no member ends up with more running
  jobs than the limit, and no dispatched job belongs to a suspended member.
\<close>

theorem plan_respects_limits:
  assumes "plan sc now w = (Inr p, w')" and "d \<in> set (dp_decisions p)" and "dc_action d = DISPATCH"
  shows "(committed_by (dp_decisions p) cur = 0 \<or> committed_by (dp_decisions p) cur \<le> pool_headroom (w_store w) cur) \<and>
    running_count (w_store w) (j_user (dc_job d)) + dispatched_to (dp_decisions p) (j_user (dc_job d))
      \<le> c_max_running_jobs_per_user (st_cfg (w_store w)) \<and>
    (\<forall>u\<in>set (st_users (w_store w)). u_id u = j_user (dc_job d) \<longrightarrow> \<not> is_suspended u)"
proof -
  let ?st = "w_store w" and ?ds = "dp_decisions p"
  note run = plan_run(3) [OF assms(1)]
  have "committed_by ?ds cur = 0 \<or> committed_by ?ds cur \<le> pool_headroom ?st cur"
    using run_pool_cap [OF run, of cur] by (auto simp: initial_pass_def)
  moreover have "dispatched_to ?ds (j_user (dc_job d)) \<noteq> 0"
    using assms(2,3) by (auto simp: dispatched_to_def filter_empty_conv)
  then have "running_count ?st (j_user (dc_job d)) + dispatched_to ?ds (j_user (dc_job d))
      \<le> c_max_running_jobs_per_user (st_cfg ?st)"
    using run_tenant_cap [OF run] by (simp add: initial_pass_def holding_of_def)
  moreover have "map_of (suspended_users ?st) (j_user (dc_job d)) = None"
    using run_suspended [OF run assms(2,3)] by (simp add: initial_pass_def)
  ultimately show ?thesis using suspended_users_None by blast
qed

text \<open>
  The head of the queue is not backfilled past: behind a job that is blocked on the pool cap, no
  job in the same currency is dispatched in that pass.
\<close>

theorem plan_head_of_line:
  assumes "plan sc now w = (Inr p, w')" and "dp_decisions p = before @ d # behind"
    and "dc_action d = BLOCKED_POOL" and "d' \<in> set behind" and "j_currency (dc_job d') = j_currency (dc_job d)"
  shows "dc_action d' \<noteq> DISPATCH"
  using run_head_of_line plan_run(3) [OF assms(1)] assms(2-5) by metis
subsection \<open>A concrete pass\<close>

text \<open>Two queued jobs of one member, a lab machine with three free cards and a given pool budget.\<close>

definition demo_world :: "decimal \<Rightarrow> unit world" where
  "demo_world budget =
     \<lparr>w_store = (empty_store 0 (default_config (\<lambda>_. 0) \<lparr>c_pool_budget_gpu_hours := budget\<rparr>))
        \<lparr>st_users := [\<lparr>u_id = ''ada'', u_display_name = ''ada'', u_budget_usd = 25, u_budget_gpu_hours = 8,
            u_is_admin = False, u_created_at = 0, u_suspended_at = None, u_suspended_reason = '''', u_suspended_by = ''''\<rparr>],
         st_jobs := [demo_job ''b'' ''ada'' 0, demo_job ''a'' ''ada'' 0]\<rparr>,
      w_ext = ()\<rparr>"

definition demo_scheduler :: "unit scheduler" where
  "demo_scheduler =
     \<lparr>sc_backends = [fixed_backend ''lab'' GPU_HOUR ''local'' [''a6000''] 3], sc_checkpoints = None\<rparr>"

lemma demo_queue: "map fst (ordered_queue (w_store (demo_world budget)) 0) = [demo_job ''a'' ''ada'' 0, demo_job ''b'' ''ada'' 0]"
proof -
  have "queued_jobs (w_store (demo_world budget)) = [demo_job ''a'' ''ada'' 0, demo_job ''b'' ''ada'' 0]"
    by (simp add: queued_jobs_def list_jobs_def demo_world_def job_order_def)
  then show ?thesis
    by (simp add: ordered_queue_def order_queue_def queue_key_def priority_of_def Let_def wait_hours_def)
qed

lemma demo_pass:
  "initial_pass (w_store (demo_world budget)) =
     \<lparr>ps_headroom = (\<lambda>c. if c = USD then 500 else budget), ps_committed = (\<lambda>_. 0), ps_blocked = {}, ps_held = Map.empty,
      ps_suspended = []\<rparr>"
  by (simp add: initial_pass_def demo_world_def pool_headroom_def pool_budget_def pool_committed_def active_jobs_def
      list_jobs_def state_sets aggregate_def empty_store_def suspended_users_def default_config_def fun_eq_iff)

lemma demo_job_money [simp]:
  "j_currency (demo_job a u t) = GPU_HOUR" "j_reserved (demo_job a u t) = 225/100" "j_gpu_type (demo_job a u t) = ''a6000''"
  "j_pinned_tier (demo_job a u t) = None"
proof -
  have "whole_cents (225/100)" by (simp add: whole_cents_def)
  then show "j_reserved (demo_job a u t) = 225/100" by (simp add: demo_job_def)
qed (simp_all add: demo_job_def new_job_def)

lemma demo_place:
  "\<exists>p. choose_placement (demo_job a u t) (sc_backends demo_scheduler) (st_cfg (w_store (demo_world budget))) (demo_world budget)
     = (Inr p, demo_world budget) \<and> pl_backend p = Some (fixed_backend ''lab'' GPU_HOUR ''local'' [''a6000''] 3)"
  by (simp add: choose_placement_def config_gpu_def DEFAULT_GPU_TYPES_def effective_order_def tier_candidates_def
      and_then_def calls_def ret_def demo_world_def demo_scheduler_def empty_store_def)

lemma demo_running: "running_count (w_store (demo_world budget)) u = 0"
  "c_max_running_jobs_per_user (st_cfg (w_store (demo_world budget))) = 4"
  by (simp_all add: running_count_def count_in_states_def demo_world_def state_sets empty_store_def)

lemma demo_plan_blocked:
  "\<exists>p d d'. plan demo_scheduler 0 (demo_world 1) = (Inr p, demo_world 1) \<and> dp_decisions p = [d, d'] \<and>
     dc_action d = BLOCKED_POOL \<and> dc_action d' = BLOCKED_POOL"
  by (simp add: plan_def decisions_def and_then_def reads_def demo_queue demo_pass decide_def decide_open_def Let_def
      counted_def holding_of_def demo_running remaining_def ret_def plan_step_def blocked_decision_def block_currency_def
      enum_currency_def)

lemma demo_plan_open:
  "\<exists>p d d'. plan demo_scheduler 0 (demo_world 400) = (Inr p, demo_world 400) \<and> dp_decisions p = [d, d'] \<and>
     dc_action d = DISPATCH \<and> dc_action d' = DISPATCH"
proof -
  let ?lab = "fixed_backend ''lab'' GPU_HOUR ''local'' [''a6000''] 3 :: unit backend"
  obtain p1 where p1: "choose_placement (demo_job ''a'' ''ada'' 0) (sc_backends demo_scheduler)
      (st_cfg (w_store (demo_world 400))) (demo_world 400) = (Inr p1, demo_world 400)" "pl_backend p1 = Some ?lab"
    using demo_place by blast
  obtain p2 where p2: "choose_placement (demo_job ''b'' ''ada'' 0) (sc_backends demo_scheduler)
      (st_cfg (w_store (demo_world 400))) (demo_world 400) = (Inr p2, demo_world 400)" "pl_backend p2 = Some ?lab"
    using demo_place by blast
  have v: "calls (bk_validate_launch ?lab j) w = (Inr ''ok'', w)" for j and w :: "unit world"
    by (simp add: calls_def fixed_backend_def)
  show ?thesis
    by (simp add: plan_def decisions_def and_then_def reads_def demo_queue demo_pass decide_def decide_open_def Let_def
        counted_def holding_of_def demo_running remaining_def ret_def plan_step_def p1 p2 decide_placed_def commit_job_def
        catching_def v)
qed

theorem plan_decides_the_queue_witness:
  "\<exists>p. plan demo_scheduler 0 (demo_world 400) = (Inr p, demo_world 400) \<and>
     map dc_job (dp_decisions p) = [demo_job ''a'' ''ada'' 0, demo_job ''b'' ''ada'' 0]"
proof -
  obtain p where p: "plan demo_scheduler 0 (demo_world 400) = (Inr p, demo_world 400)" using demo_plan_open by blast
  show ?thesis using plan_decides_the_queue [OF p] p by (simp add: demo_queue)
qed

theorem plan_respects_limits_witness:
  "\<exists>p d d'. plan demo_scheduler 0 (demo_world 400) = (Inr p, demo_world 400) \<and> dp_decisions p = [d, d'] \<and>
     dc_action d = DISPATCH \<and>
     (committed_by (dp_decisions p) GPU_HOUR = 0 \<or>
      committed_by (dp_decisions p) GPU_HOUR \<le> pool_headroom (w_store (demo_world 400)) GPU_HOUR)"
proof -
  obtain p d d' where p: "plan demo_scheduler 0 (demo_world 400) = (Inr p, demo_world 400)"
    "dp_decisions p = [d, d']" "dc_action d = DISPATCH" using demo_plan_open by blast
  have "d \<in> set (dp_decisions p)" by (simp add: p(2))
  then show ?thesis using plan_respects_limits [OF p(1) _ p(3)] p by blast
qed

theorem plan_head_of_line_witness:
  "\<exists>p d d'. plan demo_scheduler 0 (demo_world 1) = (Inr p, demo_world 1) \<and> dp_decisions p = [d, d'] \<and>
     dc_action d = BLOCKED_POOL \<and> dc_action d' \<noteq> DISPATCH"
proof -
  obtain p d d' where p: "plan demo_scheduler 0 (demo_world 1) = (Inr p, demo_world 1)"
    "dp_decisions p = [d, d']" "dc_action d = BLOCKED_POOL" using demo_plan_blocked by blast
  have "[dc_job d, dc_job d'] = [demo_job ''a'' ''ada'' 0, demo_job ''b'' ''ada'' 0]"
    using run_jobs [OF plan_run(3) [OF p(1)]] by (simp add: p(2) demo_queue)
  then have "j_currency (dc_job d') = j_currency (dc_job d)" by simp
  then have "dc_action d' \<noteq> DISPATCH"
    using plan_head_of_line [OF p(1), of "[]" d "[d']" d'] p(2,3) by simp
  then show ?thesis using p by blast
qed

end
