(* ===== verification/Dispatch.thy ===== *)
theory Dispatch
  imports Policy
begin

text \<open>
  What a real pass does to the store. The decisions are the policy's; here they are acted on, with
  backends that may refuse, raise or answer anything. The limits hold for the store itself: what
  the pool has committed, what each member is running, and that the queued jobs of suspended
  members are left as they are.
\<close>

subsection \<open>Reading the pool off the table of jobs\<close>

definition active_hold :: "store \<Rightarrow> currency \<Rightarrow> job \<Rightarrow> decimal" where
  "active_hold st cur r =
     (if j_state r \<in> set ACTIVE \<and> j_currency r = cur then job_holding st (j_id r) cur else 0)"

lemma foldl_add_if: "foldl (\<lambda>acc x. if P x then acc + f x else acc) a xs = a + (\<Sum>x\<leftarrow>xs. if P x then f x else (0::real))"
  by (induction xs arbitrary: a) auto

lemma sum_list_sort_key: "(\<Sum>x\<leftarrow>sort_key k xs. f x) = (\<Sum>x\<leftarrow>xs. (f x :: real))"
proof -
  have "(\<Sum>x\<leftarrow>xs. f x) = sum_mset (image_mset f (mset xs))" for xs :: "'a list"
    by (induction xs) auto
  then show ?thesis by (metis mset_sort)
qed

lemma pool_committed_rows:
  "pool_committed st cur =
     snd (aggregate (filter (\<lambda>e. l_currency e = cur \<and> l_period e = period_now st) (st_ledger st))) +
     (\<Sum>r\<leftarrow>st_jobs st. active_hold st cur r)"
proof -
  have "(\<Sum>j\<leftarrow>active_jobs st. if j_currency j = cur then job_holding st (j_id j) cur else 0) =
      (\<Sum>r\<leftarrow>st_jobs st. active_hold st cur r)"
    by (simp add: active_jobs_def list_jobs_def state_sets(2) sum_list_sort_key sum_list_map_filter_if active_hold_def
        if_distrib cong: if_cong)
      (rule arg_cong [where f = sum_list], simp add: state_sets)
  then show ?thesis by (simp add: pool_committed_def Let_def foldl_add_if)
qed

lemma sum_list_point:
  assumes "distinct (map k xs)" and "x \<in> set xs" and "\<And>y. k y \<noteq> k x \<Longrightarrow> g y = (f y :: real)"
  shows "(\<Sum>y\<leftarrow>xs. g y) = (\<Sum>y\<leftarrow>xs. f y) + (g x - f x)"
  using assms(1,2)
proof (induction xs)
  case (Cons y ys)
  show ?case
  proof (cases "y = x")
    case True
    then have "\<forall>z\<in>set ys. g z = f z" using Cons.prems(1) assms(3) by (metis distinct.simps(2) image_eqI list.set_map list.simps(9))
    then have "(\<Sum>y\<leftarrow>ys. g y) = (\<Sum>y\<leftarrow>ys. f y)" by (intro arg_cong [where f = sum_list] map_cong) auto
    then show ?thesis using True by simp
  next
    case False
    then have "x \<in> set ys" using Cons.prems by simp
    moreover have "k y \<noteq> k x" using Cons.prems(1) calculation by (metis distinct.simps(2) image_eqI list.set_map list.simps(9))
    ultimately show ?thesis using Cons assms(3) by simp
  qed
qed simp

lemma count_as_sum: "int (length (filter P xs)) = \<lfloor>\<Sum>x\<leftarrow>xs. if P x then 1 else (0::real)\<rfloor>"
proof -
  have "real (length (filter P xs)) = (\<Sum>x\<leftarrow>xs. if P x then 1 else (0::real))" by (induction xs) auto
  then show ?thesis by (metis floor_of_nat)
qed

text \<open>One queued job becomes active and nothing else changes: the pool commits exactly its hold,
  and its owner runs one job more.\<close>

lemma one_job_activated:
  assumes inv: "store_inv st" and j: "j \<in> set (st_jobs st)" "j_state j = QUEUED"
    and jobs: "st_jobs st' = map (\<lambda>r. if j_id r = j_id j then g r else r) (st_jobs st)"
    and g: "\<And>r. same_identity (g r) r" "\<And>r. j_state (g r) = ALLOCATING"
    and rest: "st_ledger st' = st_ledger st" "st_now st' = st_now st" "st_cfg st' = st_cfg st"
  shows "pool_committed st' cur = pool_committed st cur +
      (if cur = j_currency j then job_holding st (j_id j) cur else 0)"
    and "running_count st' u = running_count st u + (if u = j_user j then 1 else 0)"
proof -
  let ?h = "\<lambda>r. if j_id r = j_id j then g r else r"
  note d = store_invD(2) [OF inv]
  have ident: "j_id (?h r) = j_id r" "j_currency (?h r) = j_currency r" "j_user (?h r) = j_user r" for r
    using g(1) [of r] by (simp_all add: same_identity_def)
  have hold: "job_holding st' x c = job_holding st x c" for x c by (simp add: job_holding_def rest(1))
  have "(\<Sum>r\<leftarrow>st_jobs st. active_hold st' cur (?h r)) = (\<Sum>r\<leftarrow>st_jobs st. active_hold st cur r) +
      (active_hold st' cur (?h j) - active_hold st cur j)"
    by (rule sum_list_point [OF d j(1)]) (simp add: active_hold_def hold)
  moreover have "active_hold st' cur (?h j) = (if cur = j_currency j then job_holding st (j_id j) cur else 0)"
    using ident [of j] g(2) by (auto simp: active_hold_def hold)
  moreover have "active_hold st cur j = 0" using j(2) by (simp add: active_hold_def)
  ultimately show "pool_committed st' cur = pool_committed st cur +
      (if cur = j_currency j then job_holding st (j_id j) cur else 0)"
    by (simp add: pool_committed_rows jobs comp_def rest period_now_def)
  let ?c = "\<lambda>r. if j_user r = u \<and> j_state r \<in> set ACTIVE then 1 else (0::real)"
  have "(\<Sum>r\<leftarrow>st_jobs st. ?c (?h r)) = (\<Sum>r\<leftarrow>st_jobs st. ?c r) + (?c (?h j) - ?c j)"
    by (rule sum_list_point [OF d j(1)]) simp
  moreover have "?c (?h j) - ?c j = (if u = j_user j then 1 else 0)" using ident [of j] g(2) j(2) by auto
  ultimately show "running_count st' u = running_count st u + (if u = j_user j then 1 else 0)"
    unfolding running_count_def count_in_states_def count_as_sum jobs by (simp add: comp_def)
qed

lemma pool_reads_cong:
  assumes "st_jobs st' = st_jobs st" "st_ledger st' = st_ledger st" "st_now st' = st_now st" "st_cfg st' = st_cfg st"
  shows "pool_committed st' cur = pool_committed st cur" "running_count st' u = running_count st u"
proof -
  have "active_hold st' cur = active_hold st cur" by (simp add: active_hold_def job_holding_def assms fun_eq_iff)
  then show "pool_committed st' cur = pool_committed st cur"
    by (simp add: pool_committed_rows assms period_now_def)
  show "running_count st' u = running_count st u" by (simp add: running_count_def count_in_states_def assms)
qed

subsection \<open>The limits, and what holds between two decisions\<close>

text \<open>Compared with the store the pass started from: the pool is not committed beyond its budget
  (unless it already was), no member runs more than the limit (unless they already did), and the
  only rows that change are those of queued jobs of members who are not suspended.\<close>

definition limits_kept :: "store \<Rightarrow> store \<Rightarrow> bool" where
  "limits_kept st0 st \<longleftrightarrow>
     sane (st_now st0) (st_cfg st0) st \<and>
     (\<forall>cur. pool_committed st cur \<le> max (pool_committed st0 cur) (pool_budget (st_cfg st0) cur)) \<and>
     (\<forall>u. running_count st u \<le> max (running_count st0 u) (c_max_running_jobs_per_user (st_cfg st0))) \<and>
     (\<forall>r\<in>set (st_jobs st0). j_state r \<noteq> QUEUED \<or> map_of (suspended_users st0) (j_user r) \<noteq> None \<longrightarrow> r \<in> set (st_jobs st))"

definition pass_inv :: "store \<Rightarrow> job list \<Rightarrow> pass_state \<Rightarrow> store \<Rightarrow> bool" where
  "pass_inv st0 rest ps st \<longleftrightarrow>
     sane (st_now st0) (st_cfg st0) st \<and>
     (\<forall>j\<in>set rest. j \<in> set (st_jobs st) \<and> j_state j = QUEUED) \<and> distinct (map j_id rest) \<and>
     ps_headroom ps = pool_headroom st0 \<and> ps_suspended ps = suspended_users st0 \<and>
     (\<forall>cur. pool_committed st cur \<le> pool_committed st0 cur + ps_committed ps cur \<and>
        (ps_committed ps cur = 0 \<or> ps_committed ps cur \<le> pool_headroom st0 cur)) \<and>
     (\<forall>u. running_count st u \<le> holding_of st ps u \<and>
        holding_of st ps u \<le> max (running_count st0 u) (c_max_running_jobs_per_user (st_cfg st0))) \<and>
     (\<forall>r\<in>set (st_jobs st0). j_state r \<noteq> QUEUED \<or> map_of (suspended_users st0) (j_user r) \<noteq> None \<longrightarrow> r \<in> set (st_jobs st))"

lemma pass_inv_limits: "pass_inv st0 rest ps st \<Longrightarrow> limits_kept st0 st"
  unfolding pass_inv_def limits_kept_def pool_headroom_def
  by (intro conjI allI) (blast, smt (verit), smt (verit), blast)

lemma pass_inv_quiet:
  assumes "pass_inv st0 rest ps st" and "store_inv st'" and "st_jobs st' = st_jobs st"
    and "st_ledger st' = st_ledger st" and "st_now st' = st_now st" and "st_cfg st' = st_cfg st"
  shows "pass_inv st0 rest ps st'"
proof -
  note cong = pool_reads_cong [OF assms(3-6)]
  have "holding_of st' ps = holding_of st ps" by (simp add: holding_of_def cong(2) fun_eq_iff split: option.split)
  then show ?thesis using assms by (simp add: pass_inv_def sane_def cong)
qed

lemma initial_pass_inv:
  assumes "store_inv st" and "queue = map fst (ordered_queue st now)"
  shows "pass_inv st queue (initial_pass st) st"
proof -
  have m: "mset queue = mset (queued_jobs st)"
    unfolding assms(2) ordered_queue_def by (rule order_queue_jobs)
  then have s: "set queue = set (queued_jobs st)" by (rule mset_eq_setD)
  have "distinct (map j_id (queued_jobs st))"
    unfolding queued_jobs_def by (rule list_jobs_distinct) (rule store_invD(2) [OF assms(1)])
  then have d: "distinct (map j_id queue)" using m by (metis mset_eq_imp_distinct_iff mset_map)
  show ?thesis using assms(1) s d
    by (auto simp: pass_inv_def sane_def initial_pass_def holding_of_def queued_jobs_set)
qed

lemma reserved_nonneg:
  assumes "store_inv st" and "j \<in> set (st_jobs st)" and "j_state j = QUEUED"
  shows "0 \<le> j_reserved j" and "job_holding st (j_id j) (j_currency j) \<le> j_reserved j"
proof -
  have "j_state j \<notin> set TERMINAL" using assms(3) by simp
  note live = live_holding [OF assms(1,2) this]
  show "0 \<le> j_reserved j" "job_holding st (j_id j) (j_currency j) \<le> j_reserved j"
    using live job_settled_nonneg [OF assms(1), of "j_id j"] by linarith+
qed

lemma pass_invD:
  assumes "pass_inv st0 rest ps st"
  shows "store_inv st" "st_now st = st_now st0" "st_cfg st = st_cfg st0"
    "j \<in> set rest \<Longrightarrow> j \<in> set (st_jobs st)" "j \<in> set rest \<Longrightarrow> j_state j = QUEUED"
    "pool_committed st cur \<le> pool_committed st0 cur + ps_committed ps cur"
    "ps_committed ps cur = 0 \<or> ps_committed ps cur \<le> pool_headroom st0 cur"
    "running_count st u \<le> holding_of st ps u"
    "holding_of st ps u \<le> max (running_count st0 u) (c_max_running_jobs_per_user (st_cfg st0))"
    "ps_headroom ps = pool_headroom st0" "ps_suspended ps = suspended_users st0"
  using assms unfolding pass_inv_def sane_def by blast+

text \<open>A row the pass must keep is not the row of the job it is about to start.\<close>

lemma kept_is_other:
  assumes pi: "pass_inv st0 (j # rest) ps st" and "map_of (suspended_users st0) (j_user j) = None"
    and r: "r \<in> set (st_jobs st0)" "j_state r \<noteq> QUEUED \<or> map_of (suspended_users st0) (j_user r) \<noteq> None"
  shows "r \<in> set (st_jobs st) \<and> j_id r \<noteq> j_id j"
proof -
  have rs: "r \<in> set (st_jobs st)" using pi r unfolding pass_inv_def by blast
  have "r \<noteq> j" using r(2) assms(2) pass_invD(5) [OF pi, of j] by auto
  then show ?thesis
    using rs map_of_fst_distinct [OF store_invD(2) [OF pass_invD(1) [OF pi]], of r j] pass_invD(4) [OF pi, of j] by auto
qed

lemma pass_inv_decided:
  assumes pi: "pass_inv st0 (j # rest) ps st" and step: "policy_step st j ps a ps' stop"
  shows "pass_inv st0 rest ps' st"
proof -
  note D = pass_invD [OF pi]
  have "0 \<le> j_reserved j" using reserved_nonneg(1) [OF D(1), of j] D(4,5) [of j] by simp
  then have "pool_committed st cur \<le> pool_committed st0 cur + ps_committed ps' cur \<and>
      (ps_committed ps' cur = 0 \<or> ps_committed ps' cur \<le> pool_headroom st0 cur)" for cur
    using D(6,7) [of cur] D(10) policy_step_committed [OF step, of cur]
    by (cases "a = DISPATCH \<and> j_currency j = cur") auto
  moreover have "running_count st u \<le> holding_of st ps' u \<and>
      holding_of st ps' u \<le> max (running_count st0 u) (c_max_running_jobs_per_user (st_cfg st0))" for u
    using D(8,9) [of u] D(3) policy_step_holding [OF step, of u]
    by (cases "a = DISPATCH \<and> j_user j = u") auto
  ultimately show ?thesis using pi policy_step_fixed [OF step] by (simp add: pass_inv_def)
qed

lemma pass_inv_launched:
  assumes pi: "pass_inv st0 (j # rest) ps st" and step: "policy_step st j ps DISPATCH ps' stop"
    and inv: "store_inv st'"
    and jobs: "st_jobs st' = map (\<lambda>r. if j_id r = j_id j then g r else r) (st_jobs st)"
    and g: "\<And>r. same_identity (g r) r" "\<And>r. j_state (g r) = ALLOCATING"
    and fr: "st_ledger st' = st_ledger st" "st_now st' = st_now st" "st_cfg st' = st_cfg st"
  shows "pass_inv st0 rest ps' st'"
proof -
  have st: "store_inv st" "j \<in> set (st_jobs st)" "j_state j = QUEUED" and cfg: "st_cfg st = st_cfg st0"
    using pi by (simp_all add: pass_inv_def sane_def)
  note act = one_job_activated [OF st jobs g fr] and res = reserved_nonneg [OF st]
  have "pool_committed st' cur \<le> pool_committed st0 cur + ps_committed ps' cur \<and>
      (ps_committed ps' cur = 0 \<or> ps_committed ps' cur \<le> pool_headroom st0 cur)" for cur
  proof (cases "cur = j_currency j")
    case True
    have old: "pool_committed st cur \<le> pool_committed st0 cur + ps_committed ps cur" "ps_headroom ps = pool_headroom st0"
      using pi by (simp_all add: pass_inv_def)
    show ?thesis using policy_step_committed [OF step, of cur] act(1) [of cur] res old True by simp
  next
    case False
    then show ?thesis using pi policy_step_committed [OF step, of cur] act(1) [of cur] by (auto simp: pass_inv_def)
  qed
  moreover have "running_count st' u \<le> holding_of st' ps' u \<and>
      holding_of st' ps' u \<le> max (running_count st0 u) (c_max_running_jobs_per_user (st_cfg st0))" for u
  proof -
    have new: "ps_held ps' (j_user j) = Some (holding_of st ps (j_user j) + 1)"
      "u \<noteq> j_user j \<Longrightarrow> ps_held ps' u = ps_held ps u"
      using step by (auto elim!: policy_dispatch simp: commit_job_def)
    have old: "running_count st u \<le> holding_of st ps u"
      "holding_of st ps u \<le> max (running_count st0 u) (c_max_running_jobs_per_user (st_cfg st0))"
      using pi by (simp_all add: pass_inv_def)
    show ?thesis
    proof (cases "u = j_user j")
      case True
      then have "holding_of st' ps' u = holding_of st ps u + 1" using new by (simp add: holding_of_def)
      then show ?thesis using old(1) act(2) [of u] policy_step_holding [OF step, of u] True cfg by auto
    next
      case False
      then have "holding_of st' ps' u = holding_of st ps u"
        using new act(2) [of u] by (simp add: holding_of_def split: option.split)
      then show ?thesis using old act(2) [of u] False by simp
    qed
  qed
  moreover have keep: "r \<in> set (st_jobs st')" if "r \<in> set (st_jobs st)" "j_id r \<noteq> j_id j" for r
    using that jobs by force
  have "\<forall>r\<in>set rest. j_id r \<noteq> j_id j" using pi by (auto simp: pass_inv_def image_iff)
  then have "\<forall>r\<in>set rest. r \<in> set (st_jobs st') \<and> j_state r = QUEUED"
    using pass_invD(4,5) [OF pi] keep by (meson list.set_intros(2))
  moreover have "map_of (suspended_users st0) (j_user j) = None"
    using step pi by (auto elim!: policy_dispatch simp: pass_inv_def)
  then have "r \<in> set (st_jobs st')"
    if "r \<in> set (st_jobs st0)" "j_state r \<noteq> QUEUED \<or> map_of (suspended_users st0) (j_user r) \<noteq> None" for r
    using keep kept_is_other [OF pi _ that] by blast
  ultimately show ?thesis using pi policy_step_fixed [OF step] inv fr by (simp add: pass_inv_def sane_def)
qed
subsection \<open>Acting on a decision\<close>

lemma record_attempt_frame [frame_simps, simp]:
  "st_ledger (snd (record_attempt st j)) = st_ledger st" "st_now (snd (record_attempt st j)) = st_now st"
  "st_cfg (snd (record_attempt st j)) = st_cfg st"
  "st_jobs (snd (record_attempt st j)) =
     map (\<lambda>r. if j_id r = j_id j then r\<lparr>j_attempts := j_attempts r + 1, j_updated_at := st_now st\<rparr> else r) (st_jobs st)"
  "same_identity (fst (record_attempt st j)) j" "j_state (fst (record_attempt st j)) = j_state j"
  by (simp_all add: record_attempt_def Let_def update_job_def same_identity_def)

lemma transition_quiet_ledger:
  "transition st cur to r [] b h ec clr = Inr (j, st') \<Longrightarrow> to \<notin> set TERMINAL \<Longrightarrow> st_ledger st' = st_ledger st"
  by (drule transition_Inr(4)) simp

lemma launched_store:
  assumes pi: "pass_inv st0 (j # rest) ps st" and step: "policy_step st j ps DISPATCH ps' stop"
    and tr: "transition (snd (record_attempt st j)) (fst (record_attempt st j)) ALLOCATING r [] b h None False = Inr (j2, st2)"
  shows "pass_inv st0 rest ps' st2"
proof -
  let ?st1 = "snd (record_attempt st j)" and ?j1 = "fst (record_attempt st j)"
  have inv: "store_inv st" and mem: "j \<in> set (st_jobs st)" using pi by (simp_all add: pass_inv_def sane_def)
  have id1: "j_id ?j1 = j_id j" using record_attempt_frame(5) [of st j] by (simp add: same_identity_def)
  have "on_job (st_now st) (st_cfg st) {} j st" using inv mem by (simp add: on_job_def known_job_row)
  note oj = row_ops_on_job(1) [OF this]
  have inv2: "store_inv st2" using transition_on_job [OF oj tr] by (rule on_jobD(1))
  obtain x where jobs: "st_jobs st2 = map (\<lambda>x. if j_id x = j_id ?j1 then apply_transition_row j2 x else x) (st_jobs ?st1)"
    using transition_row_set [OF tr on_jobD(1) [OF oj]] by blast
  have j2: "j_state j2 = ALLOCATING" using transition_frame(5) [OF tr] .
  show ?thesis
  proof (rule pass_inv_launched [OF pi step inv2])
    show "st_jobs st2 = map (\<lambda>r. if j_id r = j_id j then apply_transition_row j2
        (r\<lparr>j_attempts := j_attempts r + 1, j_updated_at := st_now st\<rparr>) else r) (st_jobs st)"
      unfolding jobs id1 by (simp add: comp_def cong: if_cong)
    show "same_identity (apply_transition_row j2 (r\<lparr>j_attempts := j_attempts r + 1, j_updated_at := st_now st\<rparr>)) r" for r
      by (rule same_identity_trans [OF apply_transition_row_identity(1)]) (simp add: same_identity_def)
    show "j_state (apply_transition_row j2 (r\<lparr>j_attempts := j_attempts r + 1, j_updated_at := st_now st\<rparr>)) = ALLOCATING" for r
      by (simp add: j2)
  qed (use transition_frame(1,2) [OF tr] transition_quiet_ledger [OF tr] in simp_all)
qed
text \<open>A decision is still good after something that concerns neither jobs nor money.\<close>

definition decision_ready :: "store \<Rightarrow> job \<Rightarrow> job list \<Rightarrow> pass_state \<Rightarrow> action \<Rightarrow> pass_state \<Rightarrow> bool \<Rightarrow> store \<Rightarrow> bool" where
  "decision_ready st0 j rest ps a ps' stop st \<longleftrightarrow>
     pass_inv st0 (j # rest) ps st \<and> policy_step st j ps a ps' stop"

lemma policy_step_cong:
  assumes "\<And>u. running_count st' u = running_count st u" and "st_cfg st' = st_cfg st"
  shows "policy_step st' j ps a ps' stop = policy_step st j ps a ps' stop"
proof -
  have h: "holding_of st' ps u = holding_of st ps u" for u
    by (simp add: holding_of_def assms(1) split: option.split)
  have c: "counted st' ps u = counted st ps u" for u by (simp add: counted_def h)
  show ?thesis unfolding policy_step.simps [of st'] policy_step.simps [of st] h c assms(2) by (rule refl)
qed

lemma ready_quiet:
  assumes "decision_ready st0 j rest ps a ps' stop st" and "store_inv st'" and "st_jobs st' = st_jobs st"
    and "st_ledger st' = st_ledger st" and "st_now st' = st_now st" and "st_cfg st' = st_cfg st"
  shows "decision_ready st0 j rest ps a ps' stop st'"
  using assms pass_inv_quiet policy_step_cong [OF pool_reads_cong(2) [OF assms(3-6)] assms(6)]
  unfolding decision_ready_def by blast

lemma ready_decided: "decision_ready st0 j rest ps a ps' stop st \<Longrightarrow> pass_inv st0 rest ps' st"
  unfolding decision_ready_def using pass_inv_decided by blast

lemma ready_limits: "decision_ready st0 j rest ps a ps' stop st \<Longrightarrow> limits_kept st0 st"
  unfolding decision_ready_def using pass_inv_limits by blast

lemma attempt_limits:
  assumes r: "decision_ready st0 j rest ps DISPATCH ps' stop st"
  shows "limits_kept st0 (snd (record_attempt st j))"
proof -
  let ?st = "snd (record_attempt st j)"
  have pi: "pass_inv st0 (j # rest) ps st" and ps: "policy_step st j ps DISPATCH ps' stop"
    using r by (simp_all add: decision_ready_def)
  note lim = pass_inv_limits [OF pi]
  let ?g = "\<lambda>r. if j_id r = j_id j then r\<lparr>j_attempts := j_attempts r + 1, j_updated_at := st_now st\<rparr> else r"
  have hold: "job_holding ?st x c = job_holding st x c" for x c by (simp add: job_holding_def)
  have "pool_committed ?st cur = pool_committed st cur" for cur
    by (simp add: pool_committed_rows comp_def period_now_def)
      (rule arg_cong [where f = sum_list], auto simp: active_hold_def hold)
  moreover have "running_count ?st u = running_count st u" for u
    unfolding running_count_def count_in_states_def count_as_sum
    by (simp add: comp_def) (rule arg_cong [where f = "\<lambda>x. \<lfloor>sum_list x\<rfloor>"], simp)
  moreover have "map_of (suspended_users st0) (j_user j) = None"
    using ps pass_invD(11) [OF pi] by (auto elim!: policy_dispatch)
  then have "k \<in> set (st_jobs ?st)"
    if "k \<in> set (st_jobs st0)" "j_state k \<noteq> QUEUED \<or> map_of (suspended_users st0) (j_user k) \<noteq> None" for k
    using kept_is_other [OF pi _ that] by force
  moreover have "store_inv ?st" using row_ops_inv(2) pass_invD(1) [OF pi] by blast
  ultimately show ?thesis using lim by (auto simp: limits_kept_def sane_def)
qed

lemma log_pass:
  "triple (\<lambda>w. pass_inv st0 rest ps (w_store w)) (log_line k l) (\<lambda>_ w. pass_inv st0 rest ps (w_store w)) E"
  unfolding log_line_def
  by (rule triple_writes, simp, rule pass_inv_quiet) (auto simp: quiet_ops_inv dest: pass_invD(1))

lemma log_ready:
  "triple (\<lambda>w. decision_ready st0 j rest ps a ps' stop (w_store w)) (log_line k l)
     (\<lambda>_ w. decision_ready st0 j rest ps a ps' stop (w_store w)) E"
  unfolding log_line_def
  by (rule triple_writes, simp, rule ready_quiet) (auto simp: quiet_ops_inv decision_ready_def dest: pass_invD(1))

lemma launch_job_triple:
  fixes b :: "'e backend"
  assumes "dc_job d = j"
  shows "triple (\<lambda>w. decision_ready st0 j rest ps DISPATCH ps' stop (w_store w)) (launch_job d b r)
    (\<lambda>_ w. pass_inv st0 rest ps' (w_store w)) (\<lambda>w. limits_kept st0 (w_store w))"
proof -
  let ?R = "\<lambda>w :: 'e world. decision_ready st0 j rest ps DISPATCH ps' stop (w_store w)"
  let ?E = "\<lambda>w :: 'e world. limits_kept st0 (w_store w)"
  have ask: "triple ?R (catching is_backend_error (and_then (calls (bk_launch b j)) (\<lambda>a. ret (Some a)))
      (\<lambda>e. and_then (log_line j (l e)) (\<lambda>_. ret None))) (\<lambda>_. ?R) ?E" for l
    by (rule triple_catching [where R = ?R])
      (auto intro!: triple_then [OF triple_calls [where S = "decision_ready st0 j rest ps DISPATCH ps' stop"]] triple_ret
        triple_then [OF log_ready] intro: ready_limits)
  have attempt: "triple ?R (writes_with (\<lambda>st. record_attempt st j))
      (\<lambda>j1 w. \<exists>s. decision_ready st0 j rest ps DISPATCH ps' stop s \<and> j1 = fst (record_attempt s j) \<and>
         w_store w = snd (record_attempt s j)) ?E"
    by (rule triple_writes_with) auto
  have shift: "triple (\<lambda>w :: 'e world. \<exists>s. decision_ready st0 j rest ps DISPATCH ps' stop s \<and> j1 = fst (record_attempt s j) \<and>
         w_store w = snd (record_attempt s j))
      (writes_try (\<lambda>st. transition st j1 ALLOCATING reason [] bn h None False))
      (\<lambda>_ w. pass_inv st0 rest ps' (w_store w)) ?E" for j1 reason bn h
    by (rule triple_writes_try) (auto simp: decision_ready_def intro: launched_store attempt_limits [unfolded decision_ready_def])
  have go: "triple ?R (case answer of
        None \<Rightarrow> ret (r\<lparr>r_blocked_capacity := r_blocked_capacity r @ [j_id j]\<rparr>)
      | Some al \<Rightarrow> and_then (writes_with (\<lambda>st. record_attempt st j)) (\<lambda>j1.
          and_then (writes_try (\<lambda>st. transition st j1 ALLOCATING (Some (reason j1 al)) [] (Some (bk_name b)) (Some (al_handle al)) None False)) (\<lambda>_.
          and_then (log_line j1 (l1 j1 al)) (\<lambda>_. and_then (log_line j1 l2) (\<lambda>_. ret (r\<lparr>r_dispatched := r_dispatched r @ [j_id j1]\<rparr>))))))
      (\<lambda>_ w. pass_inv st0 rest ps' (w_store w)) ?E" for answer reason l1 l2
    by (cases answer) (auto intro!: triple_ret triple_then [OF attempt] triple_then [OF shift] triple_then [OF log_pass]
        intro: ready_decided)
  show ?thesis unfolding launch_job_def Let_def assms by (rule triple_then [OF ask go])
qed

lemma dispatch_step_triple:
  fixes b :: "'e backend option"
  assumes "dc_job d = j"
  shows "triple (\<lambda>w. decision_ready st0 j rest ps (dc_action d) ps' stop (w_store w)) (dispatch_step d b r)
    (\<lambda>_ w. pass_inv st0 rest ps' (w_store w)) (\<lambda>w. limits_kept st0 (w_store w))"
proof -
  let ?R = "\<lambda>a (w :: 'e world). decision_ready st0 j rest ps a ps' stop (w_store w)"
  let ?E = "\<lambda>w :: 'e world. limits_kept st0 (w_store w)"
  have gpu: "triple (?R a) (reads_try f) (\<lambda>_. ?R a) ?E" for a and f :: "store \<Rightarrow> (error, gpu_type) result"
    by (rule triple_reads_try) (auto intro: ready_limits)
  have obs: "triple (?R a) (writes (\<lambda>st. record_schedule_observation st x1 x2 x3 x4 x5 x6 x7)) (\<lambda>_. ?R a) ?E"
    for a x1 x2 x3 x4 x5 x6 x7
    by (rule triple_writes, simp, rule ready_quiet) (auto simp: quiet_ops_inv decision_ready_def dest: pass_invD(1))
  have done1: "triple (?R a) (ret x) (\<lambda>_ w. pass_inv st0 rest ps' (w_store w)) ?E" for a and x :: pass_report
    by (rule triple_ret) (rule ready_decided)
  show ?thesis unfolding dispatch_step_def Let_def assms
    by (intro triple_then [OF gpu] triple_then [OF obs])
      (auto intro!: done1 launch_job_triple [OF assms] split: action.split option.split)
qed
subsection \<open>The pass\<close>

lemma dispatch_loop:
  fixes sc :: "'e scheduler"
  shows "triple (\<lambda>w. pass_inv st0 rest ps (w_store w)) (decisions_loop sc dispatch_step rest ps r)
    (\<lambda>_ w. limits_kept st0 (w_store w)) (\<lambda>w. limits_kept st0 (w_store w))"
proof (induction rest arbitrary: ps r)
  case Nil
  show ?case unfolding decisions_loop.simps by (rule triple_ret) (rule pass_inv_limits)
next
  case (Cons j rest)
  let ?E = "\<lambda>w :: 'e world. limits_kept st0 (w_store w)"
  have decide: "triple (\<lambda>w. pass_inv st0 (j # rest) ps (w_store w)) (decide sc j ps)
      (\<lambda>(d, b, ps', stop) w. dc_job d = j \<and> decision_ready st0 j rest ps (dc_action d) ps' stop (w_store w)) ?E"
  proof (rule tripleI)
    fix w :: "'e world" assume pi: "pass_inv st0 (j # rest) ps (w_store w)"
    obtain a w' where dw: "decide sc j ps w = (a, w')" by fastforce
    note t = tripleD [OF decide_policy [of "w_store w" sc j ps] refl]
    show "case decide sc j ps w of (Inl _, w') \<Rightarrow> ?E w'
      | (Inr a, w') \<Rightarrow> (case a of (d, b, ps', stop) \<Rightarrow> \<lambda>w. dc_job d = j \<and>
          decision_ready st0 j rest ps (dc_action d) ps' stop (w_store w)) w'"
    proof (cases a)
      case (Inl e)
      then show ?thesis using t(2) dw pass_inv_limits [OF pi] by auto
    next
      case (Inr v)
      then show ?thesis using t(1) dw pi by (auto simp: decided_def decision_ready_def split: prod.splits)
    qed
  qed
  have halt: "triple (\<lambda>w. pass_inv st0 rest ps' (w_store w))
      (for_each (\<lambda>other. dispatch_step (blocked_decision other BLOCKED_POOL l) None) rest r') (\<lambda>_. ?E) ?E" for ps' l r'
  proof -
    let ?I = "\<lambda>pre (_ :: pass_report) (w :: 'e world). pass_inv st0 rest ps' (w_store w)"
    have one: "triple (?I pre r'') (dispatch_step (blocked_decision x BLOCKED_POOL l) None r'') (?I (pre @ [x])) ?E" for pre x r''
    proof -
      have gpu: "triple (?I pre r'') (reads_try f) (\<lambda>_. ?I pre r'') ?E" for f :: "store \<Rightarrow> (error, gpu_type) result"
        by (rule triple_reads_try) (auto intro: pass_inv_limits)
      have obs: "triple (?I pre r'') (writes (\<lambda>st. record_schedule_observation st x1 x2 x3 x4 x5 x6 x7)) (\<lambda>_. ?I pre r'') ?E"
        for x1 x2 x3 x4 x5 x6 x7
        by (rule triple_writes, simp, rule pass_inv_quiet) (auto simp: quiet_ops_inv dest: pass_invD(1))
      show ?thesis unfolding dispatch_step_def Let_def
        by (intro triple_then [OF gpu] triple_then [OF obs]) (simp add: blocked_decision_def triple_ret)
    qed
    have "triple (?I [] r') (for_each (\<lambda>other. dispatch_step (blocked_decision other BLOCKED_POOL l) None) rest r') (?I rest) ?E"
      by (rule triple_for_each) (rule one)
    then show ?thesis by (rule triple_weaken) (auto intro: pass_inv_limits)
  qed
  have step: "triple (\<lambda>w. dc_job d = j \<and> decision_ready st0 j rest ps (dc_action d) ps' stop (w_store w))
      (and_then (dispatch_step d b r) (\<lambda>r'. if stop
         then for_each (\<lambda>other. dispatch_step (blocked_decision other BLOCKED_POOL l) None) rest r'
         else decisions_loop sc dispatch_step rest ps' r')) (\<lambda>_. ?E) ?E" for d b ps' stop l
  proof (cases "dc_job d = j")
    case True
    show ?thesis
      by (rule triple_weaken [OF triple_then [OF dispatch_step_triple [OF True, where b = b and r = r]]])
        (auto intro!: triple_if halt Cons.IH)
  qed (simp add: triple_def)
  show ?case unfolding decisions_loop.simps
    by (rule triple_then [OF decide]) (auto split: prod.split intro!: step)
qed

lemma dispatch_limits:
  fixes sc :: "'e scheduler"
  shows "triple (\<lambda>w. w_store w = st0 \<and> store_inv st0) (dispatch sc now)
    (\<lambda>_ w. limits_kept st0 (w_store w))
    (\<lambda>w. limits_kept st0 (w_store w))"
proof -
  let ?q = "map fst (ordered_queue st0 now)"
  let ?E = "\<lambda>w :: 'e world. limits_kept st0 (w_store w)"
  have rd: "triple (\<lambda>w :: 'e world. w_store w = st0 \<and> store_inv st0)
      (reads (\<lambda>st. (map fst (ordered_queue st now), initial_pass st)))
      (\<lambda>a w. a = (?q, initial_pass st0) \<and> pass_inv st0 ?q (initial_pass st0) (w_store w)) ?E"
    by (rule triple_reads) (use initial_pass_inv in auto)
  have loop: "triple (\<lambda>w. a = (?q, initial_pass st0) \<and> pass_inv st0 ?q (initial_pass st0) (w_store w))
      (case a of (queue, ps) \<Rightarrow> decisions_loop sc dispatch_step queue ps empty_report) (\<lambda>_. ?E) ?E" for a
  proof (cases "a = (?q, initial_pass st0)")
    case True
    show ?thesis unfolding True prod.case by (rule triple_weaken [OF dispatch_loop]) auto
  qed (simp add: triple_def)
  show ?thesis unfolding dispatch_def decisions_def
    by (intro triple_then [OF triple_then [OF rd loop]] triple_ret) simp
qed

lemma active_jobs_distinct: "store_inv st \<Longrightarrow> distinct (map j_id (active_jobs st))"
  unfolding active_jobs_def by (rule list_jobs_distinct) (rule store_invD(2))

text \<open>A tick works on active and queued jobs only: the rows of finished jobs stay as they are.\<close>

lemma tick_left:
  fixes sc :: "'e scheduler"
  assumes fin: "\<And>r. r \<in> keep \<Longrightarrow> j_state r \<in> set TERMINAL"
  shows "triple (\<lambda>w. left n c keep (w_store w)) (tick sc) (\<lambda>_ w. left n c keep (w_store w)) (\<lambda>w. left n c keep (w_store w))"
proof -
  let ?L = "\<lambda>w :: 'e world. left n c keep (w_store w)"
  let ?F = "\<lambda>active. distinct (map j_id active) \<and> (\<forall>j\<in>set active. j_state j \<notin> set TERMINAL \<and> (\<forall>r\<in>keep. j_id r \<noteq> j_id j))"
  have apart: "j_id r \<noteq> j_id j" if "left n c keep st" "r \<in> keep" "j \<in> set (active_jobs st)" for r j st
  proof
    assume same: "j_id r = j_id j"
    have "store_inv st" "r \<in> set (st_jobs st)" "j \<in> set (st_jobs st)" using that active_jobs_set by (auto simp: left_def sane_def)
    then have "r = j" using map_of_fst_distinct [OF store_invD(2) _ _ same] by blast
    then show False using fin [OF that(2)] that(3) active_not_terminal active_jobs_set by auto
  qed
  have rd: "triple ?L (reads (\<lambda>st. (st_now st, active_jobs st)))
      (\<lambda>(now, active) w. ?L w \<and> set active \<subseteq> set (st_jobs (w_store w)) \<and> ?F active) ?L"
  proof (rule triple_reads)
    fix w :: "'e world" assume L: "?L w"
    then have "store_inv (w_store w)" by (simp add: left_def sane_def)
    then have "?F (active_jobs (w_store w))"
      using apart [OF L] active_jobs_distinct active_jobs_set active_not_terminal by auto
    then show "(case (st_now (w_store w), active_jobs (w_store w)) of
        (now, active) \<Rightarrow> \<lambda>w. ?L w \<and> set active \<subseteq> set (st_jobs (w_store w)) \<and> ?F active) w"
      using L by (auto simp: active_jobs_set)
  qed
  have adv: "triple (\<lambda>w. ?L w \<and> set active \<subseteq> set (st_jobs (w_store w)) \<and> ?F active) (advance_all sc now active) (\<lambda>_. ?L) ?L"
    for now active
  proof (cases "?F active")
    case True
    then show ?thesis by (intro triple_weaken [OF advance_all_left [of active keep]]) auto
  qed (auto simp: triple_def)
  have dis: "triple ?L (dispatch sc now) (\<lambda>_. ?L) ?L" for now
  proof (rule tripleI)
    fix w :: "'e world" assume L: "?L w"
    then have i: "w_store w = w_store w \<and> store_inv (w_store w)" and nc: "st_now (w_store w) = n" "st_cfg (w_store w) = c"
      by (auto simp: left_def sane_def)
    obtain r w' where d: "dispatch sc now w = (r, w')" by fastforce
    have lim: "limits_kept (w_store w) (w_store w')"
      using tripleD [OF dispatch_limits [of "w_store w" sc now] i] d by (cases r) auto
    have "j_state r \<noteq> QUEUED" if "r \<in> keep" for r using fin [OF that] by auto
    then have "?L w'" using lim L nc by (simp add: limits_kept_def left_def)
    then show "case dispatch sc now w of (Inl _, w') \<Rightarrow> ?L w' | (Inr a, w') \<Rightarrow> ?L w'"
      using d by (auto split: sum.split)
  qed
  have gauges: "triple ?L (record_gauges sc) (\<lambda>_. ?L) ?L"
    unfolding record_gauges_def
    by (rule triple_catching [OF triple_then [OF collect_store triple_writes] triple_ret])
      (auto simp: left_def sane_def record_metrics_inv)
  show ?thesis unfolding tick_def
    by (rule triple_then [OF rd]) (auto split: prod.split intro!: triple_then [OF adv] triple_then [OF dis] triple_then [OF gauges] triple_ret)
qed

lemma tick_sane:
  "triple (\<lambda>w. sane n c (w_store w)) (tick sc) (\<lambda>_ w. sane n c (w_store w)) (\<lambda>w. sane n c (w_store w))"
  by (rule triple_weaken [OF tick_left [of "{}"]]) (simp_all add: left_def)
text \<open>
  C2. A dispatch pass keeps the limits on the store itself, whether it returns or raises and whatever
  the backends answer: the amount the pool has committed in each currency stays within the pool
  budget (or does not grow), no member ends up running more jobs than the limit (or more than
  before), and only queued jobs of members who are not suspended are touched: the row of every
  other job is exactly what it was.
\<close>

theorem dispatch_within_limits:
  assumes "store_inv (w_store w)" and "dispatch sc now w = (r, w')"
  shows "store_inv (w_store w') \<and>
    pool_committed (w_store w') cur \<le> max (pool_committed (w_store w) cur) (pool_budget (st_cfg (w_store w)) cur) \<and>
    running_count (w_store w') u \<le> max (running_count (w_store w) u) (c_max_running_jobs_per_user (st_cfg (w_store w))) \<and>
    (\<forall>j\<in>set (st_jobs (w_store w)). j_state j \<noteq> QUEUED \<or> map_of (suspended_users (w_store w)) (j_user j) \<noteq> None \<longrightarrow>
       j \<in> set (st_jobs (w_store w')))"
proof -
  have "limits_kept (w_store w) (w_store w')"
    using tripleD [OF dispatch_limits [of "w_store w" sc now] conjI [OF refl assms(1)]] assms(2) by (cases r) auto
  then show ?thesis unfolding limits_kept_def sane_def by blast
qed

text \<open>
  C36. A tick keeps the store consistent. From a store in which every job's holds and settlements add
  up and every history replays, a tick with any backends leaves such a store, even when it is cut
  short by an exception in the middle.
\<close>

theorem tick_keeps_store_consistent:
  assumes "store_inv (w_store w)"
  shows "store_inv (w_store (snd (tick sc w)))"
proof -
  obtain r w' where t: "tick sc w = (r, w')" by fastforce
  have "sane (st_now (w_store w)) (st_cfg (w_store w)) (w_store w)" using assms by (simp add: sane_def)
  from tripleD [OF tick_sane [of "st_now (w_store w)" "st_cfg (w_store w)" sc] this] t
  have "sane (st_now (w_store w)) (st_cfg (w_store w)) (w_store w')" by (cases r) auto
  then show ?thesis using t by (simp add: sane_def)
qed

subsection \<open>A store built by the broker's own operations\<close>

definition demo_member :: store where
  "demo_member = snd (upsert_user (empty_store 0 (default_config (\<lambda>_. 0))) ''ada'' None None None None)"

definition demo_store :: store where
  "demo_store =
     (case create_job demo_member ''a'' ''ada'' ''python train.py'' ''a6000'' 2 GPU_HOUR (225/100) None None ''real'' of
        Inr (_, st) \<Rightarrow> st
      | Inl _ \<Rightarrow> demo_member)"

lemma demo_store_inv: "store_inv demo_store"
proof -
  have m: "store_inv demo_member" unfolding demo_member_def by (rule upsert_user_inv) (rule empty_store_inv)
  show ?thesis unfolding demo_store_def
    by (auto split: sum.split intro: create_job_inv [OF m] m)
qed

lemma demo_store_queue: "queued_jobs demo_store \<noteq> []"
proof -
  have "whole_cents (225/100)" by (simp add: whole_cents_def)
  then have "\<exists>j. j \<in> set (st_jobs demo_store) \<and> j_state j = QUEUED"
    by (simp add: demo_store_def demo_member_def upsert_user_def maybe_user_def get_user_def empty_store_def create_job_def
        Let_def insert_job_def new_job_def insert_transition_def insert_ledger_def)
  then show ?thesis using queued_jobs_set [of _ demo_store] by auto
qed

theorem dispatch_within_limits_witness:
  "queued_jobs demo_store \<noteq> [] \<and>
   running_count (w_store (snd (dispatch demo_scheduler 0 \<lparr>w_store = demo_store, w_ext = ()\<rparr>))) ''ada''
     \<le> max (running_count demo_store ''ada'') (c_max_running_jobs_per_user (st_cfg demo_store))"
proof -
  let ?w = "\<lparr>w_store = demo_store, w_ext = ()\<rparr>"
  obtain r w' where d: "dispatch demo_scheduler 0 ?w = (r, w')" by fastforce
  show ?thesis using dispatch_within_limits [of ?w, OF _ d] demo_store_inv demo_store_queue d by simp
qed

theorem tick_keeps_store_consistent_witness:
  "queued_jobs demo_store \<noteq> [] \<and> store_inv (w_store (snd (tick demo_scheduler \<lparr>w_store = demo_store, w_ext = ()\<rparr>)))"
  using tick_keeps_store_consistent [of "\<lparr>w_store = demo_store, w_ext = ()\<rparr>" demo_scheduler] demo_store_inv demo_store_queue
  by simp
end
