(* ===== verification/Reaper.thy ===== *)
theory Reaper
  imports Backend Iso
begin

text \<open>
  \<^verbatim>\<open>gpu_broker/reaper.py\<close>: machines that are up with no live job behind them, and what they have
  burned. \<open>launched_at_of\<close> is the tag reader of \<^verbatim>\<open>gpu_broker/aws.py\<close>.
\<close>

record orphan =
  op_backend :: string
  op_handle :: string
  op_gpu_type :: string
  op_user_id :: "string option"
  op_job_id :: "string option"
  op_launched_at :: "moment option"
  op_age_hours :: pyfloat
  op_burned :: decimal
  op_currency :: currency
  op_reason :: string

definition cost_known :: "orphan \<Rightarrow> bool" where
  "cost_known orph = (op_launched_at orph \<noteq> None)"

record reap_report =
  rp_at :: moment
  rp_orphans :: "orphan list"
  rp_scanned :: nat

definition total_burned :: "reap_report \<Rightarrow> currency \<Rightarrow> decimal" where
  "total_burned r cur = (\<Sum>orph\<leftarrow>filter (\<lambda>orph. op_currency orph = cur) (rp_orphans r). op_burned orph)"

definition launched_at_of :: "tags \<Rightarrow> moment option" where
  "launched_at_of ts =
     (case map_of ts ''broker-launched-at'' of
        None \<Rightarrow> None
      | Some stamp \<Rightarrow> if stamp = [] then None else from_iso stamp)"

definition why_orphaned :: "store \<Rightarrow> resource \<Rightarrow> string option" where
  "why_orphaned st r =
     (case rs_job_id r of
        None \<Rightarrow> Some ''no broker-job-id tag, so the broker cannot say whose this is. Either it was not launched by the broker, or the broker died between launching and tagging''
      | Some jid \<Rightarrow>
          (case get_job st jid of
             Inl _ \<Rightarrow> Some ''the broker has no record of this job at all''
           | Inr j \<Rightarrow>
               if j_state j \<in> set TERMINAL
               then Some (''the job is '' @ state_name (j_state j) @ '', but the machine is still up and billing'')
               else if j_handle j \<noteq> Some (rs_handle r)
               then Some (''the job is '' @ state_name (j_state j) @ '' but the broker records it on '' @
                      (if truthy (j_handle j) then the (j_handle j) else ''nothing'') @
                      '', not this machine. Two machines are running for one job'')
               else None))"

definition burn :: "broker_config \<Rightarrow> string \<Rightarrow> pyfloat \<Rightarrow> currency \<times> decimal" where
  "burn cfg gpu age_hours =
     (case config_gpu cfg gpu of
        Inl _ \<Rightarrow> (USD, 0)
      | Inr g \<Rightarrow> (g_currency g, quantize (g_hourly_price g * money age_hours) (g_currency g)))"

definition orphan_of :: "store \<Rightarrow> string \<Rightarrow> resource \<Rightarrow> orphan option" where
  "orphan_of st name r =
     (case why_orphaned st r of
        None \<Rightarrow> None
      | Some reason \<Rightarrow>
          (let launched = launched_at_of (rs_tags r);
               age = (case launched of Some t \<Rightarrow> max 0 (hours_of (st_now st - t)) | None \<Rightarrow> 0);
               (cur, burned) = burn (st_cfg st) (rs_gpu_type r) age
           in Some \<lparr>op_backend = name, op_handle = rs_handle r, op_gpu_type = rs_gpu_type r, op_user_id = rs_user_id r,
                    op_job_id = rs_job_id r, op_launched_at = launched, op_age_hours = age, op_burned = burned,
                    op_currency = cur, op_reason = reason\<rparr>))"

definition orphan_key :: "orphan \<Rightarrow> real \<times> string" where
  "orphan_key orph = (- op_burned orph, op_handle orph)"

definition reap :: "'e backend list \<Rightarrow> ('e, reap_report) act" where
  "reap backends =
     and_then (reads (\<lambda>st. st)) (\<lambda>st.
     and_then (for_each (\<lambda>b (orphans, scanned).
          and_then (calls (bk_list_resources b)) (\<lambda>rs.
          ret (orphans @ List.map_filter (orphan_of st (bk_name b)) rs, scanned + length rs))) backends ([], 0))
       (\<lambda>(orphans, scanned). ret \<lparr>rp_at = st_now st, rp_orphans = sort_key orphan_key orphans, rp_scanned = scanned\<rparr>))"

text \<open>\<open>Broker.reap\<close>: what can be measured is written down; nothing is terminated.\<close>

definition msg_orphan :: "orphan \<Rightarrow> string" where
  "msg_orphan orph = op_backend orph @ ''/'' @ op_handle orph @ '' ('' @ op_gpu_type orph @ ''): '' @ op_reason orph"

definition record_orphans :: "orphan list \<Rightarrow> store \<Rightarrow> store" where
  "record_orphans orphans st =
     foldl (\<lambda>s orph. if \<not> cost_known orph then s
        else snd (record_abandoned s (op_handle orph) (op_job_id orph) (op_user_id orph) (op_currency orph) (op_burned orph)
               (msg_orphan orph))) st orphans"

definition broker_reap :: "'e backend list \<Rightarrow> ('e, reap_report) act" where
  "broker_reap backends =
     and_then (reap backends) (\<lambda>report.
     and_then (writes (record_orphans (rp_orphans report))) (\<lambda>_. ret report))"

subsection \<open>Facts\<close>

lemma record_abandoned_frame [frame_simps, simp]:
  "st_jobs (snd (record_abandoned st h j u c b m)) = st_jobs st"
  "st_now (snd (record_abandoned st h j u c b m)) = st_now st"
  "st_cfg (snd (record_abandoned st h j u c b m)) = st_cfg st"
  "st_users (snd (record_abandoned st h j u c b m)) = st_users st"
  "st_transitions (snd (record_abandoned st h j u c b m)) = st_transitions st"
  by (simp_all add: record_abandoned_def Let_def)

lemma record_orphans_frame:
  "st_jobs (record_orphans os st) = st_jobs st" "st_now (record_orphans os st) = st_now st"
  "st_cfg (record_orphans os st) = st_cfg st" "st_users (record_orphans os st) = st_users st"
  "st_transitions (record_orphans os st) = st_transitions st"
  unfolding record_orphans_def by (induction os arbitrary: st) simp_all

lemma record_orphans_inv [inv_intros]: "store_inv st \<Longrightarrow> store_inv (record_orphans os st)"
  unfolding record_orphans_def
proof (induction os arbitrary: st)
  case (Cons orph os)
  then show ?case using record_abandoned_inv by simp
qed simp

text \<open>A machine is legitimately busy exactly when its tag names a job that is alive and on this
  handle.\<close>

lemma why_orphaned_None:
  "why_orphaned st r = None \<longleftrightarrow>
     (\<exists>jid j. rs_job_id r = Some jid \<and> get_job st jid = Inr j \<and> j_state j \<notin> set TERMINAL \<and> j_handle j = Some (rs_handle r))"
  by (auto simp: why_orphaned_def split: option.splits sum.splits if_splits)

lemma reap_store:
  "triple (\<lambda>w. w_store w = st) (reap bs) (\<lambda>_ w. w_store w = st) (\<lambda>w. w_store w = st)"
proof -
  let ?I = "\<lambda>_ _ w. w_store w = st"
  show ?thesis unfolding reap_def
    by (intro triple_then [OF triple_reads [where Q = "\<lambda>_ w. w_store w = st"]] triple_then [OF triple_for_each [where I = ?I]])
      (auto split: prod.split intro!: triple_then [OF triple_calls [where S = "\<lambda>s. s = st"]] triple_ret)
qed

lemma abandoned_whole:
  assumes "store_inv st"
  shows "whole_cents (abandoned_for_handle st h c)" and "0 \<le> abandoned_for_handle st h c"
proof -
  show "whole_cents (abandoned_for_handle st h c)"
    unfolding abandoned_for_handle_def
    by (rule whole_cents_sum_list) (use store_invD(4) [OF assms] in auto)
  show "0 \<le> abandoned_for_handle st h c"
    unfolding abandoned_for_handle_def by (rule sum_list_nonneg_real) (use store_invD(5) [OF assms] in auto)
qed

lemma record_abandoned_mono:
  "abandoned_for_handle st x k \<le> abandoned_for_handle (snd (record_abandoned st h jid uid c burned m)) x k"
  by (simp add: record_abandoned_def Let_def)

lemma record_abandoned_again:
  assumes "store_inv st" and "quantize burned c \<le> abandoned_for_handle st h c"
  shows "snd (record_abandoned st h jid uid c burned m) = st"
proof -
  let ?a = "abandoned_for_handle st h c"
  have "quantize (burned - ?a) c \<le> 0"
  proof (cases "?a \<le> burned")
    case True
    then show ?thesis using quantize_diff_whole [OF abandoned_whole [OF assms(1)] True] assms(2) by simp
  qed (simp add: quantize_nonpos)
  then show ?thesis by (simp add: record_abandoned_def Let_def money_def)
qed

lemma record_orphans_Cons:
  "record_orphans (orph # os) st = record_orphans os (if \<not> cost_known orph then st
     else snd (record_abandoned st (op_handle orph) (op_job_id orph) (op_user_id orph) (op_currency orph) (op_burned orph)
            (msg_orphan orph)))"
  by (simp add: record_orphans_def)

lemma record_orphans_mono: "abandoned_for_handle st x k \<le> abandoned_for_handle (record_orphans os st) x k"
proof (induction os arbitrary: st)
  case (Cons orph os)
  show ?case unfolding record_orphans_Cons
    using Cons.IH order_trans [OF record_abandoned_mono Cons.IH] by simp
qed (simp add: record_orphans_def)

lemma record_orphans_covers:
  assumes "store_inv st" and "orph \<in> set os" and "cost_known orph"
  shows "quantize (op_burned orph) (op_currency orph) \<le> abandoned_for_handle (record_orphans os st) (op_handle orph) (op_currency orph)"
  using assms(1,2)
proof (induction os arbitrary: st)
  case (Cons x os)
  let ?s = "if \<not> cost_known x then st else snd (record_abandoned st (op_handle x) (op_job_id x) (op_user_id x) (op_currency x)
      (op_burned x) (msg_orphan x))"
  have s: "store_inv ?s" using Cons.prems(1) record_abandoned_inv by simp
  show ?case
  proof (cases "orph = x")
    case True
    then have "quantize (op_burned orph) (op_currency orph) \<le> abandoned_for_handle ?s (op_handle orph) (op_currency orph)"
      using assms(3) record_abandoned_total [OF abandoned_whole [OF Cons.prems(1)]] by simp
    then show ?thesis unfolding record_orphans_Cons using record_orphans_mono order_trans by blast
  next
    case False
    then show ?thesis unfolding record_orphans_Cons using Cons.IH [OF s] Cons.prems(2) by simp
  qed
qed simp

lemma record_orphans_noop:
  assumes "store_inv st"
    and "\<forall>orph\<in>set os. cost_known orph \<longrightarrow>
      quantize (op_burned orph) (op_currency orph) \<le> abandoned_for_handle st (op_handle orph) (op_currency orph)"
  shows "record_orphans os st = st"
  using assms(2)
proof (induction os)
  case (Cons orph os)
  then show ?case unfolding record_orphans_Cons using record_abandoned_again [OF assms(1)] by simp
qed (simp add: record_orphans_def)

text \<open>
  Writing down what orphaned machines have burned is a running total, not a repeated charge: the
  ledger ends up with at least the measured amount for every orphan whose cost is known, doing it
  again for the same report changes nothing at all, and no job is touched.
\<close>

theorem reap_records_running_total:
  assumes "store_inv st"
  shows "record_orphans os (record_orphans os st) = record_orphans os st \<and>
    (\<forall>orph\<in>set os. cost_known orph \<longrightarrow> quantize (op_burned orph) (op_currency orph)
       \<le> abandoned_for_handle (record_orphans os st) (op_handle orph) (op_currency orph)) \<and>
    st_jobs (record_orphans os st) = st_jobs st \<and> store_inv (record_orphans os st)"
  using record_orphans_noop [OF record_orphans_inv [OF assms]] record_orphans_covers [OF assms] record_orphans_frame(1)
    record_orphans_inv [OF assms] by blast

definition demo_orphan :: orphan where
  "demo_orphan =
     \<lparr>op_backend = ''fake'', op_handle = ''fake-0001'', op_gpu_type = ''t4'', op_user_id = None, op_job_id = None,
      op_launched_at = Some 0, op_age_hours = 2, op_burned = 105/100, op_currency = USD, op_reason = ''no tag''\<rparr>"

theorem reap_records_running_total_witness:
  "quantize (105/100) USD \<le> abandoned_for_handle (record_orphans [demo_orphan] (empty_store 0 (default_config (\<lambda>_. 0)))) ''fake-0001'' USD"
proof -
  have "\<forall>orph\<in>set [demo_orphan]. cost_known orph \<longrightarrow> quantize (op_burned orph) (op_currency orph)
       \<le> abandoned_for_handle (record_orphans [demo_orphan] (empty_store 0 (default_config (\<lambda>_. 0)))) (op_handle orph) (op_currency orph)"
    using reap_records_running_total [OF empty_store_inv, where os = "[demo_orphan]"] by blast
  then show ?thesis by (simp add: demo_orphan_def cost_known_def)
qed

lemma orphan_of_Some:
  "orphan_of st n r = Some orph \<Longrightarrow> op_backend orph = n \<and> op_handle orph = rs_handle r \<and> why_orphaned st r \<noteq> None"
  by (auto simp: orphan_of_def Let_def split_def split: option.splits)

lemma orphan_of_exists: "why_orphaned st r \<noteq> None \<Longrightarrow> \<exists>orph. orphan_of st n r = Some orph"
  by (auto simp: orphan_of_def Let_def split_def)

lemma in_map_filter: "x \<in> set (List.map_filter f xs) \<longleftrightarrow> (\<exists>y\<in>set xs. f y = Some x)"
  by (induction xs) (auto simp: map_filter_simps split: option.splits)

text \<open>The listing of backends that answer without changing anything.\<close>

lemma reap_loop:
  assumes "\<forall>b\<in>set bs. bk_list_resources b (st_now (w_store w)) (w_ext w) = (Inr (listing b), w_ext w)"
  shows "for_each (\<lambda>b (orphans, scanned).
          and_then (calls (bk_list_resources b)) (\<lambda>rs.
          ret (orphans @ List.map_filter (orphan_of st (bk_name b)) rs, scanned + length rs))) bs (os, n) w =
     (Inr (os @ concat (map (\<lambda>b. List.map_filter (orphan_of st (bk_name b)) (listing b)) bs),
           n + length (concat (map listing bs))), w)"
  using assms
proof (induction bs arbitrary: os n)
  case (Cons b bs)
  have "calls (bk_list_resources b) w = (Inr (listing b), w)" using Cons.prems by (simp add: calls_def)
  then show ?case using Cons by (simp add: and_then_def ret_def)
qed (simp add: ret_def)

text \<open>
  Reaping reports exactly the machines with nothing legitimate behind them. Over the machines the
  backends list, it reports one if and only if its tag does not name a job that is alive and
  recorded on that very machine; it scans every machine, changes nothing, and puts the most
  expensive first.
\<close>

theorem reap_reports_exactly_the_orphans:
  assumes "\<forall>b\<in>set bs. bk_list_resources b (st_now (w_store w)) (w_ext w) = (Inr (listing b), w_ext w)"
  shows "\<exists>rep. reap bs w = (Inr rep, w) \<and> rp_scanned rep = length (concat (map listing bs)) \<and>
    sorted (map (\<lambda>orph. - op_burned orph) (rp_orphans rep)) \<and>
    (\<forall>name h. (\<exists>orph\<in>set (rp_orphans rep). op_backend orph = name \<and> op_handle orph = h) \<longleftrightarrow>
       (\<exists>b\<in>set bs. bk_name b = name \<and> (\<exists>r\<in>set (listing b). rs_handle r = h \<and>
          \<not> (\<exists>jid j. rs_job_id r = Some jid \<and> get_job (w_store w) jid = Inr j \<and> j_state j \<notin> set TERMINAL \<and>
               j_handle j = Some (rs_handle r)))))"
proof -
  let ?os = "concat (map (\<lambda>b. List.map_filter (orphan_of (w_store w) (bk_name b)) (listing b)) bs)"
  let ?rep = "\<lparr>rp_at = st_now (w_store w), rp_orphans = sort_key orphan_key ?os, rp_scanned = length (concat (map listing bs))\<rparr>"
  have run: "reap bs w = (Inr ?rep, w)"
    unfolding reap_def by (simp add: and_then_def reads_def reap_loop [OF assms] ret_def)
  have "sorted (map orphan_key (sort_key orphan_key ?os))" by simp
  then have srt: "sorted (map (\<lambda>orph. - op_burned orph) (rp_orphans ?rep))"
    by (auto simp: sorted_wrt_map orphan_key_def less_eq_prod_def elim!: sorted_wrt_mono_rel [rotated])

  have mem: "orph \<in> set (rp_orphans ?rep) \<longleftrightarrow>
      (\<exists>b\<in>set bs. \<exists>r\<in>set (listing b). orphan_of (w_store w) (bk_name b) r = Some orph)" for orph
    by (auto simp: in_map_filter)
  have iff: "(\<exists>orph\<in>set (rp_orphans ?rep). op_backend orph = name \<and> op_handle orph = h) \<longleftrightarrow>
       (\<exists>b\<in>set bs. bk_name b = name \<and> (\<exists>r\<in>set (listing b). rs_handle r = h \<and> why_orphaned (w_store w) r \<noteq> None))" for name h
  proof
    assume "\<exists>orph\<in>set (rp_orphans ?rep). op_backend orph = name \<and> op_handle orph = h"
    then obtain orph b r where orph: "op_backend orph = name" "op_handle orph = h" "b \<in> set bs" "r \<in> set (listing b)"
      "orphan_of (w_store w) (bk_name b) r = Some orph" using mem by blast
    show "\<exists>b\<in>set bs. bk_name b = name \<and> (\<exists>r\<in>set (listing b). rs_handle r = h \<and> why_orphaned (w_store w) r \<noteq> None)"
      by (rule bexI [OF _ orph(3)], intro conjI bexI [OF _ orph(4)]) (use orphan_of_Some [OF orph(5)] orph(1,2) in simp_all)
  next
    assume "\<exists>b\<in>set bs. bk_name b = name \<and> (\<exists>r\<in>set (listing b). rs_handle r = h \<and> why_orphaned (w_store w) r \<noteq> None)"
    then obtain b r where br: "b \<in> set bs" "bk_name b = name" "r \<in> set (listing b)" "rs_handle r = h"
      "why_orphaned (w_store w) r \<noteq> None" by blast
    from br(5) obtain orph where orph: "orphan_of (w_store w) (bk_name b) r = Some orph"
      using orphan_of_exists by blast
    have "orph \<in> set (rp_orphans ?rep)" using mem orph br(1,3) by blast
    then show "\<exists>orph\<in>set (rp_orphans ?rep). op_backend orph = name \<and> op_handle orph = h"
      by (rule bexI [rotated]) (use orphan_of_Some [OF orph] br(2,4) in simp)
  qed
  show ?thesis
  proof (intro exI [of _ ?rep] conjI allI)
    show "reap bs w = (Inr ?rep, w)" by (rule run)
    show "sorted (map (\<lambda>orph. - op_burned orph) (rp_orphans ?rep))" by (rule srt)
    show "(\<exists>orph\<in>set (rp_orphans ?rep). op_backend orph = name \<and> op_handle orph = h) \<longleftrightarrow>
       (\<exists>b\<in>set bs. bk_name b = name \<and> (\<exists>r\<in>set (listing b). rs_handle r = h \<and>
          \<not> (\<exists>jid j. rs_job_id r = Some jid \<and> get_job (w_store w) jid = Inr j \<and> j_state j \<notin> set TERMINAL \<and>
               j_handle j = Some (rs_handle r))))" for name h
      using iff [of name h] unfolding why_orphaned_None .
  qed simp
qed
text \<open>One untagged machine behind a backend that only lists.\<close>

definition listing_backend :: "string \<Rightarrow> resource list \<Rightarrow> 'e backend" where
  "listing_backend name rs =
     \<lparr>bk_name = name, bk_currency = USD, bk_tier = None, bk_supports = (\<lambda>_. False),
      bk_free_slots = (\<lambda>g now e. (Inr 0, e)), bk_launch = (\<lambda>j now e. (Inl (BackendError ''full''), e)),
      bk_start = (\<lambda>h j now e. (Inr (), e)),
      bk_poll = (\<lambda>h now e. (Inr \<lparr>os_status = BS_GONE, os_exit_code = None, os_detail = None\<rparr>, e)),
      bk_validate_launch = (\<lambda>j now e. (Inl (BackendError ''full''), e)), bk_fetch_logs = (\<lambda>h k now e. (Inr [], e)),
      bk_terminate = (\<lambda>h r now e. (Inr (), e)), bk_list_resources = (\<lambda>now e. (Inr rs, e)),
      bk_sample_utilization = (\<lambda>h now e. (Inr [], e))\<rparr>"

theorem reap_reports_exactly_the_orphans_witness:
  "\<exists>rep. reap [listing_backend ''ec2'' [\<lparr>rs_handle = ''i-1'', rs_gpu_type = ''t4'', rs_status = BS_RUNNING, rs_tags = []\<rparr>]]
      \<lparr>w_store = empty_store 0 (default_config (\<lambda>_. 0)), w_ext = ()\<rparr> =
        (Inr rep, \<lparr>w_store = empty_store 0 (default_config (\<lambda>_. 0)), w_ext = ()\<rparr>) \<and>
    (\<exists>orph\<in>set (rp_orphans rep). op_backend orph = ''ec2'' \<and> op_handle orph = ''i-1'')"
proof -
  let ?r = "\<lparr>rs_handle = ''i-1'', rs_gpu_type = ''t4'', rs_status = BS_RUNNING, rs_tags = []\<rparr>"
  let ?b = "listing_backend ''ec2'' [?r] :: unit backend"
  let ?w = "\<lparr>w_store = empty_store 0 (default_config (\<lambda>_. 0)), w_ext = ()\<rparr>"
  have "\<forall>b\<in>set [?b]. bk_list_resources b (st_now (w_store ?w)) (w_ext ?w) = (Inr [?r], w_ext ?w)"
    by (simp add: listing_backend_def)
  from reap_reports_exactly_the_orphans [of "[?b]" ?w "\<lambda>_. [?r]", OF this] obtain rep where
    rep: "reap [?b] ?w = (Inr rep, ?w)" and
    iff: "\<And>name h. (\<exists>orph\<in>set (rp_orphans rep). op_backend orph = name \<and> op_handle orph = h) \<longleftrightarrow>
       (\<exists>b\<in>set [?b]. bk_name b = name \<and> (\<exists>r\<in>set [?r]. rs_handle r = h \<and>
          \<not> (\<exists>jid j. rs_job_id r = Some jid \<and> get_job (w_store ?w) jid = Inr j \<and> j_state j \<notin> set TERMINAL \<and>
               j_handle j = Some (rs_handle r))))" by (elim exE conjE) (rule that, assumption, drule spec, drule spec, assumption)
  have "\<exists>orph\<in>set (rp_orphans rep). op_backend orph = ''ec2'' \<and> op_handle orph = ''i-1''"
    unfolding iff by (simp add: listing_backend_def rs_job_id_def)
  then show ?thesis using rep by blast
qed
end
