(* ===== verification/Broker.thy ===== *)
theory Broker
  imports Dispatch Reaper
begin

text \<open>
  \<^verbatim>\<open>gpu_broker/broker.py\<close>, the facade: submitting, cancelling, the loop, reclaiming, and the
  operations that only officers may perform. The identifier a new job gets (\<open>uuid4\<close>) is the
  argument \<open>fresh\<close>. The pool of lab hosts is represented by the two operations the facade calls on
  it, which raise for an unknown host.
\<close>

record 'e local_pool =
  lp_drain :: "string \<Rightarrow> string \<Rightarrow> ('e, unit) ext_op"
  lp_undrain :: "string \<Rightarrow> ('e, unit) ext_op"

record 'e broker =
  br_scheduler :: "'e scheduler"
  br_local :: "'e local_pool option"

subsection \<open>Submitting\<close>

text \<open>The chain of checks, in the order of the source; the balance is read only if the others pass.\<close>

definition submit_refusal ::
  "store \<Rightarrow> user \<Rightarrow> currency \<Rightarrow> decimal \<Rightarrow> (error, refusal option) result"
where
  "submit_refusal st u cur reserved =
     (case check_membership u of
        Some r \<Rightarrow> Inr (Some r)
      | None \<Rightarrow>
          (case check_job_cap (st_cfg st) cur reserved of
             Some r \<Rightarrow> Inr (Some r)
           | None \<Rightarrow>
               (case check_queue_depth (st_cfg st) (queued_count st (u_id u)) of
                  Some r \<Rightarrow> Inr (Some r)
                | None \<Rightarrow>
                    (case user_balance st (u_id u) cur of
                       Inl e \<Rightarrow> Inl e
                     | Inr b \<Rightarrow> Inr (check_user_budget b reserved)))))"

definition submit ::
  "string \<Rightarrow> string \<Rightarrow> string \<Rightarrow> string \<Rightarrow> pyfloat \<Rightarrow> decimal option \<Rightarrow> string option \<Rightarrow> string \<Rightarrow> ('e, submit_result) act"
where
  "submit fresh uid command gpu_type hours budget environment origin =
     and_then (reads_try (\<lambda>st. validate_request (st_cfg st) gpu_type hours command)) (\<lambda>_.
     and_then (reads_try (\<lambda>st. config_gpu (st_cfg st) gpu_type)) (\<lambda>gpu.
     and_then (case budget of
                 Some b \<Rightarrow> ret (money b)
               | None \<Rightarrow> reads_try (\<lambda>st. default_reservation (st_cfg st) gpu_type hours)) (\<lambda>reserved.
     and_then (reads_try (\<lambda>st. get_user st uid)) (\<lambda>user.
     and_then (reads_try (\<lambda>st.
         if truthy environment \<and> find_environment st (the environment) = None
         then Inl (BrokerError (UnknownEnvironment (the environment))) else Inr ())) (\<lambda>_.
     and_then (reads_try (\<lambda>st. submit_refusal st user (g_currency gpu) reserved)) (\<lambda>refusal.
     case refusal of
       Some r \<Rightarrow>
         and_then (writes_try (\<lambda>st. record_refusal st fresh uid command gpu_type hours (g_currency gpu) reserved
             (rf_reason r) origin)) (\<lambda>j.
         ret \<lparr>sr_job = j, sr_refusal = Some r, sr_warning = None\<rparr>)
     | None \<Rightarrow>
         and_then (writes_try (\<lambda>st. create_job st fresh uid command gpu_type hours (g_currency gpu) reserved None
             environment origin)) (\<lambda>j.
         and_then (reads_try (\<lambda>st. ceiling_warning (st_cfg st) gpu_type hours reserved)) (\<lambda>warning.
         ret \<lparr>sr_job = j, sr_refusal = None, sr_warning = warning\<rparr>))))))))"

subsection \<open>Who may do what\<close>

definition require_officer :: "store \<Rightarrow> string option \<Rightarrow> bool \<Rightarrow> (error, unit) result" where
  "require_officer st actor admin =
     (if admin \<or> \<not> truthy actor then Inr ()
      else if \<not> has_admins st then Inr ()
      else
        (case maybe_user st (the actor) of
           None \<Rightarrow> Inl (Unauthorized (the actor))
         | Some u \<Rightarrow> if u_is_admin u then Inr () else Inl (Unauthorized (the actor))))"

definition may_cancel :: "store \<Rightarrow> job \<Rightarrow> string option \<Rightarrow> bool \<Rightarrow> bool" where
  "may_cancel st j actor admin =
     (case actor of
        None \<Rightarrow> True
      | Some a \<Rightarrow> a = j_user j \<or> admin \<or> (case maybe_user st a of None \<Rightarrow> False | Some u \<Rightarrow> u_is_admin u))"

definition actor_name :: "string option \<Rightarrow> job \<Rightarrow> string" where
  "actor_name actor j = (if truthy actor then the actor else j_user j)"

definition terminate_if_held :: "'e scheduler \<Rightarrow> job \<Rightarrow> string \<Rightarrow> ('e, unit) act" where
  "terminate_if_held sc j reason =
     (if truthy (j_backend j) \<and> truthy (j_handle j)
      then (case scheduler_backend sc (the (j_backend j)) of
              Some b \<Rightarrow> calls (bk_terminate b (the (j_handle j)) reason)
            | None \<Rightarrow> ret ())
      else ret ())"

definition cancel :: "'e broker \<Rightarrow> string \<Rightarrow> string option \<Rightarrow> bool \<Rightarrow> ('e, job) act" where
  "cancel br jid actor admin =
     and_then (reads_try (\<lambda>st. find_job st jid)) (\<lambda>j.
     and_then (reads_try (\<lambda>st. if \<not> may_cancel st j actor admin then Inl (Unauthorized (the actor))
         else if is_terminal j then Inl (BrokerError (NothingToCancel (j_id j) (j_state j))) else Inr ())) (\<lambda>_.
     and_then (terminate_if_held (br_scheduler br) j (''cancelled by '' @ actor_name actor j)) (\<lambda>_.
     move j CANCELLED (''cancelled by '' @ actor_name actor j) None True)))"

definition add_user ::
  "string \<Rightarrow> string option \<Rightarrow> bool \<Rightarrow> string option \<Rightarrow> decimal option \<Rightarrow> decimal option \<Rightarrow> bool option \<Rightarrow> ('e, user) act"
where
  "add_user uid actor admin display_name budget_usd budget_gpu_hours is_admin =
     and_then (reads_try (\<lambda>st. if is_admin \<noteq> None then require_officer st actor admin else Inr ())) (\<lambda>_.
     writes_with (\<lambda>st. upsert_user st uid display_name budget_usd budget_gpu_hours is_admin))"

definition broker_suspend_user :: "string \<Rightarrow> string \<Rightarrow> string option \<Rightarrow> bool \<Rightarrow> ('e, user) act" where
  "broker_suspend_user uid reason actor admin =
     and_then (reads_try (\<lambda>st. require_officer st actor admin)) (\<lambda>_.
     writes_try (\<lambda>st. suspend_user st uid reason (or_empty actor)))"

definition broker_restore_user :: "string \<Rightarrow> string option \<Rightarrow> bool \<Rightarrow> ('e, user) act" where
  "broker_restore_user uid actor admin =
     and_then (reads_try (\<lambda>st. require_officer st actor admin)) (\<lambda>_.
     writes_try (\<lambda>st. restore_user st uid))"

definition drain_host :: "'e broker \<Rightarrow> string \<Rightarrow> string \<Rightarrow> string \<Rightarrow> bool \<Rightarrow> ('e, unit) act" where
  "drain_host br hostname reason actor admin =
     and_then (reads_try (\<lambda>st. require_officer st (Some actor) admin)) (\<lambda>_.
     case br_local br of
       None \<Rightarrow> raise (BrokerError NoLocalPool)
     | Some pool \<Rightarrow>
         and_then (calls (lp_drain pool hostname reason)) (\<lambda>_.
         writes (\<lambda>st. store_drain_host st hostname reason actor)))"

definition undrain_host :: "'e broker \<Rightarrow> string \<Rightarrow> string \<Rightarrow> bool \<Rightarrow> ('e, unit) act" where
  "undrain_host br hostname actor admin =
     and_then (reads_try (\<lambda>st. require_officer st (Some actor) admin)) (\<lambda>_.
     case br_local br of
       None \<Rightarrow> raise (BrokerError NoLocalPool)
     | Some pool \<Rightarrow>
         and_then (calls (lp_undrain pool hostname)) (\<lambda>_.
         writes (\<lambda>st. store_undrain_host st hostname)))"

subsection \<open>The loop\<close>

text \<open>\<open>ManualClock.sleep\<close>: jump ahead, never backwards.\<close>

definition timedelta_seconds :: "pyfloat \<Rightarrow> int" where
  "timedelta_seconds s = round_half_even (s * 1000000)"

definition clock_sleep :: "pyfloat \<Rightarrow> ('e, unit) act" where
  "clock_sleep seconds =
     writes_try (\<lambda>st. case clock_advance (st_now st) (timedelta_seconds seconds) of
        Inl _ \<Rightarrow> Inl (ValueError ''clocks do not run backwards'')
      | Inr t \<Rightarrow> Inr ((), st\<lparr>st_now := t\<rparr>))"

fun run_until_idle :: "'e broker \<Rightarrow> pyfloat \<Rightarrow> nat \<Rightarrow> nat \<Rightarrow> tick_report list \<Rightarrow> ('e, tick_report list) act" where
  "run_until_idle br step_seconds max_ticks 0 reports = raise (BrokerError (QueueNotDrained max_ticks))"
| "run_until_idle br step_seconds max_ticks (Suc n) reports =
     and_then (tick (br_scheduler br)) (\<lambda>report.
     and_then (reads (\<lambda>st. queued_jobs st = [] \<and> active_jobs st = [])) (\<lambda>drained.
     if drained then ret (reports @ [report])
     else and_then (clock_sleep step_seconds) (\<lambda>_. run_until_idle br step_seconds max_ticks n (reports @ [report]))))"

subsection \<open>Reclaiming idle jobs\<close>

record reclaim_report =
  rc_at :: moment
  rc_enabled :: bool
  rc_idle :: "idle_verdict list"
  rc_ready :: "idle_verdict list"
  rc_reclaimed :: "string list"
  rc_held :: "(string \<times> string) list"

definition would_reclaim :: "reclaim_report \<Rightarrow> idle_verdict list" where
  "would_reclaim r = (if rc_enabled r then [] else rc_ready r)"

definition msg_reclaimed :: "idle_verdict \<Rightarrow> moment \<Rightarrow> string" where
  "msg_reclaimed v now =
     ''Job '' @ short_id (v_job v) @ '' was reclaimed after '' @ show_fixed 1 (idle_hours v now) @
     ''h idle. The samples that justified it:'' @ [CHR 0x0A] @ evidence v"

definition reclaim_one :: "'e broker \<Rightarrow> idle_verdict \<Rightarrow> ('e, unit) act" where
  "reclaim_one br v =
     (let j = v_job v
      in and_then (writes (\<lambda>st. snd (store_notify st (j_user j) ''reclaimed'' (msg_reclaimed v (st_now st)) (Some (j_id j))))) (\<lambda>_.
         and_then (log_line j (''reclaimed as idle:'' @ [CHR 0x0A] @ evidence v)) (\<lambda>_.
         and_then (terminate_if_held (br_scheduler br) j ''reclaimed as idle'') (\<lambda>_.
         and_then (move j RECLAIMED (''idle: '' @ v_reason v) None True) (\<lambda>_. ret ())))))"

definition reclaim_step ::
  "'e broker \<Rightarrow> bool \<Rightarrow> moment \<Rightarrow> idle_verdict \<Rightarrow> idle_verdict list \<times> string list \<times> (string \<times> string) list \<Rightarrow>
   ('e, idle_verdict list \<times> string list \<times> (string \<times> string) list) act"
where
  "reclaim_step br enabled now v acc =
     (case acc of (ready, reclaimed, held) \<Rightarrow>
        (case reclaimable v now of (allowed, why) \<Rightarrow>
           if \<not> allowed then ret (ready, reclaimed, held @ [(j_id (v_job v), why)])
           else if enabled
           then and_then (reclaim_one br v) (\<lambda>_. ret (ready @ [v], reclaimed @ [j_id (v_job v)], held))
           else ret (ready @ [v], reclaimed, held)))"

definition reclaim :: "'e broker \<Rightarrow> bool \<Rightarrow> ('e, reclaim_report) act" where
  "reclaim br force =
     and_then (reads (\<lambda>st. (st_now st, c_reclaim_enabled (st_cfg st) \<or> force))) (\<lambda>(now, enabled).
     and_then (reads_try (\<lambda>st. candidates st (st_cfg st))) (\<lambda>verdicts.
     and_then (for_each (reclaim_step br enabled now) verdicts ([], [], [])) (\<lambda>(ready, reclaimed, held).
     and_then (reads_try (\<lambda>st. candidates st (st_cfg st))) (\<lambda>idle.
     ret \<lparr>rc_at = now, rc_enabled = enabled, rc_idle = idle, rc_ready = ready, rc_reclaimed = reclaimed,
          rc_held = held\<rparr>))))"

subsection \<open>Reads\<close>

definition who :: "store \<Rightarrow> job list" where
  "who st = sort_key (\<lambda>j. (j_user j, j_submitted_at j)) (list_jobs st None (Some ACTIVE) None)"

definition job_history :: "store \<Rightarrow> string option \<Rightarrow> nat \<Rightarrow> job list" where
  "job_history st uid limit = take limit (sort_key (\<lambda>j. - j_submitted_at j) (list_jobs st uid None None))"

definition broker_logs :: "store \<Rightarrow> string \<Rightarrow> nat \<Rightarrow> (error, log_row list) result" where
  "broker_logs st jid after =
     (case find_job st jid of Inl e \<Rightarrow> Inl e | Inr j \<Rightarrow> Inr (read_logs st (j_id j) after 1000))"

end
