(* ===== verification/Facade.thy ===== *)
theory Facade
  imports Broker
begin

text \<open>
  What the facade of \<^verbatim>\<open>gpu_broker/broker.py\<close> guarantees: a submission is admitted only within every
  limit and its hold is on the ledger from the first moment, a refusal costs nothing, an exception
  writes nothing; only owners and officers stop jobs, only officers administer the pool.
\<close>

subsection \<open>Submitting\<close>

lemma get_user_Inr: "get_user st uid = Inr u \<Longrightarrow> u \<in> set (st_users st) \<and> u_id u = uid"
  by (auto simp: get_user_def maybe_user_def split: option.splits dest: find_Some_set)

text \<open>What \<open>submit\<close> reserves for the given options.\<close>

definition submit_reserves :: "broker_config \<Rightarrow> string \<Rightarrow> pyfloat \<Rightarrow> decimal option \<Rightarrow> (error, decimal) result" where
  "submit_reserves cfg gpu hours budget =
     (case budget of Some b \<Rightarrow> Inr (money b) | None \<Rightarrow> default_reservation cfg gpu hours)"

lemma reserves_act:
  "(case budget of Some b \<Rightarrow> ret (money b)
     | None \<Rightarrow> reads_try (\<lambda>st. default_reservation (st_cfg st) gpu hours)) =
   reads_try (\<lambda>st. submit_reserves (st_cfg st) gpu hours budget)"
  by (rule ext) (cases budget; simp add: submit_reserves_def ret_def reads_try_def)

lemma submit_cases:
  assumes "submit fresh uid cmd gpu hours budget env origin w = (Inr res, w')"
  obtains g reserved user refusal where
    "validate_request (st_cfg (w_store w)) gpu hours cmd = Inr ()"
    "config_gpu (st_cfg (w_store w)) gpu = Inr g"
    "submit_reserves (st_cfg (w_store w)) gpu hours budget = Inr reserved"
    "get_user (w_store w) uid = Inr user"
    "submit_refusal (w_store w) user (g_currency g) reserved = Inr refusal"
    "sr_refusal res = refusal"
    "case refusal of
       Some r \<Rightarrow> record_refusal (w_store w) fresh uid cmd gpu hours (g_currency g) reserved (rf_reason r) origin =
         Inr (sr_job res, w_store w')
     | None \<Rightarrow> create_job (w_store w) fresh uid cmd gpu hours (g_currency g) reserved None env origin =
         Inr (sr_job res, w_store w')"
    "w_ext w' = w_ext w"
  using assms unfolding submit_def reserves_act run_simps
  by (auto simp: run_simps split: option.splits)

lemma submit_admitted:
  assumes "submit fresh uid cmd gpu hours budget env origin w = (Inr res, w')" and "sr_refusal res = None"
  obtains g reserved user where
    "validate_request (st_cfg (w_store w)) gpu hours cmd = Inr ()"
    "config_gpu (st_cfg (w_store w)) gpu = Inr g"
    "submit_reserves (st_cfg (w_store w)) gpu hours budget = Inr reserved"
    "get_user (w_store w) uid = Inr user"
    "submit_refusal (w_store w) user (g_currency g) reserved = Inr None"
    "create_job (w_store w) fresh uid cmd gpu hours (g_currency g) reserved None env origin = Inr (sr_job res, w_store w')"
    "w_ext w' = w_ext w"
  apply (rule submit_cases [OF assms(1)])
  subgoal for g reserved user refusal using that [of g reserved user] assms(2) by simp
  done

lemma submit_refused:
  assumes "submit fresh uid cmd gpu hours budget env origin w = (Inr res, w')" and "sr_refusal res = Some r"
  obtains g reserved user where
    "config_gpu (st_cfg (w_store w)) gpu = Inr g"
    "submit_reserves (st_cfg (w_store w)) gpu hours budget = Inr reserved"
    "get_user (w_store w) uid = Inr user"
    "submit_refusal (w_store w) user (g_currency g) reserved = Inr (Some r)"
    "record_refusal (w_store w) fresh uid cmd gpu hours (g_currency g) reserved (rf_reason r) origin =
       Inr (sr_job res, w_store w')"
    "w_ext w' = w_ext w"
  apply (rule submit_cases [OF assms(1)])
  subgoal for g reserved user refusal using that [of g reserved user] assms(2) by auto
  done

lemma user_balance_Inr:
  assumes "user_balance st uid cur = Inr b" and "get_user st uid = Inr u"
  shows "b_available b = user_budget u cur - account_committed st uid cur (period_now st)" "b_currency b = cur"
proof -
  have "balance_in st uid cur (period_now st) = Inr b" using assms(1) by (simp add: user_balance_def)
  note balance_in_committed [OF this]
  moreover have "b_budget b = user_budget u cur" "b_currency b = cur"
    using assms by (auto simp: user_balance_def balance_in_def Let_def split: prod.splits)
  ultimately show "b_available b = user_budget u cur - account_committed st uid cur (period_now st)" "b_currency b = cur"
    by simp_all
qed

lemma submit_refusal_None:
  assumes "submit_refusal st u cur reserved = Inr None" and "get_user st (u_id u) = Inr u"
  shows "\<not> is_suspended u" "0 < reserved" "reserved \<le> max_job (st_cfg st) cur"
    "queued_count st (u_id u) < c_max_queued_jobs_per_user (st_cfg st)"
    "account_committed st (u_id u) cur (period_now st) + reserved \<le> user_budget u cur"
proof -
  from assms(1) obtain b where checks: "check_membership u = None" "check_job_cap (st_cfg st) cur reserved = None"
    "check_queue_depth (st_cfg st) (queued_count st (u_id u)) = None"
    and b: "user_balance st (u_id u) cur = Inr b" "check_user_budget b reserved = None"
    by (auto simp: submit_refusal_def split: option.splits sum.splits)
  from user_balance_Inr [OF b(1) assms(2)] b(2) show "account_committed st (u_id u) cur (period_now st) + reserved \<le> user_budget u cur"
    by (simp add: check_user_budget_None)
  show "\<not> is_suspended u" "0 < reserved" "reserved \<le> max_job (st_cfg st) cur"
    "queued_count st (u_id u) < c_max_queued_jobs_per_user (st_cfg st)"
    using checks by (simp_all add: check_membership_None check_job_cap_None check_queue_depth_None)
qed

lemma account_committed_whole_cents:
  assumes "store_inv st" shows "whole_cents (account_committed st uid cur per)"
  unfolding account_committed_def
proof (rule whole_cents_sum_list)
  fix e assume "e \<in> set (filter (\<lambda>e. l_user e = Some uid \<and> l_currency e = cur \<and> l_period e = per) (st_ledger st))"
  then have "whole_cents (l_amount e)" using store_invD(4) [OF assms] by simp
  then show "whole_cents (hold_delta (l_kind e) (l_amount e) + spend_delta (l_kind e) (l_amount e))"
    by (cases "l_kind e") (simp_all add: whole_cents_minus)
qed

lemma create_job_Inr:
  assumes "create_job st fresh uid cmd gpu hours cur reserved None env origin = Inr (j, st')"
  shows "j = new_job fresh uid cmd gpu hours cur reserved QUEUED (st_now st) env origin"
    "fresh \<notin> j_id ` set (st_jobs st)" "st_jobs st' = st_jobs st @ [j]"
    "st_users st' = st_users st" "st_now st' = st_now st" "st_cfg st' = st_cfg st"
    "account_committed st' uid cur (period_now st) =
       account_committed st uid cur (period_now st) + max 0 (quantize reserved cur)"
    "st_ledger st' = st_ledger st @ (if quantize reserved cur > 0 then
       [\<lparr>l_job = Some fresh, l_user = Some uid, l_currency = cur, l_kind = RESERVE, l_amount = quantize reserved cur,
          l_period = period_now st, l_at = st_now st, l_note = Some ''admission hold'', l_resource_handle = None\<rparr>] else [])"
  using assms
  by (auto simp: create_job_def Let_def insert_job_Inr period_now_def insert_ledger_def insert_transition_def
      account_committed_def max_def split: sum.splits if_splits)

lemma quantize_below: "x \<le> y \<Longrightarrow> whole_cents y \<Longrightarrow> quantize x c \<le> y"
  using quantize_mono [of x y c] by simp


lemma record_refusal_Inr:
  assumes "record_refusal st fresh uid cmd gpu hours cur reserved reason origin = Inr (j, st')"
  shows "fresh \<notin> j_id ` set (st_jobs st)" "st_jobs st' = st_jobs st @ [j]" "st_ledger st' = st_ledger st"
    "j_state j = REFUSED" "j_refusal_reason j = Some reason"
    "st_transitions st' = st_transitions st @
       [\<lparr>tr_job = fresh, tr_from = None, tr_to = REFUSED, tr_at = st_now st, tr_reason = Some reason\<rparr>]"
proof -
  from assms have j: "j = (new_job fresh uid cmd gpu hours cur reserved REFUSED (st_now st) None origin)
              \<lparr>j_finished_at := Some (st_now st), j_refusal_reason := Some reason\<rparr>"
    by (auto simp: record_refusal_def Let_def split: sum.splits)
  from assms obtain st1 where ins: "insert_job st j = Inr st1"
    and st': "st' = insert_transition st1 (j_id j) None REFUSED (st_now st) (Some reason)"
    unfolding record_refusal_def Let_def j by (auto split: sum.splits)
  have id: "j_id j = fresh" "j_state j = REFUSED" "j_refusal_reason j = Some reason" unfolding j by simp_all
  then show "j_state j = REFUSED" "j_refusal_reason j = Some reason" by simp_all
  show "fresh \<notin> j_id ` set (st_jobs st)" "st_jobs st' = st_jobs st @ [j]" "st_ledger st' = st_ledger st"
    "st_transitions st' = st_transitions st @
       [\<lparr>tr_job = fresh, tr_from = None, tr_to = REFUSED, tr_at = st_now st, tr_reason = Some reason\<rparr>]"
    using ins st' id by (simp_all add: insert_job_Inr insert_transition_def)
qed

lemma submit_refusal_Some:
  assumes "submit_refusal st u cur reserved = Inr (Some r)" and "get_user st (u_id u) = Inr u"
  shows "rf_code r = USER_SUSPENDED \<longleftrightarrow> is_suspended u"
    and "rf_code r = USER_SUSPENDED \<Longrightarrow> check_membership u = Some r"
    and "rf_code r = USER_BUDGET_EXCEEDED \<Longrightarrow>
      user_budget u cur < account_committed st (u_id u) cur (period_now st) + reserved \<and>
      rf_shortfall r =
        Some (quantize (account_committed st (u_id u) cur (period_now st) + reserved - user_budget u cur) cur)"
proof -
  have codes: "check_membership u = Some r \<Longrightarrow> rf_code r = USER_SUSPENDED"
    "check_job_cap cfg cur reserved = Some r \<Longrightarrow> rf_code r = INVALID_BUDGET \<or> rf_code r = JOB_CAP_EXCEEDED"
    "check_queue_depth cfg q = Some r \<Longrightarrow> rf_code r = QUEUE_DEPTH_EXCEEDED"
    "check_user_budget b reserved = Some r \<Longrightarrow> rf_code r = USER_BUDGET_EXCEEDED" for cfg q b
    by (auto simp: check_membership_def check_job_cap_def check_queue_depth_def check_user_budget_def Let_def split: if_splits)
  show "rf_code r = USER_SUSPENDED \<longleftrightarrow> is_suspended u" "rf_code r = USER_SUSPENDED \<Longrightarrow> check_membership u = Some r"
    using assms(1) codes check_membership_None [of u]
    by (auto simp: submit_refusal_def split: option.splits sum.splits)
  assume "rf_code r = USER_BUDGET_EXCEEDED"
  then obtain b where b: "user_balance st (u_id u) cur = Inr b" "check_user_budget b reserved = Some r"
    using assms(1) codes(1-3) by (auto simp: submit_refusal_def split: option.splits sum.splits)
  note av = user_balance_Inr [OF b(1) assms(2)]
  show "user_budget u cur < account_committed st (u_id u) cur (period_now st) + reserved \<and>
      rf_shortfall r = Some (quantize (account_committed st (u_id u) cur (period_now st) + reserved - user_budget u cur) cur)"
  proof -
    have gap: "reserved - b_available b = account_committed st (u_id u) cur (period_now st) + reserved - user_budget u cur"
      using av(1) by simp
    show ?thesis using b(2) unfolding check_user_budget_def Let_def gap av(2) by (auto simp: av(1) split: if_splits)
  qed
qed

text \<open>
  A refusal is on the record and costs nothing. It adds one refused job carrying the sentence the
  member was shown and one history row; the ledger is untouched, so no balance moves. A suspended
  member is told about the suspension and nothing else, whatever the budgets are, and a refusal over
  the budget names exactly the amount that is missing.
\<close>

theorem refusal_costs_nothing:
  assumes "store_inv (w_store w)"
    and "submit fresh uid cmd gpu hours budget env origin w = (Inr res, w')" and "sr_refusal res = Some r"
  shows "\<exists>u g reserved. get_user (w_store w) uid = Inr u \<and> config_gpu (st_cfg (w_store w)) gpu = Inr g \<and>
      store_inv (w_store w') \<and> w_ext w' = w_ext w \<and> st_ledger (w_store w') = st_ledger (w_store w) \<and>
      st_jobs (w_store w') = st_jobs (w_store w) @ [sr_job res] \<and>
      j_state (sr_job res) = REFUSED \<and> j_refusal_reason (sr_job res) = Some (rf_reason r) \<and>
      history (w_store w') fresh =
        [\<lparr>tr_job = fresh, tr_from = None, tr_to = REFUSED, tr_at = st_now (w_store w), tr_reason = Some (rf_reason r)\<rparr>] \<and>
      (rf_code r = USER_SUSPENDED \<longleftrightarrow> is_suspended u) \<and>
      (is_suspended u \<longrightarrow> check_membership u = Some r) \<and>
      (rf_code r = USER_BUDGET_EXCEEDED \<longrightarrow> rf_shortfall r = Some (quantize
         (account_committed (w_store w) uid (g_currency g) (period_now (w_store w)) + reserved -
          user_budget u (g_currency g)) (g_currency g)))"
proof -
  obtain g reserved user where g: "config_gpu (st_cfg (w_store w)) gpu = Inr g" and
    u: "get_user (w_store w) uid = Inr user" and
    rf: "submit_refusal (w_store w) user (g_currency g) reserved = Inr (Some r)" and
    rec: "record_refusal (w_store w) fresh uid cmd gpu hours (g_currency g) reserved (rf_reason r) origin =
       Inr (sr_job res, w_store w')" and ext: "w_ext w' = w_ext w"
    by (rule submit_refused [OF assms(2,3)])
  have id: "u_id user = uid" using get_user_Inr [OF u] by simp
  note why = submit_refusal_Some [OF rf, unfolded id, OF u]
  note new = record_refusal_Inr [OF rec]  have "history (w_store w') fresh =
      [\<lparr>tr_job = fresh, tr_from = None, tr_to = REFUSED, tr_at = st_now (w_store w), tr_reason = Some (rf_reason r)\<rparr>]"
    using history_unknown [OF assms(1) new(1)] new(6) by (simp add: history_def)
  then show ?thesis
    using u g record_refusal_inv [OF assms(1) rec] ext new why
    by (intro exI [of _ user] exI [of _ g] exI [of _ reserved]) auto
qed

lemma ceiling_warning_Inr: "config_gpu cfg gpu = Inr g \<Longrightarrow> \<exists>o1. ceiling_warning cfg gpu hours reserved = Inr o1"
  by (auto simp: ceiling_warning_def Let_def default_reservation_def)

lemma submit_raises:
  assumes "submit fresh uid cmd gpu hours budget env origin w = (Inl e, w')"
  shows "w' = w"
proof -
  have no_late: "ceiling_warning (st_cfg st') gpu hours reserved \<noteq> Inl e"
    if "config_gpu (st_cfg (w_store w)) gpu = Inr g"
      "create_job (w_store w) fresh uid cmd gpu hours cur reserved None env origin = Inr (j, st')"
    for g cur reserved j st'
    using ceiling_warning_Inr [OF that(1), of hours reserved] create_job_Inr(6) [OF that(2)] by auto
  show ?thesis using assms unfolding submit_def reserves_act run_simps
    by (auto simp: run_simps no_late split: option.splits)
qed

text \<open>
  A submission that raises writes nothing: a typo, an unknown member, GPU or environment, or a
  clash of identifiers leaves the database and the machines exactly as they were.
\<close>

theorem failed_submit_writes_nothing:
  assumes "submit fresh uid cmd gpu hours budget env origin w = (Inl e, w')"
  shows "w' = w"
  using assms by (rule submit_raises)

text \<open>One member, nothing queued, two GPU hours on the lab's machines.\<close>

definition demo_ada :: user where
  "demo_ada = \<lparr>u_id = ''ada'', u_display_name = ''ada'', u_budget_usd = 25, u_budget_gpu_hours = 8, u_is_admin = False,
     u_created_at = 0, u_suspended_at = None, u_suspended_reason = [], u_suspended_by = []\<rparr>"

lemma demo_member_simps [simp]:
  "st_now demo_member = 0" "st_cfg demo_member = default_config (\<lambda>_. 0)" "st_users demo_member = [demo_ada]"
  "st_jobs demo_member = []" "st_ledger demo_member = []" "st_transitions demo_member = []" "st_drains demo_member = []"
  by (simp_all add: demo_member_def upsert_user_def Let_def maybe_user_def empty_store_def demo_ada_def default_config_def)

lemma demo_member_inv: "store_inv demo_member"
  unfolding demo_member_def by (rule upsert_user_inv) (rule empty_store_inv)

lemma demo_gpu_type: "config_gpu (default_config (\<lambda>_. 0)) ''a6000'' = Inr (DEFAULT_GPU_TYPES ! 4)"
  "g_currency (DEFAULT_GPU_TYPES ! 4) = GPU_HOUR"
  by (simp_all add: config_gpu_def default_config_def DEFAULT_GPU_TYPES_def)

lemma demo_reads: "get_user demo_member ''ada'' = Inr demo_ada" "queued_count demo_member ''ada'' = 0"
    "account_committed demo_member uid c per = 0"
  by (simp_all add: get_user_def maybe_user_def demo_ada_def queued_count_def count_in_states_def account_committed_def)

lemma demo_refusal_free: "submit_refusal demo_member demo_ada GPU_HOUR 2 = Inr None"
  by (simp add: submit_refusal_def check_membership_def demo_ada_def is_suspended_def check_job_cap_def
      default_config_def max_job_def check_queue_depth_def queued_count_def count_in_states_def user_balance_def
      balance_in_def get_user_def maybe_user_def aggregate_def check_user_budget_def b_available_def b_committed_def
      user_budget_def)

lemma demo_submit:
  "\<exists>res w'. submit ''a'' ''ada'' ''python train.py'' ''a6000'' 2 (Some 2) None ''real'' \<lparr>w_store = demo_member, w_ext = ()\<rparr>
      = (Inr res, w') \<and> sr_refusal res = None"
proof -
  have v: "validate_request (default_config (\<lambda>_. 0)) ''a6000'' 2 ''python train.py'' = Inr ()"
    by (simp add: validate_request_def demo_gpu_type) (simp add: default_config_def)
  obtain j st' where c: "create_job demo_member ''a'' ''ada'' ''python train.py'' ''a6000'' 2 GPU_HOUR 2 None None ''real'' = Inr (j, st')"
    by (simp add: create_job_def demo_reads Let_def insert_job_def new_job_def maybe_user_def demo_ada_def)
  have "st_cfg st' = default_config (\<lambda>_. 0)" using create_job_Inr(6) [OF c] by simp
  then obtain o1 where o1: "ceiling_warning (st_cfg st') ''a6000'' 2 2 = Inr o1"
    using ceiling_warning_Inr demo_gpu_type(1) by metis
  show ?thesis
    by (simp add: submit_def run_simps v demo_gpu_type demo_reads demo_refusal_free money_def c o1)
qed


lemma demo_refused_submit:
  "\<exists>res w' r. submit ''a'' ''ada'' ''python train.py'' ''a6000'' 2 (Some 9) None ''real'' \<lparr>w_store = demo_member, w_ext = ()\<rparr>
      = (Inr res, w') \<and> sr_refusal res = Some r"
proof -
  have v: "validate_request (default_config (\<lambda>_. 0)) ''a6000'' 2 ''python train.py'' = Inr ()"
    by (simp add: validate_request_def demo_gpu_type) (simp add: default_config_def)
  have "\<exists>r. submit_refusal demo_member demo_ada GPU_HOUR 9 = Inr (Some r)"
    by (simp add: submit_refusal_def check_membership_def demo_ada_def is_suspended_def check_job_cap_def Let_def
      default_config_def max_job_def check_queue_depth_def queued_count_def count_in_states_def user_balance_def
      balance_in_def get_user_def maybe_user_def aggregate_def check_user_budget_def b_available_def b_committed_def
      user_budget_def)
  then obtain r where r: "submit_refusal demo_member demo_ada GPU_HOUR 9 = Inr (Some r)" ..
  obtain j st' where c: "record_refusal demo_member ''a'' ''ada'' ''python train.py'' ''a6000'' 2 GPU_HOUR 9 (rf_reason r) ''real'' = Inr (j, st')"
    by (simp add: record_refusal_def Let_def insert_job_def new_job_def maybe_user_def demo_ada_def)
  show ?thesis
    by (simp add: submit_def run_simps v demo_gpu_type demo_reads r money_def c)
qed

theorem refusal_costs_nothing_witness:
  "\<exists>res w' r. submit ''a'' ''ada'' ''python train.py'' ''a6000'' 2 (Some 9) None ''real'' \<lparr>w_store = demo_member, w_ext = ()\<rparr>
      = (Inr res, w') \<and> store_inv demo_member \<and> sr_refusal res = Some r \<and> st_ledger (w_store w') = [] \<and>
        j_refusal_reason (sr_job res) = Some (rf_reason r)"
proof -
  let ?w = "\<lparr>w_store = demo_member, w_ext = ()\<rparr>"
  obtain res w' r where s: "submit ''a'' ''ada'' ''python train.py'' ''a6000'' 2 (Some 9) None ''real'' ?w = (Inr res, w')"
    "sr_refusal res = Some r" using demo_refused_submit by blast
  have "store_inv (w_store ?w)" using demo_member_inv by simp
  from refusal_costs_nothing [OF this s] show ?thesis
    using s demo_member_inv by (intro exI [of _ res] exI [of _ w'] exI [of _ r]) auto
qed

theorem failed_submit_writes_nothing_witness:
  "submit ''a'' ''ada'' ''python train.py'' ''h100'' 2 None None ''real'' \<lparr>w_store = demo_member, w_ext = ()\<rparr> =
     (Inl (UnknownGpuType ''h100'' (map g_name DEFAULT_GPU_TYPES)), \<lparr>w_store = demo_member, w_ext = ()\<rparr>)"
proof -
  let ?w = "\<lparr>w_store = demo_member, w_ext = ()\<rparr>"
  have "validate_request (default_config (\<lambda>_. 0)) ''h100'' 2 ''python train.py'' =
      Inl (UnknownGpuType ''h100'' (map g_name DEFAULT_GPU_TYPES))"
    by (simp add: validate_request_def config_gpu_def) (simp add: default_config_def DEFAULT_GPU_TYPES_def)
  then obtain w' where s: "submit ''a'' ''ada'' ''python train.py'' ''h100'' 2 None None ''real'' ?w =
      (Inl (UnknownGpuType ''h100'' (map g_name DEFAULT_GPU_TYPES)), w')"
    by (simp add: submit_def run_simps)
  with failed_submit_writes_nothing [OF s] show ?thesis by simp
qed

subsection \<open>Officers\<close>

text \<open>The administrative calls a member can make in the member's own name.\<close>

datatype admin_call =
    AddUser string "string option" "decimal option" "decimal option" "bool option"
  | SuspendUser string string
  | RestoreUser string
  | DrainHost string string
  | UndrainHost string

fun admin_act :: "'e broker \<Rightarrow> string \<Rightarrow> admin_call \<Rightarrow> ('e, unit) act" where
  "admin_act br a (AddUser uid d b g adm) = and_then (add_user uid (Some a) False d b g adm) (\<lambda>_. ret ())"
| "admin_act br a (SuspendUser uid r) = and_then (broker_suspend_user uid r (Some a) False) (\<lambda>_. ret ())"
| "admin_act br a (RestoreUser uid) = and_then (broker_restore_user uid (Some a) False) (\<lambda>_. ret ())"
| "admin_act br a (DrainHost h r) = drain_host br h r a False"
| "admin_act br a (UndrainHost h) = undrain_host br h a False"

definition officers :: "store \<Rightarrow> string set" where
  "officers st = u_id ` {u \<in> set (st_users st). u_is_admin u}"

definition suspensions :: "store \<Rightarrow> (string \<times> moment option) set" where
  "suspensions st = (\<lambda>u. (u_id u, u_suspended_at u)) ` {u \<in> set (st_users st). u_suspended_at u \<noteq> None}"

lemma image_filter_map:
  assumes "\<And>r. r \<in> A \<Longrightarrow> P (f r) = P r" and "\<And>r. r \<in> A \<Longrightarrow> h (f r) = h r"
  shows "h ` {x \<in> f ` A. P x} = h ` {x \<in> A. P x}"
proof -
  have "{x \<in> f ` A. P x} = f ` {x \<in> A. P x}" using assms(1) by auto
  then show ?thesis using assms(2) by (auto simp: image_image)
qed

lemma require_officer_denied:
  assumes "distinct (map u_id (st_users st))" and "officers st \<noteq> {}" and "a \<noteq> []" and "a \<notin> officers st"
  shows "require_officer st (Some a) False = Inl (Unauthorized a)"
proof -
  have "has_admins st" using assms(2) by (auto simp: has_admins_def list_ex_iff officers_def)
  moreover have "\<not> u_is_admin u" if "maybe_user st a = Some u" for u
    using that assms(4) find_Some_set by (fastforce simp: maybe_user_def officers_def)
  ultimately show ?thesis using assms(3) by (auto simp: require_officer_def split: option.splits)
qed

lemma upsert_keeps_officers:
  assumes "distinct (map u_id (st_users st))"
  shows "officers (snd (upsert_user st uid d b g None)) = officers st"
    "suspensions (snd (upsert_user st uid d b g None)) = suspensions st"
    "distinct (map u_id (st_users (snd (upsert_user st uid d b g None))))"
    "st_drains (snd (upsert_user st uid d b g None)) = st_drains st"
proof -
  let ?st = "snd (upsert_user st uid d b g None)"
  have "officers ?st = officers st \<and> suspensions ?st = suspensions st \<and> distinct (map u_id (st_users ?st)) \<and>
      st_drains ?st = st_drains st"
  proof (cases "maybe_user st uid")
    case None
    then have "uid \<notin> u_id ` set (st_users st)" using maybe_user_iff by blast
    then show ?thesis using None assms by (auto simp: upsert_user_def Let_def officers_def suspensions_def)
  next
    case (Some old)
    then have old: "old \<in> set (st_users st)" "u_id old = uid" using find_Some_set by (fastforce simp: maybe_user_def)+
    have same: "r = old" if "r \<in> set (st_users st)" "u_id r = uid" for r
      using map_of_fst_distinct [OF assms that(1) old(1)] that old by simp
    let ?f = "\<lambda>r. if u_id r = uid then r\<lparr>u_display_name := if truthy d then the d else u_display_name old,
        u_budget_usd := (case b of Some b \<Rightarrow> b | None \<Rightarrow> u_budget_usd old),
        u_budget_gpu_hours := (case g of Some b \<Rightarrow> b | None \<Rightarrow> u_budget_gpu_hours old), u_is_admin := u_is_admin old\<rparr> else r"
    have users: "st_users ?st = map ?f (st_users st)" "st_drains ?st = st_drains st"
      using Some by (auto simp: upsert_user_def Let_def update_users_def)
    have f: "u_id (?f r) = u_id r" "u_suspended_at (?f r) = u_suspended_at r" for r by simp_all
    have fa: "u_is_admin (?f r) = u_is_admin r" if "r \<in> set (st_users st)" for r using same [OF that] by simp
    have "map u_id (st_users ?st) = map u_id (st_users st)" unfolding users by simp
    moreover have "officers ?st = officers st"
      unfolding officers_def users set_map by (rule image_filter_map) (use f(1) fa in auto)
    moreover have "suspensions ?st = suspensions st"
      unfolding suspensions_def users set_map by (rule image_filter_map) (simp_all add: f)
    ultimately show ?thesis using assms users(2) by simp
  qed
  then show "officers ?st = officers st" "suspensions ?st = suspensions st" "distinct (map u_id (st_users ?st))"
    "st_drains ?st = st_drains st" by simp_all
qed

lemma admin_act_denied:
  assumes "distinct (map u_id (st_users (w_store w)))" and "officers (w_store w) \<noteq> {}" and "a \<noteq> []"
    and "a \<notin> officers (w_store w)"
  shows "officers (w_store (snd (admin_act br a c w))) = officers (w_store w) \<and>
    suspensions (w_store (snd (admin_act br a c w))) = suspensions (w_store w) \<and>
    st_drains (w_store (snd (admin_act br a c w))) = st_drains (w_store w) \<and>
    distinct (map u_id (st_users (w_store (snd (admin_act br a c w))))) \<and> w_ext (snd (admin_act br a c w)) = w_ext w"
  using assms(1) require_officer_denied [OF assms] upsert_keeps_officers [OF assms(1)]
  by (cases c)
    (auto simp: add_user_def broker_suspend_user_def broker_restore_user_def drain_host_def undrain_host_def
      and_then_def reads_try_def writes_with_def ret_def)

text \<open>
  C38. There is no way up from the inside. Once the pool has an officer, a member who is not one can
  make any sequence of administrative calls in the member's own name: the set of officers, every
  suspension, the list of drained hosts and the machines stay exactly as they are.
\<close>

theorem no_escalation:
  assumes "distinct (map u_id (st_users (w_store w)))" and "officers (w_store w) \<noteq> {}"
    and "a \<noteq> []" and "a \<notin> officers (w_store w)"
  shows "let w' = foldl (\<lambda>w c. snd (admin_act br a c w)) w cs
    in officers (w_store w') = officers (w_store w) \<and> suspensions (w_store w') = suspensions (w_store w) \<and>
       st_drains (w_store w') = st_drains (w_store w) \<and> w_ext w' = w_ext w"
  using assms
proof (induction cs arbitrary: w)
  case (Cons c cs)
  note D = admin_act_denied [OF Cons.prems, of br c]
  show ?case using Cons.IH [of "snd (admin_act br a c w)"] Cons.prems D by (simp add: Let_def)
qed (simp add: Let_def)

text \<open>
  The bootstrap works exactly once: with no officer in the pool a named caller may promote
  anybody, and from then on the same call by anyone who is not an officer is refused and changes
  nothing.
\<close>

theorem bootstrap_closes:
  assumes "\<not> has_admins (w_store w)" and "add_user uid (Some a) False d b g (Some True) w = (r, w')"
    and "distinct (map u_id (st_users (w_store w)))" and "x \<noteq> []" and "x \<noteq> uid"
  shows "officers (w_store w') = {uid} \<and>
    add_user y (Some x) False d' b' g' (Some True) w' = (Inl (Unauthorized x), w')"
proof -
  have none: "\<not> u_is_admin u" if "u \<in> set (st_users (w_store w))" for u
    using assms(1) that by (auto simp: has_admins_def list_ex_iff)
  have "require_officer (w_store w) (Some a) False = Inr ()" using assms(1) by (simp add: require_officer_def)
  then have st': "w_store w' = snd (upsert_user (w_store w) uid d b g (Some True))"
    using assms(2) by (auto simp: add_user_def and_then_def reads_try_def writes_with_def)
  have dist: "distinct (map u_id (st_users (w_store w')))" and off: "officers (w_store w') = {uid}"
  proof -
    have "distinct (map u_id (st_users (w_store w'))) \<and> officers (w_store w') = {uid}"
    proof (cases "maybe_user (w_store w) uid")
      case None
      then have "uid \<notin> u_id ` set (st_users (w_store w))" using maybe_user_iff by blast
      moreover obtain u where u: "st_users (w_store w') = st_users (w_store w) @ [u]" "u_id u = uid" "u_is_admin u"
        using None by (simp add: st' upsert_user_def Let_def)
      moreover have "{x \<in> set (st_users (w_store w')). u_is_admin x} = {u}" using u none by auto
      ultimately show ?thesis using assms(3) by (simp add: officers_def)
    next
      case (Some old)
      then have old: "old \<in> set (st_users (w_store w))" "u_id old = uid"
        using find_Some_set by (fastforce simp: maybe_user_def)+
      let ?f = "\<lambda>r. if u_id r = uid then r\<lparr>u_display_name := if truthy d then the d else u_display_name old,
        u_budget_usd := (case b of Some b \<Rightarrow> b | None \<Rightarrow> u_budget_usd old),
        u_budget_gpu_hours := (case g of Some b \<Rightarrow> b | None \<Rightarrow> u_budget_gpu_hours old), u_is_admin := True\<rparr> else r"
      have users: "st_users (w_store w') = map ?f (st_users (w_store w))"
        using Some unfolding st' by (auto simp: upsert_user_def Let_def update_users_def)
      have "map u_id (st_users (w_store w')) = map u_id (st_users (w_store w))" unfolding users by simp
      moreover have "officers (w_store w') = {uid}"
      proof -
        let ?S = "set (st_users (w_store w))"
        have "u_is_admin (?f x) \<longleftrightarrow> u_id x = uid" if "x \<in> ?S" for x using none [OF that] by simp
        then have "{x \<in> ?f ` ?S. u_is_admin x} = ?f ` {x \<in> ?S. u_id x = uid}" by blast
        then have "officers (w_store w') = u_id ` {x \<in> ?S. u_id x = uid}"
          unfolding officers_def users set_map by (simp add: image_image)
        then show ?thesis using old by auto
      qed
      ultimately show ?thesis using assms(3) by simp
    qed
    then show "distinct (map u_id (st_users (w_store w')))" "officers (w_store w') = {uid}" by simp_all
  qed
  have "require_officer (w_store w') (Some x) False = Inl (Unauthorized x)"
    using require_officer_denied [OF dist _ assms(4)] off assms(5) by simp
  then show ?thesis using off by (simp add: add_user_def and_then_def reads_try_def)
qed

definition demo_broker :: "unit broker" where
  "demo_broker = \<lparr>br_scheduler = demo_scheduler, br_local = None\<rparr>"

text \<open>Ada, and Eve, who runs the pool.\<close>

definition demo_club :: store where
  "demo_club = snd (upsert_user demo_member ''eve'' None None None (Some True))"

lemma demo_club_facts:
  "map u_id (st_users demo_club) = [''ada'', ''eve'']" "officers demo_club = {''eve''}" "st_jobs demo_club = []"
proof -
  have us: "\<exists>u. st_users demo_club = [demo_ada, u] \<and> u_id u = ''eve'' \<and> u_is_admin u"
    by (simp add: demo_club_def upsert_user_def maybe_user_def demo_ada_def Let_def)
  then obtain u where u: "st_users demo_club = [demo_ada, u]" "u_id u = ''eve''" "u_is_admin u" by blast
  have "{x \<in> set [demo_ada, u]. u_is_admin x} = {u}" using u(3) by (auto simp: demo_ada_def)
  then show "officers demo_club = {''eve''}" using u by (simp add: officers_def)
  show "map u_id (st_users demo_club) = [''ada'', ''eve'']" using u by (simp add: demo_ada_def)
  show "st_jobs demo_club = []" by (simp add: demo_club_def upsert_user_def maybe_user_def demo_ada_def Let_def)
qed

theorem no_escalation_witness:
  "''ada'' \<notin> officers demo_club \<and>
   officers (w_store (foldl (\<lambda>w c. snd (admin_act demo_broker ''ada'' c w)) \<lparr>w_store = demo_club, w_ext = ()\<rparr>
     [AddUser ''ada'' None None None (Some True), AddUser ''ada'' None (Some 1000) None None,
      SuspendUser ''eve'' ''takeover'', AddUser ''mal'' None None None (Some True)])) = {''eve''}"
  using no_escalation [of "\<lparr>w_store = demo_club, w_ext = ()\<rparr>" "''ada''" demo_broker
     "[AddUser ''ada'' None None None (Some True), AddUser ''ada'' None (Some 1000) None None,
      SuspendUser ''eve'' ''takeover'', AddUser ''mal'' None None None (Some True)]"]
  by (simp add: demo_club_facts Let_def)

theorem bootstrap_closes_witness:
  "\<not> has_admins demo_member \<and>
   (let w' = snd (add_user ''eve'' (Some ''eve'') False None None None (Some True) \<lparr>w_store = demo_member, w_ext = ()\<rparr>)
    in officers (w_store w') = {''eve''} \<and>
       add_user ''ada'' (Some ''ada'') False None None None (Some True) w' = (Inl (Unauthorized ''ada''), w'))"
proof -
  let ?w = "\<lparr>w_store = demo_member, w_ext = ()\<rparr>"
  have none: "\<not> has_admins demo_member" by (simp add: has_admins_def demo_ada_def)
  obtain r w' where a: "add_user ''eve'' (Some ''eve'') False None None None (Some True) ?w = (r, w')" by fastforce
  show ?thesis
    using none bootstrap_closes [OF _ a, of "''ada''" "''ada''"] a by simp
qed

subsection \<open>Cancelling\<close>

lemma find_job_row: "find_job st p = Inr j \<Longrightarrow> j \<in> set (st_jobs st)"
  by (auto simp: find_job_def filter_eq_Cons_iff split: list.splits)

lemma terminate_if_held_store: "w_store (snd (terminate_if_held sc j r w)) = w_store w"
  by (auto simp: terminate_if_held_def calls_def ret_def split: option.split prod.split)

lemma terminate_if_held_run: "terminate_if_held sc j r w = (x, w') \<Longrightarrow> w_store w' = w_store w"
  using terminate_if_held_store [of sc j r w] by simp

text \<open>
  A cancellation stops one job, on behalf of its owner, an officer or the broker itself, and gives
  back the money. When \<open>cancel\<close> returns, the named job was alive; its row is now cancelled without a
  machine, its hold is gone and what it had already been charged is still charged; no other row has
  changed, and the store is consistent.
\<close>

theorem cancel_stops_and_refunds:
  assumes "store_inv (w_store w)" and "cancel br p actor admin w = (Inr j', w')"
  shows "\<exists>j\<in>set (st_jobs (w_store w)). find_job (w_store w) p = Inr j \<and> j_id j' = j_id j \<and>
    (actor = None \<or> actor = Some (j_user j) \<or> admin \<or> (\<exists>a. actor = Some a \<and> a \<in> officers (w_store w))) \<and>
    j_state j \<notin> set TERMINAL \<and> store_inv (w_store w') \<and>
    st_jobs (w_store w') = map (\<lambda>x. if j_id x = j_id j then apply_transition_row j' x else x) (st_jobs (w_store w)) \<and>
    j_state j' = CANCELLED \<and> j_handle j' = None \<and>
    job_holding (w_store w') (j_id j) (j_currency j) = 0 \<and>
    (\<forall>x. job_settled (w_store w') x = job_settled (w_store w) x) \<and>
    (\<forall>x c. x \<noteq> j_id j \<longrightarrow> job_holding (w_store w') x c = job_holding (w_store w) x c)"
proof -
  obtain j w1 where j: "find_job (w_store w) p = Inr j" and may: "may_cancel (w_store w) j actor admin"
    and live: "\<not> is_terminal j"
    and stop: "terminate_if_held (br_scheduler br) j (''cancelled by '' @ actor_name actor j) w = (Inr (), w1)"
    and mv: "move j CANCELLED (''cancelled by '' @ actor_name actor j) None True w1 = (Inr j', w')"
    using assms(2) by (auto simp: cancel_def run_simps split: if_splits)
  have same: "w_store w1 = w_store w" by (rule terminate_if_held_run [OF stop])
  have tr: "transition (w_store w) j CANCELLED (Some (''cancelled by '' @ actor_name actor j)) [] None None None True =
      Inr (j', w_store w')"
    using mv same by (auto simp: move_def run_simps)
  note row = find_job_row [OF j]
  note known = known_job_row [OF row]
  obtain r where jobs: "st_jobs (w_store w') = map (\<lambda>x. if j_id x = j_id j then apply_transition_row j' x else x) (st_jobs (w_store w))"
    by (rule transition_row_set [OF tr assms(1)])
  note hold = transition_holding [OF tr assms(1) known]
  have who: "actor = None \<or> actor = Some (j_user j) \<or> admin \<or> (\<exists>a. actor = Some a \<and> a \<in> officers (w_store w))"
  proof (cases actor)
    case (Some a)
    have "a \<in> officers (w_store w)" if "maybe_user (w_store w) a = Some u" "u_is_admin u" for u
      using that find_Some_set by (fastforce simp: maybe_user_def officers_def)
    then show ?thesis using may Some by (auto simp: may_cancel_def split: option.splits)
  qed simp
  have j': "j' = transitioned j CANCELLED (st_now (w_store w)) None None None True" by (rule transition_Inr(2) [OF tr])
  have new: "j_handle j' = None" "j_state j' = CANCELLED" "j_id j' = j_id j" unfolding j' by (simp_all add: transitioned_def)
  have "CANCELLED \<in> set TERMINAL" by (simp add: TERMINAL_def)
  with hold(1) have "job_holding (w_store w') (j_id j) (j_currency j) = 0" by simp
  then show ?thesis
    using j who live jobs transition_inv [OF tr assms(1) known] hold(2,3) new
    by (intro bexI [OF _ row] conjI) (simp_all add: is_terminal_def)
qed

text \<open>
  Nobody else's call gets anywhere: a caller who is neither the owner nor an officer, without the
  override, is refused before anything is touched, and so is a cancellation of a finished job.
\<close>

theorem cancel_refused:
  assumes "find_job (w_store w) p = Inr j" and "a \<noteq> j_user j" and "a \<notin> officers (w_store w)"
  shows "cancel br p (Some a) False w = (Inl (Unauthorized a), w)"
proof -
  have "\<not> may_cancel (w_store w) j (Some a) False"
    using assms(2,3) find_Some_set by (fastforce simp: may_cancel_def maybe_user_def officers_def split: option.splits)
  then show ?thesis using assms(1) by (simp add: cancel_def and_then_def reads_try_def)
qed

lemma demo_find: "find_job demo_store ''a'' = Inr (new_job ''a'' ''ada'' ''python train.py'' ''a6000'' 2 GPU_HOUR (225/100) QUEUED 0 None ''real'')"
proof -
  have "whole_cents (225/100)" by (simp add: whole_cents_def)
  then have "st_jobs demo_store = [new_job ''a'' ''ada'' ''python train.py'' ''a6000'' 2 GPU_HOUR (225/100) QUEUED 0 None ''real'']"
    by (simp add: demo_store_def create_job_def demo_reads Let_def insert_job_def maybe_user_def demo_ada_def)
  then show ?thesis by (simp add: find_job_def)
qed

theorem cancel_stops_and_refunds_witness:
  "\<exists>j' w'. cancel demo_broker ''a'' (Some ''ada'') False \<lparr>w_store = demo_store, w_ext = ()\<rparr> = (Inr j', w') \<and>
     store_inv demo_store \<and> j_state j' = CANCELLED \<and> job_holding (w_store w') ''a'' GPU_HOUR = 0"
proof -
  let ?w = "\<lparr>w_store = demo_store, w_ext = ()\<rparr>" and
    ?j = "new_job ''a'' ''ada'' ''python train.py'' ''a6000'' 2 GPU_HOUR (225/100) QUEUED 0 None ''real''"
  have row: "?j \<in> set (st_jobs demo_store)" by (rule find_job_row [OF demo_find])
  have one: "length (filter (\<lambda>r. j_id r = ''a'' \<and> j_state r = QUEUED) (st_jobs demo_store)) = 1"
    by (rule filter_length_one_distinct [OF store_invD(2) [OF demo_store_inv] row]) simp_all
  have "\<exists>j' w'. cancel demo_broker ''a'' (Some ''ada'') False ?w = (Inr j', w')"
    using one by (simp add: cancel_def run_simps demo_find may_cancel_def is_terminal_def TERMINAL_def terminate_if_held_def
        move_def transition_def can_transition_def Let_def new_job_def handle_taken_def transitioned_def)
  then obtain j' w' where c: "cancel demo_broker ''a'' (Some ''ada'') False ?w = (Inr j', w')" by blast
  have "store_inv (w_store ?w)" using demo_store_inv by simp
  from cancel_stops_and_refunds [OF this c] show ?thesis
    using c demo_store_inv demo_find by (intro exI [of _ j'] exI [of _ w']) auto
qed

theorem cancel_refused_witness:
  "cancel demo_broker ''a'' (Some ''bob'') False \<lparr>w_store = demo_store, w_ext = ()\<rparr> =
     (Inl (Unauthorized ''bob''), \<lparr>w_store = demo_store, w_ext = ()\<rparr>)"
proof -
  have "st_users demo_store = [demo_ada]"
    using whole_cents_def by (simp add: demo_store_def create_job_def demo_reads Let_def insert_job_def maybe_user_def demo_ada_def)
  then have "''bob'' \<notin> officers demo_store" by (auto simp: officers_def demo_ada_def)
  then show ?thesis
    using cancel_refused [of "\<lparr>w_store = demo_store, w_ext = ()\<rparr>" "''a''" _ "''bob''" demo_broker] demo_find
    by simp
qed

end
