(* ===== verification/Reclaim.thy ===== *)
theory Reclaim
  imports Facade
begin

text \<open>
  Reclaiming idle jobs, as the facade does it: only jobs whose verdict allows it are stopped, only when
  the pool has switched reclaiming on or an officer forces it, and every other job's row is left alone.
\<close>

lemma evaluate_job: "evaluate st j cfg = Inr v \<Longrightarrow> v_job v = j"
  by (auto simp: evaluate_def Let_def split: sum.splits if_splits)

lemma evaluate_all_jobs: "evaluate_all st cfg js = Inr vs \<Longrightarrow> map v_job vs = js"
  by (induction js arbitrary: vs) (auto simp: evaluate_job split: sum.splits)

lemma evaluate_all_set: "evaluate_all st cfg js = Inr vs \<Longrightarrow> v \<in> set vs \<Longrightarrow> evaluate st (v_job v) cfg = Inr v"
proof (induction js arbitrary: vs)
  case (Cons j js)
  from Cons.prems(1) obtain u us where "evaluate st j cfg = Inr u" "evaluate_all st cfg js = Inr us" "vs = u # us"
    by (auto split: sum.splits)
  then show ?case using Cons.IH [of us] Cons.prems(2) evaluate_job [of st j cfg u] by auto
qed simp

lemma candidates_evaluated: "candidates st cfg = Inr vs \<Longrightarrow> v \<in> set vs \<Longrightarrow> evaluate st (v_job v) cfg = Inr v"
  by (auto simp: candidates_def split: sum.splits dest: evaluate_all_set)

lemma candidates_active: "candidates st cfg = Inr vs \<Longrightarrow> v \<in> set vs \<Longrightarrow> j_state (v_job v) \<in> set ACTIVE"
proof -
  assume c: "candidates st cfg = Inr vs" and v: "v \<in> set vs"
  then obtain us where us: "evaluate_all st cfg (active_jobs st) = Inr us" "v \<in> set us"
    by (auto simp: candidates_def active_jobs_def split: sum.splits)
  have "v_job v \<in> set (map v_job us)" using us(2) by simp
  then show ?thesis unfolding evaluate_all_jobs [OF us(1)] by (simp add: active_jobs_set)
qed

lemma candidates_rows:
  assumes "candidates st cfg = Inr vs" and "store_inv st"
  shows "distinct (map (j_id \<circ> v_job) vs)" "v \<in> set vs \<Longrightarrow> v_job v \<in> set (st_jobs st)" "v \<in> set vs \<Longrightarrow> v_idle v"
proof -
  from assms(1) obtain us where us: "evaluate_all st cfg (list_jobs st None (Some ACTIVE) None) = Inr us"
    and vs: "vs = sort_key (\<lambda>v. - v_wasted v) (filter v_idle us)"
    by (auto simp: candidates_def split: sum.splits)
  have jobs: "map v_job us = active_jobs st" using evaluate_all_jobs [OF us] by (simp add: active_jobs_def)
  have "map (j_id \<circ> v_job) us = map j_id (active_jobs st)" using jobs by (metis list.map_comp)
  then have "distinct (map (j_id \<circ> v_job) us)" using active_jobs_distinct [OF assms(2)] by simp
  then have "distinct (map (j_id \<circ> v_job) (filter v_idle us))" by (rule distinct_map_filter)
  then show "distinct (map (j_id \<circ> v_job) vs)" unfolding vs by (simp add: distinct_map)
  have "v_job ` set us = set (active_jobs st)" using jobs by (metis list.set_map)
  then show "v \<in> set vs \<Longrightarrow> v_job v \<in> set (st_jobs st)" unfolding vs using active_jobs_set [of _ st] by auto
  show "v \<in> set vs \<Longrightarrow> v_idle v" unfolding vs by simp
qed

text \<open>Reclaiming one job: the others keep their rows, this one is reclaimed and its hold is gone.\<close>

definition reclaimed_row :: "string \<Rightarrow> store \<Rightarrow> bool" where
  "reclaimed_row jid st \<longleftrightarrow> (\<exists>r\<in>set (st_jobs st). j_id r = jid \<and> j_state r = RECLAIMED \<and>
     job_holding st jid (j_currency r) = 0)"

lemma reclaimed_rowI:
  assumes "store_inv st" and "r \<in> set (st_jobs st)" and "j_state r = RECLAIMED"
  shows "reclaimed_row (j_id r) st"
proof -
  have "j_state r \<in> set TERMINAL" using assms(3) by (simp add: TERMINAL_def)
  then have "job_holding st (j_id r) (j_currency r) = 0"
    using store_invD(8) [OF assms(1,2)] by (simp add: money_ok_def)
  then show ?thesis using assms unfolding reclaimed_row_def by blast
qed

lemma move_reclaimed:
  "job_triple n c rows j (move j RECLAIMED r ec clr)
     (\<lambda>_ w. left n c rows (w_store w) \<and> (\<exists>x\<in>set (st_jobs (w_store w)). j_id x = j_id j \<and> j_state x = RECLAIMED))"
  unfolding move_def
proof (rule triple_writes_try)
  fix w :: "'a world" and j' st'
  assume on: "on_job n c rows j (w_store w)" and tr: "transition (w_store w) j RECLAIMED (Some r) [] None None ec clr = Inr (j', st')"
  note D = on_jobD [OF on]
  obtain x where x: "x \<in> set (st_jobs (w_store w))" "j_id x = j_id j"
    and jobs: "st_jobs st' = map (\<lambda>x. if j_id x = j_id j then apply_transition_row j' x else x) (st_jobs (w_store w))"
    using transition_row_set [OF tr D(1)] .
  have "apply_transition_row j' x \<in> set (st_jobs st')" unfolding jobs using x by force
  moreover have "j_state (apply_transition_row j' x) = RECLAIMED" using transition_frame(5) [OF tr] by simp
  ultimately have "\<exists>x\<in>set (st_jobs st'). j_id x = j_id j \<and> j_state x = RECLAIMED" using x(2)
    by (metis apply_transition_row_identity(2))
  then show "left n c rows (w_store (w\<lparr>w_store := st'\<rparr>)) \<and>
      (\<exists>x\<in>set (st_jobs (w_store (w\<lparr>w_store := st'\<rparr>))). j_id x = j_id j \<and> j_state x = RECLAIMED)"
    using on_job_left [OF transition_on_job [OF on tr]] by simp
qed (rule on_job_left)

lemma terminate_if_held_job [job_steps]:
  "job_triple n c rows j (terminate_if_held sc k r) (\<lambda>_ w. on_job n c rows j (w_store w))"
  by (rule tripleI) (auto simp: terminate_if_held_def calls_def ret_def intro: on_job_left split: option.split sum.split prod.split)

lemma reclaim_one_job:
  "job_triple n c rows (v_job v) (reclaim_one br v)
     (\<lambda>_ w. left n c rows (w_store w) \<and> (\<exists>x\<in>set (st_jobs (w_store w)). j_id x = j_id (v_job v) \<and> j_state x = RECLAIMED))"
  unfolding reclaim_one_def Let_def
proof (rule triple_then)
  show "job_triple n c rows (v_job v)
     (writes (\<lambda>st. snd (store_notify st (j_user (v_job v)) ''reclaimed'' (msg_reclaimed v (st_now st)) (Some (j_id (v_job v))))))
     (\<lambda>_ w. on_job n c rows (v_job v) (w_store w))"
    by (rule triple_writes) (simp add: quiet_ops_on_job)
  show "job_triple n c rows (v_job v)
     (and_then (log_line (v_job v) (''reclaimed as idle:'' @ [CHR 0x0A] @ evidence v)) (\<lambda>_.
      and_then (terminate_if_held (br_scheduler br) (v_job v) ''reclaimed as idle'') (\<lambda>_.
      and_then (move (v_job v) RECLAIMED (''idle: '' @ v_reason v) None True) (\<lambda>_. ret ()))))
     (\<lambda>_ w. left n c rows (w_store w) \<and> (\<exists>x\<in>set (st_jobs (w_store w)). j_id x = j_id (v_job v) \<and> j_state x = RECLAIMED))"
    by (rule triple_then [OF log_line_job triple_then [OF terminate_if_held_job triple_then [OF move_reclaimed triple_ret]]])
qed

subsection \<open>The loop\<close>

text \<open>What the loop has done after the verdicts \<open>pre\<close>: the rows of jobs it has not reclaimed are those
  of the table it started from, and every job it has reclaimed was allowed to be.\<close>

definition reclaim_inv ::
  "store \<Rightarrow> bool \<Rightarrow> moment \<Rightarrow> idle_verdict list \<Rightarrow> idle_verdict list \<times> string list \<times> (string \<times> string) list \<Rightarrow> store \<Rightarrow> bool"
where
  "reclaim_inv st0 enabled now pre acc st \<longleftrightarrow>
     sane (st_now st0) (st_cfg st0) st \<and>
     (\<forall>r\<in>set (st_jobs st0). j_id r \<notin> set (fst (snd acc)) \<longrightarrow> r \<in> set (st_jobs st)) \<and>
     (\<forall>jid\<in>set (fst (snd acc)). enabled \<and> reclaimed_row jid st \<and>
        (\<exists>v\<in>set pre. j_id (v_job v) = jid \<and> fst (reclaimable v now))) \<and>
     set (fst (snd acc)) \<subseteq> j_id ` v_job ` set pre"

lemma reclaim_invD:
  assumes "reclaim_inv st0 enabled now pre acc st"
  shows "sane (st_now st0) (st_cfg st0) st"
    "r \<in> set (st_jobs st0) \<Longrightarrow> j_id r \<notin> set (fst (snd acc)) \<Longrightarrow> r \<in> set (st_jobs st)"
    "jid \<in> set (fst (snd acc)) \<Longrightarrow> enabled" "jid \<in> set (fst (snd acc)) \<Longrightarrow> reclaimed_row jid st"
    "jid \<in> set (fst (snd acc)) \<Longrightarrow> \<exists>v\<in>set pre. j_id (v_job v) = jid \<and> fst (reclaimable v now)"
  using assms unfolding reclaim_inv_def by blast+

lemma reclaimed_row_left:
  assumes "store_inv st" and "reclaimed_row jid st" and "jid \<noteq> j_id j"
    and "left n c {r \<in> set (st_jobs st). j_id r \<noteq> j_id j} st'"
  shows "reclaimed_row jid st'"
proof -
  from assms(2,3) obtain r where r: "r \<in> {r \<in> set (st_jobs st). j_id r \<noteq> j_id j}" "j_id r = jid" "j_state r = RECLAIMED"
    by (auto simp: reclaimed_row_def)
  then have "r \<in> set (st_jobs st')" using assms(4) by (simp add: left_def)
  then show ?thesis using reclaimed_rowI [of st' r] assms(4) r by (simp add: left_def sane_def)
qed

lemma reclaim_step_triple:
  assumes vs: "vs = pre @ v # rest" and dist: "distinct (map (j_id \<circ> v_job) vs)"
    and rows: "\<And>v. v \<in> set vs \<Longrightarrow> v_job v \<in> set (st_jobs st0)"
  shows "triple (\<lambda>w. reclaim_inv st0 enabled now pre acc (w_store w)) (reclaim_step br enabled now v acc)
    (\<lambda>acc' w. reclaim_inv st0 enabled now (pre @ [v]) acc' (w_store w))
    (\<lambda>w. left (st_now st0) (st_cfg st0) {r \<in> set (st_jobs st0). j_id r \<notin> j_id ` v_job ` set vs} (w_store w))"
proof -
  let ?K = "{r \<in> set (st_jobs st0). j_id r \<notin> j_id ` v_job ` set vs}"
  obtain ready reclaimed held where acc: "acc = (ready, reclaimed, held)" by (cases acc)
  obtain allowed why where al: "reclaimable v now = (allowed, why)" by fastforce
  let ?j = "v_job v" and ?n = "st_now st0" and ?c = "st_cfg st0"
  have skip: "reclaim_inv st0 enabled now (pre @ [v]) (ready', reclaimed, held') st"
    if "reclaim_inv st0 enabled now pre acc st" for st ready' held'
    using that unfolding reclaim_inv_def acc by auto
  have go: "triple (\<lambda>w. reclaim_inv st0 enabled now pre acc (w_store w)) (reclaim_one br v)
      (\<lambda>_ w. reclaim_inv st0 enabled now (pre @ [v]) (ready @ [v], reclaimed @ [j_id ?j], held) (w_store w))
      (\<lambda>w. left ?n ?c ?K (w_store w))" if "allowed" "enabled"
  proof (rule tripleI)
    fix w :: "'a world" assume inv: "reclaim_inv st0 enabled now pre acc (w_store w)"
    note D = reclaim_invD [OF inv, unfolded acc fst_conv snd_conv]
    have fresh: "j_id ?j \<notin> set reclaimed"
    proof
      assume "j_id ?j \<in> set reclaimed"
      then obtain u where "u \<in> set pre" "j_id (v_job u) = j_id ?j" using D(5) by blast
      then have "(j_id \<circ> v_job) v \<in> (j_id \<circ> v_job) ` set pre" by (intro image_eqI [of _ _ u]) simp_all
      then show False using dist unfolding vs by simp
    qed
    have sn: "sane ?n ?c (w_store w)" by (rule D(1))
    then have si: "store_inv (w_store w)" by (simp add: sane_def)
    have row: "?j \<in> set (st_jobs (w_store w))" using D(2) [OF rows fresh] vs by simp
    let ?rows = "{r \<in> set (st_jobs (w_store w)). j_id r \<noteq> j_id ?j}"
    have on: "on_job ?n ?c ?rows ?j (w_store w)"
      using sn known_job_row [OF row] by (simp add: on_job_def sane_def)
    obtain r w' where run: "reclaim_one br v w = (r, w')" by fastforce
    note t = tripleD [OF reclaim_one_job [of ?n ?c ?rows v br] on]
    show "case reclaim_one br v w of (Inl _, w') \<Rightarrow> left ?n ?c ?K (w_store w')
      | (Inr _, w') \<Rightarrow> reclaim_inv st0 enabled now (pre @ [v]) (ready @ [v], reclaimed @ [j_id ?j], held) (w_store w')"
    proof (cases r)
      case (Inl e)
      have "r \<in> ?rows" if r: "r \<in> ?K" for r
      proof -
        have "set reclaimed \<subseteq> j_id ` v_job ` set vs" using inv unfolding reclaim_inv_def acc vs by auto
        then have "j_id r \<notin> set reclaimed" using r by blast
        then show ?thesis using D(2) [of r] r vs by simp
      qed
      then show ?thesis using t(2) [of e w'] run Inl by (auto simp: left_def)
    next
      case (Inr u)
      have L: "left ?n ?c ?rows (w_store w')" and X: "\<exists>x\<in>set (st_jobs (w_store w')). j_id x = j_id ?j \<and> j_state x = RECLAIMED"
        using t(1) run Inr by auto
      have sn': "sane ?n ?c (w_store w')" using L by (simp add: left_def)
      then have mine: "reclaimed_row (j_id ?j) (w_store w')" using X reclaimed_rowI by (fastforce simp: sane_def)
      have keep: "r \<in> set (st_jobs (w_store w'))" if "r \<in> set (st_jobs st0)" "j_id r \<notin> set (reclaimed @ [j_id ?j])" for r
        using that D(2) [of r] L by (simp add: left_def)
      have old: "enabled \<and> reclaimed_row jid (w_store w') \<and> (\<exists>u\<in>set (pre @ [v]). j_id (v_job u) = jid \<and> fst (reclaimable u now))"
        if "jid \<in> set (reclaimed @ [j_id ?j])" for jid
      proof (cases "jid = j_id ?j")
        case True
        then show ?thesis using mine \<open>enabled\<close> \<open>allowed\<close> al by simp
      next
        case False
        then have j: "jid \<in> set reclaimed" using that by simp
        show ?thesis using \<open>enabled\<close> reclaimed_row_left [OF si D(4) [OF j] False L] D(5) [OF j] by auto
      qed
      have ids: "set (reclaimed @ [j_id ?j]) \<subseteq> j_id ` v_job ` set (pre @ [v])" using old by blast
      show ?thesis unfolding run Inr prod.case sum.case reclaim_inv_def fst_conv snd_conv
        using sn' keep old ids by blast
    qed
  qed
  have pass: "triple (\<lambda>w. reclaim_inv st0 enabled now pre acc (w_store w)) (ret (ready', reclaimed, held'))
      (\<lambda>acc' w. reclaim_inv st0 enabled now (pre @ [v]) acc' (w_store w)) (\<lambda>w. left ?n ?c ?K (w_store w))" for ready' held'
    by (rule triple_ret) (rule skip)
  consider "\<not> allowed" | "allowed" "\<not> enabled" | "allowed" "enabled" by blast
  then show ?thesis
  proof cases
    case 3
    then show ?thesis unfolding reclaim_step_def acc al prod.case
      using triple_then [OF go [OF 3] triple_ret [where Q = "\<lambda>acc' w. reclaim_inv st0 enabled now (pre @ [v]) acc' (w_store w)"]]
      by (simp add: acc)
  qed (use pass in \<open>simp_all add: reclaim_step_def acc al\<close>)
qed

text \<open>The whole loop, whether it returns or raises.\<close>

lemma reclaim_loop_triple:
  assumes "candidates st (st_cfg st) = Inr vs" and "store_inv st"
  shows "triple (\<lambda>w. w_store w = st) (for_each (reclaim_step br enabled now) vs ([], [], []))
    (\<lambda>acc w. reclaim_inv st enabled now vs acc (w_store w))
    (\<lambda>w. left (st_now st) (st_cfg st) {r \<in> set (st_jobs st). j_id r \<notin> j_id ` v_job ` set vs} (w_store w))"
proof -
  note C = candidates_rows [OF assms]
  have "triple (\<lambda>w. reclaim_inv st enabled now [] ([], [], []) (w_store w)) (for_each (reclaim_step br enabled now) vs ([], [], []))
      (\<lambda>acc w. reclaim_inv st enabled now vs acc (w_store w))
      (\<lambda>w. left (st_now st) (st_cfg st) {r \<in> set (st_jobs st). j_id r \<notin> j_id ` v_job ` set vs} (w_store w))"
    by (rule triple_for_each [where I = "\<lambda>pre acc w. reclaim_inv st enabled now pre acc (w_store w)"])
      (rule reclaim_step_triple [OF _ C(1) C(2)])
  then show ?thesis by (rule triple_weaken) (use assms(2) in \<open>auto simp: reclaim_inv_def sane_def\<close>)
qed

lemma reclaim_loop_result:
  assumes "store_inv (w_store w)" and "candidates (w_store w) (st_cfg (w_store w)) = Inr vs"
    and "for_each (reclaim_step br enabled now) vs ([], [], []) w = (s, w')"
  shows "left (st_now (w_store w)) (st_cfg (w_store w))
     {r \<in> set (st_jobs (w_store w)). j_id r \<notin> j_id ` v_job ` set vs} (w_store w')"
proof (cases s)
  case (Inl e)
  then show ?thesis using tripleD(2) [OF reclaim_loop_triple [OF assms(2,1)] refl] assms(3) by blast
next
  case (Inr acc)
  then have inv: "reclaim_inv (w_store w) enabled now vs acc (w_store w')"
    using tripleD(1) [OF reclaim_loop_triple [OF assms(2,1)] refl] assms(3) by blast
  then have "set (fst (snd acc)) \<subseteq> j_id ` v_job ` set vs" by (simp add: reclaim_inv_def)
  then show ?thesis using reclaim_invD(1,2) [OF inv] by (auto simp: left_def)
qed

lemma reclaim_run:
  assumes "reclaim br force w = (Inr rep, w')"
  obtains vs ready reclaimed held where
    "candidates (w_store w) (st_cfg (w_store w)) = Inr vs"
    "for_each (reclaim_step br (c_reclaim_enabled (st_cfg (w_store w)) \<or> force) (st_now (w_store w))) vs ([], [], []) w =
       (Inr (ready, reclaimed, held), w')"
    "rc_reclaimed rep = reclaimed" "rc_enabled rep = (c_reclaim_enabled (st_cfg (w_store w)) \<or> force)"
  using assms by (auto simp: reclaim_def run_simps split: prod.splits)


text \<open>Ada's running job has done nothing for an hour and Ada was told in time.\<close>

definition demo_idle_job :: job where
  "demo_idle_job = (demo_job ''a'' ''ada'' 0)\<lparr>j_state := RUNNING\<rparr>"

definition demo_idle_pool :: store where
  "demo_idle_pool = (demo_idle_store True)\<lparr>st_users := [demo_ada], st_jobs := [demo_idle_job],
     st_transitions := [\<lparr>tr_job = ''a'', tr_from = None, tr_to = QUEUED, tr_at = 0, tr_reason = None\<rparr>,
       \<lparr>tr_job = ''a'', tr_from = Some QUEUED, tr_to = ALLOCATING, tr_at = 0, tr_reason = None\<rparr>,
       \<lparr>tr_job = ''a'', tr_from = Some ALLOCATING, tr_to = RUNNING, tr_at = 0, tr_reason = None\<rparr>],
     st_ledger := [\<lparr>l_job = Some ''a'', l_user = Some ''ada'', l_currency = GPU_HOUR, l_kind = RESERVE, l_amount = 225/100,
       l_period = ''1970-01'', l_at = 0, l_note = None, l_resource_handle = None\<rparr>]\<rparr>"

lemma demo_idle_pool_inv: "store_inv demo_idle_pool"
proof -
  have "whole_cents (225/100)" by (simp add: whole_cents_def)
  then show ?thesis
    by (simp add: store_inv_def demo_idle_pool_def demo_ada_def demo_idle_job_def money_ok_def history_ok_def history_def
        job_holding_def job_settled_def aggregate_def can_transition_def TERMINAL_def demo_job_def)
qed

lemma demo_idle_reclaim:
  "\<exists>rep w'. reclaim demo_broker True \<lparr>w_store = demo_idle_pool, w_ext = ()\<rparr> = (Inr rep, w') \<and> rc_reclaimed rep = [''a'']"
proof -
  have facts: "st_now demo_idle_pool = 3600000000" "st_cfg demo_idle_pool = default_config (\<lambda>_. 0)" "st_jobs demo_idle_pool = [demo_idle_job]"
    "j_id demo_idle_job = ''a''" "j_gpu_type demo_idle_job = ''a6000''" "j_state demo_idle_job = RUNNING"
    "j_backend demo_idle_job = None" "j_handle demo_idle_job = None"
    by (simp_all add: demo_idle_pool_def demo_idle_store_def empty_store_def demo_idle_job_def demo_job_def new_job_def)
  obtain v where v: "evaluate demo_idle_pool demo_idle_job (default_config (\<lambda>_. 0)) = Inr v" "v_idle v" "fst (reclaimable v 3600000000)"
    using demo_idle_verdict [of demo_idle_pool True demo_idle_job] facts by (auto simp: demo_idle_pool_def)
  have vj: "v_job v = demo_idle_job" by (rule evaluate_job [OF v(1)])
  have act: "list_jobs demo_idle_pool None (Some ACTIVE) None = [demo_idle_job]"
    by (simp add: list_jobs_def facts ACTIVE_def)
  have cand: "candidates demo_idle_pool (default_config (\<lambda>_. 0)) = Inr [v]"
    using v by (simp add: candidates_def act)
  let ?w = "\<lparr>w_store = demo_idle_pool, w_ext = ()\<rparr>"
  have one: "\<exists>w'. reclaim_one demo_broker v ?w = (Inr (), w') \<and> st_jobs (w_store w') = [apply_transition_row (transitioned demo_idle_job RECLAIMED 3600000000 None None None True) demo_idle_job]"
    by (simp add: reclaim_one_def Let_def and_then_def writes_def log_line_def terminate_if_held_def vj facts ret_def
        move_def writes_try_def transition_def can_transition_def handle_taken_def transitioned_def)
  then obtain w' where w': "reclaim_one demo_broker v ?w = (Inr (), w')" "st_jobs (w_store w') = [apply_transition_row (transitioned demo_idle_job RECLAIMED 3600000000 None None None True) demo_idle_job]"
    by blast
  have "list_jobs (w_store w') None (Some ACTIVE) None = []" using w'(2) by (simp add: list_jobs_def ACTIVE_def)
  then have again: "candidates (w_store w') c = Inr []" for c by (simp add: candidates_def)
  obtain why where "reclaimable v 3600000000 = (True, why)" using v(3) by (cases "reclaimable v 3600000000") auto
  then show ?thesis
    by (simp add: reclaim_def run_simps facts cand reclaim_step_def w'(1) again vj)
qed


end
