(* ===== verification/System.thy ===== *)
theory System
  imports Reclaim
begin

text \<open>
  The whole broker as a transition system: its operations in any order, with any arguments, any
  backends and any number of members, interleaved with time passing, machines coming and going and
  the configuration being replaced. The books balance in every reachable world, and what has finished
  stays as it finished.
\<close>

subsection \<open>What every operation keeps\<close>

definition kept :: "job set \<Rightarrow> store \<Rightarrow> bool" where
  "kept K st \<longleftrightarrow> store_inv st \<and> K \<subseteq> set (st_jobs st)"

abbreviation keeps :: "job set \<Rightarrow> ('e, 'a) act \<Rightarrow> bool" where
  "keeps K m \<equiv> triple (\<lambda>w. kept K (w_store w)) m (\<lambda>_ w. kept K (w_store w)) (\<lambda>w. kept K (w_store w))"

definition finished :: "job set \<Rightarrow> bool" where
  "finished K \<longleftrightarrow> (\<forall>r\<in>K. j_state r \<in> set TERMINAL)"

named_theorems keeps_rules \<open>operations of the broker that keep the books and the finished rows\<close>

lemma keepsD: "keeps K m \<Longrightarrow> kept K (w_store w) \<Longrightarrow> kept K (w_store (snd (m w)))"
  by (cases "m w"; cases "fst (m w)") (auto dest: tripleD)

lemma keepsI:
  assumes "\<And>w. kept K (w_store w) \<Longrightarrow> kept K (w_store (snd (m w)))"
  shows "keeps K m"
  by (rule tripleI) (use assms in \<open>auto split: prod.split sum.split; fastforce\<close>)

lemma keeps_then [keeps_rules]: "keeps K m \<Longrightarrow> (\<And>a. keeps K (k a)) \<Longrightarrow> keeps K (and_then m k)"
  by (rule triple_then)

lemma keeps_ret [keeps_rules]: "keeps K (ret a)"
  by (rule triple_ret)

lemma keeps_raise [keeps_rules]: "keeps K (raise e)"
  by (rule triple_raise)

lemma keeps_reads [keeps_rules]: "keeps K (reads f)" "keeps K (reads_try g)"
  by (rule triple_reads triple_reads_try; assumption)+

lemma keeps_calls [keeps_rules]: "keeps K (calls op)"
  by (rule triple_calls)

lemma keeps_writes:
  "(\<And>st. kept K st \<Longrightarrow> kept K (f st)) \<Longrightarrow> keeps K (writes f)"
  "(\<And>st. kept K st \<Longrightarrow> kept K (snd (g st))) \<Longrightarrow> keeps K (writes_with g)"
  "(\<And>st a st'. kept K st \<Longrightarrow> h st = Inr (a, st') \<Longrightarrow> kept K st') \<Longrightarrow> keeps K (writes_try h)"
  by (rule triple_writes triple_writes_with triple_writes_try; simp)+

lemma left_kept: "left n c K st \<longleftrightarrow> kept K st \<and> st_now st = n \<and> st_cfg st = c"
  by (auto simp: left_def sane_def kept_def)

lemma kept_cong: "st_users st' = st_users st \<Longrightarrow> st_jobs st' = st_jobs st \<Longrightarrow> st_transitions st' = st_transitions st \<Longrightarrow>
    st_ledger st' = st_ledger st \<Longrightarrow> kept K st' = kept K st"
  unfolding kept_def using store_inv_cong [of st' st] by simp

text \<open>Code that keeps the clock and the configuration keeps the books at whatever they are.\<close>

lemma keeps_of_left:
  assumes "\<And>n c. triple (\<lambda>w. left n c K (w_store w)) m (\<lambda>_ w. left n c K (w_store w)) (\<lambda>w. left n c K (w_store w))"
  shows "keeps K m"
proof (rule tripleI)
  fix w :: "'a world" assume "kept K (w_store w)"
  then have "left (st_now (w_store w)) (st_cfg (w_store w)) K (w_store w)" by (simp add: left_kept)
  from assms [unfolded triple_def, rule_format, OF this]
  show "case m w of (Inl _, w') \<Rightarrow> kept K (w_store w') | (Inr a, w') \<Rightarrow> kept K (w_store w')"
    by (auto simp: left_kept split: prod.splits sum.splits)
qed

text \<open>A finished row is not the row of a job that is still alive.\<close>

lemma finished_apart:
  assumes "finished K" and "kept K st" and "r \<in> K" and "j \<in> set (st_jobs st)" and "j_state j \<notin> set TERMINAL"
  shows "j_id r \<noteq> j_id j"
proof
  assume same: "j_id r = j_id j"
  have "store_inv st" "r \<in> set (st_jobs st)" using assms(2,3) by (auto simp: kept_def)
  then have "r = j" using map_of_fst_distinct [OF store_invD(2) _ assms(4) same] by blast
  then show False using assms by (auto simp: finished_def)
qed

subsection \<open>The operations\<close>

lemma submit_keeps [keeps_rules]: "keeps K (submit fresh uid cmd gpu hours budget env origin)"
proof (rule keepsI)
  fix w :: "'a world" assume k: "kept K (w_store w)"
  obtain r w' where run: "submit fresh uid cmd gpu hours budget env origin w = (r, w')" by fastforce
  have inv: "store_inv (w_store w)" using k by (simp add: kept_def)
  have "kept K (w_store w')"
  proof (cases r)
    case (Inl e)
    then show ?thesis using submit_raises run k by blast
  next
    case (Inr res)
    note run' = run [unfolded Inr]
    show ?thesis
    proof (cases "sr_refusal res")
      case None
      obtain g reserved user where "config_gpu (st_cfg (w_store w)) gpu = Inr g"
        and "submit_reserves (st_cfg (w_store w)) gpu hours budget = Inr reserved"
        and u: "get_user (w_store w) uid = Inr user"
        and ok: "submit_refusal (w_store w) user (g_currency g) reserved = Inr None"
        and c: "create_job (w_store w) fresh uid cmd gpu hours (g_currency g) reserved None env origin = Inr (sr_job res, w_store w')"
        by (rule submit_admitted [OF run' None])
      have "get_user (w_store w) (u_id user) = Inr user" using u get_user_Inr [OF u] by simp
      from submit_refusal_None(2) [OF ok this] have "0 \<le> reserved" by simp
      from create_job_inv [OF inv c this] create_job_Inr(3) [OF c] k show ?thesis by (auto simp: kept_def)
    next
      case (Some rf)
      obtain g reserved user where "config_gpu (st_cfg (w_store w)) gpu = Inr g"
        and "submit_reserves (st_cfg (w_store w)) gpu hours budget = Inr reserved"
        and "get_user (w_store w) uid = Inr user"
        and c: "record_refusal (w_store w) fresh uid cmd gpu hours (g_currency g) reserved (rf_reason rf) origin =
          Inr (sr_job res, w_store w')"
        by (rule submit_refused [OF run' Some])
      from record_refusal_inv [OF inv c] record_refusal_Inr(2) [OF c] k show ?thesis by (auto simp: kept_def)
    qed
  qed
  then show "kept K (w_store (snd (submit fresh uid cmd gpu hours budget env origin w)))" by (simp add: run)
qed

lemma tick_keeps [keeps_rules]: "finished K \<Longrightarrow> keeps K (tick sc)"
  by (rule keeps_of_left) (rule tick_left, simp add: finished_def)

lemma terminate_keeps [keeps_rules]: "keeps K (terminate_if_held sc j r)"
  by (rule keepsI) (simp add: terminate_if_held_store)

lemma live_transition_kept:
  assumes "finished K" and "kept K st" and "j \<in> set (st_jobs st)" and "transition st j to r [] b h ec clr = Inr (j', st')"
  shows "kept K st'"
proof -
  have inv: "store_inv st" using assms(2) by (simp add: kept_def)
  have "j_state j \<notin> set TERMINAL" using transition_Inr(1) [OF assms(4)] by auto
  note apart = finished_apart [OF assms(1,2) _ assms(3) this]
  obtain x where jobs: "st_jobs st' = map (\<lambda>x. if j_id x = j_id j then apply_transition_row j' x else x) (st_jobs st)"
    by (rule transition_row_set [OF assms(4) inv])
  have "K \<subseteq> set (st_jobs st')" unfolding jobs using apart assms(2) by (force simp: kept_def)
  then show ?thesis using transition_inv [OF assms(4) inv known_job_row [OF assms(3)]] by (simp add: kept_def)
qed

lemma cancel_keeps [keeps_rules]:
  assumes "finished K" shows "keeps K (cancel br p actor admin)"
proof (rule keepsI)
  fix w :: "'a world" assume k: "kept K (w_store w)"
  let ?note = "\<lambda>j. ''cancelled by '' @ actor_name actor j"
  obtain r w' where run: "cancel br p actor admin w = (r, w')" by fastforce
  have "kept K (w_store w')"
  proof (cases "\<exists>j. find_job (w_store w) p = Inr j \<and> may_cancel (w_store w) j actor admin \<and> \<not> is_terminal j")
    case False
    then have "w' = w" using run by (auto simp: cancel_def and_then_def reads_try_def split: sum.splits if_splits)
    then show ?thesis using k by simp
  next
    case True
    then obtain j where j: "find_job (w_store w) p = Inr j" "may_cancel (w_store w) j actor admin" "\<not> is_terminal j" by blast
    obtain t w1 where t: "terminate_if_held (br_scheduler br) j (?note j) w = (t, w1)" by fastforce
    note same = terminate_if_held_run [OF t]
    show ?thesis
    proof (cases t)
      case (Inl e)
      then show ?thesis using run j t same k by (simp add: cancel_def and_then_def reads_try_def)
    next
      case (Inr u)
      then have "move j CANCELLED (?note j) None True w1 = (r, w')"
        using run j t by (simp add: cancel_def and_then_def reads_try_def)
      then show ?thesis
        using k same live_transition_kept [OF assms k find_job_row [OF j(1)]]
        by (auto simp: move_def writes_try_def split: sum.splits)
    qed
  qed
  then show "kept K (w_store (snd (cancel br p actor admin w)))" by (simp add: run)
qed

lemma sleep_keeps [keeps_rules]: "keeps K (clock_sleep s)"
  unfolding clock_sleep_def
  by (rule keeps_writes(3)) (auto simp: kept_cong [of "_\<lparr>st_now := _\<rparr>"] split: sum.splits)

lemma loop_keeps [keeps_rules]: "finished K \<Longrightarrow> keeps K (run_until_idle br step n fuel reports)"
  by (induction fuel arbitrary: reports) (auto intro!: keeps_rules)

lemma reclaim_keeps [keeps_rules]:
  assumes "finished K" shows "keeps K (reclaim br force)"
proof (rule keepsI)
  fix w :: "'a world" assume k: "kept K (w_store w)"
  let ?st = "w_store w" and ?E = "c_reclaim_enabled (st_cfg (w_store w)) \<or> force" and ?now = "st_now (w_store w)"
  have inv: "store_inv ?st" using k by (simp add: kept_def)
  obtain r w' where run: "reclaim br force w = (r, w')" by fastforce
  have "kept K (w_store w')"
  proof (cases "candidates ?st (st_cfg ?st)")
    case (Inl e)
    then have "w' = w" using run by (simp add: reclaim_def and_then_def reads_try_def reads_def)
    then show ?thesis using k by simp
  next
    case (Inr vs)
    note C = candidates_rows [OF Inr inv]
    obtain s w1 where loop: "for_each (reclaim_step br ?E ?now) vs ([], [], []) w = (s, w1)" by fastforce
    have live: "j_state (v_job v) \<notin> set TERMINAL" if "v \<in> set vs" for v
      using candidates_active [OF Inr that] active_not_terminal by blast
    have others: "K \<subseteq> {r \<in> set (st_jobs ?st). j_id r \<notin> j_id ` v_job ` set vs}"
      using finished_apart [OF assms k _ C(2) live] k by (auto simp: kept_def)
    have "w_store w' = w_store w1"
      using run loop Inr by (auto simp: reclaim_def and_then_def reads_try_def reads_def ret_def split: sum.splits prod.splits)
    moreover have "kept K (w_store w1)"
      using reclaim_loop_result [OF inv Inr loop] others by (auto simp: left_kept kept_def)
    ultimately show ?thesis by simp
  qed
  then show "kept K (w_store (snd (reclaim br force w)))" by (simp add: run)
qed

lemma reap_keeps [keeps_rules]: "keeps K (broker_reap bs)"
proof -
  have "keeps K (reap bs)" by (rule keepsI) (use tripleD [OF reap_store refl] in \<open>metis prod.collapse sum.exhaust\<close>)
  moreover have "keeps K (writes (record_orphans os))" for os
    by (rule keeps_writes(1)) (auto simp: kept_def record_orphans_frame record_orphans_inv)
  ultimately show ?thesis unfolding broker_reap_def by (intro keeps_rules)
qed

lemma user_ops_frame [simp]:
  "st_jobs (snd (upsert_user st uid d b g a)) = st_jobs st"
  "suspend_user st uid r by1 = Inr (u, st') \<Longrightarrow> st_jobs st' = st_jobs st"
  "restore_user st uid = Inr (u, st') \<Longrightarrow> st_jobs st' = st_jobs st"
  by (auto simp: upsert_user_def suspend_user_def restore_user_def update_users_def Let_def split: option.splits sum.splits)

lemma admin_keeps [keeps_rules]:
  "keeps K (add_user uid actor admin d b g a)" "keeps K (broker_suspend_user uid r actor admin)"
  "keeps K (broker_restore_user uid actor admin)"
  "keeps K (drain_host br h r2 by1 admin)" "keeps K (undrain_host br h by1 admin)"
proof -
  show "keeps K (add_user uid actor admin d b g a)" unfolding add_user_def
    by (intro keeps_rules keeps_writes(2)) (simp add: kept_def upsert_user_inv)
  show "keeps K (broker_suspend_user uid r actor admin)" unfolding broker_suspend_user_def
    by (intro keeps_rules keeps_writes(3)) (auto simp: kept_def intro: suspend_user_inv)
  show "keeps K (broker_restore_user uid actor admin)" unfolding broker_restore_user_def
    by (intro keeps_rules keeps_writes(3)) (auto simp: kept_def intro: restore_user_inv)
  have quiet: "kept K (store_drain_host st h x y) = kept K st" "kept K (store_undrain_host st h) = kept K st" for st x y
    by (rule kept_cong; simp add: store_drain_host_def store_undrain_host_def)+
  show "keeps K (drain_host br h r2 by1 admin)" "keeps K (undrain_host br h by1 admin)"
    unfolding drain_host_def undrain_host_def
    by (cases "br_local br"; auto simp: quiet intro!: keeps_rules keeps_writes(1))+
qed

lemma request_cancel_kept:
  assumes "finished K" and "kept K st" and "j \<in> set (st_jobs st)" and "j_state j \<notin> set TERMINAL"
  shows "kept K (snd (request_cancel st j actor))"
proof -
  have "r \<in> set (st_jobs (snd (request_cancel st j actor)))" if "r \<in> K" for r
  proof -
    have "r \<in> set (st_jobs st)" "j_id r \<noteq> j_id j" using finished_apart [OF assms(1,2) that assms(3,4)] assms(2) that
      by (auto simp: kept_def)
    then show ?thesis by (force simp: request_cancel_def Let_def update_job_def)
  qed
  then show ?thesis using assms(2) row_ops_inv(1) by (auto simp: kept_def)
qed

subsection \<open>The transition system\<close>

text \<open>One step of the world: an operation of the broker with any arguments, whether it returns or
  raises; the web page recording a cancel request for a job that is alive; time passing; anything at
  all happening to the machines; a configuration (and with it a price table) taking effect.\<close>

inductive broker_step :: "'e broker \<Rightarrow> 'e world \<Rightarrow> 'e world \<Rightarrow> bool" for br where
  submits: "broker_step br w (snd (submit fresh uid cmd gpu hours budget env origin w))"
| cancels: "broker_step br w (snd (cancel br p actor admin w))"
| ticks: "broker_step br w (snd (tick (br_scheduler br) w))"
| loops: "broker_step br w (snd (run_until_idle br step n fuel reports w))"
| reclaims: "broker_step br w (snd (reclaim br force w))"
| reaps: "broker_step br w (snd (broker_reap (sc_backends (br_scheduler br)) w))"
| adds_user: "broker_step br w (snd (add_user uid by1 admin d b g a w))"
| suspends: "broker_step br w (snd (broker_suspend_user uid reason by1 admin w))"
| restores: "broker_step br w (snd (broker_restore_user uid by1 admin w))"
| drains: "broker_step br w (snd (drain_host br h reason by2 admin w))"
| undrains: "broker_step br w (snd (undrain_host br h by2 admin w))"
| cancel_requested: "j \<in> set (st_jobs (w_store w)) \<Longrightarrow> j_state j \<notin> set TERMINAL \<Longrightarrow>
    broker_step br w (w\<lparr>w_store := snd (request_cancel (w_store w) j by2)\<rparr>)"
| time_passes: "0 \<le> t \<Longrightarrow> broker_step br w (w\<lparr>w_store := (w_store w)\<lparr>st_now := st_now (w_store w) + t\<rparr>\<rparr>)"
| machines_change: "broker_step br w (w\<lparr>w_ext := e\<rparr>)"
| reconfigured: "broker_step br w (w\<lparr>w_store := (w_store w)\<lparr>st_cfg := cfg\<rparr>\<rparr>)"

inductive reachable :: "'e broker \<Rightarrow> 'e world \<Rightarrow> bool" for br where
  opened: "reachable br \<lparr>w_store = empty_store now cfg, w_ext = e\<rparr>"
| stepped: "reachable br w \<Longrightarrow> broker_step br w w' \<Longrightarrow> reachable br w'"

lemma step_keeps:
  assumes "broker_step br w w'" and "finished K" and "kept K (w_store w)"
  shows "kept K (w_store w')"
  using assms(1)
proof cases
  case cancel_requested
  then show ?thesis using request_cancel_kept [OF assms(2,3)] by simp
next
  case time_passes
  then show ?thesis using assms(3) by (simp add: kept_cong [of "_\<lparr>st_now := _\<rparr>"])
next
  case reconfigured
  then show ?thesis using assms(3) by (simp add: kept_cong [of "_\<lparr>st_cfg := _\<rparr>"])
next
  case machines_change
  then show ?thesis using assms(3) by simp
qed (simp only:, rule keepsD [OF _ assms(3)], intro keeps_rules assms(2))+

lemma reachable_inv: "reachable br w \<Longrightarrow> store_inv (w_store w)"
proof (induction rule: reachable.induct)
  case (opened now cfg e)
  then show ?case by (simp add: empty_store_inv)
next
  case (stepped w w')
  then show ?case using step_keeps [of br w w' "{}"] by (simp add: kept_def finished_def)
qed

lemma steps_keep:
  assumes "(broker_step br)\<^sup>*\<^sup>* w w'" and "finished K" and "kept K (w_store w)"
  shows "kept K (w_store w')"
  using assms(1,3) by (induction rule: rtranclp_induct) (auto intro: step_keeps [OF _ assms(2)])

text \<open>
  C1. The books balance in every reachable world. Whatever operations have run, in whatever order, with
  whatever backends, failures and configurations: the recorded history of every job is a legal walk of
  the lifecycle ending in the job's state; a job that is alive holds exactly what it reserved less what
  it has been charged; a finished job holds nothing; and no admitted job has ever been charged more than
  it reserved.
\<close>

theorem books_always_balance:
  assumes "reachable br w" and "j \<in> set (st_jobs (w_store w))"
  shows "replay None (history (w_store w) (j_id j)) = Some (Some (j_state j)) \<and>
    0 \<le> job_settled (w_store w) (j_id j) \<and>
    (j_state j = REFUSED \<or> job_settled (w_store w) (j_id j) \<le> j_reserved j) \<and>
    job_holding (w_store w) (j_id j) (j_currency j) =
      (if j_state j \<in> set TERMINAL then 0 else j_reserved j - job_settled (w_store w) (j_id j)) \<and>
    (\<exists>u\<in>set (st_users (w_store w)). u_id u = j_user j)"
proof -
  note inv = reachable_inv [OF assms(1)]
  note D = store_invD(8,9,3) [OF inv assms(2)]
  show ?thesis using D by (auto simp: money_ok_def history_ok_def split: if_splits)
qed

text \<open>
  C3. What is finished stays finished. A row that has reached a terminal state is never written again:
  after any further sequence of steps it is in the table unchanged, in every column.
\<close>

theorem finished_is_final:
  assumes "reachable br w" and "(broker_step br)\<^sup>*\<^sup>* w w'"
    and "j \<in> set (st_jobs (w_store w))" and "j_state j \<in> set TERMINAL"
  shows "j \<in> set (st_jobs (w_store w'))"
  using steps_keep [OF assms(2), of "{j}"] reachable_inv [OF assms(1)] assms(3,4) by (simp add: kept_def finished_def)

lemma demo_member_reachable: "reachable demo_broker \<lparr>w_store = demo_member, w_ext = ()\<rparr>"
proof -
  let ?w = "\<lparr>w_store = empty_store 0 (default_config (\<lambda>_. 0)), w_ext = ()\<rparr>"
  have "snd (add_user ''ada'' None False None None None None ?w) = \<lparr>w_store = demo_member, w_ext = ()\<rparr>"
    by (simp add: add_user_def and_then_def reads_try_def writes_with_def demo_member_def)
  then show ?thesis using reachable.stepped [OF reachable.opened broker_step.adds_user] by metis
qed

theorem books_always_balance_witness:
  "\<exists>w j. reachable demo_broker w \<and> st_jobs (w_store w) = [j] \<and> j_state j = QUEUED \<and>
     job_holding (w_store w) (j_id j) (j_currency j) = j_reserved j - job_settled (w_store w) (j_id j) \<and>
     job_settled (w_store w) (j_id j) \<le> j_reserved j"
proof -
  let ?w = "\<lparr>w_store = demo_member, w_ext = ()\<rparr>"
  obtain res w' where s: "submit ''a'' ''ada'' ''python train.py'' ''a6000'' 2 (Some 2) None ''real'' ?w = (Inr res, w')"
    "sr_refusal res = None" using demo_submit by blast
  have r: "reachable demo_broker w'"
    using reachable.stepped [OF demo_member_reachable
        broker_step.submits [of _ _ "''a''" "''ada''" "''python train.py''" "''a6000''" 2 "Some 2" None "''real''"]] s(1)
    by simp
  obtain g reserved user where "config_gpu (st_cfg (w_store ?w)) ''a6000'' = Inr g"
    and "submit_reserves (st_cfg (w_store ?w)) ''a6000'' 2 (Some 2) = Inr reserved"
    and "get_user (w_store ?w) ''ada'' = Inr user"
    and c: "create_job (w_store ?w) ''a'' ''ada'' ''python train.py'' ''a6000'' 2 (g_currency g) reserved None None ''real'' =
      Inr (sr_job res, w_store w')"
    by (rule submit_admitted [OF s])
  have j: "st_jobs (w_store w') = [sr_job res]" "j_state (sr_job res) = QUEUED"
    using create_job_Inr(1,3) [OF c] by simp_all
  have "QUEUED \<notin> set TERMINAL" by (simp add: TERMINAL_def)
  then show ?thesis using r j books_always_balance [OF r, of "sr_job res"]
    by (intro exI [of _ w'] exI [of _ "sr_job res"]) auto
qed

theorem finished_is_final_witness:
  "\<exists>w j. reachable demo_broker w \<and> st_jobs (w_store w) = [j] \<and> j_state j = REFUSED \<and>
     j \<in> set (st_jobs (w_store (snd (tick demo_scheduler w))))"
proof -
  let ?w = "\<lparr>w_store = demo_member, w_ext = ()\<rparr>"
  obtain res w' rf where s: "submit ''a'' ''ada'' ''python train.py'' ''a6000'' 2 (Some 9) None ''real'' ?w = (Inr res, w')"
    "sr_refusal res = Some rf" using demo_refused_submit by blast
  have r: "reachable demo_broker w'"
    using reachable.stepped [OF demo_member_reachable
        broker_step.submits [of _ _ "''a''" "''ada''" "''python train.py''" "''a6000''" 2 "Some 9" None "''real''"]] s(1)
    by simp
  obtain g reserved user where "config_gpu (st_cfg (w_store ?w)) ''a6000'' = Inr g"
    and "submit_reserves (st_cfg (w_store ?w)) ''a6000'' 2 (Some 9) = Inr reserved"
    and "get_user (w_store ?w) ''ada'' = Inr user"
    and c: "record_refusal (w_store ?w) ''a'' ''ada'' ''python train.py'' ''a6000'' 2 (g_currency g) reserved (rf_reason rf) ''real'' =
      Inr (sr_job res, w_store w')"
    by (rule submit_refused [OF s])
  have j: "st_jobs (w_store w') = [sr_job res]" "j_state (sr_job res) = REFUSED"
    using record_refusal_Inr(2,4) [OF c] by simp_all
  have t: "(broker_step demo_broker)\<^sup>*\<^sup>* w' (snd (tick demo_scheduler w'))"
    using broker_step.ticks [of demo_broker w'] by (simp add: demo_broker_def r_into_rtranclp)
  have "sr_job res \<in> set (st_jobs (w_store (snd (tick demo_scheduler w'))))"
    by (rule finished_is_final [OF r t]) (simp_all add: j TERMINAL_def)
  then show ?thesis using r j by blast
qed

end
