(* ===== verification/IsoRoundTrip.thy ===== *)
theory IsoRoundTrip
  imports Iso
begin

text \<open>
  The text form of a moment determines it: \<open>from_iso\<close> undoes \<open>to_iso\<close> for every moment whose year has
  the four digits Python's \<open>datetime\<close> allows. One half is the arithmetic of the Gregorian calendar, the
  other is about digits in fixed columns.
\<close>

subsection \<open>The calendar\<close>

definition era_year :: "int \<Rightarrow> int" where
  "era_year doe = (doe - doe div 1460 + doe div 36524 - doe div 146096) div 365"

definition year_start :: "int \<Rightarrow> int" where
  "year_start y = 365 * y + y div 4 - y div 100"

definition skewed :: "int \<Rightarrow> int" where
  "skewed doe = doe - doe div 1460 + doe div 36524 - doe div 146096"

lemma skewed_step: "0 \<le> d \<Longrightarrow> d < 146096 \<Longrightarrow> skewed d \<le> skewed (d + 1)"
proof -
  assume d: "0 \<le> d" "d < 146096"
  have a: "(d + 1) div 1460 \<le> d div 1460 + 1" by linarith
  have b: "d div 36524 \<le> (d + 1) div 36524" by (rule zdiv_mono1) auto
  show ?thesis
  proof (cases "d = 146095")
    case True
    then show ?thesis by (simp add: skewed_def)
  next
    case False
    then have "(d + 1) div 146096 = d div 146096" using d by (simp add: div_pos_pos_trivial)
    moreover have "d - x + y - z \<le> (d + 1) - x' + y' - z'" if "x' \<le> x + 1" "y \<le> y'" "z' = z" for x x' y y' z z' :: int
      using that by linarith
    ultimately show ?thesis unfolding skewed_def using a b by blast
  qed
qed

lemma skewed_mono_aux: "0 \<le> a \<Longrightarrow> a + int n \<le> 146096 \<Longrightarrow> skewed a \<le> skewed (a + int n)"
proof (induction n)
  case (Suc n)
  then have "skewed a \<le> skewed (a + int n)" by simp
  also have "\<dots> \<le> skewed (a + int n + 1)" using Suc.prems by (intro skewed_step) auto
  finally show ?case by (simp add: add.commute add.left_commute)
qed simp

lemma skewed_mono: "0 \<le> a \<Longrightarrow> a \<le> b \<Longrightarrow> b \<le> 146096 \<Longrightarrow> skewed a \<le> skewed b"
  using skewed_mono_aux [of a "nat (b - a)"] by simp

text \<open>Both ends of every year of the 400-year cycle, by evaluation.\<close>

lemma year_ends:
  "list_all (\<lambda>y. (y = 0 \<or> skewed (year_start y - 1) < 365 * y) \<and>
      (year_start y + 367 > 146096 \<or> 365 * (y + 1) \<le> skewed (year_start y + 367))) [0..399]"
  by code_simp

lemma era_year_bounds:
  assumes "0 \<le> doe" "doe < 146097"
  shows "0 \<le> era_year doe" "era_year doe \<le> 399"
proof -
  have "skewed 0 \<le> skewed doe" "skewed doe \<le> skewed 146096" using assms by (auto intro!: skewed_mono)
  then have "0 \<le> skewed doe" "skewed doe \<le> 145999" by (simp_all add: skewed_def)
  then show "0 \<le> era_year doe" "era_year doe \<le> 399" unfolding era_year_def skewed_def by linarith+
qed

lemma day_of_year_bounds:
  assumes "0 \<le> doe" "doe < 146097"
  shows "0 \<le> doe - year_start (era_year doe)" "doe - year_start (era_year doe) \<le> 366"
proof -
  let ?y = "era_year doe"
  have y: "?y \<in> set [0..399]" using era_year_bounds [OF assms] by simp
  have div_bounds: "365 * (k div 365) \<le> k \<and> k < 365 * (k div 365 + 1)" for k :: int
  proof -
    obtain q r where "q = k div 365" "r = k mod 365" by blast
    moreover have "k = 365 * (k div 365) + k mod 365" "0 \<le> k mod 365" "k mod 365 < 365" by simp_all
    ultimately have "k = 365 * q + r" "0 \<le> r" "r < 365" by simp_all
    then show ?thesis unfolding \<open>q = k div 365\<close> [symmetric] by (simp add: distrib_left)
  qed
  have s: "365 * ?y \<le> skewed doe" "skewed doe < 365 * (?y + 1)"
    unfolding era_year_def skewed_def using div_bounds by blast+
  from year_ends y have e: "?y = 0 \<or> skewed (year_start ?y - 1) < 365 * ?y"
    "year_start ?y + 367 > 146096 \<or> 365 * (?y + 1) \<le> skewed (year_start ?y + 367)"
    unfolding list_all_iff by blast+
  have ys: "0 \<le> year_start ?y" "year_start ?y \<le> 146097" using era_year_bounds [OF assms] unfolding year_start_def by linarith+
  show "0 \<le> doe - year_start ?y"
  proof (rule ccontr)
    assume "\<not> 0 \<le> doe - year_start ?y"
    then have lt: "doe \<le> year_start ?y - 1" by simp
    moreover have "?y \<noteq> 0" using lt assms by (auto simp: year_start_def)
    ultimately show False using e(1) s(1) skewed_mono [of doe "year_start ?y - 1"] assms ys by simp
  qed
  show "doe - year_start ?y \<le> 366"
  proof (rule ccontr)
    assume "\<not> doe - year_start ?y \<le> 366"
    then have gt: "year_start ?y + 367 \<le> doe" by simp
    then show False using e(2) s(2) skewed_mono [of "year_start ?y + 367" doe] assms ys by simp
  qed
qed

lemma month_bounds:
  fixes doy :: int
  assumes "0 \<le> doy" "doy \<le> 366"
  shows "0 \<le> (5 * doy + 2) div 153" "(5 * doy + 2) div 153 \<le> 11"
    "1 \<le> doy - (153 * ((5 * doy + 2) div 153) + 2) div 5 + 1" "doy - (153 * ((5 * doy + 2) div 153) + 2) div 5 + 1 \<le> 31"
proof -
  define mp where "mp = (5 * doy + 2) div 153"
  have mp: "153 * mp \<le> 5 * doy + 2" "5 * doy + 2 < 153 * mp + 153" unfolding mp_def by linarith+
  define q where "q = (153 * mp + 2) div 5"
  have q: "5 * q \<le> 153 * mp + 2" "153 * mp + 2 < 5 * q + 5" unfolding q_def by linarith+
  show "0 \<le> (5 * doy + 2) div 153" "(5 * doy + 2) div 153 \<le> 11"
    "1 \<le> doy - (153 * ((5 * doy + 2) div 153) + 2) div 5 + 1" "doy - (153 * ((5 * doy + 2) div 153) + 2) div 5 + 1 \<le> 31"
    unfolding mp_def [symmetric] q_def [symmetric] using mp q assms by linarith+
qed

lemma civil_date_round:
  assumes "civil_date n = (y, m, d)"
  shows "days_from_civil y m d = n" "1 \<le> m" "m \<le> 12" "1 \<le> d" "d \<le> 31"
proof -
  let ?z = "n + 719468"
  let ?era = "?z div 146097" and ?doe = "?z mod 146097"
  let ?yoe = "era_year ?doe"
  let ?doy = "?doe - year_start ?yoe"
  let ?mp = "(5 * ?doy + 2) div 153"
  have doe: "0 \<le> ?doe" "?doe < 146097" by simp_all
  note yoe = era_year_bounds [OF doe] and doy = day_of_year_bounds [OF doe]
  have m: "m = (if ?mp < 10 then ?mp + 3 else ?mp - 9)"
    and y: "y = ?yoe + ?era * 400 + (if m \<le> 2 then 1 else 0)"
    and d: "d = ?doy - (153 * ?mp + 2) div 5 + 1"
  proof -
    let ?m = "if ?mp < 10 then ?mp + 3 else ?mp - 9"
    have "civil_date n = (?yoe + ?era * 400 + (if ?m \<le> 2 then 1 else 0), ?m, ?doy - (153 * ?mp + 2) div 5 + 1)"
      unfolding civil_date_def civil_year_month_def Let_def fst_conv snd_conv era_year_def year_start_def by (rule refl)
    then show "m = ?m" "y = ?yoe + ?era * 400 + (if m \<le> 2 then 1 else 0)" "d = ?doy - (153 * ?mp + 2) div 5 + 1"
      unfolding assms by (simp_all only: prod.inject)
  qed
  note mp = month_bounds [OF doy]
  have months: "1 \<le> (if k < 10 then k + 3 else k - 9)" "(if k < 10 then k + 3 else k - 9) \<le> 12"
    "(if (if k < 10 then k + 3 else k - 9) > 2 then (if k < 10 then k + 3 else k - 9) - 3
      else (if k < 10 then k + 3 else k - 9) + 9) = k" if "0 \<le> k" "k \<le> 11" for k :: int
    using that by auto
  show "1 \<le> m" "m \<le> 12" unfolding m by (rule months [OF mp(1,2)])+
  show "1 \<le> d" "d \<le> 31" unfolding d by (rule mp)+
  have y': "(if m \<le> 2 then y - 1 else y) = ?yoe + ?era * 400" using y by simp
  have era: "(?yoe + ?era * 400) div 400 = ?era" using yoe by simp
  have mp': "(if m > 2 then m - 3 else m + 9) = ?mp" unfolding m by (rule months [OF mp(1,2)])
  have yoe': "?yoe + ?era * 400 - ?era * 400 = ?yoe" and ys: "?yoe * 365 + ?yoe div 4 - ?yoe div 100 = year_start ?yoe"
    by (simp_all add: year_start_def)
  have doy': "(153 * ?mp + 2) div 5 + d - 1 = ?doy" unfolding d by simp
  have total: "e * 146097 + (s + (D - s)) - 719468 = n" if "e * 146097 + D = n + 719468" for e s D :: int
    using that by simp
  show "days_from_civil y m d = n"
    unfolding days_from_civil_def y' mp' Let_def era yoe' ys doy' by (rule total) (rule div_mult_mod_eq)
qed

subsection \<open>Digits\<close>

lemma digit_of_char: "n < 10 \<Longrightarrow> digit_of (digit_char n) = Some (int n)"
proof -
  assume "n < 10"
  moreover have "list_all (\<lambda>n. digit_of (digit_char n) = Some (int n)) [0..<10]" by code_simp
  ultimately show ?thesis by (simp only: list_all_iff set_upt atLeastLessThan_iff Ball_def simp_thms zero_le)
qed

lemma read_digits_append:
  "read_digits a (xs @ ys) = (case read_digits a xs of None \<Rightarrow> None | Some b \<Rightarrow> read_digits b ys)"
  by (induction xs arbitrary: a) (auto split: option.splits)

lemma read_show_nat: "read_digits 0 (show_nat n) = Some (int n)"
proof (induction n rule: show_nat.induct)
  case (1 n)
  then show ?case
    by (cases "n < 10")
      (simp_all add: show_nat.simps [of n] digit_of_char read_digits_append zdiv_int zmod_int)
qed

lemma read_zeros: "read_digits 0 (replicate k (CHR ''0'') @ s) = read_digits 0 s"
  by (induction k) (simp_all add: digit_of_def)

lemma read_padded: "0 \<le> i \<Longrightarrow> read_digits 0 (pad_left w (show_int i)) = Some i"
  by (simp add: pad_left_def read_zeros show_int_def read_show_nat)

lemma show_nat_length: "n < 10 ^ w \<Longrightarrow> 0 < w \<Longrightarrow> length (show_nat n) \<le> w"
proof (induction w arbitrary: n)
  case (Suc w)
  show ?case
  proof (cases "n < 10")
    case False
    then have "w \<noteq> 0" using Suc.prems by (cases w) auto
    moreover have "n div 10 < 10 ^ w" using Suc.prems by (simp add: less_mult_imp_div_less mult.commute)
    ultimately show ?thesis using Suc.IH [of "n div 10"] False by (simp add: show_nat.simps [of n])
  qed (simp add: show_nat.simps [of n])
qed simp

lemma padded_length: "0 \<le> i \<Longrightarrow> i < 10 ^ w \<Longrightarrow> 0 < w \<Longrightarrow> length (pad_left w (show_int i)) = w"
  using show_nat_length [of "nat i" w] by (simp add: pad_left_def show_int_def nat_less_iff)

text \<open>Hours, minutes and seconds put together again, and the parts of a moment.\<close>

lemma clock_parts: "s div 3600 * 3600 + s div 60 mod 60 * 60 + s mod 60 = (s :: int)"
proof -
  have "s div 3600 = s div 60 div 60" using zdiv_zmult2_eq [of 60 s 60] by simp
  moreover have "s div 60 div 60 * 60 + s div 60 mod 60 = s div 60" by simp
  moreover have "s div 60 * 60 + s mod 60 = s" by simp
  ultimately show ?thesis by linarith
qed

lemma moment_parts: "t div 86400000000 * 86400000000 + t mod 86400000000 div 1000000 * 1000000 + t mod 1000000 = (t :: int)"
proof -
  have "t mod 86400000000 mod 1000000 = t mod 1000000" by (rule mod_mod_cancel) simp
  moreover have "t mod 86400000000 div 1000000 * 1000000 + t mod 86400000000 mod 1000000 = t mod 86400000000"
    by (rule div_mult_mod_eq)
  moreover have "t div 86400000000 * 86400000000 + t mod 86400000000 = t" by (rule div_mult_mod_eq)
  ultimately show ?thesis by linarith
qed

text \<open>The columns of the fixed format.\<close>

lemma iso_columns:
  assumes "length Y = 4" "length M = 2" "length D = 2" "length h = 2" "length m = 2" "length s = 2" "length u = 6"
    and "S = Y @ ''-'' @ M @ ''-'' @ D @ ''T'' @ h @ '':'' @ m @ '':'' @ s @ ''.'' @ u @ ''+00:00''"
  shows "length S = 32 \<and> S ! 4 = CHR ''-'' \<and> S ! 7 = CHR ''-'' \<and> S ! 10 = CHR ''T'' \<and> S ! 13 = CHR '':'' \<and>
         S ! 16 = CHR '':'' \<and> S ! 19 = CHR ''.'' \<and> drop 26 S = ''+00:00''"
    and "take 4 (drop 0 S) = Y" "take 2 (drop 5 S) = M" "take 2 (drop 8 S) = D" "take 2 (drop 11 S) = h"
    "take 2 (drop 14 S) = m" "take 2 (drop 17 S) = s" "take 6 (drop 20 S) = u"
  using assms(1-7) unfolding assms(8) by (simp_all add: nth_append)

lemma from_to_iso:
  assumes "civil_date (t div 86400000000) = (y, m, d)" and "1 \<le> y" and "y \<le> 9999"
  shows "from_iso (to_iso t) = Some t"
proof -
  note C = civil_date_round [OF assms(1)]
  let ?s = "(t mod 86400000000) div 1000000" and ?u = "t mod 1000000"
  have "0 \<le> t mod 86400000000" "t mod 86400000000 < 86400000000" by simp_all
  then have sb: "0 \<le> ?s" "?s < 86400" by linarith+
  let ?h = "?s div 3600" and ?mi = "?s div 60 mod 60" and ?se = "?s mod 60"
  have hb: "0 \<le> ?h" "?h < 24" using sb by linarith+
  have iso: "to_iso t = pad_left 4 (show_int y) @ ''-'' @ two_digits m @ ''-'' @ two_digits d @ ''T'' @ two_digits ?h @
      '':'' @ two_digits ?mi @ '':'' @ two_digits ?se @ ''.'' @ pad_left 6 (show_int ?u) @ ''+00:00''"
    by (simp add: to_iso_def show_date_def show_time_def assms(1) Let_def)
  have l2: "length (two_digits i) = 2" "read_digits 0 (two_digits i) = Some i" if "0 \<le> i" "i < 100" for i
    using that by (simp_all add: two_digits_def padded_length read_padded)
  have len: "length (pad_left 4 (show_int y)) = 4" "length (two_digits m) = 2" "length (two_digits d) = 2"
    "length (two_digits ?h) = 2" "length (two_digits ?mi) = 2" "length (two_digits ?se) = 2"
    "length (pad_left 6 (show_int ?u)) = 6"
  proof -
    have sixty: "0 \<le> k mod 60 \<and> k mod 60 < 100" for k :: int by (simp add: order_less_trans [OF pos_mod_bound])
    show "length (two_digits ?mi) = 2" "length (two_digits ?se) = 2" by (rule l2(1); simp only: sixty)+
    show "length (two_digits ?h) = 2" by (rule l2(1)) (use hb in linarith)+
    show "length (two_digits m) = 2" "length (two_digits d) = 2" by (rule l2(1); use C in linarith)+
    show "length (pad_left 4 (show_int y)) = 4" by (rule padded_length) (use assms(2,3) in simp_all)
    show "length (pad_left 6 (show_int ?u)) = 6" by (rule padded_length) simp_all
  qed
  note cols = iso_columns [OF len iso]
  have fields: "field_at 0 4 (to_iso t) = Some y" "field_at 5 2 (to_iso t) = Some m" "field_at 8 2 (to_iso t) = Some d"
    "field_at 11 2 (to_iso t) = Some ?h" "field_at 14 2 (to_iso t) = Some ?mi" "field_at 17 2 (to_iso t) = Some ?se"
    "field_at 20 6 (to_iso t) = Some ?u"
    unfolding field_at_def cols(2-8) two_digits_def by (rule read_padded; use assms(2) C hb in simp)+
  have sum: "t div 86400000000 * 86400000000 + (?h * 3600 + ?mi * 60 + ?se) * 1000000 + ?u = t"
    unfolding clock_parts by (rule moment_parts)
  have small: "?mi < 60" "?se < 60" by simp_all
  have "civil_date (days_from_civil y m d) = (y, m, d)" "days_from_civil y m d = t div 86400000000"
    using C(1) assms(1) by simp_all
  then show ?thesis
    unfolding from_iso_def fields using cols(1) C(2-4) assms(2) hb(2) small sum
    by (simp only: simp_thms if_True prod.case option.case)
qed

text \<open>
  C35. Time stamps survive the database. Every moment in the years 1 to 9999, written as text and read
  back, is the same moment, to the microsecond.
\<close>

theorem iso_round_trip:
  assumes "civil_date (t div 86400000000) = (y, m, d)" and "1 \<le> y" and "y \<le> 9999"
  shows "from_iso (to_iso t) = Some t"
  using assms by (rule from_to_iso)

theorem iso_round_trip_witness:
  "civil_date (1768478400000000 div 86400000000) = (2026, 1, 15) \<and>
   from_iso (to_iso 1768478400000000) = Some 1768478400000000"
proof -
  have c: "civil_date (1768478400000000 div 86400000000) = (2026, 1, 15)" by code_simp
  then show ?thesis using iso_round_trip [OF c] by simp
qed

end
