(* ===== verification/Checkpoint.thy ===== *)
theory Checkpoint
  imports Backend IsoRoundTrip "HOL-Library.AList"
begin

text \<open>
  \<^verbatim>\<open>gpu_broker/checkpoint.py\<close>: \<open>LocalCheckpointStore\<close>, checkpoints on a file system. A directory is an
  association list from relative paths to contents; the part of the file system under the root of the store
  maps the path of each step's directory to it. Texts that parse as a manifest, or as the state file of
  the simulated backend, are told apart from all other contents. What \<open>put\<close> does to the disk is a list
  of operations, so that a machine can be taken away between any two of them or in the middle of one.
\<close>

subsection \<open>Files\<close>

datatype content =
    Blob string
  | Manifest (mf_step: int) (mf_written_at: string) (mf_files: "string list") (mf_bytes: int)
  | State (sj_step: int) (sj_value: int)

type_synonym directory = "(string \<times> content) list"
type_synonym ckpt_fs = "(string \<times> directory) list"

definition MANIFEST :: string where
  "MANIFEST = ''MANIFEST.json''"

text \<open>\<open>{step:012d}\<close>: the sign counts towards the width.\<close>

definition show_step :: "int \<Rightarrow> string" where
  "show_step n = (if n < 0 then ''-'' @ pad_left 11 (show_nat (nat (- n))) else pad_left 12 (show_int n))"

definition job_prefix :: "string \<Rightarrow> string \<Rightarrow> string" where
  "job_prefix base job = base @ ''/'' @ job @ ''/''"

definition ckpt_dir :: "string \<Rightarrow> string \<Rightarrow> int \<Rightarrow> string" where
  "ckpt_dir base job step = job_prefix base job @ ''step-'' @ show_step step"

definition manifest_body :: "string list \<Rightarrow> int \<Rightarrow> moment \<Rightarrow> int \<Rightarrow> content" where
  "manifest_body files step stamp bytes = Manifest step (to_iso stamp) (sort files) bytes"

definition read_manifest :: "string \<Rightarrow> string \<Rightarrow> content \<Rightarrow> checkpoint_ref option" where
  "read_manifest job key raw =
     (case raw of
        Manifest step written files bytes \<Rightarrow>
          (case from_iso written of
             None \<Rightarrow> None
           | Some t \<Rightarrow> Some \<lparr>cr_job = job, cr_step = step, cr_key = key, cr_written_at = t, cr_files = files,
                              cr_bytes = bytes\<rparr>)
      | _ \<Rightarrow> None)"

subsection \<open>Writing a checkpoint\<close>

datatype fs_op =
    RmTree string
  | MkDir string
  | WriteFile string string content

fun apply_op :: "fs_op \<Rightarrow> ckpt_fs \<Rightarrow> ckpt_fs" where
  "apply_op (RmTree p) fs = filter (\<lambda>(q, _). q \<noteq> p) fs"
| "apply_op (MkDir p) fs = AList.update p [] fs"
| "apply_op (WriteFile p name c) fs =
     (case map_of fs p of None \<Rightarrow> fs | Some d \<Rightarrow> AList.update p (AList.update name c d) fs)"

definition run_ops :: "fs_op list \<Rightarrow> ckpt_fs \<Rightarrow> ckpt_fs" where
  "run_ops ops fs = foldl (\<lambda>fs op. apply_op op fs) fs ops"

text \<open>The files are given in the order of the sorted walk; the size of a file is a parameter.\<close>

definition put_ops ::
  "(content \<Rightarrow> int) \<Rightarrow> string \<Rightarrow> ckpt_fs \<Rightarrow> string \<Rightarrow> int \<Rightarrow> directory \<Rightarrow> moment \<Rightarrow> fs_op list"
where
  "put_ops size_of base fs job step files stamp =
     (let target = ckpt_dir base job step
      in (if map_of fs target \<noteq> None then [RmTree target] else []) @
         [MkDir target] @
         map (\<lambda>(name, c). WriteFile target name c) files @
         [WriteFile target MANIFEST (manifest_body (map fst files) step stamp (sum_list (map (size_of \<circ> snd) files)))])"

definition ckpt_put ::
  "(content \<Rightarrow> int) \<Rightarrow> string \<Rightarrow> ckpt_fs \<Rightarrow> string \<Rightarrow> int \<Rightarrow> directory option \<Rightarrow> moment \<Rightarrow>
   (error, checkpoint_ref \<times> ckpt_fs) result"
where
  "ckpt_put size_of base fs job step source stamp =
     (case source of
        None \<Rightarrow> Inl (CheckpointError ''nothing to checkpoint'')
      | Some files \<Rightarrow>
          Inr (\<lparr>cr_job = job, cr_step = step, cr_key = ckpt_dir base job step, cr_written_at = stamp,
                cr_files = sort (map fst files), cr_bytes = sum_list (map (size_of \<circ> snd) files)\<rparr>,
               run_ops (put_ops size_of base fs job step files stamp) fs))"

subsection \<open>Reading\<close>

definition is_child :: "string \<Rightarrow> string \<Rightarrow> bool" where
  "is_child prefix p \<longleftrightarrow> take (length prefix) p = prefix \<and> CHR ''/'' \<notin> set (drop (length prefix) p)"

definition job_dirs :: "string \<Rightarrow> ckpt_fs \<Rightarrow> string \<Rightarrow> (string \<times> directory) list" where
  "job_dirs base fs job = sort_key fst (filter (\<lambda>(p, _). is_child (job_prefix base job) p) fs)"

definition complete_ref :: "string \<Rightarrow> string \<times> directory \<Rightarrow> checkpoint_ref option" where
  "complete_ref job pd =
     (case map_of (snd pd) MANIFEST of None \<Rightarrow> None | Some raw \<Rightarrow> read_manifest job (fst pd) raw)"

definition better :: "checkpoint_ref option \<Rightarrow> checkpoint_ref option \<Rightarrow> checkpoint_ref option" where
  "better best cand =
     (case cand of
        None \<Rightarrow> best
      | Some r \<Rightarrow> (case best of None \<Rightarrow> Some r | Some b \<Rightarrow> if cr_step r > cr_step b then Some r else best))"

definition ckpt_latest :: "string \<Rightarrow> ckpt_fs \<Rightarrow> string \<Rightarrow> checkpoint_ref option" where
  "ckpt_latest base fs job = foldl better None (map (complete_ref job) (job_dirs base fs job))"

text \<open>The files \<open>fetch\<close> copies, in the order of the reference.\<close>

fun fetch_files :: "directory \<Rightarrow> string \<Rightarrow> string list \<Rightarrow> (error, directory) result" where
  "fetch_files d key [] = Inr []"
| "fetch_files d key (name # names) =
     (case map_of d name of
        None \<Rightarrow> Inl (CheckpointError (''checkpoint '' @ key @ '' is missing '' @ name))
      | Some c \<Rightarrow> (case fetch_files d key names of Inl e \<Rightarrow> Inl e | Inr rest \<Rightarrow> Inr ((name, c) # rest)))"

definition ckpt_fetch :: "ckpt_fs \<Rightarrow> checkpoint_ref \<Rightarrow> (error, directory) result" where
  "ckpt_fetch fs ref =
     (case map_of fs (cr_key ref) of
        None \<Rightarrow> Inl (CheckpointError (''checkpoint '' @ cr_key ref @ '' has no manifest; refusing to restore it''))
      | Some d \<Rightarrow>
          if map_of d MANIFEST = None
          then Inl (CheckpointError (''checkpoint '' @ cr_key ref @ '' has no manifest; refusing to restore it''))
          else fetch_files d (cr_key ref) (cr_files ref))"

text \<open>\<open>complete[:-keep] if keep > 0 else complete\<close>.\<close>

definition pruned_dirs :: "string \<Rightarrow> ckpt_fs \<Rightarrow> string \<Rightarrow> int \<Rightarrow> string list" where
  "pruned_dirs base fs job keep =
     (let complete = map fst (filter (\<lambda>(_, d). map_of d MANIFEST \<noteq> None) (job_dirs base fs job))
      in if keep > 0 then take (length complete - nat keep) complete else complete)"

definition ckpt_prune :: "string \<Rightarrow> ckpt_fs \<Rightarrow> string \<Rightarrow> int \<Rightarrow> nat \<times> ckpt_fs" where
  "ckpt_prune base fs job keep =
     (let doomed = pruned_dirs base fs job keep
      in (length doomed, filter (\<lambda>(p, _). p \<notin> set doomed) fs))"

subsection \<open>The newest complete checkpoint\<close>

lemma foldl_better_filter: "foldl better b xs = foldl better b (filter (\<lambda>x. x \<noteq> None) xs)"
  by (induction xs arbitrary: b) (auto simp: better_def)

text \<open>Only directories with a readable manifest count.\<close>

definition visible :: "string \<Rightarrow> ckpt_fs \<Rightarrow> string \<Rightarrow> (string \<times> directory) list" where
  "visible base fs job = filter (\<lambda>pd. is_child (job_prefix base job) (fst pd) \<and> complete_ref job pd \<noteq> None) fs"

lemma latest_visible:
  "ckpt_latest base fs job = foldl better None (map (complete_ref job) (sort_key fst (visible base fs job)))"
proof -
  have "filter (\<lambda>x. x \<noteq> None) (map (complete_ref job) (job_dirs base fs job)) =
      map (complete_ref job) (filter (\<lambda>pd. complete_ref job pd \<noteq> None) (job_dirs base fs job))"
    by (simp add: filter_map comp_def)
  also have "filter (\<lambda>pd. complete_ref job pd \<noteq> None) (job_dirs base fs job) = sort_key fst (visible base fs job)"
    by (simp add: job_dirs_def visible_def filter_sort split_def conj_commute)
  finally show ?thesis unfolding ckpt_latest_def by (subst foldl_better_filter) simp
qed

lemma latest_same_visible: "visible base fs' job = visible base fs job \<Longrightarrow> ckpt_latest base fs' job = ckpt_latest base fs job"
  by (simp add: latest_visible)

lemma better_Some: "better b (Some r) \<noteq> None"
  by (auto simp: better_def split: option.splits)

lemma foldl_better:
  assumes "foldl better b (map Some rs) = Some r"
  shows "(Some r = b \<or> r \<in> set rs) \<and> (\<forall>x\<in>set rs. cr_step x \<le> cr_step r) \<and> (\<forall>x. b = Some x \<longrightarrow> cr_step x \<le> cr_step r)"
  using assms
proof (induction rs arbitrary: b)
  case (Cons q rs)
  have "foldl better (better b (Some q)) (map Some rs) = Some r" using Cons.prems by simp
  note IH = Cons.IH [OF this]
  show ?case
  proof (cases b)
    case None
    then have "better b (Some q) = Some q" by (simp add: better_def)
    with IH None show ?thesis by auto
  next
    case (Some x)
    show ?thesis
    proof (cases "cr_step q > cr_step x")
      case True
      then have "better b (Some q) = Some q" using Some by (simp add: better_def)
      with IH Some True show ?thesis by auto
    next
      case False
      then have "better b (Some q) = Some x" using Some by (simp add: better_def)
      with IH Some False show ?thesis by auto
    qed
  qed
qed simp

lemma foldl_better_None: "foldl better b (map Some rs) = None \<longleftrightarrow> b = None \<and> rs = []"
  by (induction rs arbitrary: b) (auto simp: better_Some)

definition complete_refs :: "string \<Rightarrow> ckpt_fs \<Rightarrow> string \<Rightarrow> checkpoint_ref set" where
  "complete_refs base fs job = {r. \<exists>pd\<in>set fs. is_child (job_prefix base job) (fst pd) \<and> complete_ref job pd = Some r}"

lemma latest_spec:
  "ckpt_latest base fs job = Some r \<Longrightarrow> r \<in> complete_refs base fs job \<and> (\<forall>x\<in>complete_refs base fs job. cr_step x \<le> cr_step r)"
  "ckpt_latest base fs job = None \<longleftrightarrow> complete_refs base fs job = {}"
proof -
  let ?v = "sort_key fst (visible base fs job)" and ?rs = "map (the \<circ> complete_ref job) (sort_key fst (visible base fs job))"
  have "map (complete_ref job) ?v = map Some ?rs" by (auto simp: visible_def)
  then have l: "ckpt_latest base fs job = foldl better None (map Some ?rs)" unfolding latest_visible by (simp only:)
  have s: "set ?rs = complete_refs base fs job" by (force simp: visible_def complete_refs_def)
  show "ckpt_latest base fs job = Some r \<Longrightarrow> r \<in> complete_refs base fs job \<and> (\<forall>x\<in>complete_refs base fs job. cr_step x \<le> cr_step r)"
    unfolding l s [symmetric] using foldl_better [of None ?rs r] by blast
  show "ckpt_latest base fs job = None \<longleftrightarrow> complete_refs base fs job = {}"
    unfolding l foldl_better_None s [symmetric] by (simp only: set_empty simp_thms)
qed

subsection \<open>Losing the machine in the middle\<close>

text \<open>A write that is cut off leaves some text that parses as nothing; a deletion that is cut off leaves
  some of the files.\<close>

fun torn :: "fs_op \<Rightarrow> ckpt_fs \<Rightarrow> ckpt_fs \<Rightarrow> bool" where
  "torn (WriteFile p name c) fs fs' = (\<exists>s. fs' = apply_op (WriteFile p name (Blob s)) fs)"
| "torn (RmTree p) fs fs' = (\<exists>d d'. map_of fs p = Some d \<and> set d' \<subseteq> set d \<and> fs' = AList.update p d' fs)"
| "torn (MkDir p) fs fs' = False"

inductive crashed :: "fs_op list \<Rightarrow> ckpt_fs \<Rightarrow> ckpt_fs \<Rightarrow> bool" where
  cut: "crashed ops fs fs"
| cut_inside: "torn op fs fs' \<Longrightarrow> crashed (op # ops) fs fs'"
| go_on: "crashed ops (apply_op op fs) fs' \<Longrightarrow> crashed (op # ops) fs fs'"

inductive_cases crashed_Nil: "crashed [] fs fs'"
inductive_cases crashed_Cons: "crashed (op # ops) fs fs'"

definition unreadable :: "directory \<Rightarrow> bool" where
  "unreadable d \<longleftrightarrow> (\<forall>c. map_of d MANIFEST = Some c \<longrightarrow> (\<exists>s. c = Blob s))"

lemma unreadable_invisible: "unreadable d \<Longrightarrow> complete_ref job (p, d) = None"
  by (auto simp: complete_ref_def unreadable_def read_manifest_def split: option.splits content.splits)

lemma update_fresh: "map_of fs p = None \<Longrightarrow> AList.update p d fs = fs @ [(p, d)]"
  by (induction fs) (auto split: if_splits)

lemma update_last: "map_of fs p = None \<Longrightarrow> AList.update p d' (fs @ [(p, d)]) = fs @ [(p, d')]"
  by (induction fs) (auto split: if_splits)

lemma map_of_last: "map_of fs p = None \<Longrightarrow> map_of (fs @ [(p, d)]) p = Some d"
  by (simp add: map_add_def)

lemma write_last:
  "map_of fs p = None \<Longrightarrow> apply_op (WriteFile p name c) (fs @ [(p, d)]) = fs @ [(p, AList.update name c d)]"
  by (simp add: map_of_last update_last del: map_of_append)

lemma unreadable_update:
  "unreadable d \<Longrightarrow> name \<noteq> MANIFEST \<Longrightarrow> unreadable (AList.update name c d)" "unreadable d \<Longrightarrow> unreadable (AList.update name (Blob s) d)"
  by (auto simp: unreadable_def update_Some_unfold update_conv')

text \<open>While the files are being copied, and while the manifest is being written, the directory is
  invisible.\<close>

lemma crashed_writes:
  assumes "map_of fs p = None" and "unreadable d" and "\<forall>(name, c)\<in>set files. name \<noteq> MANIFEST"
    and "crashed (map (\<lambda>(name, c). WriteFile p name c) files @ [WriteFile p MANIFEST m]) (fs @ [(p, d)]) fs'"
  shows "(\<exists>d'. unreadable d' \<and> fs' = fs @ [(p, d')]) \<or>
    fs' = run_ops (map (\<lambda>(name, c). WriteFile p name c) files @ [WriteFile p MANIFEST m]) (fs @ [(p, d)])"
  using assms(2-4)
proof (induction files arbitrary: d)
  case Nil
  have "crashed [WriteFile p MANIFEST m] (fs @ [(p, d)]) fs'" using Nil.prems by simp
  then show ?case
  proof (rule crashed_Cons)
    assume "torn (WriteFile p MANIFEST m) (fs @ [(p, d)]) fs'"
    then show ?thesis using Nil.prems(1) write_last [OF assms(1)] unreadable_update(2) by (auto simp del: apply_op.simps)
  next
    assume "crashed [] (apply_op (WriteFile p MANIFEST m) (fs @ [(p, d)])) fs'"
    then show ?thesis by (auto elim: crashed_Nil simp: run_ops_def)
  qed (use Nil.prems(1) in auto)
next
  case (Cons f files)
  obtain name c where f: "f = (name, c)" by fastforce
  have ne: "name \<noteq> MANIFEST" and rest: "\<forall>(name, c)\<in>set files. name \<noteq> MANIFEST" using Cons.prems(2) f by auto
  have "crashed (WriteFile p name c # (map (\<lambda>(name, c). WriteFile p name c) files @ [WriteFile p MANIFEST m])) (fs @ [(p, d)]) fs'"
    using Cons.prems(3) f by simp
  then show ?case
  proof (rule crashed_Cons)
    assume "torn (WriteFile p name c) (fs @ [(p, d)]) fs'"
    then show ?thesis using Cons.prems(1) write_last [OF assms(1)] unreadable_update(2) by (auto simp del: apply_op.simps)
  next
    assume "crashed (map (\<lambda>(name, c). WriteFile p name c) files @ [WriteFile p MANIFEST m])
        (apply_op (WriteFile p name c) (fs @ [(p, d)])) fs'"
    then show ?thesis
      using Cons.IH [OF unreadable_update(1) [OF Cons.prems(1) ne] rest] f
      by (simp add: write_last [OF assms(1)] run_ops_def del: apply_op.simps)
  qed (use Cons.prems(1) in auto)
qed

lemma visible_append:
  "visible base (fs @ [(p, d)]) job =
     visible base fs job @ (if is_child (job_prefix base job) p \<and> complete_ref job (p, d) \<noteq> None then [(p, d)] else [])"
  by (simp add: visible_def)


subsection \<open>Saving and restoring\<close>

lemma digit_char_plain: "n < 10 \<Longrightarrow> digit_char n \<noteq> CHR ''/'' \<and> digit_char n \<in> set ''0123456789''"
proof -
  assume "n < 10"
  moreover have "list_all (\<lambda>n. digit_char n \<noteq> CHR ''/'' \<and> digit_char n \<in> set ''0123456789'') [0..<10]" by code_simp
  ultimately show ?thesis by (simp only: list_all_iff set_upt atLeastLessThan_iff Ball_def simp_thms zero_le)
qed

lemma show_nat_digits: "set (show_nat n) \<subseteq> set ''0123456789''"
proof (induction n rule: show_nat.induct)
  case (1 n)
  then show ?case using digit_char_plain [of n] digit_char_plain [of "n mod 10"]
    by (cases "n < 10") (simp_all add: show_nat.simps [of n])
qed

lemma show_step_plain: "CHR ''/'' \<notin> set (show_step n)"
proof -
  have "CHR ''/'' \<notin> set (show_nat k)" for k using show_nat_digits [of k] by auto
  then show ?thesis by (auto simp: show_step_def pad_left_def show_int_def)
qed

lemma ckpt_dir_child: "is_child (job_prefix base job) (ckpt_dir base job step)"
  using show_step_plain [of step] by (simp add: is_child_def ckpt_dir_def)

definition written_files :: "directory \<Rightarrow> content \<Rightarrow> directory" where
  "written_files files m = AList.update MANIFEST m (foldl (\<lambda>d (name, c). AList.update name c d) [] files)"

lemma run_writes:
  assumes "map_of fs p = None"
  shows "run_ops (map (\<lambda>(name, c). WriteFile p name c) files) (fs @ [(p, d)]) =
    fs @ [(p, foldl (\<lambda>d (name, c). AList.update name c d) d files)]"
  by (induction files arbitrary: d) (auto simp: run_ops_def write_last [OF assms] simp del: apply_op.simps)

lemma put_result:
  "run_ops (put_ops size_of base fs job step files stamp) fs =
     filter (\<lambda>(q, _). q \<noteq> ckpt_dir base job step) fs @
       [(ckpt_dir base job step, written_files files
          (manifest_body (map fst files) step stamp (sum_list (map (size_of \<circ> snd) files))))]"
proof -
  let ?p = "ckpt_dir base job step" and ?fs = "filter (\<lambda>(q, _). q \<noteq> ckpt_dir base job step) fs"
  have fresh: "map_of ?fs ?p = None" by (auto simp: map_of_eq_None_iff)
  have "run_ops ((if map_of fs ?p \<noteq> None then [RmTree ?p] else []) @ [MkDir ?p]) fs = ?fs @ [(?p, [])]"
  proof (cases "map_of fs ?p")
    case None
    then have "?fs = fs" by (force simp: filter_id_conv map_of_eq_None_iff)
    then show ?thesis using update_fresh [OF None] None by (simp add: run_ops_def)
  next
    case (Some d)
    then show ?thesis using update_fresh [OF fresh] by (simp add: run_ops_def)
  qed
  then show ?thesis
    using run_writes [OF fresh, of files "[]"] write_last [OF fresh]
    by (simp add: put_ops_def Let_def run_ops_def written_files_def del: apply_op.simps)
qed

lemma foldl_update_map_of:
  "distinct (map fst files) \<Longrightarrow> map_of (foldl (\<lambda>d (name, c). AList.update name c d) d files) = map_of d ++ map_of files"
proof (induction files arbitrary: d)
  case (Cons f files)
  obtain name c where f: "f = (name, c)" by fastforce
  have upd: "map_of (AList.update name c d) = (map_of d)(name \<mapsto> c)" by (simp add: update_conv')
  have "(map_of d)(name \<mapsto> c) ++ map_of files = (map_of d ++ map_of files)(name \<mapsto> c)"
    using Cons.prems f by (intro map_add_upd_left) (simp add: dom_map_of_conv_image_fst)
  then show ?case using Cons.IH [of "AList.update name c d"] Cons.prems f upd
    by (simp add: map_add_upd del: fun_upd_apply)
qed simp

lemma written_map_of:
  assumes "distinct (map fst files)" and "MANIFEST \<notin> set (map fst files)"
  shows "map_of (written_files files m) MANIFEST = Some m"
    "name \<in> set (map fst files) \<Longrightarrow> map_of (written_files files m) name = map_of files name"
proof -
  have all: "map_of (written_files files m) = (map_of files)(MANIFEST \<mapsto> m)"
    using foldl_update_map_of [OF assms(1), of "[]"] by (simp add: written_files_def update_conv')
  show "map_of (written_files files m) MANIFEST = Some m" by (simp add: all)
  assume "name \<in> set (map fst files)"
  then have "name \<noteq> MANIFEST" using assms(2) by blast
  then show "map_of (written_files files m) name = map_of files name" by (simp add: all)
qed

lemma fetch_files_all:
  "(\<And>name. name \<in> set names \<Longrightarrow> map_of d name = map_of files name \<and> map_of files name \<noteq> None) \<Longrightarrow>
     fetch_files d key names = Inr (map (\<lambda>name. (name, the (map_of files name))) names)"
proof (induction names)
  case (Cons name names)
  then have "map_of d name = map_of files name" "map_of files name \<noteq> None" by simp_all
  then obtain c where "map_of d name = Some c" "map_of files name = Some c" by auto
  moreover have "fetch_files d key names = Inr (map (\<lambda>name. (name, the (map_of files name))) names)"
    using Cons by simp
  ultimately show ?case by simp
qed simp

lemma map_of_restrict: "map_of (map (\<lambda>name. (name, the (map_of files name))) names) name =
    (if name \<in> set names then Some (the (map_of files name)) else None)"
  by (induction names) auto

lemma restored_files: "map_of (map (\<lambda>name. (name, the (map_of files name))) (sort (map fst files))) = map_of files"
proof
  fix name
  show "map_of (map (\<lambda>name. (name, the (map_of files name))) (sort (map fst files))) name = map_of files name"
    unfolding map_of_restrict set_sort
  proof (cases "map_of files name")
    case (Some a)
    then have "name \<in> set (map fst files)" using map_of_SomeD by force
    then show "(if name \<in> set (map fst files) then Some (the (map_of files name)) else None) = map_of files name"
      using Some by simp
  next
    case None
    then have "name \<notin> set (map fst files)" by (simp add: map_of_eq_None_iff)
    then show "(if name \<in> set (map fst files) then Some (the (map_of files name)) else None) = map_of files name"
      using None by simp
  qed
qed

text \<open>
  What is saved is what comes back. After a checkpoint has been written for a step beyond every
  complete one of the job, it is the newest, exactly as it was returned, and fetching it restores
  exactly the files that were in the directory, each with its content.
\<close>

theorem checkpoint_round_trip:
  assumes "ckpt_put size_of base fs job step (Some files) stamp = Inr (ref, fs')"
    and "distinct (map fst files)" and "MANIFEST \<notin> set (map fst files)"
    and "\<forall>r\<in>complete_refs base fs job. cr_step r < step"
    and "civil_date (stamp div 86400000000) = (y, mo, da)" and "1 \<le> y" and "y \<le> 9999"
  shows "ckpt_latest base fs' job = Some ref \<and> cr_step ref = step \<and>
    (\<exists>restored. ckpt_fetch fs' ref = Inr restored \<and> map_of restored = map_of files)"
proof -
  let ?p = "ckpt_dir base job step" and ?old = "filter (\<lambda>(q, _). q \<noteq> ckpt_dir base job step) fs"
  let ?m = "manifest_body (map fst files) step stamp (sum_list (map (size_of \<circ> snd) files))"
  let ?d = "written_files files ?m"
  have ref: "ref = \<lparr>cr_job = job, cr_step = step, cr_key = ?p, cr_written_at = stamp,
      cr_files = sort (map fst files), cr_bytes = sum_list (map (size_of \<circ> snd) files)\<rparr>"
    and fs': "fs' = ?old @ [(?p, ?d)]"
    using assms(1) by (simp_all add: ckpt_put_def put_result)
  have gone: "map_of ?old ?p = None" by (auto simp: map_of_eq_None_iff)
  note W = written_map_of [OF assms(2,3)]
  have new: "complete_ref job (?p, ?d) = Some ref"
    using from_to_iso [OF assms(5-7)] by (simp add: complete_ref_def W(1) read_manifest_def manifest_body_def ref)
  have refs: "complete_refs base fs' job = insert ref (complete_refs base ?old job)"
    using new ckpt_dir_child by (fastforce simp: complete_refs_def fs')
  have below: "cr_step r < step" if "r \<in> complete_refs base ?old job" for r
    using assms(4) that by (force simp: complete_refs_def)
  have latest: "ckpt_latest base fs' job = Some ref"
  proof (cases "ckpt_latest base fs' job")
    case None
    then show ?thesis using latest_spec(2) [of base fs' job] refs by simp
  next
    case (Some r)
    note sp = latest_spec(1) [OF Some]
    have "r = ref" using sp below [of r] refs by (auto simp: ref)
    then show ?thesis using Some by simp
  qed
  have "ckpt_fetch fs' ref = Inr (map (\<lambda>name. (name, the (map_of files name))) (sort (map fst files)))"
    unfolding ckpt_fetch_def fs' ref checkpoint_ref.simps map_of_last [OF gone] option.case W(1)
    using fetch_files_all [of "sort (map fst files)" ?d files ?p] W(2) by (simp add: map_of_eq_None_iff)
  then show ?thesis using latest restored_files [of files] by (auto simp: ref)
qed

subsection \<open>Pruning\<close>

text \<open>Fixed-width digits sort like the numbers they write.\<close>

lemma digits_lexord:
  assumes "length xs = length ys" and "set xs \<subseteq> set ''0123456789''" and "set ys \<subseteq> set ''0123456789''"
    and "read_digits a xs = Some m" and "read_digits b ys = Some n" and "a < b"
  shows "m < n"
  using assms
proof (induction xs arbitrary: ys a b)
  case (Cons x xs)
  obtain y zs where ys: "ys = y # zs" using Cons.prems(1) by (cases ys) auto
  obtain dx where dx: "digit_of x = Some dx" "read_digits (a * 10 + dx) xs = Some m"
    using Cons.prems(4) by (auto split: option.splits)
  obtain dy where dy: "digit_of y = Some dy" "read_digits (b * 10 + dy) zs = Some n"
    using Cons.prems(5) ys by (auto split: option.splits)
  have "0 \<le> dx" "dx \<le> 9" "0 \<le> dy" "dy \<le> 9"
    using dx(1) dy(1) by (auto simp: digit_of_def Let_def split: if_splits)
  then have "a * 10 + dx < b * 10 + dy" using Cons.prems(6) by linarith
  then show ?case using Cons.IH [of zs "a * 10 + dx" "b * 10 + dy"] Cons.prems ys dx dy by simp
qed simp

lemma digit_less: "x \<in> set ''0123456789'' \<Longrightarrow> y \<in> set ''0123456789'' \<Longrightarrow> x < y \<Longrightarrow> the (digit_of x) < the (digit_of y)"
  by (auto simp: digit_of_def less_char_def)

lemma digits_read: "set xs \<subseteq> set ''0123456789'' \<Longrightarrow> read_digits a xs \<noteq> None"
  by (induction xs arbitrary: a) (auto simp: digit_of_def)

lemma digits_order:
  assumes "length xs = length ys" and "set xs \<subseteq> set ''0123456789''" and "set ys \<subseteq> set ''0123456789''"
    and "read_digits a xs = Some m" and "read_digits a ys = Some n" and "xs < ys"
  shows "m < n"
  using assms
proof (induction xs arbitrary: ys a)
  case (Cons x xs)
  obtain y zs where ys: "ys = y # zs" using Cons.prems(1) by (cases ys) auto
  obtain dx where dx: "digit_of x = Some dx" "read_digits (a * 10 + dx) xs = Some m"
    using Cons.prems(4) by (auto split: option.splits)
  obtain dy where dy: "digit_of y = Some dy" "read_digits (a * 10 + dy) zs = Some n"
    using Cons.prems(5) ys by (auto split: option.splits)
  have sub: "length xs = length zs" "set xs \<subseteq> set ''0123456789''" "set zs \<subseteq> set ''0123456789''"
    using Cons.prems(1-3) ys by simp_all
  have "x < y \<or> x = y \<and> xs < zs" using Cons.prems(6) ys by simp
  then show ?case
  proof
    assume "x < y"
    then have "dx < dy" using digit_less [of x y] Cons.prems(2,3) ys dx(1) dy(1) by simp
    then show ?thesis using digits_lexord [OF sub dx(2) dy(2)] by simp
  next
    assume "x = y \<and> xs < zs"
    then show ?thesis using Cons.IH [OF sub dx(2)] dx(1) dy by simp
  qed
qed simp

lemma show_step_fixed:
  assumes "0 \<le> n" "n < 10 ^ 12"
  shows "length (show_step n) = 12" "set (show_step n) \<subseteq> set ''0123456789''" "read_digits 0 (show_step n) = Some n"
proof -
  have s: "show_step n = pad_left 12 (show_int n)" using assms by (simp add: show_step_def)
  show "length (show_step n) = 12" unfolding s by (rule padded_length [OF assms]) simp
  show "read_digits 0 (show_step n) = Some n" unfolding s by (rule read_padded [OF assms(1)])
  show "set (show_step n) \<subseteq> set ''0123456789''"
    using show_nat_digits [of "nat n"] assms(1) by (auto simp: s pad_left_def show_int_def)
qed

lemma append_less_iff: "(xs @ ys < xs @ zs) = (ys < (zs :: string))"
  by (induction xs) simp_all

lemma ckpt_dir_less:
  assumes "0 \<le> m" "m < 10 ^ 12" "0 \<le> n" "n < 10 ^ 12" and "ckpt_dir base job m < ckpt_dir base job n"
  shows "m < n"
proof -
  have "show_step m < show_step n" using assms(5) by (simp add: ckpt_dir_def append_less_iff)
  then show ?thesis
    using digits_order [of "show_step m" "show_step n" 0 m n] show_step_fixed [OF assms(1,2)] show_step_fixed [OF assms(3,4)]
    by simp
qed

text \<open>A store that only \<open>put\<close> has written to, with steps of at most twelve digits.\<close>

definition well_named :: "string \<Rightarrow> ckpt_fs \<Rightarrow> string \<Rightarrow> bool" where
  "well_named base fs job \<longleftrightarrow> distinct (map fst fs) \<and>
     (\<forall>pd\<in>set fs. is_child (job_prefix base job) (fst pd) \<longrightarrow>
        (\<exists>n. 0 \<le> n \<and> n < 10 ^ 12 \<and> fst pd = ckpt_dir base job n \<and>
           (map_of (snd pd) MANIFEST \<noteq> None \<longrightarrow> (\<exists>r. complete_ref job pd = Some r \<and> cr_step r = n))))"

lemma put_well_named:
  assumes "ckpt_put size_of base fs job step (Some files) stamp = Inr (ref, fs')" and "well_named base fs job"
    and "0 \<le> step" "step < 10 ^ 12" and "distinct (map fst files)" and "MANIFEST \<notin> set (map fst files)"
    and "civil_date (stamp div 86400000000) = (y, mo, da)" and "1 \<le> y" and "y \<le> 9999"
  shows "well_named base fs' job"
proof -
  let ?p = "ckpt_dir base job step" and ?old = "filter (\<lambda>(q, _). q \<noteq> ckpt_dir base job step) fs"
  let ?m = "manifest_body (map fst files) step stamp (sum_list (map (size_of \<circ> snd) files))"
  let ?d = "written_files files ?m"
  have fs': "fs' = ?old @ [(?p, ?d)]" using assms(1) by (simp add: ckpt_put_def put_result)
  have "\<exists>r. complete_ref job (?p, ?d) = Some r \<and> cr_step r = step"
    using from_to_iso [OF assms(7-9)] written_map_of(1) [OF assms(5,6)]
    by (simp add: complete_ref_def read_manifest_def manifest_body_def)
  then have new: "\<exists>n. 0 \<le> n \<and> n < 10 ^ 12 \<and> ?p = ckpt_dir base job n \<and>
      (map_of ?d MANIFEST \<noteq> None \<longrightarrow> (\<exists>r. complete_ref job (?p, ?d) = Some r \<and> cr_step r = n))"
    using assms(3,4) by (intro exI [of _ step]) simp
  have "distinct (map fst ?old)" using assms(2) by (simp add: well_named_def distinct_map_filter)
  moreover have "?p \<notin> set (map fst ?old)" by auto
  ultimately have "distinct (map fst fs')" by (simp add: fs')
  moreover have "\<forall>pd\<in>set ?old. is_child (job_prefix base job) (fst pd) \<longrightarrow>
        (\<exists>n. 0 \<le> n \<and> n < 10 ^ 12 \<and> fst pd = ckpt_dir base job n \<and>
           (map_of (snd pd) MANIFEST \<noteq> None \<longrightarrow> (\<exists>r. complete_ref job pd = Some r \<and> cr_step r = n)))"
    using assms(2) unfolding well_named_def by auto
  ultimately show ?thesis unfolding well_named_def fs' using new by auto
qed

lemma foldl_better_increasing:
  "sorted_wrt (\<lambda>x y. cr_step x < cr_step y) rs \<Longrightarrow> rs \<noteq> [] \<Longrightarrow> foldl better None (map Some rs) = Some (last rs)"
proof (induction rs rule: rev_induct)
  case (snoc r rs)
  show ?case
  proof (cases "rs = []")
    case False
    have "cr_step (last rs) < cr_step r" using snoc.prems(1) False by (simp add: sorted_wrt_append)
    moreover have "foldl better None (map Some rs) = Some (last rs)" using snoc False by (simp add: sorted_wrt_append)
    moreover have "better (Some x) (Some r) = Some r" if "cr_step x < cr_step r" for x using that by (simp add: better_def)
    ultimately show ?thesis by simp
  qed (simp add: better_def)
qed simp

lemma manifest_needed: "complete_ref job pd \<noteq> None \<Longrightarrow> map_of (snd pd) MANIFEST \<noteq> None"
  by (auto simp: complete_ref_def split: option.splits)

lemma visible_sorted:
  assumes "well_named base fs job"
  defines "C \<equiv> sort_key fst (visible base fs job)"
  shows "filter (\<lambda>(_, d). map_of d MANIFEST \<noteq> None) (job_dirs base fs job) = C"
    and "sorted_wrt (\<lambda>x y. fst x < fst y) C"
    and "sorted_wrt (\<lambda>x y. cr_step x < cr_step y) (map (the \<circ> complete_ref job) C)"
proof -
  have vis: "visible base fs job = filter (\<lambda>pd. is_child (job_prefix base job) (fst pd) \<and> map_of (snd pd) MANIFEST \<noteq> None) fs"
    unfolding visible_def
  proof (rule filter_cong [OF refl])
    fix pd assume "pd \<in> set fs"
    then show "(is_child (job_prefix base job) (fst pd) \<and> complete_ref job pd \<noteq> None) =
        (is_child (job_prefix base job) (fst pd) \<and> map_of (snd pd) MANIFEST \<noteq> None)"
      using assms(1) manifest_needed [of job pd] unfolding well_named_def by blast
  qed
  show "filter (\<lambda>(_, d). map_of d MANIFEST \<noteq> None) (job_dirs base fs job) = C"
    by (simp add: C_def vis job_dirs_def filter_sort split_def conj_commute)
  have "distinct (map fst (visible base fs job))" using assms(1) by (simp add: visible_def well_named_def distinct_map_filter)
  then have dist: "distinct (map fst C)" unfolding C_def by (simp add: distinct_map)
  have "sorted (map fst C)" unfolding C_def by simp
  then have lt: "sorted_wrt (<) (map fst C)" using dist by (simp add: strict_sorted_iff)
  then show "sorted_wrt (\<lambda>x y. fst x < fst y) C" by (simp add: sorted_wrt_map)
  have named: "\<exists>n r. 0 \<le> n \<and> n < 10 ^ 12 \<and> fst pd = ckpt_dir base job n \<and> complete_ref job pd = Some r \<and> cr_step r = n"
    if "pd \<in> set C" for pd
    using that assms(1) unfolding C_def vis well_named_def by (auto split: prod.splits)
  have "cr_step (the (complete_ref job x)) < cr_step (the (complete_ref job y))"
    if "x \<in> set C" "y \<in> set C" "fst x < fst y" for x y
    using named [OF that(1)] named [OF that(2)] that(3) ckpt_dir_less by fastforce
  then show "sorted_wrt (\<lambda>x y. cr_step x < cr_step y) (map (the \<circ> complete_ref job) C)"
    using \<open>sorted_wrt (\<lambda>x y. fst x < fst y) C\<close> by (auto simp: sorted_wrt_map intro: sorted_wrt_mono_rel [rotated])
qed

lemma filter_not_taken:
  assumes "distinct (map f xs)"
  shows "filter (\<lambda>x. f x \<notin> set (take k (map f xs))) xs = drop k xs"
proof -
  have split: "xs = take k xs @ drop k xs" by simp
  have "filter (\<lambda>x. f x \<notin> set (take k (map f xs))) (take k xs) = []"
    by (auto simp: filter_empty_conv take_map)
  moreover have "set (map f (take k xs)) \<inter> set (map f (drop k xs)) = {}"
    using assms by (metis append_take_drop_id distinct_append map_append)
  then have "filter (\<lambda>x. f x \<notin> set (take k (map f xs))) (drop k xs) = drop k xs"
    by (auto simp: filter_id_conv take_map)
  ultimately show ?thesis by (subst split, subst filter_append) simp
qed

text \<open>
  Pruning never throws away the checkpoint a job would resume from: with anything positive to keep,
  the newest complete checkpoint is still the newest complete one, at most that many complete ones are
  left, and no directory of another job is touched.
\<close>

theorem prune_keeps_newest:
  assumes "well_named base fs job" and "0 < keep" and "ckpt_prune base fs job keep = (removed, fs')"
  shows "ckpt_latest base fs' job = ckpt_latest base fs job \<and>
    int (length (visible base fs' job)) \<le> keep \<and>
    length (visible base fs' job) + removed = length (visible base fs job) \<and>
    (\<forall>pd\<in>set fs. \<not> is_child (job_prefix base job) (fst pd) \<longrightarrow> pd \<in> set fs')"
proof -
  define C where "C = sort_key fst (visible base fs job)"
  note V = visible_sorted [OF assms(1), folded C_def]
  let ?k = "length C - nat keep"
  let ?doomed = "take ?k (map fst C)"
  have doomed: "pruned_dirs base fs job keep = ?doomed" using assms(2) V(1) by (simp add: pruned_dirs_def Let_def)
  have removed: "removed = ?k" and fs': "fs' = filter (\<lambda>(p, _). p \<notin> set ?doomed) fs"
    using assms(3) unfolding ckpt_prune_def Let_def doomed by auto
  have "sorted_wrt (<) (map fst C)" using V(2) by (simp add: sorted_wrt_map)
  then have dist: "distinct (map fst C)" by (simp add: strict_sorted_iff)
  have vis: "visible base fs' job = filter (\<lambda>pd. fst pd \<notin> set ?doomed) (visible base fs job)"
    unfolding visible_def fs' by (simp add: split_def conj_ac)
  have "sort_key fst (visible base fs' job) = filter (\<lambda>pd. fst pd \<notin> set ?doomed) C"
    unfolding vis C_def by (rule filter_sort [symmetric])
  also have "\<dots> = drop ?k C" by (rule filter_not_taken [OF dist])
  finally have C': "sort_key fst (visible base fs' job) = drop ?k C" .
  have refs: "map (complete_ref job) (drop i C) = map Some (drop i (map (the \<circ> complete_ref job) C))" for i
  proof -
    have "complete_ref job x = Some (the (complete_ref job x))" if "x \<in> set (drop i C)" for x
      using set_drop_subset that unfolding C_def by (fastforce simp: visible_def)
    then show ?thesis by (simp add: drop_map)
  qed
  let ?rs = "map (the \<circ> complete_ref job) C"
  have run: "foldl better None (map (complete_ref job) (drop i C)) = (if drop i C = [] then None else Some (last ?rs))" for i
    using foldl_better_increasing [of "drop i ?rs"] V(3) unfolding refs
    by (auto simp: sorted_wrt_drop)
  have "drop ?k C = [] \<longleftrightarrow> C = []" using assms(2) by (cases C) auto
  then have "ckpt_latest base fs' job = ckpt_latest base fs job"
    using run [of ?k] run [of 0] unfolding latest_visible C' C_def [symmetric] by simp
  moreover have len: "length (visible base fs' job) = length C - ?k" using C' by (metis length_drop length_sort)
  moreover have "length C = length (visible base fs job)" by (simp add: C_def)
  moreover have "pd \<in> set fs'" if "pd \<in> set fs" "\<not> is_child (job_prefix base job) (fst pd)" for pd
  proof -
    have "p \<notin> set ?doomed" if "\<not> is_child (job_prefix base job) p" for p
      using set_take_subset that unfolding C_def by (fastforce simp: visible_def)
    then show ?thesis using that fs' by auto
  qed
  ultimately show ?thesis using removed assms(2) by auto
qed

subsection \<open>A store with two checkpoints\<close>

definition demo_state :: "int \<Rightarrow> directory" where
  "demo_state n = [(''state.json'', State n (n * 2))]"

definition demo_fs1 :: ckpt_fs where
  "demo_fs1 = run_ops (put_ops (\<lambda>_. 10) ''ck'' [] ''a'' 5 (demo_state 5) 0) []"

definition demo_fs2 :: ckpt_fs where
  "demo_fs2 = run_ops (put_ops (\<lambda>_. 10) ''ck'' demo_fs1 ''a'' 7 (demo_state 7) 0) demo_fs1"

lemma demo_puts:
  "\<exists>r. ckpt_put (\<lambda>_. 10) ''ck'' [] ''a'' 5 (Some (demo_state 5)) 0 = Inr (r, demo_fs1)"
  "\<exists>r. ckpt_put (\<lambda>_. 10) ''ck'' demo_fs1 ''a'' 7 (Some (demo_state 7)) 0 = Inr (r, demo_fs2)"
  by (simp_all add: ckpt_put_def demo_fs1_def demo_fs2_def)

lemma demo_epoch: "civil_date (0 div 86400000000) = (1970, 1, 1)"
  by code_simp

lemma demo_names: "distinct (map fst (demo_state n))" "MANIFEST \<notin> set (map fst (demo_state n))"
  by (simp_all add: demo_state_def MANIFEST_def)

lemma demo_well_named: "well_named ''ck'' demo_fs1 ''a''" "well_named ''ck'' demo_fs2 ''a''"
proof -
  have "well_named ''ck'' [] ''a''" by (simp add: well_named_def)
  then show one: "well_named ''ck'' demo_fs1 ''a''"
    using demo_puts(1) put_well_named [OF _ _ _ _ demo_names demo_epoch] by fastforce
  show "well_named ''ck'' demo_fs2 ''a''"
    using demo_puts(2) put_well_named [OF _ one _ _ demo_names demo_epoch] by fastforce
qed


theorem checkpoint_round_trip_witness:
  "\<exists>ref restored. ckpt_put (\<lambda>_. 10) ''ck'' demo_fs1 ''a'' 7 (Some (demo_state 7)) 0 = Inr (ref, demo_fs2) \<and>
     ckpt_latest ''ck'' demo_fs2 ''a'' = Some ref \<and> ckpt_fetch demo_fs2 ref = Inr restored \<and>
     map_of restored = map_of (demo_state 7)"
proof -
  obtain ref where p: "ckpt_put (\<lambda>_. 10) ''ck'' demo_fs1 ''a'' 7 (Some (demo_state 7)) 0 = Inr (ref, demo_fs2)"
    using demo_puts(2) by blast
  have "ckpt_latest ''ck'' demo_fs1 ''a'' = Some \<lparr>cr_job = ''a'', cr_step = 5, cr_key = ckpt_dir ''ck'' ''a'' 5, cr_written_at = 0,
      cr_files = [''state.json''], cr_bytes = 10\<rparr>" by code_simp
  from latest_spec(1) [OF this] have "\<forall>r\<in>complete_refs ''ck'' demo_fs1 ''a''. cr_step r < 7" by auto
  from checkpoint_round_trip [OF p demo_names this demo_epoch] p show ?thesis by auto
qed

theorem prune_keeps_newest_witness:
  "well_named ''ck'' demo_fs2 ''a'' \<and> fst (ckpt_prune ''ck'' demo_fs2 ''a'' 1) = 1 \<and>
   ckpt_latest ''ck'' (snd (ckpt_prune ''ck'' demo_fs2 ''a'' 1)) ''a'' = ckpt_latest ''ck'' demo_fs2 ''a''"
proof -
  have one: "fst (ckpt_prune ''ck'' demo_fs2 ''a'' 1) = 1" by code_simp
  show ?thesis using one demo_well_named(2) prune_keeps_newest [OF demo_well_named(2), of 1] by (metis prod.collapse zero_less_one)
qed

end
