(* ===== verification/PyText.thy ===== *)
theory PyText
  imports Iso
begin

text \<open>
  The methods of Python's \<open>str\<close> that the code parses text with, on the characters a \<^typ>\<open>char\<close> can be
  (code points below 256): \<open>strip\<close>, \<open>splitlines\<close>, \<open>split\<close>, \<open>partition\<close>, \<open>startswith\<close>, \<open>removeprefix\<close>,
  \<open>isdigit\<close>, \<open>isalnum\<close>, \<open>replace\<close> of a character, \<open>join\<close>, and the number readers \<open>int\<close> and \<open>float\<close>.
\<close>

subsection \<open>Characters\<close>

abbreviation code :: "char \<Rightarrow> nat" where
  "code c \<equiv> of_char c"

definition py_space :: "char \<Rightarrow> bool" where
  "py_space c = (9 \<le> code c \<and> code c \<le> 13 \<or> 28 \<le> code c \<and> code c \<le> 32 \<or> code c = 133 \<or> code c = 160)"

text \<open>Where \<open>splitlines\<close> breaks a text.\<close>

definition line_break :: "char \<Rightarrow> bool" where
  "line_break c = (10 \<le> code c \<and> code c \<le> 13 \<or> 28 \<le> code c \<and> code c \<le> 30 \<or> code c = 133)"

definition py_digit :: "char \<Rightarrow> bool" where
  "py_digit c = (48 \<le> code c \<and> code c \<le> 57 \<or> code c = 178 \<or> code c = 179 \<or> code c = 185)"

definition ascii_letter :: "char \<Rightarrow> bool" where
  "ascii_letter c = (65 \<le> code c \<and> code c \<le> 90 \<or> 97 \<le> code c \<and> code c \<le> 122)"

definition py_alnum :: "char \<Rightarrow> bool" where
  "py_alnum c = (ascii_letter c \<or> py_digit c \<or> code c \<in> {170, 181, 186, 188, 189, 190} \<or>
     192 \<le> code c \<and> code c \<noteq> 215 \<and> code c \<noteq> 247)"

subsection \<open>Taking text apart\<close>

definition strip :: "string \<Rightarrow> string" where
  "strip s = rev (dropWhile py_space (rev (dropWhile py_space s)))"

fun split_lines :: "string \<Rightarrow> string \<Rightarrow> string list" where
  "split_lines acc [] = (if acc = [] then [] else [rev acc])"
| "split_lines acc (c # cs) =
     (if code c = 13 \<and> cs \<noteq> [] \<and> code (hd cs) = 10 then rev acc # split_lines [] (tl cs)
      else if line_break c then rev acc # split_lines [] cs
      else split_lines (c # acc) cs)"

definition splitlines :: "string \<Rightarrow> string list" where
  "splitlines s = split_lines [] s"

text \<open>\<open>s.split(sep)\<close> for a separator of one character.\<close>

fun split_at :: "char \<Rightarrow> string \<Rightarrow> string \<Rightarrow> string list" where
  "split_at sep acc [] = [rev acc]"
| "split_at sep acc (c # cs) = (if c = sep then rev acc # split_at sep [] cs else split_at sep (c # acc) cs)"

text \<open>\<open>s.split()\<close>: runs of white space separate, none at the ends.\<close>

fun split_space :: "string \<Rightarrow> string \<Rightarrow> string list" where
  "split_space acc [] = (if acc = [] then [] else [rev acc])"
| "split_space acc (c # cs) =
     (if py_space c then (if acc = [] then split_space [] cs else rev acc # split_space [] cs)
      else split_space (c # acc) cs)"

text \<open>\<open>s.partition(sep)\<close> without the separator: the text before the first one and the text after it.\<close>

definition partition_at :: "char \<Rightarrow> string \<Rightarrow> string \<times> string" where
  "partition_at sep s = (takeWhile (\<lambda>c. c \<noteq> sep) s, drop 1 (dropWhile (\<lambda>c. c \<noteq> sep) s))"

definition starts_with :: "string \<Rightarrow> string \<Rightarrow> bool" where
  "starts_with s p = (take (length p) s = p)"

definition ends_with :: "string \<Rightarrow> string \<Rightarrow> bool" where
  "ends_with s p = (length p \<le> length s \<and> drop (length s - length p) s = p)"

definition remove_prefix :: "string \<Rightarrow> string \<Rightarrow> string" where
  "remove_prefix s p = (if starts_with s p then drop (length p) s else s)"

definition remove_suffix :: "string \<Rightarrow> string \<Rightarrow> string" where
  "remove_suffix s p = (if p \<noteq> [] \<and> ends_with s p then take (length s - length p) s else s)"

definition is_digits :: "string \<Rightarrow> bool" where
  "is_digits s = (s \<noteq> [] \<and> list_all py_digit s)"

fun join_with :: "string \<Rightarrow> string list \<Rightarrow> string" where
  "join_with sep [] = []"
| "join_with sep [x] = x"
| "join_with sep (x # y # zs) = x @ sep @ join_with sep (y # zs)"

text \<open>\<open>repr(s)\<close>: in single quotes unless the text has one and no double quote; what is not printable is
  escaped.\<close>

definition hex_digit :: "nat \<Rightarrow> char" where
  "hex_digit n = ''0123456789abcdef'' ! n"

definition repr_char :: "char \<Rightarrow> char \<Rightarrow> string" where
  "repr_char q c =
     (if c = q \<or> code c = 92 then [CHR 0x5C, c]
      else if code c = 10 then [CHR 0x5C, CHR ''n'']
      else if code c = 13 then [CHR 0x5C, CHR ''r'']
      else if code c = 9 then [CHR 0x5C, CHR ''t'']
      else if code c < 32 \<or> 127 \<le> code c \<and> code c \<le> 160 \<or> code c = 173
      then [CHR 0x5C, CHR ''x'', hex_digit (code c div 16), hex_digit (code c mod 16)]
      else [c])"

definition py_repr :: "string \<Rightarrow> string" where
  "py_repr s =
     (let q = (if CHR 0x27 \<in> set s \<and> CHR 0x22 \<notin> set s then CHR 0x22 else CHR 0x27)
      in [q] @ concat (map (repr_char q) s) @ [q])"

subsection \<open>Numbers\<close>

text \<open>A run of decimal digits with single underscores between them: its value, how many digits, and the
  rest.\<close>

fun digit_run :: "int \<Rightarrow> nat \<Rightarrow> string \<Rightarrow> int \<times> nat \<times> string" where
  "digit_run acc n [] = (acc, n, [])"
| "digit_run acc n (c # cs) =
     (case digit_of c of
        Some d \<Rightarrow> digit_run (acc * 10 + d) (Suc n) cs
      | None \<Rightarrow>
          (if c = CHR ''_'' \<and> 0 < n \<and> cs \<noteq> [] \<and> digit_of (hd cs) \<noteq> None then digit_run acc n cs else (acc, n, c # cs)))"

definition signed :: "string \<Rightarrow> bool \<times> string" where
  "signed s =
     (case s of
        c # cs \<Rightarrow> if c = CHR ''-'' then (True, cs) else if c = CHR ''+'' then (False, cs) else (False, s)
      | [] \<Rightarrow> (False, s))"

text \<open>\<open>int(s)\<close>; \<^const>\<open>None\<close> is a ValueError.\<close>

definition int_of_text :: "string \<Rightarrow> int option" where
  "int_of_text s =
     (case signed (strip s) of (neg, t) \<Rightarrow>
        (case digit_run 0 0 t of (v, n, rest) \<Rightarrow>
           if 0 < n \<and> rest = [] then Some (if neg then - v else v) else None))"

datatype float_text = Fin (fin: real) | Infinite bool | NaN | NotFloat

text \<open>\<open>s.lower()\<close>.\<close>

definition text_lower :: "string \<Rightarrow> string" where
  "text_lower s =
     map (\<lambda>c. if 65 \<le> code c \<and> code c \<le> 90 \<or> 192 \<le> code c \<and> code c \<le> 222 \<and> code c \<noteq> 215
              then char_of (code c + 32) else c) s"

definition scale10 :: "real \<Rightarrow> int \<Rightarrow> real" where
  "scale10 x e = (if 0 \<le> e then x * 10 ^ nat e else x / 10 ^ nat (- e))"

text \<open>The exponent part: \<^const>\<open>None\<close> when the text is malformed.\<close>

definition exponent_of :: "string \<Rightarrow> int option" where
  "exponent_of s =
     (case s of
        [] \<Rightarrow> Some 0
      | c # cs \<Rightarrow>
          if c = CHR ''e'' \<or> c = CHR ''E''
          then (case signed cs of (neg, t) \<Rightarrow>
                  (case digit_run 0 0 t of (v, n, rest) \<Rightarrow>
                     if 0 < n \<and> rest = [] then Some (if neg then - v else v) else None))
          else None)"

definition unsigned_float :: "string \<Rightarrow> real option" where
  "unsigned_float s =
     (case digit_run 0 0 s of (a, n, r1) \<Rightarrow>
        (case (if r1 \<noteq> [] \<and> hd r1 = CHR ''.'' then digit_run 0 0 (tl r1) else (0, 0, r1)) of (b, m, r2) \<Rightarrow>
           if n + m = 0 then None
           else map_option (\<lambda>e. scale10 (of_int a + of_int b / 10 ^ m) e) (exponent_of r2)))"

text \<open>\<open>float(s)\<close>.\<close>

definition float_of_text :: "string \<Rightarrow> float_text" where
  "float_of_text s =
     (case signed (strip s) of (neg, t) \<Rightarrow>
        (if text_lower t = ''inf'' \<or> text_lower t = ''infinity'' then Infinite neg
         else if text_lower t = ''nan'' then NaN
         else case unsigned_float t of None \<Rightarrow> NotFloat | Some x \<Rightarrow> Fin (if neg then - x else x)))"

text \<open>\<open>int(x)\<close> of a float truncates towards zero.\<close>

definition py_int :: "pyfloat \<Rightarrow> int" where
  "py_int x = (if x < 0 then \<lceil>x\<rceil> else \<lfloor>x\<rfloor>)"

end
