(* ===== verification/Fake.thy ===== *)
theory Fake
  imports Checkpoint Admission Backend PyText
begin

text \<open>
  \<^verbatim>\<open>gpu_broker/backends/fake.py\<close>: the simulated backend. Its machines, their logs and the checkpoints
  their jobs write are the external state; the clock is the time each operation is given. What a job is
  going to do is scripted in advance. The state file holds exactly the machines and the counter, so a
  restart of the broker forgets the scripts and the scripted utilization and nothing else.
\<close>

subsection \<open>State\<close>

record fake_plan =
  pl_run_hours :: "pyfloat option"
  pl_outcome :: backend_status
  pl_exit_code :: int
  pl_launch_error :: "string option"
  pl_detail :: "string option"
  pl_total_steps :: int
  pl_checkpoint_every :: int

definition default_plan :: fake_plan where
  "default_plan = \<lparr>pl_run_hours = None, pl_outcome = BS_COMPLETED, pl_exit_code = 0, pl_launch_error = None, pl_detail = None,
     pl_total_steps = 0, pl_checkpoint_every = 0\<rparr>"

record fake_resource =
  fr_handle :: string
  fr_job :: string
  fr_user :: string
  fr_gpu_type :: string
  fr_launched_at :: pyfloat
  fr_ready_at :: pyfloat
  fr_finish_at :: pyfloat
  fr_outcome :: backend_status
  fr_exit_code :: int
  fr_tags :: tags
  fr_logs :: "(string \<times> string) list"
  fr_terminated :: bool
  fr_terminate_reason :: "string option"
  fr_logged_start :: bool
  fr_total_steps :: int
  fr_checkpoint_every :: int
  fr_start_step :: int
  fr_start_value :: int
  fr_last_saved :: int

text \<open>The constructor's arguments; \<open>fc_checkpoints\<close> is the root of the checkpoint store, if there is
  one, and \<open>fc_size_of\<close> the size of a file in it.\<close>

record fake_config =
  fc_name :: string
  fc_currency :: currency
  fc_capacity :: "(string \<times> int) list"
  fc_startup_seconds :: pyfloat
  fc_tier :: string
  fc_checkpoints :: "string option"
  fc_size_of :: "content \<Rightarrow> int"

record fake_state =
  fk_plans :: "(string \<times> fake_plan) list"
  fk_utilization :: "(string \<times> pyfloat) list"
  fk_resources :: "(string \<times> fake_resource) list"
  fk_counter :: nat
  fk_ckpts :: ckpt_fs

definition fake_supports :: "fake_config \<Rightarrow> string \<Rightarrow> bool" where
  "fake_supports cfg gpu = (map_of (fc_capacity cfg) gpu \<noteq> None)"

definition plan_for :: "fake_state \<Rightarrow> string \<Rightarrow> fake_plan" where
  "plan_for st jid = (case map_of (fk_plans st) jid of Some p \<Rightarrow> p | None \<Rightarrow> default_plan)"

definition set_plan :: "string \<Rightarrow> fake_plan \<Rightarrow> fake_state \<Rightarrow> fake_state" where
  "set_plan jid p st = st\<lparr>fk_plans := AList.update jid p (fk_plans st)\<rparr>"

definition set_utilization :: "string \<Rightarrow> pyfloat \<Rightarrow> fake_state \<Rightarrow> fake_state" where
  "set_utilization jid percent st = st\<lparr>fk_utilization := AList.update jid percent (fk_utilization st)\<rparr>"

text \<open>What \<open>_load\<close> finds after the process has been restarted.\<close>

definition fake_restart :: "fake_state \<Rightarrow> fake_state" where
  "fake_restart st = st\<lparr>fk_plans := [], fk_utilization := []\<rparr>"

definition put_resource :: "fake_resource \<Rightarrow> fake_state \<Rightarrow> fake_state" where
  "put_resource r st = st\<lparr>fk_resources := AList.update (fr_handle r) r (fk_resources st)\<rparr>"

definition is_finished :: "moment \<Rightarrow> fake_resource \<Rightarrow> bool" where
  "is_finished now r = (fr_terminated r \<or> total_seconds now \<ge> fr_finish_at r)"

definition in_use :: "string \<Rightarrow> moment \<Rightarrow> fake_state \<Rightarrow> int" where
  "in_use gpu now st =
     int (length (filter (\<lambda>(_, r). fr_gpu_type r = gpu \<and> \<not> is_finished now r) (fk_resources st)))"

definition free_slots :: "fake_config \<Rightarrow> string \<Rightarrow> moment \<Rightarrow> fake_state \<Rightarrow> int" where
  "free_slots cfg gpu now st =
     (case map_of (fc_capacity cfg) gpu of None \<Rightarrow> 0 | Some cap \<Rightarrow> max 0 (cap - in_use gpu now st))"

subsection \<open>Simulated work\<close>

definition steps_done :: "moment \<Rightarrow> fake_resource \<Rightarrow> int" where
  "steps_done now r =
     (if fr_total_steps r \<le> 0 then 0
      else
        (let span = max (fr_finish_at r - fr_ready_at r) (1 / 1000000000);
             elapsed = total_seconds now - fr_ready_at r;
             fraction = min (max (elapsed / span) 0) 1
         in fr_start_step r + py_int (fraction * of_int (fr_total_steps r - fr_start_step r))))"

text \<open>\<open>sum(range(a, b))\<close>.\<close>

definition sum_range :: "int \<Rightarrow> int \<Rightarrow> int" where
  "sum_range a b = sum_list [a..b - 1]"

definition value_at :: "fake_resource \<Rightarrow> int \<Rightarrow> int" where
  "value_at r step = fr_start_value r + sum_range (fr_start_step r) step"

definition STATE_FILE :: string where
  "STATE_FILE = ''state.json''"

text \<open>\<open>_save\<close>: write the state file as a checkpoint, unless this attempt has saved as much before.\<close>

definition fake_save :: "fake_config \<Rightarrow> moment \<Rightarrow> fake_resource \<Rightarrow> int \<Rightarrow> fake_state \<Rightarrow> fake_resource \<times> fake_state" where
  "fake_save cfg now r step st =
     (case fc_checkpoints cfg of
        None \<Rightarrow> (r, st)
      | Some base \<Rightarrow>
          if step \<le> fr_last_saved r then (r, st)
          else
            (case ckpt_put (fc_size_of cfg) base (fk_ckpts st) (fr_job r) step
                    (Some [(STATE_FILE, State step (value_at r step))]) now of
               Inl _ \<Rightarrow> (r, st)
             | Inr (_, fs) \<Rightarrow>
                 (let r' = r\<lparr>fr_last_saved := step\<rparr> in (r', put_resource r' (st\<lparr>fk_ckpts := fs\<rparr>)))))"

definition maybe_checkpoint :: "fake_config \<Rightarrow> moment \<Rightarrow> fake_resource \<Rightarrow> fake_state \<Rightarrow> fake_resource \<times> fake_state" where
  "maybe_checkpoint cfg now r st =
     (if fr_checkpoint_every r \<le> 0 \<or> fr_total_steps r \<le> 0 then (r, st)
      else
        (let boundary = (steps_done now r div fr_checkpoint_every r) * fr_checkpoint_every r
         in if boundary > fr_last_saved r \<and> boundary > fr_start_step r then fake_save cfg now r boundary st else (r, st)))"

text \<open>\<open>_restore\<close>: where the newest checkpoint left off. An unreadable state file counts as none; a
  checkpoint that cannot be fetched raises.\<close>

definition saved_state :: "fake_config \<Rightarrow> string \<Rightarrow> fake_state \<Rightarrow> (error, (int \<times> int) option) result" where
  "saved_state cfg jid st =
     (case fc_checkpoints cfg of
        None \<Rightarrow> Inr None
      | Some base \<Rightarrow>
          (case ckpt_latest base (fk_ckpts st) jid of
             None \<Rightarrow> Inr None
           | Some ref \<Rightarrow>
               (case ckpt_fetch (fk_ckpts st) ref of
                  Inl e \<Rightarrow> Inl e
                | Inr d \<Rightarrow> (case map_of d STATE_FILE of Some (State s v) \<Rightarrow> Inr (Some (s, v)) | _ \<Rightarrow> Inr None))))"

definition restore :: "fake_config \<Rightarrow> string \<Rightarrow> fake_state \<Rightarrow> (error, int \<times> int) result" where
  "restore cfg jid st =
     (case saved_state cfg jid st of Inl e \<Rightarrow> Inl e | Inr None \<Rightarrow> Inr (0, 0) | Inr (Some sv) \<Rightarrow> Inr sv)"

definition final_value :: "fake_config \<Rightarrow> string \<Rightarrow> fake_state \<Rightarrow> (error, int option) result" where
  "final_value cfg jid st =
     (case saved_state cfg jid st of Inl e \<Rightarrow> Inl e | Inr None \<Rightarrow> Inr None | Inr (Some (s, v)) \<Rightarrow> Inr (Some v))"

subsection \<open>The protocol\<close>

definition fake_handle :: "fake_config \<Rightarrow> nat \<Rightarrow> string" where
  "fake_handle cfg n = fc_name cfg @ ''-'' @ pad_left 4 (show_nat n)"

definition launch_refusal :: "fake_config \<Rightarrow> job \<Rightarrow> moment \<Rightarrow> fake_state \<Rightarrow> error option" where
  "launch_refusal cfg j now st =
     (if \<not> fake_supports cfg (j_gpu_type j)
      then Some (BackendError (fc_name cfg @ '' has no '' @ j_gpu_type j @ '' capacity configured''))
      else if free_slots cfg (j_gpu_type j) now st \<le> 0
      then Some (BackendError (fc_name cfg @ '' has no free '' @ j_gpu_type j @ '' slots''))
      else if truthy (pl_launch_error (plan_for st (j_id j)))
      then Some (BackendError (the (pl_launch_error (plan_for st (j_id j)))))
      else None)"

definition run_seconds :: "fake_plan \<Rightarrow> job \<Rightarrow> pyfloat" where
  "run_seconds p j = (case pl_run_hours p of Some h \<Rightarrow> h | None \<Rightarrow> j_requested_hours j) * 3600"

definition fake_launch :: "fake_config \<Rightarrow> job \<Rightarrow> (fake_state, allocation) ext_op" where
  "fake_launch cfg j now st =
     (case launch_refusal cfg j now st of
        Some e \<Rightarrow> (Inl e, st)
      | None \<Rightarrow>
          (case restore cfg (j_id j) st of
             Inl e \<Rightarrow> (Inl e, st)
           | Inr (start_step, start_value) \<Rightarrow>
               (let p = plan_for st (j_id j); n = fk_counter st + 1; handle = fake_handle cfg n;
                    epoch = total_seconds now; tags = tags_for j (to_iso now);
                    r = \<lparr>fr_handle = handle, fr_job = j_id j, fr_user = j_user j, fr_gpu_type = j_gpu_type j,
                         fr_launched_at = epoch, fr_ready_at = epoch + fc_startup_seconds cfg,
                         fr_finish_at = epoch + fc_startup_seconds cfg + run_seconds p j,
                         fr_outcome = pl_outcome p, fr_exit_code = pl_exit_code p, fr_tags = tags,
                         fr_logs = [(''broker'', ''launched '' @ handle @ '' ('' @ j_gpu_type j @ '')'')],
                         fr_terminated = False, fr_terminate_reason = None, fr_logged_start = False,
                         fr_total_steps = pl_total_steps p, fr_checkpoint_every = pl_checkpoint_every p,
                         fr_start_step = start_step, fr_start_value = start_value, fr_last_saved = -1\<rparr>
                in (Inr \<lparr>al_handle = handle, al_gpu_type = j_gpu_type j, al_tags = tags\<rparr>,
                    put_resource r (st\<lparr>fk_counter := n\<rparr>)))))"

definition fake_validate_launch :: "fake_config \<Rightarrow> job \<Rightarrow> (fake_state, string) ext_op" where
  "fake_validate_launch cfg j now st =
     (case launch_refusal cfg j now st of
        Some e \<Rightarrow> (Inl e, st)
      | None \<Rightarrow>
          (let p = plan_for st (j_id j); hours = (case pl_run_hours p of Some h \<Rightarrow> h | None \<Rightarrow> j_requested_hours j)
           in (Inr (''would simulate '' @ j_gpu_type j @ '' on '' @ fc_name cfg @ '' for '' @ show_general hours @ ''h''), st)))"

definition fake_validate_terminate :: "string \<Rightarrow> fake_state \<Rightarrow> string" where
  "fake_validate_terminate handle st =
     (if map_of (fk_resources st) handle = None then handle @ '' is already gone'' else ''would terminate '' @ handle)"

definition gone :: "string \<Rightarrow> observation" where
  "gone detail = \<lparr>os_status = BS_GONE, os_exit_code = None, os_detail = Some detail\<rparr>"

definition fake_poll :: "fake_config \<Rightarrow> string \<Rightarrow> (fake_state, observation) ext_op" where
  "fake_poll cfg handle now st =
     (case map_of (fk_resources st) handle of
        None \<Rightarrow> (Inr (gone ''no such handle''), st)
      | Some r \<Rightarrow>
          if fr_terminated r
          then (Inr (gone (if truthy (fr_terminate_reason r) then the (fr_terminate_reason r) else ''terminated'')), st)
          else if total_seconds now < fr_ready_at r
          then (Inr \<lparr>os_status = BS_PENDING, os_exit_code = None, os_detail = Some ''booting''\<rparr>, st)
          else if total_seconds now < fr_finish_at r
          then
            (let (r1, st1) = maybe_checkpoint cfg now r st;
                 st2 = (if \<not> fr_logged_start r1
                        then put_resource (r1\<lparr>fr_logs := fr_logs r1 @ [(''stdout'', take 8 (fr_job r1) @ '': training started'')],
                                fr_logged_start := True\<rparr>) st1
                        else st1)
             in (Inr \<lparr>os_status = BS_RUNNING, os_exit_code = None, os_detail = None\<rparr>, st2))
          else
            (let st1 = (if fr_total_steps r > 0 \<and> fr_outcome r = BS_COMPLETED
                        then snd (fake_save cfg now r (fr_total_steps r) st) else st)
             in (Inr \<lparr>os_status = fr_outcome r, os_exit_code = Some (fr_exit_code r),
                      os_detail = Some (''finished as '' @ status_name (fr_outcome r))\<rparr>, st1)))"

definition closing_line :: "fake_resource \<Rightarrow> string" where
  "closing_line r =
     take 8 (fr_job r) @ '': '' @ map ascii_lower (status_name (fr_outcome r)) @ '' (exit '' @ show_int (fr_exit_code r) @ '')''"

definition fake_fetch_logs :: "fake_config \<Rightarrow> string \<Rightarrow> nat \<Rightarrow> (fake_state, (string \<times> string) list) ext_op" where
  "fake_fetch_logs cfg handle after now st =
     (case map_of (fk_resources st) handle of
        None \<Rightarrow> (Inr [], st)
      | Some r \<Rightarrow>
          (let closes = total_seconds now \<ge> fr_finish_at r \<and> \<not> fr_terminated r \<and>
                 (fr_logs r = [] \<or> snd (last (fr_logs r)) \<noteq> closing_line r);
               r1 = (if closes then r\<lparr>fr_logs := fr_logs r @ [(''stdout'', closing_line r)]\<rparr> else r)
           in (Inr (drop after (fr_logs r1)), if closes then put_resource r1 st else st)))"

definition fake_terminate :: "fake_config \<Rightarrow> string \<Rightarrow> string \<Rightarrow> (fake_state, unit) ext_op" where
  "fake_terminate cfg handle reason now st =
     (case map_of (fk_resources st) handle of
        None \<Rightarrow> (Inr (), st)
      | Some r \<Rightarrow>
          (Inr (), put_resource (r\<lparr>fr_terminated := True, fr_terminate_reason := Some reason,
              fr_logs := fr_logs r @ [(''broker'', ''terminated: '' @ reason)]\<rparr>) st))"

definition fake_sample_utilization :: "fake_config \<Rightarrow> string \<Rightarrow> (fake_state, utilization_sample list) ext_op" where
  "fake_sample_utilization cfg handle now st =
     (case map_of (fk_resources st) handle of
        None \<Rightarrow> (Inr [], st)
      | Some r \<Rightarrow>
          if total_seconds now < fr_ready_at r then (Inr [], st)
          else (Inr [\<lparr>ut_at = total_seconds now,
                      ut_gpu_percent = (case map_of (fk_utilization st) (fr_job r) of Some p \<Rightarrow> p | None \<Rightarrow> 85),
                      ut_memory_mb = 8192\<rparr>], st))"

text \<open>Every machine that is not terminated, each polled on the way.\<close>

fun list_loop :: "fake_config \<Rightarrow> moment \<Rightarrow> (string \<times> fake_resource) list \<Rightarrow> fake_state \<Rightarrow> resource list \<times> fake_state" where
  "list_loop cfg now [] st = ([], st)"
| "list_loop cfg now ((h, r) # rest) st =
     (if fr_terminated r then list_loop cfg now rest st
      else
        (case fake_poll cfg (fr_handle r) now st of
           (Inl _, st1) \<Rightarrow> list_loop cfg now rest st1
         | (Inr obs, st1) \<Rightarrow>
             (case list_loop cfg now rest st1 of
                (rs, st2) \<Rightarrow> (\<lparr>rs_handle = fr_handle r, rs_gpu_type = fr_gpu_type r, rs_status = os_status obs,
                                rs_tags = fr_tags r\<rparr> # rs, st2))))"

definition fake_list_resources :: "fake_config \<Rightarrow> (fake_state, resource list) ext_op" where
  "fake_list_resources cfg now st = (case list_loop cfg now (fk_resources st) st of (rs, st') \<Rightarrow> (Inr rs, st'))"

definition fake_backend :: "fake_config \<Rightarrow> fake_state backend" where
  "fake_backend cfg =
     \<lparr>bk_name = fc_name cfg, bk_currency = fc_currency cfg, bk_tier = Some (fc_tier cfg),
      bk_supports = fake_supports cfg,
      bk_free_slots = (\<lambda>gpu now st. (Inr (free_slots cfg gpu now st), st)),
      bk_launch = fake_launch cfg, bk_start = (\<lambda>_ _ _ st. (Inr (), st)), bk_poll = fake_poll cfg,
      bk_validate_launch = fake_validate_launch cfg, bk_fetch_logs = fake_fetch_logs cfg,
      bk_terminate = fake_terminate cfg, bk_list_resources = fake_list_resources cfg,
      bk_sample_utilization = fake_sample_utilization cfg\<rparr>"

subsection \<open>Taking capacity away\<close>

definition interrupt :: "fake_config \<Rightarrow> string \<Rightarrow> moment \<Rightarrow> fake_state \<Rightarrow> fake_state" where
  "interrupt cfg handle now st =
     (case map_of (fk_resources st) handle of
        None \<Rightarrow> st
      | Some r \<Rightarrow>
          if fr_terminated r then st
          else
            (let step = steps_done now r;
                 (r1, st1) = (if fr_total_steps r > 0 \<and> step > fr_start_step r then fake_save cfg now r step st else (r, st))
             in put_resource (r1\<lparr>fr_finish_at := total_seconds now, fr_outcome := BS_INTERRUPTED,
                  fr_logs := fr_logs r1 @ [(''broker'', ''capacity interrupted at step '' @ show_int step)]\<rparr>) st1))"

definition orphan_handle :: "string \<Rightarrow> fake_state \<Rightarrow> fake_state" where
  "orphan_handle handle st = st\<lparr>fk_resources := AList.delete handle (fk_resources st)\<rparr>"

definition leak :: "fake_config \<Rightarrow> string \<Rightarrow> string \<Rightarrow> string \<Rightarrow> moment \<Rightarrow> fake_state \<Rightarrow> string \<times> fake_state" where
  "leak cfg jid uid gpu now st =
     (let n = fk_counter st + 1; handle = fake_handle cfg n; epoch = total_seconds now;
          r = \<lparr>fr_handle = handle, fr_job = jid, fr_user = uid, fr_gpu_type = gpu, fr_launched_at = epoch,
               fr_ready_at = epoch, fr_finish_at = epoch + 86400, fr_outcome = BS_COMPLETED, fr_exit_code = 0,
               fr_tags = [(''broker-job-id'', jid), (''broker-user'', uid), (''broker-launched-at'', to_iso now)],
               fr_logs = [], fr_terminated = False, fr_terminate_reason = None, fr_logged_start = False,
               fr_total_steps = 0, fr_checkpoint_every = 0, fr_start_step = 0, fr_start_value = 0, fr_last_saved = -1\<rparr>
      in (handle, put_resource r (st\<lparr>fk_counter := n\<rparr>)))"

end
