(* ===== verification/FakeWork.thy ===== *)
theory FakeWork
  imports Fake
begin

text \<open>
  The simulated work of \<^verbatim>\<open>gpu_broker/backends/fake.py\<close> across interruptions. A job adds up its step
  numbers and saves how far it got; an attempt starts from the newest complete checkpoint. The sum
  comes out right only when every step ran exactly once over all attempts, whatever happened in
  between: polls at any moment, interruptions, machines terminated, lost or leaked, and restarts of
  the broker.
\<close>

subsection \<open>Where a checkpoint belongs\<close>

lemma prefix_unique:
  assumes "a @ CHR ''/'' # x = b @ CHR ''/'' # y" and "CHR ''/'' \<notin> set x" and "CHR ''/'' \<notin> set y"
  shows "a = b"
  using assms
proof (induction a arbitrary: b)
  case Nil
  then show ?case by (cases b) auto
next
  case (Cons c a)
  show ?case
  proof (cases b)
    case Nil
    then show ?thesis using Cons.prems by auto
  next
    case (Cons d b')
    then show ?thesis using Cons.IH [of b'] Cons.prems by simp
  qed
qed

lemma child_of_one_job:
  assumes "is_child (job_prefix base job') (ckpt_dir base job step)"
  shows "job' = job"
proof -
  let ?p = "ckpt_dir base job step"
  obtain y where y: "?p = job_prefix base job' @ y" "CHR ''/'' \<notin> set y"
    using assms unfolding is_child_def by (metis append_take_drop_id)
  have x: "?p = (base @ ''/'' @ job) @ CHR ''/'' # (''step-'' @ show_step step)" by (simp add: ckpt_dir_def job_prefix_def)
  have "(base @ ''/'' @ job) @ CHR ''/'' # (''step-'' @ show_step step) = (base @ ''/'' @ job') @ CHR ''/'' # y"
    using x y(1) by (simp add: job_prefix_def)
  from prefix_unique [OF this] have "base @ ''/'' @ job = base @ ''/'' @ job'" using y(2) show_step_plain by auto
  then show ?thesis by simp
qed

lemma ckpt_dir_inject: "0 \<le> m \<Longrightarrow> 0 \<le> n \<Longrightarrow> ckpt_dir base job m = ckpt_dir base job n \<Longrightarrow> m = n"
proof -
  assume nonneg: "0 \<le> m" "0 \<le> n" and "ckpt_dir base job m = ckpt_dir base job n"
  then have "show_step m = show_step n" unfolding ckpt_dir_def by (simp only: append_same_eq same_append_eq)
  then have "pad_left 12 (show_int m) = pad_left 12 (show_int n)"
    using nonneg unfolding show_step_def by (simp only: not_less [symmetric] if_False)
  then have "Some m = Some n"
    using read_padded [OF nonneg(1), of 12] read_padded [OF nonneg(2), of 12] by (simp only:)
  then show ?thesis by (simp only: option.inject)
qed

text \<open>A moment whose ISO text can be read back.\<close>

definition calendar :: "moment \<Rightarrow> bool" where
  "calendar now \<longleftrightarrow> (case civil_date (now div 86400000000) of (y, _, _) \<Rightarrow> 1 \<le> y \<and> y \<le> 9999)"

lemma calendar_iso: "calendar now \<Longrightarrow> from_iso (to_iso now) = Some now"
  by (auto simp: calendar_def split: prod.splits intro: from_to_iso)

text \<open>The one file a simulated job saves.\<close>

definition progress :: "int \<Rightarrow> int \<Rightarrow> directory" where
  "progress step v = [(STATE_FILE, State step v)]"

lemma put_progress:
  fixes size_of job step v now base
  defines "ref \<equiv> \<lparr>cr_job = job, cr_step = step, cr_key = ckpt_dir base job step, cr_written_at = now,
      cr_files = [STATE_FILE], cr_bytes = size_of (State step v)\<rparr>"
  assumes put: "ckpt_put size_of base fs job step (Some (progress step v)) now = Inr (r, fs')" and cal: "calendar now"
  shows "complete_refs base fs' job = insert ref {r \<in> complete_refs base fs job. cr_key r \<noteq> ckpt_dir base job step}"
    and "job' \<noteq> job \<Longrightarrow> complete_refs base fs' job' = complete_refs base fs job'"
    and "key \<noteq> ckpt_dir base job step \<Longrightarrow> map_of fs' key = map_of fs key"
    and "\<exists>d. map_of fs' (ckpt_dir base job step) = Some d \<and> map_of d MANIFEST \<noteq> None \<and> map_of d STATE_FILE = Some (State step v)"
proof -
  let ?p = "ckpt_dir base job step" and ?old = "filter (\<lambda>(q, _). q \<noteq> ckpt_dir base job step) fs"
  let ?m = "manifest_body [STATE_FILE] step now (size_of (State step v))"
  let ?d = "written_files (progress step v) ?m"
  have fs': "fs' = ?old @ [(?p, ?d)]" using put by (simp add: ckpt_put_def put_result progress_def)
  have names: "distinct (map fst (progress step v))" "MANIFEST \<notin> set (map fst (progress step v))"
    by (simp_all add: progress_def STATE_FILE_def MANIFEST_def)
  note W = written_map_of [OF names]
  have key: "complete_ref j pd = Some r \<Longrightarrow> cr_key r = fst pd" for j pd r
    by (auto simp: complete_ref_def read_manifest_def split: option.splits content.splits)
  have new: "complete_ref job (?p, ?d) = Some ref"
    using calendar_iso [OF cal] by (simp add: complete_ref_def W(1) read_manifest_def manifest_body_def ref_def)
  show "complete_refs base fs' job = insert ref {r \<in> complete_refs base fs job. cr_key r \<noteq> ?p}"
  proof (rule set_eqI)
    fix x
    have "x \<in> complete_refs base fs' job \<longleftrightarrow> x = ref \<or> x \<in> complete_refs base ?old job"
      using new ckpt_dir_child [of base job step] unfolding complete_refs_def fs' by force
    also have "x \<in> complete_refs base ?old job \<longleftrightarrow> x \<in> complete_refs base fs job \<and> cr_key x \<noteq> ?p"
      using key [of job _ x] unfolding complete_refs_def by (simp add: Bex_def split_def) fastforce
    finally show "x \<in> complete_refs base fs' job \<longleftrightarrow> x \<in> insert ref {r \<in> complete_refs base fs job. cr_key r \<noteq> ?p}" by simp
  qed
  show "complete_refs base fs' job' = complete_refs base fs job'" if "job' \<noteq> job"
    using child_of_one_job [of base job' job step] that unfolding complete_refs_def fs' by force
  show "map_of fs' key = map_of fs key" if "key \<noteq> ?p"
  proof -
    have "map_of ?old key = map_of fs key" using that by (induction fs) auto
    then show ?thesis using that by (simp add: fs' map_add_def split: option.splits)
  qed
  have "map_of fs' ?p = Some ?d" unfolding fs' by (rule map_of_last) (auto simp: map_of_eq_None_iff)
  moreover have "map_of ?d STATE_FILE = Some (State step v)" using W(2) [of STATE_FILE] by (simp add: progress_def)
  ultimately show "\<exists>d. map_of fs' ?p = Some d \<and> map_of d MANIFEST \<noteq> None \<and> map_of d STATE_FILE = Some (State step v)"
    using W(1) by simp
qed


subsection \<open>The invariant\<close>

lemma sum_range_sum: "sum_range a b = \<Sum>{a..b - 1}"
  using interv_sum_list_conv_sum_set_int [of id a "b - 1"] by (simp add: sum_range_def)

lemma sum_range_split: "a \<le> b \<Longrightarrow> b \<le> c \<Longrightarrow> sum_range a c = sum_range a b + sum_range b c"
proof -
  assume "a \<le> b" "b \<le> c"
  then have "{a..c - 1} = {a..b - 1} \<union> {b..c - 1}" "{a..b - 1} \<inter> {b..c - 1} = {}" by auto
  then show ?thesis by (simp add: sum_range_sum sum.union_disjoint)
qed

lemma sum_range_refl [simp]: "sum_range a a = 0"
  by (simp add: sum_range_def)

text \<open>\<open>N job\<close> is how many steps the job has in all. Every complete checkpoint lies in its own directory
  and says the sum of the steps it counts.\<close>

definition ref_ok :: "(string \<Rightarrow> int) \<Rightarrow> string \<Rightarrow> ckpt_fs \<Rightarrow> string \<Rightarrow> checkpoint_ref \<Rightarrow> bool" where
  "ref_ok N base fs job ref \<longleftrightarrow> 0 \<le> cr_step ref \<and> cr_step ref \<le> N job \<and>
     cr_key ref = ckpt_dir base job (cr_step ref) \<and> cr_files ref = [STATE_FILE] \<and>
     (\<exists>d. map_of fs (cr_key ref) = Some d \<and> map_of d MANIFEST \<noteq> None \<and>
        map_of d STATE_FILE = Some (State (cr_step ref) (sum_range 0 (cr_step ref))))"

definition attempt_ok :: "(string \<Rightarrow> int) \<Rightarrow> string \<Rightarrow> ckpt_fs \<Rightarrow> fake_resource \<Rightarrow> bool" where
  "attempt_ok N base fs r \<longleftrightarrow> 0 \<le> fr_start_step r \<and> fr_start_step r \<le> N (fr_job r) \<and>
     fr_start_value r = sum_range 0 (fr_start_step r) \<and>
     (0 < fr_total_steps r \<longrightarrow> fr_total_steps r = N (fr_job r)) \<and>
     (0 \<le> fr_last_saved r \<longrightarrow> (\<exists>ref\<in>complete_refs base fs (fr_job r). cr_step ref = fr_last_saved r))"

definition work_inv :: "(string \<Rightarrow> int) \<Rightarrow> string \<Rightarrow> fake_state \<Rightarrow> bool" where
  "work_inv N base st \<longleftrightarrow> (\<forall>job. 0 \<le> N job) \<and>
     (\<forall>job. \<forall>ref\<in>complete_refs base (fk_ckpts st) job. ref_ok N base (fk_ckpts st) job ref) \<and>
     (\<forall>h r. map_of (fk_resources st) h = Some r \<longrightarrow> fr_handle r = h \<and> attempt_ok N base (fk_ckpts st) r) \<and>
     (\<forall>job p. map_of (fk_plans st) job = Some p \<longrightarrow> pl_total_steps p = N job)"

lemma work_invD:
  assumes "work_inv N base st"
  shows "0 \<le> N job"
    and "ref \<in> complete_refs base (fk_ckpts st) job \<Longrightarrow> ref_ok N base (fk_ckpts st) job ref"
    and "map_of (fk_resources st) h = Some r \<Longrightarrow> fr_handle r = h"
    and "map_of (fk_resources st) h = Some r \<Longrightarrow> attempt_ok N base (fk_ckpts st) r"
    and "map_of (fk_plans st) job = Some p \<Longrightarrow> pl_total_steps p = N job"
  using assms by (simp_all add: work_inv_def)

lemma put_resource_map: "map_of (fk_resources (put_resource r st)) = (map_of (fk_resources st))(fr_handle r \<mapsto> r)"
  by (simp add: put_resource_def update_conv')

lemma put_resource_rest [simp]:
  "fk_ckpts (put_resource r st) = fk_ckpts st" "fk_plans (put_resource r st) = fk_plans st"
  "fk_counter (put_resource r st) = fk_counter st" "fk_utilization (put_resource r st) = fk_utilization st"
  by (simp_all add: put_resource_def)

lemma work_inv_put_resource:
  "work_inv N base st \<Longrightarrow> attempt_ok N base (fk_ckpts st) r \<Longrightarrow> work_inv N base (put_resource r st)"
  unfolding work_inv_def put_resource_map put_resource_rest by auto

lemma work_inv_cong:
  "work_inv N base st \<Longrightarrow> fk_ckpts st' = fk_ckpts st \<Longrightarrow> fk_resources st' = fk_resources st \<Longrightarrow>
     fk_plans st' = fk_plans st \<Longrightarrow> work_inv N base st'"
  by (simp add: work_inv_def)

text \<open>What one attempt is about: nothing else about a machine matters here.\<close>

definition same_attempt :: "fake_resource \<Rightarrow> fake_resource \<Rightarrow> bool" where
  "same_attempt r r' \<longleftrightarrow> fr_handle r' = fr_handle r \<and> fr_job r' = fr_job r \<and> fr_start_step r' = fr_start_step r \<and>
     fr_start_value r' = fr_start_value r \<and> fr_total_steps r' = fr_total_steps r \<and> fr_last_saved r' = fr_last_saved r"

lemma same_attempt_ok: "same_attempt r r' \<Longrightarrow> attempt_ok N base fs r' = attempt_ok N base fs r"
  by (simp add: same_attempt_def attempt_ok_def)

lemma value_at_sum:
  "attempt_ok N base fs r \<Longrightarrow> fr_start_step r \<le> step \<Longrightarrow> value_at r step = sum_range 0 step"
  using sum_range_split [of 0 "fr_start_step r" step] by (simp add: attempt_ok_def value_at_def)

subsection \<open>Saving\<close>

lemma ref_ok_put:
  assumes "ref_ok N base fs job' x" and "cr_key x \<noteq> key" and "\<And>k. k \<noteq> key \<Longrightarrow> map_of fs' k = map_of fs k"
  shows "ref_ok N base fs' job' x"
  using assms unfolding ref_ok_def by metis

lemma save_inv:
  assumes "fc_checkpoints cfg = Some base" and inv: "work_inv N base st" and cal: "calendar now"
    and r: "map_of (fk_resources st) h = Some r"
    and bounds: "fr_start_step r \<le> step" "step \<le> N (fr_job r)"
    and save: "fake_save cfg now r step st = (r', st')"
  shows "work_inv N base st'" and "map_of (fk_resources st') h = Some r'"
    and "r' = r\<lparr>fr_last_saved := fr_last_saved r'\<rparr>"
    and "\<exists>ref\<in>complete_refs base (fk_ckpts st') (fr_job r). step \<le> cr_step ref"
    and "fk_plans st' = fk_plans st"
proof -
  note D = work_invD [OF inv]
  have ok: "attempt_ok N base (fk_ckpts st) r" and h: "fr_handle r = h" using D(3,4) r by blast+
  have zero: "0 \<le> step" using ok bounds(1) by (simp add: attempt_ok_def)
  have "work_inv N base st' \<and> map_of (fk_resources st') h = Some r' \<and> r' = r\<lparr>fr_last_saved := fr_last_saved r'\<rparr> \<and>
      (\<exists>ref\<in>complete_refs base (fk_ckpts st') (fr_job r). step \<le> cr_step ref) \<and> fk_plans st' = fk_plans st"
  proof (cases "step \<le> fr_last_saved r")
    case True
    then have "r' = r" "st' = st" using save assms(1) by (simp_all add: fake_save_def)
    moreover have "\<exists>ref\<in>complete_refs base (fk_ckpts st) (fr_job r). step \<le> cr_step ref"
    proof -
      have "0 \<le> fr_last_saved r" using True zero by simp
      then obtain ref where "ref \<in> complete_refs base (fk_ckpts st) (fr_job r)" "cr_step ref = fr_last_saved r"
        using ok unfolding attempt_ok_def by blast
      then show ?thesis using True by (intro bexI [of _ ref]) simp_all
    qed
    ultimately show ?thesis using inv r by simp
  next
    case False
    let ?p = "ckpt_dir base (fr_job r) step"
    obtain ref0 fs where put: "ckpt_put (fc_size_of cfg) base (fk_ckpts st) (fr_job r) step
        (Some (progress step (value_at r step))) now = Inr (ref0, fs)"
      by (simp add: ckpt_put_def)
    have r': "r' = r\<lparr>fr_last_saved := step\<rparr>" and st': "st' = put_resource r' (st\<lparr>fk_ckpts := fs\<rparr>)"
      using save assms(1) False put by (auto simp: fake_save_def progress_def Let_def)
    note P = put_progress [OF put cal]
    have v: "value_at r step = sum_range 0 step" by (rule value_at_sum [OF ok bounds(1)])
    have keep: "\<exists>x\<in>complete_refs base fs job. cr_step x = cr_step ref"
      if "ref \<in> complete_refs base (fk_ckpts st) job" for ref job
    proof (cases "job = fr_job r \<and> cr_key ref = ?p")
      case True
      have "0 \<le> cr_step ref" "ckpt_dir base job (cr_step ref) = ckpt_dir base job step"
        using D(2) [OF that] True unfolding ref_ok_def by metis+
      then have "cr_step ref = step" using ckpt_dir_inject zero by blast
      then show ?thesis using True P(1) by simp
    next
      case False
      then show ?thesis using that P(1,2) by (cases "job = fr_job r") auto
    qed
    have refs: "ref_ok N base fs job x" if "x \<in> complete_refs base fs job" for x job
    proof (cases "job = fr_job r \<and> cr_key x = ?p")
      case True
      then have "cr_step x = step" "cr_files x = [STATE_FILE]" using that P(1) by auto
      then show ?thesis using P(4) v zero bounds(2) True by (simp add: ref_ok_def)
    next
      case False
      then have old: "x \<in> complete_refs base (fk_ckpts st) job" using that P(1,2) by (cases "job = fr_job r") auto
      have "cr_key x \<noteq> ?p"
        using False D(2) [OF old] ckpt_dir_child [of base job "cr_step x"] child_of_one_job [of base job "fr_job r" step]
        by (auto simp: ref_ok_def)
      then show ?thesis using ref_ok_put [OF D(2) [OF old] _ P(3)] by blast
    qed    have att: "attempt_ok N base fs q" if "attempt_ok N base (fk_ckpts st) q" for q
      using that keep unfolding attempt_ok_def by metis
    have new: "\<exists>ref\<in>complete_refs base fs (fr_job r). cr_step ref = step" using P(1) by simp
    have "work_inv N base (st\<lparr>fk_ckpts := fs\<rparr>)" using inv refs att by (auto simp: work_inv_def)
    moreover have "attempt_ok N base fs r'" using att [OF ok] new by (simp add: r' attempt_ok_def)
    ultimately have "work_inv N base st'" unfolding st' by (intro work_inv_put_resource) simp_all
    then show ?thesis using new h by (auto simp: st' put_resource_map r')
  qed
  then show "work_inv N base st'" "map_of (fk_resources st') h = Some r'" "r' = r\<lparr>fr_last_saved := fr_last_saved r'\<rparr>"
    "\<exists>ref\<in>complete_refs base (fk_ckpts st') (fr_job r). step \<le> cr_step ref" "fk_plans st' = fk_plans st" by blast+
qed


subsection \<open>Every operation keeps the invariant\<close>

lemma py_int_bounds:
  assumes "0 \<le> f" and "f \<le> 1" and "0 \<le> n"
  shows "0 \<le> py_int (f * of_int n)" and "py_int (f * of_int n) \<le> n"
proof -
  have "0 \<le> f * of_int n" using assms by simp
  moreover have "f * of_int n \<le> of_int n" using assms by (simp add: mult_left_le_one_le)
  ultimately show "0 \<le> py_int (f * of_int n)" "py_int (f * of_int n) \<le> n"
    by (simp_all add: py_int_def floor_le_iff)
qed

lemma steps_done_bounds:
  assumes "attempt_ok N base fs r" and "0 < fr_total_steps r"
  shows "fr_start_step r \<le> steps_done now r" and "steps_done now r \<le> N (fr_job r)"
proof -
  define f where "f = min (max ((total_seconds now - fr_ready_at r) / max (fr_finish_at r - fr_ready_at r) (1 / 1000000000)) 0) 1"
  have t: "fr_total_steps r = N (fr_job r)" "fr_start_step r \<le> N (fr_job r)" using assms by (simp_all add: attempt_ok_def)
  have s: "steps_done now r = fr_start_step r + py_int (f * of_int (fr_total_steps r - fr_start_step r))"
    using assms(2) by (simp add: steps_done_def f_def Let_def)
  have "0 \<le> f" "f \<le> 1" by (simp_all add: f_def)
  note B = py_int_bounds [OF this, of "fr_total_steps r - fr_start_step r"]
  show "fr_start_step r \<le> steps_done now r" "steps_done now r \<le> N (fr_job r)"
    unfolding s using B t by simp_all
qed

lemma maybe_checkpoint_inv:
  assumes "fc_checkpoints cfg = Some base" and inv: "work_inv N base st" and "calendar now"
    and r: "map_of (fk_resources st) h = Some r" and run: "maybe_checkpoint cfg now r st = (r', st')"
  shows "work_inv N base st'" and "map_of (fk_resources st') h = Some r'" and "r' = r\<lparr>fr_last_saved := fr_last_saved r'\<rparr>"
proof -
  let ?b = "(steps_done now r div fr_checkpoint_every r) * fr_checkpoint_every r"
  have "work_inv N base st' \<and> map_of (fk_resources st') h = Some r' \<and> r' = r\<lparr>fr_last_saved := fr_last_saved r'\<rparr>"
  proof (cases "0 < fr_checkpoint_every r \<and> 0 < fr_total_steps r \<and> ?b > fr_last_saved r \<and> ?b > fr_start_step r")
    case True
    then have save: "fake_save cfg now r ?b st = (r', st')" using run by (simp add: maybe_checkpoint_def Let_def)
    have "?b \<le> steps_done now r" using True by (simp add: minus_mod_eq_div_mult [symmetric])
    moreover have "steps_done now r \<le> N (fr_job r)" using steps_done_bounds(2) [OF work_invD(4) [OF inv r]] True by blast
    ultimately have "?b \<le> N (fr_job r)" by (rule order.trans)
    then show ?thesis using save_inv(1-3) [OF assms(1-3) r _ _ save] True by simp
  next
    case False
    then have "r' = r" "st' = st" using run unfolding maybe_checkpoint_def Let_def by (auto split: if_splits)
    then show ?thesis using inv r by simp
  qed
  then show "work_inv N base st'" "map_of (fk_resources st') h = Some r'" "r' = r\<lparr>fr_last_saved := fr_last_saved r'\<rparr>" by blast+
qed

lemma work_inv_touch:
  assumes "work_inv N base st" and "map_of (fk_resources st) h = Some r" and "same_attempt r r'"
  shows "work_inv N base (put_resource r' st)"
  using work_invD(4) [OF assms(1,2)] same_attempt_ok [OF assms(3)] by (intro work_inv_put_resource assms(1)) simp

lemma poll_inv:
  assumes "fc_checkpoints cfg = Some base" and inv: "work_inv N base st" and "calendar now"
  shows "work_inv N base (snd (fake_poll cfg h now st))"
proof (cases "map_of (fk_resources st) h")
  case None
  then show ?thesis using inv by (simp add: fake_poll_def)
next
  case (Some r)
  note ok = work_invD(4) [OF inv Some]
  obtain r1 st1 where m: "maybe_checkpoint cfg now r st = (r1, st1)" by fastforce
  note M = maybe_checkpoint_inv [OF assms Some m]
  have started: "work_inv N base (put_resource (r1\<lparr>fr_logs := l, fr_logged_start := True\<rparr>) st1)" for l
    by (rule work_inv_touch [OF M(1,2)]) (simp add: same_attempt_def)
  have saved: "work_inv N base (snd (fake_save cfg now r (fr_total_steps r) st))" if "0 < fr_total_steps r"
    using save_inv(1) [OF assms Some, of "fr_total_steps r" "fst (fake_save cfg now r (fr_total_steps r) st)"
        "snd (fake_save cfg now r (fr_total_steps r) st)"] ok that by (simp add: attempt_ok_def)
  show ?thesis using Some inv M(1) started saved by (simp add: fake_poll_def m Let_def)
qed

lemma list_loop_inv:
  assumes "fc_checkpoints cfg = Some base" and "calendar now"
  shows "work_inv N base st \<Longrightarrow> work_inv N base (snd (list_loop cfg now rs st))"
proof (induction rs arbitrary: st)
  case (Cons hr rs)
  obtain h r where hr: "hr = (h, r)" by fastforce
  obtain res st1 where p: "fake_poll cfg (fr_handle r) now st = (res, st1)" by fastforce
  have "work_inv N base st1" using poll_inv [OF assms(1) Cons.prems assms(2), of "fr_handle r"] p by simp
  then have "work_inv N base (snd (list_loop cfg now rs st1))" by (rule Cons.IH)
  moreover obtain out st2 where "list_loop cfg now rs st1 = (out, st2)" by fastforce
  ultimately show ?case using Cons.IH [OF Cons.prems] hr p by (simp split: sum.splits)
qed simp

lemma saved_state_latest:
  assumes "fc_checkpoints cfg = Some base" and inv: "work_inv N base st"
  shows "saved_state cfg job st =
    Inr (map_option (\<lambda>ref. (cr_step ref, sum_range 0 (cr_step ref))) (ckpt_latest base (fk_ckpts st) job))"
proof (cases "ckpt_latest base (fk_ckpts st) job")
  case None
  then show ?thesis using assms(1) by (simp add: saved_state_def)
next
  case (Some ref)
  have "ref \<in> complete_refs base (fk_ckpts st) job" using latest_spec(1) [OF Some] by blast
  then have "ref_ok N base (fk_ckpts st) job ref" by (rule work_invD(2) [OF inv])
  then obtain d where d: "map_of (fk_ckpts st) (cr_key ref) = Some d" "map_of d MANIFEST \<noteq> None" "cr_files ref = [STATE_FILE]"
    "map_of d STATE_FILE = Some (State (cr_step ref) (sum_range 0 (cr_step ref)))" by (auto simp: ref_ok_def)
  then have "ckpt_fetch (fk_ckpts st) ref = Inr [(STATE_FILE, State (cr_step ref) (sum_range 0 (cr_step ref)))]"
    by (simp add: ckpt_fetch_def)
  then show ?thesis using assms(1) Some by (simp add: saved_state_def)
qed

lemma restore_sum:
  assumes "fc_checkpoints cfg = Some base" and inv: "work_inv N base st"
  shows "\<exists>s. restore cfg job st = Inr (s, sum_range 0 s) \<and> 0 \<le> s \<and> s \<le> N job"
proof (cases "ckpt_latest base (fk_ckpts st) job")
  case None
  then show ?thesis using saved_state_latest [OF assms] work_invD(1) [OF inv] by (simp add: restore_def)
next
  case (Some ref)
  then have "ref_ok N base (fk_ckpts st) job ref" using work_invD(2) [OF inv] latest_spec(1) [OF Some] by blast
  then show ?thesis using saved_state_latest [OF assms] Some by (auto simp: restore_def ref_ok_def)
qed

lemma plan_total: "work_inv N base st \<Longrightarrow> 0 < pl_total_steps (plan_for st job) \<Longrightarrow> pl_total_steps (plan_for st job) = N job"
  using work_invD(5) [of N base st job] by (auto simp: plan_for_def default_plan_def split: option.splits)

lemma launch_inv:
  assumes "fc_checkpoints cfg = Some base" and inv: "work_inv N base st"
  shows "work_inv N base (snd (fake_launch cfg j now st))"
proof (cases "launch_refusal cfg j now st")
  case None
  obtain s where s: "restore cfg (j_id j) st = Inr (s, sum_range 0 s)" "0 \<le> s" "s \<le> N (j_id j)"
    using restore_sum [OF assms, of "j_id j"] by blast
  have counted: "work_inv N base (st\<lparr>fk_counter := n\<rparr>)" for n by (rule work_inv_cong [OF inv]) simp_all
  show ?thesis
    unfolding fake_launch_def None s(1) option.case sum.case prod.case Let_def snd_conv
    by (rule work_inv_put_resource [OF counted]) (use s(2,3) plan_total [OF inv, of "j_id j"] in \<open>simp add: attempt_ok_def\<close>)
qed (use inv in \<open>simp add: fake_launch_def\<close>)

lemma fetch_logs_inv: "work_inv N base st \<Longrightarrow> work_inv N base (snd (fake_fetch_logs cfg h after now st))"
  by (cases "map_of (fk_resources st) h")
    (auto simp: fake_fetch_logs_def Let_def same_attempt_def intro: work_inv_touch)

lemma terminate_inv: "work_inv N base st \<Longrightarrow> work_inv N base (snd (fake_terminate cfg h reason now st))"
  by (cases "map_of (fk_resources st) h")
    (auto simp: fake_terminate_def same_attempt_def intro: work_inv_touch)

lemma interrupt_inv:
  assumes "fc_checkpoints cfg = Some base" and inv: "work_inv N base st" and "calendar now"
  shows "work_inv N base (interrupt cfg h now st)"
proof (cases "map_of (fk_resources st) h")
  case None
  then show ?thesis using inv by (simp add: interrupt_def)
next
  case (Some r)
  note B = steps_done_bounds [OF work_invD(4) [OF inv Some], of now]
  define rs where "rs = (if fr_total_steps r > 0 \<and> steps_done now r > fr_start_step r
      then fake_save cfg now r (steps_done now r) st else (r, st))"
  obtain r1 st1 where rs1: "rs = (r1, st1)" by fastforce
  have "work_inv N base st1 \<and> map_of (fk_resources st1) h = Some r1"
  proof (cases "fr_total_steps r > 0 \<and> steps_done now r > fr_start_step r")
    case True
    then have "fake_save cfg now r (steps_done now r) st = (r1, st1)" using rs1 by (simp add: rs_def)
    then show ?thesis using save_inv(1,2) [OF assms Some] B True by blast
  next
    case False
    then have "r1 = r" "st1 = st" using rs1 by (auto simp: rs_def)
    then show ?thesis using inv Some by simp
  qed
  then have "work_inv N base (put_resource (r1\<lparr>fr_finish_at := total_seconds now, fr_outcome := BS_INTERRUPTED,
      fr_logs := fr_logs r1 @ [(''broker'', ''capacity interrupted at step '' @ show_int (steps_done now r))]\<rparr>) st1)"
    by (intro work_inv_touch [of N base st1 h r1]) (simp_all add: same_attempt_def)
  then show ?thesis using Some inv rs1 by (simp add: interrupt_def Let_def rs_def)
qed

lemma bookkeeping_inv:
  assumes "work_inv N base st"
  shows "work_inv N base (orphan_handle h st)" "work_inv N base (snd (leak cfg jid uid gpu now st))"
    "pl_total_steps p = N jid \<Longrightarrow> work_inv N base (set_plan jid p st)"
    "work_inv N base (set_utilization jid percent st)" "work_inv N base (fake_restart st)"
proof -
  show "work_inv N base (orphan_handle h st)"
    using assms by (auto simp: work_inv_def orphan_handle_def delete_conv' split: if_splits)
  have "work_inv N base (st\<lparr>fk_counter := n\<rparr>)" for n by (rule work_inv_cong [OF assms]) simp_all
  then show "work_inv N base (snd (leak cfg jid uid gpu now st))"
    using work_invD(1) [OF assms] unfolding leak_def Let_def snd_conv
    by (intro work_inv_put_resource) (simp_all add: attempt_ok_def)
  show "pl_total_steps p = N jid \<Longrightarrow> work_inv N base (set_plan jid p st)"
    using assms by (auto simp: work_inv_def set_plan_def update_conv')
  show "work_inv N base (set_utilization jid percent st)" by (rule work_inv_cong [OF assms]) (simp_all add: set_utilization_def)
  show "work_inv N base (fake_restart st)" using assms by (simp add: work_inv_def fake_restart_def)
qed

subsection \<open>Runs of the simulated backend\<close>

text \<open>Anything the protocol and the test hooks can do to it, at the present moment, and time passing.
  A job is only ever scripted with the number of steps it has.\<close>

inductive fake_step :: "fake_config \<Rightarrow> (string \<Rightarrow> int) \<Rightarrow> moment \<times> fake_state \<Rightarrow> moment \<times> fake_state \<Rightarrow> bool"
  for cfg :: fake_config and N :: "string \<Rightarrow> int" where
  launches: "fake_step cfg N (now, st) (now, snd (fake_launch cfg j now st))"
| polls: "fake_step cfg N (now, st) (now, snd (fake_poll cfg h now st))"
| fetches: "fake_step cfg N (now, st) (now, snd (fake_fetch_logs cfg h after now st))"
| terminates: "fake_step cfg N (now, st) (now, snd (fake_terminate cfg h reason now st))"
| lists: "fake_step cfg N (now, st) (now, snd (fake_list_resources cfg now st))"
| interrupts: "fake_step cfg N (now, st) (now, interrupt cfg h now st)"
| forgets: "fake_step cfg N (now, st) (now, orphan_handle h st)"
| leaks: "fake_step cfg N (now, st) (now, snd (leak cfg jid uid gpu now st))"
| scripts: "pl_total_steps p = N jid \<Longrightarrow> fake_step cfg N (now, st) (now, set_plan jid p st)"
| reports: "fake_step cfg N (now, st) (now, set_utilization jid percent st)"
| restarts: "fake_step cfg N (now, st) (now, fake_restart st)"
| passes: "now \<le> now' \<Longrightarrow> calendar now' \<Longrightarrow> fake_step cfg N (now, st) (now', st)"

definition fresh_fake :: "fake_state \<Rightarrow> bool" where
  "fresh_fake st \<longleftrightarrow> fk_plans st = [] \<and> fk_resources st = [] \<and> fk_ckpts st = []"

lemma step_work_inv:
  assumes "fake_step cfg N s s'" and "fc_checkpoints cfg = Some base"
    and "calendar (fst s)" and "work_inv N base (snd s)"
  shows "calendar (fst s') \<and> work_inv N base (snd s')"
  using assms
proof (induction rule: fake_step.induct)
  case (lists now st)
  then have "work_inv N base (snd (list_loop cfg now (fk_resources st) st))" by (intro list_loop_inv) simp_all
  then show ?case using lists by (simp add: fake_list_resources_def split_def)
qed (simp_all add: launch_inv poll_inv fetch_logs_inv terminate_inv interrupt_inv bookkeeping_inv)

lemma run_work_inv:
  assumes "(fake_step cfg N)\<^sup>*\<^sup>* s s'" and "fc_checkpoints cfg = Some base" and "calendar (fst s)" and "work_inv N base (snd s)"
  shows "calendar (fst s') \<and> work_inv N base (snd s')"
  using assms by (induction rule: rtranclp_induct) (use step_work_inv in blast)+

lemma fresh_work_inv: "fresh_fake st \<Longrightarrow> (\<And>job. 0 \<le> N job) \<Longrightarrow> work_inv N base st"
  by (simp add: fresh_fake_def work_inv_def complete_refs_def)

text \<open>
  C5. Interruptions neither lose nor repeat work. However a simulated job's attempts were interrupted,
  terminated, lost, polled and resumed before, when its last attempt runs to completion the backend
  reports it completed and the accumulator it saved is the sum of all its step numbers, each counted
  exactly once: the value an uninterrupted run ends on.
\<close>

theorem resumed_work_exactly_once:
  assumes "fc_checkpoints cfg = Some base" and "\<And>job. 0 \<le> N job" and "fresh_fake st0" and "calendar now0"
    and "(fake_step cfg N)\<^sup>*\<^sup>* (now0, st0) (now, st)"
    and r: "map_of (fk_resources st) h = Some r" and "\<not> fr_terminated r" and "fr_outcome r = BS_COMPLETED"
    and "0 < fr_total_steps r" and "fr_ready_at r \<le> total_seconds now" and "fr_finish_at r \<le> total_seconds now"
  shows "os_status (projr (fst (fake_poll cfg h now st))) = BS_COMPLETED \<and>
    final_value cfg (fr_job r) (snd (fake_poll cfg h now st)) = Inr (Some (\<Sum>i = 0..<N (fr_job r). i))"
proof -
  have cal: "calendar now" and inv: "work_inv N base st"
    using run_work_inv [OF assms(5,1)] fresh_work_inv [OF assms(3,2)] assms(4) by simp_all
  note ok = work_invD(4) [OF inv r]
  have N: "fr_total_steps r = N (fr_job r)" "fr_start_step r \<le> N (fr_job r)" using ok assms(9) by (simp_all add: attempt_ok_def)
  let ?s = "fake_save cfg now r (fr_total_steps r) st"
  have poll: "fake_poll cfg h now st = (Inr \<lparr>os_status = BS_COMPLETED, os_exit_code = Some (fr_exit_code r),
      os_detail = Some (''finished as '' @ status_name BS_COMPLETED)\<rparr>, snd ?s)"
    using assms(6-11) by (simp add: fake_poll_def Let_def)
  obtain r' st' where s: "?s = (r', st')" by fastforce
  note S = save_inv [OF assms(1) inv cal r _ _ s]
  have inv': "work_inv N base st'" using S(1) N by simp
  obtain top where top: "top \<in> complete_refs base (fk_ckpts st') (fr_job r)" "N (fr_job r) \<le> cr_step top"
    using S(4) N by auto
  then have "ckpt_latest base (fk_ckpts st') (fr_job r) \<noteq> None" using latest_spec(2) [of base "fk_ckpts st'" "fr_job r"] by blast
  then obtain ref where ref: "ckpt_latest base (fk_ckpts st') (fr_job r) = Some ref" by blast
  have "cr_step ref \<le> N (fr_job r)" using work_invD(2) [OF inv'] latest_spec(1) [OF ref] by (simp add: ref_ok_def)
  moreover have "N (fr_job r) \<le> cr_step ref" using latest_spec(1) [OF ref] top by force
  ultimately have "cr_step ref = N (fr_job r)" by simp
  then have "final_value cfg (fr_job r) st' = Inr (Some (sum_range 0 (N (fr_job r))))"
    using saved_state_latest [OF assms(1) inv', of "fr_job r"] ref by (simp add: final_value_def)
  then show ?thesis using poll s by (simp add: sum_range_sum atLeastLessThanPlusOne_atLeastAtMost_int [symmetric])
qed

subsection \<open>A job interrupted half way\<close>

definition demo_fake :: fake_config where
  "demo_fake = \<lparr>fc_name = ''fake'', fc_currency = USD, fc_capacity = [(''a10g'', 1)], fc_startup_seconds = 60,
     fc_tier = ''spot'', fc_checkpoints = Some ''ck'', fc_size_of = (\<lambda>_. 10)\<rparr>"

definition demo_work :: job where
  "demo_work = new_job ''train-01'' ''ada'' ''python train.py'' ''a10g'' 2 USD 3 QUEUED 0 None ''real''"

definition demo_script :: fake_plan where
  "demo_script = default_plan\<lparr>pl_run_hours := Some 1, pl_total_steps := 10, pl_checkpoint_every := 4\<rparr>"

definition demo_fresh :: fake_state where
  "demo_fresh = \<lparr>fk_plans = [], fk_utilization = [], fk_resources = [], fk_counter = 0, fk_ckpts = []\<rparr>"

text \<open>Half an hour into the first attempt its capacity is taken away; the second runs to the end.\<close>

definition demo_interrupted :: fake_state where
  "demo_interrupted = interrupt demo_fake ''fake-0001'' 1860000000
     (snd (fake_launch demo_fake demo_work 0 (set_plan ''train-01'' demo_script demo_fresh)))"

definition demo_resumed :: fake_state where
  "demo_resumed = snd (fake_launch demo_fake demo_work 1860000000 demo_interrupted)"

lemma demo_run: "(fake_step demo_fake (\<lambda>_. 10))\<^sup>*\<^sup>* (0, demo_fresh) (7200000000, demo_resumed)"
proof -
  let ?go = "(fake_step demo_fake (\<lambda>_. 10))\<^sup>*\<^sup>* (0, demo_fresh)"
  let ?st = "set_plan ''train-01'' demo_script demo_fresh"
  have "?go (0, ?st)" by (rule r_into_rtranclp) (rule scripts, simp add: demo_script_def)
  then have "?go (0, snd (fake_launch demo_fake demo_work 0 ?st))" by (rule rtranclp.rtrancl_into_rtrancl) (rule launches)
  then have "?go (1860000000, snd (fake_launch demo_fake demo_work 0 ?st))"
    by (rule rtranclp.rtrancl_into_rtrancl) (rule passes, simp, code_simp)
  then have "?go (1860000000, demo_interrupted)"
    unfolding demo_interrupted_def by (rule rtranclp.rtrancl_into_rtrancl) (rule interrupts)
  then have "?go (1860000000, demo_resumed)"
    unfolding demo_resumed_def by (rule rtranclp.rtrancl_into_rtrancl) (rule launches)
  then show ?thesis by (rule rtranclp.rtrancl_into_rtrancl) (rule passes, simp, code_simp)
qed

lemma demo_second_attempt:
  "case map_of (fk_resources demo_resumed) ''fake-0002'' of None \<Rightarrow> False
   | Some r \<Rightarrow> fr_job r = ''train-01'' \<and> \<not> fr_terminated r \<and> fr_outcome r = BS_COMPLETED \<and> 0 < fr_start_step r \<and>
       fr_start_step r < fr_total_steps r \<and> fr_ready_at r \<le> total_seconds 7200000000 \<and> fr_finish_at r \<le> total_seconds 7200000000"
  by code_simp

theorem resumed_work_exactly_once_witness:
  "os_status (projr (fst (fake_poll demo_fake ''fake-0002'' 7200000000 demo_resumed))) = BS_COMPLETED \<and>
   final_value demo_fake ''train-01'' (snd (fake_poll demo_fake ''fake-0002'' 7200000000 demo_resumed)) = Inr (Some 45)"
proof -
  obtain r where r: "map_of (fk_resources demo_resumed) ''fake-0002'' = Some r" "fr_job r = ''train-01''" "\<not> fr_terminated r"
    "fr_outcome r = BS_COMPLETED" "0 < fr_total_steps r" "fr_ready_at r \<le> total_seconds 7200000000"
    "fr_finish_at r \<le> total_seconds 7200000000"
    using demo_second_attempt by (auto split: option.splits)
  have "fc_checkpoints demo_fake = Some ''ck''" "fresh_fake demo_fresh" by (simp_all add: demo_fake_def demo_fresh_def fresh_fake_def)
  moreover have "calendar 0" by code_simp
  moreover have "(\<Sum>i = 0..<10::int. i) = 45" by code_simp
  ultimately show ?thesis
    using resumed_work_exactly_once [of demo_fake "''ck''" "\<lambda>_. 10" demo_fresh 0 7200000000 demo_resumed "''fake-0002''" r]
      demo_run r by simp
qed
end
