(* ===== verification/Pool.thy ===== *)
theory Pool
  imports FakeWork Facade
begin

text \<open>
  What the broker relies on a backend for, as an interface: which machines it holds, and how launching,
  terminating, listing and polling move that. The facade's promises about machines are proved once from
  these laws, which \<^verbatim>\<open>gpu_broker/backends/base.py\<close> states in prose, and the simulated backend is shown to
  keep them.
\<close>

subsection \<open>The contract\<close>

text \<open>\<open>held\<close> maps the handle of every machine that is being paid for to its tags; \<open>ok\<close> is whatever the
  backend needs of its own state.\<close>

locale machine_pool =
  fixes B :: "'e backend" and ok :: "'e \<Rightarrow> bool" and held :: "'e \<Rightarrow> string \<Rightarrow> tags option"
  assumes launch_held: "ok e \<Longrightarrow> bk_launch B j now e = (Inr a, e') \<Longrightarrow>
      ok e' \<and> al_handle a \<noteq> [] \<and> held e (al_handle a) = None \<and> held e' = (held e)(al_handle a \<mapsto> tags_for j (to_iso now))"
    and launch_fails: "ok e \<Longrightarrow> bk_launch B j now e = (Inl x, e') \<Longrightarrow> ok e' \<and> held e' = held e"
    and terminate_held: "ok e \<Longrightarrow> bk_terminate B h why now e = (res, e') \<Longrightarrow>
      res = Inr () \<and> ok e' \<and> held e' = (held e)(h := None)"
    and list_held: "ok e \<Longrightarrow> \<exists>rs e'. bk_list_resources B now e = (Inr rs, e') \<and> ok e' \<and> held e' = held e \<and>
      distinct (map rs_handle rs) \<and> map_of (map (\<lambda>r. (rs_handle r, rs_tags r)) rs) = held e"
    and poll_held: "ok e \<Longrightarrow> \<exists>obs e'. bk_poll B h now e = (Inr obs, e') \<and> ok e' \<and> held e' = held e \<and>
      (held e h = None \<longrightarrow> os_status obs = BS_GONE)"
begin

text \<open>A machine that was terminated stays gone: terminating it again changes nothing, it is not
  listed, and polling it says so.\<close>

lemma terminate_final:
  assumes "ok e" and "bk_terminate B h why now e = (res, e1)"
  shows "held e1 h = None" and "\<exists>e2. bk_terminate B h why' now' e1 = (Inr (), e2) \<and> held e2 = held e1"
    and "\<exists>obs e2. bk_poll B h now' e1 = (Inr obs, e2) \<and> os_status obs = BS_GONE"
    and "\<exists>rs e2. bk_list_resources B now' e1 = (Inr rs, e2) \<and> h \<notin> rs_handle ` set rs"
proof -
  have t: "ok e1" "held e1 = (held e)(h := None)" using terminate_held [OF assms] by simp_all
  show none: "held e1 h = None" by (simp add: t(2))
  obtain res2 e2 where r2: "bk_terminate B h why' now' e1 = (res2, e2)" by fastforce
  show "\<exists>e2. bk_terminate B h why' now' e1 = (Inr (), e2) \<and> held e2 = held e1"
    using terminate_held [OF t(1) r2] r2 by (simp add: t(2))
  show "\<exists>obs e2. bk_poll B h now' e1 = (Inr obs, e2) \<and> os_status obs = BS_GONE"
    using poll_held [OF t(1), of h now'] none by fastforce
  show "\<exists>rs e2. bk_list_resources B now' e1 = (Inr rs, e2) \<and> h \<notin> rs_handle ` set rs"
  proof -
    obtain rs e2 where l: "bk_list_resources B now' e1 = (Inr rs, e2)" "map_of (map (\<lambda>r. (rs_handle r, rs_tags r)) rs) = held e1"
      using list_held [OF t(1)] by blast
    have "map_of (map (\<lambda>r. (rs_handle r, rs_tags r)) rs) h = None" using l(2) none by simp
    then have "h \<notin> rs_handle ` set rs" by (simp add: map_of_eq_None_iff image_image)
    then show ?thesis using l(1) by blast
  qed
qed

text \<open>A job that is cancelled no longer holds a machine, and no other machine is touched.\<close>

lemma cancel_frees:
  assumes "scheduler_backend (br_scheduler br) (bk_name B) = Some B" and "ok (w_ext w)"
    and "find_job (w_store w) p = Inr j" and "j_backend j = Some (bk_name B)" and "bk_name B \<noteq> []"
    and "j_handle j = Some h" and "h \<noteq> []" and "cancel br p actor admin w = (Inr j', w')"
  shows "ok (w_ext w') \<and> held (w_ext w') = (held (w_ext w))(h := None)"
proof -
  obtain w1 where stop: "terminate_if_held (br_scheduler br) j (''cancelled by '' @ actor_name actor j) w = (Inr (), w1)"
    and mv: "move j CANCELLED (''cancelled by '' @ actor_name actor j) None True w1 = (Inr j', w')"
    using assms(3,8) by (auto simp: cancel_def run_simps split: if_splits)
  obtain res e' where t: "bk_terminate B h (''cancelled by '' @ actor_name actor j) (st_now (w_store w)) (w_ext w) = (res, e')"
    by fastforce
  have "w_ext w1 = e'" using stop t assms(1,4-7) by (auto simp: terminate_if_held_def truthy_def calls_def)
  moreover have "w_ext w' = w_ext w1" using mv by (auto simp: move_def run_simps)
  ultimately show ?thesis using terminate_held [OF assms(2) t] by simp
qed

text \<open>Reaping sees every machine there is, and reports the ones no live job accounts for.\<close>

lemma reap_pool:
  assumes "ok (w_ext w)"
  shows "\<exists>rep w'. reap [B] w = (Inr rep, w') \<and> w_store w' = w_store w \<and> ok (w_ext w') \<and> held (w_ext w') = held (w_ext w) \<and>
    (\<forall>h. (\<exists>orph\<in>set (rp_orphans rep). op_handle orph = h) \<longleftrightarrow>
       (\<exists>ts. held (w_ext w) h = Some ts \<and>
          \<not> (\<exists>jid j. map_of ts ''broker-job-id'' = Some jid \<and> get_job (w_store w) jid = Inr j \<and>
               j_state j \<notin> set TERMINAL \<and> j_handle j = Some h)))"
proof -
  let ?st = "w_store w"
  obtain rs e' where l: "bk_list_resources B (st_now ?st) (w_ext w) = (Inr rs, e')" "ok e'" "held e' = held (w_ext w)"
    "distinct (map rs_handle rs)" "map_of (map (\<lambda>r. (rs_handle r, rs_tags r)) rs) = held (w_ext w)"
    using list_held [OF assms] by blast
  let ?os = "List.map_filter (orphan_of ?st (bk_name B)) rs"
  let ?rep = "\<lparr>rp_at = st_now ?st, rp_orphans = sort_key orphan_key ?os, rp_scanned = length rs\<rparr>"
  have run: "reap [B] w = (Inr ?rep, w\<lparr>w_ext := e'\<rparr>)"
    using l(1) by (simp add: reap_def and_then_def reads_def calls_def ret_def)
  have row: "r \<in> set rs \<longleftrightarrow> r \<in> set rs \<and> held (w_ext w) (rs_handle r) = Some (rs_tags r)" for r
    using l(4) unfolding l(5) [symmetric] by (auto intro!: map_of_is_SomeI simp: comp_def)
  have listed: "\<exists>r\<in>set rs. rs_handle r = h \<and> rs_tags r = ts" if "held (w_ext w) h = Some ts" for h ts
    using map_of_SomeD [of "map (\<lambda>r. (rs_handle r, rs_tags r)) rs" h ts] that l(5) by auto
  have reported: "(\<exists>orph\<in>set (rp_orphans ?rep). op_handle orph = h) \<longleftrightarrow> (\<exists>r\<in>set rs. rs_handle r = h \<and> why_orphaned ?st r \<noteq> None)" for h
  proof
    assume "\<exists>orph\<in>set (rp_orphans ?rep). op_handle orph = h"
    then obtain orph r where "op_handle orph = h" "r \<in> set rs" and o: "orphan_of ?st (bk_name B) r = Some orph" by (auto simp: in_map_filter)
    then show "\<exists>r\<in>set rs. rs_handle r = h \<and> why_orphaned ?st r \<noteq> None" using orphan_of_Some [OF o] by (intro bexI [of _ r]) simp_all
  next
    assume "\<exists>r\<in>set rs. rs_handle r = h \<and> why_orphaned ?st r \<noteq> None"
    then obtain r where r: "r \<in> set rs" "rs_handle r = h" "why_orphaned ?st r \<noteq> None" by blast
    then obtain orph where "orphan_of ?st (bk_name B) r = Some orph" using orphan_of_exists by blast
    then show "\<exists>orph\<in>set (rp_orphans ?rep). op_handle orph = h"
      using r orphan_of_Some by (intro bexI [of _ orph]) (auto simp: in_map_filter)
  qed
  define live where "live ts h \<longleftrightarrow> (\<exists>jid j. map_of ts ''broker-job-id'' = Some jid \<and> get_job ?st jid = Inr j \<and>
               j_state j \<notin> set TERMINAL \<and> j_handle j = Some h)" for ts h
  have "why_orphaned ?st r = None \<longleftrightarrow> live (rs_tags r) (rs_handle r)" for r
    unfolding why_orphaned_None rs_job_id_def live_def ..
  then have live: "(\<exists>r\<in>set rs. rs_handle r = h \<and> why_orphaned ?st r \<noteq> None) \<longleftrightarrow> (\<exists>ts. held (w_ext w) h = Some ts \<and> \<not> live ts h)" for h
    using row listed [of h] by auto
  have "(\<exists>orph\<in>set (rp_orphans ?rep). op_handle orph = h) \<longleftrightarrow> (\<exists>ts. held (w_ext w) h = Some ts \<and> \<not> live ts h)" for h
    by (rule trans [OF reported live])
  then have "\<forall>h. (\<exists>orph\<in>set (rp_orphans ?rep). op_handle orph = h) \<longleftrightarrow>
       (\<exists>ts. held (w_ext w) h = Some ts \<and>
          \<not> (\<exists>jid j. map_of ts ''broker-job-id'' = Some jid \<and> get_job (w_store w) jid = Inr j \<and>
               j_state j \<notin> set TERMINAL \<and> j_handle j = Some h))" unfolding live_def by (rule allI)
  then show ?thesis using run l(2,3) by (intro exI [of _ ?rep] exI [of _ "w\<lparr>w_ext := e'\<rparr>"] conjI) simp_all
qed

text \<open>The broker dies after a machine was launched and before the handle was written down: no row of the
  store has it, and the next reap reports it.\<close>

lemma lost_launch_reported:
  assumes "ok e" and "bk_launch B j (st_now st) e = (Inr a, e')" and "\<forall>x\<in>set (st_jobs st). j_handle x \<noteq> Some (al_handle a)"
  shows "\<exists>rep w'. reap [B] \<lparr>w_store = st, w_ext = e'\<rparr> = (Inr rep, w') \<and> w_store w' = st \<and>
    (\<exists>orph\<in>set (rp_orphans rep). op_handle orph = al_handle a)"
proof -
  let ?w = "\<lparr>w_store = st, w_ext = e'\<rparr>"
  have e': "ok e'" "held e' (al_handle a) = Some (tags_for j (to_iso (st_now st)))"
    using launch_held [OF assms(1,2)] by simp_all
  then have "ok (w_ext ?w)" by simp
  from reap_pool [OF this] obtain rep w' where r: "reap [B] ?w = (Inr rep, w')" "w_store w' = w_store ?w"
    and iff: "\<And>h. (\<exists>orph\<in>set (rp_orphans rep). op_handle orph = h) \<longleftrightarrow>
       (\<exists>ts. held (w_ext ?w) h = Some ts \<and> \<not> (\<exists>jid j. map_of ts ''broker-job-id'' = Some jid \<and> get_job (w_store ?w) jid = Inr j \<and>
               j_state j \<notin> set TERMINAL \<and> j_handle j = Some h))" by blast
  have "get_job st jid = Inr x \<Longrightarrow> x \<in> set (st_jobs st)" for jid x
    by (auto simp: get_job_def find_Some_iff split: option.splits)
  then have "\<exists>orph\<in>set (rp_orphans rep). op_handle orph = al_handle a"
    unfolding iff using e'(2) assms(3) by auto
  then show ?thesis using r by auto
qed

end

subsection \<open>The machines of the simulated backend\<close>

text \<open>What never changes about a machine while it is held.\<close>

definition plate :: "fake_resource \<Rightarrow> string \<times> bool \<times> tags" where
  "plate r = (fr_handle r, fr_terminated r, fr_tags r)"

definition plates :: "fake_state \<Rightarrow> (string \<times> string \<times> bool \<times> tags) list" where
  "plates st = map (\<lambda>(h, r). (h, plate r)) (fk_resources st)"

definition fake_ok :: "fake_config \<Rightarrow> fake_state \<Rightarrow> bool" where
  "fake_ok cfg st \<longleftrightarrow> distinct (map fst (plates st)) \<and>
     (\<forall>(h, k, _)\<in>set (plates st). k = h \<and> (\<exists>n. n \<le> fk_counter st \<and> h = fake_handle cfg n))"

definition fake_held :: "fake_state \<Rightarrow> string \<Rightarrow> tags option" where
  "fake_held st h = (case map_of (plates st) h of Some (k, False, ts) \<Rightarrow> Some ts | _ \<Rightarrow> None)"

lemma plates_map_of: "map_of (plates st) h = map_option plate (map_of (fk_resources st) h)"
  unfolding plates_def by (induction "fk_resources st" arbitrary: st rule: list.induct) (simp_all add: map_of_map)

lemma fake_handle_inject: "fake_handle cfg m = fake_handle cfg n \<Longrightarrow> m = n"
proof -
  assume "fake_handle cfg m = fake_handle cfg n"
  then have "pad_left 4 (show_int (int m)) = pad_left 4 (show_int (int n))" by (simp add: fake_handle_def show_int_def)
  then have "Some (int m) = Some (int n)" using read_padded [of "int m" 4] read_padded [of "int n" 4] by (simp only: of_nat_0_le_iff)
  then show ?thesis by (simp only: option.inject of_nat_eq_iff)
qed

lemma update_same: "map_of xs k = Some w \<Longrightarrow> f v = f w \<Longrightarrow> map (\<lambda>(h, x). (h, f x)) (AList.update k v xs) = map (\<lambda>(h, x). (h, f x)) xs"
  by (induction xs) (auto split: if_splits)

lemma put_same_plates:
  "map_of (fk_resources st) (fr_handle r') = Some r \<Longrightarrow> plate r' = plate r \<Longrightarrow> plates (put_resource r' st) = plates st"
  by (simp add: plates_def put_resource_def update_same)

lemma fake_ok_cong: "plates st' = plates st \<Longrightarrow> fk_counter st' = fk_counter st \<Longrightarrow> fake_ok cfg st' = fake_ok cfg st"
  by (simp add: fake_ok_def)

lemma fake_held_cong: "plates st' = plates st \<Longrightarrow> fake_held st' = fake_held st"
  by (rule ext) (simp add: fake_held_def)

lemma fake_ok_handle: "fake_ok cfg st \<Longrightarrow> map_of (fk_resources st) h = Some r \<Longrightarrow> fr_handle r = h"
  using map_of_SomeD [of "plates st" h "plate r"] by (fastforce simp: fake_ok_def plates_map_of plate_def)


subsection \<open>The simulated backend keeps the contract\<close>

lemma save_plates:
  assumes "map_of (fk_resources st) (fr_handle r) = Some r0" and "plate r = plate r0" and "fake_save cfg now r step st = (r', st')"
  shows "plates st' = plates st \<and> fk_counter st' = fk_counter st \<and> plate r' = plate r \<and>
    (\<exists>r1. map_of (fk_resources st') (fr_handle r) = Some r1 \<and> plate r1 = plate r)"
proof (cases "fc_checkpoints cfg = None \<or> step \<le> fr_last_saved r")
  case True
  then have "r' = r" "st' = st" using assms(3) by (auto simp: fake_save_def split: option.splits)
  then show ?thesis using assms by simp
next
  case False
  then obtain base where base: "fc_checkpoints cfg = Some base" "\<not> step \<le> fr_last_saved r" by auto
  obtain ref fs where put: "ckpt_put (fc_size_of cfg) base (fk_ckpts st) (fr_job r) step
      (Some [(STATE_FILE, State step (value_at r step))]) now = Inr (ref, fs)" by (simp add: ckpt_put_def)
  have r': "r' = r\<lparr>fr_last_saved := step\<rparr>" and st': "st' = put_resource r' (st\<lparr>fk_ckpts := fs\<rparr>)"
    using assms(3) base put by (auto simp: fake_save_def Let_def)
  have p: "plate r' = plate r" "fr_handle r' = fr_handle r" by (simp_all add: r' plate_def)
  have "plates st' = plates (st\<lparr>fk_ckpts := fs\<rparr>)"
    unfolding st' using assms(1,2) p by (intro put_same_plates [where r = r0]) simp_all
  then show ?thesis using p by (simp add: plates_def st' put_resource_map)
qed

lemma checkpoint_plates:
  assumes "map_of (fk_resources st) (fr_handle r) = Some r" and "maybe_checkpoint cfg now r st = (r', st')"
  shows "plates st' = plates st \<and> fk_counter st' = fk_counter st \<and> plate r' = plate r \<and>
    (\<exists>r1. map_of (fk_resources st') (fr_handle r) = Some r1 \<and> plate r1 = plate r)"
proof (cases "maybe_checkpoint cfg now r st = (r, st)")
  case True
  then show ?thesis using assms by simp
next
  case False
  then show ?thesis using assms save_plates [OF assms(1) refl]
    unfolding maybe_checkpoint_def Let_def by (simp split: if_splits)
qed

lemma poll_plates:
  assumes "fake_ok cfg st"
  shows "\<exists>obs st'. fake_poll cfg h now st = (Inr obs, st') \<and> plates st' = plates st \<and> fk_counter st' = fk_counter st \<and>
    (fake_held st h = None \<longrightarrow> os_status obs = BS_GONE)"
proof (cases "map_of (fk_resources st) h")
  case None
  then show ?thesis by (simp add: fake_poll_def gone_def)
next
  case (Some r)
  have h: "fr_handle r = h" by (rule fake_ok_handle [OF assms Some])
  then have own: "map_of (fk_resources st) (fr_handle r) = Some r" using Some by simp
  obtain r1 st1 where m: "maybe_checkpoint cfg now r st = (r1, st1)" by fastforce
  note M = checkpoint_plates [OF own m]
  have started: "plates (put_resource (r1\<lparr>fr_logs := l, fr_logged_start := True\<rparr>) st1) = plates st" for l
  proof -
    obtain r2 where "map_of (fk_resources st1) (fr_handle r1) = Some r2" "plate r2 = plate r1" using M by (auto simp: plate_def)
    then have "plates (put_resource (r1\<lparr>fr_logs := l, fr_logged_start := True\<rparr>) st1) = plates st1"
      by (intro put_same_plates [where r = r2]) (simp_all add: plate_def)
    then show ?thesis using M by simp
  qed
  obtain r3 st3 where s: "fake_save cfg now r (fr_total_steps r) st = (r3, st3)" by fastforce
  note S = save_plates [OF own refl s]
  have live: "fake_held st h = (if fr_terminated r then None else Some (fr_tags r))"
    using Some by (simp add: fake_held_def plates_map_of plate_def)
  show ?thesis using Some M S started live by (auto simp: fake_poll_def m s gone_def Let_def)
qed

lemma list_loop_plates:
  assumes "fake_ok cfg st" and "\<forall>(h, r)\<in>set rs. fr_handle r = h"
  shows "\<exists>out st'. list_loop cfg now rs st = (out, st') \<and> plates st' = plates st \<and> fk_counter st' = fk_counter st \<and>
    map (\<lambda>x. (rs_handle x, rs_tags x)) out = map (\<lambda>(h, r). (h, fr_tags r)) (filter (\<lambda>(h, r). \<not> fr_terminated r) rs)"
  using assms
proof (induction rs arbitrary: st)
  case (Cons hr rs)
  obtain h r where hr: "hr = (h, r)" by fastforce
  have rest: "\<forall>(h, r)\<in>set rs. fr_handle r = h" and own: "fr_handle r = h" using Cons.prems(2) hr by auto
  obtain obs st1 where p: "fake_poll cfg (fr_handle r) now st = (Inr obs, st1)" "plates st1 = plates st" "fk_counter st1 = fk_counter st"
    using poll_plates [OF Cons.prems(1), of "fr_handle r" now] by blast
  have "fake_ok cfg st1" using fake_ok_cong [OF p(2,3)] Cons.prems(1) by simp
  then show ?case using Cons.IH [OF Cons.prems(1) rest] Cons.IH [OF _ rest] p own by (fastforce simp: hr)
qed simp

lemma held_map_of:
  assumes "distinct (map fst (fk_resources st))"
  shows "map_of (map (\<lambda>(h, r). (h, fr_tags r)) (filter (\<lambda>(h, r). \<not> fr_terminated r) (fk_resources st))) = fake_held st"
proof
  fix h
  have "map_of (map (\<lambda>(h, r). (h, fr_tags r)) (filter (\<lambda>(h, r). \<not> fr_terminated r) xs)) h =
      (case map_of xs h of None \<Rightarrow> None | Some r \<Rightarrow> if fr_terminated r then None else Some (fr_tags r))"
    if "distinct (map fst xs)" for xs :: "(string \<times> fake_resource) list"
    using that
  proof (induction xs)
    case (Cons x xs)
    obtain k r where x: "x = (k, r)" by fastforce
    have "map_of xs k = None" using Cons.prems x by (simp add: map_of_eq_None_iff)
    then show ?case using Cons x by (auto split: option.splits)
  qed simp
  from this [OF assms] show "map_of (map (\<lambda>(h, r). (h, fr_tags r)) (filter (\<lambda>(h, r). \<not> fr_terminated r) (fk_resources st))) h = fake_held st h"
    by (simp add: fake_held_def plates_map_of plate_def split: option.splits bool.splits)
qed

lemma plates_keys: "map fst (plates st) = map fst (fk_resources st)"
  by (simp add: plates_def split_def)

lemma new_handle: "fake_ok cfg st \<Longrightarrow> map_of (fk_resources st) (fake_handle cfg (fk_counter st + 1)) = None"
proof (rule ccontr)
  assume ok: "fake_ok cfg st" and "map_of (fk_resources st) (fake_handle cfg (fk_counter st + 1)) \<noteq> None"
  then obtain r where "map_of (plates st) (fake_handle cfg (fk_counter st + 1)) = Some (plate r)" by (auto simp: plates_map_of)
  then have "(fake_handle cfg (fk_counter st + 1), plate r) \<in> set (plates st)" by (rule map_of_SomeD)
  then obtain n where "n \<le> fk_counter st" "fake_handle cfg (fk_counter st + 1) = fake_handle cfg n"
    using ok by (fastforce simp: fake_ok_def plate_def)
  then show False using fake_handle_inject by fastforce
qed

lemma put_new_plates:
  assumes "map_of (fk_resources st) (fr_handle r) = None"
  shows "plates (put_resource r st) = plates st @ [(fr_handle r, plate r)]"
  by (simp add: plates_def put_resource_def update_fresh [OF assms])

text \<open>A machine that appears: launched, or leaked.\<close>

lemma appears:
  assumes "fake_ok cfg st" and "fr_handle r = fake_handle cfg (fk_counter st + 1)" and "\<not> fr_terminated r"
  defines "st' \<equiv> put_resource r (st\<lparr>fk_counter := fk_counter st + 1\<rparr>)"
  shows "fake_ok cfg st'" and "fake_held st (fr_handle r) = None" and "fake_held st' = (fake_held st)(fr_handle r \<mapsto> fr_tags r)"
proof -
  have new: "map_of (fk_resources st) (fr_handle r) = None" using new_handle [OF assms(1)] assms(2) by simp
  have p: "plates st' = plates st @ [(fr_handle r, plate r)]"
    using put_new_plates [of "st\<lparr>fk_counter := fk_counter st + 1\<rparr>" r] new by (simp add: st'_def plates_def)
  have fresh: "map_of (plates st) (fr_handle r) = None" by (simp add: plates_map_of new)
  then have "fr_handle r \<notin> set (map fst (plates st))" by (simp add: map_of_eq_None_iff)
  moreover have "fk_counter st' = fk_counter st + 1" by (simp add: st'_def)
  moreover have "k = h \<and> (\<exists>n. n \<le> fk_counter st + 1 \<and> h = fake_handle cfg n)" if m: "(h, k, x) \<in> set (plates st)" for h k x
  proof -
    obtain n where "k = h" "n \<le> fk_counter st" "h = fake_handle cfg n" using assms(1) m unfolding fake_ok_def by fastforce
    then show ?thesis by (intro conjI exI [of _ n]) simp_all
  qed
  ultimately show "fake_ok cfg st'"
    using assms(1,2) unfolding fake_ok_def p by (auto simp: plate_def)
  show "fake_held st (fr_handle r) = None" by (simp add: fake_held_def fresh)
  show "fake_held st' = (fake_held st)(fr_handle r \<mapsto> fr_tags r)"
    using fresh assms(3) by (auto simp: fake_held_def p plate_def map_add_def fun_eq_iff split: option.splits)
qed

lemma launch_cases:
  assumes "fake_launch cfg j now st = (res, st')"
  obtains x where "res = Inl x" "st' = st"
  | r where "launch_refusal cfg j now st = None" "res = Inr \<lparr>al_handle = fr_handle r, al_gpu_type = j_gpu_type j, al_tags = fr_tags r\<rparr>"
      "st' = put_resource r (st\<lparr>fk_counter := fk_counter st + 1\<rparr>)" "fr_handle r = fake_handle cfg (fk_counter st + 1)"
      "\<not> fr_terminated r" "fr_tags r = tags_for j (to_iso now)" "fr_gpu_type r = j_gpu_type j"
proof (cases "launch_refusal cfg j now st")
  case (Some e)
  then show ?thesis using assms by (intro that(1) [of e]) (simp_all add: fake_launch_def)
next
  case None
  show ?thesis
  proof (cases "restore cfg (j_id j) st")
    case (Inl e)
    then show ?thesis using assms None by (intro that(1) [of e]) (simp_all add: fake_launch_def)
  next
    case (Inr sv)
    then show ?thesis using assms None that(2) by (cases sv) (auto simp: fake_launch_def Let_def)
  qed
qed

lemma terminate_plates:
  assumes "fake_ok cfg st" and "fake_terminate cfg h why now st = (res, st')"
  shows "res = Inr ()" and "fake_ok cfg st'" and "fake_held st' = (fake_held st)(h := None)"
proof -
  have "res = Inr () \<and> fake_ok cfg st' \<and> fake_held st' = (fake_held st)(h := None)"
  proof (cases "map_of (fk_resources st) h")
    case None
    then show ?thesis using assms by (auto simp: fake_terminate_def fake_held_def plates_map_of)
  next
    case (Some r)
    let ?r = "r\<lparr>fr_terminated := True, fr_terminate_reason := Some why, fr_logs := fr_logs r @ [(''broker'', ''terminated: '' @ why)]\<rparr>"
    have h: "fr_handle r = h" by (rule fake_ok_handle [OF assms(1) Some])
    have st': "st' = put_resource ?r st" "res = Inr ()" using assms(2) Some by (simp_all add: fake_terminate_def)
    have "map (\<lambda>(h, x). (h, fr_handle x)) (AList.update h ?r (fk_resources st)) = map (\<lambda>(h, x). (h, fr_handle x)) (fk_resources st)"
      by (rule update_same [OF Some]) simp
    then have same: "map (\<lambda>(h, k, _). (h, k)) (plates st') = map (\<lambda>(h, k, _). (h, k)) (plates st)"
      by (simp add: st' plates_def put_resource_def h plate_def comp_def split_def)
    have "map fst (plates st') = map fst (plates st)" using arg_cong [OF same, of "map fst"] by (simp add: comp_def split_def)
    moreover have "(h, k) \<in> set (map (\<lambda>(h, k, _). (h, k)) (plates st))" if "(h, k, x) \<in> set (plates st')" for h k x
      using that unfolding same [symmetric] by force
    ultimately have "fake_ok cfg st'" using assms(1) unfolding fake_ok_def by (fastforce simp: st')
    moreover have "fake_held st' = (fake_held st)(h := None)"
      by (auto simp: fun_eq_iff fake_held_def plates_map_of st' put_resource_map h plate_def)
    ultimately show ?thesis using st' by simp
  qed
  then show "res = Inr ()" "fake_ok cfg st'" "fake_held st' = (fake_held st)(h := None)" by simp_all
qed

interpretation fake: machine_pool "fake_backend cfg" "fake_ok cfg" fake_held for cfg
proof
  fix e j now a e' x h why res
  assume ok: "fake_ok cfg e"
  show "fake_ok cfg e' \<and> al_handle a \<noteq> [] \<and> fake_held e (al_handle a) = None \<and>
      fake_held e' = (fake_held e)(al_handle a \<mapsto> tags_for j (to_iso now))"
    if "bk_launch (fake_backend cfg) j now e = (Inr a, e')"
  proof -
    have "fake_launch cfg j now e = (Inr a, e')" using that by (simp add: fake_backend_def)
    then show ?thesis
    proof (cases rule: launch_cases)
      case (2 r)
      then show ?thesis using appears [OF ok 2(4,5)] by (simp add: fake_handle_def)
    qed simp
  qed
  show "fake_ok cfg e' \<and> fake_held e' = fake_held e" if "bk_launch (fake_backend cfg) j now e = (Inl x, e')"
  proof -
    have "fake_launch cfg j now e = (Inl x, e')" using that by (simp add: fake_backend_def)
    then show ?thesis by (cases rule: launch_cases) (use ok in simp_all)
  qed
  show "res = Inr () \<and> fake_ok cfg e' \<and> fake_held e' = (fake_held e)(h := None)"
    if "bk_terminate (fake_backend cfg) h why now e = (res, e')"
    using terminate_plates [OF ok] that by (simp add: fake_backend_def)
  show "\<exists>obs e'. bk_poll (fake_backend cfg) h now e = (Inr obs, e') \<and> fake_ok cfg e' \<and> fake_held e' = fake_held e \<and>
      (fake_held e h = None \<longrightarrow> os_status obs = BS_GONE)"
  proof -
    obtain obs e1 where p: "fake_poll cfg h now e = (Inr obs, e1)" "plates e1 = plates e" "fk_counter e1 = fk_counter e"
      "fake_held e h = None \<longrightarrow> os_status obs = BS_GONE" using poll_plates [OF ok, of h now] by (elim exE conjE) (rule that)
    then show ?thesis using fake_ok_cong [OF p(2,3)] fake_held_cong [OF p(2)] ok by (simp add: fake_backend_def)
  qed
  have own: "\<forall>(h, r)\<in>set (fk_resources e). fr_handle r = h" and dist: "distinct (map fst (fk_resources e))"
    using ok by (fastforce simp: fake_ok_def plates_def plate_def comp_def split_def)+
  obtain out e1 where l: "list_loop cfg now (fk_resources e) e = (out, e1)" "plates e1 = plates e" "fk_counter e1 = fk_counter e"
    "map (\<lambda>x. (rs_handle x, rs_tags x)) out = map (\<lambda>(h, r). (h, fr_tags r)) (filter (\<lambda>(h, r). \<not> fr_terminated r) (fk_resources e))"
    using list_loop_plates [OF ok own] by blast
  have "map rs_handle out = map fst (filter (\<lambda>(h, r). \<not> fr_terminated r) (fk_resources e))"
    using arg_cong [OF l(4), of "map fst"] by (simp add: comp_def split_def)
  then have "distinct (map rs_handle out)" using dist by (simp add: distinct_map_filter)
  then show "\<exists>rs e'. bk_list_resources (fake_backend cfg) now e = (Inr rs, e') \<and> fake_ok cfg e' \<and> fake_held e' = fake_held e \<and>
      distinct (map rs_handle rs) \<and> map_of (map (\<lambda>r. (rs_handle r, rs_tags r)) rs) = fake_held e"
    using l(1,4) held_map_of [OF dist] fake_ok_cong [OF l(2,3)] fake_held_cong [OF l(2)] ok
    by (simp add: fake_backend_def fake_list_resources_def)
qed

text \<open>
  C7. The simulated backend implements an abstract pool of machines. Seen through the machines it holds
  and their tags, a successful launch adds exactly one machine under a handle that was not in use, a
  refused one changes nothing, terminating removes exactly that machine and always succeeds, and neither
  listing nor polling adds or removes one; a listing shows exactly the machines held, each once, and a
  machine that is not held is reported gone.
\<close>

theorem fake_refines_pool:
  assumes "fake_ok cfg st"
  shows "(\<forall>j a st'. fake_launch cfg j now st = (Inr a, st') \<longrightarrow> fake_ok cfg st' \<and> fake_held st (al_handle a) = None \<and>
      fake_held st' = (fake_held st)(al_handle a \<mapsto> tags_for j (to_iso now))) \<and>
    (\<forall>j x st'. fake_launch cfg j now st = (Inl x, st') \<longrightarrow> st' = st) \<and>
    (\<exists>st'. fake_terminate cfg h why now st = (Inr (), st') \<and> fake_ok cfg st' \<and> fake_held st' = (fake_held st)(h := None)) \<and>
    (\<exists>rs st'. fake_list_resources cfg now st = (Inr rs, st') \<and> fake_ok cfg st' \<and> fake_held st' = fake_held st \<and>
      distinct (map rs_handle rs) \<and> map_of (map (\<lambda>r. (rs_handle r, rs_tags r)) rs) = fake_held st) \<and>
    (\<exists>obs st'. fake_poll cfg h now st = (Inr obs, st') \<and> fake_ok cfg st' \<and> fake_held st' = fake_held st \<and>
      (fake_held st h = None \<longrightarrow> os_status obs = BS_GONE))"
proof (intro conjI)
  show "\<forall>j a st'. fake_launch cfg j now st = (Inr a, st') \<longrightarrow> fake_ok cfg st' \<and> fake_held st (al_handle a) = None \<and>
      fake_held st' = (fake_held st)(al_handle a \<mapsto> tags_for j (to_iso now))"
    using fake.launch_held [OF assms] by (simp add: fake_backend_def)
  show "\<forall>j x st'. fake_launch cfg j now st = (Inl x, st') \<longrightarrow> st' = st" by (auto elim: launch_cases)
  obtain res st' where "fake_terminate cfg h why now st = (res, st')" by fastforce
  then show "\<exists>st'. fake_terminate cfg h why now st = (Inr (), st') \<and> fake_ok cfg st' \<and> fake_held st' = (fake_held st)(h := None)"
    using terminate_plates [OF assms] by blast
  show "\<exists>rs st'. fake_list_resources cfg now st = (Inr rs, st') \<and> fake_ok cfg st' \<and> fake_held st' = fake_held st \<and>
      distinct (map rs_handle rs) \<and> map_of (map (\<lambda>r. (rs_handle r, rs_tags r)) rs) = fake_held st"
    using fake.list_held [OF assms, of now] by (simp add: fake_backend_def)
  show "\<exists>obs st'. fake_poll cfg h now st = (Inr obs, st') \<and> fake_ok cfg st' \<and> fake_held st' = fake_held st \<and>
      (fake_held st h = None \<longrightarrow> os_status obs = BS_GONE)"
    using fake.poll_held [OF assms, of h now] by (simp add: fake_backend_def)
qed


text \<open>
  C8. Cancelling a job that runs on the simulated backend gives its machine back: afterwards the machine
  is not held any more, polling it says it is gone, and every other machine is still there.
\<close>

theorem cancel_frees_machine:
  assumes "scheduler_backend (br_scheduler br) (fc_name cfg) = Some (fake_backend cfg)" and "fake_ok cfg (w_ext w)"
    and "find_job (w_store w) p = Inr j" and "j_backend j = Some (fc_name cfg)" and "fc_name cfg \<noteq> []"
    and "j_handle j = Some h" and "h \<noteq> []" and "cancel br p actor admin w = (Inr j', w')"
  shows "fake_held (w_ext w') = (fake_held (w_ext w))(h := None) \<and>
    (\<exists>obs. fst (fake_poll cfg h now (w_ext w')) = Inr obs \<and> os_status obs = BS_GONE)"
proof -
  have name: "bk_name (fake_backend cfg) = fc_name cfg" by (simp add: fake_backend_def)
  have f: "fake_ok cfg (w_ext w')" "fake_held (w_ext w') = (fake_held (w_ext w))(h := None)"
    using fake.cancel_frees [of br cfg w p j h actor admin j' w', unfolded name, OF assms] by simp_all
  obtain obs st' where "fake_poll cfg h now (w_ext w') = (Inr obs, st')" "fake_held (w_ext w') h = None \<longrightarrow> os_status obs = BS_GONE"
    using poll_plates [OF f(1), of h now] by (elim exE conjE) (rule that)
  then show ?thesis using f(2) by simp
qed

subsection \<open>Capacity\<close>

lemma in_use_mono: "now \<le> later \<Longrightarrow> in_use gpu later st \<le> in_use gpu now st"
proof -
  assume "now \<le> later"
  then have "total_seconds now \<le> total_seconds later" by (simp add: total_seconds_def divide_right_mono)
  then have "is_finished now r \<Longrightarrow> is_finished later r" for r by (auto simp: is_finished_def)
  then have "length (filter (\<lambda>(_, r). fr_gpu_type r = gpu \<and> \<not> is_finished later r) xs) \<le>
      length (filter (\<lambda>(_, r). fr_gpu_type r = gpu \<and> \<not> is_finished now r) xs)" for xs :: "(string \<times> fake_resource) list"
    by (induction xs) auto
  then show ?thesis by (simp add: in_use_def)
qed

text \<open>
  The simulated backend never launches beyond its capacity. After a successful launch, and at every
  later moment until something else is launched, the machines of that kind in use number at most the
  configured capacity, and no machine of another kind has come or gone.
\<close>

theorem launch_within_capacity:
  assumes "fake_ok cfg st" and "fake_launch cfg j now st = (Inr a, st')" and "now \<le> later"
  shows "\<exists>cap. map_of (fc_capacity cfg) (j_gpu_type j) = Some cap \<and> in_use (j_gpu_type j) later st' \<le> cap \<and>
    (\<forall>gpu. gpu \<noteq> j_gpu_type j \<longrightarrow> in_use gpu later st' = in_use gpu later st)"
  using assms(2)
proof (cases rule: launch_cases)
  case (2 r)
  have new: "map_of (fk_resources st) (fr_handle r) = None" using new_handle [OF assms(1)] 2(4) by simp
  have res: "fk_resources st' = fk_resources st @ [(fr_handle r, r)]" by (simp add: 2(3) put_resource_def update_fresh [OF new])
  obtain cap where cap: "map_of (fc_capacity cfg) (j_gpu_type j) = Some cap" "in_use (j_gpu_type j) now st < cap"
    using 2(1) by (auto simp: launch_refusal_def fake_supports_def free_slots_def split: if_splits)
  have "in_use (j_gpu_type j) now st' \<le> in_use (j_gpu_type j) now st + 1" by (simp add: in_use_def res)
  then have "in_use (j_gpu_type j) later st' \<le> cap" using in_use_mono [OF assms(3), of "j_gpu_type j" st'] cap(2) by simp
  moreover have "in_use gpu later st' = in_use gpu later st" if "gpu \<noteq> j_gpu_type j" for gpu
    using that 2(7) by (simp add: in_use_def res)
  ultimately show ?thesis using cap(1) by blast
qed simp

subsection \<open>Logs\<close>

text \<open>Between two states of a backend: a machine that is still known has only had lines added to its log,
  and every other machine has a handle that had not been given out.\<close>

definition grows :: "fake_config \<Rightarrow> fake_state \<Rightarrow> fake_state \<Rightarrow> bool" where
  "grows cfg st st' \<longleftrightarrow> fk_counter st \<le> fk_counter st' \<and>
     (\<forall>h r'. map_of (fk_resources st') h = Some r' \<longrightarrow>
        (\<exists>r extra. map_of (fk_resources st) h = Some r \<and> fr_logs r' = fr_logs r @ extra) \<or>
        (\<exists>n>fk_counter st. h = fake_handle cfg n))"

lemma grows_refl: "grows cfg st st"
  by (simp add: grows_def)

lemma growsE:
  assumes "grows cfg a b" and "map_of (fk_resources b) h = Some y"
  obtains x extra where "map_of (fk_resources a) h = Some x" "fr_logs y = fr_logs x @ extra"
  | n where "fk_counter a < n" "h = fake_handle cfg n"
  using assms unfolding grows_def by blast

lemma grows_trans:
  assumes "grows cfg a b" and "grows cfg b c"
  shows "grows cfg a c"
proof -
  have "(\<exists>r extra. map_of (fk_resources a) h = Some r \<and> fr_logs z = fr_logs r @ extra) \<or> (\<exists>n>fk_counter a. h = fake_handle cfg n)"
    if z: "map_of (fk_resources c) h = Some z" for h z
  proof -
    from assms(2) z show ?thesis
    proof (cases rule: growsE)
      case (1 y extra)
      from assms(1) 1(1) show ?thesis by (cases rule: growsE) (use 1(2) in auto)
    next
      case (2 n)
      moreover have "fk_counter a \<le> fk_counter b" using assms(1) by (simp add: grows_def)
      ultimately show ?thesis by (intro disjI2 exI [of _ n]) simp
    qed
  qed
  then show ?thesis using assms unfolding grows_def by (meson le_trans)
qed

lemma grows_touch:
  assumes "map_of (fk_resources st) (fr_handle r') = Some r" and "fr_logs r' = fr_logs r @ extra"
  shows "grows cfg st (put_resource r' st)"
  using assms by (simp add: grows_def put_resource_map)

lemma grows_new:
  assumes "fr_handle r = fake_handle cfg (fk_counter st + 1)"
  shows "grows cfg st (put_resource r (st\<lparr>fk_counter := fk_counter st + 1\<rparr>))"
  using assms by (auto simp: grows_def put_resource_map intro: exI [of _ "fk_counter st + 1"])

lemma grows_cong: "fk_counter b = fk_counter a \<Longrightarrow> fk_resources b = fk_resources a \<Longrightarrow> grows cfg a b"
  by (simp add: grows_def)

lemma save_grows:
  assumes "map_of (fk_resources st) (fr_handle r) = Some r" and "fake_save cfg now r step st = (r', st')"
  shows "grows cfg st st' \<and> map_of (fk_resources st') (fr_handle r) = Some r' \<and> fr_handle r' = fr_handle r"
proof (cases "fc_checkpoints cfg = None \<or> step \<le> fr_last_saved r")
  case True
  then have "r' = r" "st' = st" using assms(2) by (auto simp: fake_save_def split: option.splits)
  then show ?thesis using assms grows_refl by simp
next
  case False
  then obtain base where base: "fc_checkpoints cfg = Some base" "\<not> step \<le> fr_last_saved r" by auto
  obtain ref fs where put: "ckpt_put (fc_size_of cfg) base (fk_ckpts st) (fr_job r) step
      (Some [(STATE_FILE, State step (value_at r step))]) now = Inr (ref, fs)" by (simp add: ckpt_put_def)
  have r': "r' = r\<lparr>fr_last_saved := step\<rparr>" and st': "st' = put_resource r' (st\<lparr>fk_ckpts := fs\<rparr>)"
    using assms(2) base put by (auto simp: fake_save_def Let_def)
  have "grows cfg (st\<lparr>fk_ckpts := fs\<rparr>) st'"
    unfolding st' by (rule grows_touch [where r = r and extra = "[]"]) (use assms(1) in \<open>simp_all add: r'\<close>)
  moreover have "grows cfg st (st\<lparr>fk_ckpts := fs\<rparr>)" by (rule grows_cong) simp_all
  ultimately have "grows cfg st st'" using grows_trans by blast
  then show ?thesis by (simp add: st' put_resource_map r')
qed

lemma checkpoint_grows:
  assumes "map_of (fk_resources st) (fr_handle r) = Some r" and "maybe_checkpoint cfg now r st = (r', st')"
  shows "grows cfg st st' \<and> map_of (fk_resources st') (fr_handle r) = Some r' \<and> fr_handle r' = fr_handle r"
proof (cases "maybe_checkpoint cfg now r st = (r, st)")
  case True
  then show ?thesis using assms grows_refl by simp
next
  case False
  then show ?thesis using assms save_grows [OF assms(1)]
    unfolding maybe_checkpoint_def Let_def by (simp split: if_splits)
qed

lemma poll_grows:
  assumes "fake_ok cfg st"
  shows "grows cfg st (snd (fake_poll cfg h now st))"
proof (cases "map_of (fk_resources st) h")
  case None
  then show ?thesis by (simp add: fake_poll_def grows_refl)
next
  case (Some r)
  have own: "map_of (fk_resources st) (fr_handle r) = Some r" using Some fake_ok_handle [OF assms Some] by simp
  obtain r1 st1 where m: "maybe_checkpoint cfg now r st = (r1, st1)" by fastforce
  note M = checkpoint_grows [OF own m]
  have "grows cfg st1 (put_resource (r1\<lparr>fr_logs := fr_logs r1 @ l, fr_logged_start := True\<rparr>) st1)" for l
    by (rule grows_touch [where r = r1 and extra = l]) (use M in simp_all)
  then have started: "grows cfg st (put_resource (r1\<lparr>fr_logs := fr_logs r1 @ l, fr_logged_start := True\<rparr>) st1)" for l
    using grows_trans M by blast
  obtain r3 st3 where s: "fake_save cfg now r (fr_total_steps r) st = (r3, st3)" by fastforce
  note S = save_grows [OF own s]
  show ?thesis using Some M S started by (simp add: fake_poll_def m s Let_def grows_refl)
qed

lemma list_loop_grows: "fake_ok cfg st \<Longrightarrow> grows cfg st (snd (list_loop cfg now rs st)) \<and> fake_ok cfg (snd (list_loop cfg now rs st))"
proof (induction rs arbitrary: st)
  case (Cons hr rs)
  obtain h r where hr: "hr = (h, r)" by fastforce
  obtain obs st1 where p: "fake_poll cfg (fr_handle r) now st = (Inr obs, st1)" "plates st1 = plates st" "fk_counter st1 = fk_counter st"
    using poll_plates [OF Cons.prems, of "fr_handle r" now] by (elim exE conjE) (rule that)
  have "fake_ok cfg st1" using fake_ok_cong [OF p(2,3)] Cons.prems by simp
  note IH = Cons.IH [OF this]
  have "grows cfg st st1" using poll_grows [OF Cons.prems, of "fr_handle r" now] p(1) by simp
  then have "grows cfg st (snd (list_loop cfg now rs st1))" using IH grows_trans by blast
  moreover obtain out st2 where "list_loop cfg now rs st1 = (out, st2)" by fastforce
  ultimately show ?case using Cons.IH [OF Cons.prems] IH hr p(1) by simp
qed (simp add: grows_refl)

lemma touch_ok:
  assumes "fake_ok cfg st" and "map_of (fk_resources st) (fr_handle r') = Some r" and "plate r' = plate r"
  shows "fake_ok cfg (put_resource r' st)"
  using fake_ok_cong [OF put_same_plates [OF assms(2,3)]] assms(1) by simp

lemma interrupt_grows:
  assumes "fake_ok cfg st"
  shows "grows cfg st (interrupt cfg h now st) \<and> fake_ok cfg (interrupt cfg h now st)"
proof (cases "map_of (fk_resources st) h")
  case None
  then show ?thesis using assms by (simp add: interrupt_def grows_refl)
next
  case (Some r)
  have own: "map_of (fk_resources st) (fr_handle r) = Some r" using Some fake_ok_handle [OF assms Some] by simp
  obtain r1 st1 where rs1: "(if fr_total_steps r > 0 \<and> steps_done now r > fr_start_step r
      then fake_save cfg now r (steps_done now r) st else (r, st)) = (r1, st1)" by fastforce
  have S: "grows cfg st st1 \<and> map_of (fk_resources st1) (fr_handle r1) = Some r1 \<and> fake_ok cfg st1"
  proof (cases "fr_total_steps r > 0 \<and> steps_done now r > fr_start_step r")
    case True
    then have s: "fake_save cfg now r (steps_done now r) st = (r1, st1)" using rs1 by simp
    have "plates st1 = plates st" "fk_counter st1 = fk_counter st" using save_plates [OF own refl s] by simp_all
    from fake_ok_cong [OF this] show ?thesis using save_grows [OF own s] assms by simp
  next
    case False
    then have "r1 = r" "st1 = st" using rs1 by auto
    then show ?thesis using own assms grows_refl by simp
  qed
  let ?r = "r1\<lparr>fr_finish_at := total_seconds now, fr_outcome := BS_INTERRUPTED,
      fr_logs := fr_logs r1 @ [(''broker'', ''capacity interrupted at step '' @ show_int (steps_done now r))]\<rparr>"
  have "grows cfg st1 (put_resource ?r st1)" by (rule grows_touch [where r = r1]) (use S in simp_all)
  moreover have "fake_ok cfg (put_resource ?r st1)" by (rule touch_ok [where r = r1]) (use S in \<open>simp_all add: plate_def\<close>)
  ultimately have "grows cfg st (put_resource ?r st1) \<and> fake_ok cfg (put_resource ?r st1)" using S grows_trans by blast
  then show ?thesis using Some rs1 assms by (simp add: interrupt_def Let_def grows_refl)
qed

lemma fetch_grows:
  assumes "fake_ok cfg st"
  shows "grows cfg st (snd (fake_fetch_logs cfg h after now st)) \<and> fake_ok cfg (snd (fake_fetch_logs cfg h after now st))"
proof (cases "map_of (fk_resources st) h")
  case None
  then show ?thesis using assms by (simp add: fake_fetch_logs_def grows_refl)
next
  case (Some r)
  let ?r = "r\<lparr>fr_logs := fr_logs r @ [(''stdout'', closing_line r)]\<rparr>"
  have own: "map_of (fk_resources st) (fr_handle ?r) = Some r" using Some fake_ok_handle [OF assms Some] by simp
  have "grows cfg st (put_resource ?r st)" by (rule grows_touch [OF own]) simp
  moreover have "fake_ok cfg (put_resource ?r st)" by (rule touch_ok [OF assms own]) (simp add: plate_def)
  ultimately show ?thesis using Some assms by (simp add: fake_fetch_logs_def Let_def grows_refl)
qed

lemma terminate_grows:
  assumes "fake_ok cfg st"
  shows "grows cfg st (snd (fake_terminate cfg h why now st)) \<and> fake_ok cfg (snd (fake_terminate cfg h why now st))"
proof -
  have ok: "fake_ok cfg (snd (fake_terminate cfg h why now st))"
    using terminate_plates(2) [OF assms, of h why now "fst (fake_terminate cfg h why now st)"] by simp
  show ?thesis
  proof (cases "map_of (fk_resources st) h")
    case None
    then show ?thesis using ok by (simp add: fake_terminate_def grows_refl)
  next
    case (Some r)
    then have "fr_handle r = h" by (rule fake_ok_handle [OF assms])
    then show ?thesis using ok Some by (auto simp: fake_terminate_def intro!: grows_touch [where r = r])
  qed
qed

lemma launch_grows:
  assumes "fake_ok cfg st"
  shows "grows cfg st (snd (fake_launch cfg j now st)) \<and> fake_ok cfg (snd (fake_launch cfg j now st))"
proof -
  obtain res st' where l: "fake_launch cfg j now st = (res, st')" by fastforce
  then show ?thesis
  proof (cases rule: launch_cases)
    case (2 r)
    then show ?thesis using l appears(1) [OF assms 2(4,5)] grows_new [OF 2(4)] by simp
  qed (use l assms in \<open>simp add: grows_refl\<close>)
qed

lemma forget_grows:
  assumes "fake_ok cfg st"
  shows "grows cfg st (orphan_handle h st) \<and> fake_ok cfg (orphan_handle h st)"
proof -
  have sub: "set (plates (orphan_handle h st)) \<subseteq> set (plates st)" "distinct (map fst (plates (orphan_handle h st)))"
    using assms distinct_delete [of "fk_resources st" h]
    by (auto simp: plates_def orphan_handle_def fake_ok_def comp_def split_def AList.delete_eq)
  then have "fake_ok cfg (orphan_handle h st)" using assms by (auto simp: fake_ok_def orphan_handle_def)
  then show ?thesis by (auto simp: grows_def orphan_handle_def delete_conv' split: if_splits)
qed

lemma step_grows:
  assumes "fake_step cfg N s s'" and "fake_ok cfg (snd s)"
  shows "grows cfg (snd s) (snd s') \<and> fake_ok cfg (snd s')"
  using assms
proof (induction rule: fake_step.induct)
  case (polls now st h)
  then have ok: "fake_ok cfg st" by simp
  obtain obs st1 where p: "fake_poll cfg h now st = (Inr obs, st1)" "plates st1 = plates st" "fk_counter st1 = fk_counter st"
    using poll_plates [OF ok, of h now] by (elim exE conjE) (rule that)
  show ?case using fake_ok_cong [OF p(2,3)] poll_grows [OF ok, of h now] ok p(1) by simp
next
  case (lists now st)
  then show ?case using list_loop_grows [of cfg st now "fk_resources st"] by (simp add: fake_list_resources_def split_def)
next
  case (leaks now st jid uid gpu)
  then show ?case using appears(1) [of cfg st] grows_new [of _ cfg st] by (simp add: leak_def Let_def)
next
  case (scripts p jid now st)
  then show ?case by (simp add: set_plan_def grows_cong fake_ok_def plates_def)
next
  case (reports now st jid percent)
  then show ?case by (simp add: set_utilization_def grows_cong fake_ok_def plates_def)
next
  case (restarts now st)
  then show ?case by (simp add: fake_restart_def grows_cong fake_ok_def plates_def)
qed (simp_all add: launch_grows fetch_grows terminate_grows interrupt_grows forget_grows grows_refl)

lemma run_grows:
  assumes "(fake_step cfg N)\<^sup>*\<^sup>* s s'" and "fake_ok cfg (snd s)"
  shows "grows cfg (snd s) (snd s') \<and> fake_ok cfg (snd s')"
  using assms
proof (induction rule: rtranclp_induct)
  case (step y z)
  then show ?case using step_grows [OF step.hyps(2)] grows_trans by blast
qed (simp add: grows_refl)

text \<open>
  A reader that moves its cursor past the lines it was given sees every line of a machine's log exactly
  once, in order. Whatever happens to the backend between two reads, the lines of the first read
  followed by the lines of the second are the log from the first cursor on.
\<close>

theorem log_cursor_reads_once:
  assumes "fake_ok cfg st" and "fake_fetch_logs cfg h cursor now st = (Inr lines, st1)"
    and "(fake_step cfg N)\<^sup>*\<^sup>* (now, st1) (now', st2)" and "map_of (fk_resources st) h \<noteq> None"
    and "fake_fetch_logs cfg h (cursor + length lines) now' st2 = (Inr lines', st3)"
    and "map_of (fk_resources st3) h = Some r"
  shows "lines @ lines' = drop cursor (fr_logs r)"
proof -
  obtain r0 where r0: "map_of (fk_resources st) h = Some r0" using assms(4) by blast
  note F = fetch_grows [OF assms(1), of h cursor now, unfolded assms(2) snd_conv]
  have read: "map_of (fk_resources b) h = Some y \<Longrightarrow> ls = drop c (fr_logs y)"
    if "fake_ok cfg a" "fake_fetch_logs cfg h c t a = (Inr ls, b)" for a b c t ls y
  proof (cases "map_of (fk_resources a) h")
    case None
    assume "map_of (fk_resources b) h = Some y"
    then show ?thesis using that None by (simp add: fake_fetch_logs_def)
  next
    case (Some x)
    assume "map_of (fk_resources b) h = Some y"
    then show ?thesis using that(2) Some fake_ok_handle [OF that(1) Some]
      by (auto simp: fake_fetch_logs_def Let_def put_resource_map split: if_splits)
  qed
  have S: "grows cfg st1 st2" "fake_ok cfg st2" using run_grows [OF assms(3)] F by simp_all
  have "grows cfg st2 st3" using fetch_grows [OF S(2), of h "cursor + length lines" now', unfolded assms(5) snd_conv] by simp
  then have all: "grows cfg st1 st3" using S(1) grows_trans by blast
  have "(h, plate r0) \<in> set (plates st)" using map_of_SomeD [of "plates st" h "plate r0"] r0 by (simp add: plates_map_of)
  then obtain n where n: "n \<le> fk_counter st" "h = fake_handle cfg n" using assms(1) by (fastforce simp: fake_ok_def plate_def)
  have "fk_counter st \<le> fk_counter st1" using F by (simp add: grows_def)
  then have old: "\<not> fk_counter st1 < m" if "h = fake_handle cfg m" for m
  proof -
    have "n = m" using that unfolding n(2) by (rule fake_handle_inject)
    then show ?thesis using n(1) \<open>fk_counter st \<le> fk_counter st1\<close> by (simp only: not_less)
  qed
  from all assms(6) obtain x extra where x: "map_of (fk_resources st1) h = Some x" "fr_logs r = fr_logs x @ extra"
    by (cases rule: growsE) (use old in auto)
  have "lines = drop cursor (fr_logs x)" using read [OF assms(1,2) x(1)] .
  moreover have "lines' = drop (cursor + length lines) (fr_logs r)" using read [OF S(2) assms(5,6)] .
  ultimately show ?thesis using x(2) by (cases "cursor \<le> length (fr_logs x)") simp_all
qed

subsection \<open>A machine launched, lost and cancelled\<close>

lemma demo_fake_ok: "fake_ok demo_fake demo_fresh"
  by (simp add: fake_ok_def plates_def demo_fresh_def)

definition demo_launched :: fake_state where
  "demo_launched = snd (fake_launch demo_fake demo_work 0 demo_fresh)"

lemma demo_launch: "fake_launch demo_fake demo_work 0 demo_fresh =
    (Inr \<lparr>al_handle = ''fake-0001'', al_gpu_type = ''a10g'', al_tags = tags_for demo_work (to_iso 0)\<rparr>, demo_launched)"
proof -
  have "fst (fake_launch demo_fake demo_work 0 demo_fresh) =
    Inr \<lparr>al_handle = ''fake-0001'', al_gpu_type = ''a10g'', al_tags = tags_for demo_work (to_iso 0)\<rparr>" by code_simp
  then show ?thesis unfolding demo_launched_def by (metis prod.collapse)
qed

lemma demo_launched_ok: "fake_ok demo_fake demo_launched"
  using launch_grows [OF demo_fake_ok, of demo_work 0] by (simp add: demo_launched_def)

theorem fake_refines_pool_witness:
  "fake_held demo_fresh ''fake-0001'' = None \<and> fake_held demo_launched = (fake_held demo_fresh)(''fake-0001'' \<mapsto> tags_for demo_work (to_iso 0)) \<and>
   fake_held (snd (fake_terminate demo_fake ''fake-0001'' ''enough'' 0 demo_launched)) = (fake_held demo_launched)(''fake-0001'' := None)"
  using fake_refines_pool [OF demo_fake_ok, of 0 "''fake-0001''" "''enough''"]
    fake_refines_pool [OF demo_launched_ok, of 0 "''fake-0001''" "''enough''"] demo_launch by fastforce


theorem launch_within_capacity_witness: "in_use ''a10g'' 0 demo_launched \<le> 1"
proof -
  have "j_gpu_type demo_work = ''a10g''" "map_of (fc_capacity demo_fake) ''a10g'' = Some 1"
    by (simp_all add: demo_work_def new_job_def demo_fake_def)
  then show ?thesis using launch_within_capacity [OF demo_fake_ok demo_launch, of 0] by auto
qed

definition demo_closed :: fake_state where
  "demo_closed = snd (fake_fetch_logs demo_fake ''fake-0001'' 1 8000000000 demo_launched)"

theorem log_cursor_reads_once_witness:
  "case map_of (fk_resources demo_closed) ''fake-0001'' of None \<Rightarrow> False
   | Some r \<Rightarrow> [(''broker'', ''launched fake-0001 (a10g)'')] @ [(''stdout'', ''train-01: completed (exit 0)'')] = fr_logs r"
proof -
  have one: "fake_fetch_logs demo_fake ''fake-0001'' 0 0 demo_launched = (Inr [(''broker'', ''launched fake-0001 (a10g)'')], demo_launched)"
    and known: "map_of (fk_resources demo_launched) ''fake-0001'' \<noteq> None" and "map_of (fk_resources demo_closed) ''fake-0001'' \<noteq> None"
    and "fst (fake_fetch_logs demo_fake ''fake-0001'' 1 8000000000 demo_launched) = Inr [(''stdout'', ''train-01: completed (exit 0)'')]"
    by code_simp+
  then obtain r where r: "map_of (fk_resources demo_closed) ''fake-0001'' = Some r" and
    two: "fake_fetch_logs demo_fake ''fake-0001'' 1 8000000000 demo_launched = (Inr [(''stdout'', ''train-01: completed (exit 0)'')], demo_closed)"
    unfolding demo_closed_def by (metis not_None_eq prod.collapse)
  have "calendar 8000000000" by code_simp
  then have run: "(fake_step demo_fake (\<lambda>_. 0))\<^sup>*\<^sup>* (0, demo_launched) (8000000000, demo_launched)"
    by (intro r_into_rtranclp passes) simp_all
  have "length [(''broker'', ''launched fake-0001 (a10g)'')] = 1" by simp
  then show ?thesis using log_cursor_reads_once [OF demo_launched_ok one run known _ r, of "[(''stdout'', ''train-01: completed (exit 0)'')]"] two r
    by simp
qed

text \<open>A store whose one job runs on the machine.\<close>

definition demo_running :: job where
  "demo_running = demo_work\<lparr>j_state := RUNNING, j_backend := Some ''fake'', j_handle := Some ''fake-0001''\<rparr>"

definition demo_busy :: "fake_state world" where
  "demo_busy = \<lparr>w_store = (empty_store 0 (default_config (\<lambda>_. 0)))\<lparr>st_jobs := [demo_running]\<rparr>, w_ext = demo_launched\<rparr>"

definition demo_lab :: "fake_state broker" where
  "demo_lab = \<lparr>br_scheduler = \<lparr>sc_backends = [fake_backend demo_fake], sc_checkpoints = None\<rparr>, br_local = None\<rparr>"

theorem cancel_frees_machine_witness:
  "\<exists>j' w'. cancel demo_lab ''train-01'' None False demo_busy = (Inr j', w') \<and>
     fake_held (w_ext w') = (fake_held demo_launched)(''fake-0001'' := None)"
proof -
  have j: "find_job (w_store demo_busy) ''train-01'' = Inr demo_running"
    by (simp add: find_job_def demo_busy_def demo_running_def demo_work_def new_job_def)
  have b: "scheduler_backend (br_scheduler demo_lab) (fc_name demo_fake) = Some (fake_backend demo_fake)" "fc_name demo_fake = ''fake''"
    by (simp_all add: demo_lab_def scheduler_backend_def fake_backend_def demo_fake_def)
  have ok: "fake_ok demo_fake (w_ext demo_busy)" using demo_launched_ok by (simp add: demo_busy_def)
  obtain e' where stop: "calls (bk_terminate (fake_backend demo_fake) ''fake-0001'' ''cancelled by ada'') demo_busy = (Inr (), demo_busy\<lparr>w_ext := e'\<rparr>)"
  proof -
    obtain res e' where t: "fake_terminate demo_fake ''fake-0001'' ''cancelled by ada'' (st_now (w_store demo_busy)) (w_ext demo_busy) = (res, e')"
      by fastforce
    then show ?thesis using terminate_plates(1) [OF ok t] by (intro that [of e']) (simp add: calls_def fake_backend_def)
  qed
  have held: "terminate_if_held (br_scheduler demo_lab) demo_running ''cancelled by ada'' demo_busy = (Inr (), demo_busy\<lparr>w_ext := e'\<rparr>)"
    using stop b by (simp add: terminate_if_held_def truthy_def demo_running_def)
  have "\<exists>x. transition (w_store demo_busy) demo_running CANCELLED (Some ''cancelled by ada'') [] None None None True = Inr x"
    by (simp add: transition_def can_transition_def Let_def demo_running_def demo_work_def new_job_def handle_taken_def transitioned_def
        demo_busy_def)
  then have "\<exists>j' w'. cancel demo_lab ''train-01'' None False demo_busy = (Inr j', w')"
    using held by (auto simp: cancel_def run_simps j may_cancel_def is_terminal_def TERMINAL_def actor_name_def truthy_def move_def
        demo_running_def demo_work_def new_job_def)  then obtain j' w' where c: "cancel demo_lab ''train-01'' None False demo_busy = (Inr j', w')" by blast
  have "j_backend demo_running = Some (fc_name demo_fake)" "j_handle demo_running = Some ''fake-0001''" using b(2) by (simp_all add: demo_running_def)
  then have "fake_held (w_ext w') = (fake_held (w_ext demo_busy))(''fake-0001'' := None)"
    using cancel_frees_machine [OF b(1) ok j _ _ _ _ c] b(2) by simp
  then show ?thesis using c by (auto simp: demo_busy_def)
qed
end
