(* ===== verification/Race.thy ===== *)
theory Race
  imports Facade
begin

text \<open>
  Two processes on one database: \<^verbatim>\<open>store.transition\<close> in \<^verbatim>\<open>gpu_broker/store.py\<close> is told the job as its caller
  read it, possibly before another process moved the job. Each call is one transaction; the order in
  which two calls commit is the order of the calls here.
\<close>

lemma can_transition_moves: "can_transition a b \<Longrightarrow> a \<noteq> b"
  by (cases a) (auto simp: can_transition_def)

lemma stale_transition:
  assumes "\<forall>r\<in>set (st_jobs st). j_id r = j_id j \<longrightarrow> j_state r \<noteq> j_state j"
  shows "transition st j to_state reason ws b h ec clr = Inl (IllegalTransition (j_id j) (j_state j) to_state)"
proof -
  have "filter (\<lambda>r. j_id r = j_id j \<and> j_state r = j_state j) (st_jobs st) = []" using assms by (auto simp: filter_empty_conv)
  then show ?thesis by (simp add: transition_def Let_def)
qed



end
