(* ===== verification/Divergence.thy ===== *)
theory Divergence
  imports Facade Pool
begin

text \<open>
  Places where the code does not do what a comment or document of the repository says. Each lemma
  shows what the code does.
\<close>

text \<open>\<^verbatim>\<open>store.transition\<close> returns a job without its origin, although the row keeps it.\<close>

lemma transition_drops_origin:
  "transition st j to_state reason ws b h ec clr = Inr (j', st') \<Longrightarrow> j_origin j' = ''real''"
  using transition_Inr(2) [of st j to_state reason ws b h ec clr j' st'] by (simp add: transitioned_def)

text \<open>A job that is being resumed when its capacity is taken away: the scheduler's move to PREEMPTED is
  not in the table, so the tick raises.\<close>

lemma resuming_job_cannot_be_preempted:
  "j_state j = RESUMING \<Longrightarrow> move j PREEMPTED reason ec clr w = (Inl (IllegalTransition (j_id j) RESUMING PREEMPTED), w)"
  by (simp add: move_def writes_try_def transition_def can_transition_def)

text \<open>Cancelling a job that is writing a checkpoint takes its machine away and then raises.\<close>

lemma checkpointing_job_cancel_raises:
  assumes "find_job (w_store w) p = Inr j" and "j_state j = CHECKPOINTING" and "may_cancel (w_store w) j actor admin"
    and "terminate_if_held (br_scheduler br) j (''cancelled by '' @ actor_name actor j) w = (Inr (), w1)"
  shows "cancel br p actor admin w = (Inl (IllegalTransition (j_id j) CHECKPOINTING CANCELLED), w1)"
  using assms by (simp add: cancel_def and_then_def reads_try_def is_terminal_def TERMINAL_def move_def writes_try_def
      transition_def can_transition_def)

text \<open>Reclaiming an idle job that is not RUNNING terminates its machine and then raises.\<close>

lemma reclaim_only_from_running: "can_transition s RECLAIMED \<Longrightarrow> s = RUNNING"
  by (cases s) (auto simp: can_transition_def)

text \<open>A budget under half a cent passes the check for a positive amount and reserves nothing.\<close>

lemma tiny_budget_reserves_nothing:
  "check_job_cap (default_config z) USD (4/1000) = None \<and> quantize (4/1000) USD = 0"
  by (simp add: check_job_cap_None max_job_def default_config_def quantize_def money_def)

text \<open>With a limit of one byte, clipping makes a long line longer than the limit.\<close>

lemma clipping_exceeds_tiny_limit: "clip_line 1 ''abcde'' = ''abc...''"
  by (simp add: clip_line_def py_take_def)

text \<open>A hold taken in one month and released in the next leaves a negative hold in the second.\<close>

lemma hold_released_next_month:
  assumes "st_ledger st = [\<lparr>l_job = Some ''a'', l_user = Some ''ada'', l_currency = USD, l_kind = RESERVE, l_amount = 5,
       l_period = ''2026-01'', l_at = 0, l_note = None, l_resource_handle = None\<rparr>,
      \<lparr>l_job = Some ''a'', l_user = Some ''ada'', l_currency = USD, l_kind = RELEASE, l_amount = 5,
       l_period = ''2026-02'', l_at = 1, l_note = None, l_resource_handle = None\<rparr>]"
  shows "b_held (pool_balance_in st USD ''2026-02'') = - 5"
  using assms by (simp add: pool_balance_in_def aggregate_def)

text \<open>What an abandoned machine burned counts as spent by the job it was tagged with.\<close>

lemma abandoned_counts_as_spent: "aggregate_row (held, spent) (e\<lparr>l_kind := ABANDONED\<rparr>) = (held, spent + l_amount e)"
  by simp

text \<open>A poll of the simulated backend changes it: the first poll of a running machine writes a log line.\<close>

lemma poll_writes: "snd (fake_poll demo_fake ''fake-0001'' 3600000000 demo_launched) \<noteq> demo_launched"
proof -
  have "length (case map_of (fk_resources (snd (fake_poll demo_fake ''fake-0001'' 3600000000 demo_launched))) ''fake-0001'' of
      None \<Rightarrow> [] | Some r \<Rightarrow> fr_logs r) \<noteq> length (case map_of (fk_resources demo_launched) ''fake-0001'' of None \<Rightarrow> [] | Some r \<Rightarrow> fr_logs r)"
    by code_simp
  then show ?thesis by metis
qed

text \<open>Writing a step again removes the complete checkpoint of that step first: cut off there, it is gone.\<close>

lemma rewriting_a_step_can_lose_it:
  "\<exists>fs'. crashed (put_ops (\<lambda>_. 10) ''ck'' demo_fs1 ''a'' 5 (demo_state 5) 0) demo_fs1 fs' \<and>
     ckpt_latest ''ck'' demo_fs1 ''a'' \<noteq> None \<and> ckpt_latest ''ck'' fs' ''a'' = None"
proof -
  let ?p = "ckpt_dir ''ck'' ''a'' 5"
  have there: "map_of demo_fs1 ?p \<noteq> None" and latest: "ckpt_latest ''ck'' demo_fs1 ''a'' \<noteq> None"
    and lost: "ckpt_latest ''ck'' (apply_op (RmTree ?p) demo_fs1) ''a'' = None"
    by code_simp+
  obtain ops where "put_ops (\<lambda>_. 10) ''ck'' demo_fs1 ''a'' 5 (demo_state 5) 0 = RmTree ?p # ops"
    using there by (simp add: put_ops_def Let_def)
  then have "crashed (put_ops (\<lambda>_. 10) ''ck'' demo_fs1 ''a'' 5 (demo_state 5) 0) demo_fs1 (apply_op (RmTree ?p) demo_fs1)"
    using crashed.intros(1,3) by metis
  then show ?thesis using latest lost by blast
qed

end
