(* ===== verification/Transport.thy ===== *)
theory Transport
  imports Backend PyText "HOL-Library.AList"
begin

text \<open>
  \<^verbatim>\<open>gpu_broker/local/transport.py\<close>: a command run on a host. First the sequencing of operations on an
  external world, with exceptions, in the manner of the broker code of \<^verbatim>\<open>Backend\<close> but without a store; then
  the values of the protocol, and the pooled SSH transport over what \<open>asyncssh\<close> offers. What connects,
  runs and closes is that library, so it is a record of operations on the network's state.
\<close>

subsection \<open>Operations on an external world\<close>

definition x_ret :: "'a \<Rightarrow> ('e, 'a) ext_op" where
  "x_ret a now e = (Inr a, e)"

definition x_raise :: "error \<Rightarrow> ('e, 'a) ext_op" where
  "x_raise x now e = (Inl x, e)"

definition x_then :: "('e, 'a) ext_op \<Rightarrow> ('a \<Rightarrow> ('e, 'b) ext_op) \<Rightarrow> ('e, 'b) ext_op" where
  "x_then m k now e = (case m now e of (Inl x, e') \<Rightarrow> (Inl x, e') | (Inr a, e') \<Rightarrow> k a now e')"

definition x_try :: "('e, 'a) ext_op \<Rightarrow> (string \<Rightarrow> ('e, 'b) ext_op) \<Rightarrow> ('a \<Rightarrow> ('e, 'b) ext_op) \<Rightarrow> ('e, 'b) ext_op" where
  "x_try m h k now e =
     (case m now e of
        (Inl x, e') \<Rightarrow> (if is_backend_error x then h (error_text x) now e' else (Inl x, e'))
      | (Inr a, e') \<Rightarrow> k a now e')"

definition x_get :: "('e \<Rightarrow> 'a) \<Rightarrow> ('e, 'a) ext_op" where
  "x_get f now e = (Inr (f e), e)"

definition x_now :: "('e, moment) ext_op" where
  "x_now now e = (Inr now, e)"

definition x_set :: "('e \<Rightarrow> 'e) \<Rightarrow> ('e, unit) ext_op" where
  "x_set f now e = (Inr (), f e)"

definition x_of :: "(error, 'a) result \<Rightarrow> ('e, 'a) ext_op" where
  "x_of r now e = (r, e)"

text \<open>A list comprehension whose elements are computed by operations, left to right.\<close>

fun x_each :: "('x \<Rightarrow> ('e, 'a) ext_op) \<Rightarrow> 'x list \<Rightarrow> ('e, 'a list) ext_op" where
  "x_each f [] = x_ret []"
| "x_each f (x # xs) = x_then (f x) (\<lambda>a. x_then (x_each f xs) (\<lambda>rest. x_ret (a # rest)))"

named_theorems x_simps \<open>runs of operations on an external world taken apart\<close>

lemma x_run [x_simps]:
  "x_ret a now e = (r, e') \<longleftrightarrow> r = Inr a \<and> e' = e"
  "x_raise x now e = (r, e') \<longleftrightarrow> r = Inl x \<and> e' = e"
  "x_get f now e = (r, e') \<longleftrightarrow> r = Inr (f e) \<and> e' = e"
  "x_now now e = (r', e') \<longleftrightarrow> r' = Inr now \<and> e' = e"
  "x_set g now e = (r'', e') \<longleftrightarrow> r'' = Inr () \<and> e' = g e"
  "x_of q now e = (r, e') \<longleftrightarrow> q = r \<and> e' = e"
  by (auto simp: x_ret_def x_raise_def x_get_def x_now_def x_set_def x_of_def)

lemma x_then_Inr [x_simps]:
  "x_then m k now e = (Inr b, e') \<longleftrightarrow> (\<exists>a e1. m now e = (Inr a, e1) \<and> k a now e1 = (Inr b, e'))"
  by (auto simp: x_then_def split: sum.splits prod.splits)

lemma x_then_Inl [x_simps]:
  "x_then m k now e = (Inl x, e') \<longleftrightarrow>
     m now e = (Inl x, e') \<or> (\<exists>a e1. m now e = (Inr a, e1) \<and> k a now e1 = (Inl x, e'))"
  by (auto simp: x_then_def split: sum.splits prod.splits)

lemma x_try_Inr [x_simps]:
  "x_try m h k now e = (Inr b, e') \<longleftrightarrow>
     (\<exists>x e1. m now e = (Inl x, e1) \<and> is_backend_error x \<and> h (error_text x) now e1 = (Inr b, e')) \<or>
     (\<exists>a e1. m now e = (Inr a, e1) \<and> k a now e1 = (Inr b, e'))"
  by (auto simp: x_try_def split: sum.splits prod.splits)

text \<open>A property of the external world that an operation keeps, whatever it answers.\<close>

definition keeps :: "('e \<Rightarrow> bool) \<Rightarrow> ('e, 'a) ext_op \<Rightarrow> bool" where
  "keeps I m \<longleftrightarrow> (\<forall>now e. I e \<longrightarrow> I (snd (m now e)))"

named_theorems keeps_intros \<open>operations that keep a property of the external world\<close>

lemma ext_keepsD: "keeps I m \<Longrightarrow> I e \<Longrightarrow> m now e = (r, e') \<Longrightarrow> I e'"
  unfolding keeps_def by (metis snd_conv)

lemma keeps_basic [keeps_intros, simp]:
  "keeps I (x_ret a)" "keeps I (x_raise x)" "keeps I (x_get f)" "keeps I x_now" "keeps I (x_of r)"
  by (simp_all add: keeps_def x_ret_def x_raise_def x_get_def x_now_def x_of_def)

lemma keeps_set [keeps_intros]: "(\<And>e. I e \<Longrightarrow> I (f e)) \<Longrightarrow> keeps I (x_set f)"
  by (simp add: keeps_def x_set_def)

lemma ext_keeps_then [keeps_intros]:
  assumes "keeps I m" and "\<And>a. keeps I (k a)"
  shows "keeps I (x_then m k)"
  unfolding keeps_def
proof (intro allI impI)
  fix now e assume "I e"
  obtain r e1 where m: "m now e = (r, e1)" by fastforce
  then have "I e1" using ext_keepsD [OF assms(1) \<open>I e\<close>] by blast
  with assms(2) show "I (snd (x_then m k now e))" by (simp add: keeps_def x_then_def m split: sum.splits)
qed

lemma keeps_try [keeps_intros]:
  assumes "keeps I m" and "\<And>t. keeps I (h t)" and "\<And>a. keeps I (k a)"
  shows "keeps I (x_try m h k)"
  unfolding keeps_def
proof (intro allI impI)
  fix now e assume "I e"
  obtain r e1 where m: "m now e = (r, e1)" by fastforce
  then have "I e1" using ext_keepsD [OF assms(1) \<open>I e\<close>] by blast
  with assms(2,3) show "I (snd (x_try m h k now e))" by (simp add: keeps_def x_try_def m split: sum.splits)
qed

lemma keeps_each [keeps_intros]: "(\<And>x. keeps I (f x)) \<Longrightarrow> keeps I (x_each f xs)"
  by (induction xs) (simp_all add: ext_keeps_then)

lemma keeps_if [keeps_intros]: "(c \<Longrightarrow> keeps I m) \<Longrightarrow> (\<not> c \<Longrightarrow> keeps I n) \<Longrightarrow> keeps I (if c then m else n)"
  by simp

lemma keeps_option [keeps_intros]: "keeps I m \<Longrightarrow> (\<And>a. keeps I (n a)) \<Longrightarrow> keeps I (case x of None \<Rightarrow> m | Some a \<Rightarrow> n a)"
  by (cases x) simp_all

lemma keeps_prod [keeps_intros]: "(\<And>a b. keeps I (f a b)) \<Longrightarrow> keeps I (case p of (a, b) \<Rightarrow> f a b)"
  by (cases p) simp

text \<open>What holds of every result of a comprehension, given an invariant of the world.\<close>

lemma x_each_all:
  assumes "\<And>x a e e'. x \<in> set xs \<Longrightarrow> I e \<Longrightarrow> f x now e = (Inr a, e') \<Longrightarrow> I e' \<and> Q a"
    and "I e" and "x_each f xs now e = (Inr as, e')"
  shows "I e' \<and> list_all Q as"
  using assms
proof (induction xs arbitrary: e as)
  case (Cons x xs)
  then obtain a e1 rest where r: "f x now e = (Inr a, e1)" "x_each f xs now e1 = (Inr rest, e')" "as = a # rest"
    by (auto simp: x_simps)
  have q: "I e1 \<and> Q a" by (rule Cons.prems(1) [OF _ Cons.prems(2) r(1)]) simp
  have "I e' \<and> list_all Q rest" by (rule Cons.IH [OF Cons.prems(1) _ r(2)]) (use q in auto)
  with q show ?case by (simp add: r(3))
qed (auto simp: x_simps)

subsection \<open>The protocol\<close>

record host_spec =
  h_hostname :: string
  h_username :: string
  h_port :: int
  h_client_key :: "string option"
  h_known_hosts :: "string option"

definition host_named :: "string \<Rightarrow> host_spec" where
  "host_named hostname =
     \<lparr>h_hostname = hostname, h_username = ''broker'', h_port = 22, h_client_key = None, h_known_hosts = None\<rparr>"

record command_result =
  cm_exit_status :: int
  cm_stdout :: string
  cm_stderr :: string

definition cm_ok :: "command_result \<Rightarrow> bool" where
  "cm_ok r = (cm_exit_status r = 0)"

text \<open>\<open>(r.stderr or r.stdout).strip().splitlines()\<close>.\<close>

definition cm_detail :: "command_result \<Rightarrow> string list" where
  "cm_detail r = splitlines (strip (if cm_stderr r = [] then cm_stdout r else cm_stderr r))"

definition cm_require :: "command_result \<Rightarrow> string \<Rightarrow> (error, command_result) result" where
  "cm_require r what =
     (if cm_ok r then Inr r
      else Inl (BackendError (what @ '' failed: '' @
             (case cm_detail r of d # _ \<Rightarrow> d | [] \<Rightarrow> ''exit '' @ show_int (cm_exit_status r)))))"

type_synonym 't transport = "host_spec \<Rightarrow> string \<Rightarrow> pyfloat \<Rightarrow> ('t, command_result) ext_op"

subsection \<open>SSH\<close>

text \<open>What \<open>asyncssh\<close> does: opening a connection within a time, running a command on one within a time,
  closing one. A failure is a timeout or some other exception with its text; output that is missing is
  \<^const>\<open>None\<close>, an exit status is missing when the command was killed by a signal.\<close>

datatype ssh_failure = TimedOut | SshFailed string

record completed =
  cp_exit_status :: "int option"
  cp_stdout :: "string option"
  cp_stderr :: "string option"

record ('c, 'n) asyncssh =
  as_connect :: "host_spec \<Rightarrow> pyfloat \<Rightarrow> 'n \<Rightarrow> (ssh_failure + 'c) \<times> 'n"
  as_run :: "'c \<Rightarrow> string \<Rightarrow> pyfloat \<Rightarrow> 'n \<Rightarrow> (ssh_failure + completed) \<times> 'n"
  as_close :: "'c \<Rightarrow> 'n \<Rightarrow> 'n"

record ('c, 'n) ssh_state =
  ss_connections :: "(string \<times> 'c) list"
  ss_closed :: bool
  ss_net :: 'n

definition ssh_key :: "host_spec \<Rightarrow> string" where
  "ssh_key h = h_username h @ ''@'' @ h_hostname h @ '':'' @ show_int (h_port h)"

definition ssh_text :: "string option \<Rightarrow> string" where
  "ssh_text v = (case v of None \<Rightarrow> [] | Some s \<Rightarrow> s)"

definition ssh_forget :: "('c, 'n) asyncssh \<Rightarrow> host_spec \<Rightarrow> ('c, 'n) ssh_state \<Rightarrow> ('c, 'n) ssh_state" where
  "ssh_forget lib h s =
     (case map_of (ss_connections s) (ssh_key h) of
        None \<Rightarrow> s
      | Some c \<Rightarrow> s\<lparr>ss_connections := AList.delete (ssh_key h) (ss_connections s), ss_net := as_close lib c (ss_net s)\<rparr>)"

definition ssh_connect ::
  "('c, 'n) asyncssh \<Rightarrow> pyfloat \<Rightarrow> host_spec \<Rightarrow> bool \<Rightarrow> ('c, 'n) ssh_state \<Rightarrow> (error, 'c) result \<times> ('c, 'n) ssh_state"
where
  "ssh_connect lib connect_timeout h reconnect s0 =
     (let s = (if reconnect then ssh_forget lib h s0 else s0)
      in case map_of (ss_connections s) (ssh_key h) of
           Some c \<Rightarrow> (Inr c, s)
         | None \<Rightarrow>
             (case as_connect lib h connect_timeout (ss_net s) of
                (Inl TimedOut, n) \<Rightarrow>
                  (Inl (BackendError (h_hostname h @ '': no SSH response within '' @ show_fixed 0 connect_timeout @ ''s'')), s\<lparr>ss_net := n\<rparr>)
              | (Inl (SshFailed t), n) \<Rightarrow>
                  (Inl (BackendError (h_hostname h @ '': cannot connect: '' @ t)), s\<lparr>ss_net := n\<rparr>)
              | (Inr c, n) \<Rightarrow>
                  (Inr c, s\<lparr>ss_connections := AList.update (ssh_key h) c (ss_connections s), ss_net := n\<rparr>)))"

text \<open>One round of the loop of \<open>_run\<close>: \<open>Inr None\<close> is the \<open>continue\<close> after a failure of a first attempt.\<close>

definition ssh_attempt ::
  "('c, 'n) asyncssh \<Rightarrow> pyfloat \<Rightarrow> host_spec \<Rightarrow> string \<Rightarrow> pyfloat \<Rightarrow> bool \<Rightarrow> ('c, 'n) ssh_state \<Rightarrow>
     (error, command_result option) result \<times> ('c, 'n) ssh_state"
where
  "ssh_attempt lib connect_timeout h command timeout second s0 =
     (case ssh_connect lib connect_timeout h second s0 of
        (Inl x, s) \<Rightarrow> (Inl x, s)
      | (Inr c, s) \<Rightarrow>
          (case as_run lib c command timeout (ss_net s) of
             (Inl TimedOut, n) \<Rightarrow>
               (Inl (BackendError (h_hostname h @ '': command timed out after '' @ show_fixed 0 timeout @ ''s: '' @ take 80 command)),
                s\<lparr>ss_net := n\<rparr>)
           | (Inl (SshFailed t), n) \<Rightarrow>
               (if second then Inl (BackendError (h_hostname h @ '': '' @ t)) else Inr None,
                ssh_forget lib h (s\<lparr>ss_net := n\<rparr>))
           | (Inr p, n) \<Rightarrow>
               (Inr (Some \<lparr>cm_exit_status = (case cp_exit_status p of Some k \<Rightarrow> k | None \<Rightarrow> - 1),
                           cm_stdout = ssh_text (cp_stdout p), cm_stderr = ssh_text (cp_stderr p)\<rparr>),
                s\<lparr>ss_net := n\<rparr>)))"

definition ssh_run ::
  "('c, 'n) asyncssh \<Rightarrow> pyfloat \<Rightarrow> host_spec \<Rightarrow> string \<Rightarrow> pyfloat \<Rightarrow> ('c, 'n) ssh_state \<Rightarrow>
     (error, command_result) result \<times> ('c, 'n) ssh_state"
where
  "ssh_run lib connect_timeout h command timeout s0 =
     (case ssh_attempt lib connect_timeout h command timeout False s0 of
        (Inl x, s) \<Rightarrow> (Inl x, s)
      | (Inr (Some r), s) \<Rightarrow> (Inr r, s)
      | (Inr None, s) \<Rightarrow>
          (case ssh_attempt lib connect_timeout h command timeout True s of
             (Inl x, s') \<Rightarrow> (Inl x, s')
           | (Inr (Some r), s') \<Rightarrow> (Inr r, s')
           | (Inr None, s') \<Rightarrow> (Inl (BackendError (h_hostname h @ '': unreachable'')), s')))"

text \<open>The blocking \<open>run\<close>: it refuses after \<open>close\<close>, and a zero timeout means the transport's own. The
  extra wait of the calling thread, a little longer than these timeouts, is not modelled.\<close>

definition ssh_transport :: "('c, 'n) asyncssh \<Rightarrow> pyfloat \<Rightarrow> pyfloat \<Rightarrow> ('c, 'n) ssh_state transport" where
  "ssh_transport lib connect_timeout command_timeout h command timeout now s =
     (if ss_closed s then (Inl (BackendError ''transport is closed''), s)
      else ssh_run lib connect_timeout h command (if timeout = 0 then command_timeout else timeout) s)"

definition ssh_close :: "('c, 'n) asyncssh \<Rightarrow> ('c, 'n) ssh_state \<Rightarrow> ('c, 'n) ssh_state" where
  "ssh_close lib s =
     (if ss_closed s then s
      else s\<lparr>ss_closed := True, ss_connections := [], ss_net := foldl (\<lambda>n (k, c). as_close lib c n) (ss_net s) (ss_connections s)\<rparr>)"

text \<open>Whatever goes wrong comes out as a BackendError: that is what every caller catches.\<close>

lemma ssh_connect_error: "ssh_connect lib t h b s = (Inl x, s') \<Longrightarrow> is_backend_error x"
  by (auto simp: ssh_connect_def is_backend_error_def Let_def split: if_splits option.splits prod.splits sum.splits ssh_failure.splits)

lemma ssh_attempt_error: "ssh_attempt lib t h c tm b s = (Inl x, s') \<Longrightarrow> is_backend_error x"
  unfolding ssh_attempt_def
  by (auto simp: is_backend_error_def split: if_splits prod.splits sum.splits ssh_failure.splits dest: ssh_connect_error)

lemma ssh_transport_error: "ssh_transport lib t0 t1 h c tm now s = (Inl x, s') \<Longrightarrow> is_backend_error x"
  unfolding ssh_transport_def ssh_run_def
  by (auto simp: is_backend_error_def split: if_splits prod.splits sum.splits option.splits dest!: ssh_attempt_error)

end
