(* ===== verification/Shell.thy ===== *)
theory Shell
  imports PyText
begin

text \<open>
  Quoting for a POSIX shell. \<open>shlex_quote\<close> is the standard library's \<open>shlex.quote\<close>, which every text the
  broker puts into a command goes through. \<open>sh_tokens\<close> is the other side: how a shell cuts a line into
  words and operators. It gives up (\<^const>\<open>None\<close>) at any character outside quotes that a shell would expand
  or treat in another way, so a result says that the shell sees exactly these words, and that the only
  operators are the ones listed.
\<close>

definition safe_char :: "char \<Rightarrow> bool" where
  "safe_char c = (ascii_letter c \<or> 48 \<le> code c \<and> code c \<le> 57 \<or> c \<in> set ''_@%+=:,./-'')"

definition SQ :: char where
  "SQ = CHR 0x27"

definition DQ :: char where
  "DQ = CHR 0x22"

definition shlex_quote :: "string \<Rightarrow> string" where
  "shlex_quote s =
     (if s = [] then [SQ, SQ]
      else if list_all safe_char s then s
      else [SQ] @ concat (map (\<lambda>c. if c = SQ then [SQ, DQ, SQ, DQ, SQ] else [c]) s) @ [SQ])"

subsection \<open>How a shell reads a line\<close>

datatype sh_mode = Plain | Single | Double
datatype sh_token = Word string | Op string

definition emit :: "bool \<Rightarrow> string \<Rightarrow> sh_token list \<Rightarrow> sh_token list" where
  "emit word acc ts = (if word then Word (rev acc) # ts else ts)"

text \<open>The characters of the word being read are kept in reverse; the flag says whether there is one,
  which an empty pair of quotes starts too. Operators are read one character at a time; \<open>$?\<close> is the
  status of the last command.\<close>

fun sh_read :: "sh_mode \<Rightarrow> bool \<Rightarrow> string \<Rightarrow> string \<Rightarrow> sh_token list option" where
  "sh_read Plain word acc [] = Some (emit word acc [])"
| "sh_read Single word acc [] = None"
| "sh_read Double word acc [] = None"
| "sh_read Plain word acc (c # cs) =
     (if c = CHR '' '' \<or> code c = 9 then map_option (emit word acc) (sh_read Plain False [] cs)
      else if c = SQ then sh_read Single True acc cs
      else if c = DQ then sh_read Double True acc cs
      else if safe_char c then sh_read Plain True (c # acc) cs
      else if c \<in> set ''&|;><!'' then map_option (\<lambda>ts. emit word acc (Op [c] # ts)) (sh_read Plain False [] cs)
      else if c = CHR ''$'' \<and> cs \<noteq> [] \<and> hd cs = CHR ''?'' then map_option (\<lambda>ts. emit word acc (Op ''$?'' # ts)) (sh_read Plain False [] (tl cs))
      else None)"
| "sh_read Single word acc (c # cs) = (if c = SQ then sh_read Plain True acc cs else sh_read Single True (c # acc) cs)"
| "sh_read Double word acc (c # cs) =
     (if c = DQ then sh_read Plain True acc cs
      else if c \<in> set ''$`'' \<or> code c = 92 then None
      else sh_read Double True (c # acc) cs)"

definition sh_tokens :: "string \<Rightarrow> sh_token list option" where
  "sh_tokens s = sh_read Plain False [] s"

subsection \<open>Quoted text is read back\<close>

lemma emit_simps [simp]: "emit True acc = (#) (Word (rev acc))" "emit False acc = (\<lambda>ts. ts)"
  by (simp_all add: emit_def fun_eq_iff)

lemma quotes_special [simp]:
  "\<not> safe_char SQ" "\<not> safe_char DQ" "SQ \<noteq> DQ" "DQ \<noteq> SQ" "SQ \<noteq> CHR '' ''" "DQ \<noteq> CHR '' ''" "code SQ = 39" "code DQ = 34"
  by (simp_all add: safe_char_def ascii_letter_def SQ_def DQ_def)

lemma safe_char_plain: "safe_char c \<Longrightarrow> c \<noteq> CHR '' '' \<and> code c \<noteq> 9 \<and> c \<noteq> SQ \<and> c \<noteq> DQ"
  by (auto simp: safe_char_def ascii_letter_def SQ_def DQ_def)

text \<open>Plain text, quoted text, a space and an operator, each at the head of a line.\<close>

named_theorems sh_simps \<open>reading a line piece by piece\<close>

lemma read_safe: "list_all safe_char s \<Longrightarrow> s \<noteq> [] \<or> word \<Longrightarrow>
    sh_read Plain word acc (s @ rest) = sh_read Plain True (rev s @ acc) rest"
proof (induction s arbitrary: word acc)
  case (Cons c s)
  then show ?case using safe_char_plain [of c] by simp
qed simp

lemma read_single: "sh_read Single True acc (concat (map (\<lambda>c. if c = SQ then [SQ, DQ, SQ, DQ, SQ] else [c]) s) @ SQ # rest) =
    sh_read Plain True (rev s @ acc) rest"
proof (induction s arbitrary: acc)
  case (Cons c s)
  have "code (CHR 0x27) = 39" by simp
  then show ?case using Cons by (cases "c = SQ") (auto simp: SQ_def DQ_def)
qed simp

lemma read_quote [sh_simps]: "sh_read Plain word acc (shlex_quote s @ rest) = sh_read Plain True (rev s @ acc) rest"
proof -
  consider "s = []" | "s \<noteq> []" "list_all safe_char s" | "s \<noteq> []" "\<not> list_all safe_char s" by blast
  then show ?thesis
  proof cases
    case 2
    then show ?thesis using read_safe [of s word acc rest] by (simp add: shlex_quote_def)
  next
    case 3
    then show ?thesis using read_single [of acc s rest] by (simp add: shlex_quote_def)
  qed (simp add: shlex_quote_def)
qed

lemma read_quote_end [sh_simps]: "sh_read Plain word acc (shlex_quote s) = Some [Word (rev acc @ s)]"
  using read_quote [of word acc s "[]"] by simp

lemma read_sq [sh_simps]: "SQ \<notin> set s \<Longrightarrow> sh_read Plain word acc (SQ # s @ SQ # rest) = sh_read Plain True (rev s @ acc) rest"
proof -
  assume "SQ \<notin> set s"
  then have "sh_read Single True a (s @ SQ # rest) = sh_read Plain True (rev s @ a) rest" for a
    by (induction s arbitrary: a) auto
  then show ?thesis by simp
qed

text \<open>
  No text escapes its quotes. A shell that is given any list of texts, each quoted and put after the
  other with a space between, reads back exactly these texts as its words, in order, whatever
  characters they contain, and does nothing else with them.
\<close>

lemma read_quoted_list:
  "ss \<noteq> [] \<Longrightarrow> sh_read Plain False [] (join_with '' '' (map shlex_quote ss) @ CHR '' '' # rest) =
     map_option (\<lambda>ts. map Word ss @ ts) (sh_read Plain False [] rest)"
proof (induction ss)
  case (Cons s ss)
  show ?case
  proof (cases ss)
    case Nil
    then show ?thesis by (simp add: read_quote)
  next
    case (Cons t ts)
    then show ?thesis using Cons.IH by (simp add: read_quote map_option.compositionality comp_def)
  qed
qed simp

lemma quoting_round_trip: "sh_tokens (join_with '' '' (map shlex_quote ss)) = Some (map Word ss)"
proof (induction ss)
  case (Cons s ss)
  show ?case
  proof (cases ss)
    case Nil
    then show ?thesis by (simp add: sh_tokens_def read_quote_end)
  next
    case (Cons t ts)
    then show ?thesis using Cons.IH by (simp add: sh_tokens_def read_quote)
  qed
qed (simp add: sh_tokens_def)

end
