(* ===== verification/Commands.thy ===== *)
theory Commands
  imports Shell Models "HOL-Library.AList"
begin

text \<open>
  \<^verbatim>\<open>gpu_broker/local/commands.py\<close>: every shell command the broker sends to a lab host, as the exact text,
  and the parsers for what comes back.
\<close>

subsection \<open>Pieces of text\<close>

definition NL :: string where
  "NL = [CHR 0x0A]"

definition BSN :: string where
  "BSN = [CHR 0x5C, CHR ''n'']"

definition sq :: "string \<Rightarrow> string" where
  "sq s = [SQ] @ s @ [SQ]"

definition dq :: "string \<Rightarrow> string" where
  "dq s = [DQ] @ s @ [DQ]"

definition UNIT_PREFIX :: string where
  "UNIT_PREFIX = ''gpu-broker-''"

definition unit_for :: "string \<Rightarrow> string" where
  "unit_for jid = UNIT_PREFIX @ jid"

definition job_dir :: "string \<Rightarrow> string \<Rightarrow> string" where
  "job_dir base jid = base @ ''/'' @ jid"

definition job_id_of :: "string \<Rightarrow> string" where
  "job_id_of u = remove_suffix (remove_prefix u UNIT_PREFIX) ''.service''"

subsection \<open>Inspecting the machine\<close>

definition HELLO :: string where
  "HELLO = ''printf '' @ sq (''%s'' @ BSN) @ '' ok '' @ dq ''$HOME''"

definition parse_hello :: "string \<Rightarrow> string option" where
  "parse_hello out =
     (case map strip (splitlines (strip out)) of
        a # b # _ \<Rightarrow> if a = ''ok'' \<and> b \<noteq> [] then Some b else None
      | _ \<Rightarrow> None)"

definition expand :: "string \<Rightarrow> string \<Rightarrow> string" where
  "expand path home =
     (if path = ''~'' then home else if starts_with path ''~/'' then home @ ''/'' @ drop 2 path else path)"

definition GPU_QUERY :: string where
  "GPU_QUERY = ''nvidia-smi --query-gpu=index,name,memory.total,memory.used,'' @
     ''utilization.gpu,compute_mode --format=csv,noheader,nounits''"

record gpu_info =
  gi_index :: int
  gi_name :: string
  gi_memory_total_mb :: int
  gi_memory_used_mb :: int
  gi_utilization_percent :: int
  gi_compute_mode :: string

definition supports_mps :: "gpu_info \<Rightarrow> bool" where
  "supports_mps g = (gi_compute_mode g \<in> {''Default'', ''Exclusive_Process'', ''Exclusive_Thread''})"

text \<open>\<open>int(float(text))\<close>. A ValueError is \<open>Inr None\<close>; the OverflowError of an infinity is not a
  ValueError and goes further.\<close>

definition int_float :: "string \<Rightarrow> (error, int option) result" where
  "int_float s =
     (case float_of_text s of
        Fin x \<Rightarrow> Inr (Some (py_int x))
      | Infinite _ \<Rightarrow> Inl (OverflowError ''cannot convert float infinity to integer'')
      | NaN \<Rightarrow> Inr None
      | NotFloat \<Rightarrow> Inr None)"

text \<open>One line of the answer; \<open>Inr None\<close> when it is skipped.\<close>

definition parse_gpu :: "string \<Rightarrow> (error, gpu_info option) result" where
  "parse_gpu line =
     (case map strip (split_at (CHR '','') [] line) of
        p0 # p1 # p2 # p3 # p4 # p5 # _ \<Rightarrow>
          (case int_of_text p0 of
             None \<Rightarrow> Inr None
           | Some i \<Rightarrow>
               (case int_float p2 of
                  Inl e \<Rightarrow> Inl e
                | Inr None \<Rightarrow> Inr None
                | Inr (Some t) \<Rightarrow>
                    (case int_float p3 of
                       Inl e \<Rightarrow> Inl e
                     | Inr None \<Rightarrow> Inr None
                     | Inr (Some u) \<Rightarrow>
                         (case int_float p4 of
                            Inl e \<Rightarrow> Inl e
                          | Inr None \<Rightarrow> Inr None
                          | Inr (Some v) \<Rightarrow>
                              Inr (Some \<lparr>gi_index = i, gi_name = p1, gi_memory_total_mb = t, gi_memory_used_mb = u,
                                    gi_utilization_percent = v, gi_compute_mode = p5\<rparr>)))))
      | _ \<Rightarrow> Inr None)"

fun parse_gpu_lines :: "string list \<Rightarrow> (error, gpu_info list) result" where
  "parse_gpu_lines [] = Inr []"
| "parse_gpu_lines (l # ls) =
     (case parse_gpu l of
        Inl e \<Rightarrow> Inl e
      | Inr g \<Rightarrow> (case parse_gpu_lines ls of Inl e \<Rightarrow> Inl e | Inr gs \<Rightarrow> Inr (case g of None \<Rightarrow> gs | Some x \<Rightarrow> x # gs)))"

definition parse_gpus :: "string \<Rightarrow> (error, gpu_info list) result" where
  "parse_gpus out = parse_gpu_lines (splitlines (strip out))"

subsection \<open>CUDA MPS\<close>

definition mps_env :: "string \<Rightarrow> string \<Rightarrow> string" where
  "mps_env pipe_dir log_dir =
     ''CUDA_MPS_PIPE_DIRECTORY='' @ shlex_quote pipe_dir @ '' CUDA_MPS_LOG_DIRECTORY='' @ shlex_quote log_dir"

definition mps_running :: "string \<Rightarrow> string" where
  "mps_running pipe_dir = ''echo get_server_list | '' @ mps_env pipe_dir pipe_dir @ '' nvidia-cuda-mps-control 2>&1''"

definition mps_start :: "string \<Rightarrow> string \<Rightarrow> string" where
  "mps_start pipe_dir log_dir =
     ''mkdir -p '' @ shlex_quote pipe_dir @ '' '' @ shlex_quote log_dir @ '' && '' @ mps_env pipe_dir log_dir @
     '' nvidia-cuda-mps-control -d''"

definition mps_stop :: "string \<Rightarrow> string" where
  "mps_stop pipe_dir = ''echo quit | '' @ mps_env pipe_dir pipe_dir @ '' nvidia-cuda-mps-control''"

definition mps_client_env :: "string \<Rightarrow> int \<Rightarrow> int \<Rightarrow> int \<Rightarrow> (string \<times> string) list" where
  "mps_client_env pipe_dir device memory_mb thread_percent =
     [(''CUDA_MPS_PIPE_DIRECTORY'', pipe_dir),
      (''CUDA_MPS_PINNED_DEVICE_MEM_LIMIT'', show_int device @ ''='' @ show_int memory_mb @ ''M''),
      (''CUDA_MPS_ACTIVE_THREAD_PERCENTAGE'', show_int thread_percent),
      (''CUDA_VISIBLE_DEVICES'', show_int device)]"

subsection \<open>cgroups through systemd\<close>

definition sudo :: "string \<Rightarrow> bool \<Rightarrow> string" where
  "sudo command use_sudo = (if use_sudo then ''sudo -n '' @ command else command)"

definition systemd :: "string \<Rightarrow> bool \<Rightarrow> string" where
  "systemd binary use_sudo = (if use_sudo then ''sudo -n '' @ binary else binary @ '' --user'')"

definition systemctl :: "bool \<Rightarrow> string" where
  "systemctl use_sudo = (if use_sudo then ''sudo -n systemctl'' else ''systemctl --user'')"

definition PROBE_MEMORY_BYTES :: int where
  "PROBE_MEMORY_BYTES = 67108864"

definition limit_probe :: "bool \<Rightarrow> string" where
  "limit_probe use_sudo =
     systemd ''systemd-run'' use_sudo @ '' --scope --quiet -p MemoryMax=64M -- '' @
     ''sh -c '' @ sq ''cat /sys/fs/cgroup$(cut -d: -f3 /proc/self/cgroup)/memory.max''"

definition parse_limit_probe :: "string \<Rightarrow> int option" where
  "parse_limit_probe out =
     (let text = splitlines (strip out) in if text = [] then None else int_of_text (strip (last text)))"

text \<open>\<open>command.encode()\<close> and \<open>base64.b64encode\<close>.\<close>

definition utf8 :: "string \<Rightarrow> nat list" where
  "utf8 s = concat (map (\<lambda>c. if code c < 128 then [code c] else [192 + code c div 64, 128 + code c mod 64]) s)"

definition B64_ALPHABET :: string where
  "B64_ALPHABET = ''ABCDEFGHIJKLMNOPQRSTUVWXYZabcdefghijklmnopqrstuvwxyz0123456789+/''"

definition b64_char :: "nat \<Rightarrow> char" where
  "b64_char n = B64_ALPHABET ! n"

fun b64_encode :: "nat list \<Rightarrow> string" where
  "b64_encode [] = []"
| "b64_encode [a] = [b64_char (a div 4), b64_char (a mod 4 * 16), CHR ''='', CHR ''='']"
| "b64_encode [a, b] =
     [b64_char (a div 4), b64_char (a mod 4 * 16 + b div 16), b64_char (b mod 16 * 4), CHR ''='']"
| "b64_encode (a # b # c # rest) =
     b64_char (a div 4) # b64_char (a mod 4 * 16 + b div 16) # b64_char (b mod 16 * 4 + c div 64) # b64_char (c mod 64) #
     b64_encode rest"

text \<open>What the unit runs: the metadata, the working directory, the decoded command, and its exit status.\<close>

definition launch_inner :: "string \<Rightarrow> string \<Rightarrow> string \<Rightarrow> string list \<Rightarrow> string" where
  "launch_inner directory working_dir command meta =
     ''mkdir -p '' @ shlex_quote directory @ '' && '' @
     ''printf '' @ sq (''%s'' @ NL) @ '' '' @ join_with '' '' (map shlex_quote meta) @
     '' > '' @ shlex_quote directory @ ''/meta && '' @
     ''cd '' @ shlex_quote working_dir @ '' && '' @
     ''echo '' @ b64_encode (utf8 command) @ '' | base64 -d > '' @ shlex_quote directory @ ''/run.sh && '' @
     ''bash '' @ shlex_quote directory @ ''/run.sh > '' @ shlex_quote directory @ ''/output.log 2>&1; '' @
     ''echo $? > '' @ shlex_quote directory @ ''/exit''"

definition launch_settings :: "(string \<times> string) list \<Rightarrow> string" where
  "launch_settings env = join_with '' '' (map (\<lambda>(key, v). ''--setenv='' @ key @ ''='' @ shlex_quote v) (sort_key fst env))"

definition lab_launch ::
  "string \<Rightarrow> string \<Rightarrow> string \<Rightarrow> string \<Rightarrow> (string \<times> string) list \<Rightarrow> int \<Rightarrow> int \<Rightarrow> string \<Rightarrow> string list \<Rightarrow> bool \<Rightarrow> string"
where
  "lab_launch u directory working_dir command env memory_max_mb cpu_quota_percent run_as meta use_sudo =
     systemd ''systemd-run'' use_sudo @ '' --unit='' @ u @ '' --service-type=exec '' @
     ''--property=MemoryMax='' @ show_int memory_max_mb @ ''M '' @
     ''--property=MemorySwapMax=0 '' @
     ''--property=CPUQuota='' @ show_int cpu_quota_percent @ ''% '' @
     (if use_sudo then ''--uid='' @ shlex_quote run_as @ '' '' else '''') @
     launch_settings env @ '' '' @
     ''/bin/bash -lc '' @ shlex_quote (launch_inner directory working_dir command meta)"

subsection \<open>Watching a unit\<close>

definition unit_status_command :: "string \<Rightarrow> string \<Rightarrow> bool \<Rightarrow> string" where
  "unit_status_command u directory use_sudo =
     ''printf '' @ sq (''exitfile=%s'' @ BSN) @ '' '' @ dq (''$(cat '' @ shlex_quote directory @ ''/exit 2>/dev/null)'') @ ''; '' @
     systemctl use_sudo @ '' show '' @ u @ '' --property=ActiveState --property=SubState '' @
     ''--property=Result --property=ExecMainStatus 2>/dev/null || true''"

record unit_status =
  us_exit_code :: "int option"
  us_active_state :: string
  us_sub_state :: string
  us_result :: string

definition us_finished :: "unit_status \<Rightarrow> bool" where
  "us_finished u = (us_exit_code u \<noteq> None \<or> us_active_state u \<in> {''inactive'', ''failed''})"

definition was_oom_killed :: "unit_status \<Rightarrow> bool" where
  "was_oom_killed u = (us_result u = ''oom-kill'')"

text \<open>\<open>fields[key.strip()] = value.strip()\<close> for every line with an equals sign; a later line wins.\<close>

definition key_values :: "string list \<Rightarrow> (string \<times> string) list" where
  "key_values ls =
     foldl (\<lambda>d l. if CHR ''='' \<in> set l
        then (case partition_at (CHR ''='') l of (k, v) \<Rightarrow> AList.update (strip k) (strip v) d) else d) [] ls"

definition field_of :: "(string \<times> string) list \<Rightarrow> string \<Rightarrow> string" where
  "field_of d k = (case map_of d k of Some v \<Rightarrow> v | None \<Rightarrow> [])"

definition parse_unit_status :: "string \<Rightarrow> unit_status" where
  "parse_unit_status out =
     (let fields = key_values (splitlines (strip out)); raw_exit = field_of fields ''exitfile''
      in \<lparr>us_exit_code = (if raw_exit = [] then None else int_of_text raw_exit),
          us_active_state = field_of fields ''ActiveState'', us_sub_state = field_of fields ''SubState'',
          us_result = field_of fields ''Result''\<rparr>)"

definition verify_limits :: "string \<Rightarrow> bool \<Rightarrow> string" where
  "verify_limits u use_sudo =
     systemctl use_sudo @ '' show '' @ u @ '' --property=MemoryMax --property=CPUQuotaPerSecUSec''"

definition tail_output :: "string \<Rightarrow> nat \<Rightarrow> string" where
  "tail_output directory after =
     ''tail -n +'' @ show_nat (after + 1) @ '' '' @ shlex_quote directory @ ''/output.log 2>/dev/null || true''"

definition utilization_command :: "string \<Rightarrow> bool \<Rightarrow> string" where
  "utilization_command u use_sudo =
     ''printf '' @ sq (''###PIDS'' @ NL) @ ''; '' @
     ''cg=$('' @ systemctl use_sudo @ '' show '' @ u @ '' --property=ControlGroup --value 2>/dev/null); '' @
     ''[ -n '' @ dq ''$cg'' @ '' ] && cat '' @ dq ''/sys/fs/cgroup$cg/cgroup.procs'' @ '' 2>/dev/null; '' @
     ''printf '' @ sq (''###PMON'' @ NL) @ ''; '' @
     ''nvidia-smi pmon -c 1 -s u 2>/dev/null || true; '' @
     ''printf '' @ sq (''###MEM'' @ NL) @ ''; '' @
     ''nvidia-smi --query-compute-apps=pid,used_gpu_memory '' @
     ''--format=csv,noheader,nounits 2>/dev/null || true''"

subsection \<open>Utilization of one job\<close>

record job_utilization =
  ju_gpu_percent :: pyfloat
  ju_memory_mb :: int
  ju_processes :: nat

text \<open>\<open>_percent\<close>: anything that is not a number counts as nothing. The infinities and NaN that \<open>float\<close>
  accepts are kept out: they count as nothing too.\<close>

definition percent_of :: "string \<Rightarrow> pyfloat" where
  "percent_of raw = (case float_of_text raw of Fin x \<Rightarrow> x | _ \<Rightarrow> 0)"

record scan_state =
  sc_section :: string
  sc_pids :: "string list"
  sc_sm :: "(string \<times> pyfloat) list"
  sc_mem :: "(string \<times> int) list"

definition scan_line :: "scan_state \<Rightarrow> string \<Rightarrow> (error, scan_state) result" where
  "scan_line s line =
     (let t = strip line
      in if starts_with t ''###'' then Inr (s\<lparr>sc_section := t\<rparr>)
         else if t = [] \<or> starts_with t ''#'' then Inr s
         else if sc_section s = ''###PIDS''
         then Inr (if is_digits t then s\<lparr>sc_pids := List.insert t (sc_pids s)\<rparr> else s)
         else if sc_section s = ''###PMON''
         then (case split_space [] t of
                 _ # pid # _ # sm # _ \<Rightarrow>
                   Inr (if is_digits pid then s\<lparr>sc_sm := AList.update pid (percent_of sm) (sc_sm s)\<rparr> else s)
               | _ \<Rightarrow> Inr s)
         else if sc_section s = ''###MEM''
         then (case map strip (split_at (CHR '','') [] t) of
                 pid # m # _ \<Rightarrow>
                   if is_digits pid
                   then (case int_float m of
                           Inl e \<Rightarrow> Inl e
                         | Inr None \<Rightarrow> Inr s
                         | Inr (Some v) \<Rightarrow> Inr (s\<lparr>sc_mem := AList.update pid v (sc_mem s)\<rparr>))
                   else Inr s
               | _ \<Rightarrow> Inr s)
         else Inr s)"

fun scan_lines :: "scan_state \<Rightarrow> string list \<Rightarrow> (error, scan_state) result" where
  "scan_lines s [] = Inr s"
| "scan_lines s (l # ls) = (case scan_line s l of Inl e \<Rightarrow> Inl e | Inr s' \<Rightarrow> scan_lines s' ls)"

definition total_utilization :: "scan_state \<Rightarrow> job_utilization option" where
  "total_utilization s =
     (if sc_pids s = [] then None
      else
        (let ours = filter (\<lambda>p. map_of (sc_sm s) p \<noteq> None \<or> map_of (sc_mem s) p \<noteq> None) (sc_pids s)
         in Some \<lparr>ju_gpu_percent = (\<Sum>p\<leftarrow>ours. case map_of (sc_sm s) p of Some x \<Rightarrow> x | None \<Rightarrow> 0),
                  ju_memory_mb = (\<Sum>p\<leftarrow>ours. case map_of (sc_mem s) p of Some x \<Rightarrow> x | None \<Rightarrow> 0),
                  ju_processes = length ours\<rparr>))"

definition parse_utilization :: "string \<Rightarrow> (error, job_utilization option) result" where
  "parse_utilization out =
     (case scan_lines \<lparr>sc_section = [], sc_pids = [], sc_sm = [], sc_mem = []\<rparr> (splitlines out) of
        Inl e \<Rightarrow> Inl e
      | Inr s \<Rightarrow> Inr (total_utilization s))"

subsection \<open>Stopping and listing\<close>

definition stop_unit :: "string \<Rightarrow> bool \<Rightarrow> string" where
  "stop_unit u use_sudo =
     systemctl use_sudo @ '' stop '' @ u @ '' >/dev/null 2>&1; '' @
     systemctl use_sudo @ '' reset-failed '' @ u @ '' >/dev/null 2>&1; true''"

definition list_units :: "bool \<Rightarrow> string" where
  "list_units use_sudo =
     systemctl use_sudo @ '' list-units '' @ sq (UNIT_PREFIX @ ''*'') @ '' '' @
     ''--all --no-legend --plain --no-pager''"

definition parse_units :: "string \<Rightarrow> string list" where
  "parse_units out =
     concat (map (\<lambda>l. case split_space [] l of
        u # _ \<Rightarrow> if starts_with u UNIT_PREFIX then [remove_suffix u ''.service''] else []
      | [] \<Rightarrow> []) (splitlines (strip out)))"

definition list_live_jobs :: "string \<Rightarrow> bool \<Rightarrow> string" where
  "list_live_jobs base use_sudo =
     ''for d in '' @ shlex_quote base @ ''/*/; do '' @
     ''[ -d '' @ dq ''$d'' @ '' ] || continue; '' @
     ''id=$(basename '' @ dq ''$d'' @ ''); '' @
     ''if '' @ systemctl use_sudo @ '' is-active --quiet '' @ UNIT_PREFIX @ ''$id 2>/dev/null; then '' @
     ''printf '' @ dq (''### %s'' @ NL) @ '' '' @ dq ''$id'' @ ''; cat '' @ dq ''$d/meta'' @ '' 2>/dev/null; '' @
     ''fi; done''"

text \<open>The jobs found so far, the newest first, each with its fields.\<close>

fun live_step :: "(string \<times> string) list list \<Rightarrow> string \<Rightarrow> (string \<times> string) list list" where
  "live_step [] line = (if starts_with line ''### '' then [[(''job-id'', strip (drop 4 line))]] else [])"
| "live_step (d # ds) line =
     (if starts_with line ''### '' then [(''job-id'', strip (drop 4 line))] # d # ds
      else if CHR ''='' \<in> set line
      then (case partition_at (CHR ''='') line of (k, v) \<Rightarrow> AList.update (strip k) (strip v) d) # ds
      else d # ds)"

definition parse_live_jobs :: "string \<Rightarrow> (string \<times> string) list list" where
  "parse_live_jobs out = rev (foldl live_step [] (splitlines out))"

definition meta_lines :: "string \<Rightarrow> string \<Rightarrow> string \<Rightarrow> int \<Rightarrow> string list" where
  "meta_lines jid uid launched_at gpu =
     [''job-id='' @ jid, ''user='' @ uid, ''launched-at='' @ launched_at, ''gpu='' @ show_int gpu]"

definition remove_job_dir :: "string \<Rightarrow> string \<Rightarrow> string" where
  "remove_job_dir base jid = ''rm -rf '' @ shlex_quote (job_dir base jid)"


subsection \<open>What the shell on the host sees\<close>

lemma show_nat_safe [simp]: "list_all safe_char (show_nat n)"
proof (induction n rule: show_nat.induct)
  case (1 n)
  have "safe_char (digit_char k)" if "k < 10" for k
  proof -
    have "list_all (\<lambda>k. safe_char (digit_char k)) [0..<10]" by code_simp
    then show ?thesis using that by (simp add: list_all_iff)
  qed
  then show ?case using 1 by (cases "n < 10") (simp_all add: show_nat.simps [of n])
qed

lemma show_int_safe [simp]: "list_all safe_char (show_int n)"
  by (simp add: show_int_def safe_char_def)

lemma b64_alphabet: "length B64_ALPHABET = 64" "list_all safe_char B64_ALPHABET" "distinct B64_ALPHABET"
  by (simp_all add: B64_ALPHABET_def safe_char_def ascii_letter_def)

lemma b64_char_safe: "n < 64 \<Longrightarrow> safe_char (b64_char n)"
  using b64_alphabet(1,2) nth_mem [of n B64_ALPHABET] by (simp add: b64_char_def list_all_iff)

text \<open>Three bytes as four groups of six bits.\<close>

lemma six_bits:
  fixes a b c :: nat
  assumes "a < 256"
  shows "a div 4 < 64" "a mod 4 * 16 < 64" "b < 256 \<Longrightarrow> a mod 4 * 16 + b div 16 < 64" "a mod 16 * 4 < 64"
    "c < 256 \<Longrightarrow> a mod 16 * 4 + c div 64 < 64" "a mod 64 < 64" "a div 16 < 16" "a div 64 < 4"
proof -
  have m: "a mod 4 < 4" "a mod 16 < 16" by simp_all
  have d: "x div 16 < 16" "x div 64 < 4" if "x < 256" for x :: nat using that by (simp_all add: less_mult_imp_div_less)
  show "a div 4 < 64" using assms by (simp add: less_mult_imp_div_less)
  show "a div 16 < 16" "a div 64 < 4" using d assms by blast+
  show "a mod 4 * 16 < 64" "a mod 16 * 4 < 64" "a mod 64 < 64" using m by linarith+
  show "a mod 4 * 16 + b div 16 < 64" if "b < 256" using m d(1) [OF that] by linarith
  show "a mod 16 * 4 + c div 64 < 64" if "c < 256" using m d(2) [OF that] by linarith
qed

lemma b64_safe: "list_all (\<lambda>b. b < 256) bs \<Longrightarrow> list_all safe_char (b64_encode bs)"
  by (induction bs rule: b64_encode.induct) (simp_all add: b64_char_safe six_bits, simp_all add: safe_char_def)

text \<open>How \<open>base64 -d\<close> reads it.\<close>

definition b64_value :: "char \<Rightarrow> nat option" where
  "b64_value c = (if c \<in> set B64_ALPHABET then Some (length (takeWhile (\<lambda>d. d \<noteq> c) B64_ALPHABET)) else None)"

fun b64_decode :: "string \<Rightarrow> nat list option" where
  "b64_decode [] = Some []"
| "b64_decode (p # q # r # s # rest) =
     (case (b64_value p, b64_value q) of
        (Some x, Some y) \<Rightarrow>
          if r = CHR ''='' \<and> s = CHR ''='' then (if rest = [] then Some [x * 4 + y div 16] else None)
          else (case b64_value r of
                  None \<Rightarrow> None
                | Some z \<Rightarrow>
                    if s = CHR ''='' then (if rest = [] then Some [x * 4 + y div 16, y mod 16 * 16 + z div 4] else None)
                    else (case (b64_value s, b64_decode rest) of
                            (Some v, Some bs) \<Rightarrow> Some ([x * 4 + y div 16, y mod 16 * 16 + z div 4, z mod 4 * 64 + v] @ bs)
                          | _ \<Rightarrow> None))
      | _ \<Rightarrow> None)"
| "b64_decode _ = None"

lemma index_nth: "distinct xs \<Longrightarrow> n < length xs \<Longrightarrow> length (takeWhile (\<lambda>d. d \<noteq> xs ! n) xs) = n"
proof (induction xs arbitrary: n)
  case (Cons x xs)
  then show ?case by (cases n) auto
qed simp

lemma b64_value_char [simp]: "n < 64 \<Longrightarrow> b64_value (b64_char n) = Some n"
  using b64_alphabet(1,3) index_nth [of B64_ALPHABET n] by (simp add: b64_value_def b64_char_def)

lemma b64_char_not_pad [simp]: "n < 64 \<Longrightarrow> b64_char n \<noteq> CHR ''=''"
proof -
  assume "n < 64"
  then have "b64_char n \<in> set B64_ALPHABET" using b64_alphabet(1) by (simp add: b64_char_def)
  moreover have "CHR ''='' \<notin> set B64_ALPHABET" by (simp add: B64_ALPHABET_def)
  ultimately show ?thesis by metis
qed

lemma b64_round_trip: "list_all (\<lambda>b. b < 256) bs \<Longrightarrow> b64_decode (b64_encode bs) = Some bs"
  by (induction bs rule: b64_encode.induct) (simp_all add: six_bits)

lemma utf8_bytes: "list_all (\<lambda>b. b < 256) (utf8 s)"
proof -
  have "code c < 256" for c :: char by (rule nat_of_char_less_256)
  moreover have "code c div 64 < 4" for c :: char using nat_of_char_less_256 [of c] by (simp add: less_mult_imp_div_less)
  then have "code c div 64 < 64" for c :: char using less_trans [of "code c div 64" 4 64] by simp
  with calculation show ?thesis by (auto simp: utf8_def list_all_iff)
qed

text \<open>A piece of a line that ends between two words, and what it is read as.\<close>

definition reads_as :: "string \<Rightarrow> sh_token list \<Rightarrow> bool" where
  "reads_as s ts \<longleftrightarrow> (\<forall>rest. sh_read Plain False [] (s @ rest) = map_option (\<lambda>us. ts @ us) (sh_read Plain False [] rest))"

lemma reads_as_append: "reads_as s ts \<Longrightarrow> reads_as t us \<Longrightarrow> reads_as (s @ t) (ts @ us)"
  by (simp add: reads_as_def map_option.compositionality comp_def)

lemma reads_as_Nil: "reads_as [] []"
  by (simp add: reads_as_def option.map_ident)

lemma reads_as_word: "list_all safe_char w \<Longrightarrow> w \<noteq> [] \<Longrightarrow> reads_as (w @ '' '') [Word w]"
  by (simp add: reads_as_def read_safe)

lemma reads_as_quoted: "list_all safe_char w \<Longrightarrow> list_all safe_char v \<Longrightarrow> reads_as (w @ shlex_quote q @ v @ '' '') [Word (w @ q @ v)]"
proof (cases "w = []")
  case True
  then show ?thesis if "list_all safe_char v" using that by (simp add: reads_as_def read_quote read_safe)
next
  case False
  then show ?thesis if "list_all safe_char w" "list_all safe_char v" using that by (simp add: reads_as_def read_quote read_safe)
qed

lemma reads_as_sq: "SQ \<notin> set s \<Longrightarrow> reads_as (sq s @ '' '') [Word s]"
proof -
  assume "SQ \<notin> set s"
  then have "sh_read Plain False [] (SQ # s @ SQ # CHR '' '' # rest) = sh_read Plain True (rev s) (CHR '' '' # rest)" for rest
    using read_sq [of s False "[]" "CHR '' '' # rest", OF \<open>SQ \<notin> set s\<close>] by (simp only: append_Nil2)
  moreover have "sh_read Plain True (rev s) (CHR '' '' # rest) = map_option ((#) (Word s)) (sh_read Plain False [] rest)" for rest by simp
  moreover have "(#) (Word s) = (@) [Word s]" by (rule ext) simp
  ultimately show ?thesis unfolding reads_as_def sq_def by (simp only: append_assoc append_Cons append_Nil) simp
qed

lemma reads_as_op: "c \<in> set ''&|;>'' \<Longrightarrow> reads_as [c] [Op [c]]"
proof -
  have "c = CHR ''&'' \<or> c = CHR ''|'' \<or> c = CHR '';'' \<or> c = CHR ''>'' \<Longrightarrow> sh_read Plain False [] (c # rest) = map_option ((#) (Op [c])) (sh_read Plain False [] rest)" for rest
    by (elim disjE) (simp_all add: safe_char_def ascii_letter_def SQ_def DQ_def)
  then show "c \<in> set ''&|;>'' \<Longrightarrow> reads_as [c] [Op [c]]" by (simp add: reads_as_def)
qed

lemma reads_as_space: "reads_as '' '' []"
  by (simp add: reads_as_def option.map_ident)

lemma reads_as_list: "reads_as (concat (map (\<lambda>x. f x @ '' '') xs)) (map g xs)" if "\<And>x. x \<in> set xs \<Longrightarrow> reads_as (f x @ '' '') [g x]"
  using that
proof (induction xs)
  case (Cons x xs)
  then show ?case using reads_as_append [of "f x @ '' ''" "[g x]" "concat (map (\<lambda>x. f x @ '' '') xs)" "map g xs"] by simp
qed (simp add: reads_as_Nil)

lemma join_spaces: "xs \<noteq> [] \<Longrightarrow> join_with '' '' (map f xs) @ '' '' = concat (map (\<lambda>x. f x @ '' '') xs)"
  by (induction xs rule: induct_list012) simp_all

text \<open>A line that is a piece followed by one last word.\<close>

lemma reads_as_end:
  "reads_as s ts \<Longrightarrow> sh_tokens (s @ shlex_quote q) = Some (ts @ [Word q])"
  "reads_as s ts \<Longrightarrow> list_all safe_char v \<Longrightarrow> sh_tokens (s @ shlex_quote q @ v) = Some (ts @ [Word (q @ v)])"
  using read_safe [of v True "rev q" "[]"] by (simp_all add: reads_as_def sh_tokens_def read_quote_end read_quote)

lemma settings_read:
  assumes "list_all (\<lambda>(k, v). list_all safe_char k) env"
  shows "reads_as (launch_settings env @ '' '') (map (\<lambda>(k, v). Word (''--setenv='' @ k @ ''='' @ v)) (sort_key fst env))"
proof (cases "env = []")
  case True
  then show ?thesis by (simp add: launch_settings_def reads_as_space)
next
  case False
  let ?f = "\<lambda>(k, v). ''--setenv='' @ k @ ''='' @ shlex_quote v" and ?g = "\<lambda>(k, v). Word (''--setenv='' @ k @ ''='' @ v)"
  have "reads_as (?f x @ '' '') [?g x]" if "x \<in> set (sort_key fst env)" for x
  proof -
    obtain k v where x: "x = (k, v)" by fastforce
    then have "list_all safe_char k" using that assms by (fastforce simp: list_all_iff)
    then have "list_all safe_char (''--setenv='' @ k @ ''='')" by (simp add: safe_char_def ascii_letter_def)
    from reads_as_quoted [OF this, of "[]" v] show ?thesis by (simp add: x)
  qed
  from reads_as_list [of _ ?f ?g, OF this]
  have "reads_as (concat (map (\<lambda>x. ?f x @ '' '') (sort_key fst env))) (map ?g (sort_key fst env))" .
  moreover have "sort_key fst env \<noteq> []" using False by (metis length_0_conv length_sort)
  ultimately show ?thesis unfolding launch_settings_def by (subst join_spaces)
qed

text \<open>The words of the command that starts a job.\<close>

definition launch_words :: "string \<Rightarrow> (string \<times> string) list \<Rightarrow> int \<Rightarrow> int \<Rightarrow> string \<Rightarrow> bool \<Rightarrow> string \<Rightarrow> string list" where
  "launch_words u env memory_max_mb cpu_quota_percent run_as use_sudo script =
     (if use_sudo then [''sudo'', ''-n'', ''systemd-run''] else [''systemd-run'', ''--user'']) @
     [''--unit='' @ u, ''--service-type=exec'', ''--property=MemoryMax='' @ show_int memory_max_mb @ ''M'',
      ''--property=MemorySwapMax=0'', ''--property=CPUQuota='' @ show_int cpu_quota_percent @ ''%''] @
     (if use_sudo then [''--uid='' @ run_as] else []) @
     map (\<lambda>(k, v). ''--setenv='' @ k @ ''='' @ v) (sort_key fst env) @ [''/bin/bash'', ''-lc'', script]"

lemma manager_reads: "reads_as (systemd ''systemd-run'' use_sudo @ '' '')
    (map Word (if use_sudo then [''sudo'', ''-n'', ''systemd-run''] else [''systemd-run'', ''--user'']))"
proof -
  have w: "reads_as (''sudo'' @ '' '') [Word ''sudo'']" "reads_as (''-n'' @ '' '') [Word ''-n'']" "reads_as (''systemd-run'' @ '' '') [Word ''systemd-run'']"
    "reads_as (''--user'' @ '' '') [Word ''--user'']" by (rule reads_as_word; simp add: safe_char_def ascii_letter_def)+
  show ?thesis
    using reads_as_append [OF w(1) reads_as_append [OF w(2,3)]] reads_as_append [OF w(3,4)] by (simp add: systemd_def)
qed

lemma launch_reads:
  assumes "list_all safe_char u" and "list_all (\<lambda>(k, v). list_all safe_char k) env"
  shows "sh_tokens (lab_launch u directory working_dir command env mem cpu run_as meta use_sudo) =
    Some (map Word (launch_words u env mem cpu run_as use_sudo (launch_inner directory working_dir command meta)))"
proof -
  have w: "reads_as ((''--unit='' @ u) @ '' '') [Word (''--unit='' @ u)]"
    "reads_as (''--service-type=exec'' @ '' '') [Word ''--service-type=exec'']"
    "reads_as ((''--property=MemoryMax='' @ show_int mem @ ''M'') @ '' '') [Word (''--property=MemoryMax='' @ show_int mem @ ''M'')]"
    "reads_as (''--property=MemorySwapMax=0'' @ '' '') [Word ''--property=MemorySwapMax=0'']"
    "reads_as ((''--property=CPUQuota='' @ show_int cpu @ ''%'') @ '' '') [Word (''--property=CPUQuota='' @ show_int cpu @ ''%'')]"
    "reads_as (''/bin/bash'' @ '' '') [Word ''/bin/bash'']" "reads_as (''-lc'' @ '' '') [Word ''-lc'']"
    by (rule reads_as_word; use assms(1) in \<open>simp add: safe_char_def ascii_letter_def\<close>)+
  have uid: "reads_as (if use_sudo then ''--uid='' @ shlex_quote run_as @ '' '' else []) (if use_sudo then [Word (''--uid='' @ run_as)] else [])"
    using reads_as_quoted [of "''--uid=''" "[]" run_as] by (simp add: reads_as_Nil safe_char_def ascii_letter_def)
  note all = reads_as_append [OF manager_reads [of use_sudo] reads_as_append [OF w(1) reads_as_append [OF w(2) reads_as_append [OF w(3)
      reads_as_append [OF w(4) reads_as_append [OF w(5) reads_as_append [OF uid reads_as_append [OF settings_read [OF assms(2)]
      reads_as_append [OF w(6,7)]]]]]]]]]
  show ?thesis
    using reads_as_end(1) [OF all, of "launch_inner directory working_dir command meta"]
    by (simp add: lab_launch_def launch_words_def comp_def split_def)
qed


text \<open>The script of the unit, as the shell inside it reads it.\<close>

definition AND_THEN :: "sh_token list" where
  "AND_THEN = [Op ''&'', Op ''&'']"

definition inner_tokens :: "string \<Rightarrow> string \<Rightarrow> string \<Rightarrow> string list \<Rightarrow> sh_token list" where
  "inner_tokens directory working_dir encoded meta =
     [Word ''mkdir'', Word ''-p'', Word directory] @ AND_THEN @
     [Word ''printf'', Word (''%s'' @ NL)] @ map Word meta @ [Op ''>'', Word (directory @ ''/meta'')] @ AND_THEN @
     [Word ''cd'', Word working_dir] @ AND_THEN @
     [Word ''echo'', Word encoded, Op ''|'', Word ''base64'', Word ''-d'', Op ''>'', Word (directory @ ''/run.sh'')] @ AND_THEN @
     [Word ''bash'', Word (directory @ ''/run.sh''), Op ''>'', Word (directory @ ''/output.log''),
      Word ''2'', Op ''>'', Op ''&'', Word ''1'', Op '';'', Word ''echo'', Op ''$?'', Op ''>'', Word (directory @ ''/exit'')]"

lemma reads_and: "reads_as ''&& '' AND_THEN"
  using reads_as_append [OF reads_as_op reads_as_append [OF reads_as_op reads_as_space], of "CHR ''&''" "CHR ''&''"] by (simp add: AND_THEN_def)


lemma inner_reads:
  assumes "command \<noteq> []" and "meta \<noteq> []"
  shows "sh_tokens (launch_inner directory working_dir command meta) =
    Some (inner_tokens directory working_dir (b64_encode (utf8 command)) meta)"
proof -
  let ?e = "b64_encode (utf8 command)"
  have e: "list_all safe_char ?e" by (rule b64_safe [OF utf8_bytes])
  have "utf8 command \<noteq> []" using assms(1) by (cases command) (simp_all add: utf8_def)
  then have ne: "?e \<noteq> []" by (cases "utf8 command" rule: b64_encode.cases) simp_all
  have lit: "reads_as ''mkdir -p '' [Word ''mkdir'', Word ''-p'']" "reads_as ''printf '' [Word ''printf'']" "reads_as ''> '' [Op ''>'']"
    "reads_as ''cd '' [Word ''cd'']" "reads_as ''echo '' [Word ''echo'']" "reads_as ''| base64 -d > '' [Op ''|'', Word ''base64'', Word ''-d'', Op ''>'']"
    "reads_as ''bash '' [Word ''bash'']"
    "reads_as ''2>&1; echo $? > '' [Word ''2'', Op ''>'', Op ''&'', Word ''1'', Op '';'', Word ''echo'', Op ''$?'', Op ''>'']"
    by (simp_all add: reads_as_def safe_char_def ascii_letter_def SQ_def DQ_def map_option.compositionality comp_def)
  have fmt: "reads_as (sq (''%s'' @ NL) @ '' '') [Word (''%s'' @ NL)]" by (rule reads_as_sq) (simp add: NL_def SQ_def)
  have "reads_as (shlex_quote x @ '' '') [Word x]" for x using reads_as_quoted [of "[]" "[]" x] by simp
  then have metas: "reads_as (join_with '' '' (map shlex_quote meta) @ '' '') (map Word meta)"
    unfolding join_spaces [OF assms(2)] by (rule reads_as_list)
  have d: "reads_as (shlex_quote directory @ v @ '' '') [Word (directory @ v)]" if "list_all safe_char v" for v
    using reads_as_quoted [of "[]" v directory] that by simp
  have plain: "list_all safe_char []" "list_all safe_char ''/meta''" "list_all safe_char ''/run.sh''" "list_all safe_char ''/output.log''"
    "list_all safe_char ''/exit''" by (simp_all add: safe_char_def ascii_letter_def)
  have w: "reads_as (shlex_quote working_dir @ [] @ '' '') [Word working_dir]" using reads_as_quoted [of "[]" "[]" working_dir] by simp
  note all = reads_as_append [OF lit(1) reads_as_append [OF d [OF plain(1)] reads_as_append [OF reads_and reads_as_append [OF lit(2)
    reads_as_append [OF fmt reads_as_append [OF metas reads_as_append [OF lit(3) reads_as_append [OF d [OF plain(2)] reads_as_append [OF reads_and
    reads_as_append [OF lit(4) reads_as_append [OF w reads_as_append [OF reads_and reads_as_append [OF lit(5) reads_as_append [OF reads_as_word [OF e ne]
    reads_as_append [OF lit(6) reads_as_append [OF d [OF plain(3)] reads_as_append [OF reads_and reads_as_append [OF lit(7)
    reads_as_append [OF d [OF plain(3)] reads_as_append [OF lit(3) reads_as_append [OF d [OF plain(4)] lit(8)]]]]]]]]]]]]]]]]]]]]]
  show ?thesis using reads_as_end(2) [OF all plain(5), of directory] by (simp add: launch_inner_def inner_tokens_def)
qed

text \<open>
  C10. A member's command cannot break out of the command that starts it. For any texts in the job's command,
  its directory, its metadata, its environment and the account it runs as, the shell on the lab host reads
  one command whose words are exactly the intended ones, the last of them the unit's script; the shell in
  the unit reads that script as the intended fixed sequence of commands with every such text as one word;
  and the command itself is only ever there in an encoding that decodes to its bytes.
\<close>

theorem lab_launch_is_injection_free:
  assumes "list_all safe_char u" and "list_all (\<lambda>(k, v). list_all safe_char k) env" and "command \<noteq> []" and "meta \<noteq> []"
  shows "sh_tokens (lab_launch u directory working_dir command env mem cpu run_as meta use_sudo) =
      Some (map Word (launch_words u env mem cpu run_as use_sudo (launch_inner directory working_dir command meta))) \<and>
    sh_tokens (launch_inner directory working_dir command meta) =
      Some (inner_tokens directory working_dir (b64_encode (utf8 command)) meta) \<and>
    b64_decode (b64_encode (utf8 command)) = Some (utf8 command)"
  using launch_reads [OF assms(1,2)] inner_reads [OF assms(3,4)] b64_round_trip [OF utf8_bytes] by blast

theorem lab_launch_is_injection_free_witness:
  "sh_tokens (launch_inner ''/home/b/jobs/a'' ''/home/b'' [SQ, CHR '';'', CHR ''x''] [''user=$(rm -rf)'']) =
     Some (inner_tokens ''/home/b/jobs/a'' ''/home/b'' ''Jzt4'' [''user=$(rm -rf)''])"
proof -
  have "b64_encode (utf8 [SQ, CHR '';'', CHR ''x'']) = ''Jzt4''" by (simp add: utf8_def SQ_def b64_char_def B64_ALPHABET_def)
  then show ?thesis using lab_launch_is_injection_free [of "''gpu-broker-a''" "[]" "[SQ, CHR '';'', CHR ''x'']" "[''user=$(rm -rf)'']"]
    by (simp add: safe_char_def ascii_letter_def)
qed
end
