(* ===== verification/Hosts.thy ===== *)
theory Hosts
  imports Transport Commands
begin

text \<open>
  \<^verbatim>\<open>gpu_broker/local/hosts.py\<close>: the settings of the lab pool, and the health check that decides whether a host
  may take work.
\<close>

subsection \<open>State and settings\<close>

datatype host_state = HEALTHY | DRAINING | UNREACHABLE

fun host_state_name :: "host_state \<Rightarrow> string" where
  "host_state_name HEALTHY = ''HEALTHY''"
| "host_state_name DRAINING = ''DRAINING''"
| "host_state_name UNREACHABLE = ''UNREACHABLE''"

definition accepts_jobs :: "host_state \<Rightarrow> bool" where
  "accepts_jobs s = (s = HEALTHY)"

record host_health =
  hh_hostname :: string
  hh_state :: host_state
  hh_reason :: string
  hh_checked_at :: moment
  hh_gpus :: "gpu_info list"
  hh_mps_ready :: bool
  hh_limits_enforced :: bool
  hh_limits_tested :: bool
  hh_home :: string

definition gpu_count :: "host_health \<Rightarrow> int" where
  "gpu_count h = int (length (hh_gpus h))"

definition describe_health :: "host_health \<Rightarrow> string" where
  "describe_health h =
     (if hh_state h = HEALTHY
      then (let names = join_with '', '' (map (\<lambda>g. gi_name g @ '' ('' @ show_int (gi_memory_total_mb g) @ ''MB)'') (hh_gpus h))
            in hh_hostname h @ '': healthy, '' @ (if names = [] then ''no gpus'' else names))
      else hh_hostname h @ '': '' @ text_lower (host_state_name (hh_state h)) @ '', '' @ hh_reason h)"

record local_config =
  lc_hosts :: "host_spec list"
  lc_gpu_type :: string
  lc_max_jobs_per_gpu :: int
  lc_job_root :: string
  lc_working_dir :: string
  lc_mps_pipe_dir :: string
  lc_mps_log_dir :: string
  lc_default_gpu_memory_mb :: int
  lc_default_memory_max_mb :: int
  lc_default_cpu_quota_percent :: int
  lc_use_sudo :: bool
  lc_run_as :: string
  lc_health_interval_seconds :: pyfloat
  lc_command_timeout_seconds :: pyfloat
  lc_poll_timeout_seconds :: pyfloat

definition default_local_config :: local_config where
  "default_local_config =
     \<lparr>lc_hosts = [], lc_gpu_type = ''a6000'', lc_max_jobs_per_gpu = 2, lc_job_root = ''~/.gpu-broker/jobs'',
      lc_working_dir = ''~'', lc_mps_pipe_dir = ''/tmp/gpu-broker-mps/pipe'', lc_mps_log_dir = ''/tmp/gpu-broker-mps/log'',
      lc_default_gpu_memory_mb = 16384, lc_default_memory_max_mb = 32768, lc_default_cpu_quota_percent = 400,
      lc_use_sudo = True, lc_run_as = [], lc_health_interval_seconds = 120, lc_command_timeout_seconds = 60,
      lc_poll_timeout_seconds = 15\<rparr>"

definition resolved_run_as :: "local_config \<Rightarrow> host_spec \<Rightarrow> string" where
  "resolved_run_as cfg h = (if lc_run_as cfg = [] then h_username h else lc_run_as cfg)"

definition validate_local :: "local_config \<Rightarrow> (error, unit) result" where
  "validate_local cfg =
     (let names = map h_hostname (lc_hosts cfg)
      in if lc_max_jobs_per_gpu cfg < 1 then Inl (ConfigError (ConfigText ''local.max_jobs_per_gpu must be at least 1''))
         else if lc_default_gpu_memory_mb cfg < 256
         then Inl (ConfigError (ConfigText ''local.default_gpu_memory_mb is too small to run anything''))
         else if \<not> distinct names
         then Inl (ConfigError (ConfigText (''duplicate hosts in local.hosts: ['' @ join_with '', '' (map py_repr names) @ '']'')))
         else Inr ())"

subsection \<open>The health check\<close>


definition unhealthy :: "host_spec \<Rightarrow> moment \<Rightarrow> string \<Rightarrow> host_state \<Rightarrow> string \<Rightarrow> gpu_info list \<Rightarrow> bool \<Rightarrow> host_health" where
  "unhealthy h now home st reason gpus limits_tested =
     \<lparr>hh_hostname = h_hostname h, hh_state = st, hh_reason = reason, hh_checked_at = now, hh_gpus = gpus,
      hh_mps_ready = False, hh_limits_enforced = False, hh_limits_tested = limits_tested, hh_home = home\<rparr>"

definition msg_smi_failed :: "command_result \<Rightarrow> string" where
  "msg_smi_failed smi =
     ''nvidia-smi failed: '' @ (case cm_detail smi of d # _ \<Rightarrow> d | [] \<Rightarrow> ''no output'') @
     ''. Usually a driver that needs a reboot''"

definition msg_no_mps :: "gpu_info list \<Rightarrow> string" where
  "msg_no_mps unusable =
     join_with '', '' (map (\<lambda>g. ''gpu '' @ show_int (gi_index g) @ '' is '' @ gi_compute_mode g) unusable) @
     ''. MPS cannot open a Prohibited device; set it with: sudo nvidia-smi -i '' @ show_int (gi_index (hd unusable)) @ '' -c DEFAULT''"

definition msg_no_limits :: "command_result \<Rightarrow> int option \<Rightarrow> string" where
  "msg_no_limits probe applied =
     ''cgroup limits do not take effect here (asked for '' @ show_int PROBE_MEMORY_BYTES @ '' bytes, the scope reported '' @
     (case applied of None \<Rightarrow> ''None'' | Some n \<Rightarrow> show_int n) @ ''): '' @
     (if cm_detail probe = [] then ''exit '' @ show_int (cm_exit_status probe) else last (cm_detail probe)) @
     ''. Without them one job can take the whole machine down, so no new '' @
     ''jobs will be placed here. Either give the SSH user passwordless '' @
     ''sudo for systemd-run, or set local.use_sudo to false to use the '' @
     ''user manager instead -- on a shared research box you will not '' @
     ''get sudo, and the user slice usually has memory and cpu '' @
     ''delegated anyway''"

definition healthy :: "host_spec \<Rightarrow> moment \<Rightarrow> string \<Rightarrow> gpu_info list \<Rightarrow> bool \<Rightarrow> host_health" where
  "healthy h now home gpus mps =
     \<lparr>hh_hostname = h_hostname h, hh_state = HEALTHY, hh_reason = [], hh_checked_at = now, hh_gpus = gpus,
      hh_mps_ready = mps, hh_limits_enforced = True, hh_limits_tested = True, hh_home = home\<rparr>"

text \<open>The four questions, in order. The last one, whether MPS is up, is asked without a guard.\<close>

definition ask_mps :: "'t transport \<Rightarrow> host_spec \<Rightarrow> local_config \<Rightarrow> string \<Rightarrow> gpu_info list \<Rightarrow> ('t, host_health) ext_op" where
  "ask_mps run h cfg home gpus =
     x_then (run h (mps_running (lc_mps_pipe_dir cfg)) (lc_command_timeout_seconds cfg))
       (\<lambda>mps. x_then x_now (\<lambda>now. x_ret (healthy h now home gpus (cm_ok mps))))"

definition ask_limits :: "'t transport \<Rightarrow> host_spec \<Rightarrow> local_config \<Rightarrow> string \<Rightarrow> gpu_info list \<Rightarrow> ('t, host_health) ext_op" where
  "ask_limits run h cfg home gpus =
     x_then x_now (\<lambda>now.
       x_try (run h (limit_probe (lc_use_sudo cfg)) (lc_command_timeout_seconds cfg))
         (\<lambda>exc. x_ret (unhealthy h now home DRAINING (''could not test cgroup limits: '' @ exc) gpus False))
         (\<lambda>probe.
            let applied = (if cm_ok probe then parse_limit_probe (cm_stdout probe) else None)
            in if applied \<noteq> Some PROBE_MEMORY_BYTES
               then x_ret (unhealthy h now home DRAINING (msg_no_limits probe applied) gpus True)
               else ask_mps run h cfg home gpus))"

definition ask_gpus :: "'t transport \<Rightarrow> host_spec \<Rightarrow> local_config \<Rightarrow> string \<Rightarrow> ('t, host_health) ext_op" where
  "ask_gpus run h cfg home =
     x_then x_now (\<lambda>now.
       x_try (run h GPU_QUERY (lc_command_timeout_seconds cfg))
         (\<lambda>exc. x_ret (unhealthy h now home DRAINING (''nvidia-smi did not answer: '' @ exc) [] False))
         (\<lambda>smi.
            if \<not> cm_ok smi then x_ret (unhealthy h now home DRAINING (msg_smi_failed smi) [] False)
            else x_then (x_of (parse_gpus (cm_stdout smi))) (\<lambda>gpus.
              let unusable = filter (\<lambda>g. \<not> supports_mps g) gpus
              in if gpus = [] then x_ret (unhealthy h now home DRAINING ''nvidia-smi reported no GPUs'' [] False)
                 else if unusable \<noteq> [] then x_ret (unhealthy h now home DRAINING (msg_no_mps unusable) gpus False)
                 else ask_limits run h cfg home gpus)))"

text \<open>A home directory the shell did not tell is Python's None; it is only ever formatted into text.\<close>

definition check_host :: "'t transport \<Rightarrow> host_spec \<Rightarrow> local_config \<Rightarrow> ('t, host_health) ext_op" where
  "check_host run h cfg =
     x_then x_now (\<lambda>now.
       x_try (run h HELLO (lc_command_timeout_seconds cfg))
         (\<lambda>exc. x_ret (unhealthy h now [] UNREACHABLE exc [] False))
         (\<lambda>alive.
            case (if cm_ok alive then parse_hello (cm_stdout alive) else None) of
              None \<Rightarrow> x_ret (unhealthy h now ''None'' UNREACHABLE ''ssh connected but the shell failed'' [] False)
            | Some home \<Rightarrow> ask_gpus run h cfg home))"

definition start_mps :: "'t transport \<Rightarrow> host_spec \<Rightarrow> local_config \<Rightarrow> ('t, unit) ext_op" where
  "start_mps run h cfg =
     x_then (run h (mps_start (lc_mps_pipe_dir cfg) (lc_mps_log_dir cfg)) (lc_command_timeout_seconds cfg))
       (\<lambda>r. if cm_ok r then x_ret ()
            else x_raise (BackendError (h_hostname h @ '': could not start the MPS daemon: '' @
                   (case cm_detail r of d # _ \<Rightarrow> d | [] \<Rightarrow> ''no output''))))"

subsection \<open>What a healthy report stands for\<close>

text \<open>A verdict names the host it is about and the time it was made.\<close>

lemma check_host_frame:
  assumes "check_host run h cfg now t = (Inr v, t')"
  shows "hh_hostname v = h_hostname h \<and> hh_checked_at v = now"
  using assms
  by (auto simp: check_host_def ask_gpus_def ask_limits_def ask_mps_def Let_def x_simps unhealthy_def healthy_def
      split: option.splits if_splits)

text \<open>The evidence for a healthy verdict: one answer to each question, in order, each of which passed.\<close>

definition passed :: "'t transport \<Rightarrow> host_spec \<Rightarrow> local_config \<Rightarrow> moment \<Rightarrow> 't \<Rightarrow> gpu_info list \<Rightarrow> string \<Rightarrow> bool" where
  "passed run h cfg now t gpus home \<longleftrightarrow>
     (\<exists>alive smi probe t1 t2 t3.
        run h HELLO (lc_command_timeout_seconds cfg) now t = (Inr alive, t1) \<and> cm_ok alive \<and>
        parse_hello (cm_stdout alive) = Some home \<and>
        run h GPU_QUERY (lc_command_timeout_seconds cfg) now t1 = (Inr smi, t2) \<and> cm_ok smi \<and>
        parse_gpus (cm_stdout smi) = Inr gpus \<and>
        run h (limit_probe (lc_use_sudo cfg)) (lc_command_timeout_seconds cfg) now t2 = (Inr probe, t3) \<and> cm_ok probe \<and>
        parse_limit_probe (cm_stdout probe) = Some PROBE_MEMORY_BYTES)"

lemma healthy_verdict:
  assumes "check_host run h cfg now t = (Inr v, t')" and "hh_state v = HEALTHY"
  shows "passed run h cfg now t (hh_gpus v) (hh_home v) \<and> hh_gpus v \<noteq> [] \<and> list_all supports_mps (hh_gpus v) \<and>
    hh_limits_enforced v"
proof -
  obtain alive t1 home where a: "run h HELLO (lc_command_timeout_seconds cfg) now t = (Inr alive, t1)" "cm_ok alive"
    "parse_hello (cm_stdout alive) = Some home" "ask_gpus run h cfg home now t1 = (Inr v, t')"
    using assms by (auto simp: check_host_def x_simps unhealthy_def split: option.splits if_splits)
  obtain smi t2 gpus where s: "run h GPU_QUERY (lc_command_timeout_seconds cfg) now t1 = (Inr smi, t2)" "cm_ok smi"
    "parse_gpus (cm_stdout smi) = Inr gpus" "gpus \<noteq> []" "list_all supports_mps gpus"
    "ask_limits run h cfg home gpus now t2 = (Inr v, t')"
    using a(4) assms(2) by (auto simp: ask_gpus_def Let_def x_simps unhealthy_def list_all_iff filter_empty_conv split: if_splits)
  obtain probe t3 where p: "run h (limit_probe (lc_use_sudo cfg)) (lc_command_timeout_seconds cfg) now t2 = (Inr probe, t3)"
    "cm_ok probe" "parse_limit_probe (cm_stdout probe) = Some PROBE_MEMORY_BYTES" "ask_mps run h cfg home gpus now t3 = (Inr v, t')"
    using s(6) assms(2) by (auto simp: ask_limits_def Let_def x_simps unhealthy_def split: if_splits)
  have v: "hh_gpus v = gpus" "hh_home v = home" "hh_limits_enforced v" using p(4) by (auto simp: ask_mps_def x_simps healthy_def)
  with a(1-3) s(1-5) p(1-3) show ?thesis unfolding passed_def by blast
qed

text \<open>And the other way: a host that passes is not drained.\<close>

lemma passing_is_healthy:
  assumes "passed run h cfg now t gpus home" and "gpus \<noteq> []" and "list_all supports_mps gpus"
    and "check_host run h cfg now t = (Inr v, t')"
  shows "hh_state v = HEALTHY \<and> hh_gpus v = gpus \<and> hh_home v = home"
proof -
  obtain alive smi probe t1 t2 t3 where e: "run h HELLO (lc_command_timeout_seconds cfg) now t = (Inr alive, t1)" "cm_ok alive"
    "parse_hello (cm_stdout alive) = Some home" "run h GPU_QUERY (lc_command_timeout_seconds cfg) now t1 = (Inr smi, t2)" "cm_ok smi"
    "parse_gpus (cm_stdout smi) = Inr gpus"
    "run h (limit_probe (lc_use_sudo cfg)) (lc_command_timeout_seconds cfg) now t2 = (Inr probe, t3)" "cm_ok probe"
    "parse_limit_probe (cm_stdout probe) = Some PROBE_MEMORY_BYTES"
    using assms(1) unfolding passed_def by blast
  have "filter (\<lambda>g. \<not> supports_mps g) gpus = []" using assms(3) by (simp add: filter_empty_conv list_all_iff)
  then have "ask_mps run h cfg home gpus now t3 = (Inr v, t')"
    using assms(4) e assms(2) by (simp add: check_host_def ask_gpus_def ask_limits_def x_then_def x_try_def x_now_def x_of_def)
  then show ?thesis by (auto simp: ask_mps_def x_simps healthy_def)
qed

text \<open>
  A host is called healthy exactly when it proved to be. The check ends in HEALTHY if and only if the host
  answered who it is, listed at least one card and only cards that MPS can open, and a throw-away unit with
  a memory limit read back exactly that limit from inside itself.
\<close>

theorem healthy_exactly_when_tested:
  assumes "check_host run h cfg now t = (Inr v, t')"
  shows "(hh_state v = HEALTHY) = (\<exists>gpus home. passed run h cfg now t gpus home \<and> gpus \<noteq> [] \<and> list_all supports_mps gpus)"
  using healthy_verdict [OF assms] passing_is_healthy [OF _ _ _ assms] by blast

text \<open>A host whose throw-away unit ran but reported no limit at all.\<close>

definition demo_unlimited :: "unit transport" where
  "demo_unlimited h c timeout now u =
     (Inr \<lparr>cm_exit_status = 0,
           cm_stdout = (if c = HELLO then ''ok'' @ NL @ ''/home/b'' else if c = GPU_QUERY then [] else ''max''), cm_stderr = []\<rparr>, u)"

theorem healthy_exactly_when_tested_witness:
  "\<not> (\<exists>gpus home. passed demo_unlimited (host_named ''titan'') default_local_config 0 () gpus home \<and> gpus \<noteq> [] \<and>
       list_all supports_mps gpus)"
proof -
  have "parse_hello (''ok'' @ NL @ ''/home/b'') = Some ''/home/b''" "parse_gpus [] = Inr []" by code_simp+
  moreover have "GPU_QUERY \<noteq> HELLO" by (simp add: GPU_QUERY_def HELLO_def)
  ultimately have "check_host demo_unlimited (host_named ''titan'') default_local_config 0 () =
      (Inr (unhealthy (host_named ''titan'') 0 ''/home/b'' DRAINING ''nvidia-smi reported no GPUs'' [] False), ())"
    by (simp add: check_host_def ask_gpus_def x_then_def x_try_def x_now_def x_of_def x_ret_def demo_unlimited_def cm_ok_def)
  from healthy_exactly_when_tested [OF this] show ?thesis by (simp add: unhealthy_def)
qed

end
