(* ===== verification/PyLines.thy ===== *)
theory PyLines
  imports PyText
begin

text \<open>
  What the text methods of \<^verbatim>\<open>PyText\<close> guarantee: joining and splitting lines, and stripping blanks.
\<close>

text \<open>Lines joined by newlines come apart again.\<close>

definition no_break :: "string \<Rightarrow> bool" where
  "no_break s = list_all (\<lambda>c. \<not> line_break c) s"

lemma split_lines_plain: "no_break s \<Longrightarrow> split_lines acc (s @ rest) = split_lines (rev s @ acc) rest"
proof (induction s arbitrary: acc)
  case (Cons c cs)
  then have b: "\<not> line_break c" "no_break cs" by (simp_all add: no_break_def)
  then have "code c \<noteq> 13" by (auto simp: line_break_def)
  with b Cons.IH show ?case by simp
qed simp

lemma split_lines_newline: "no_break s \<Longrightarrow> split_lines [] (s @ CHR 0x0A # rest) = s # split_lines [] rest"
  by (simp add: split_lines_plain line_break_def)

lemma split_lines_no_break: "no_break acc \<Longrightarrow> list_all no_break (split_lines acc s)"
proof (induction acc s rule: split_lines.induct)
  case (2 acc c cs)
  have r: "no_break (rev acc)" "no_break []" using "2.prems" by (simp_all add: no_break_def)
  have "no_break (c # acc)" if "\<not> line_break c" using "2.prems" that by (simp add: no_break_def)
  with "2.IH" r show ?case by (simp only: split_lines.simps list.pred_inject if_split) blast
qed (simp add: no_break_def)

lemma splitlines_no_break: "list_all no_break (splitlines s)"
  by (simp add: splitlines_def split_lines_no_break no_break_def)

lemma splitlines_join: "list_all (\<lambda>x. x \<noteq> [] \<and> no_break x) xs \<Longrightarrow> splitlines (join_with [CHR 0x0A] xs) = xs"
proof (induction xs rule: induct_list012)
  case (2 x)
  then show ?case using split_lines_plain [of x "[]" "[]"] by (simp add: splitlines_def)
next
  case (3 x y zs)
  then show ?case by (simp add: splitlines_def split_lines_newline)
qed (simp add: splitlines_def)

lemma strip_set: "set (strip s) \<subseteq> set s"
  unfolding strip_def by (auto dest!: set_dropWhileD)

lemma strip_nonblank: "strip s \<noteq> [] \<Longrightarrow> strip (strip s) \<noteq> []"
proof -
  let ?t = "dropWhile py_space s"
  assume "strip s \<noteq> []"
  then have "dropWhile py_space (rev ?t) \<noteq> []" by (simp add: strip_def)
  then have "\<exists>c \<in> set (dropWhile py_space (rev ?t)). \<not> py_space c" using hd_dropWhile hd_in_set by blast
  then have "\<exists>c \<in> set (strip s). \<not> py_space c" by (simp add: strip_def)
  then have "\<exists>c \<in> set (dropWhile py_space (strip s)). \<not> py_space c"
    by (metis Un_iff set_append takeWhile_dropWhile_id set_takeWhileD)
  then have "dropWhile py_space (rev (dropWhile py_space (strip s))) \<noteq> []" by (auto simp: dropWhile_eq_Nil_conv)
  then show ?thesis unfolding strip_def [of "strip s"] by simp
qed

end
