(* ===== verification/Json.thy ===== *)
theory Json
  imports PyText
begin

text \<open>
  What \<open>json.dumps(value, sort_keys=True, separators=(",", ":"))\<close> writes for the values the broker hashes, and a
  reader for it: the text determines the value, which is what makes a hash of the text a key for the value.
\<close>

datatype json = JStr string | JArr "json list" | JObj "(string \<times> json) list"

definition BS :: char where
  "BS = CHR 0x5C"

definition QUOTE :: char where
  "QUOTE = CHR 0x22"

text \<open>Only ASCII is left as it is.\<close>

definition json_char :: "char \<Rightarrow> string" where
  "json_char c =
     (if c = QUOTE \<or> c = BS then [BS, c]
      else if code c = 10 then [BS, CHR ''n'']
      else if code c = 13 then [BS, CHR ''r'']
      else if code c = 9 then [BS, CHR ''t'']
      else if code c = 12 then [BS, CHR ''f'']
      else if code c = 8 then [BS, CHR ''b'']
      else if code c < 32 \<or> 127 < code c
      then [BS, CHR ''u'', CHR ''0'', CHR ''0'', hex_digit (code c div 16), hex_digit (code c mod 16)]
      else [c])"

definition json_string :: "string \<Rightarrow> string" where
  "json_string s = [QUOTE] @ concat (map json_char s) @ [QUOTE]"

fun json_dumps :: "json \<Rightarrow> string" where
  "json_dumps (JStr s) = json_string s"
| "json_dumps (JArr vs) = ''['' @ join_with '','' (map json_dumps vs) @ '']''"
| "json_dumps (JObj kvs) =
     ''{'' @ join_with '','' (map (\<lambda>(k, v). json_string k @ '':'' @ json_dumps v) (sort_key fst kvs)) @ ''}''"

subsection \<open>Reading a string back\<close>

definition hex_value :: "char \<Rightarrow> nat" where
  "hex_value c = length (takeWhile (\<lambda>d. d \<noteq> c) ''0123456789abcdef'')"

fun read_json_string :: "string \<Rightarrow> string \<Rightarrow> (string \<times> string) option" where
  "read_json_string acc [] = None"
| "read_json_string acc (c # cs) =
     (if c = QUOTE then Some (rev acc, cs)
      else if c \<noteq> BS then read_json_string (c # acc) cs
      else case cs of
             [] \<Rightarrow> None
           | d # ds \<Rightarrow>
               if d = QUOTE \<or> d = BS then read_json_string (d # acc) ds
               else if d = CHR ''n'' then read_json_string (char_of (10::nat) # acc) ds
               else if d = CHR ''r'' then read_json_string (char_of (13::nat) # acc) ds
               else if d = CHR ''t'' then read_json_string (char_of (9::nat) # acc) ds
               else if d = CHR ''f'' then read_json_string (char_of (12::nat) # acc) ds
               else if d = CHR ''b'' then read_json_string (char_of (8::nat) # acc) ds
               else case ds of
                      z1 # z2 # h1 # h2 # rest \<Rightarrow> read_json_string (char_of (hex_value h1 * 16 + hex_value h2) # acc) rest
                    | _ \<Rightarrow> None)"

lemma hex_digits: "n < 16 \<Longrightarrow> hex_value (hex_digit n) = n"
proof -
  assume "n < 16"
  moreover have "list_all (\<lambda>n. hex_value (hex_digit n) = n) [0..<16]" by code_simp
  ultimately show ?thesis by (simp add: list_all_iff)
qed

lemma code_eq: "code c = n \<Longrightarrow> char_of n = c"
  by auto

lemma read_json_char: "read_json_string acc (json_char c @ rest) = read_json_string (c # acc) rest"
proof -
  have "code c < 256" by (rule nat_of_char_less_256)
  then have "code c div 16 < 16" by (simp add: less_mult_imp_div_less)
  then have h: "hex_value (hex_digit (code c div 16)) * 16 + hex_value (hex_digit (code c mod 16)) = code c"
    by (simp add: hex_digits)
  show ?thesis
    by (simp add: json_char_def h QUOTE_def BS_def code_eq)
qed

lemma read_json_chars: "read_json_string acc (concat (map json_char s) @ rest) = read_json_string (rev s @ acc) rest"
  by (induction s arbitrary: acc) (simp_all add: read_json_char)

lemma read_json: "read_json_string [] (concat (map json_char s) @ QUOTE # rest) = Some (s, rest)"
  by (simp add: read_json_chars)

text \<open>Two texts that start with a string literal and agree have the same literal and the same rest.\<close>

lemma json_string_prefix: "json_string s @ a = json_string t @ b \<longleftrightarrow> s = t \<and> a = b"
proof
  assume "json_string s @ a = json_string t @ b"
  then have "concat (map json_char s) @ QUOTE # a = concat (map json_char t) @ QUOTE # b" by (simp add: json_string_def)
  from arg_cong [OF this, of "read_json_string []"] have "Some (s, a) = Some (t, b)" by (simp only: read_json)
  then show "s = t \<and> a = b" by simp
qed simp

lemma json_string_inj: "json_string s = json_string t \<longleftrightarrow> s = t"
  using json_string_prefix [of s "[]" t "[]"] by simp

text \<open>The same for a list of string literals.\<close>

lemma json_strings_prefix:
  "join_with '','' (map json_string xs) @ '']'' @ a = join_with '','' (map json_string ys) @ '']'' @ b \<longleftrightarrow> xs = ys \<and> a = b"
proof (induction xs arbitrary: ys rule: induct_list012)
  case 1
  show ?case by (cases ys rule: remdups_adj.cases) (simp_all add: json_string_def QUOTE_def)
next
  case (2 x)
  show ?case
    by (cases ys rule: remdups_adj.cases) (simp_all add: json_string_prefix, simp_all add: json_string_def QUOTE_def)
next
  case (3 x y zs)
  show ?case
  proof (cases ys rule: remdups_adj.cases)
    case 1
    then show ?thesis by (simp add: json_string_def QUOTE_def)
  next
    case (2 v)
    then show ?thesis by (simp add: json_string_prefix)
  next
    case (3 v w vs)
    then show ?thesis using "3.IH"(2) [of "w # vs"] by (simp add: json_string_prefix)
  qed
qed

end
