(* ===== verification/Environments.thy ===== *)
theory Environments
  imports Store PyLines Json Shell Commands "HOL-Library.Multiset"
begin

text \<open>
  \<^verbatim>\<open>gpu_broker/environments.py\<close>: named environments, the digest that is their cache key everywhere, and the
  texts derived from a specification; and the store's methods for environments and their builds. SHA-256 is
  the standard library's and an argument: a function from a text to its hexadecimal digest.
\<close>

subsection \<open>The specification and its digest\<close>

definition DEFAULT_BASE :: string where
  "DEFAULT_BASE = ''public.ecr.aws/deep-learning-containers/pytorch-training:2.3.0-gpu-py311''"

definition normalise :: "string \<Rightarrow> string" where
  "normalise requirement = text_lower (filter (\<lambda>c. \<not> py_space c) requirement)"

definition canonical :: "environment \<Rightarrow> string" where
  "canonical e =
     json_dumps (JObj
       [(''base'', JStr (e_base_image e)),
        (''python'', JStr (e_python_version e)),
        (''pip'', JArr (map JStr (sort (map normalise (e_requirements e))))),
        (''apt'', JArr (map JStr (sort (e_apt_packages e))))])"

definition digest :: "(string \<Rightarrow> string) \<Rightarrow> environment \<Rightarrow> string" where
  "digest sha256 e = take 16 (sha256 (canonical e))"

definition env_empty :: "environment \<Rightarrow> bool" where
  "env_empty e = (e_requirements e = [] \<and> e_apt_packages e = [])"

subsection \<open>Validation\<close>

text \<open>The two patterns. A \<open>$\<close> also matches before a newline that ends the text.\<close>

definition lower_alnum :: "char \<Rightarrow> bool" where
  "lower_alnum c = (97 \<le> code c \<and> code c \<le> 122 \<or> 48 \<le> code c \<and> code c \<le> 57)"

definition up_to_newline :: "string \<Rightarrow> string" where
  "up_to_newline s = (if s \<noteq> [] \<and> last s = CHR 0x0A then butlast s else s)"

definition name_pattern :: "string \<Rightarrow> bool" where
  "name_pattern s =
     (2 \<le> length s \<and> length s \<le> 40 \<and> lower_alnum (hd s) \<and> lower_alnum (last s) \<and>
      list_all (\<lambda>c. lower_alnum c \<or> c \<in> set ''._-'') s)"

definition name_matches :: "string \<Rightarrow> bool" where
  "name_matches s = (name_pattern s \<or> name_pattern (up_to_newline s))"

definition apt_pattern :: "string \<Rightarrow> bool" where
  "apt_pattern s = (s \<noteq> [] \<and> lower_alnum (hd s) \<and> list_all (\<lambda>c. lower_alnum c \<or> c \<in> set ''+.:-'') s)"

definition apt_matches :: "string \<Rightarrow> bool" where
  "apt_matches s = (apt_pattern s \<or> apt_pattern (up_to_newline s))"

definition is_pip_flag :: "string \<Rightarrow> bool" where
  "is_pip_flag line = starts_with (strip line) ''-''"

definition env_validate :: "environment \<Rightarrow> (error, unit) result" where
  "env_validate e =
     (if \<not> name_matches (e_name e)
      then Inl (EnvironmentError (py_repr (e_name e) @ '' is not a usable name. Use lowercase letters, digits, '' @
             ''dots, dashes and underscores, 2 to 40 characters''))
      else if e_base_image e = [] then Inl (EnvironmentError (e_name e @ '': no base image''))
      else case find is_pip_flag (e_requirements e) of
             Some line \<Rightarrow>
               Inl (EnvironmentError (e_name e @ '': requirement '' @ py_repr (strip line) @ '' is a pip flag, not a '' @
                 ''package. Flags refer to files the build cannot see''))
           | None \<Rightarrow>
               (case find (\<lambda>p. \<not> apt_matches p) (e_apt_packages e) of
                  Some p \<Rightarrow> Inl (EnvironmentError (e_name e @ '': '' @ py_repr p @ '' is not an apt package name''))
                | None \<Rightarrow> Inr ()))"

definition env_describe :: "(string \<Rightarrow> string) \<Rightarrow> environment \<Rightarrow> string" where
  "env_describe sha256 e =
     e_name e @ '' ('' @ digest sha256 e @ '') on '' @ e_base_image e @ '', '' @
     join_with '', '' ([show_nat (length (e_requirements e)) @ '' pip''] @
       (if e_apt_packages e = [] then [] else [show_nat (length (e_apt_packages e)) @ '' apt'']))"

subsection \<open>What is built from it\<close>

definition quoted_list :: "string list \<Rightarrow> string" where
  "quoted_list xs = join_with '' '' (map shlex_quote (sort xs))"

definition dockerfile :: "(string \<Rightarrow> string) \<Rightarrow> environment \<Rightarrow> string" where
  "dockerfile sha256 e =
     join_with NL
       ([''FROM '' @ e_base_image e] @
        (if e_apt_packages e = [] then []
         else [''RUN apt-get update && DEBIAN_FRONTEND=noninteractive apt-get install -y '' @
               ''--no-install-recommends '' @ quoted_list (e_apt_packages e) @ '' && rm -rf /var/lib/apt/lists/*'']) @
        (if e_requirements e = [] then []
         else [''RUN pip install --no-cache-dir '' @ quoted_list (e_requirements e)]) @
        [''LABEL gpu-broker.environment='' @ dq (e_name e) @ '' gpu-broker.digest='' @ dq (digest sha256 e)]) @ NL"

definition venv_path :: "(string \<Rightarrow> string) \<Rightarrow> environment \<Rightarrow> string \<Rightarrow> string" where
  "venv_path sha256 e base = base @ ''/'' @ digest sha256 e"

definition venv_script :: "(string \<Rightarrow> string) \<Rightarrow> environment \<Rightarrow> string \<Rightarrow> string" where
  "venv_script sha256 e base =
     (let target = base @ ''/'' @ digest sha256 e;
          staging = base @ ''/.building-'' @ digest sha256 e;
          pip = quoted_list (e_requirements e);
          install = (if pip = [] then ''true'' else staging @ ''/bin/pip install --disable-pip-version-check -q '' @ pip);
          python = (if e_python_version e = [] then ''python3'' else ''python'' @ e_python_version e)
      in ''set -e; '' @
         ''if [ -x '' @ shlex_quote target @ ''/bin/python ]; then exit 0; fi; '' @
         ''mkdir -p '' @ shlex_quote base @ ''; '' @
         ''rm -rf '' @ shlex_quote staging @ ''; '' @
         python @ '' -m venv '' @ shlex_quote staging @ ''; '' @
         staging @ ''/bin/pip install --disable-pip-version-check -q --upgrade pip; '' @
         install @ ''; '' @
         ''mv '' @ shlex_quote staging @ '' '' @ shlex_quote target)"

text \<open>\<open>line.split("#", 1)[0].strip()\<close> for every line, blank results left out.\<close>

definition requirement_lines :: "string \<Rightarrow> string list" where
  "requirement_lines text =
     filter (\<lambda>entry. entry \<noteq> []) (map (\<lambda>line. strip (fst (partition_at (CHR ''#'') line))) (splitlines text))"

definition from_requirements :: "string \<Rightarrow> string \<Rightarrow> (error, environment) result" where
  "from_requirements name text =
     (let e = \<lparr>e_name = name, e_base_image = DEFAULT_BASE, e_python_version = [], e_requirements = requirement_lines text,
               e_apt_packages = [], e_owner = [], e_description = [], e_created_at = None, e_updated_at = None\<rparr>
      in case env_validate e of Inl x \<Rightarrow> Inl x | Inr _ \<Rightarrow> Inr e)"

definition build_usable :: "build \<Rightarrow> bool" where
  "build_usable b = (bd_state b = ''ready'' \<and> bd_reference b \<noteq> [])"

subsection \<open>In the store\<close>

text \<open>Lists are stored as one text, a line each, and read back line by line without the blank ones: this is what
  a later read finds. An update of an existing name keeps its owner and the time it was created.\<close>

definition stored_lines_of :: "string list \<Rightarrow> string list" where
  "stored_lines_of xs = filter (\<lambda>l. strip l \<noteq> []) (splitlines (join_with NL xs))"

definition as_stored :: "moment \<Rightarrow> environment \<Rightarrow> environment" where
  "as_stored now e =
     e\<lparr>e_requirements := stored_lines_of (e_requirements e), e_apt_packages := stored_lines_of (e_apt_packages e),
       e_created_at := Some (case e_created_at e of Some t \<Rightarrow> t | None \<Rightarrow> now), e_updated_at := Some now\<rparr>"

fun upsert_environment :: "environment \<Rightarrow> environment list \<Rightarrow> environment list" where
  "upsert_environment e [] = [e]"
| "upsert_environment e (f # fs) =
     (if e_name f = e_name e then e\<lparr>e_owner := e_owner f, e_created_at := e_created_at f\<rparr> # fs
      else f # upsert_environment e fs)"

definition save_environment :: "store \<Rightarrow> environment \<Rightarrow> environment \<times> store" where
  "save_environment st e =
     (e\<lparr>e_created_at := Some (case e_created_at e of Some t \<Rightarrow> t | None \<Rightarrow> st_now st), e_updated_at := Some (st_now st)\<rparr>,
      st\<lparr>st_environments := upsert_environment (as_stored (st_now st) e) (st_environments st)\<rparr>)"

fun upsert_build :: "build \<Rightarrow> build list \<Rightarrow> build list" where
  "upsert_build b [] = [b]"
| "upsert_build b (c # cs) =
     (if bd_digest c = bd_digest b \<and> bd_target c = bd_target b then b # cs else c # upsert_build b cs)"

definition record_build :: "store \<Rightarrow> string \<Rightarrow> string \<Rightarrow> string \<Rightarrow> string \<Rightarrow> string \<Rightarrow> build \<times> store" where
  "record_build st dig target state reference detail =
     (let b = \<lparr>bd_digest = dig, bd_target = target, bd_state = state, bd_reference = reference, bd_detail = detail,
               bd_built_at = st_now st\<rparr>
      in (b, st\<lparr>st_builds := upsert_build b (st_builds st)\<rparr>))"

definition find_build :: "store \<Rightarrow> string \<Rightarrow> string \<Rightarrow> build option" where
  "find_build st dig target = find (\<lambda>b. bd_digest b = dig \<and> bd_target b = target) (st_builds st)"

definition builds_for :: "store \<Rightarrow> string \<Rightarrow> build list" where
  "builds_for st dig = sort_key bd_target (filter (\<lambda>b. bd_digest b = dig) (st_builds st))"

fun upsert_baseline :: "baseline_row \<Rightarrow> baseline_row list \<Rightarrow> baseline_row list" where
  "upsert_baseline b [] = [b]"
| "upsert_baseline b (c # cs) = (if bl_period c = bl_period b then b # cs else c # upsert_baseline b cs)"

definition save_baseline :: "store \<Rightarrow> string \<Rightarrow> pyfloat \<Rightarrow> decimal \<Rightarrow> string \<Rightarrow> store" where
  "save_baseline st period hours dollars source =
     st\<lparr>st_baseline := upsert_baseline \<lparr>bl_period = period, bl_instance_hours = hours, bl_dollars = dollars,
          bl_source = source, bl_recorded_at = st_now st\<rparr> (st_baseline st)\<rparr>"

subsection \<open>The cache key\<close>

text \<open>What an environment asks for: the order of the packages, blanks and case of the requirements left out.\<close>

definition spec_of :: "environment \<Rightarrow> string \<times> string \<times> string multiset \<times> string multiset" where
  "spec_of e =
     (e_base_image e, e_python_version e, mset (map normalise (e_requirements e)), mset (e_apt_packages e))"

lemma sort_eq_iff_mset: "sort xs = sort ys \<longleftrightarrow> mset xs = mset ys" for xs ys :: "string list"
  by (metis mset_sort properties_for_sort sorted_sort)

lemma dumps_strings: "map json_dumps (map JStr xs) = map json_string xs"
  by (simp add: comp_def)

lemma canonical_text:
  "canonical e =
     ''{'' @ json_string ''apt'' @ '':['' @ join_with '','' (map json_string (sort (e_apt_packages e))) @ '']'' @ '','' @
     json_string ''base'' @ '':'' @ json_string (e_base_image e) @ '','' @
     json_string ''pip'' @ '':['' @ join_with '','' (map json_string (sort (map normalise (e_requirements e)))) @ '']'' @ '','' @
     json_string ''python'' @ '':'' @ json_string (e_python_version e) @ ''}''"
proof -
  have "sort_key fst [(''base'', a), (''python'', b), (''pip'', c), (''apt'', d)] =
      [(''apt'', d), (''base'', a), (''pip'', c), (''python'', b)]" for a b c d :: json
    by (simp add: less_eq_char_def)
  then show ?thesis by (simp add: canonical_def comp_def)
qed

lemma spec_determines_text: "canonical e = canonical f \<longleftrightarrow> spec_of e = spec_of f"
proof -
  have "canonical e = canonical f \<longleftrightarrow>
      sort (e_apt_packages e) = sort (e_apt_packages f) \<and> e_base_image e = e_base_image f \<and>
      sort (map normalise (e_requirements e)) = sort (map normalise (e_requirements f)) \<and>
      e_python_version e = e_python_version f"
    unfolding canonical_text using json_strings_prefix by (simp add: json_string_prefix json_string_inj)
  then show ?thesis by (auto simp: spec_of_def sort_eq_iff_mset)
qed


subsection \<open>What is saved is found\<close>

lemma partition_at_set: "set (fst (partition_at c s)) \<subseteq> set s"
  by (auto simp: partition_at_def dest: set_takeWhileD)

lemma requirement_line: "r \<in> set (requirement_lines text) \<Longrightarrow> strip r \<noteq> [] \<and> no_break r"
proof -
  assume "r \<in> set (requirement_lines text)"
  then obtain l where l: "l \<in> set (splitlines text)" "r = strip (fst (partition_at (CHR ''#'') l))" "r \<noteq> []"
    by (auto simp: requirement_lines_def)
  from l(1) have "no_break l" using splitlines_no_break [of "text"] by (simp add: list_all_iff)
  moreover have "set r \<subseteq> set l" using strip_set partition_at_set l(2) by fast
  ultimately have "no_break r" by (auto simp: no_break_def list_all_iff)
  with l(2,3) strip_nonblank show ?thesis by simp
qed

lemma strip_Nil: "strip [] = []"
  by (simp add: strip_def)

lemma stored_requirement_lines: "stored_lines_of (requirement_lines text) = requirement_lines text"
proof -
  have "list_all (\<lambda>x. x \<noteq> [] \<and> no_break x) (requirement_lines text)"
    using requirement_line strip_Nil by (fastforce simp: list_all_iff)
  then have "splitlines (join_with NL (requirement_lines text)) = requirement_lines text"
    by (simp add: NL_def splitlines_join)
  then show ?thesis using requirement_line [of _ "text"] by (simp add: stored_lines_of_def filter_id_conv)
qed

lemma find_upserted:
  "\<exists>f. find (\<lambda>g. e_name g = e_name e) (upsert_environment e es) = Some f \<and> e_name f = e_name e \<and>
       canonical f = canonical e \<and> e_requirements f = e_requirements e"
  by (induction es) (auto simp: canonical_def)

lemma from_requirements_Inr:
  "from_requirements name text = Inr e \<Longrightarrow>
   e_name e = name \<and> e_requirements e = requirement_lines text \<and> e_apt_packages e = []"
  by (auto simp: from_requirements_def Let_def split: sum.splits)

text \<open>
  A requirements file is kept as it was read. An environment made from a requirements file and saved is
  found again under its name, for every store and whatever was saved under that name before: with the same
  requirements, and with the digest that was computed before saving, so what was built for it is found.
\<close>

theorem saved_requirements_are_found:
  assumes "from_requirements name text = Inr e"
  shows "\<exists>f. find_environment (snd (save_environment st e)) name = Some f \<and>
             e_requirements f = requirement_lines text \<and> digest sha256 f = digest sha256 e"
proof -
  have e: "e_name e = name" "e_requirements e = requirement_lines text" "e_apt_packages e = []"
    using from_requirements_Inr [OF assms] by simp_all
  let ?s = "as_stored (st_now st) e"
  have none: "stored_lines_of [] = []" by (simp add: stored_lines_of_def splitlines_def)
  have s: "e_name ?s = name" "e_requirements ?s = requirement_lines text" "canonical ?s = canonical e"
    using e none by (simp_all add: as_stored_def stored_requirement_lines canonical_def)
  from find_upserted [of ?s "st_environments st"] obtain f where
    "find (\<lambda>g. e_name g = name) (upsert_environment ?s (st_environments st)) = Some f"
    "canonical f = canonical e" "e_requirements f = requirement_lines text"
    by (auto simp: s)
  then show ?thesis by (simp add: find_environment_def save_environment_def digest_def)
qed

theorem saved_requirements_are_found_witness:
  "\<exists>e f. from_requirements ''ml'' ''torch==2.3.0 # cuda'' = Inr e \<and> e_requirements e = [''torch==2.3.0''] \<and>
     find_environment (snd (save_environment (empty_store 0 (default_config (\<lambda>_. 0))) e)) ''ml'' = Some f \<and>
     e_requirements f = [''torch==2.3.0'']"
proof -
  have r: "requirement_lines ''torch==2.3.0 # cuda'' = [''torch==2.3.0'']" by code_simp
  have "name_matches ''ml''" "\<not> is_pip_flag ''torch==2.3.0''" by code_simp+
  then obtain e where e: "from_requirements ''ml'' ''torch==2.3.0 # cuda'' = Inr e"
    by (simp add: from_requirements_def r env_validate_def DEFAULT_BASE_def)
  from saved_requirements_are_found [OF e, of "empty_store 0 (default_config (\<lambda>_. 0))"] e from_requirements_Inr [OF e]
  show ?thesis by (auto simp: r)
qed

end
