(* ===== verification/Volumes.thy ===== *)
theory Volumes
  imports Models Shell Commands
begin

text \<open>
  \<^verbatim>\<open>gpu_broker/volumes.py\<close>: where a member's data lives between jobs, and the shell text that mounts it.
\<close>

definition MOUNT_POINT :: string where
  "MOUNT_POINT = ''/mnt/gpu-broker''"

definition DATA_PATH :: string where
  "DATA_PATH = ''/data''"

record volume_config =
  vc_enabled :: bool
  vc_efs_id :: string
  vc_region :: string
  vc_local_root :: string
  vc_quota_gb :: pyfloat

definition default_volumes :: volume_config where
  "default_volumes =
     \<lparr>vc_enabled = False, vc_efs_id = [], vc_region = [], vc_local_root = ''~/.gpu-broker/data'', vc_quota_gb = 0\<rparr>"

definition validate_volumes :: "volume_config \<Rightarrow> (error, unit) result" where
  "validate_volumes cfg =
     (if vc_enabled cfg \<and> vc_efs_id cfg = [] \<and> vc_local_root cfg = []
      then Inl (ConfigError (ConfigText (''volumes.enabled is set but there is nowhere to put anything: '' @
             ''set volumes.efs_id for cloud jobs, or volumes.local_root for the lab'')))
      else if vc_efs_id cfg \<noteq> [] \<and> \<not> starts_with (vc_efs_id cfg) ''fs-''
      then Inl (ConfigError (ConfigText (''volumes.efs_id should look like fs-0123abc, got '' @ py_repr (vc_efs_id cfg))))
      else Inr ())"

text \<open>\<open>_safe\<close>: what is left of a user's name in a path.\<close>

definition safe_user :: "string \<Rightarrow> string" where
  "safe_user uid = (let cleaned = filter (\<lambda>c. py_alnum c \<or> c \<in> set ''-_.'') uid in if cleaned = [] then ''unknown'' else cleaned)"

definition efs_mount_script :: "volume_config \<Rightarrow> string \<Rightarrow> string \<Rightarrow> string" where
  "efs_mount_script cfg uid region =
     (if vc_efs_id cfg = [] then ''true''
      else
        (let host = vc_efs_id cfg @ ''.efs.'' @ region @ ''.amazonaws.com'';
             user_dir = MOUNT_POINT @ ''/'' @ safe_user uid
         in ''mkdir -p '' @ MOUNT_POINT @ '' '' @ DATA_PATH @ '' && '' @
            ''mount -t nfs4 -o nfsvers=4.1,rsize=1048576,wsize=1048576,hard,timeo=600,retrans=2 '' @
            host @ '':/ '' @ MOUNT_POINT @ '' && '' @
            ''mkdir -p '' @ shlex_quote user_dir @ '' && '' @
            ''mount --bind '' @ shlex_quote user_dir @ '' '' @ DATA_PATH))"

definition local_data_dir :: "volume_config \<Rightarrow> string \<Rightarrow> string \<Rightarrow> string" where
  "local_data_dir cfg uid home =
     (let base =
        (if starts_with (vc_local_root cfg) ''~/'' then home @ ''/'' @ drop 2 (vc_local_root cfg)
         else if vc_local_root cfg = ''~'' then home else vc_local_root cfg)
      in base @ ''/'' @ safe_user uid)"

definition local_mount_script :: "volume_config \<Rightarrow> string \<Rightarrow> string \<Rightarrow> string" where
  "local_mount_script cfg uid home =
     (if vc_enabled cfg then ''mkdir -p '' @ shlex_quote (local_data_dir cfg uid home) else ''true'')"

subsection \<open>One directory per member\<close>

text \<open>The name that is left has no path separator and is never empty, so it is one step below the root; but it
  can be a dot or two, and different names can be left the same.\<close>

lemma safe_user_no_slash: "CHR ''/'' \<notin> set (safe_user uid)"
proof -
  have "\<not> py_alnum (CHR ''/'')" by (simp add: py_alnum_def ascii_letter_def py_digit_def)
  then show ?thesis by (simp add: safe_user_def Let_def)
qed

lemma safe_user_nonempty: "safe_user uid \<noteq> []"
  by (simp add: safe_user_def Let_def)

lemma safe_user_id: "uid \<noteq> [] \<Longrightarrow> list_all (\<lambda>c. py_alnum c \<or> c \<in> set ''-_.'') uid \<Longrightarrow> safe_user uid = uid"
  unfolding safe_user_def list_all_iff by (simp add: filter_id_conv Let_def)

lemma local_data_dir_inj: "local_data_dir cfg u home = local_data_dir cfg v home \<longleftrightarrow> safe_user u = safe_user v"
  by (simp add: local_data_dir_def Let_def)

text \<open>A user whose name is two dots gets the parent of the data directory, which holds everybody's.\<close>

lemma dots_leave_the_root: "local_data_dir default_volumes ''..'' ''/home/b'' = ''/home/b/.gpu-broker/data/..''"
  by (simp add: local_data_dir_def default_volumes_def starts_with_def safe_user_def Let_def)

lemma names_can_collide: "local_data_dir cfg ''ada!'' home = local_data_dir cfg ''ada'' home"
  by (simp add: local_data_dir_inj safe_user_def py_alnum_def ascii_letter_def py_digit_def)

end
