(* ===== verification/Local.thy ===== *)
theory Local
  imports Hosts Environments Volumes
begin

text \<open>
  \<^verbatim>\<open>gpu_broker/backends/local.py\<close>: the lab pool. The object's attributes are a record: what each host last
  looked like, the drains by hand, the hosts whose MPS daemon was started, and the network. Every method is
  an operation on that record over the transport.
\<close>

subsection \<open>The object\<close>

record 't local_state =
  ls_health :: "(string \<times> host_health) list"
  ls_manual_drain :: "(string \<times> string) list"
  ls_mps_started :: "string list"
  ls_net :: 't

record 't lab =
  lb_name :: string
  lb_tier :: string
  lb_config :: local_config
  lb_transport :: "'t transport"
  lb_environments :: "(string \<Rightarrow> environment option) option"
  lb_volumes :: volume_config
  lb_environment_root :: string
  lb_sha256 :: "string \<Rightarrow> string"

definition on_net :: "('t, 'a) ext_op \<Rightarrow> ('t local_state, 'a) ext_op" where
  "on_net m now s = (case m now (ls_net s) of (r, t) \<Rightarrow> (r, s\<lparr>ls_net := t\<rparr>))"

definition lab_run :: "'t lab \<Rightarrow> host_spec \<Rightarrow> string \<Rightarrow> pyfloat \<Rightarrow> ('t local_state, command_result) ext_op" where
  "lab_run b h command timeout = on_net (lb_transport b h command timeout)"

definition lab_handle :: "string \<Rightarrow> string \<Rightarrow> string" where
  "lab_handle hostname jid = hostname @ ''/'' @ jid"

definition split_handle :: "string \<Rightarrow> string \<times> string" where
  "split_handle handle = partition_at (CHR ''/'') handle"

subsection \<open>Health\<close>

definition find_host :: "'t lab \<Rightarrow> string \<Rightarrow> host_spec option" where
  "find_host b hostname = find (\<lambda>h. h_hostname h = hostname) (lc_hosts (lb_config b))"

definition known_health :: "'t local_state \<Rightarrow> string \<Rightarrow> host_health option" where
  "known_health s hostname = map_of (ls_health s) hostname"

definition put_health :: "string \<Rightarrow> host_health \<Rightarrow> 't local_state \<Rightarrow> 't local_state" where
  "put_health hostname v s = s\<lparr>ls_health := AList.update hostname v (ls_health s)\<rparr>"

definition with_manual_drain :: "'t local_state \<Rightarrow> host_health \<Rightarrow> host_health" where
  "with_manual_drain s v =
     (case map_of (ls_manual_drain s) (hh_hostname v) of
        None \<Rightarrow> v
      | Some reason \<Rightarrow> v\<lparr>hh_state := DRAINING, hh_reason := ''drained by hand: '' @ reason\<rparr>)"

definition health_stale :: "'t lab \<Rightarrow> bool \<Rightarrow> moment \<Rightarrow> host_health option \<Rightarrow> bool" where
  "health_stale b refresh now known =
     (case known of
        None \<Rightarrow> True
      | Some v \<Rightarrow> refresh \<or> lc_health_interval_seconds (lb_config b) \<le> total_seconds (now - hh_checked_at v))"

definition health_of :: "'t lab \<Rightarrow> bool \<Rightarrow> host_spec \<Rightarrow> ('t local_state, host_health) ext_op" where
  "health_of b refresh h =
     x_then x_now (\<lambda>now.
     x_then (x_get (\<lambda>s. known_health s (h_hostname h))) (\<lambda>known.
       if health_stale b refresh now known
       then x_then (on_net (check_host (lb_transport b) h (lb_config b)))
              (\<lambda>v. x_then (x_set (put_health (h_hostname h) v)) (\<lambda>_. x_get (\<lambda>s. with_manual_drain s v)))
       else x_get (\<lambda>s. with_manual_drain s (the known))))"
definition lab_health :: "'t lab \<Rightarrow> bool \<Rightarrow> ('t local_state, host_health list) ext_op" where
  "lab_health b refresh = x_each (health_of b refresh) (lc_hosts (lb_config b))"

definition lab_drain :: "'t lab \<Rightarrow> string \<Rightarrow> string \<Rightarrow> ('t local_state, unit) ext_op" where
  "lab_drain b hostname reason =
     (if find_host b hostname = None then x_raise (BackendError (''no host '' @ py_repr hostname @ '' in local.hosts''))
      else x_set (\<lambda>s. s\<lparr>ls_manual_drain := AList.update hostname reason (ls_manual_drain s)\<rparr>))"

definition lab_undrain :: "string \<Rightarrow> 't local_state \<Rightarrow> 't local_state" where
  "lab_undrain hostname s =
     s\<lparr>ls_manual_drain := AList.delete hostname (ls_manual_drain s), ls_health := AList.delete hostname (ls_health s)\<rparr>"

definition healthy_hosts :: "'t lab \<Rightarrow> ('t local_state, host_health list) ext_op" where
  "healthy_hosts b = x_then (lab_health b False) (\<lambda>vs. x_ret (filter (\<lambda>v. accepts_jobs (hh_state v)) vs))"

definition mark_unreachable :: "string \<Rightarrow> string \<Rightarrow> moment \<Rightarrow> 't local_state \<Rightarrow> 't local_state" where
  "mark_unreachable hostname reason now s =
     put_health hostname
       \<lparr>hh_hostname = hostname, hh_state = UNREACHABLE, hh_reason = reason, hh_checked_at = now,
        hh_gpus = (case known_health s hostname of Some v \<Rightarrow> hh_gpus v | None \<Rightarrow> []),
        hh_mps_ready = False, hh_limits_enforced = False, hh_limits_tested = False,
        hh_home = (case known_health s hostname of Some v \<Rightarrow> hh_home v | None \<Rightarrow> [])\<rparr> s"

definition root_for :: "'t lab \<Rightarrow> string \<Rightarrow> 't local_state \<Rightarrow> string" where
  "root_for b hostname s =
     expand (lc_job_root (lb_config b)) (case known_health s hostname of Some v \<Rightarrow> hh_home v | None \<Rightarrow> [])"

subsection \<open>Capacity\<close>

definition lab_supports :: "'t lab \<Rightarrow> string \<Rightarrow> bool" where
  "lab_supports b gpu_type = (gpu_type = lc_gpu_type (lb_config b))"

definition live_on :: "'t lab \<Rightarrow> string \<Rightarrow> ('t local_state, (string \<times> string) list list) ext_op" where
  "live_on b hostname =
     (case find_host b hostname of
        None \<Rightarrow> x_ret []
      | Some h \<Rightarrow>
          x_then (x_get (root_for b hostname)) (\<lambda>base.
          x_try (lab_run b h (list_live_jobs base (lc_use_sudo (lb_config b))) (lc_command_timeout_seconds (lb_config b)))
            (\<lambda>_. x_ret []) (\<lambda>r. x_ret (parse_live_jobs (cm_stdout r)))))"

definition free_on :: "'t lab \<Rightarrow> host_health \<Rightarrow> ('t local_state, int) ext_op" where
  "free_on b v =
     x_then (live_on b (hh_hostname v))
       (\<lambda>live. x_ret (max 0 (gpu_count v * lc_max_jobs_per_gpu (lb_config b) - int (length live))))"

definition lab_free_slots :: "'t lab \<Rightarrow> string \<Rightarrow> ('t local_state, int) ext_op" where
  "lab_free_slots b gpu_type =
     (if \<not> lab_supports b gpu_type then x_ret 0
      else x_then (healthy_hosts b) (\<lambda>vs. x_then (x_each (free_on b) vs) (\<lambda>ns. x_ret (sum_list ns))))"

subsection \<open>Launching\<close>

definition msg_unavailable :: "host_health list \<Rightarrow> string" where
  "msg_unavailable vs =
     ''every local host is unavailable: '' @
     join_with ''; '' (map (\<lambda>v. hh_hostname v @ '' is '' @ text_lower (host_state_name (hh_state v)) @ '' ('' @ hh_reason v @ '')'') vs)"

definition msg_at_limit :: "'t lab \<Rightarrow> string" where
  "msg_at_limit b =
     ''every local GPU is at its limit of '' @ show_int (lc_max_jobs_per_gpu (lb_config b)) @ '' concurrent jobs''"

definition emptiest :: "(int \<times> host_health) list \<Rightarrow> host_health" where
  "emptiest with_room = snd (hd (sort_key (\<lambda>(free, v). (- free, hh_hostname v)) with_room))"

definition pick_host :: "'t lab \<Rightarrow> job \<Rightarrow> ('t local_state, host_health) ext_op" where
  "pick_host b j =
     (if \<not> lab_supports b (j_gpu_type j)
      then x_raise (BackendError (lb_name b @ '' has no '' @ j_gpu_type j @ '' capacity''))
      else x_then (lab_health b False) (\<lambda>all_hosts.
        if all_hosts = [] then x_raise (BackendError ''no hosts are configured under local.hosts'')
        else
          (let usable = filter (\<lambda>v. accepts_jobs (hh_state v)) all_hosts
           in if usable = [] then x_raise (BackendError (msg_unavailable all_hosts))
              else x_then (x_each (\<lambda>v. x_then (free_on b v) (\<lambda>free. x_ret (free, v))) usable) (\<lambda>pairs.
                let with_room = filter (\<lambda>(free, v). 0 < free) pairs
                in if with_room = [] then x_raise (BackendError (msg_at_limit b)) else x_ret (emptiest with_room)))))"

text \<open>The cards of the host and how many live jobs name each; a job whose card is not a number is skipped.\<close>

definition device_of :: "(string \<times> string) list \<Rightarrow> int option" where
  "device_of live = (case map_of live ''gpu'' of None \<Rightarrow> Some 0 | Some t \<Rightarrow> int_of_text t)"

definition device_counts :: "gpu_info list \<Rightarrow> (string \<times> string) list list \<Rightarrow> (int \<times> nat) list" where
  "device_counts gpus lives =
     foldl (\<lambda>counts live. case device_of live of
              None \<Rightarrow> counts
            | Some i \<Rightarrow> AList.update i (Suc (case map_of counts i of Some n \<Rightarrow> n | None \<Rightarrow> 0)) counts)
       (foldl (\<lambda>counts g. AList.update (gi_index g) 0 counts) [] gpus) lives"

definition least_loaded :: "(int \<times> nat) list \<Rightarrow> int" where
  "least_loaded counts = (if counts = [] then 0 else fst (arg_min_list (\<lambda>(i, n). (n, i)) counts))"

definition pick_device :: "'t lab \<Rightarrow> host_health \<Rightarrow> ('t local_state, int) ext_op" where
  "pick_device b v =
     x_then (live_on b (hh_hostname v)) (\<lambda>lives. x_ret (least_loaded (device_counts (hh_gpus v) lives)))"

definition ensure_mps :: "'t lab \<Rightarrow> host_spec \<Rightarrow> host_health \<Rightarrow> ('t local_state, unit) ext_op" where
  "ensure_mps b h v =
     x_then (x_get ls_mps_started) (\<lambda>started.
       if hh_mps_ready v \<or> h_hostname h \<in> set started then x_ret ()
       else x_then (on_net (start_mps (lb_transport b) h (lb_config b)))
              (\<lambda>_. x_set (\<lambda>s. s\<lparr>ls_mps_started := List.insert (h_hostname h) (ls_mps_started s)\<rparr>)))"

definition command_for :: "'t lab \<Rightarrow> job \<Rightarrow> string \<Rightarrow> string" where
  "command_for b j home =
     join_with NL
       ((if vc_enabled (lb_volumes b)
         then [local_mount_script (lb_volumes b) (j_user j) home,
               ''export GPU_BROKER_DATA='' @ shlex_quote (local_data_dir (lb_volumes b) (j_user j) home)]
         else []) @
        (case (if truthy (j_environment j) then Option.bind (lb_environments b) (\<lambda>f. f (the (j_environment j))) else None) of
           None \<Rightarrow> []
         | Some e \<Rightarrow>
             (let base = expand (lb_environment_root b) home
              in [venv_script (lb_sha256 b) e base,
                  ''. '' @ shlex_quote (venv_path (lb_sha256 b) e base) @ ''/bin/activate''])) @
        [j_command j])"

definition launch_env :: "'t lab \<Rightarrow> job \<Rightarrow> int \<Rightarrow> (string \<times> string) list" where
  "launch_env b j device =
     mps_client_env (lc_mps_pipe_dir (lb_config b)) device (lc_default_gpu_memory_mb (lb_config b))
       (max 1 (100 div lc_max_jobs_per_gpu (lb_config b))) @
     [(''GPU_BROKER_JOB_ID'', j_id j), (''GPU_BROKER_USER'', j_user j)]"

definition launch_command :: "'t lab \<Rightarrow> host_spec \<Rightarrow> host_health \<Rightarrow> job \<Rightarrow> int \<Rightarrow> moment \<Rightarrow> string" where
  "launch_command b h v j device now =
     lab_launch (unit_for (j_id j)) (job_dir (expand (lc_job_root (lb_config b)) (hh_home v)) (j_id j))
       (expand (lc_working_dir (lb_config b)) (hh_home v)) (command_for b j (hh_home v)) (launch_env b j device)
       (lc_default_memory_max_mb (lb_config b)) (lc_default_cpu_quota_percent (lb_config b))
       (resolved_run_as (lb_config b) h) (meta_lines (j_id j) (j_user j) (to_iso now) device) (lc_use_sudo (lb_config b))"

definition lab_launch_job :: "'t lab \<Rightarrow> job \<Rightarrow> ('t local_state, allocation) ext_op" where
  "lab_launch_job b j =
     x_then (pick_host b j) (\<lambda>v.
       case find_host b (hh_hostname v) of
         None \<Rightarrow> x_raise AssertionError
       | Some h \<Rightarrow>
           x_then (pick_device b v) (\<lambda>device.
           x_then (ensure_mps b h v) (\<lambda>_.
           x_then x_now (\<lambda>now.
           x_then (lab_run b h (launch_command b h v j device now) (lc_command_timeout_seconds (lb_config b))) (\<lambda>r.
             if \<not> cm_ok r
             then x_raise (BackendError (h_hostname h @ '': could not start the job: '' @
                    (if cm_detail r = [] then ''exit '' @ show_int (cm_exit_status r) else last (cm_detail r))))
             else x_ret \<lparr>al_handle = lab_handle (h_hostname h) (j_id j), al_gpu_type = lc_gpu_type (lb_config b),
                         al_tags = tags_for j (to_iso now)\<rparr>)))))"

definition lab_start :: "string \<Rightarrow> job \<Rightarrow> ('t local_state, unit) ext_op" where
  "lab_start handle j = x_ret ()"

definition lab_validate_launch :: "'t lab \<Rightarrow> job \<Rightarrow> ('t local_state, string) ext_op" where
  "lab_validate_launch b j =
     x_then (pick_host b j) (\<lambda>v.
       x_ret (''would run on '' @ hh_hostname v @ '' under MPS with '' @
         show_int (lc_default_gpu_memory_mb (lb_config b)) @ ''MB of GPU memory, '' @
         show_int (lc_default_memory_max_mb (lb_config b)) @ ''MB of host RAM and '' @
         show_int (lc_default_cpu_quota_percent (lb_config b)) @ ''% CPU''))"

subsection \<open>Watching a job\<close>

definition status_command :: "'t lab \<Rightarrow> string \<Rightarrow> string \<Rightarrow> 't local_state \<Rightarrow> string" where
  "status_command b hostname jid s =
     unit_status_command (unit_for jid) (job_dir (root_for b hostname s) jid) (lc_use_sudo (lb_config b))"

definition observed :: "backend_status \<Rightarrow> int option \<Rightarrow> string \<Rightarrow> observation" where
  "observed st exit detail = \<lparr>os_status = st, os_exit_code = exit, os_detail = Some detail\<rparr>"

text \<open>What the fields of the unit mean.\<close>

definition judge_unit :: "'t lab \<Rightarrow> unit_status \<Rightarrow> observation" where
  "judge_unit b u =
     (case us_exit_code u of
        Some k \<Rightarrow>
          if k = 0 then observed BS_COMPLETED (Some 0) ''exited cleanly''
          else observed BS_FAILED (Some k) (''exited with status '' @ show_int k)
      | None \<Rightarrow>
          if us_active_state u \<in> {''activating'', ''active'', ''reloading''}
          then observed BS_RUNNING None (if us_sub_state u = [] then ''running'' else us_sub_state u)
          else if us_active_state u \<in> {[], ''inactive'', ''failed'', ''deactivating''}
          then (if was_oom_killed u
                then observed BS_FAILED None
                       (''killed for exceeding its '' @ show_int (lc_default_memory_max_mb (lb_config b)) @ ''MB host memory limit'')
                else observed BS_FAILED None
                       (''the unit is '' @ (if us_active_state u = [] then ''gone'' else us_active_state u) @ '' ('' @
                        (if us_result u = [] then ''no result'' else us_result u) @ '') and wrote no exit status, '' @
                        ''so it was killed rather than finishing''))
          else observed BS_RUNNING None (us_active_state u))"

definition unreachable_reason :: "host_health option \<Rightarrow> string option" where
  "unreachable_reason known =
     (case known of None \<Rightarrow> None | Some v \<Rightarrow> if hh_state v = UNREACHABLE then Some (hh_reason v) else None)"

definition lab_poll :: "'t lab \<Rightarrow> string \<Rightarrow> ('t local_state, observation) ext_op" where
  "lab_poll b handle =
     (case split_handle handle of (hostname, jid) \<Rightarrow>
        (case find_host b hostname of
           None \<Rightarrow> x_ret (observed BS_GONE None (''host '' @ hostname @ '' is not configured''))
         | Some h \<Rightarrow>
             x_then (x_get (\<lambda>s. unreachable_reason (known_health s hostname))) (\<lambda>known.
               case known of
                 Some reason \<Rightarrow> x_ret (observed BS_PENDING None (''host not answering: '' @ reason))
               | None \<Rightarrow>
                   x_then (x_get (status_command b hostname jid)) (\<lambda>command.
                   x_try (lab_run b h command (lc_poll_timeout_seconds (lb_config b)))
                     (\<lambda>exc. x_then x_now (\<lambda>now. x_then (x_set (mark_unreachable hostname exc now))
                        (\<lambda>_. x_ret (observed BS_PENDING None (''host not answering: '' @ exc)))))
                     (\<lambda>r. x_ret (judge_unit b (parse_unit_status (cm_stdout r))))))))"

definition lab_fetch_logs :: "'t lab \<Rightarrow> string \<Rightarrow> nat \<Rightarrow> ('t local_state, (string \<times> string) list) ext_op" where
  "lab_fetch_logs b handle after =
     (case split_handle handle of (hostname, jid) \<Rightarrow>
        (case find_host b hostname of
           None \<Rightarrow> x_ret []
         | Some h \<Rightarrow>
             x_then (x_get (\<lambda>s. tail_output (job_dir (root_for b hostname s) jid) after)) (\<lambda>command.
             x_try (lab_run b h command (lc_poll_timeout_seconds (lb_config b)))
               (\<lambda>_. x_ret []) (\<lambda>r. x_ret (map (\<lambda>l. (''stdout'', l)) (splitlines (cm_stdout r)))))))"

definition lab_sample_utilization :: "'t lab \<Rightarrow> string \<Rightarrow> ('t local_state, utilization_sample list) ext_op" where
  "lab_sample_utilization b handle =
     (case split_handle handle of (hostname, jid) \<Rightarrow>
        (case find_host b hostname of
           None \<Rightarrow> x_ret []
         | Some h \<Rightarrow>
             x_then (x_get (\<lambda>s. unreachable_reason (known_health s hostname))) (\<lambda>known.
               if known \<noteq> None then x_ret []
               else
                 x_try (lab_run b h (utilization_command (unit_for jid) (lc_use_sudo (lb_config b)))
                          (lc_poll_timeout_seconds (lb_config b)))
                   (\<lambda>_. x_ret [])
                   (\<lambda>r. if \<not> cm_ok r then x_ret []
                        else x_then (x_of (parse_utilization (cm_stdout r))) (\<lambda>parsed.
                          case parsed of
                            None \<Rightarrow> x_ret []
                          | Some u \<Rightarrow> x_then x_now (\<lambda>now. x_ret
                              [\<lparr>ut_at = total_seconds now, ut_gpu_percent = ju_gpu_percent u, ut_memory_mb = ju_memory_mb u\<rparr>]))))))"

definition lab_terminate :: "'t lab \<Rightarrow> string \<Rightarrow> string \<Rightarrow> ('t local_state, unit) ext_op" where
  "lab_terminate b handle reason =
     (case split_handle handle of (hostname, jid) \<Rightarrow>
        (case find_host b hostname of
           None \<Rightarrow> x_ret ()
         | Some h \<Rightarrow>
             x_try (lab_run b h (stop_unit (unit_for jid) (lc_use_sudo (lb_config b))) (lc_poll_timeout_seconds (lb_config b)))
               (\<lambda>_. x_ret ()) (\<lambda>_. x_ret ())))"

definition lab_validate_terminate :: "'t lab \<Rightarrow> string \<Rightarrow> string" where
  "lab_validate_terminate b handle =
     (case split_handle handle of (hostname, jid) \<Rightarrow>
        if find_host b hostname = None then hostname @ '' is not configured; nothing would be stopped''
        else ''would stop '' @ unit_for jid @ '' on '' @ hostname)"

subsection \<open>Reconciliation\<close>

definition live_resource :: "'t lab \<Rightarrow> string \<Rightarrow> (string \<times> string) list \<Rightarrow> resource" where
  "live_resource b hostname live =
     (let jid = field_of live ''job-id''
      in \<lparr>rs_handle = lab_handle hostname jid, rs_gpu_type = lc_gpu_type (lb_config b), rs_status = BS_RUNNING,
          rs_tags = (if jid = [] then []
                     else [(''broker-job-id'', jid), (''broker-user'', field_of live ''user''),
                           (''broker-launched-at'', field_of live ''launched-at'')])\<rparr>)"

definition lab_list_resources :: "'t lab \<Rightarrow> ('t local_state, resource list) ext_op" where
  "lab_list_resources b =
     x_then (lab_health b False) (\<lambda>vs.
     x_then (x_each (\<lambda>v. if hh_state v = UNREACHABLE then x_ret []
                       else x_then (live_on b (hh_hostname v)) (\<lambda>lives. x_ret (map (live_resource b (hh_hostname v)) lives))) vs)
       (\<lambda>found. x_ret (concat found)))"

definition lab_backend :: "'t lab \<Rightarrow> 't local_state backend" where
  "lab_backend b =
     \<lparr>bk_name = lb_name b, bk_currency = GPU_HOUR, bk_tier = Some (lb_tier b), bk_supports = lab_supports b,
      bk_free_slots = lab_free_slots b, bk_launch = lab_launch_job b, bk_start = lab_start, bk_poll = lab_poll b,
      bk_validate_launch = lab_validate_launch b, bk_fetch_logs = lab_fetch_logs b, bk_terminate = lab_terminate b,
      bk_list_resources = lab_list_resources b, bk_sample_utilization = lab_sample_utilization b\<rparr>"

end
