(* ===== verification/LabPool.thy ===== *)
theory LabPool
  imports Local
begin

text \<open>
  What the lab pool promises: a job is only placed on a host whose health was tested, that is not drained
  and has room; a drain holds until it is lifted; a host that does not answer ends no job; and the listing
  reads back what launching wrote.
\<close>

subsection \<open>What the operations leave alone\<close>

lemma on_net_Inr [x_simps]:
  "on_net m now s = (r, s') \<longleftrightarrow> (\<exists>t. m now (ls_net s) = (r, t) \<and> s' = s\<lparr>ls_net := t\<rparr>)"
  by (auto simp: on_net_def split: prod.splits)

text \<open>The drains are only changed by drain and undrain.\<close>

definition drains_kept :: "(string \<times> string) list \<Rightarrow> 't local_state \<Rightarrow> bool" where
  "drains_kept d s = (ls_manual_drain s = d)"

lemma keeps_drains_net [keeps_intros]: "keeps (drains_kept d) (on_net m)"
  by (simp add: keeps_def on_net_def drains_kept_def split: prod.splits)

lemma keeps_drains_run [keeps_intros]: "keeps (drains_kept d) (lab_run b h c t)"
  by (simp add: lab_run_def keeps_drains_net)

lemma keeps_drains_health [keeps_intros]: "keeps (drains_kept d) (lab_health b refresh)"
  unfolding lab_health_def health_of_def Let_def
  by (intro keeps_intros) (simp_all add: drains_kept_def put_health_def)

lemma keeps_drains_live [keeps_intros]: "keeps (drains_kept d) (live_on b hostname)"
  unfolding live_on_def by (intro keeps_intros)

lemma keeps_drains_free [keeps_intros]: "keeps (drains_kept d) (free_on b v)"
  unfolding free_on_def by (intro keeps_intros)

lemma keeps_drains_pick [keeps_intros]: "keeps (drains_kept d) (pick_host b j)"
  unfolding pick_host_def Let_def by (intro keeps_intros)

lemma keeps_drains_launch [keeps_intros]: "keeps (drains_kept d) (lab_launch_job b j)"
  unfolding lab_launch_job_def pick_device_def ensure_mps_def
  by (intro keeps_intros) (simp add: drains_kept_def)

lemma keeps_drains_slots [keeps_intros]: "keeps (drains_kept d) (lab_free_slots b g)"
  unfolding lab_free_slots_def healthy_hosts_def by (intro keeps_intros)

lemma keeps_drains_poll [keeps_intros]: "keeps (drains_kept d) (lab_poll b handle)"
  unfolding lab_poll_def
  by (intro keeps_intros) (simp_all add: drains_kept_def mark_unreachable_def put_health_def)

lemma keeps_drains_rest [keeps_intros]:
  "keeps (drains_kept d) (lab_start handle j)" "keeps (drains_kept d) (lab_validate_launch b j)"
  "keeps (drains_kept d) (lab_fetch_logs b handle after)" "keeps (drains_kept d) (lab_terminate b handle reason)"
  "keeps (drains_kept d) (lab_sample_utilization b handle)" "keeps (drains_kept d) (lab_list_resources b)"
  unfolding lab_start_def lab_validate_launch_def lab_fetch_logs_def lab_terminate_def lab_sample_utilization_def
    lab_list_resources_def
  by (intro keeps_intros)+

subsection \<open>Health\<close>

text \<open>What a recorded verdict of healthy stands for.\<close>

definition tested :: "host_health \<Rightarrow> bool" where
  "tested v \<longleftrightarrow> hh_gpus v \<noteq> [] \<and> list_all supports_mps (hh_gpus v) \<and> hh_limits_enforced v"

definition cache_sound :: "'t local_state \<Rightarrow> bool" where
  "cache_sound s \<longleftrightarrow> (\<forall>hostname v. known_health s hostname = Some v \<longrightarrow>
     hh_hostname v = hostname \<and> (hh_state v = HEALTHY \<longrightarrow> tested v))"

definition recent :: "'t lab \<Rightarrow> moment \<Rightarrow> host_health \<Rightarrow> bool" where
  "recent b now v \<longleftrightarrow>
     hh_checked_at v = now \<or> total_seconds (now - hh_checked_at v) < lc_health_interval_seconds (lb_config b)"

lemma cache_sound_put:
  "cache_sound s \<Longrightarrow> hh_hostname v = hostname \<Longrightarrow> (hh_state v = HEALTHY \<Longrightarrow> tested v) \<Longrightarrow> cache_sound (put_health hostname v s)"
  by (auto simp: cache_sound_def known_health_def put_health_def update_conv split: if_splits)

lemma cache_sound_frame [simp]: "cache_sound (s\<lparr>ls_net := t\<rparr>) = cache_sound s" "cache_sound (s\<lparr>ls_manual_drain := d\<rparr>) = cache_sound s"
  "cache_sound (s\<lparr>ls_mps_started := m\<rparr>) = cache_sound s"
  by (simp_all add: cache_sound_def known_health_def)

lemma checked_is_tested:
  assumes "check_host run h cfg now t = (Inr v, t')" and "hh_state v = HEALTHY"
  shows "tested v"
  using healthy_verdict [OF assms] by (simp add: tested_def)

lemma health_of_sound:
  assumes "health_of b refresh h now s = (Inr v, s')" and "cache_sound s"
  shows "cache_sound s' \<and> hh_hostname v = h_hostname h \<and> recent b now v \<and>
    (accepts_jobs (hh_state v) \<longrightarrow> tested v \<and> map_of (ls_manual_drain s) (h_hostname h) = None)"
proof -
  obtain v0 where v0: "hh_hostname v0 = h_hostname h" "hh_state v0 = HEALTHY \<Longrightarrow> tested v0" "recent b now v0" "cache_sound s'"
    "v = with_manual_drain s v0"
  proof (cases "health_stale b refresh now (known_health s (h_hostname h))")
    case True
    then obtain w t where w: "check_host (lb_transport b) h (lb_config b) now (ls_net s) = (Inr w, t)"
      "v = with_manual_drain s w" "s' = put_health (h_hostname h) w (s\<lparr>ls_net := t\<rparr>)"
      using assms(1) by (auto simp: health_of_def x_simps with_manual_drain_def put_health_def)
    have f: "hh_hostname w = h_hostname h" "hh_checked_at w = now" using check_host_frame [OF w(1)] by simp_all
    have t: "hh_state w = HEALTHY \<Longrightarrow> tested w" by (rule checked_is_tested [OF w(1)])
    show ?thesis using that [of w] f t w(2,3) assms(2) by (simp add: recent_def cache_sound_put)
  next
    case False
    then obtain w where "known_health s (h_hostname h) = Some w" "v = with_manual_drain s w" "s' = s" "recent b now w"
      using assms(1) by (auto simp: health_of_def x_simps health_stale_def recent_def split: option.splits)
    with assms(2) show ?thesis using that [of w] by (auto simp: cache_sound_def)
  qed
  then show ?thesis by (auto simp: with_manual_drain_def accepts_jobs_def tested_def recent_def split: option.splits)
qed

lemma lab_health_sound:
  assumes "lab_health b refresh now s = (Inr vs, s')" and "cache_sound s"
  shows "cache_sound s' \<and> ls_manual_drain s' = ls_manual_drain s \<and>
    list_all (\<lambda>v. (\<exists>h \<in> set (lc_hosts (lb_config b)). hh_hostname v = h_hostname h) \<and> recent b now v \<and>
      (accepts_jobs (hh_state v) \<longrightarrow> tested v \<and> map_of (ls_manual_drain s) (hh_hostname v) = None)) vs"
proof -
  have k: "keeps (drains_kept d) (health_of b refresh h)" for d h
    unfolding health_of_def Let_def by (intro keeps_intros) (simp_all add: drains_kept_def put_health_def)
  have "(cache_sound s' \<and> ls_manual_drain s' = ls_manual_drain s) \<and>
    list_all (\<lambda>v. (\<exists>h \<in> set (lc_hosts (lb_config b)). hh_hostname v = h_hostname h) \<and> recent b now v \<and>
      (accepts_jobs (hh_state v) \<longrightarrow> tested v \<and> map_of (ls_manual_drain s) (hh_hostname v) = None)) vs"
  proof (rule x_each_all [OF _ _ assms(1) [unfolded lab_health_def]])
    fix h v e e'
    assume h: "h \<in> set (lc_hosts (lb_config b))" and i: "cache_sound e \<and> ls_manual_drain e = ls_manual_drain s"
      and r: "health_of b refresh h now e = (Inr v, e')"
    have "ls_manual_drain e' = ls_manual_drain e" using ext_keepsD [OF k _ r, of "ls_manual_drain e"] by (simp add: drains_kept_def)
    with health_of_sound [OF r] h i
    show "(cache_sound e' \<and> ls_manual_drain e' = ls_manual_drain s) \<and>
      ((\<exists>h \<in> set (lc_hosts (lb_config b)). hh_hostname v = h_hostname h) \<and> recent b now v \<and>
       (accepts_jobs (hh_state v) \<longrightarrow> tested v \<and> map_of (ls_manual_drain s) (hh_hostname v) = None))" by force
  qed (use assms(2) in simp)
  then show ?thesis by simp
qed

subsection \<open>Placement\<close>

lemma emptiest_max:
  assumes "ps \<noteq> []"
  shows "\<exists>free. (free, emptiest ps) \<in> set ps \<and> (\<forall>(n, w) \<in> set ps. n \<le> free)"
proof -
  let ?k = "\<lambda>(free, v). (- free, hh_hostname v)"
  let ?qs = "sort_key ?k ps"
  have ne: "?qs \<noteq> []" using assms by (metis length_0_conv length_sort)
  obtain free v rest where q: "?qs = (free, v) # rest" using ne by (metis neq_Nil_conv surj_pair)
  have s: "sorted (map ?k ?qs)" by (rule sorted_sort_key)
  have set: "set ps = insert (free, v) (set rest)" using q by (metis list.simps(15) set_sort)
  have "n \<le> free" if "(n, w) \<in> set ps" for n w
  proof -
    have "?k (free, v) \<le> ?k p" if "p \<in> set rest" for p using s that unfolding q by (auto simp: image_iff)
    then have "n \<le> free" if "(n, w) \<in> set rest" using that by fastforce
    then show ?thesis using that set by (cases "(n, w) = (free, v)") auto
  qed
  then show ?thesis using set by (auto simp: emptiest_def q)
qed

lemma keeps_sound_net: "keeps cache_sound (on_net m)"
  by (simp add: keeps_def on_net_def split: prod.splits)

lemma keeps_sound_live: "keeps cache_sound (live_on b hostname)"
  unfolding live_on_def lab_run_def by (intro keeps_intros keeps_sound_net)

lemma free_on_Inr:
  assumes "free_on b v now s = (Inr n, s')"
  shows "\<exists>lives. live_on b (hh_hostname v) now s = (Inr lives, s') \<and>
    n = max 0 (gpu_count v * lc_max_jobs_per_gpu (lb_config b) - int (length lives))"
  using assms by (auto simp: free_on_def x_simps)

text \<open>How the host was chosen: every host was looked at, the healthy ones were measured, and none had more room.\<close>

definition measured :: "'t lab \<Rightarrow> moment \<Rightarrow> (int \<times> host_health) \<Rightarrow> bool" where
  "measured b now = (\<lambda>(n, v). \<exists>s s' lives. live_on b (hh_hostname v) now s = (Inr lives, s') \<and>
     n = max 0 (gpu_count v * lc_max_jobs_per_gpu (lb_config b) - int (length lives)))"

definition chosen :: "'t lab \<Rightarrow> job \<Rightarrow> moment \<Rightarrow> 't local_state \<Rightarrow> host_health \<Rightarrow> bool" where
  "chosen b j now s v \<longleftrightarrow>
     (\<exists>vs s1 pairs free. lab_health b False now s = (Inr vs, s1) \<and> map snd pairs = filter (\<lambda>v. accepts_jobs (hh_state v)) vs \<and>
        list_all (measured b now) pairs \<and> (free, v) \<in> set pairs \<and> 0 < free \<and> (\<forall>(n, w) \<in> set pairs. n \<le> free))"

lemma each_measured:
  assumes "x_each (\<lambda>v. x_then (free_on b v) (\<lambda>free. x_ret (free, v))) vs now s = (Inr pairs, s')"
  shows "map snd pairs = vs \<and> list_all (measured b now) pairs"
  using assms
proof (induction vs arbitrary: s pairs)
  case (Cons v vs)
  then obtain free s1 rest where r: "free_on b v now s = (Inr free, s1)" "pairs = (free, v) # rest"
    "x_each (\<lambda>v. x_then (free_on b v) (\<lambda>free. x_ret (free, v))) vs now s1 = (Inr rest, s')"
    by (auto simp: x_simps)
  with Cons.IH [OF r(3)] free_on_Inr [OF r(1)] show ?case by (auto simp: measured_def)
qed (simp add: x_simps)

lemma pick_host_sound:
  assumes "pick_host b j now s = (Inr v, s')" and "cache_sound s"
  shows "chosen b j now s v \<and> j_gpu_type j = lc_gpu_type (lb_config b) \<and> tested v \<and> recent b now v \<and> accepts_jobs (hh_state v) \<and>
    map_of (ls_manual_drain s) (hh_hostname v) = None \<and> (\<exists>h \<in> set (lc_hosts (lb_config b)). hh_hostname v = h_hostname h)"
proof -
  obtain vs s1 pairs where r: "lab_supports b (j_gpu_type j)" "lab_health b False now s = (Inr vs, s1)"
    "x_each (\<lambda>v. x_then (free_on b v) (\<lambda>free. x_ret (free, v))) (filter (\<lambda>v. accepts_jobs (hh_state v)) vs) now s1 = (Inr pairs, s')"
    "filter (\<lambda>(free, v). 0 < free) pairs \<noteq> []" "v = emptiest (filter (\<lambda>(free, v). 0 < free) pairs)"
    using assms(1) by (auto simp: pick_host_def Let_def x_simps split: if_splits)
  note m = each_measured [OF r(3)]
  obtain free where f: "(free, v) \<in> set pairs" "0 < free" "\<forall>(n, w) \<in> set pairs. 0 < n \<longrightarrow> n \<le> free"
    using emptiest_max [OF r(4)] unfolding r(5) [symmetric] by fastforce
  then have "chosen b j now s v" unfolding chosen_def using r(2) m by (intro exI [of _ vs] exI [of _ s1] exI [of _ pairs] exI [of _ free]) fastforce
  moreover have "v \<in> snd ` set pairs" using f(1) by force
  then have "v \<in> set (filter (\<lambda>v. accepts_jobs (hh_state v)) vs)" using m by (metis set_map)
  then have "v \<in> set vs \<and> accepts_jobs (hh_state v)" by simp
  moreover from this lab_health_sound [OF r(2) assms(2)] have "(\<exists>h \<in> set (lc_hosts (lb_config b)). hh_hostname v = h_hostname h) \<and>
    recent b now v \<and> tested v \<and> map_of (ls_manual_drain s) (hh_hostname v) = None" by (auto simp: list_all_iff)
  ultimately show ?thesis using r(1) by (simp add: lab_supports_def)
qed

lemma find_hostD: "find_host b hostname = Some h \<Longrightarrow> h_hostname h = hostname \<and> h \<in> set (lc_hosts (lb_config b))"
  by (auto simp: find_host_def find_Some_iff)

lemma launch_sound:
  assumes "lab_launch_job b j now s = (Inr al, s')" and "cache_sound s"
  shows "\<exists>v. al_handle al = lab_handle (hh_hostname v) (j_id j) \<and> al_gpu_type al = j_gpu_type j \<and>
    al_tags al = tags_for j (to_iso now) \<and> chosen b j now s v \<and> tested v \<and> recent b now v \<and>
    map_of (ls_manual_drain s) (hh_hostname v) = None \<and> (\<exists>h \<in> set (lc_hosts (lb_config b)). hh_hostname v = h_hostname h)"
proof -
  obtain v s1 h where r: "pick_host b j now s = (Inr v, s1)" "find_host b (hh_hostname v) = Some h"
    "al = \<lparr>al_handle = lab_handle (h_hostname h) (j_id j), al_gpu_type = lc_gpu_type (lb_config b), al_tags = tags_for j (to_iso now)\<rparr>"
    using assms(1) by (auto simp: lab_launch_job_def x_simps split: option.splits if_splits)
  with pick_host_sound [OF r(1) assms(2)] find_hostD [OF r(2)] show ?thesis by (intro exI [of _ v]) simp
qed

subsection \<open>A life of the pool\<close>

text \<open>Everything the broker can do to the pool, as one step each.\<close>

datatype lab_op =
    LHealth bool
  | LFree string
  | LLaunch job
  | LValidate job
  | LPoll string
  | LLogs string nat
  | LSample string
  | LTerminate string string
  | LList
  | LDrain string string
  | LUndrain string

definition lab_do :: "'t lab \<Rightarrow> lab_op \<Rightarrow> moment \<Rightarrow> 't local_state \<Rightarrow> 't local_state" where
  "lab_do b x now s =
     (case x of
        LHealth refresh \<Rightarrow> snd (lab_health b refresh now s)
      | LFree g \<Rightarrow> snd (lab_free_slots b g now s)
      | LLaunch j \<Rightarrow> snd (lab_launch_job b j now s)
      | LValidate j \<Rightarrow> snd (lab_validate_launch b j now s)
      | LPoll handle \<Rightarrow> snd (lab_poll b handle now s)
      | LLogs handle after \<Rightarrow> snd (lab_fetch_logs b handle after now s)
      | LSample handle \<Rightarrow> snd (lab_sample_utilization b handle now s)
      | LTerminate handle reason \<Rightarrow> snd (lab_terminate b handle reason now s)
      | LList \<Rightarrow> snd (lab_list_resources b now s)
      | LDrain hostname reason \<Rightarrow> snd (lab_drain b hostname reason now s)
      | LUndrain hostname \<Rightarrow> lab_undrain hostname s)"

fun lab_runs :: "'t lab \<Rightarrow> (moment \<times> lab_op) list \<Rightarrow> 't local_state \<Rightarrow> 't local_state" where
  "lab_runs b [] s = s"
| "lab_runs b ((now, x) # ops) s = lab_runs b ops (lab_do b x now s)"

definition fresh_lab :: "'t \<Rightarrow> 't local_state" where
  "fresh_lab net = \<lparr>ls_health = [], ls_manual_drain = [], ls_mps_started = [], ls_net = net\<rparr>"

text \<open>Every entry of the cache stays a verdict of the check, or a note that the host did not answer.\<close>

lemma keeps_sound_health: "keeps cache_sound (health_of b refresh h)"
  unfolding keeps_def
proof (intro allI impI)
  fix now and s :: "'a local_state" assume s: "cache_sound s"
  obtain r s' where r: "health_of b refresh h now s = (r, s')" by fastforce
  show "cache_sound (snd (health_of b refresh h now s))"
  proof (cases r)
    case (Inr v)
    then show ?thesis using health_of_sound [OF _ s] r by fastforce
  next
    case (Inl e)
    then have "\<exists>t. s' = s\<lparr>ls_net := t\<rparr>" using r by (auto simp: health_of_def x_simps split: if_splits)
    then show ?thesis using s by (auto simp: r)
  qed
qed

lemma keeps_sound_lab_health: "keeps cache_sound (lab_health b refresh)"
  unfolding lab_health_def by (intro keeps_intros keeps_sound_health)

lemma keeps_sound_free: "keeps cache_sound (free_on b v)"
  unfolding free_on_def by (intro keeps_intros keeps_sound_live)

lemma keeps_sound_pick: "keeps cache_sound (pick_host b j)"
  unfolding pick_host_def Let_def by (intro keeps_intros keeps_sound_lab_health keeps_sound_free)

lemma keeps_sound_launch: "keeps cache_sound (lab_launch_job b j)"
  unfolding lab_launch_job_def pick_device_def ensure_mps_def lab_run_def
  by (intro keeps_intros keeps_sound_pick keeps_sound_live keeps_sound_net) simp

lemma mark_unreachable_sound: "cache_sound s \<Longrightarrow> cache_sound (mark_unreachable hostname reason now s)"
  unfolding mark_unreachable_def by (rule cache_sound_put) simp_all

lemma keeps_sound_poll: "keeps cache_sound (lab_poll b handle)"
  unfolding lab_poll_def lab_run_def by (intro keeps_intros keeps_sound_net mark_unreachable_sound)

lemmas keeps_sound =
  keeps_sound_net keeps_sound_live keeps_sound_lab_health keeps_sound_free keeps_sound_pick keeps_sound_launch keeps_sound_poll

lemma keeps_sound_rest:
  "keeps cache_sound (lab_free_slots b g)" "keeps cache_sound (lab_validate_launch b j)"
  "keeps cache_sound (lab_fetch_logs b handle after)" "keeps cache_sound (lab_sample_utilization b handle)"
  "keeps cache_sound (lab_terminate b handle reason)" "keeps cache_sound (lab_list_resources b)" "keeps cache_sound (lab_drain b h r)"
  unfolding lab_free_slots_def healthy_hosts_def lab_validate_launch_def lab_fetch_logs_def lab_sample_utilization_def
    lab_terminate_def lab_list_resources_def lab_run_def lab_drain_def
  by (intro keeps_intros keeps_sound; simp)+

lemma undrain_sound: "cache_sound s \<Longrightarrow> cache_sound (lab_undrain hostname s)"
  by (auto simp: cache_sound_def known_health_def lab_undrain_def delete_conv split: if_splits)

lemma keeps_step: "keeps I m \<Longrightarrow> I s \<Longrightarrow> I (snd (m now s))"
  by (simp add: keeps_def)

lemma lab_do_sound: "cache_sound s \<Longrightarrow> cache_sound (lab_do b x now s)"
  by (cases x) (simp_all add: lab_do_def keeps_step [OF keeps_sound(3)] keeps_step [OF keeps_sound(6)]
      keeps_step [OF keeps_sound(7)] keeps_sound_rest [THEN keeps_step] undrain_sound)

lemma lab_runs_sound: "cache_sound s \<Longrightarrow> cache_sound (lab_runs b ops s)"
  by (induction b ops s rule: lab_runs.induct) (simp_all add: lab_do_sound)

lemma fresh_sound: "cache_sound (fresh_lab net)"
  by (simp add: cache_sound_def known_health_def fresh_lab_def)

text \<open>A drain stays until it is lifted.\<close>

definition is_drained :: "string \<Rightarrow> 't local_state \<Rightarrow> bool" where
  "is_drained hostname s \<longleftrightarrow> map_of (ls_manual_drain s) hostname \<noteq> None"

lemma kept_drained: "keeps (drains_kept (ls_manual_drain s)) m \<Longrightarrow> ls_manual_drain (snd (m now s)) = ls_manual_drain s"
  by (simp add: keeps_def drains_kept_def)

lemma lab_do_drained: "is_drained hostname s \<Longrightarrow> x \<noteq> LUndrain hostname \<Longrightarrow> is_drained hostname (lab_do b x now s)"
proof (cases x)
  case (LDrain h r)
  then show ?thesis if "is_drained hostname s"
    using that by (simp add: lab_do_def lab_drain_def is_drained_def x_raise_def x_set_def update_conv)
next
  case (LUndrain h)
  then show ?thesis if "is_drained hostname s" "x \<noteq> LUndrain hostname"
    using that by (simp add: lab_do_def lab_undrain_def is_drained_def delete_conv)
qed (simp_all add: lab_do_def is_drained_def kept_drained keeps_intros)

lemma lab_runs_drained:
  "is_drained hostname s \<Longrightarrow> list_all (\<lambda>(now, x). x \<noteq> LUndrain hostname) ops \<Longrightarrow> is_drained hostname (lab_runs b ops s)"
  by (induction b ops s rule: lab_runs.induct) (simp_all add: lab_do_drained)

subsection \<open>The promises\<close>

text \<open>A small pool to show that the hypotheses can hold: two machines that answer every question well, told apart
  by the first letter of the command, while the network is up.\<close>

definition demo_text :: string where
  "demo_text = ''ok'' @ NL @ ''/home/b'' @ NL @ ''exitfile=0''"

definition demo_run :: "bool transport" where
  "demo_run h c timeout now up =
     (if \<not> up then (Inl (BackendError ''no route''), up)
      else (Inr \<lparr>cm_exit_status = 0,
                 cm_stdout =
                   (if hd c = CHR ''p'' then demo_text
                    else if hd c = CHR ''n'' then ''0, A6000, 49140, 3, 0, Default''
                    else if hd c = CHR ''s'' then ''67108864'' else []),
                 cm_stderr = []\<rparr>, up))"

definition demo_pool :: "bool lab" where
  "demo_pool =
     \<lparr>lb_name = ''local'', lb_tier = ''local'',
      lb_config = default_local_config\<lparr>lc_hosts := [host_named ''titan'', host_named ''atlas'']\<rparr>,
      lb_transport = demo_run, lb_environments = None, lb_volumes = default_volumes, lb_environment_root = ''~/envs'',
      lb_sha256 = (\<lambda>x. x)\<rparr>"

definition demo_card :: gpu_info where
  "demo_card = \<lparr>gi_index = 0, gi_name = ''A6000'', gi_memory_total_mb = 49140, gi_memory_used_mb = 3,
     gi_utilization_percent = 0, gi_compute_mode = ''Default''\<rparr>"

lemma demo_card_read: "parse_gpus ''0, A6000, 49140, 3, 0, Default'' = Inr [demo_card]"
proof -
  have n: "unsigned_float ''49140'' = Some 49140" "unsigned_float ''3'' = Some 3" "unsigned_float ''0'' = Some 0"
    by (simp_all add: unsigned_float_def digit_of_def exponent_of_def scale10_def)
  have l: "splitlines (strip ''0, A6000, 49140, 3, 0, Default'') = [''0, A6000, 49140, 3, 0, Default'']"
    "strip ''0'' = ''0''" "strip '' A6000'' = ''A6000''" "strip '' 49140'' = ''49140''" "strip '' 3'' = ''3''" "strip '' 0'' = ''0''"
    "strip '' Default'' = ''Default''"
    "int_of_text ''0'' = Some 0" by code_simp+
  have f: "text_lower ''49140'' \<noteq> ''inf'' \<and> text_lower ''49140'' \<noteq> ''infinity'' \<and> text_lower ''49140'' \<noteq> ''nan'' \<and>
      text_lower ''3'' \<noteq> ''inf'' \<and> text_lower ''3'' \<noteq> ''infinity'' \<and> text_lower ''3'' \<noteq> ''nan'' \<and>
      text_lower ''0'' \<noteq> ''inf'' \<and> text_lower ''0'' \<noteq> ''infinity'' \<and> text_lower ''0'' \<noteq> ''nan''"
    "signed (strip ''49140'') = (False, ''49140'')" "signed (strip ''3'') = (False, ''3'')" "signed (strip ''0'') = (False, ''0'')"
    by code_simp+
  have "int_float ''49140'' = Inr (Some 49140)" "int_float ''3'' = Inr (Some 3)" "int_float ''0'' = Inr (Some 0)"
    using f by (simp_all add: int_float_def float_of_text_def n py_int_def)
  then show ?thesis by (simp add: parse_gpus_def l parse_gpu_def demo_card_def)
qed

lemma demo_letters:
  "hd HELLO = CHR ''p''" "hd GPU_QUERY = CHR ''n''" "hd (limit_probe True) = CHR ''s''" "hd (mps_running p) = CHR ''e''"
  "hd (list_live_jobs base u) = CHR ''f''" "hd (lab_launch un d w c env m q r meta True) = CHR ''s''"
  "hd (unit_status_command un d u) = CHR ''p''"
  by (simp_all add: HELLO_def GPU_QUERY_def limit_probe_def systemd_def mps_running_def list_live_jobs_def lab_launch_def
      unit_status_command_def)

lemma demo_check:
  "lc_use_sudo cfg \<Longrightarrow> check_host demo_run h cfg now True = (Inr (healthy h now ''/home/b'' [demo_card] True), True)"
proof -
  have "parse_hello demo_text = Some ''/home/b''" by code_simp
  moreover have "parse_limit_probe ''67108864'' = Some PROBE_MEMORY_BYTES" by code_simp
  moreover have "supports_mps demo_card" by (simp add: supports_mps_def demo_card_def)
  ultimately show "check_host demo_run h cfg now True = (Inr (healthy h now ''/home/b'' [demo_card] True), True)" if "lc_use_sudo cfg"
    using that by (simp add: check_host_def ask_gpus_def ask_limits_def ask_mps_def x_then_def x_try_def x_now_def x_of_def x_ret_def
        demo_run_def demo_letters cm_ok_def demo_card_read)
qed

definition demo_seen :: "moment \<Rightarrow> (string \<times> string) list \<Rightarrow> bool local_state" where
  "demo_seen now drains =
     \<lparr>ls_health = [(''titan'', healthy (host_named ''titan'') now ''/home/b'' [demo_card] True),
                   (''atlas'', healthy (host_named ''atlas'') now ''/home/b'' [demo_card] True)],
      ls_manual_drain = drains, ls_mps_started = [], ls_net = True\<rparr>"

lemma demo_health:
  "lab_health demo_pool False now \<lparr>ls_health = [], ls_manual_drain = drains, ls_mps_started = [], ls_net = True\<rparr> =
     (Inr (map (\<lambda>h. with_manual_drain (demo_seen now drains) (healthy (host_named h) now ''/home/b'' [demo_card] True)) [''titan'', ''atlas'']),
      demo_seen now drains)"
  by (simp add: lab_health_def demo_pool_def default_local_config_def health_of_def x_then_def x_now_def x_get_def x_set_def x_ret_def
      health_stale_def known_health_def on_net_def demo_check host_named_def put_health_def demo_seen_def with_manual_drain_def)

lemma demo_hosts: "find_host demo_pool ''titan'' = Some (host_named ''titan'')" "find_host demo_pool ''atlas'' = Some (host_named ''atlas'')"
  by (simp_all add: find_host_def demo_pool_def host_named_def)

lemma demo_live: "find_host demo_pool h \<noteq> None \<Longrightarrow> live_on demo_pool h now (demo_seen t drains) = (Inr [], demo_seen t drains)"
  by (auto simp: live_on_def x_then_def x_get_def x_try_def x_ret_def lab_run_def on_net_def demo_seen_def demo_run_def demo_letters
      demo_pool_def parse_live_jobs_def splitlines_def)

lemma healthy_sel: "hh_hostname (healthy h now home gpus m) = h_hostname h" "hh_state (healthy h now home gpus m) = HEALTHY"
  "hh_gpus (healthy h now home gpus m) = gpus" "hh_mps_ready (healthy h now home gpus m) = m" "h_hostname (host_named x) = x"
  "hh_home (healthy h now home gpus m) = home"
  by (simp_all add: healthy_def host_named_def)

lemma demo_measure:
  "find_host demo_pool h \<noteq> None \<Longrightarrow> free_on demo_pool (healthy (host_named h) now ''/home/b'' [demo_card] True) t (demo_seen now drains) =
     (Inr 2, demo_seen now drains)"
proof -
  have "lc_max_jobs_per_gpu (lb_config demo_pool) = 2" by (simp add: demo_pool_def default_local_config_def)
  then show "free_on demo_pool (healthy (host_named h) now ''/home/b'' [demo_card] True) t (demo_seen now drains) =
     (Inr 2, demo_seen now drains)" if "find_host demo_pool h \<noteq> None"
    using that by (simp add: free_on_def x_then_def demo_live healthy_sel x_ret_def gpu_count_def)
qed
definition demo_job :: job where
  "demo_job = \<lparr>j_id = ''ab12'', j_user = ''ada'', j_command = ''python train.py'', j_gpu_type = ''a6000'',
     j_requested_hours = 1, j_currency = GPU_HOUR, j_reserved = 1, j_state = QUEUED, j_submitted_at = 0, j_updated_at = 0,
     j_backend = None, j_handle = None, j_started_at = None, j_finished_at = None, j_exit_code = None,
     j_refusal_reason = None, j_logs_fetched = 0, j_attempts = 0, j_preemptions = 0, j_pinned_tier = None,
     j_checkpoint_step = None, j_checkpoint_key = None, j_checkpoint_at = None, j_environment = None,
     j_cancel_requested = None, j_origin = ''real''\<rparr>"

lemma demo_pick:
  "pick_host demo_pool demo_job 0 \<lparr>ls_health = [], ls_manual_drain = [(''atlas'', ''fan'')], ls_mps_started = [], ls_net = True\<rparr> =
     (Inr (healthy (host_named ''titan'') 0 ''/home/b'' [demo_card] True), demo_seen 0 [(''atlas'', ''fan'')])"
proof -
  let ?v = "\<lambda>h. healthy (host_named h) 0 ''/home/b'' [demo_card] True" and ?s = "demo_seen 0 [(''atlas'', ''fan'')]"
  have "lab_supports demo_pool (j_gpu_type demo_job)" by (simp add: lab_supports_def demo_pool_def default_local_config_def demo_job_def)
  moreover have "with_manual_drain ?s (?v ''titan'') = ?v ''titan''" "hh_state (with_manual_drain ?s (?v ''atlas'')) = DRAINING"
    by (simp_all add: with_manual_drain_def demo_seen_def healthy_sel)
  ultimately show ?thesis
    by (simp add: pick_host_def x_then_def demo_health x_ret_def accepts_jobs_def healthy_sel demo_measure demo_hosts emptiest_def)
qed

lemma demo_lab_launch:
  "lab_launch_job demo_pool demo_job 0 \<lparr>ls_health = [], ls_manual_drain = [(''atlas'', ''fan'')], ls_mps_started = [], ls_net = True\<rparr> =
     (Inr \<lparr>al_handle = ''titan/ab12'', al_gpu_type = ''a6000'', al_tags = tags_for demo_job (to_iso 0)\<rparr>, demo_seen 0 [(''atlas'', ''fan'')])"
proof -
  let ?s = "demo_seen 0 [(''atlas'', ''fan'')]"
  have run: "lab_run demo_pool h c t 0 ?s = (fst (demo_run h c t 0 True), ?s)" for h c t
    by (simp add: lab_run_def demo_pool_def on_net_def demo_run_def demo_seen_def)
  have "cm_ok r" if "fst (demo_run h c t 0 True) = Inr r" for h c t r using that by (auto simp: demo_run_def cm_ok_def)
  moreover have "\<exists>r. fst (demo_run h c t 0 True) = Inr r" for h c t by (simp add: demo_run_def)
  ultimately obtain res where res: "\<And>h c t. fst (demo_run h c t 0 True) = Inr (res h c t)" "\<And>h c t. cm_ok (res h c t)" by metis
  show ?thesis
    by (simp add: lab_launch_job_def x_then_def demo_pick demo_hosts healthy_sel pick_device_def demo_live ensure_mps_def x_get_def x_ret_def
        x_now_def run res lab_handle_def) (simp add: demo_pool_def default_local_config_def demo_job_def)
qed



lemma demo_drained_state:
  "lab_runs demo_pool [(0, LDrain ''atlas'' ''fan'')] (fresh_lab True) =
     \<lparr>ls_health = [], ls_manual_drain = [(''atlas'', ''fan'')], ls_mps_started = [], ls_net = True\<rparr>"
  by (simp add: lab_do_def lab_drain_def demo_hosts x_set_def fresh_lab_def)


text \<open>
  A drained machine gets no new jobs. Once an officer has drained a host, no launch places a job on it,
  however the pool is used afterwards, health checks included, until that host is undrained.
\<close>

theorem drained_host_gets_no_jobs:
  assumes "lab_drain b hostname reason now0 (lab_runs b before (fresh_lab net)) = (Inr (), s)"
    and "list_all (\<lambda>(now, x). x \<noteq> LUndrain hostname) ops"
    and "lab_launch_job b j now (lab_runs b ops s) = (Inr al, s')"
  shows "al_handle al \<noteq> lab_handle hostname (j_id j)"
proof -
  have "cache_sound s" "is_drained hostname s"
    using assms(1) lab_runs_sound [OF fresh_sound, of b before net]
    by (auto simp: lab_drain_def x_simps is_drained_def update_conv split: if_splits)
  with lab_runs_sound lab_runs_drained [OF _ assms(2)] have "cache_sound (lab_runs b ops s)" "is_drained hostname (lab_runs b ops s)"
    by blast+
  with launch_sound [OF assms(3)] show ?thesis by (auto simp: is_drained_def lab_handle_def)
qed

theorem drained_host_gets_no_jobs_witness:
  "''titan/ab12'' \<noteq> lab_handle ''atlas'' ''ab12''"
proof -
  have d: "lab_drain demo_pool ''atlas'' ''fan'' 0 (lab_runs demo_pool [] (fresh_lab True)) =
      (Inr (), lab_runs demo_pool [(0, LDrain ''atlas'' ''fan'')] (fresh_lab True))"
    by (simp add: lab_do_def lab_drain_def demo_hosts x_set_def)
  have l: "lab_launch_job demo_pool demo_job 0 (lab_runs demo_pool [] (lab_runs demo_pool [(0, LDrain ''atlas'' ''fan'')] (fresh_lab True))) =
      (Inr \<lparr>al_handle = ''titan/ab12'', al_gpu_type = ''a6000'', al_tags = tags_for demo_job (to_iso 0)\<rparr>,
       demo_seen 0 [(''atlas'', ''fan'')])"
    unfolding demo_drained_state by (simp add: demo_lab_launch)
  show ?thesis using drained_host_gets_no_jobs [OF d _ l] by (simp add: demo_job_def)
qed

lemma judge_status:
  "os_status (judge_unit b u) \<in> {BS_COMPLETED, BS_FAILED, BS_RUNNING}"
  "os_status (judge_unit b u) = BS_COMPLETED \<Longrightarrow> us_exit_code u = Some 0"
  by (simp_all add: judge_unit_def observed_def split: option.splits if_splits)

text \<open>A poll of a configured host that is not noted as unreachable is one question.\<close>

lemma poll_question:
  assumes "split_handle handle = (hostname, jid)" and "find_host b hostname = Some h"
    and "unreachable_reason (known_health s hostname) = None"
  shows "lab_poll b handle now s =
      x_try (lab_run b h (status_command b hostname jid s) (lc_poll_timeout_seconds (lb_config b)))
        (\<lambda>exc. x_then x_now (\<lambda>now. x_then (x_set (mark_unreachable hostname exc now))
           (\<lambda>_. x_ret (observed BS_PENDING None (''host not answering: '' @ exc)))))
        (\<lambda>r. x_ret (judge_unit b (parse_unit_status (cm_stdout r)))) now s"
  using assms by (simp add: lab_poll_def x_then_def x_get_def)

lemma poll_asks:
  assumes "split_handle handle = (hostname, jid)" and "find_host b hostname = Some h"
    and "unreachable_reason (known_health s hostname) = None" and "lab_poll b handle now s = (Inr ob, s')"
  shows "os_status ob = BS_PENDING \<or>
    (\<exists>r t. lb_transport b h (status_command b hostname jid s) (lc_poll_timeout_seconds (lb_config b)) now (ls_net s) = (Inr r, t) \<and>
       ob = judge_unit b (parse_unit_status (cm_stdout r)))"
proof -
  let ?q = "lb_transport b h (status_command b hostname jid s) (lc_poll_timeout_seconds (lb_config b)) now (ls_net s)"
  obtain res t where q: "?q = (res, t)" by fastforce
  note p = poll_question [OF assms(1-3), of now]
  show ?thesis
  proof (cases res)
    case (Inl x)
    then show ?thesis
      using assms(4) unfolding p by (auto simp: x_try_def lab_run_def on_net_def q x_then_def x_now_def x_set_def x_ret_def observed_def split: if_splits)
  next
    case (Inr r)
    then show ?thesis using assms(4) q unfolding p by (auto simp: x_try_def lab_run_def on_net_def x_ret_def)
  qed
qed

text \<open>
  C12. A machine that does not answer ends nobody's job. A poll says that a job has completed or failed only
  when the host answered the question about its unit just now and the answer says so, completed only with
  the exit status 0 that the job's own wrapper wrote, and gone only for a host that is not configured. A
  host noted as unreachable is not asked at all: its jobs are pending until the next health check.
\<close>

theorem silence_ends_no_job:
  assumes "lab_poll b handle now s = (Inr ob, s')" and "split_handle handle = (hostname, jid)"
  shows "(os_status ob = BS_GONE \<longrightarrow> find_host b hostname = None) \<and>
    (os_status ob \<in> {BS_COMPLETED, BS_FAILED} \<longrightarrow>
       (\<exists>h r t. find_host b hostname = Some h \<and>
          lb_transport b h (status_command b hostname jid s) (lc_poll_timeout_seconds (lb_config b)) now (ls_net s) = (Inr r, t) \<and>
          ob = judge_unit b (parse_unit_status (cm_stdout r)) \<and>
          (os_status ob = BS_COMPLETED \<longrightarrow> us_exit_code (parse_unit_status (cm_stdout r)) = Some 0))) \<and>
    (unreachable_reason (known_health s hostname) \<noteq> None \<and> find_host b hostname \<noteq> None \<longrightarrow> os_status ob = BS_PENDING \<and> s' = s)"
proof (cases "find_host b hostname")
  case None
  then show ?thesis using assms by (auto simp: lab_poll_def x_ret_def observed_def)
next
  case (Some h)
  note host = this
  show ?thesis
  proof (cases "unreachable_reason (known_health s hostname)")
    case None
    from poll_asks [OF assms(2) host None assms(1)] show ?thesis
    proof (elim disjE exE conjE)
      fix r t
      assume "lb_transport b h (status_command b hostname jid s) (lc_poll_timeout_seconds (lb_config b)) now (ls_net s) = (Inr r, t)"
        and ob: "ob = judge_unit b (parse_unit_status (cm_stdout r))"
      moreover from ob judge_status [of b "parse_unit_status (cm_stdout r)"] have "os_status ob \<noteq> BS_GONE"
        "os_status ob = BS_COMPLETED \<longrightarrow> us_exit_code (parse_unit_status (cm_stdout r)) = Some 0" by auto
      ultimately show ?thesis using host None by blast
    qed (use host None in simp)
  next
    case (Some reason)
    then show ?thesis using assms host by (auto simp: lab_poll_def x_then_def x_get_def x_ret_def observed_def)
  qed
qed

theorem silence_ends_no_job_witness:
  "\<exists>h r t. find_host demo_pool ''titan'' = Some h \<and>
     demo_run h (status_command demo_pool ''titan'' ''ab12'' (fresh_lab True)) 15 0 True = (Inr r, t) \<and>
     us_exit_code (parse_unit_status (cm_stdout r)) = Some 0"
proof -
  have p: "parse_unit_status demo_text =
      \<lparr>us_exit_code = Some 0, us_active_state = [], us_sub_state = [], us_result = []\<rparr>" by code_simp
  have h: "split_handle ''titan/ab12'' = (''titan'', ''ab12'')" by (simp add: split_handle_def partition_at_def)
  have run: "lab_run demo_pool g c t 0 (fresh_lab True) = (fst (demo_run g c t 0 True), fresh_lab True)" for g c t
    by (simp add: lab_run_def demo_pool_def on_net_def demo_run_def fresh_lab_def)
  have "lab_poll demo_pool ''titan/ab12'' 0 (fresh_lab True) = (Inr (observed BS_COMPLETED (Some 0) ''exited cleanly''), fresh_lab True)"
    by (subst poll_question [OF h demo_hosts(1)])
      (simp_all add: unreachable_reason_def known_health_def x_try_def run demo_run_def status_command_def demo_letters p
        judge_unit_def x_ret_def, simp add: fresh_lab_def)
  from silence_ends_no_job [OF this h]
  have "\<exists>h r t. find_host demo_pool ''titan'' = Some h \<and>
      lb_transport demo_pool h (status_command demo_pool ''titan'' ''ab12'' (fresh_lab True)) (lc_poll_timeout_seconds (lb_config demo_pool)) 0
        (ls_net (fresh_lab True)) = (Inr r, t) \<and> us_exit_code (parse_unit_status (cm_stdout r)) = Some 0"
    by (auto simp: observed_def)
  moreover have "lb_transport demo_pool = demo_run" "lc_poll_timeout_seconds (lb_config demo_pool) = 15" "ls_net (fresh_lab True) = True"
    by (simp_all add: demo_pool_def default_local_config_def fresh_lab_def)
  ultimately show ?thesis by simp
qed

subsection \<open>What launching writes is what listing reads\<close>

text \<open>What the loop of \<^const>\<open>list_live_jobs\<close> prints: a heading for every live job and the lines of its metadata.\<close>

definition listing :: "(string \<times> string list) list \<Rightarrow> string" where
  "listing jobs = concat (map (\<lambda>l. l @ NL) (concat (map (\<lambda>(jid, meta). (''### '' @ jid) # meta) jobs)))"

text \<open>A text that survives the trip: one line, no blanks at its ends.\<close>

definition single_line :: "string \<Rightarrow> bool" where
  "single_line s \<longleftrightarrow> no_break s \<and> strip s = s"

lemma strip_id: "list_all (\<lambda>c. \<not> py_space c) s \<Longrightarrow> strip s = s"
proof -
  have d: "dropWhile py_space t = t" if "list_all (\<lambda>c. \<not> py_space c) t" for t using that by (cases t) simp_all
  show "strip s = s" if "list_all (\<lambda>c. \<not> py_space c) s" using that by (simp add: strip_def d)
qed

lemma safe_not_space: "safe_char c \<Longrightarrow> \<not> py_space c \<and> \<not> line_break c"
  by (auto simp: safe_char_def py_space_def line_break_def ascii_letter_def)

lemma safe_one_line: "list_all safe_char s \<Longrightarrow> single_line s"
  unfolding single_line_def no_break_def using strip_id safe_not_space by (metis list_all_iff)

lemma to_iso_safe: "list_all safe_char (to_iso t)"
proof -
  have pad: "list_all safe_char (pad_left n s)" if "list_all safe_char s" for n s
  proof -
    have "list_all safe_char (replicate m (CHR ''0''))" for m by (induction m) (simp_all add: safe_char_def)
    with that show ?thesis by (simp add: pad_left_def)
  qed
  have "list_all safe_char (show_int i)" for i by (rule show_int_safe)
  then show ?thesis unfolding to_iso_def show_date_def show_time_def two_digits_def
    by (simp add: pad Let_def split_def) (simp add: safe_char_def ascii_letter_def)
qed

lemma splitlines_lines: "list_all no_break ls \<Longrightarrow> splitlines (concat (map (\<lambda>l. l @ NL) ls)) = ls"
proof (induction ls)
  case (Cons l ls)
  then show ?case by (simp add: splitlines_def NL_def split_lines_newline)
qed (simp add: splitlines_def)

record live_job =
  lj_id :: string
  lj_user :: string
  lj_at :: moment
  lj_device :: int

definition live_fields :: "live_job \<Rightarrow> (string \<times> string) list" where
  "live_fields l = [(''job-id'', lj_id l), (''user'', lj_user l), (''launched-at'', to_iso (lj_at l)), (''gpu'', show_int (lj_device l))]"

text \<open>The metadata file is the one the launch command writes.\<close>

definition live_meta :: "live_job \<Rightarrow> string list" where
  "live_meta l = meta_lines (lj_id l) (lj_user l) (to_iso (lj_at l)) (lj_device l)"

lemma live_step_field:
  "single_line v \<Longrightarrow> single_line k \<Longrightarrow> CHR ''='' \<notin> set k \<Longrightarrow> k \<noteq> [] \<Longrightarrow> hd k \<noteq> CHR ''#'' \<Longrightarrow>
     live_step (d # ds) (k @ ''='' @ v) = AList.update k v d # ds"
proof -
  assume a: "single_line v" "single_line k" "CHR ''='' \<notin> set k" "k \<noteq> []" "hd k \<noteq> CHR ''#''"
  have "partition_at (CHR ''='') (k @ ''='' @ v) = (k, v)"
    using a(3) by (simp add: partition_at_def takeWhile_append dropWhile_append)
  moreover have "\<not> starts_with (k @ ''='' @ v) ''### ''" using a(4,5) by (cases k) (simp_all add: starts_with_def)
  ultimately show ?thesis using a(1,2) by (simp add: single_line_def)
qed

lemma live_step_heading: "single_line jid \<Longrightarrow> live_step ds (''### '' @ jid) = [(''job-id'', jid)] # ds"
  by (cases ds) (simp_all add: starts_with_def single_line_def)

lemma live_job_read:
  assumes "single_line (lj_id l)" and "single_line (lj_user l)"
  shows "foldl live_step ds ((''### '' @ lj_id l) # live_meta l) = live_fields l # ds"
proof -
  have k: "single_line ''job-id''" "single_line ''user''" "single_line ''launched-at''" "single_line ''gpu''"
    by (rule safe_one_line, simp add: safe_char_def ascii_letter_def)+
  have v: "single_line (to_iso (lj_at l))" "single_line (show_int (lj_device l))" by (rule safe_one_line, simp add: to_iso_safe)+
  note f = live_step_field [OF assms(1) k(1)] live_step_field [OF assms(2) k(2)] live_step_field [OF v(1) k(3)]
    live_step_field [OF v(2) k(4)]
  show ?thesis
    unfolding live_meta_def meta_lines_def foldl.simps live_step_heading [OF assms(1)]
    using f by (simp add: live_fields_def)
qed

lemma listing_read:
  assumes "list_all (\<lambda>l. single_line (lj_id l) \<and> single_line (lj_user l)) jobs"
  shows "parse_live_jobs (listing (map (\<lambda>l. (lj_id l, live_meta l)) jobs)) = map live_fields jobs"
proof -
  let ?ls = "\<lambda>jobs. concat (map (\<lambda>l. (''### '' @ lj_id l) # live_meta l) jobs)"
  have nb: "no_break (to_iso t)" "no_break (show_int d)" for t d
    using safe_one_line [OF to_iso_safe] safe_one_line [OF show_int_safe] by (simp_all add: single_line_def)
  have "list_all no_break (?ls jobs)"
    using assms nb by (auto simp: list_all_iff live_meta_def meta_lines_def single_line_def no_break_def line_break_def)
  moreover have "listing (map (\<lambda>l. (lj_id l, live_meta l)) jobs) = concat (map (\<lambda>l. l @ NL) (?ls jobs))"
    by (simp add: listing_def comp_def)
  ultimately have "splitlines (listing (map (\<lambda>l. (lj_id l, live_meta l)) jobs)) = ?ls jobs" by (simp add: splitlines_lines)
  moreover have "foldl live_step ds (?ls jobs) = rev (map live_fields jobs) @ ds" for ds
    using assms
  proof (induction jobs arbitrary: ds)
    case (Cons l jobs)
    then show ?case using live_job_read [of l ds] by simp
  qed simp
  ultimately show ?thesis by (simp add: parse_live_jobs_def)
qed

text \<open>
  What reconciliation reads on a lab host is what launching wrote there. When the host lists its live
  jobs from the metadata their launch commands left, the broker gets exactly one resource for each, with the
  handle and the tags of the allocation that launch returned, so that no running job looks lost and no
  finished one looks alive; for ids and user names that are one line without blanks around it.
\<close>

theorem launched_jobs_are_listed:
  assumes "list_all (\<lambda>(j, t, d). single_line (j_id j) \<and> j_id j \<noteq> [] \<and> single_line (j_user j)) started"
  shows "map (live_resource b hostname)
      (parse_live_jobs (listing (map (\<lambda>(j, t, d). (j_id j, meta_lines (j_id j) (j_user j) (to_iso t) d)) started))) =
    map (\<lambda>(j, t, d). \<lparr>rs_handle = lab_handle hostname (j_id j), rs_gpu_type = lc_gpu_type (lb_config b), rs_status = BS_RUNNING,
      rs_tags = tags_for j (to_iso t)\<rparr>) started"
proof -
  let ?l = "\<lambda>(j, t, d). \<lparr>lj_id = j_id j, lj_user = j_user j, lj_at = t, lj_device = d\<rparr>"
  have "list_all (\<lambda>l. single_line (lj_id l) \<and> single_line (lj_user l)) (map ?l started)"
    using assms by (auto simp: list_all_iff)
  from listing_read [OF this]
  have "parse_live_jobs (listing (map (\<lambda>(j, t, d). (j_id j, meta_lines (j_id j) (j_user j) (to_iso t) d)) started)) =
      map (live_fields \<circ> ?l) started" by (simp add: comp_def split_def live_meta_def)
  then show ?thesis
    using assms by (auto simp: list_all_iff live_resource_def live_fields_def field_of_def tags_for_def Let_def)
qed

theorem launched_jobs_are_listed_witness:
  "map (live_resource demo_pool ''titan'')
      (parse_live_jobs (listing [(''ab12'', meta_lines ''ab12'' ''ada'' (to_iso 0) 1)])) =
    [\<lparr>rs_handle = ''titan/ab12'', rs_gpu_type = ''a6000'', rs_status = BS_RUNNING, rs_tags = tags_for demo_job (to_iso 0)\<rparr>]"
proof -
  have "single_line ''ab12''" "single_line ''ada''" by (rule safe_one_line, simp add: safe_char_def ascii_letter_def)+
  then have "list_all (\<lambda>(j, t, d). single_line (j_id j) \<and> j_id j \<noteq> [] \<and> single_line (j_user j)) [(demo_job, 0::moment, 1::int)]"
    by (simp add: demo_job_def)
  from launched_jobs_are_listed [OF this, of demo_pool "''titan''"]
  show ?thesis by (simp add: demo_job_def lab_handle_def demo_pool_def default_local_config_def)
qed

text \<open>A listing that fails is read as an empty one: the host then counts as having all its room.\<close>

lemma failed_listing_looks_empty:
  assumes "find_host b (hh_hostname v) = Some h"
    and "lb_transport b h (list_live_jobs (root_for b (hh_hostname v) s) (lc_use_sudo (lb_config b)))
      (lc_command_timeout_seconds (lb_config b)) now (ls_net s) = (Inl (BackendError reason), t)"
  shows "fst (free_on b v now s) = Inr (max 0 (gpu_count v * lc_max_jobs_per_gpu (lb_config b)))"
  using assms
  by (simp add: free_on_def live_on_def x_then_def x_get_def x_try_def lab_run_def on_net_def is_backend_error_def x_ret_def)

end
