(* ===== verification/Prices.thy ===== *)
theory Prices
  imports Broker Transport
begin

text \<open>
  \<^verbatim>\<open>gpu_broker/pricing.py\<close>: the price book, what it takes from the AWS Price List API, and how the broker
  points every money decision at it (\<open>_apply_prices\<close> and \<open>refresh_prices\<close> of \<^verbatim>\<open>broker.py\<close>). The API client is an
  argument, and so is \<open>json.loads\<close>: a listing is a text that is read by it, or a document already.
\<close>

subsection \<open>The book\<close>

record price_book =
  pb_config :: broker_config
  pb_prices :: "(string \<times> price) list"

record refresh_report =
  rr_at :: moment
  rr_updated :: "price list"
  rr_failed :: "(string \<times> string) list"

definition refresh_ok :: "refresh_report \<Rightarrow> bool" where
  "refresh_ok r = (rr_updated r \<noteq> [] \<and> rr_failed r = [])"

definition instance_type_of :: "broker_config \<Rightarrow> string \<Rightarrow> string option" where
  "instance_type_of cfg name = map_of (c_instance_types cfg) name"

definition builtin_price :: "broker_config \<Rightarrow> moment \<Rightarrow> gpu_type \<Rightarrow> price" where
  "builtin_price cfg now g =
     \<lparr>p_gpu_type = g_name g, p_hourly = g_hourly_price g, p_currency = g_currency g, p_source = ''builtin'',
      p_priced_at = now, p_instance_type = (case instance_type_of cfg (g_name g) of Some t \<Rightarrow> t | None \<Rightarrow> []),
      p_region = c_region cfg\<rparr>"

definition load_builtin :: "broker_config \<Rightarrow> moment \<Rightarrow> (string \<times> price) list" where
  "load_builtin cfg now = foldl (\<lambda>ps g. AList.update (g_name g) (builtin_price cfg now g) ps) [] (c_gpu_types cfg)"

definition new_book :: "broker_config \<Rightarrow> moment \<Rightarrow> price_book" where
  "new_book cfg now = \<lparr>pb_config = cfg, pb_prices = load_builtin cfg now\<rparr>"

text \<open>The overlay of what was saved: a type that is no longer configured is not resurrected.\<close>

definition load_prices :: "(string \<times> price) list \<Rightarrow> price_book \<Rightarrow> price_book" where
  "load_prices stored bk =
     bk\<lparr>pb_prices := foldl (\<lambda>ps (name, p). if map_of ps name \<noteq> None then AList.update name p ps else ps) (pb_prices bk) stored\<rparr>"

definition book_price :: "price_book \<Rightarrow> string \<Rightarrow> (error, price) result" where
  "book_price bk name =
     (case map_of (pb_prices bk) name of Some p \<Rightarrow> Inr p | None \<Rightarrow> Inl (BrokerError (NoPrice name)))"

definition book_hourly :: "price_book \<Rightarrow> string \<Rightarrow> (error, decimal) result" where
  "book_hourly bk name = (case book_price bk name of Inl e \<Rightarrow> Inl e | Inr p \<Rightarrow> Inr (p_hourly p))"

definition stale_prices :: "price_book \<Rightarrow> pyfloat \<Rightarrow> moment \<Rightarrow> price list" where
  "stale_prices bk older_than_days now =
     filter (\<lambda>p. p_currency p = USD \<and> (p_source p = ''builtin'' \<or> older_than_days < age_days p now)) (map snd (pb_prices bk))"

subsection \<open>One listing\<close>

text \<open>The values of a JSON document.\<close>

datatype pyval = PNone | PBool bool | PNum real | PStr string | PList "pyval list" | PDict "(string \<times> pyval) list"

text \<open>\<open>x.get(key, default)\<close>: only a dict has it.\<close>

definition py_get :: "pyval \<Rightarrow> string \<Rightarrow> pyval \<Rightarrow> (error, pyval) result" where
  "py_get x key dflt =
     (case x of
        PDict kvs \<Rightarrow> Inr (case map_of kvs key of Some v \<Rightarrow> v | None \<Rightarrow> dflt)
      | _ \<Rightarrow> Inl (PyException ''AttributeError'' ''get''))"

definition py_values :: "pyval \<Rightarrow> (error, pyval list) result" where
  "py_values x = (case x of PDict kvs \<Rightarrow> Inr (map snd kvs) | _ \<Rightarrow> Inl (PyException ''AttributeError'' ''values''))"

definition py_bind :: "(error, 'a) result \<Rightarrow> ('a \<Rightarrow> (error, 'b) result) \<Rightarrow> (error, 'b) result" where
  "py_bind r k = (case r of Inl e \<Rightarrow> Inl e | Inr a \<Rightarrow> k a)"

fun py_collect :: "('a \<Rightarrow> (error, 'b list) result) \<Rightarrow> 'a list \<Rightarrow> (error, 'b list) result" where
  "py_collect f [] = Inr []"
| "py_collect f (x # xs) = py_bind (f x) (\<lambda>a. py_bind (py_collect f xs) (\<lambda>rest. Inr (a @ rest)))"

text \<open>\<open>money(raw)\<close> of a JSON value; \<^const>\<open>None\<close> when it raises. The infinite and not-a-number texts that
  \<open>Decimal\<close> also reads count as malformed here.\<close>

definition money_of :: "pyval \<Rightarrow> decimal option" where
  "money_of raw =
     (case raw of
        PNum x \<Rightarrow> Some x
      | PStr s \<Rightarrow> (case float_of_text s of Fin x \<Rightarrow> Some x | _ \<Rightarrow> None)
      | _ \<Rightarrow> None)"

definition dimension_price :: "pyval \<Rightarrow> (error, decimal list) result" where
  "dimension_price dimension =
     py_bind (py_get dimension ''unit'' (PStr [])) (\<lambda>u.
       case u of
         PStr unit \<Rightarrow>
           if text_lower unit \<notin> {''hrs'', ''hours'', ''hour''} then Inr []
           else py_bind (py_get dimension ''pricePerUnit'' (PDict [])) (\<lambda>per.
                py_bind (py_get per ''USD'' PNone) (\<lambda>raw.
                  if raw = PNone \<or> raw = PStr [] then Inr []
                  else (case money_of raw of None \<Rightarrow> Inr [] | Some v \<Rightarrow> Inr (if 0 < v then [v] else []))))
       | _ \<Rightarrow> Inl (PyException ''AttributeError'' ''lower''))"

definition lowest :: "decimal list \<Rightarrow> decimal option" where
  "lowest xs = (if xs = [] then None else Some (Min (set xs)))"

text \<open>\<open>_extract\<close>: the lowest positive hourly dollar rate of an entry, \<^const>\<open>None\<close> if it has none. The inner
  accesses are not guarded: a document of another shape raises.\<close>

definition extract_price :: "(string \<Rightarrow> pyval option) \<Rightarrow> pyval \<Rightarrow> (error, decimal option) result" where
  "extract_price loads entry =
     (case (case entry of PStr s \<Rightarrow> loads s | v \<Rightarrow> Some v) of
        Some (PDict kvs) \<Rightarrow>
          py_bind (py_get (PDict kvs) ''terms'' (PDict [])) (\<lambda>terms.
          py_bind (py_get terms ''OnDemand'' (PDict [])) (\<lambda>on_demand.
          py_bind (py_values on_demand) (\<lambda>ts.
          py_bind (py_collect (\<lambda>term.
              py_bind (py_get term ''priceDimensions'' (PDict [])) (\<lambda>ds.
              py_bind (py_values ds) (py_collect dimension_price))) ts) (\<lambda>found. Inr (lowest found)))))
      | _ \<Rightarrow> Inr None)"

text \<open>The filters of the query, and the answer: the value of \<open>PriceList\<close> (a list, empty when the key is missing),
  or the text of whatever the client raised.\<close>

type_synonym 'n pricing_client = "(string \<times> string) list \<Rightarrow> 'n \<Rightarrow> (string + pyval list) \<times> 'n"

definition price_filters :: "string \<Rightarrow> string \<Rightarrow> (string \<times> string) list" where
  "price_filters instance_type region =
     [(''instanceType'', instance_type), (''regionCode'', region), (''operatingSystem'', ''Linux''), (''tenancy'', ''Shared''),
      (''preInstalledSw'', ''NA''), (''capacitystatus'', ''Used'')]"

fun usable_prices :: "(string \<Rightarrow> pyval option) \<Rightarrow> pyval list \<Rightarrow> (error, decimal list) result" where
  "usable_prices loads [] = Inr []"
| "usable_prices loads (e # es) =
     py_bind (extract_price loads e) (\<lambda>p. py_bind (usable_prices loads es) (\<lambda>ps.
       Inr (case p of None \<Rightarrow> ps | Some x \<Rightarrow> x # ps)))"

definition fetch_on_demand ::
  "(string \<Rightarrow> pyval option) \<Rightarrow> 'n pricing_client \<Rightarrow> string \<Rightarrow> string \<Rightarrow> 'n \<Rightarrow> (error, decimal) result \<times> 'n"
where
  "fetch_on_demand loads client instance_type region n =
     (case client (price_filters instance_type region) n of
        (Inl exc, n') \<Rightarrow> (Inl (PricingError (''the pricing API did not answer: '' @ exc)), n')
      | (Inr listings, n') \<Rightarrow>
          (if listings = []
           then (Inl (PricingError (''AWS lists no on-demand price for '' @ instance_type @ '' in '' @ region @ ''. '' @
                   ''Either the type is unavailable there, or the name is wrong'')), n')
           else (case usable_prices loads listings of
                   Inl e \<Rightarrow> (Inl e, n')
                 | Inr prices \<Rightarrow>
                     (case lowest prices of
                        None \<Rightarrow> (Inl (PricingError (''the listing for '' @ instance_type @ '' had no usable price'')), n')
                      | Some p \<Rightarrow> (Inr p, n')))))"

subsection \<open>Refreshing\<close>

definition aws_price :: "broker_config \<Rightarrow> moment \<Rightarrow> gpu_type \<Rightarrow> string \<Rightarrow> decimal \<Rightarrow> price" where
  "aws_price cfg now g instance_type hourly =
     \<lparr>p_gpu_type = g_name g, p_hourly = hourly, p_currency = USD, p_source = ''aws'', p_priced_at = now,
      p_instance_type = instance_type, p_region = c_region cfg\<rparr>"

definition is_pricing_error :: "error \<Rightarrow> string option" where
  "is_pricing_error e = (case e of PricingError t \<Rightarrow> Some t | _ \<Rightarrow> None)"

text \<open>The loop over the configured types. Only a PricingError is the failure of one type; the state is the book,
  what was updated and what failed.\<close>

record refreshing =
  rf_book :: price_book
  rf_updated :: "price list"
  rf_failed :: "(string \<times> string) list"

fun refresh_loop ::
  "(string \<Rightarrow> pyval option) \<Rightarrow> 'n pricing_client \<Rightarrow> moment \<Rightarrow> gpu_type list \<Rightarrow> refreshing \<Rightarrow> 'n \<Rightarrow> (error, unit) result \<times> refreshing \<times> 'n"
where
  "refresh_loop loads client now [] r n = (Inr (), r, n)"
| "refresh_loop loads client now (g # gs) r n =
     (if g_currency g \<noteq> USD then refresh_loop loads client now gs r n
      else
        (let cfg = pb_config (rf_book r); it = (case instance_type_of cfg (g_name g) of Some t \<Rightarrow> t | None \<Rightarrow> [])
         in if it = []
            then refresh_loop loads client now gs
                   (r\<lparr>rf_failed := rf_failed r @ [(g_name g, ''no instance type mapped in aws.instance_types'')]\<rparr>) n
            else (case fetch_on_demand loads client it (c_region cfg) n of
                    (Inl e, n') \<Rightarrow>
                      (case is_pricing_error e of
                         Some t \<Rightarrow> refresh_loop loads client now gs (r\<lparr>rf_failed := rf_failed r @ [(g_name g, t)]\<rparr>) n'
                       | None \<Rightarrow> (Inl e, r, n'))
                  | (Inr hourly, n') \<Rightarrow>
                      (let p = aws_price cfg now g it hourly; bk = rf_book r
                       in refresh_loop loads client now gs
                            (r\<lparr>rf_book := bk\<lparr>pb_prices := AList.update (g_name g) p (pb_prices bk)\<rparr>,
                              rf_updated := rf_updated r @ [p]\<rparr>) n'))))"

definition refresh_book ::
  "(string \<Rightarrow> pyval option) \<Rightarrow> 'n pricing_client \<Rightarrow> moment \<Rightarrow> price_book \<Rightarrow> 'n \<Rightarrow> (error, refresh_report) result \<times> price_book \<times> 'n"
where
  "refresh_book loads client now bk n =
     (case refresh_loop loads client now (c_gpu_types (pb_config bk)) \<lparr>rf_book = bk, rf_updated = [], rf_failed = []\<rparr> n of
        (Inl e, r, n') \<Rightarrow> (Inl e, rf_book r, n')
      | (Inr _, r, n') \<Rightarrow> (Inr \<lparr>rr_at = now, rr_updated = rf_updated r, rr_failed = rf_failed r\<rparr>, rf_book r, n'))"

text \<open>\<open>_apply_prices\<close>: the configuration everything reads is rebuilt with the book's prices.\<close>

definition apply_prices :: "price_book \<Rightarrow> store \<Rightarrow> store" where
  "apply_prices bk st =
     st\<lparr>st_cfg := (st_cfg st)\<lparr>c_gpu_types :=
       map (\<lambda>g. case map_of (pb_prices bk) (g_name g) of Some p \<Rightarrow> g\<lparr>g_hourly_price := p_hourly p\<rparr> | None \<Rightarrow> g)
         (c_gpu_types (st_cfg st))\<rparr>\<rparr>"

definition refresh_prices ::
  "(string \<Rightarrow> pyval option) \<Rightarrow> 'n pricing_client \<Rightarrow> price_book \<Rightarrow> store \<Rightarrow> 'n \<Rightarrow>
     (error, refresh_report) result \<times> price_book \<times> store \<times> 'n"
where
  "refresh_prices loads client bk st n =
     (case refresh_book loads client (st_now st) bk n of
        (Inl e, bk', n') \<Rightarrow> (Inl e, bk', st, n')
      | (Inr r, bk', n') \<Rightarrow> (Inr r, bk', apply_prices bk' (save_prices st (rr_updated r)), n'))"

text \<open>\<open>Store.prices\<close>.\<close>

definition stored_prices :: "store \<Rightarrow> (string \<times> price) list" where
  "stored_prices st = map (\<lambda>p. (p_gpu_type p, p)) (st_prices st)"

text \<open>What opening a broker does: the configuration as it is in the file, the built-in prices, what was saved over them.\<close>

definition open_prices :: "broker_config \<Rightarrow> store \<Rightarrow> price_book \<times> store" where
  "open_prices cfg st =
     (let bk = load_prices (stored_prices st) (new_book cfg (st_now st)) in (bk, apply_prices bk (st\<lparr>st_cfg := cfg\<rparr>)))"

subsection \<open>What a refresh does\<close>

definition put_prices :: "(string \<times> price) list \<Rightarrow> price list \<Rightarrow> (string \<times> price) list" where
  "put_prices ps us = foldl (\<lambda>ps p. AList.update (p_gpu_type p) p ps) ps us"

lemma put_prices_simps [simp]: "put_prices ps [] = ps" "put_prices ps (u # us) = put_prices (AList.update (p_gpu_type u) u ps) us"
  by (simp_all add: put_prices_def)

lemma map_of_put:
  "map_of (put_prices ps us) name = (case find (\<lambda>p. p_gpu_type p = name) (rev us) of Some p \<Rightarrow> Some p | None \<Rightarrow> map_of ps name)"
  by (induction us rule: rev_induct) (simp_all add: put_prices_def update_conv)

lemma usable_positive: "usable_prices loads es = Inr ps \<Longrightarrow> p \<in> set ps \<Longrightarrow> 0 < p"
proof (induction es arbitrary: ps)
  case (Cons e es)
  have dim: "dimension_price d = Inr vs \<Longrightarrow> \<forall>v \<in> set vs. 0 < v" for d vs
    by (auto simp: dimension_price_def py_bind_def split: sum.splits pyval.splits if_splits option.splits)
  have coll: "py_collect f xs = Inr vs \<Longrightarrow> (\<And>x ws. f x = Inr ws \<Longrightarrow> \<forall>v \<in> set ws. 0 < v) \<Longrightarrow> \<forall>v \<in> set vs. 0 < v"
    for f :: "pyval \<Rightarrow> (error, decimal list) result" and xs vs
    by (induction xs arbitrary: vs) (auto simp: py_bind_def split: sum.splits)
  have ex: "extract_price loads e = Inr (Some v) \<Longrightarrow> 0 < v" for v
  proof -
    assume x: "extract_price loads e = Inr (Some v)"
    then obtain ts found where f: "py_collect (\<lambda>term.
              py_bind (py_get term ''priceDimensions'' (PDict [])) (\<lambda>ds.
              py_bind (py_values ds) (py_collect dimension_price))) ts = Inr found" "lowest found = Some v"
      by (auto simp: extract_price_def py_bind_def split: option.splits pyval.splits sum.splits)
    have "\<forall>v \<in> set found. 0 < v"
    proof (rule coll [OF f(1)])
      fix x ws
      assume "py_bind (py_get x ''priceDimensions'' (PDict [])) (\<lambda>ds. py_bind (py_values ds) (py_collect dimension_price)) = Inr ws"
      then obtain vs where "py_collect dimension_price vs = Inr ws" by (auto simp: py_bind_def split: sum.splits)
      from coll [OF this dim] show "\<forall>v \<in> set ws. 0 < v" .
    qed
    moreover have "v \<in> set found" using f(2) by (auto simp: lowest_def split: if_splits)
    ultimately show "0 < v" by blast
  qed
  show ?case using Cons ex by (auto simp: py_bind_def split: sum.splits option.splits)
qed simp

lemma fetched_positive: "fetch_on_demand loads client it region n = (Inr h, n') \<Longrightarrow> 0 < h"
  unfolding fetch_on_demand_def
  by (auto simp: lowest_def split: prod.splits sum.splits option.splits if_splits dest: usable_positive)

definition from_aws :: "broker_config \<Rightarrow> moment \<Rightarrow> gpu_type \<Rightarrow> price \<Rightarrow> bool" where
  "from_aws cfg now g p \<longleftrightarrow> (\<exists>it h. p = aws_price cfg now g it h \<and> instance_type_of cfg (g_name g) = Some it \<and> 0 < h)"

lemma refresh_loop_result:
  assumes "refresh_loop loads client now gs r n = (Inr (), r', n')"
  shows "\<exists>us fs. rf_updated r' = rf_updated r @ us \<and> rf_failed r' = rf_failed r @ fs \<and>
    rf_book r' = (rf_book r)\<lparr>pb_prices := put_prices (pb_prices (rf_book r)) us\<rparr> \<and>
    list_all (\<lambda>u. \<exists>g \<in> set gs. g_currency g = USD \<and> from_aws (pb_config (rf_book r)) now g u) us \<and>
    mset (map p_gpu_type us) + mset (map fst fs) = mset (map g_name (filter (\<lambda>g. g_currency g = USD) gs))"
  using assms
proof (induction gs arbitrary: r n)
  case Nil
  then show ?case by (intro exI [of _ "[]"]) simp
next
  case (Cons g gs)
  let ?cfg = "pb_config (rf_book r)"
  let ?it = "case instance_type_of ?cfg (g_name g) of Some t \<Rightarrow> t | None \<Rightarrow> []"
  have mono: "list_all (\<lambda>u. \<exists>h \<in> set (g # gs). P h u) us" if "list_all (\<lambda>u. \<exists>h \<in> set gs. P h u) us" for P us
    using that by (auto simp: list_all_iff)
  show ?case
  proof (cases "g_currency g = USD")
    case False
    then have "refresh_loop loads client now gs r n = (Inr (), r', n')" using Cons.prems by simp
    from Cons.IH [OF this] False show ?thesis by (fastforce simp: list_all_iff)
  next
    case True
    have skip: ?thesis if "refresh_loop loads client now gs (r\<lparr>rf_failed := rf_failed r @ [(g_name g, t)]\<rparr>) m = (Inr (), r', n')" for t m
    proof -
      from Cons.IH [OF that] obtain us fs where i: "rf_updated r' = rf_updated r @ us" "rf_failed r' = rf_failed r @ (g_name g, t) # fs"
        "rf_book r' = (rf_book r)\<lparr>pb_prices := put_prices (pb_prices (rf_book r)) us\<rparr>"
        "list_all (\<lambda>u. \<exists>g \<in> set gs. g_currency g = USD \<and> from_aws ?cfg now g u) us"
        "mset (map p_gpu_type us) + mset (map fst fs) = mset (map g_name (filter (\<lambda>g. g_currency g = USD) gs))" by auto
      with mono [OF i(4)] True show ?thesis by (intro exI [of _ us] exI [of _ "(g_name g, t) # fs"]) simp
    qed
    show ?thesis
    proof (cases "?it = []")
      case no_type: True
      then show ?thesis using skip Cons.prems True by (simp add: Let_def)
    next
      case it: False
      obtain res m where f: "fetch_on_demand loads client ?it (c_region ?cfg) n = (res, m)" by fastforce
      show ?thesis
      proof (cases res)
        case (Inl e)
        then show ?thesis using skip Cons.prems True it f by (auto simp: Let_def split: option.splits)
      next
        case (Inr h)
        let ?p = "aws_price ?cfg now g ?it h"
        have "refresh_loop loads client now gs
            (r\<lparr>rf_book := (rf_book r)\<lparr>pb_prices := AList.update (g_name g) ?p (pb_prices (rf_book r))\<rparr>,
               rf_updated := rf_updated r @ [?p]\<rparr>) m = (Inr (), r', n')"
          using Cons.prems True it f Inr by (simp add: Let_def)
        from Cons.IH [OF this] obtain us fs where i: "rf_updated r' = rf_updated r @ ?p # us" "rf_failed r' = rf_failed r @ fs"
          "rf_book r' = (rf_book r)\<lparr>pb_prices := put_prices (pb_prices (rf_book r)) (?p # us)\<rparr>"
          "list_all (\<lambda>u. \<exists>g \<in> set gs. g_currency g = USD \<and> from_aws ?cfg now g u) us"
          "mset (map p_gpu_type us) + mset (map fst fs) = mset (map g_name (filter (\<lambda>g. g_currency g = USD) gs))"
          by (auto simp: aws_price_def)
        have "from_aws ?cfg now g ?p"
          using it fetched_positive [of loads client ?it "c_region ?cfg" n h m] f Inr by (auto simp: from_aws_def split: option.splits)
        moreover have "p_gpu_type ?p = g_name g" by (simp add: aws_price_def)
        ultimately show ?thesis using i mono [OF i(4)] True by (intro exI [of _ "?p # us"] exI [of _ fs]) auto
      qed
    qed
  qed
qed

text \<open>What the loaded book holds under a name.\<close>

lemma map_of_builtin:
  "map_of (foldl (\<lambda>ps g. AList.update (g_name g) (builtin_price cfg now g) ps) ps gs) name =
     (case find (\<lambda>g. g_name g = name) (rev gs) of Some g \<Rightarrow> Some (builtin_price cfg now g) | None \<Rightarrow> map_of ps name)"
  by (induction gs rule: rev_induct) (simp_all add: update_conv)

lemma map_of_load:
  assumes "distinct (map fst stored)"
  shows "map_of (pb_prices (load_prices stored bk)) name =
    (case map_of (pb_prices bk) name of None \<Rightarrow> None
     | Some p \<Rightarrow> Some (case map_of stored name of Some q \<Rightarrow> q | None \<Rightarrow> p))"
proof -
  have "map_of (foldl (\<lambda>ps (name, p). if map_of ps name \<noteq> None then AList.update name p ps else ps) ps stored) name =
      (case map_of ps name of None \<Rightarrow> None | Some p \<Rightarrow> Some (case map_of stored name of Some q \<Rightarrow> q | None \<Rightarrow> p))"
    if "distinct (map fst stored)" for ps
    using that
  proof (induction stored arbitrary: ps)
    case (Cons x stored)
    obtain k q where x: "x = (k, q)" by fastforce
    have "map_of stored k = None" using Cons.prems x by (simp add: map_of_eq_None_iff)
    then show ?case using Cons by (auto simp: x update_conv split: option.splits)
  qed (simp split: option.splits)
  with assms show ?thesis by (simp add: load_prices_def)
qed

lemma find_last: "find P (rev xs) = Some p \<Longrightarrow> p \<in> set xs \<and> P p"
proof -
  assume "find P (rev xs) = Some p"
  then obtain i where "i < length (rev xs)" "P (rev xs ! i)" "p = rev xs ! i" by (auto simp: find_Some_iff)
  with nth_mem [of i "rev xs"] show ?thesis by simp
qed

lemma find_configured: "g \<in> set gs \<Longrightarrow> distinct (map g_name gs) \<Longrightarrow> find (\<lambda>h. g_name h = g_name g) (rev gs) = Some g"
proof -
  assume g: "g \<in> set gs" "distinct (map g_name gs)"
  then obtain h where h: "find (\<lambda>h. g_name h = g_name g) (rev gs) = Some h"
    by (cases "find (\<lambda>h. g_name h = g_name g) (rev gs)") (auto simp: find_None_iff)
  from find_last [OF this] show ?thesis using g h by (simp add: distinct_map inj_on_def)
qed

lemma upserted_names: "distinct (map p_gpu_type ps) \<Longrightarrow> distinct (map p_gpu_type (upsert_price p ps)) \<and>
    set (map p_gpu_type (upsert_price p ps)) = insert (p_gpu_type p) (set (map p_gpu_type ps))"
  by (induction ps) auto

lemma map_of_upserted: "map_of (map (\<lambda>p. (p_gpu_type p, p)) (upsert_price p ps)) name =
    (if name = p_gpu_type p then Some p else map_of (map (\<lambda>p. (p_gpu_type p, p)) ps) name)"
  by (induction ps) auto

lemma saved_prices:
  assumes "distinct (map p_gpu_type (st_prices st))"
  shows "distinct (map fst (stored_prices (save_prices st us)))"
    and "map_of (stored_prices (save_prices st us)) name =
      (case find (\<lambda>p. p_gpu_type p = name) (rev us) of Some p \<Rightarrow> Some p | None \<Rightarrow> map_of (stored_prices st) name)"
proof -
  have "distinct (map p_gpu_type (foldl (\<lambda>t p. upsert_price p t) ps us)) \<and>
      map_of (map (\<lambda>p. (p_gpu_type p, p)) (foldl (\<lambda>t p. upsert_price p t) ps us)) name =
        (case find (\<lambda>p. p_gpu_type p = name) (rev us) of Some p \<Rightarrow> Some p | None \<Rightarrow> map_of (map (\<lambda>p. (p_gpu_type p, p)) ps) name)"
    if "distinct (map p_gpu_type ps)" for ps name
    using that by (induction us rule: rev_induct) (simp_all add: upserted_names map_of_upserted)
  from this [OF assms] show "distinct (map fst (stored_prices (save_prices st us)))"
    "map_of (stored_prices (save_prices st us)) name =
      (case find (\<lambda>p. p_gpu_type p = name) (rev us) of Some p \<Rightarrow> Some p | None \<Rightarrow> map_of (stored_prices st) name)"
    unfolding stored_prices_def save_prices_def by (simp_all add: comp_def)
qed

text \<open>
  C20. A price refresh is kept. After a refresh on a broker that was opened from its files, every configured type
  is charged at the book's price; each paid type has either a new positive price from AWS or a recorded
  failure, and a failed or free type keeps the price it had; and a broker that is opened again from the same
  files, at any later time, charges exactly the same prices.
\<close>

theorem refreshed_prices_survive_restart:
  assumes "refresh_prices loads client (fst (open_prices cfg st0)) (snd (open_prices cfg st0)) n = (Inr r, bk, st, n')"
    and "distinct (map g_name (c_gpu_types cfg))" and "distinct (map p_gpu_type (st_prices st0))"
  shows "mset (map p_gpu_type (rr_updated r)) + mset (map fst (rr_failed r)) =
      mset (map g_name (filter (\<lambda>g. g_currency g = USD) (c_gpu_types cfg))) \<and>
    (\<forall>p \<in> set (rr_updated r). 0 < p_hourly p \<and> p_source p = ''aws'' \<and> p_priced_at p = st_now st0) \<and>
    (\<forall>name. name \<notin> p_gpu_type ` set (rr_updated r) \<longrightarrow> book_price bk name = book_price (fst (open_prices cfg st0)) name) \<and>
    map (\<lambda>g. Inr (g_hourly_price g)) (c_gpu_types (st_cfg st)) = map (\<lambda>g. book_hourly bk (g_name g)) (c_gpu_types cfg) \<and>
    c_gpu_types (st_cfg (snd (open_prices cfg (st\<lparr>st_now := later\<rparr>)))) = c_gpu_types (st_cfg st)"
proof -
  let ?bk0 = "fst (open_prices cfg st0)" and ?st1 = "snd (open_prices cfg st0)"
  have cfg0: "pb_config ?bk0 = cfg" "st_now ?st1 = st_now st0" "st_prices ?st1 = st_prices st0"
    by (simp_all add: open_prices_def Let_def load_prices_def new_book_def apply_prices_def)
  obtain us fs where l: "r = \<lparr>rr_at = st_now st0, rr_updated = us, rr_failed = fs\<rparr>" "bk = ?bk0\<lparr>pb_prices := put_prices (pb_prices ?bk0) us\<rparr>"
    "list_all (\<lambda>u. \<exists>g \<in> set (c_gpu_types cfg). g_currency g = USD \<and> from_aws cfg (st_now st0) g u) us"
    "mset (map p_gpu_type us) + mset (map fst fs) = mset (map g_name (filter (\<lambda>g. g_currency g = USD) (c_gpu_types cfg)))"
    "st = apply_prices bk (save_prices ?st1 us)"
    using assms(1) cfg0 by (auto simp: refresh_prices_def refresh_book_def split: prod.splits sum.splits dest!: refresh_loop_result)
  have pos: "\<forall>p \<in> set us. 0 < p_hourly p \<and> p_source p = ''aws'' \<and> p_priced_at p = st_now st0"
    using l(3) by (auto simp: list_all_iff from_aws_def aws_price_def)
  have other: "\<forall>name. name \<notin> p_gpu_type ` set us \<longrightarrow> book_price bk name = book_price ?bk0 name"
    unfolding l(2) book_price_def by (auto simp: map_of_put split: option.splits dest: find_last)
  have names: "map g_name (c_gpu_types (st_cfg ?st1)) = map g_name (c_gpu_types cfg)"
    by (auto simp: open_prices_def Let_def apply_prices_def split: option.splits)
  have stored0: "distinct (map fst (stored_prices st0))" using assms(3) by (simp add: stored_prices_def comp_def)
  have bk0: "map_of (pb_prices ?bk0) (g_name g) = Some (case map_of (stored_prices st0) (g_name g) of Some q \<Rightarrow> q | None \<Rightarrow> builtin_price cfg (st_now st0) g)"
    if "g \<in> set (c_gpu_types cfg)" for g
    using find_configured [OF that assms(2)]
    by (simp add: open_prices_def Let_def map_of_load [OF stored0] new_book_def load_builtin_def map_of_builtin)
  have stored: "stored_prices st = stored_prices (save_prices ?st1 us)" "stored_prices ?st1 = stored_prices st0"
    by (simp_all add: l(5) apply_prices_def stored_prices_def cfg0)
  let ?q = "\<lambda>t g. case find (\<lambda>p. p_gpu_type p = g_name g) (rev us) of Some p \<Rightarrow> p
      | None \<Rightarrow> (case map_of (stored_prices st0) (g_name g) of Some q \<Rightarrow> q | None \<Rightarrow> builtin_price cfg t g)"
  have book: "map_of (pb_prices bk) (g_name g) = Some (?q (st_now st0) g)" if "g \<in> set (c_gpu_types cfg)" for g
    by (simp add: l(2) map_of_put bk0 [OF that] split: option.splits)
  note sp = saved_prices [of ?st1 us, unfolded cfg0(3), OF assms(3), folded stored(1), unfolded stored(2)]
  have again: "map_of (pb_prices (fst (open_prices cfg (st\<lparr>st_now := later\<rparr>)))) (g_name g) = Some (?q later g)"
    if "g \<in> set (c_gpu_types cfg)" for g
  proof -
    have s: "stored_prices (st\<lparr>st_now := later\<rparr>) = stored_prices st" by (simp add: stored_prices_def)
    show ?thesis using find_configured [OF that assms(2)] sp(2) [of "g_name g"]
      by (simp add: open_prices_def Let_def s map_of_load [OF sp(1)] new_book_def load_builtin_def map_of_builtin split: option.splits)
  qed
  let ?h = "\<lambda>g. p_hourly (?q 0 g)"
  have h: "p_hourly (?q t g) = ?h g" for t g by (simp add: builtin_price_def split: option.splits)
  have cfg1: "c_gpu_types (st_cfg ?st1) = map (\<lambda>g. g\<lparr>g_hourly_price := p_hourly (case map_of (stored_prices st0) (g_name g) of Some q \<Rightarrow> q | None \<Rightarrow> builtin_price cfg (st_now st0) g)\<rparr>) (c_gpu_types cfg)"
    using bk0 by (simp add: open_prices_def Let_def apply_prices_def)
  have final: "c_gpu_types (st_cfg st) = map (\<lambda>g. g\<lparr>g_hourly_price := ?h g\<rparr>) (c_gpu_types cfg)"
    unfolding l(5) using book h [of "st_now st0"] by (simp add: apply_prices_def save_prices_def cfg1 comp_def)
  have reopened: "c_gpu_types (st_cfg (snd (open_prices cfg (st\<lparr>st_now := later\<rparr>)))) = map (\<lambda>g. g\<lparr>g_hourly_price := ?h g\<rparr>) (c_gpu_types cfg)"
    using again h [of later] by (simp add: open_prices_def [of cfg "st\<lparr>st_now := later\<rparr>"] Let_def apply_prices_def)
  have "map (\<lambda>g. Inr (g_hourly_price g)) (c_gpu_types (st_cfg st)) = map (\<lambda>g. book_hourly bk (g_name g)) (c_gpu_types cfg)"
    using book h [of "st_now st0"] by (simp add: final book_hourly_def book_price_def)
  with l(4) pos other final reopened show ?thesis by (simp add: l(1))
qed

definition demo_price_config :: broker_config where
  "demo_price_config = (default_config (\<lambda>_. 0))\<lparr>c_gpu_types :=
     [\<lparr>g_name = ''t4'', g_currency = USD, g_hourly_price = 1/2, g_description = [], g_memory_mb = 16384\<rparr>,
      \<lparr>g_name = ''a6000'', g_currency = GPU_HOUR, g_hourly_price = 1, g_description = [], g_memory_mb = 49152\<rparr>],
     c_instance_types := [(''t4'', ''g4dn.xlarge'')], c_region := ''us-west-2''\<rparr>"

definition demo_listing :: pyval where
  "demo_listing = PDict [(''terms'', PDict [(''OnDemand'', PDict [(''sku'', PDict [(''priceDimensions'', PDict [(''id'',
     PDict [(''unit'', PStr ''Hrs''), (''pricePerUnit'', PDict [(''USD'', PNum (3/4))])])])])])])]"

definition demo_client :: "unit pricing_client" where
  "demo_client filters n = (Inr [demo_listing], n)"

lemma demo_fetch: "fetch_on_demand (\<lambda>_. None) demo_client it region n = (Inr (3/4), n)"
proof -
  have "text_lower ''Hrs'' = ''hrs''" by code_simp
  then have "extract_price (\<lambda>_. None) demo_listing = Inr (Some (3/4))"
    by (simp add: demo_listing_def extract_price_def py_bind_def py_get_def py_values_def dimension_price_def money_of_def lowest_def)
  then show ?thesis by (simp add: fetch_on_demand_def demo_client_def py_bind_def lowest_def)
qed

theorem refreshed_prices_survive_restart_witness:
  "map g_hourly_price (c_gpu_types (st_cfg (snd (open_prices demo_price_config
      ((fst (snd (snd (refresh_prices (\<lambda>_. None) demo_client (fst (open_prices demo_price_config (empty_store 0 demo_price_config)))
         (snd (open_prices demo_price_config (empty_store 0 demo_price_config))) ()))))\<lparr>st_now := 5\<rparr>))))) = [3/4, 1]"
proof -
  let ?o = "open_prices demo_price_config (empty_store 0 demo_price_config)"
  let ?t4 = "\<lparr>g_name = ''t4'', g_currency = USD, g_hourly_price = 1/2, g_description = [], g_memory_mb = 16384\<rparr>"
  let ?a6 = "\<lparr>g_name = ''a6000'', g_currency = GPU_HOUR, g_hourly_price = 1, g_description = [], g_memory_mb = 49152\<rparr>"
  let ?p = "aws_price demo_price_config 0 ?t4 ''g4dn.xlarge'' (3/4)"
  have c: "c_gpu_types demo_price_config = [?t4, ?a6]" "instance_type_of demo_price_config ''t4'' = Some ''g4dn.xlarge''"
    by (simp_all add: demo_price_config_def instance_type_of_def)
  have e: "fst ?o = \<lparr>pb_config = demo_price_config, pb_prices =
      [(''t4'', builtin_price demo_price_config 0 ?t4), (''a6000'', builtin_price demo_price_config 0 ?a6)]\<rparr>"
    by (simp add: open_prices_def Let_def load_prices_def stored_prices_def empty_store_def new_book_def load_builtin_def c)
  have now: "st_now (snd ?o) = 0" by (simp add: open_prices_def Let_def apply_prices_def empty_store_def)
  have b: "refresh_book (\<lambda>_. None) demo_client 0 (fst ?o) () =
      (Inr \<lparr>rr_at = 0, rr_updated = [?p], rr_failed = []\<rparr>, (fst ?o)\<lparr>pb_prices := put_prices (pb_prices (fst ?o)) [?p]\<rparr>, ())"
    unfolding e by (simp add: refresh_book_def c demo_fetch aws_price_def Let_def)
  obtain r bk st n' where r: "refresh_prices (\<lambda>_. None) demo_client (fst ?o) (snd ?o) () = (r, bk, st, n')"
    by (metis surj_pair)
  have ok: "\<exists>rep. r = Inr rep \<and> bk = (fst ?o)\<lparr>pb_prices := put_prices (pb_prices (fst ?o)) [?p]\<rparr>"
    using r by (auto simp: refresh_prices_def now b)
  then obtain rep where rep: "r = Inr rep" by blast
  have "distinct (map g_name (c_gpu_types demo_price_config))" "distinct (map p_gpu_type (st_prices (empty_store 0 demo_price_config)))"
    by (simp_all add: c empty_store_def)
  from refreshed_prices_survive_restart [OF r [unfolded rep] this, of 5]
  have k: "map (\<lambda>g. Inr (g_hourly_price g)) (c_gpu_types (st_cfg st)) = map (\<lambda>g. book_hourly bk (g_name g)) (c_gpu_types demo_price_config)"
    "c_gpu_types (st_cfg (snd (open_prices demo_price_config (st\<lparr>st_now := 5\<rparr>)))) = c_gpu_types (st_cfg st)" by blast+
  have "map (\<lambda>g. book_hourly bk (g_name g)) (c_gpu_types demo_price_config) = [Inr (3/4), Inr 1]"
    using ok by (auto simp: e c book_hourly_def book_price_def aws_price_def builtin_price_def)
  with k(1) have "map Inr (map g_hourly_price (c_gpu_types (st_cfg st))) = (map Inr [3/4, 1] :: (error, decimal) result list)" by (simp add: comp_def)
  then have "map g_hourly_price (c_gpu_types (st_cfg st)) = [3/4, 1]" by (subst (asm) inj_map_eq_map) (simp_all add: inj_def)
  with k(2) show ?thesis by (simp add: r)
qed

text \<open>A document in which a level is not an object is not skipped like other bad listings: it ends the refresh.\<close>

lemma odd_listing_aborts_refresh:
  "extract_price loads (PDict [(''terms'', PNone)]) = Inl (PyException ''AttributeError'' ''get'')"
  by (simp add: extract_price_def py_bind_def py_get_def)

end
