(* ===== verification/Forecast.thy ===== *)
theory Forecast
  imports Broker
begin

text \<open>
  \<^verbatim>\<open>gpu_broker/forecast.py\<close>: at the current burn rate, when does the pool run dry. Where Python raises (a division
  by zero, a date past the year 9999) the model answers with the exception.
\<close>

datatype forecast_level = LevelOK | LevelWarning | LevelCritical | LevelExhausted

record outlook =
  fc_currency :: currency
  fc_budget :: decimal
  fc_spent :: decimal
  fc_committed :: decimal
  fc_available :: decimal
  fc_burn_per_day :: decimal
  fc_days_left :: "pyfloat option"
  fc_dry_on :: "moment option"
  fc_level :: forecast_level
  fc_window_days :: pyfloat
  fc_observed_days :: pyfloat

definition confident :: "outlook \<Rightarrow> bool" where
  "confident f = (1 \<le> fc_observed_days f)"

definition credit_noun :: "currency \<Rightarrow> string" where
  "credit_noun cur = (if cur = USD then ''credit'' else ''free GPU-hours'')"

definition show_days :: "pyfloat \<Rightarrow> string" where
  "show_days d =
     (if 365 < d then ''over a year''
      else show_fixed 0 d @ '' day'' @ (if round_half_even d \<noteq> 1 then ''s'' else []))"

definition headline :: "outlook \<Rightarrow> string" where
  "headline f =
     (if fc_level f = LevelExhausted then ''the pool is out of '' @ credit_noun (fc_currency f)
      else case fc_days_left f of
             None \<Rightarrow> ''nothing is being spent; '' @ fmt (fc_available f) (fc_currency f) @ '' left''
           | Some d \<Rightarrow>
               fmt (fc_available f) (fc_currency f) @ '' left, '' @ fmt (fc_burn_per_day f) (fc_currency f) @ ''/day, '' @
               (if take 4 (show_days d) = ''over'' then [] else ''about '') @ show_days d @ '' of runway'' @
               (if confident f then [] else '' (based on under a day of history)''))"

text \<open>\<open>now + timedelta(days=d)\<close>: a timedelta holds less than a thousand million days, a datetime ends with 9999.\<close>

definition LAST_MOMENT :: moment where
  "LAST_MOMENT = 253402300799999999"

definition add_days :: "moment \<Rightarrow> pyfloat \<Rightarrow> (error, moment) result" where
  "add_days now d =
     (if timedelta_days d \<ge> 1000000000 * 86400000000 \<or> LAST_MOMENT < now + timedelta_days d
      then Inl (OverflowError ''date value out of range'') else Inr (now + timedelta_days d))"

definition observed_days :: "store \<Rightarrow> currency \<Rightarrow> pyfloat" where
  "observed_days st cur =
     (let settlements = settlements_since st (st_now st - timedelta_days (c_forecast_window_days (st_cfg st))) cur
      in if settlements = [] then 0
         else max (days_of (st_now st - Min (set (map (snd \<circ> snd) settlements)))) 0)"

definition burned :: "store \<Rightarrow> currency \<Rightarrow> decimal" where
  "burned st cur =
     (\<Sum>(_, amount, _) \<leftarrow> settlements_since st (st_now st - timedelta_days (c_forecast_window_days (st_cfg st))) cur. amount)"

definition burn_per_day :: "store \<Rightarrow> currency \<Rightarrow> (error, decimal) result" where
  "burn_per_day st cur =
     (let effective = max (observed_days st cur) (c_forecast_min_days (st_cfg st))
      in if 0 < burned st cur
         then (if effective = 0 then Inl (PyException ''DivisionByZero'' '''') else Inr (burned st cur / effective))
         else Inr 0)"

definition forecast :: "store \<Rightarrow> currency \<Rightarrow> (error, outlook) result" where
  "forecast st cur =
     (let cfg = st_cfg st; now = st_now st; pool = pool_balance st cur; committed = pool_committed st cur;
          available = b_budget pool - committed;
          result = (\<lambda>rate level days_left dry_on.
            \<lparr>fc_currency = cur, fc_budget = b_budget pool, fc_spent = b_spent pool, fc_committed = committed,
             fc_available = available, fc_burn_per_day = rate, fc_days_left = days_left, fc_dry_on = dry_on, fc_level = level,
             fc_window_days = c_forecast_window_days cfg, fc_observed_days = observed_days st cur\<rparr>)
      in case burn_per_day st cur of
           Inl e \<Rightarrow> Inl e
         | Inr rate \<Rightarrow>
             if available \<le> 0 then Inr (result rate LevelExhausted (Some 0) (Some now))
             else if rate \<le> 0 then Inr (result rate LevelOK None None)
             else
               (let days_left = available / rate
                in case add_days now days_left of
                     Inl e \<Rightarrow> Inl e
                   | Inr dry_on \<Rightarrow>
                       Inr (result rate
                         (if days_left \<le> c_forecast_critical_days cfg then LevelCritical
                          else if days_left \<le> c_forecast_warning_days cfg then LevelWarning else LevelOK)
                         (Some days_left) (Some dry_on))))"

fun alerts_for :: "store \<Rightarrow> currency list \<Rightarrow> (error, outlook list) result" where
  "alerts_for st [] = Inr []"
| "alerts_for st (cur # curs) =
     (case forecast st cur of
        Inl e \<Rightarrow> Inl e
      | Inr f \<Rightarrow> (case alerts_for st curs of Inl e \<Rightarrow> Inl e | Inr fs \<Rightarrow> Inr (if fc_level f \<noteq> LevelOK then f # fs else fs)))"

definition alerts :: "store \<Rightarrow> (error, outlook list) result" where
  "alerts st = alerts_for st [USD, GPU_HOUR]"

subsection \<open>What the numbers mean\<close>

text \<open>
  The forecast says what it computes. Its level is exhausted exactly when nothing is available; otherwise
  the runway is missing exactly when nothing was spent, and a runway times the burn rate is what is
  available; the level is critical or warning exactly when the runway is within the configured days; and the
  date it gives is the end of that runway, counted from now.
\<close>

theorem forecast_adds_up:
  assumes "forecast st cur = Inr f" and "c_forecast_critical_days (st_cfg st) \<le> c_forecast_warning_days (st_cfg st)"
  shows "fc_available f = pool_budget (st_cfg st) cur - pool_committed st cur \<and>
    (fc_level f = LevelExhausted \<longleftrightarrow> fc_available f \<le> 0) \<and>
    (0 < fc_available f \<longrightarrow>
       (fc_days_left f = None \<longleftrightarrow> burned st cur \<le> 0) \<and>
       (\<forall>d. fc_days_left f = Some d \<longrightarrow>
          0 < d \<and> d * fc_burn_per_day f = fc_available f \<and>
          (fc_level f = LevelCritical \<longleftrightarrow> d \<le> c_forecast_critical_days (st_cfg st)) \<and>
          (fc_level f \<noteq> LevelOK \<longleftrightarrow> d \<le> c_forecast_warning_days (st_cfg st)) \<and>
          fc_dry_on f = Some (st_now st + timedelta_days d)))"
proof -
  have b: "b_budget (pool_balance st cur) = pool_budget (st_cfg st) cur" by (simp add: pool_balance_def pool_balance_in_def split_def Let_def)
  obtain rate where rate: "burn_per_day st cur = Inr rate" using assms(1) by (auto simp: forecast_def Let_def split: sum.splits)
  have eff: "0 \<le> observed_days st cur" by (simp add: observed_days_def Let_def)
  have pos: "0 < rate \<longleftrightarrow> 0 < burned st cur"
  proof
    assume "0 < rate" then show "0 < burned st cur" using rate by (auto simp: burn_per_day_def Let_def split: if_splits)
  next
    assume p: "0 < burned st cur"
    then have "rate = burned st cur / max (observed_days st cur) (c_forecast_min_days (st_cfg st))"
      "max (observed_days st cur) (c_forecast_min_days (st_cfg st)) \<noteq> 0"
      using rate by (auto simp: burn_per_day_def Let_def split: if_splits)
    moreover have "0 \<le> max (observed_days st cur) (c_forecast_min_days (st_cfg st))" using eff by simp
    ultimately show "0 < rate" using p by simp
  qed
  have dry: "add_days t d = Inr m \<Longrightarrow> m = t + timedelta_days d" for t d m by (auto simp: add_days_def split: if_splits)
  let ?a = "pool_budget (st_cfg st) cur - pool_committed st cur"
  consider (out) "?a \<le> 0" | (quiet) "0 < ?a" "rate \<le> 0" | (spending) "0 < ?a" "0 < rate" by linarith
  then show ?thesis
  proof cases
    case out
    then have "fc_available f = ?a" "fc_level f = LevelExhausted" using assms(1) rate b by (auto simp: forecast_def Let_def)
    with out show ?thesis by simp
  next
    case quiet
    then have "fc_available f = ?a" "fc_level f = LevelOK" "fc_days_left f = None" using assms(1) rate b by (auto simp: forecast_def Let_def)
    with quiet pos show ?thesis by auto
  next
    case spending
    then obtain m where "add_days (st_now st) (?a / rate) = Inr m"
      using assms(1) rate b by (auto simp: forecast_def Let_def split: sum.splits)
    then have f: "fc_available f = ?a" "fc_days_left f = Some (?a / rate)" "fc_burn_per_day f = rate"
      "fc_dry_on f = Some (st_now st + timedelta_days (?a / rate))"
      "fc_level f = (if ?a / rate \<le> c_forecast_critical_days (st_cfg st) then LevelCritical
          else if ?a / rate \<le> c_forecast_warning_days (st_cfg st) then LevelWarning else LevelOK)"
      using assms(1) rate b spending by (auto simp: forecast_def Let_def dry)
    have "0 < ?a / rate" using spending by simp
    with f spending pos assms(2) show ?thesis by auto
  qed
qed

theorem forecast_adds_up_witness:
  "\<exists>f. forecast (empty_store 0 (default_config (\<lambda>_. 0))) USD = Inr f \<and> fc_days_left f = None"
proof -
  let ?st = "empty_store 0 (default_config (\<lambda>_. 0))"
  have z: "settlements_since ?st t USD = []" "pool_committed ?st USD = 0" "b_budget (pool_balance ?st USD) = 500" for t
    by (simp_all add: settlements_since_def pool_committed_def pool_balance_def pool_balance_in_def active_jobs_def list_jobs_def
        aggregate_def empty_store_def default_config_def pool_budget_def Let_def)
  have r: "burn_per_day ?st USD = Inr 0" by (simp add: burn_per_day_def burned_def z)
  then obtain f where f: "forecast ?st USD = Inr f" by (simp add: forecast_def z)
  have c: "c_forecast_critical_days (st_cfg ?st) \<le> c_forecast_warning_days (st_cfg ?st)" "pool_budget (st_cfg ?st) USD = 500"
    by (simp_all add: empty_store_def default_config_def pool_budget_def)
  have "burned ?st USD \<le> 0" by (simp add: burned_def z)
  with forecast_adds_up [OF f c(1)] show ?thesis by (simp add: f c(2) z)
qed

text \<open>A runway that ends after the year 9999 is an exception instead of a long one.\<close>

lemma long_runway_raises:
  "0 < pool_budget (st_cfg st) cur - pool_committed st cur \<Longrightarrow> burn_per_day st cur = Inr rate \<Longrightarrow> 0 < rate \<Longrightarrow>
   LAST_MOMENT < st_now st + timedelta_days ((pool_budget (st_cfg st) cur - pool_committed st cur) / rate) \<Longrightarrow>
   forecast st cur = Inl (OverflowError ''date value out of range'')"
  by (simp add: forecast_def Let_def add_days_def pool_balance_def pool_balance_in_def split_def)

end
