(* ===== verification/Trace.thy ===== *)
theory Trace
  imports Broker Commands IsoRoundTrip "HOL-Library.AList"
begin

text \<open>
  \<^verbatim>\<open>gpu_broker/schedule_trace.py\<close>: the exported history of the scheduler, its replay, and the cost report. The
  digest of a bundle (SHA-256 of its canonical JSON) and the keyed hash of a user are arguments; a bundle is
  the value that is written to the file and read back, so reading a file of some other shape is not modelled.
\<close>

subsection \<open>Export\<close>

definition TRACE_SCHEMA :: string where
  "TRACE_SCHEMA = ''gpu-broker.schedule-trace/v1''"

definition MIN_OPERATIONAL_JOBS :: nat where
  "MIN_OPERATIONAL_JOBS = 20"

definition MIN_OPERATIONAL_USERS :: nat where
  "MIN_OPERATIONAL_USERS = 5"

record trace_job =
  tj_key :: string
  tj_user :: string
  tj_gpu_type :: string
  tj_currency :: string
  tj_reserved :: decimal
  tj_spent :: decimal
  tj_requested_hours :: pyfloat
  tj_state :: string
  tj_origin :: string
  tj_submitted :: pyfloat
  tj_started :: "pyfloat option"
  tj_finished :: "pyfloat option"
  tj_attempts :: int
  tj_preemptions :: int

record trace_bundle =
  tb_schema :: string
  tb_jobs :: "trace_job list"
  tb_sha :: string

text \<open>\<open>f"{n:03d}"\<close> and the like.\<close>

definition numbered :: "string \<Rightarrow> nat \<Rightarrow> nat \<Rightarrow> string" where
  "numbered prefix width n = prefix @ pad_left width (show_nat n)"

definition is_operational :: "job \<Rightarrow> bool" where
  "is_operational j = (j_origin j \<noteq> ''seeded'')"

definition user_alias :: "job list \<Rightarrow> string \<Rightarrow> string" where
  "user_alias jobs uid = numbered ''user-'' 3 (Suc (length (takeWhile (\<lambda>u. u \<noteq> uid) (sorted_list_of_set (j_user ` set jobs)))))"

definition offset_seconds :: "moment \<Rightarrow> moment option \<Rightarrow> pyfloat option" where
  "offset_seconds epoch t = map_option (\<lambda>t. total_seconds (t - epoch)) t"

definition trace_record :: "store \<Rightarrow> job list \<Rightarrow> moment \<Rightarrow> nat \<Rightarrow> job \<Rightarrow> trace_job" where
  "trace_record st jobs epoch index j =
     \<lparr>tj_key = numbered ''job-'' 5 index, tj_user = user_alias jobs (j_user j), tj_gpu_type = j_gpu_type j,
      tj_currency = currency_name (j_currency j), tj_reserved = j_reserved j, tj_spent = job_spend st (j_id j),
      tj_requested_hours = j_requested_hours j, tj_state = state_name (j_state j), tj_origin = j_origin j,
      tj_submitted = total_seconds (j_submitted_at j - epoch), tj_started = offset_seconds epoch (j_started_at j),
      tj_finished = offset_seconds epoch (j_finished_at j), tj_attempts = j_attempts j, tj_preemptions = j_preemptions j\<rparr>"

definition export_trace :: "(trace_job list \<Rightarrow> string) \<Rightarrow> store \<Rightarrow> (error, trace_bundle) result" where
  "export_trace hash st =
     (let jobs = list_jobs st None None None; operational = filter is_operational jobs; users = remdups (map j_user operational)
      in if jobs = [] then Inl (TraceError ''no jobs are available to export'')
         else if operational \<noteq> [] \<and> (length operational < MIN_OPERATIONAL_JOBS \<or> length users < MIN_OPERATIONAL_USERS)
         then Inl (TraceError (''operational history is too small to anonymize safely: '' @
                show_nat (length operational) @ '' job(s), '' @ show_nat (length users) @ '' user(s); need '' @
                ''at least '' @ show_nat MIN_OPERATIONAL_JOBS @ '' jobs and '' @ show_nat MIN_OPERATIONAL_USERS @ '' users''))
         else
           (let ordered = sort_key (\<lambda>j. (j_submitted_at j, j_id j)) jobs;
                epoch = j_submitted_at (hd ordered);
                records = map (\<lambda>(i, j). trace_record st jobs epoch i j) (enumerate 1 ordered)
            in Inr \<lparr>tb_schema = TRACE_SCHEMA, tb_jobs = records, tb_sha = hash records\<rparr>))"

subsection \<open>Replay\<close>

datatype event_action = Submit | Start | Finish | FinishUnstarted

fun action_text :: "event_action \<Rightarrow> string" where
  "action_text Submit = ''submit''"
| "action_text Start = ''start''"
| "action_text Finish = ''finish''"
| "action_text FinishUnstarted = ''finish_unstarted''"

fun action_rank :: "event_action \<Rightarrow> nat" where
  "action_rank Submit = 0"
| "action_rank Start = 1"
| "action_rank Finish = 2"
| "action_rank FinishUnstarted = 2"

type_synonym event = "pyfloat \<times> event_action \<times> string"

definition event_key :: "event \<Rightarrow> pyfloat \<times> nat \<times> string \<times> string" where
  "event_key e = (case e of (t, a, k) \<Rightarrow> (t, action_rank a, action_text a, k))"

text \<open>The events of one job; a start before the submission and an end before the start are refused, and so is a
  completed job with an end but no start (the subtraction of a missing number).\<close>

definition job_events :: "trace_job \<Rightarrow> (error, event list) result" where
  "job_events j =
     (let start = tj_started j; from_time = (case start of Some s \<Rightarrow> s | None \<Rightarrow> tj_submitted j)
      in if from_time < tj_submitted j then Inl (TraceError (tj_key j @ '' starts before it was submitted''))
         else if (case tj_finished j of Some f \<Rightarrow> f < from_time | None \<Rightarrow> False)
         then Inl (TraceError (tj_key j @ '' has an invalid finish time''))
         else if tj_finished j \<noteq> None \<and> start = None \<and> tj_state j = ''COMPLETED''
         then Inl (PyException ''TypeError'' ''unsupported operand'')
         else Inr ([(tj_submitted j, Submit, tj_key j)] @
                   (case start of Some s \<Rightarrow> [(s, Start, tj_key j)] | None \<Rightarrow> []) @
                   (case tj_finished j of
                      Some f \<Rightarrow> [(f, if start = None then FinishUnstarted else Finish, tj_key j)] | None \<Rightarrow> [])))"

fun all_events :: "trace_job list \<Rightarrow> (error, event list) result" where
  "all_events [] = Inr []"
| "all_events (j # js) =
     (case job_events j of
        Inl e \<Rightarrow> Inl e
      | Inr es \<Rightarrow> (case all_events js of Inl e \<Rightarrow> Inl e | Inr rest \<Rightarrow> Inr (es @ rest)))"

record replay_state =
  rp_submitted :: "string list"
  rp_active :: "string list"
  rp_max_active :: nat

definition replay_event :: "replay_state \<Rightarrow> event \<Rightarrow> (error, replay_state) result" where
  "replay_event s e =
     (case e of (t, a, k) \<Rightarrow>
        (case a of
           Submit \<Rightarrow>
             if k \<in> set (rp_submitted s) then Inl (TraceError (''duplicate submit for '' @ k))
             else Inr (s\<lparr>rp_submitted := k # rp_submitted s\<rparr>)
         | Start \<Rightarrow>
             if k \<notin> set (rp_submitted s) \<or> k \<in> set (rp_active s) then Inl (TraceError (''invalid start for '' @ k))
             else Inr (s\<lparr>rp_active := k # rp_active s, rp_max_active := max (rp_max_active s) (Suc (length (rp_active s)))\<rparr>)
         | Finish \<Rightarrow>
             if k \<notin> set (rp_active s) then Inl (TraceError (''finish without active job for '' @ k))
             else Inr (s\<lparr>rp_active := remove1 k (rp_active s)\<rparr>)
         | FinishUnstarted \<Rightarrow>
             if k \<notin> set (rp_submitted s) then Inl (TraceError (''terminal state before submit for '' @ k))
             else Inr s))"

fun replay_events :: "replay_state \<Rightarrow> event list \<Rightarrow> (error, replay_state) result" where
  "replay_events s [] = Inr s"
| "replay_events s (e # es) = (case replay_event s e of Inl x \<Rightarrow> Inl x | Inr s' \<Rightarrow> replay_events s' es)"

definition percentile :: "pyfloat list \<Rightarrow> pyfloat \<Rightarrow> pyfloat option" where
  "percentile values fraction =
     (if values = [] then None
      else Some (sort values ! nat (max 0 (\<lceil>fraction * of_nat (length values)\<rceil> - 1))))"

definition jain :: "pyfloat list \<Rightarrow> pyfloat option" where
  "jain values =
     (if values = [] \<or> sum_list values = 0 then None
      else Some ((sum_list values)\<^sup>2 / (of_nat (length values) * (\<Sum>v\<leftarrow>values. v * v))))"

record replay_summary =
  su_jobs :: nat
  su_users :: nat
  su_completed :: nat
  su_max_active :: nat
  su_p95_wait :: "pyfloat option"
  su_useful_gpu_hours :: pyfloat
  su_jain :: "pyfloat option"
  su_spend :: "(string \<times> decimal) list"
  su_digest :: string

definition waits_of :: "trace_job list \<Rightarrow> pyfloat list" where
  "waits_of js = concat (map (\<lambda>j. case tj_started j of Some s \<Rightarrow> [s - tj_submitted j] | None \<Rightarrow> []) js)"

definition is_counted :: "trace_job \<Rightarrow> bool" where
  "is_counted j = (tj_finished j \<noteq> None \<and> tj_state j = ''COMPLETED'')"

definition useful_hours :: "trace_job \<Rightarrow> pyfloat" where
  "useful_hours j = (the (tj_finished j) - the (tj_started j)) / 3600"

definition add_to :: "string \<Rightarrow> real \<Rightarrow> (string \<times> real) list \<Rightarrow> (string \<times> real) list" where
  "add_to k x d = AList.update k ((case map_of d k of Some y \<Rightarrow> y | None \<Rightarrow> 0) + x) d"

definition useful_by_user :: "trace_job list \<Rightarrow> (string \<times> real) list" where
  "useful_by_user js = foldl (\<lambda>d j. add_to (tj_user j) (useful_hours j) d) [] (filter is_counted js)"

definition spend_by_currency :: "trace_job list \<Rightarrow> (string \<times> real) list" where
  "spend_by_currency js = foldl (\<lambda>d j. add_to (tj_currency j) (tj_spent j) d) [] js"

definition replay_trace :: "(trace_job list \<Rightarrow> string) \<Rightarrow> trace_bundle \<Rightarrow> (error, replay_summary) result" where
  "replay_trace hash b =
     (if tb_schema b \<noteq> TRACE_SCHEMA then Inl (TraceError (''unsupported trace schema: '' @ py_repr (tb_schema b)))
      else if tb_sha b \<noteq> hash (tb_jobs b) then Inl (TraceError ''trace digest does not match its contents'')
      else case all_events (tb_jobs b) of
             Inl e \<Rightarrow> Inl e
           | Inr es \<Rightarrow>
               (case replay_events \<lparr>rp_submitted = [], rp_active = [], rp_max_active = 0\<rparr> (sort_key event_key es) of
                  Inl e \<Rightarrow> Inl e
                | Inr s \<Rightarrow>
                    Inr \<lparr>su_jobs = length (tb_jobs b), su_users = length (remdups (map tj_user (tb_jobs b))),
                         su_completed = length (filter is_counted (tb_jobs b)), su_max_active = rp_max_active s,
                         su_p95_wait = percentile (waits_of (tb_jobs b)) (95/100),
                         su_useful_gpu_hours = sum_list (map snd (useful_by_user (tb_jobs b))),
                         su_jain = jain (map snd (useful_by_user (tb_jobs b))),
                         su_spend = sort_key fst (spend_by_currency (tb_jobs b)), su_digest = hash (tb_jobs b)\<rparr>))"

subsection \<open>The cost report\<close>

text \<open>\<open>hmac\<close> is the keyed SHA-256 as a hexadecimal text; the salt is measured in bytes.\<close>

definition anonymous_user_id :: "(string \<Rightarrow> string \<Rightarrow> string) \<Rightarrow> string \<Rightarrow> string \<Rightarrow> (error, string) result" where
  "anonymous_user_id hmac uid salt =
     (if length (utf8 salt) < 16 then Inl (TraceError ''GPU_BROKER_TRACE_SALT must contain at least 16 bytes'')
      else Inr (take 24 (hmac salt uid)))"

record currency_cost =
  cc_settled :: decimal
  cc_reserved :: decimal
  cc_per_completed :: "decimal option"
  cc_retry :: decimal
  cc_abandoned :: decimal

record cost_report =
  cr_jobs :: nat
  cr_users :: nat
  cr_observations :: nat
  cr_interruptions :: int
  cr_resumes :: nat
  cr_completed :: nat
  cr_refused :: nat
  cr_budget_refusals :: nat
  cr_completion_rate :: pyfloat
  cr_p50 :: "pyfloat option"
  cr_p95 :: "pyfloat option"
  cr_cost :: "(string \<times> currency_cost) list"
  cr_replayed :: nat
  cr_fifo_p50 :: "pyfloat option"
  cr_fifo_p95 :: "pyfloat option"

definition wait_seconds :: "job \<Rightarrow> pyfloat" where
  "wait_seconds j = total_seconds (the (j_started_at j) - j_submitted_at j)"

text \<open>The observed jobs through one slot per kind of card, first come first served, durations as observed. The
  state is when each slot is free and the waits so far.\<close>

definition ran_seconds :: "job \<Rightarrow> pyfloat" where
  "ran_seconds j =
     (case j_finished_at j of
        Some f \<Rightarrow> max 0 (total_seconds (f - the (j_started_at j)))
      | None \<Rightarrow> 0)"

fun fifo_loop :: "moment \<Rightarrow> (string \<Rightarrow> pyfloat) \<Rightarrow> job list \<Rightarrow> pyfloat list" where
  "fifo_loop epoch available [] = []"
| "fifo_loop epoch available (j # js) =
     (let submitted = total_seconds (j_submitted_at j - epoch);
          start = max submitted (available (j_gpu_type j))
      in (start - submitted) # fifo_loop epoch (available(j_gpu_type j := start + ran_seconds j)) js)"

definition fifo_waits :: "job list \<Rightarrow> pyfloat list" where
  "fifo_waits started =
     (if started = [] then []
      else fifo_loop (Min (set (map j_submitted_at started))) (\<lambda>_. 0)
             (sort_key (\<lambda>j. (j_submitted_at j, j_id j)) started))"

definition sum_for :: "currency \<Rightarrow> (job \<Rightarrow> decimal) \<Rightarrow> job list \<Rightarrow> decimal" where
  "sum_for cur f jobs = (\<Sum>j\<leftarrow>filter (\<lambda>j. j_currency j = cur) jobs. f j)"

definition retry_cost :: "store \<Rightarrow> job \<Rightarrow> decimal" where
  "retry_cost st j =
     (if 1 < j_attempts j then job_spend st (j_id j) * of_int (j_attempts j - 1) / of_int (j_attempts j) else 0)"

definition abandoned_in :: "store \<Rightarrow> currency \<Rightarrow> decimal" where
  "abandoned_in st cur = (\<Sum>e\<leftarrow>filter (\<lambda>e. l_kind e = ABANDONED \<and> l_currency e = cur) (st_ledger st). l_amount e)"

definition currency_cost_of :: "store \<Rightarrow> job list \<Rightarrow> currency \<Rightarrow> currency_cost" where
  "currency_cost_of st jobs cur =
     (let completed = filter (\<lambda>j. j_state j = COMPLETED) jobs;
          count = length (filter (\<lambda>j. j_currency j = cur) completed);
          spend = (\<lambda>j. job_spend st (j_id j))
      in \<lparr>cc_settled = sum_for cur spend jobs, cc_reserved = sum_for cur j_reserved jobs,
          cc_per_completed = (if count = 0 then None else Some (sum_for cur spend completed / of_nat count)),
          cc_retry = sum_for cur (retry_cost st) jobs, cc_abandoned = abandoned_in st cur\<rparr>)"

definition mentions_budget :: "job \<Rightarrow> bool" where
  "mentions_budget j =
     (let text = text_lower (case j_refusal_reason j of Some r \<Rightarrow> r | None \<Rightarrow> [])
      in list_ex (\<lambda>i. starts_with (drop i text) ''budget'') [0..<Suc (length text)])"

definition report_currencies :: "store \<Rightarrow> job list \<Rightarrow> currency list" where
  "report_currencies st jobs =
     filter (\<lambda>cur. cur \<in> j_currency ` set jobs \<or> (\<exists>e \<in> set (st_ledger st). l_kind e = ABANDONED \<and> l_currency e = cur))
       (sort_key currency_name [USD, GPU_HOUR])"

definition build_cost_report :: "(string \<Rightarrow> string \<Rightarrow> string) \<Rightarrow> string \<Rightarrow> store \<Rightarrow> (error, cost_report) result" where
  "build_cost_report hmac salt st =
     (let jobs = filter is_operational (list_jobs st None None None)
      in if jobs \<noteq> [] \<and> length (utf8 salt) < 16 then Inl (TraceError ''GPU_BROKER_TRACE_SALT must contain at least 16 bytes'')
         else
           (let users = remdups (map (\<lambda>j. take 24 (hmac salt (j_user j))) jobs)
            in if length jobs < MIN_OPERATIONAL_JOBS \<or> length users < MIN_OPERATIONAL_USERS
               then Inl (TraceError (''insufficient data: the operational trace holds '' @ show_nat (length jobs) @ '' job(s) '' @
                      ''from '' @ show_nat (length users) @ '' user(s); a cost comparison needs at least '' @
                      show_nat MIN_OPERATIONAL_JOBS @ '' jobs from '' @ show_nat MIN_OPERATIONAL_USERS @ '' users, '' @
                      ''so no cost-comparison verdict is emitted''))
               else
                 (let completed = filter (\<lambda>j. j_state j = COMPLETED) jobs;
                      started = filter (\<lambda>j. j_started_at j \<noteq> None) jobs;
                      refused = filter (\<lambda>j. j_state j = REFUSED) jobs;
                      waits = map wait_seconds started; fifo = fifo_waits started
                  in Inr
                    \<lparr>cr_jobs = length jobs, cr_users = length users, cr_observations = length (st_observations st),
                     cr_interruptions = (\<Sum>j\<leftarrow>jobs. j_preemptions j),
                     cr_resumes = length (filter (\<lambda>j. 1 < j_attempts j \<and> j_checkpoint_step j \<noteq> None) jobs),
                     cr_completed = length completed, cr_refused = length refused,
                     cr_budget_refusals = length (filter mentions_budget refused),
                     cr_completion_rate = of_nat (length completed) / of_nat (length jobs),
                     cr_p50 = percentile waits (1/2), cr_p95 = percentile waits (95/100),
                     cr_cost = map (\<lambda>cur. (currency_name cur, currency_cost_of st jobs cur)) (report_currencies st jobs),
                     cr_replayed = length started, cr_fifo_p50 = percentile fifo (1/2),
                     cr_fifo_p95 = percentile fifo (95/100)\<rparr>)))"

text \<open>In the replay nobody waits a negative time, and two jobs on the same kind of card do not overlap: the later
  one starts when the earlier one has ended.\<close>

lemma fifo_nonnegative: "list_all (\<lambda>w. 0 \<le> w) (fifo_loop epoch available js)"
  by (induction js arbitrary: available) (simp_all add: Let_def del: fun_upd_apply)

lemma fifo_exclusive:
  "fifo_loop epoch available (j # js) = w # ws \<Longrightarrow>
     available (j_gpu_type j) \<le> total_seconds (j_submitted_at j - epoch) + w"
  by (auto simp: Let_def)

subsection \<open>An exported trace replays\<close>

definition slot :: "event \<Rightarrow> string \<times> nat" where
  "slot e = (case e of (t, a, k) \<Rightarrow> (k, action_rank a))"

text \<open>What replay needs of the events: one of each kind for a job, and each after the one it builds on.\<close>

definition well_formed :: "event list \<Rightarrow> bool" where
  "well_formed es \<longleftrightarrow> distinct (map slot es) \<and>
     (\<forall>(t, a, k) \<in> set es.
        (a = Start \<or> a = FinishUnstarted \<longrightarrow> (\<exists>s \<le> t. (s, Submit, k) \<in> set es)) \<and>
        (a = Finish \<longrightarrow> (\<exists>s \<le> t. (s, Start, k) \<in> set es)))"

definition replay_inv :: "replay_state \<Rightarrow> event list \<Rightarrow> bool" where
  "replay_inv s pre \<longleftrightarrow>
     set (rp_submitted s) = {k. \<exists>t. (t, Submit, k) \<in> set pre} \<and>
     set (rp_active s) = {k. (\<exists>t. (t, Start, k) \<in> set pre) \<and> \<not> (\<exists>t. (t, Finish, k) \<in> set pre)} \<and>
     distinct (rp_active s) \<and> length (rp_active s) \<le> length (filter (\<lambda>(t, a, k). a = Start) pre) \<and>
     rp_max_active s \<le> length (filter (\<lambda>(t, a, k). a = Start) pre)"

lemma finish_has_start: "well_formed es \<Longrightarrow> (t, Finish, k) \<in> set es \<Longrightarrow> \<exists>s \<le> t. (s, Start, k) \<in> set es"
  unfolding well_formed_def by blast

lemma earlier_is_before:
  assumes "sorted (map event_key (pre @ e # post))" and "x \<in> set (pre @ e # post)" and "event_key x < event_key e"
  shows "x \<in> set pre"
proof -
  have "event_key e \<le> event_key y" if "y \<in> set (e # post)" for y
    using assms(1) that by (auto simp: sorted_append)
  then have "x \<notin> set (e # post)" using assms(3) by (meson not_le)
  with assms(2) show ?thesis by simp
qed

lemma replay_runs:
  assumes "sorted (map event_key (pre @ post))" and "well_formed (pre @ post)" and "replay_inv s pre"
  shows "\<exists>s'. replay_events s post = Inr s' \<and> replay_inv s' (pre @ post)"
  using assms
proof (induction post arbitrary: pre s)
  case (Cons e post)
  obtain t a k where e: "e = (t, a, k)" by (metis surj_pair)
  have d: "distinct (map slot (pre @ e # post))"
    and need: "a = Start \<or> a = FinishUnstarted \<Longrightarrow> \<exists>s \<le> t. (s, Submit, k) \<in> set (pre @ e # post)"
      "a = Finish \<Longrightarrow> \<exists>s \<le> t. (s, Start, k) \<in> set (pre @ e # post)"
    using Cons.prems(2) by (auto simp: well_formed_def e)
  have fresh: "action_rank b = action_rank a \<Longrightarrow> (u, b, k) \<notin> set pre" for u b
    using d by (auto simp: slot_def e image_iff split: prod.splits)
  have sub: "\<exists>s. (s, Submit, k) \<in> set pre" if a: "a = Start \<or> a = FinishUnstarted"
  proof -
    obtain u where u: "u \<le> t" "(u, Submit, k) \<in> set (pre @ e # post)" using need(1) [OF a] by blast
    have "event_key (u, Submit, k) < event_key e" using u(1) a by (auto simp: event_key_def e less_prod_def)
    from earlier_is_before [OF Cons.prems(1) u(2) this] show ?thesis by blast
  qed
  have st: "\<exists>s. (s, Start, k) \<in> set pre" if a: "a = Finish"
  proof -
    obtain u where u: "u \<le> t" "(u, Start, k) \<in> set (pre @ e # post)" using need(2) [OF a] by blast
    have "event_key (u, Start, k) < event_key e" using u(1) a by (auto simp: event_key_def e less_prod_def)
    from earlier_is_before [OF Cons.prems(1) u(2) this] show ?thesis by blast
  qed
  have "\<exists>s'. replay_event s e = Inr s' \<and> replay_inv s' (pre @ [e])"
  proof (cases a)
    case Submit
    then have "k \<notin> set (rp_submitted s)" using Cons.prems(3) fresh by (auto simp: replay_inv_def)
    then show ?thesis using Cons.prems(3) Submit by (auto simp: replay_event_def e replay_inv_def)
  next
    case Start
    then have "k \<in> set (rp_submitted s)" "k \<notin> set (rp_active s)" "(u, Finish, k) \<notin> set pre" for u
    proof -
      show "k \<in> set (rp_submitted s)" using Cons.prems(3) sub Start by (auto simp: replay_inv_def)
      show "k \<notin> set (rp_active s)" using Cons.prems(3) fresh [of Start] Start by (auto simp: replay_inv_def)
      show "(u, Finish, k) \<notin> set pre"
      proof
        assume f: "(u, Finish, k) \<in> set pre"
        then have "(u, Finish, k) \<in> set (pre @ e # post)" by simp
        from finish_has_start [OF Cons.prems(2) this] obtain v where v: "v \<le> u" "(v, Start, k) \<in> set (pre @ e # post)" by blast
        obtain p q where pq: "pre = p @ (u, Finish, k) # q" using f by (meson split_list)
        have "event_key (v, Start, k) < event_key (u, Finish, k)" using v(1) by (auto simp: event_key_def less_prod_def)
        moreover have "sorted (map event_key (p @ (u, Finish, k) # (q @ e # post)))" using Cons.prems(1) pq by simp
        moreover have "(v, Start, k) \<in> set (p @ (u, Finish, k) # (q @ e # post))" using v(2) pq by simp
        ultimately have "(v, Start, k) \<in> set p" using earlier_is_before by blast
        then show False using fresh [of Start v] Start pq by simp
      qed
    qed
    then show ?thesis using Cons.prems(3) Start by (auto simp: replay_event_def e replay_inv_def)
  next
    case Finish
    have "(u, Finish, k) \<notin> set pre" for u using fresh [of Finish] Finish by simp
    then have "k \<in> set (rp_active s)" using Cons.prems(3) st Finish by (auto simp: replay_inv_def)
    then show ?thesis using Cons.prems(3) Finish
      by (auto simp: replay_event_def e replay_inv_def length_remove1)
  next
    case FinishUnstarted
    then have "k \<in> set (rp_submitted s)" using Cons.prems(3) sub by (auto simp: replay_inv_def)
    then show ?thesis using Cons.prems(3) FinishUnstarted by (auto simp: replay_event_def e replay_inv_def)
  qed
  then obtain s1 where s1: "replay_event s e = Inr s1" "replay_inv s1 (pre @ [e])" by blast
  from Cons.IH [of "pre @ [e]" s1] Cons.prems(1,2) s1 show ?case by simp
qed simp

text \<open>The times of a job that makes sense: it started after it was submitted and ended after that; one that
  completed did start.\<close>

definition times_ok :: "job \<Rightarrow> bool" where
  "times_ok j \<longleftrightarrow>
     (case j_started_at j of
        None \<Rightarrow> j_state j \<noteq> COMPLETED \<and> (\<forall>f. j_finished_at j = Some f \<longrightarrow> j_submitted_at j \<le> f)
      | Some s \<Rightarrow> j_submitted_at j \<le> s \<and> (\<forall>f. j_finished_at j = Some f \<longrightarrow> s \<le> f))"

definition record_events :: "trace_job \<Rightarrow> event list" where
  "record_events j =
     [(tj_submitted j, Submit, tj_key j)] @
     (case tj_started j of Some s \<Rightarrow> [(s, Start, tj_key j)] | None \<Rightarrow> []) @
     (case tj_finished j of Some f \<Rightarrow> [(f, if tj_started j = None then FinishUnstarted else Finish, tj_key j)] | None \<Rightarrow> [])"

definition record_ok :: "trace_job \<Rightarrow> bool" where
  "record_ok j \<longleftrightarrow>
     (case tj_started j of
        None \<Rightarrow> tj_state j \<noteq> ''COMPLETED'' \<and> (\<forall>f. tj_finished j = Some f \<longrightarrow> tj_submitted j \<le> f)
      | Some s \<Rightarrow> tj_submitted j \<le> s \<and> (\<forall>f. tj_finished j = Some f \<longrightarrow> s \<le> f))"

lemma job_events_ok: "record_ok j \<Longrightarrow> job_events j = Inr (record_events j)"
  by (auto simp: job_events_def record_events_def record_ok_def Let_def split: option.splits)

lemma all_events_ok: "list_all record_ok js \<Longrightarrow> all_events js = Inr (concat (map record_events js))"
  by (induction js) (simp_all add: job_events_ok)

lemma record_events_key: "(t, a, k) \<in> set (record_events j) \<Longrightarrow> k = tj_key j"
  by (auto simp: record_events_def split: option.splits)

lemma record_events_distinct: "distinct (map slot (record_events j))"
  by (auto simp: record_events_def slot_def split: option.splits)

lemma record_events_need:
  assumes "record_ok j" and "(t, a, k) \<in> set (record_events j)"
  shows "(a = Start \<or> a = FinishUnstarted \<longrightarrow> (\<exists>s \<le> t. (s, Submit, k) \<in> set (record_events j))) \<and>
    (a = Finish \<longrightarrow> (\<exists>s \<le> t. (s, Start, k) \<in> set (record_events j)))"
  using assms by (auto simp: record_events_def record_ok_def split: option.splits if_splits)

lemma records_well_formed:
  assumes "list_all record_ok js" and "distinct (map tj_key js)"
  shows "well_formed (concat (map record_events js))"
proof -
  have "distinct (map slot (concat (map record_events js)))"
    using assms(2)
  proof (induction js)
    case (Cons j js)
    have "slot x \<noteq> slot y" if xj: "x \<in> set (record_events j)" and yjs: "y \<in> set (concat (map record_events js))" for x y
    proof -
      obtain t a k where x: "x = (t, a, k)" by (metis surj_pair)
      obtain u b l where y: "y = (u, b, l)" by (metis surj_pair)
      obtain i where "i \<in> set js" "(u, b, l) \<in> set (record_events i)" using yjs y by auto
      then show ?thesis using xj x y record_events_key Cons.prems by (fastforce simp: slot_def)
    qed
    then have "slot ` set (record_events j) \<inter> slot ` set (concat (map record_events js)) = {}" by blast
    moreover have "distinct (map slot (concat (map record_events js)))" using Cons by simp
    ultimately show ?case using record_events_distinct [of j] by simp
  qed simp
  moreover have "(a = Start \<or> a = FinishUnstarted \<longrightarrow> (\<exists>s \<le> t. (s, Submit, k) \<in> set (concat (map record_events js)))) \<and>
      (a = Finish \<longrightarrow> (\<exists>s \<le> t. (s, Start, k) \<in> set (concat (map record_events js))))"
    if m: "(t, a, k) \<in> set (concat (map record_events js))" for t a k
  proof -
    obtain j where j: "j \<in> set js" "(t, a, k) \<in> set (record_events j)" using m by auto
    then have "set (record_events j) \<subseteq> set (concat (map record_events js))" by auto
    moreover have "record_ok j" using assms(1) j(1) by (simp add: list_all_iff)
    ultimately show ?thesis using record_events_need [OF _ j(2)] by blast
  qed
  ultimately show ?thesis unfolding well_formed_def by blast
qed

lemma well_formed_sort: "well_formed es \<Longrightarrow> well_formed (sort_key f es)"
proof -
  have "distinct (map slot (sort_key f es)) \<longleftrightarrow> distinct (map slot es)"
    by (metis mset_eq_imp_distinct_iff mset_map mset_sort)
  then show "well_formed (sort_key f es)" if "well_formed es" using that by (simp add: well_formed_def)
qed

text \<open>Replay of rows that make sense, under keys that differ.\<close>

lemma replay_ok:
  assumes "list_all record_ok js" and "distinct (map tj_key js)" and "tb_schema b = TRACE_SCHEMA" and "tb_sha b = hash (tb_jobs b)"
    and "tb_jobs b = js"
  shows "\<exists>r. replay_trace hash b = Inr r \<and> su_jobs r = length js \<and> su_completed r = length (filter is_counted js) \<and>
    su_max_active r \<le> length (filter (\<lambda>j. tj_started j \<noteq> None) js) \<and> su_spend r = sort_key fst (spend_by_currency js)"
proof -
  let ?es = "concat (map record_events js)" and ?s0 = "\<lparr>rp_submitted = [], rp_active = [], rp_max_active = 0\<rparr>"
  have "replay_inv ?s0 []" by (simp add: replay_inv_def)
  with replay_runs [of "[]" "sort_key event_key ?es" ?s0] well_formed_sort [OF records_well_formed [OF assms(1,2)]]
  obtain s where s: "replay_events ?s0 (sort_key event_key ?es) = Inr s" "replay_inv s (sort_key event_key ?es)" by auto
  have "length (filter (\<lambda>(t, a, k). a = Start) (sort_key event_key ?es)) = length (filter (\<lambda>(t, a, k). a = Start) ?es)"
    by (metis mset_filter mset_sort size_mset)
  moreover have "length (filter (\<lambda>(t, a, k). a = Start) ?es) = length (filter (\<lambda>j. tj_started j \<noteq> None) js)"
    by (induction js) (auto simp: record_events_def split: option.splits)
  ultimately have "rp_max_active s \<le> length (filter (\<lambda>j. tj_started j \<noteq> None) js)" using s(2) by (simp add: replay_inv_def)
  then show ?thesis using assms(3-5) s(1) by (simp add: replay_trace_def all_events_ok [OF assms(1)])
qed

lemma numbered_inj: "numbered p w m = numbered p w n \<Longrightarrow> m = n"
proof -
  assume "numbered p w m = numbered p w n"
  then have "read_digits 0 (pad_left w (show_nat m)) = read_digits 0 (pad_left w (show_nat n))" by (simp add: numbered_def)
  then show "m = n" by (simp add: pad_left_def read_zeros read_show_nat)
qed

lemma total_seconds_mono: "a \<le> b \<Longrightarrow> total_seconds a \<le> total_seconds b"
  by (simp add: total_seconds_def divide_right_mono)

lemma state_name_completed: "state_name s = ''COMPLETED'' \<longleftrightarrow> s = COMPLETED"
  by (cases s) simp_all

lemma trace_record_ok: "times_ok j \<Longrightarrow> record_ok (trace_record st jobs epoch i j)"
  by (auto simp: times_ok_def record_ok_def trace_record_def offset_seconds_def state_name_completed total_seconds_mono
      split: option.splits)

text \<open>Sums over a dictionary that is added to.\<close>

lemma sum_added:
  assumes "distinct (map fst d)"
  shows "sum_list (map snd (add_to k x d)) = sum_list (map snd d) + x \<and> distinct (map fst (add_to k x d))"
proof -
  have "sum_list (map snd (AList.update k (y + x) d)) = sum_list (map snd d) + x" if "map_of d k = Some y" "distinct (map fst d)" for d y
    using that
  proof (induction d)
    case (Cons p d)
    then show ?case by (cases p) (auto split: if_splits)
  qed simp
  moreover have "sum_list (map snd (AList.update k x d)) = sum_list (map snd d) + x" if "map_of d k = None" for d
    using that
  proof (induction d)
    case (Cons p d)
    then show ?case by (cases p) (auto split: if_splits)
  qed simp
  ultimately show ?thesis using assms by (auto simp: add_to_def distinct_update split: option.splits)
qed

lemma sum_spend: "sum_list (map snd (spend_by_currency js)) = (\<Sum>j\<leftarrow>js. tj_spent j)"
proof -
  have "sum_list (map snd (foldl (\<lambda>d j. add_to (tj_currency j) (tj_spent j) d) d js)) = sum_list (map snd d) + (\<Sum>j\<leftarrow>js. tj_spent j)"
    if "distinct (map fst d)" for d
    using that
  proof (induction js arbitrary: d)
    case (Cons j js)
    then show ?case using sum_added [OF Cons.prems, of "tj_currency j" "tj_spent j"] by simp
  qed simp
  then show ?thesis by (simp add: spend_by_currency_def)
qed

lemma sum_list_mset: "mset xs = mset ys \<Longrightarrow> (\<Sum>x\<leftarrow>xs. (f x :: real)) = (\<Sum>x\<leftarrow>ys. f x)"
  by (metis mset_map sum_mset_sum_list)

lemma filter_count_mset: "mset xs = mset ys \<Longrightarrow> length (filter P xs) = length (filter P ys)"
  by (metis mset_filter size_mset)

text \<open>
  C19. What is exported can be replayed. The bundle exported from a store whose jobs have sensible times passes
  every check of the replay, which then accounts for every job: it counts them all and those that completed,
  never has more jobs active at once than ever started, and its spending adds up to what the ledger charged
  the jobs.
\<close>

theorem exported_trace_replays:
  assumes "export_trace hash st = Inr b" and "list_all times_ok (list_jobs st None None None)"
  shows "\<exists>r. replay_trace hash b = Inr r \<and> su_jobs r = length (list_jobs st None None None) \<and>
    su_completed r = length (filter (\<lambda>j. j_state j = COMPLETED \<and> j_finished_at j \<noteq> None) (list_jobs st None None None)) \<and>
    su_max_active r \<le> length (filter (\<lambda>j. j_started_at j \<noteq> None) (list_jobs st None None None)) \<and>
    sum_list (map snd (su_spend r)) = (\<Sum>j\<leftarrow>list_jobs st None None None. job_spend st (j_id j))"
proof -
  let ?o = "sort_key (\<lambda>j. (j_submitted_at j, j_id j)) (list_jobs st None None None)"
  let ?r = "\<lambda>(i, j). trace_record st (list_jobs st None None None) (j_submitted_at (hd ?o)) i j"
  let ?js = "map ?r (enumerate 1 ?o)"
  have b: "b = \<lparr>tb_schema = TRACE_SCHEMA, tb_jobs = ?js, tb_sha = hash ?js\<rparr>"
    using assms(1) by (simp add: export_trace_def Let_def split: if_splits)
  have sec: "map snd (enumerate 1 ?o) = ?o" by simp
  have ok: "list_all record_ok ?js"
  proof -
    have "times_ok j" if "(i, j) \<in> set (enumerate 1 ?o)" for i j
    proof -
      have "j \<in> set (map snd (enumerate 1 ?o))" unfolding set_map by (rule rev_image_eqI [OF that]) simp
      then show ?thesis unfolding sec using assms(2) by (simp add: list_all_iff)
    qed
    then show ?thesis by (auto simp: list_all_iff trace_record_ok)
  qed
  have "map tj_key ?js = map (numbered ''job-'' 5) (map fst (enumerate 1 ?o))"
    unfolding map_map by (rule map_cong) (auto simp: trace_record_def)
  moreover have "distinct (map fst (enumerate 1 ?o))" by simp
  ultimately have keys: "distinct (map tj_key ?js)" by (simp only: distinct_map) (auto simp: inj_on_def dest: numbered_inj)
  obtain r where r: "replay_trace hash b = Inr r" "su_jobs r = length ?js" "su_completed r = length (filter is_counted ?js)"
    "su_max_active r \<le> length (filter (\<lambda>j. tj_started j \<noteq> None) ?js)" "su_spend r = sort_key fst (spend_by_currency ?js)"
    using replay_ok [OF ok keys, of b hash] b by auto
  have count: "length (filter P ?js) = length (filter Q (list_jobs st None None None))" if "\<And>i j. P (?r (i, j)) = Q j" for P Q
  proof -
    have "length (filter P ?js) = length (filter Q (map snd (enumerate 1 ?o)))"
      unfolding filter_map length_map using that by (auto intro!: arg_cong [where f = length] filter_cong)
    then show ?thesis using filter_count_mset [of ?o "list_jobs st None None None" Q] by simp
  qed
  have "su_jobs r = length (list_jobs st None None None)" using r(2) by simp
  moreover have "su_completed r = length (filter (\<lambda>j. j_state j = COMPLETED \<and> j_finished_at j \<noteq> None) (list_jobs st None None None))"
    unfolding r(3) by (rule count) (auto simp: is_counted_def trace_record_def offset_seconds_def state_name_completed)
  moreover have "su_max_active r \<le> length (filter (\<lambda>j. j_started_at j \<noteq> None) (list_jobs st None None None))"
    using r(4) count [of "\<lambda>j. tj_started j \<noteq> None" "\<lambda>j. j_started_at j \<noteq> None"] by (simp add: trace_record_def offset_seconds_def)
  moreover have "sum_list (map snd (su_spend r)) = (\<Sum>j\<leftarrow>list_jobs st None None None. job_spend st (j_id j))"
  proof -
    have "sum_list (map snd (su_spend r)) = (\<Sum>j\<leftarrow>?js. tj_spent j)"
      unfolding r(5) by (simp only: sum_list_mset [OF mset_sort] sum_spend)
    also have "\<dots> = (\<Sum>j\<leftarrow>map snd (enumerate 1 ?o). job_spend st (j_id j))"
      unfolding map_map by (rule arg_cong [where f = sum_list], rule map_cong) (auto simp: trace_record_def)
    also have "\<dots> = (\<Sum>j\<leftarrow>list_jobs st None None None. job_spend st (j_id j))" unfolding sec by (rule sum_list_mset) simp
    finally show ?thesis .
  qed
  ultimately show ?thesis using r(1) by blast
qed

definition demo_trace_job :: "string \<Rightarrow> moment \<Rightarrow> moment option \<Rightarrow> moment option \<Rightarrow> job_state \<Rightarrow> job" where
  "demo_trace_job jid submitted started finished s =
     \<lparr>j_id = jid, j_user = ''ada'', j_command = ''train'', j_gpu_type = ''t4'', j_requested_hours = 1, j_currency = USD,
      j_reserved = 1, j_state = s, j_submitted_at = submitted, j_updated_at = submitted, j_backend = None, j_handle = None,
      j_started_at = started, j_finished_at = finished, j_exit_code = None, j_refusal_reason = None, j_logs_fetched = 0,
      j_attempts = 1, j_preemptions = 0, j_pinned_tier = None, j_checkpoint_step = None, j_checkpoint_key = None,
      j_checkpoint_at = None, j_environment = None, j_cancel_requested = None, j_origin = ''seeded''\<rparr>"

definition demo_trace_store :: store where
  "demo_trace_store = (empty_store 900 (default_config (\<lambda>_. 0)))\<lparr>st_jobs :=
     [demo_trace_job ''b'' 5 (Some 7) (Some 9) COMPLETED, demo_trace_job ''a'' 1 (Some 2) None RUNNING,
      demo_trace_job ''c'' 3 None (Some 4) CANCELLED]\<rparr>"

theorem exported_trace_replays_witness:
  "\<exists>b r. export_trace (\<lambda>_. ''h'') demo_trace_store = Inr b \<and> replay_trace (\<lambda>_. ''h'') b = Inr r \<and> su_jobs r = 3 \<and> su_completed r = 1"
proof -
  have "filter is_operational (list_jobs demo_trace_store None None None) = []" "list_jobs demo_trace_store None None None \<noteq> []"
    by (simp_all add: demo_trace_store_def demo_trace_job_def is_operational_def list_jobs_def job_order_def)
  then obtain b where b: "export_trace (\<lambda>_. ''h'') demo_trace_store = Inr b" by (simp add: export_trace_def Let_def)
  have "list_all times_ok (list_jobs demo_trace_store None None None)" by (simp add: demo_trace_store_def demo_trace_job_def times_ok_def list_jobs_def)
  from exported_trace_replays [OF b this] b show ?thesis by (auto simp: demo_trace_store_def demo_trace_job_def list_jobs_def)
qed

end
