(* ===== verification/Telemetry.thy ===== *)
theory Telemetry
  imports Metrics Admission PyText "HOL-Library.AList"
begin

text \<open>
  The reads of \<^verbatim>\<open>gpu_broker/metrics.py\<close> that the web pages make: the newest value of each series, the series in
  equal time buckets, and the text that Prometheus scrapes.
\<close>

subsection \<open>Labels\<close>

definition decode_labels :: "string \<Rightarrow> (string \<times> string) list" where
  "decode_labels raw =
     foldl (\<lambda>d part. if CHR ''='' \<in> set part
        then (case partition_at (CHR ''='') part of (k, v) \<Rightarrow> AList.update k v d) else d) [] (split_at (CHR '','') [] raw)"

text \<open>Labels without the separators in them come back.\<close>

definition label_ok :: "string \<times> string \<Rightarrow> bool" where
  "label_ok kv \<longleftrightarrow> CHR '','' \<notin> set (fst kv) \<and> CHR ''='' \<notin> set (fst kv) \<and> CHR '','' \<notin> set (snd kv)"

definition joined_labels :: "(string \<times> string) list \<Rightarrow> string" where
  "joined_labels labels = join_with '','' (map (\<lambda>(k, v). k @ ''='' @ v) labels)"

lemma encode_joined: "encode_labels labels = joined_labels (sort labels)"
proof -
  have tail: "concat (map (\<lambda>(i, k, v). (if i = 0 then '''' else '','') @ k @ ''='' @ v) (enumerate n ls)) =
      concat (map (\<lambda>(k, v). '','' @ k @ ''='' @ v) ls)" if "0 < n" for n and ls :: "(string \<times> string) list"
    using that by (induction ls arbitrary: n) auto
  have join: "joined_labels (l # ls) = (case l of (k, v) \<Rightarrow> k @ ''='' @ v) @ concat (map (\<lambda>(k, v). '','' @ k @ ''='' @ v) ls)"
    for l and ls :: "(string \<times> string) list"
    by (induction ls arbitrary: l) (auto simp: joined_labels_def split: prod.splits)
  show ?thesis
  proof (cases "sort labels")
    case Nil
    then show ?thesis by (simp add: encode_labels_def joined_labels_def)
  next
    case (Cons l ls)
    then show ?thesis using tail [of 1 ls] by (simp add: encode_labels_def join split_def)
  qed
qed

lemma split_at_plain: "CHR '','' \<notin> set s \<Longrightarrow> split_at (CHR '','') acc (s @ rest) =
    split_at (CHR '','') (rev s @ acc) rest"
  by (induction s arbitrary: acc) auto

lemma split_joined: "list_all (\<lambda>x. CHR '','' \<notin> set x) xs \<Longrightarrow> xs \<noteq> [] \<Longrightarrow> split_at (CHR '','') [] (join_with '','' xs) = xs"
proof (induction xs rule: induct_list012)
  case (2 x)
  then show ?case using split_at_plain [of x "[]" "[]"] by simp
next
  case (3 x y zs)
  then show ?case by (simp add: split_at_plain)
qed simp

lemma update_new_key: "k \<notin> fst ` set d \<Longrightarrow> AList.update k v d = d @ [(k, v)]"
  by (induction d) auto

lemma labels_round_trip:
  assumes "list_all label_ok labels" and "distinct (map fst labels)"
  shows "decode_labels (encode_labels labels) = sort labels"
proof -
  let ?ls = "sort labels"
  have ok: "list_all label_ok ?ls" "distinct (map fst ?ls)"
    using assms by (simp_all add: list_all_iff) (metis mset_eq_imp_distinct_iff mset_map mset_sort)
  have part: "partition_at (CHR ''='') (k @ ''='' @ v) = (k, v)" if "CHR ''='' \<notin> set k" for k v :: string
    using that by (simp add: partition_at_def takeWhile_append dropWhile_append)
  have fold: "foldl (\<lambda>d part. if CHR ''='' \<in> set part
        then (case partition_at (CHR ''='') part of (k, v) \<Rightarrow> AList.update k v d) else d) d (map (\<lambda>(k, v). k @ ''='' @ v) ls) = d @ ls"
    if "list_all label_ok ls" "distinct (map fst (d @ ls))" for d ls
    using that
  proof (induction ls arbitrary: d)
    case (Cons l ls)
    obtain k v where l: "l = (k, v)" by fastforce
    have "k \<notin> fst ` set d" "CHR ''='' \<notin> set k" using Cons.prems by (auto simp: l label_ok_def)
    then show ?case using Cons.IH [of "d @ [(k, v)]"] Cons.prems part [of k v] update_new_key [of k d v] by (simp add: l)
  qed simp
  show ?thesis
  proof (cases "?ls = []")
    case True
    then show ?thesis by (simp add: encode_joined joined_labels_def decode_labels_def partition_at_def)
  next
    case False
    have "list_all (\<lambda>x. CHR '','' \<notin> set x) (map (\<lambda>(k, v). k @ ''='' @ v) ?ls)" using ok(1) by (auto simp: list_all_iff label_ok_def)
    from split_joined [OF this] False show ?thesis using fold [of ?ls "[]"] ok
      by (simp add: encode_joined joined_labels_def decode_labels_def)
  qed
qed

subsection \<open>The newest values\<close>

text \<open>A row is the newest of its series when no later row has its name and labels.\<close>

fun newest_rows :: "string \<Rightarrow> metric_row list \<Rightarrow> metric_row list" where
  "newest_rows name [] = []"
| "newest_rows name (m # ms) =
     (if mt_name m = name \<and> \<not> list_ex (\<lambda>r. mt_name r = name \<and> mt_labels r = mt_labels m) ms
      then m # newest_rows name ms else newest_rows name ms)"

text \<open>\<open>stale_after\<close> is a duration in microseconds.\<close>

definition latest_points :: "store \<Rightarrow> string \<Rightarrow> int option \<Rightarrow> metric_row list" where
  "latest_points st name stale_after =
     sort_key mt_labels (filter (\<lambda>m. case stale_after of None \<Rightarrow> True | Some d \<Rightarrow> st_now st - d \<le> mt_at m)
       (newest_rows name (st_metrics st)))"

definition peak :: "store \<Rightarrow> string \<Rightarrow> moment \<Rightarrow> pyfloat option" where
  "peak st name since =
     (case map mt_value (metric_series st name (Some since) None) of [] \<Rightarrow> None | x # xs \<Rightarrow> Some (foldl max x xs))"

subsection \<open>Buckets\<close>

definition bucket_of :: "moment \<Rightarrow> moment \<Rightarrow> nat \<Rightarrow> moment \<Rightarrow> nat" where
  "bucket_of since until buckets t =
     nat (min (max (py_int (total_seconds (t - since) / total_seconds (until - since) * of_nat buckets)) 0) (int buckets - 1))"

definition mean_of :: "pyfloat list \<Rightarrow> pyfloat option" where
  "mean_of xs = (if xs = [] then None else Some (sum_list xs / of_nat (length xs)))"

text \<open>The two arrays of sums and counts are, for each index, the sum and the number of the points that fall there.\<close>

definition bucketed :: "store \<Rightarrow> string \<Rightarrow> moment \<Rightarrow> moment \<Rightarrow> nat \<Rightarrow> pyfloat option list" where
  "bucketed st name since until buckets =
     (if total_seconds (until - since) \<le> 0 \<or> buckets < 1 then []
      else map (\<lambda>i. mean_of (map mt_value (filter (\<lambda>m. bucket_of since until buckets (mt_at m) = i)
                  (metric_series st name (Some since) None)))) [0..<buckets])"

lemma bucket_in_range: "0 < buckets \<Longrightarrow> bucket_of since until buckets t < buckets"
  by (simp add: bucket_of_def)

text \<open>Every point is in one bucket.\<close>

lemma buckets_cover:
  assumes "0 < buckets"
  shows "(\<Sum>i\<leftarrow>[0..<buckets]. length (filter (\<lambda>m. bucket_of since until buckets (mt_at m) = i) ms)) = length ms"
proof (induction ms)
  case (Cons m ms)
  let ?b = "\<lambda>m. bucket_of since until buckets (mt_at m)"
  have one: "(\<Sum>i\<leftarrow>[0..<buckets]. if ?b m = i then 1 else 0 :: nat) = 1"
    using bucket_in_range [OF assms, of since until "mt_at m"] by (simp add: sum_list_distinct_conv_sum_set)
  have "(\<Sum>i\<leftarrow>[0..<buckets]. length (filter (\<lambda>m. ?b m = i) (m # ms))) =
      (\<Sum>i\<leftarrow>[0..<buckets]. (if ?b m = i then 1 else 0) + length (filter (\<lambda>m. ?b m = i) ms))"
    by (rule arg_cong [where f = sum_list], rule map_cong) auto
  also have "\<dots> = 1 + length ms" unfolding sum_list_addf one Cons by (rule refl)
  finally show ?case by simp
qed simp

subsection \<open>The scrape\<close>

definition metric_help :: "(string \<times> string \<times> string) list" where
  "metric_help =
     [(''queue_depth'', ''gauge'', ''Jobs waiting for capacity''),
      (''queue_depth_by_gpu'', ''gauge'', ''Jobs waiting, by GPU type''),
      (''running_jobs'', ''gauge'', ''Jobs holding capacity''),
      (''head_wait_hours'', ''gauge'', ''Hours the longest-waiting queued job has waited''),
      (''free_slots'', ''gauge'', ''Free slots, by GPU type''),
      (''gpu_utilization_percent'', ''gauge'', ''Recent GPU utilization of a running job, percent''),
      (''spend_total'', ''counter'', ''Spent this billing period''),
      (''pool_remaining'', ''gauge'', ''Pool budget not yet committed'')]"

definition escape_label :: "string \<Rightarrow> string" where
  "escape_label v =
     concat (map (\<lambda>c. if code c = 92 then [c, c] else if code c = 34 then [CHR 0x5C, c] else if code c = 10 then '' '' else [c]) v)"

definition scrape_line :: "string \<Rightarrow> metric_row \<Rightarrow> string" where
  "scrape_line metric m =
     (let labels = rev (dropWhile (\<lambda>c. c = CHR '','')
            (rev (concat (map (\<lambda>(k, v). k @ ''='' @ [CHR 0x22] @ escape_label v @ [CHR 0x22] @ '','') (sort (decode_labels (mt_labels m)))))))
      in metric @ (if labels = [] then [] else ''{'' @ labels @ ''}'') @ '' '' @ show_general (mt_value m))"

definition prometheus :: "store \<Rightarrow> int option \<Rightarrow> string" where
  "prometheus st stale_after =
     join_with [CHR 0x0A]
       (concat (map (\<lambda>(name, kind, help).
          let points = latest_points st name stale_after; metric = ''gpu_broker_'' @ name
          in if points = [] then []
             else [''# HELP '' @ metric @ '' '' @ help, ''# TYPE '' @ metric @ '' '' @ kind] @ map (scrape_line metric) points)
          metric_help)) @ [CHR 0x0A]"

text \<open>A series nobody has written to for the given time is not published.\<close>

lemma scraped_are_fresh: "m \<in> set (latest_points st name (Some d)) \<Longrightarrow> st_now st - d \<le> mt_at m \<and> mt_name m = name"
proof -
  have "m \<in> set (newest_rows name ms) \<Longrightarrow> mt_name m = name" for ms by (induction ms) (auto split: if_splits)
  then show "m \<in> set (latest_points st name (Some d)) \<Longrightarrow> st_now st - d \<le> mt_at m \<and> mt_name m = name" by (auto simp: latest_points_def)
qed

end
