(* ===== verification/Report.thy ===== *)
theory Report
  imports Environments Broker
begin

text \<open>
  \<^verbatim>\<open>gpu_broker/report.py\<close>: the measurement report, computed from the jobs, the ledger and the samples, and its
  rendering.
\<close>

subsection \<open>The numbers\<close>

definition SELF_LAUNCH_MINUTES :: pyfloat where
  "SELF_LAUNCH_MINUTES = 3"

record adoption =
  ad_distinct_users :: nat
  ad_repeat_users :: nat
  ad_submitted :: nat
  ad_completed :: nat
  ad_refused :: nat
  ad_dollars_spent :: decimal
  ad_gpu_hours_spent :: decimal
  ad_dollars_reclaimed :: decimal

definition rate :: "nat \<Rightarrow> nat \<Rightarrow> pyfloat option" where
  "rate part whole = (if whole = 0 then None else Some (of_nat part / of_nat whole))"

definition repeat_rate :: "adoption \<Rightarrow> pyfloat option" where
  "repeat_rate a = rate (ad_repeat_users a) (ad_distinct_users a)"

definition completion_rate :: "adoption \<Rightarrow> pyfloat option" where
  "completion_rate a = rate (ad_completed a) (ad_submitted a)"

record efficiency =
  ef_paid :: pyfloat
  ef_useful :: pyfloat
  ef_dollars :: decimal

definition dollars_per :: "decimal \<Rightarrow> pyfloat \<Rightarrow> decimal option" where
  "dollars_per dollars hours = (if hours \<le> 0 then None else Some (quantize (dollars / money hours) USD))"

definition dollars_per_useful_hour :: "efficiency \<Rightarrow> decimal option" where
  "dollars_per_useful_hour e = dollars_per (ef_dollars e) (ef_useful e)"

definition dollars_per_paid_hour :: "efficiency \<Rightarrow> decimal option" where
  "dollars_per_paid_hour e = dollars_per (ef_dollars e) (ef_paid e)"

definition ef_fraction :: "efficiency \<Rightarrow> pyfloat option" where
  "ef_fraction e = (if ef_paid e \<le> 0 then None else Some (ef_useful e / ef_paid e))"

record work_lost =
  wl_lost :: "string list"
  wl_hours_redone :: pyfloat
  wl_jobs_redone :: nat
  wl_reclaimed_hours :: pyfloat
  wl_reclaimed_useful :: pyfloat
  wl_jobs_reclaimed :: nat

definition lost_zero :: "work_lost \<Rightarrow> bool" where
  "lost_zero w = (wl_lost w = [] \<and> wl_reclaimed_useful w = 0)"

record where_it_loses =
  wi_startup_mean :: pyfloat
  wi_startup_dollars :: decimal
  wi_longer :: nat
  wi_measured :: nat
  wi_worst_hours :: pyfloat
  wi_worst_user :: string
  wi_penalty_hours :: pyfloat
  wi_heavy_user :: string

definition wait_penalty_rate :: "where_it_loses \<Rightarrow> pyfloat option" where
  "wait_penalty_rate w = rate (wi_longer w) (wi_measured w)"

record report =
  rp_generated_at :: moment
  rp_since :: moment
  rp_adoption :: adoption
  rp_efficiency :: efficiency
  rp_lost :: work_lost
  rp_loses :: where_it_loses
  rp_baseline :: "baseline_row list"
  rp_idle_threshold :: pyfloat

definition not_refused :: "job \<Rightarrow> bool" where
  "not_refused j = (j_state j \<noteq> REFUSED)"

definition in_state :: "job_state \<Rightarrow> job \<Rightarrow> bool" where
  "in_state s j = (j_state j = s)"

definition count_where :: "('a \<Rightarrow> bool) \<Rightarrow> 'a list \<Rightarrow> nat" where
  "count_where P xs = length (filter P xs)"

definition spent_in :: "store \<Rightarrow> currency \<Rightarrow> job list \<Rightarrow> decimal" where
  "spent_in st cur jobs = (\<Sum>j\<leftarrow>filter (\<lambda>j. j_currency j = cur) jobs. job_spend st (j_id j))"

definition returned_dollars :: "store \<Rightarrow> job list \<Rightarrow> decimal" where
  "returned_dollars st jobs =
     (\<Sum>j\<leftarrow>filter (\<lambda>j. j_state j = RECLAIMED \<and> j_currency j = USD) jobs. max 0 (j_reserved j - job_spend st (j_id j)))"

definition users_of :: "job list \<Rightarrow> string list" where
  "users_of jobs = remdups (map j_user jobs)"

definition adoption_of :: "store \<Rightarrow> job list \<Rightarrow> adoption" where
  "adoption_of st jobs =
     (let real = filter not_refused jobs
      in \<lparr>ad_distinct_users = length (users_of real),
          ad_repeat_users = count_where (\<lambda>u. 1 < count_where (\<lambda>j. j_user j = u) real) (users_of real),
          ad_submitted = length real, ad_completed = count_where (in_state COMPLETED) jobs,
          ad_refused = count_where (in_state REFUSED) jobs, ad_dollars_spent = spent_in st USD jobs,
          ad_gpu_hours_spent = spent_in st GPU_HOUR jobs, ad_dollars_reclaimed = quantize (returned_dollars st jobs) USD\<rparr>)"

definition useful_fraction :: "store \<Rightarrow> string \<Rightarrow> pyfloat option" where
  "useful_fraction st jid =
     (let samples = samples_for st jid None 10000
      in if samples = [] then None
         else Some (of_nat (count_where (\<lambda>s. c_idle_threshold_percent (st_cfg st) < sm_gpu_percent s) samples) / of_nat (length samples)))"

definition or_zero :: "pyfloat option \<Rightarrow> pyfloat" where
  "or_zero x = (case x of None \<Rightarrow> 0 | Some v \<Rightarrow> v)"

definition efficiency_of :: "store \<Rightarrow> job list \<Rightarrow> efficiency" where
  "efficiency_of st jobs =
     (let paid = filter (\<lambda>j. j_currency j = USD \<and> j_started_at j \<noteq> None) jobs
      in \<lparr>ef_paid = (\<Sum>j\<leftarrow>paid. elapsed_hours j (st_now st)),
          ef_useful = (\<Sum>j\<leftarrow>paid. elapsed_hours j (st_now st) * or_zero (useful_fraction st (j_id j))),
          ef_dollars = (\<Sum>j\<leftarrow>paid. job_spend st (j_id j))\<rparr>)"

definition is_lost :: "job \<Rightarrow> bool" where
  "is_lost j = (j_state j \<noteq> RECLAIMED \<and> j_preemptions j \<noteq> 0 \<and> j_state j \<noteq> COMPLETED \<and> is_terminal j)"

definition is_redone :: "job \<Rightarrow> bool" where
  "is_redone j = (j_preemptions j \<noteq> 0 \<and> j_checkpoint_step j = None \<and> j_state j = COMPLETED)"

definition lost_of :: "store \<Rightarrow> job list \<Rightarrow> work_lost" where
  "lost_of st jobs =
     (let reclaimed = filter (in_state RECLAIMED) jobs; redone = filter is_redone jobs
      in \<lparr>wl_lost = map j_id (filter is_lost jobs),
          wl_hours_redone = (\<Sum>j\<leftarrow>redone. elapsed_hours j (st_now st)), wl_jobs_redone = length redone,
          wl_reclaimed_hours = (\<Sum>j\<leftarrow>reclaimed. elapsed_hours j (st_now st)),
          wl_reclaimed_useful = (\<Sum>j\<leftarrow>reclaimed. elapsed_hours j (st_now st) * or_zero (useful_fraction st (j_id j))),
          wl_jobs_reclaimed = length reclaimed\<rparr>)"

text \<open>From taking capacity to the first output: \<^const>\<open>None\<close> when the job never ran.\<close>

definition startup_overhead :: "store \<Rightarrow> job \<Rightarrow> pyfloat option" where
  "startup_overhead st j =
     (case j_started_at j of
        None \<Rightarrow> None
      | Some s \<Rightarrow>
          (case filter (\<lambda>t. tr_to t = RUNNING) (history st (j_id j)) of
             [] \<Rightarrow> None
           | t # _ \<Rightarrow> Some (max 0 (hours_of (tr_at t - s)))))"

fun startup_cost :: "store \<Rightarrow> job list \<Rightarrow> (error, decimal) result" where
  "startup_cost st [] = Inr 0"
| "startup_cost st (j # js) =
     (case startup_overhead st j of
        Some h \<Rightarrow>
          (if j_currency j = USD
           then (case config_gpu (st_cfg st) (j_gpu_type j) of
                   Inl e \<Rightarrow> Inl e
                 | Inr g \<Rightarrow> (case startup_cost st js of Inl e \<Rightarrow> Inl e | Inr c \<Rightarrow> Inr (g_hourly_price g * money h + c)))
           else startup_cost st js)
      | None \<Rightarrow> startup_cost st js)"

text \<open>The first of the largest, as a loop with a strict comparison finds it.\<close>

definition worst_wait :: "moment \<Rightarrow> job list \<Rightarrow> pyfloat \<times> string" where
  "worst_wait now jobs =
     foldl (\<lambda>(w, u) j. if w < wait_hours j now then (wait_hours j now, j_user j) else (w, u)) (0, []) jobs"

definition total_wait :: "moment \<Rightarrow> job list \<Rightarrow> string \<Rightarrow> pyfloat" where
  "total_wait now jobs uid = (\<Sum>j\<leftarrow>filter (\<lambda>j. j_user j = uid) jobs. wait_hours j now)"

text \<open>Users in the order of their first job.\<close>

definition users_in_order :: "job list \<Rightarrow> string list" where
  "users_in_order jobs = rev (remdups (rev (map j_user jobs)))"

definition heaviest :: "moment \<Rightarrow> job list \<Rightarrow> string" where
  "heaviest now jobs =
     (case users_in_order jobs of
        [] \<Rightarrow> []
      | u # us \<Rightarrow> foldl (\<lambda>best v. if total_wait now jobs best < total_wait now jobs v then v else best) u us)"

definition loses_of :: "store \<Rightarrow> job list \<Rightarrow> (error, where_it_loses) result" where
  "loses_of st jobs =
     (let real = filter not_refused jobs; now = st_now st;
          startups = concat (map (\<lambda>j. case startup_overhead st j of Some h \<Rightarrow> [h] | None \<Rightarrow> []) real)
      in case startup_cost st real of
           Inl e \<Rightarrow> Inl e
         | Inr cost \<Rightarrow>
             Inr \<lparr>wi_startup_mean = (if startups = [] then 0 else sum_list startups / of_nat (length startups)),
                  wi_startup_dollars = quantize cost USD,
                  wi_longer = count_where (\<lambda>j. SELF_LAUNCH_MINUTES / 60 < wait_hours j now) real, wi_measured = length real,
                  wi_worst_hours = fst (worst_wait now real), wi_worst_user = snd (worst_wait now real),
                  wi_penalty_hours = (if real = [] then 0 else total_wait now real (heaviest now real)),
                  wi_heavy_user = heaviest now real\<rparr>)"

definition baselines :: "store \<Rightarrow> baseline_row list" where
  "baselines st = sort_key bl_period (st_baseline st)"

definition build_report :: "store \<Rightarrow> moment option \<Rightarrow> (error, report) result" where
  "build_report st since0 =
     (let since = (case since0 of Some t \<Rightarrow> t | None \<Rightarrow> st_now st - timedelta_days 90);
          jobs = filter (\<lambda>j. since \<le> j_submitted_at j) (list_jobs st None None None)
      in case loses_of st jobs of
           Inl e \<Rightarrow> Inl e
         | Inr loses \<Rightarrow>
             Inr \<lparr>rp_generated_at = st_now st, rp_since = since, rp_adoption = adoption_of st jobs,
                  rp_efficiency = efficiency_of st jobs, rp_lost = lost_of st jobs, rp_loses = loses,
                  rp_baseline = baselines st, rp_idle_threshold = c_idle_threshold_percent (st_cfg st)\<rparr>)"

end
