(* ===== verification/Digest.thy ===== *)
theory Digest
  imports Report Forecast Json Dispatch
begin

text \<open>
  \<^verbatim>\<open>gpu_broker/digest.py\<close>: the weekly note to the club and its rendering, sending it to a webhook, and the spend before
  the broker, read from Cost Explorer. The webhook and the Cost Explorer client are parameters.
\<close>

subsection \<open>The numbers\<close>

record user_line =
  ul_user :: string
  ul_jobs :: nat
  ul_dollars :: decimal
  ul_gpu_hours :: decimal
  ul_useful :: "pyfloat option"

record weekly =
  wk_since :: moment
  wk_until :: moment
  wk_users :: "user_line list"
  wk_jobs_run :: nat
  wk_jobs_failed :: nat
  wk_reclaimed_jobs :: nat
  wk_reclaimed_dollars :: decimal
  wk_forecasts :: "outlook list"
  wk_idle_now :: nat
  wk_new_users :: "string list"

definition quiet :: "weekly \<Rightarrow> bool" where
  "quiet d = (wk_jobs_run d = 0)"

definition busy_fraction :: "store \<Rightarrow> string \<Rightarrow> pyfloat list" where
  "busy_fraction st jid =
     (let samples = samples_for st jid None 5000
      in if samples = [] then []
         else [of_nat (count_where (\<lambda>s. c_idle_threshold_percent (st_cfg st) < sm_gpu_percent s) samples) / of_nat (length samples)])"

definition user_line_of :: "store \<Rightarrow> job list \<Rightarrow> string \<Rightarrow> user_line" where
  "user_line_of st jobs uid =
     (let theirs = filter (\<lambda>j. j_user j = uid) jobs; fractions = concat (map (\<lambda>j. busy_fraction st (j_id j)) theirs)
      in \<lparr>ul_user = uid, ul_jobs = length theirs, ul_dollars = quantize (spent_in st USD theirs) USD,
          ul_gpu_hours = quantize (spent_in st GPU_HOUR theirs) GPU_HOUR,
          ul_useful = (if fractions = [] then None else Some (sum_list fractions / of_nat (length fractions)))\<rparr>)"

definition line_order :: "user_line \<Rightarrow> decimal \<times> int \<times> string" where
  "line_order l = (- ul_dollars l, - int (ul_jobs l), ul_user l)"

definition build_digest :: "store \<Rightarrow> pyfloat \<Rightarrow> (error, weekly) result" where
  "build_digest st days =
     (let since = st_now st - timedelta_days days;
          jobs = filter (\<lambda>j. since \<le> j_submitted_at j) (list_jobs st None None None);
          real = filter not_refused jobs
      in case (forecast st USD, forecast st GPU_HOUR, candidates st (st_cfg st)) of
           (Inl e, _) \<Rightarrow> Inl e
         | (_, Inl e, _) \<Rightarrow> Inl e
         | (_, _, Inl e) \<Rightarrow> Inl e
         | (Inr f1, Inr f2, Inr idle) \<Rightarrow>
             Inr \<lparr>wk_since = since, wk_until = st_now st,
                  wk_users = sort_key line_order (map (user_line_of st real) (users_in_order real)),
                  wk_jobs_run = length real, wk_jobs_failed = count_where (in_state FAILED) jobs,
                  wk_reclaimed_jobs = count_where (in_state RECLAIMED) jobs,
                  wk_reclaimed_dollars = quantize (returned_dollars st jobs) USD, wk_forecasts = [f1, f2],
                  wk_idle_now = length idle,
                  wk_new_users = sort (map u_id (filter (\<lambda>u. since \<le> u_created_at u) (list_users st)))\<rparr>)"

subsection \<open>The note\<close>

definition month_names :: "string list" where
  "month_names = [''Jan'', ''Feb'', ''Mar'', ''Apr'', ''May'', ''Jun'', ''Jul'', ''Aug'', ''Sep'', ''Oct'', ''Nov'', ''Dec'']"

text \<open>\<open>{t:%d %b}\<close>.\<close>

definition day_month :: "moment \<Rightarrow> string" where
  "day_month t =
     (case civil_date (t div 86400000000) of (y, m, d) \<Rightarrow> two_digits d @ '' '' @ month_names ! nat (m - 1))"

definition level_mark :: "forecast_level \<Rightarrow> string" where
  "level_mark l =
     (case l of LevelOK \<Rightarrow> [] | LevelWarning \<Rightarrow> '' :warning:'' | LevelCritical \<Rightarrow> '' :rotating_light:''
      | LevelExhausted \<Rightarrow> '' :rotating_light:'')"

definition user_text :: "user_line \<Rightarrow> string" where
  "user_text l =
     ''- **'' @ ul_user l @ ''**: '' @ join_with '', ''
       ([show_nat (ul_jobs l) @ '' job'' @ (if ul_jobs l = 1 then [] else ''s'')] @
        (if 0 < ul_dollars l then [fmt (ul_dollars l) USD] else []) @
        (if 0 < ul_gpu_hours l then [fmt (ul_gpu_hours l) GPU_HOUR] else []) @
        (case ul_useful l of None \<Rightarrow> [] | Some f \<Rightarrow> [show_fixed 0 (f * 100) @ ''% of it using the GPU'']))"

definition work_lines :: "weekly \<Rightarrow> string list" where
  "work_lines d =
     (if quiet d then [''Nobody ran anything this week.'', []]
      else [''**'' @ show_nat (wk_jobs_run d) @ '' job(s)**'' @
              (if wk_jobs_failed d \<noteq> 0 then '', '' @ show_nat (wk_jobs_failed d) @ '' failed'' else []), []] @
           map user_text (wk_users d) @ [[]])"

definition digest_lines :: "weekly \<Rightarrow> string list" where
  "digest_lines d =
     [''**GPU pool, '' @ day_month (wk_since d) @ '' to '' @ day_month (wk_until d) @ ''**'', []] @
     map (\<lambda>f. ''- '' @ headline f @ level_mark (fc_level f)) (wk_forecasts d) @ [[]] @
     work_lines d @
     (if wk_reclaimed_jobs d \<noteq> 0
      then [''Reclaimed '' @ show_nat (wk_reclaimed_jobs d) @ '' idle job(s), returning '' @
              fmt (wk_reclaimed_dollars d) USD @ '' to the pool.'', []] else []) @
     (if wk_idle_now d \<noteq> 0
      then [show_nat (wk_idle_now d) @ '' job(s) are holding a GPU without using it right now.'', []] else []) @
     (if wk_new_users d \<noteq> [] then [''New this week: '' @ join_with '', '' (wk_new_users d) @ ''. Welcome.'', []] else [])"

definition render_digest :: "weekly \<Rightarrow> string" where
  "render_digest d = join_with NL (digest_lines d)"

subsection \<open>Sending it\<close>

text \<open>The client posts a payload to an address and gives the status of the answer; \<open>url.split('/')[2]\<close> of an address
  that has two slashes in a row has a third part.\<close>

definition webhook_payload :: "string \<Rightarrow> string" where
  "webhook_payload body = ''{'' @ json_string ''text'' @ '': '' @ json_string body @ '', '' @ json_string ''content'' @ '': '' @ json_string body @ ''}''"

definition has_double_slash :: "string \<Rightarrow> bool" where
  "has_double_slash s = (\<exists>i<length s. take 2 (drop i s) = ''//'')"

definition send_digest ::
  "string \<Rightarrow> (string \<Rightarrow> string \<Rightarrow> 'n \<Rightarrow> (error, int) result \<times> 'n) \<Rightarrow> string \<Rightarrow> 'n \<Rightarrow> (error, string) result \<times> 'n"
where
  "send_digest webhook post body n =
     (if webhook = []
      then (Inl (BrokerError (BrokerText (''no digest_webhook in config.json. `gpu digest` prints it either way -- '' @
             ''paste it wherever the club actually talks''))), n)
      else
        (case post webhook (webhook_payload body) n of
           (Inl e, n') \<Rightarrow> (Inl e, n')
         | (Inr status, n') \<Rightarrow>
             (if status < 200 \<or> 300 \<le> status
              then (Inl (BrokerError (BrokerText (''the webhook rejected it: HTTP '' @ show_int status))), n')
              else (Inr (''posted to '' @ (if has_double_slash webhook then split_at (CHR ''/'') [] webhook ! 2 else webhook)), n'))))"

subsection \<open>The time before\<close>

text \<open>An entry of the answer: the start of its period, the cost and the usage, each possibly missing. The texts of
  infinities and of not-a-number count as malformed.\<close>

record cost_entry =
  ce_start :: "string option"
  ce_cost :: "string option"
  ce_usage :: "string option"

definition read_cost :: "cost_entry \<Rightarrow> (error, (string \<times> pyfloat \<times> decimal) option) result" where
  "read_cost c =
     (let period = take 7 (or_empty (ce_start c)); cost = (case ce_cost c of None \<Rightarrow> ''0'' | Some t \<Rightarrow> t);
          usage = (case ce_usage c of None \<Rightarrow> ''0'' | Some t \<Rightarrow> t)
      in case float_of_text cost of
           Fin dollars \<Rightarrow>
             (case (if usage = [] then Fin 0 else float_of_text usage) of
                Fin hours \<Rightarrow> Inr (if period \<noteq> [] then Some (period, hours, quantize dollars USD) else None)
              | _ \<Rightarrow> Inl (ValueError ''could not convert string to float''))
         | _ \<Rightarrow> Inl (PyException ''InvalidOperation'' []))"

fun read_costs :: "cost_entry list \<Rightarrow> (error, (string \<times> pyfloat \<times> decimal) list) result" where
  "read_costs [] = Inr []"
| "read_costs (c # cs) =
     (case read_cost c of
        Inl e \<Rightarrow> Inl e
      | Inr r \<Rightarrow> (case read_costs cs of Inl e \<Rightarrow> Inl e | Inr rs \<Rightarrow> Inr ((case r of None \<Rightarrow> [] | Some x \<Rightarrow> [x]) @ rs)))"

definition fetch_baseline ::
  "(string \<Rightarrow> string \<Rightarrow> string + cost_entry list) \<Rightarrow> string \<Rightarrow> string \<Rightarrow> (error, (string \<times> pyfloat \<times> decimal) list) result"
where
  "fetch_baseline client start_date end_date =
     (case client start_date end_date of
        Inl t \<Rightarrow> Inl (BrokerError (BrokerText (''could not read Cost Explorer: '' @ t @ ''. The IAM user needs '' @
                  ''ce:GetCostAndUsage, or put the baseline in by hand'')))
      | Inr entries \<Rightarrow> read_costs entries)"

text \<open>From the first day of the month in which the given number of times 31 days began.\<close>

definition refresh_baseline ::
  "(string \<Rightarrow> string \<Rightarrow> string + cost_entry list) \<Rightarrow> int \<Rightarrow> store \<Rightarrow> (error, string list) result \<times> store"
where
  "refresh_baseline client months st =
     (let start_date = take 8 (show_date (st_now st - 31 * months * 86400000000)) @ ''01''
      in case fetch_baseline client start_date (show_date (st_now st)) of
           Inl e \<Rightarrow> (Inl e, st)
         | Inr rows \<Rightarrow>
             (Inr (map fst rows), foldl (\<lambda>st (p, h, d). save_baseline st p h d ''cost-explorer'') st rows))"

subsection \<open>What the note says\<close>

lemma job_spend_whole_cents: "store_inv st \<Longrightarrow> whole_cents (job_spend st jid)"
proof -
  assume inv: "store_inv st"
  have "whole_cents (spend_delta (l_kind e) (l_amount e))" if "e \<in> set (st_ledger st)" for e
    using store_invD(4) [OF inv that] by (cases "l_kind e") simp_all
  then show ?thesis unfolding job_spend_def aggregate_sums snd_conv by (auto intro!: whole_cents_sum_list)
qed

lemma spent_in_whole_cents: "store_inv st \<Longrightarrow> whole_cents (spent_in st cur jobs)"
  unfolding spent_in_def by (rule whole_cents_sum_list) (auto simp: job_spend_whole_cents)

text \<open>Sums over the members add up to sums over the jobs.\<close>

lemma sum_by_group:
  fixes f :: "'a \<Rightarrow> 'b :: comm_monoid_add"
  assumes "finite S" and "g ` set xs \<subseteq> S"
  shows "(\<Sum>u\<in>S. \<Sum>x\<leftarrow>filter (\<lambda>x. g x = u) xs. f x) = (\<Sum>x\<leftarrow>xs. f x)"
  using assms(2)
proof (induction xs)
  case (Cons x xs)
  have "(\<Sum>u\<in>S. \<Sum>y\<leftarrow>filter (\<lambda>x. g x = u) (x # xs). f y) =
      (\<Sum>u\<in>S. (if u = g x then f x else 0) + (\<Sum>y\<leftarrow>filter (\<lambda>x. g x = u) xs. f y))"
    by (rule sum.cong) auto
  also have "\<dots> = f x + (\<Sum>y\<leftarrow>xs. f y)"
    unfolding sum.distrib using Cons assms(1) by (simp add: sum.delta')
  finally show ?case by simp
qed simp

lemma users_in_order_facts: "distinct (users_in_order jobs)" "set (users_in_order jobs) = j_user ` set jobs"
  by (simp_all add: users_in_order_def)

lemma sum_over_users:
  fixes f :: "job \<Rightarrow> 'b :: comm_monoid_add"
  shows "(\<Sum>u\<leftarrow>users_in_order jobs. \<Sum>j\<leftarrow>filter (\<lambda>j. j_user j = u) jobs. f j) = (\<Sum>j\<leftarrow>jobs. f j)"
  using sum_by_group [of "set (users_in_order jobs)" j_user jobs f] users_in_order_facts [of jobs]
  by (simp add: sum_list_distinct_conv_sum_set)

lemma spent_by_user:
  "(\<Sum>u\<leftarrow>users_in_order jobs. spent_in st cur (filter (\<lambda>j. j_user j = u) jobs)) = spent_in st cur jobs"
proof -
  have spent: "spent_in st cur js = (\<Sum>j\<leftarrow>js. if j_currency j = cur then job_spend st (j_id j) else 0)" for js
    by (simp add: spent_in_def sum_list_map_filter')
  show ?thesis unfolding spent by (rule sum_over_users)
qed

lemma count_split:
  assumes "\<And>x. P x \<Longrightarrow> R x \<and> \<not> Q x" and "\<And>x. Q x \<Longrightarrow> R x"
  shows "count_where P xs + count_where Q xs \<le> length (filter R xs)"
proof (induction xs)
  case (Cons x xs)
  then show ?case using assms [of x] by (cases "P x"; cases "Q x") (auto simp: count_where_def)
qed (simp add: count_where_def)

lemma sum_list_same: "mset xs = mset ys \<Longrightarrow> sum_list (map f xs) = (sum_list (map f ys) :: 'b :: comm_monoid_add)"
  by (metis mset_map sum_mset_sum_list)

text \<open>
  C33. The note adds up. On a consistent store, every member who ran something has one line, the lines are in the order
  of what was spent, their job counts add up to the jobs that were run, their dollars and their GPU hours to
  exactly what the ledger charged for those jobs, and failed and reclaimed jobs are among them.
\<close>

theorem digest_adds_up:
  assumes "store_inv st" and "build_digest st days = Inr d"
  shows "let real = filter not_refused (filter (\<lambda>j. wk_since d \<le> j_submitted_at j) (list_jobs st None None None))
    in distinct (map ul_user (wk_users d)) \<and> set (map ul_user (wk_users d)) = j_user ` set real \<and>
       sorted (map line_order (wk_users d)) \<and> sum_list (map ul_jobs (wk_users d)) = wk_jobs_run d \<and>
       sum_list (map ul_dollars (wk_users d)) = spent_in st USD real \<and>
       sum_list (map ul_gpu_hours (wk_users d)) = spent_in st GPU_HOUR real \<and>
       wk_jobs_failed d + wk_reclaimed_jobs d \<le> wk_jobs_run d"
proof -
  let ?jobs = "filter (\<lambda>j. wk_since d \<le> j_submitted_at j) (list_jobs st None None None)"
  let ?real = "filter not_refused ?jobs" and ?line = "user_line_of st (filter not_refused ?jobs)"
  have d: "wk_users d = sort_key line_order (map ?line (users_in_order ?real))" "wk_jobs_run d = length ?real"
    "wk_jobs_failed d = count_where (in_state FAILED) ?jobs" "wk_reclaimed_jobs d = count_where (in_state RECLAIMED) ?jobs"
    using assms(2) by (auto simp: build_digest_def Let_def split: sum.splits)
  have names: "map (ul_user \<circ> ?line) us = us" for us by (simp add: user_line_of_def Let_def comp_def)
  have perm: "mset (wk_users d) = mset (map ?line (users_in_order ?real))" by (simp add: d(1))
  have sums: "sum_list (map f (wk_users d)) = sum_list (map (f \<circ> ?line) (users_in_order ?real))" for f :: "user_line \<Rightarrow> 'b :: comm_monoid_add"
    using sum_list_same [OF perm, of f] by simp
  have "mset (map ul_user (wk_users d)) = mset (map ul_user (map ?line (users_in_order ?real)))"
    using arg_cong [OF perm, of "image_mset ul_user"] by (simp only: mset_map)
  then have "mset (map ul_user (wk_users d)) = mset (users_in_order ?real)" by (simp only: map_map names)
  then have users: "distinct (map ul_user (wk_users d))" "set (map ul_user (wk_users d)) = j_user ` set ?real"
    using users_in_order_facts by (metis mset_eq_imp_distinct_iff, metis set_mset_mset)
  have jobs: "sum_list (map ul_jobs (wk_users d)) = wk_jobs_run d"
    using sum_over_users [of "\<lambda>j. 1 :: nat" ?real]
    by (simp add: sums d(2) user_line_of_def Let_def comp_def sum_list_triv)
  have spent: "quantize (spent_in st cur js) cur = spent_in st cur js" for cur js
    by (simp add: spent_in_whole_cents [OF assms(1)])
  have "sum_list (map ul_dollars (wk_users d)) = spent_in st USD ?real"
    "sum_list (map ul_gpu_hours (wk_users d)) = spent_in st GPU_HOUR ?real"
    unfolding sums using spent_by_user [of st _ ?real] by (simp_all add: user_line_of_def Let_def comp_def spent)
  moreover have "wk_jobs_failed d + wk_reclaimed_jobs d \<le> wk_jobs_run d"
    unfolding d by (rule count_split) (auto simp: in_state_def not_refused_def)
  moreover have "sorted (map line_order (wk_users d))" by (simp add: d(1))
  ultimately show ?thesis using users jobs by (simp add: Let_def)
qed

text \<open>Nothing is sent without an address, and only a success counts.\<close>

lemma unsent_without_address: "\<exists>t. send_digest [] post body n = (Inl (BrokerError (BrokerText t)), n)"
  by (simp add: send_digest_def)

lemma sent_only_on_success:
  "send_digest webhook post body n = (Inr t, n') \<Longrightarrow>
     \<exists>status. post webhook (webhook_payload body) n = (Inr status, n') \<and> 200 \<le> status \<and> status < 300"
  by (auto simp: send_digest_def split: if_splits prod.splits sum.splits)

text \<open>On the store of a member with one queued job.\<close>

lemma demo_digest: "case build_digest demo_store 7 of Inr d \<Rightarrow> map ul_user (wk_users d) = [''ada''] | Inl _ \<Rightarrow> False"
  by code_simp

theorem digest_adds_up_witness:
  "\<exists>d. build_digest demo_store 7 = Inr d \<and> sum_list (map ul_jobs (wk_users d)) = wk_jobs_run d \<and> map ul_user (wk_users d) = [''ada'']"
proof -
  obtain d where d: "build_digest demo_store 7 = Inr d" "map ul_user (wk_users d) = [''ada'']"
    using demo_digest by (auto split: sum.splits)
  show ?thesis using digest_adds_up [OF demo_store_inv d(1)] d by (simp add: Let_def)
qed

end
