(* ===== verification/Markdown.thy ===== *)
theory Markdown
  imports Report Json Checkpoint
begin

text \<open>
  The document of the measurement report: \<open>markdown\<close> of \<^verbatim>\<open>gpu_broker/report.py\<close>, section by section, with the
  notes the report carries.
\<close>

definition percent :: "pyfloat option \<Rightarrow> string" where
  "percent f = show_fixed 0 (or_zero f * 100) @ ''%''"

definition unmeasured :: "string list" where
  "unmeasured =
     [''MPS overhead against exclusive access on the A6000. Two jobs sharing '' @
      ''one card is slower than one job having it, and by how much is not in '' @
      ''any record here -- it needs the same job run both ways on the real '' @ ''hardware and timed.'',
      ''Whether a member would actually have got an instance. Comparing a '' @
      ''queue wait against a self-launch assumes capacity and quota were '' @
      ''there, which on a fresh account they are not.'']"

definition report_notes :: "report \<Rightarrow> string list" where
  "report_notes r =
     [''Utilization is sampled, not continuous, so useful hours are the '' @
      ''sampled fraction above '' @ show_general (rp_idle_threshold r) @ ''% multiplied '' @ ''by billed time.'',
      ''Self-launch is assumed to take '' @ show_general SELF_LAUNCH_MINUTES @ '' minutes. That is '' @ ''a guess, not a measurement.'']"

definition headline_section :: "report \<Rightarrow> string list" where
  "headline_section r =
     (let e = rp_efficiency r
      in [''# GPU broker: what actually happened'', [],
          ''Generated '' @ show_date (rp_generated_at r) @ '' '' @ take 5 (show_time (rp_generated_at r)) @ '' UTC, '' @
          ''covering '' @ show_date (rp_since r) @ '' onwards.'', [], ''## Headline'', []] @
         (case dollars_per_useful_hour e of
            Some d \<Rightarrow>
              [''**'' @ fmt d USD @ '' per useful GPU-hour.**'', [],
               show_fixed 1 (ef_useful e) @ '' of '' @ show_fixed 1 (ef_paid e) @ '' billed hours had a GPU '' @
               ''doing something ('' @ percent (ef_fraction e) @ ''), for '' @ fmt (ef_dollars e) USD @ ''.'']
          | None \<Rightarrow> [''Not enough billed GPU time yet to divide by.'']) @ [[]])"

definition lost_section :: "work_lost \<Rightarrow> string list" where
  "lost_section w =
     [''## Work lost'', []] @
     (if lost_zero w
      then [''**Zero.** No job was interrupted and left unfinished. '' @
            show_nat (wl_jobs_reclaimed w) @ '' job(s) were reclaimed as idle, accounting for '' @
            show_fixed 1 (wl_reclaimed_hours w) @ '' hours in which a GPU did '' @
            show_fixed 2 (wl_reclaimed_useful w) @ '' hours of work.'']
      else [''**'' @ show_nat (length (wl_lost w)) @ '' job(s) lost their work.** '' @
            join_with '', '' (map (take 8) (take 10 (wl_lost w)))]) @
     (if wl_jobs_redone w \<noteq> 0
      then [[], show_nat (wl_jobs_redone w) @ '' job(s) finished but were preempted without a '' @
            ''checkpoint, so '' @ show_fixed 1 (wl_hours_redone w) @ '' hours were paid for twice. '' @
            ''Nothing was lost; money was.''] else []) @ [[]]"

definition adoption_section :: "adoption \<Rightarrow> string list" where
  "adoption_section a =
     [''## Adoption'', [], ''- '' @ show_nat (ad_distinct_users a) @ '' distinct user(s)'',
      ''- '' @ show_nat (ad_repeat_users a) @ '' came back '' @
        (case repeat_rate a of Some f \<Rightarrow> ''('' @ percent (Some f) @ '')'' | None \<Rightarrow> []),
      ''- '' @ show_nat (ad_submitted a) @ '' job(s) submitted, '' @ show_nat (ad_completed a) @ '' completed'' @
        (case completion_rate a of Some f \<Rightarrow> '' ('' @ percent (Some f) @ '')'' | None \<Rightarrow> []),
      ''- '' @ show_nat (ad_refused a) @ '' refused for budget'',
      ''- '' @ fmt (ad_dollars_spent a) USD @ '' spent, '' @ fmt (ad_gpu_hours_spent a) GPU_HOUR @ '' of free capacity used'',
      ''- '' @ fmt (ad_dollars_reclaimed a) USD @ '' returned by reclaiming idle jobs'', [],
      ''Repeat use is the real signal. Anyone can be talked into trying something once.'', []]"

definition baseline_section :: "baseline_row list \<Rightarrow> string list" where
  "baseline_section bs =
     (if bs \<noteq> []
      then [''## Before the broker'', [], ''| month | instance-hours | spend | source |'', ''|---|---|---|---|''] @
           map (\<lambda>b. ''| '' @ bl_period b @ '' | '' @ show_fixed 0 (bl_instance_hours b) @ '' | '' @
                  fmt (bl_dollars b) USD @ '' | '' @ bl_source b @ '' |'') bs @ [[]]
      else [''## Before the broker'', [],
            ''No baseline recorded. `gpu report --baseline` pulls it from Cost Explorer, '' @
            ''or put the numbers in by hand if the IAM user cannot read it.'', []])"

definition loses_section :: "where_it_loses \<Rightarrow> string list" where
  "loses_section w =
     [''## Where it loses'', []] @
     (if wi_startup_mean w \<noteq> 0
      then [''- **Startup overhead.** '' @ show_fixed 1 (wi_startup_mean w * 60) @ '' minutes per job '' @
            ''between taking a machine and the job's first output, '' @
            fmt (wi_startup_dollars w) USD @ '' in total. Launching it yourself '' @
            ''has the same boot, but the broker adds its poll interval on top.''] else []) @
     (case wait_penalty_rate w of
        Some f \<Rightarrow>
          [''- **Queue waits.** '' @ show_nat (wi_longer w) @ '' of '' @ show_nat (wi_measured w) @ '' jobs waited longer than the '' @
           show_general SELF_LAUNCH_MINUTES @ '' minutes it takes to launch an instance yourself '' @
           ''('' @ percent (Some f) @ ''). Worst was '' @ show_fixed 1 (wi_worst_hours w) @ ''h, for '' @
           (if wi_worst_user w \<noteq> [] then wi_worst_user w else ''nobody'') @ ''.'']
      | None \<Rightarrow> []) @
     (if wi_heavy_user w \<noteq> []
      then [''- **The heaviest user pays for fair share.** '' @ wi_heavy_user w @ '' has waited '' @
            show_fixed 1 (wi_penalty_hours w) @ '' hours in total. If that is you and '' @
            ''you are the only person using the pool, this broker is costing you time.''] else []) @ [[]]"

definition markdown :: "report \<Rightarrow> string" where
  "markdown r =
     join_with NL
       (headline_section r @ lost_section (rp_lost r) @ adoption_section (rp_adoption r) @
        baseline_section (rp_baseline r) @ loses_section (rp_loses r) @
        [''### Not measured here'', []] @ map (\<lambda>n. ''- '' @ n) unmeasured @
        [[], ''### Caveats'', []] @ map (\<lambda>n. ''- '' @ n) (report_notes r) @ [[]])"

text \<open>Losses are never hidden: the zero is claimed exactly when no job was lost and no reclaimed job was at work.\<close>

lemma zero_is_claimed_rightly:
  "(\<exists>rest. lost_section w ! 2 = ''**Zero.** '' @ rest) \<longleftrightarrow> wl_lost w = [] \<and> wl_reclaimed_useful w = 0"
proof (cases "lost_zero w")
  case False
  let ?n = "show_nat (length (wl_lost w))"
  have "?n \<noteq> []" by (subst show_nat.simps) simp
  moreover have "CHR ''Z'' \<notin> set ?n" using show_nat_digits [of "length (wl_lost w)"] by auto
  ultimately show ?thesis using False by (cases ?n) (auto simp: lost_section_def lost_zero_def)
qed (simp add: lost_section_def lost_zero_def)

end
