(* ===== verification/Adapters.thy ===== *)
theory Adapters
  imports Backend PyText "HOL-Library.AList"
begin

text \<open>
  \<^verbatim>\<open>gpu_broker/adapters\<close>: what a training script imports so that its work survives a preemption. The process has
  its environment, its clock, the flag the signal handler sets, and the directories it writes to. The states of
  models, optimisers and random generators are values of an arbitrary type, which torch saves and loads as they
  are. What saving does to the disk is a list of operations, so that the machine can be taken away between any two.
\<close>

subsection \<open>The process\<close>

record 'm payload =
  pl_step :: int
  pl_epoch :: int
  pl_model :: 'm
  pl_optimizer :: "'m option"
  pl_scheduler :: "'m option"
  pl_cpu_rng :: 'm
  pl_cuda_rng :: "'m option"
  pl_extra :: "(string \<times> 'm) list"

datatype 'm item = Payload "'m payload" | Text string

type_synonym 'm folder = "(string \<times> 'm item) list"

record 'm process =
  jp_env :: "(string \<times> string) list"
  jp_time :: pyfloat
  jp_can_install :: bool
  jp_installed :: bool
  jp_requested :: bool
  jp_requested_at :: pyfloat
  jp_folders :: "(string \<times> 'm folder) list"

definition ENV_CHECKPOINT_DIR :: string where "ENV_CHECKPOINT_DIR = ''GPU_BROKER_CHECKPOINT_DIR''"
definition ENV_RESUME_DIR :: string where "ENV_RESUME_DIR = ''GPU_BROKER_RESUME_DIR''"
definition ENV_JOB_ID :: string where "ENV_JOB_ID = ''GPU_BROKER_JOB_ID''"
definition ENV_DEADLINE :: string where "ENV_DEADLINE = ''GPU_BROKER_CHECKPOINT_DEADLINE''"
definition SAVED_MARKER :: string where "SAVED_MARKER = ''CHECKPOINT_COMPLETE''"
definition STATE_PT :: string where "STATE_PT = ''checkpoint.pt''"
definition STAGING :: string where "STAGING = ''checkpoint.partial''"

subsection \<open>The notice\<close>

text \<open>Installing the handler fails off the main thread, and is then tried again the next time.\<close>

definition install :: "'m process \<Rightarrow> 'm process" where
  "install p = (if jp_installed p then p else p\<lparr>jp_installed := jp_can_install p\<rparr>)"

text \<open>The signal arrives: the handler runs when it is installed.\<close>

definition notice_arrives :: "'m process \<Rightarrow> 'm process" where
  "notice_arrives p = (if jp_installed p then p\<lparr>jp_requested := True, jp_requested_at := jp_time p\<rparr> else p)"

definition preempted :: "'m process \<Rightarrow> bool \<times> 'm process" where
  "preempted p = (jp_requested (install p), install p)"

definition env_or :: "'m process \<Rightarrow> string \<Rightarrow> string \<Rightarrow> string" where
  "env_or p name other = (case map_of (jp_env p) name of Some v \<Rightarrow> v | None \<Rightarrow> other)"

text \<open>The texts of infinities and of not-a-number count as malformed.\<close>

definition deadline_seconds :: "'m process \<Rightarrow> (error, pyfloat) result" where
  "deadline_seconds p =
     (case float_of_text (env_or p ENV_DEADLINE ''90'') of
        Fin budget \<Rightarrow> Inr (if jp_requested p then max 0 (budget - (jp_time p - jp_requested_at p)) else budget)
      | _ \<Rightarrow> Inl (ValueError ''could not convert string to float''))"

text \<open>The loop of \<open>wait_for_preemption\<close>, over what happens in the half-seconds it sleeps: whether the notice arrives.
  \<^const>\<open>None\<close> while it is still waiting.\<close>

definition asleep :: "bool \<Rightarrow> 'm process \<Rightarrow> 'm process" where
  "asleep arrives p = (let q = (if arrives then notice_arrives p else p) in q\<lparr>jp_time := jp_time q + 1 / 2\<rparr>)"

fun wait_loop :: "pyfloat option \<Rightarrow> pyfloat \<Rightarrow> bool list \<Rightarrow> 'm process \<Rightarrow> (bool \<times> 'm process) option" where
  "wait_loop timeout started sleeps p =
     (if jp_requested p then Some (True, p)
      else if (case timeout of None \<Rightarrow> False | Some t \<Rightarrow> t \<le> jp_time p - started) then Some (False, p)
      else case sleeps of [] \<Rightarrow> None | arrives # rest \<Rightarrow> wait_loop timeout started rest (asleep arrives p))"

definition wait_for_preemption :: "pyfloat option \<Rightarrow> bool list \<Rightarrow> 'm process \<Rightarrow> (bool \<times> 'm process) option" where
  "wait_for_preemption timeout sleeps p = wait_loop timeout (jp_time p) sleeps (install p)"

subsection \<open>Directories\<close>

definition checkpoint_path :: "'m process \<Rightarrow> string" where
  "checkpoint_path p = env_or p ENV_CHECKPOINT_DIR ''./checkpoints''"

definition folder_at :: "'m process \<Rightarrow> string \<Rightarrow> 'm folder option" where
  "folder_at p path = map_of (jp_folders p) path"

definition put_folder :: "string \<Rightarrow> 'm folder \<Rightarrow> 'm process \<Rightarrow> 'm process" where
  "put_folder path d p = p\<lparr>jp_folders := AList.update path d (jp_folders p)\<rparr>"

definition make_folder :: "'m process \<Rightarrow> 'm process" where
  "make_folder p = (if folder_at p (checkpoint_path p) = None then put_folder (checkpoint_path p) [] p else p)"

definition checkpoint_folder :: "'m process \<Rightarrow> 'm folder" where
  "checkpoint_folder p = (case folder_at p (checkpoint_path p) of None \<Rightarrow> [] | Some d \<Rightarrow> d)"

definition resume_dir :: "'m process \<Rightarrow> string option" where
  "resume_dir p =
     (case map_of (jp_env p) ENV_RESUME_DIR of
        None \<Rightarrow> None
      | Some raw \<Rightarrow>
          (if raw \<noteq> [] \<and> (case folder_at p raw of None \<Rightarrow> False | Some d \<Rightarrow> d \<noteq> []) then Some raw else None))"

definition this_job :: "'m process \<Rightarrow> string" where
  "this_job p = env_or p ENV_JOB_ID []"

datatype 'm disk_op = WriteItem string "'m item" | Rename string string | Unlink string

fun do_op :: "'m disk_op \<Rightarrow> 'm folder \<Rightarrow> 'm folder" where
  "do_op (WriteItem name x) d = AList.update name x d"
| "do_op (Rename old new) d = (case map_of d old of None \<Rightarrow> d | Some x \<Rightarrow> AList.update new x (AList.delete old d))"
| "do_op (Unlink name) d = AList.delete name d"

definition do_ops :: "'m disk_op list \<Rightarrow> 'm folder \<Rightarrow> 'm folder" where
  "do_ops ops d = foldl (\<lambda>d op. do_op op d) d ops"

text \<open>Operations in the checkpoint directory, which is made when it is missing.\<close>

definition in_folder :: "'m disk_op list \<Rightarrow> 'm process \<Rightarrow> 'm process" where
  "in_folder ops p = put_folder (checkpoint_path p) (do_ops ops (checkpoint_folder (make_folder p))) (make_folder p)"

definition saved_ops :: "int \<Rightarrow> 'm disk_op list" where
  "saved_ops step = [WriteItem SAVED_MARKER (Text (show_int step))]"

definition clear_saved :: "'m process \<Rightarrow> 'm process" where
  "clear_saved p = in_folder [Unlink SAVED_MARKER] p"

subsection \<open>The checkpointer of a PyTorch loop\<close>

record 'm checkpointer =
  ck_model :: 'm
  ck_optimizer :: "'m option"
  ck_scheduler :: "'m option"
  ck_cpu_rng :: 'm
  ck_cuda_rng :: "'m option"
  ck_every :: int
  ck_extra :: "(string \<times> 'm) list"
  ck_last_saved :: int

definition payload_of :: "'m checkpointer \<Rightarrow> int \<Rightarrow> int \<Rightarrow> 'm payload" where
  "payload_of c step epoch =
     \<lparr>pl_step = step, pl_epoch = epoch, pl_model = ck_model c, pl_optimizer = ck_optimizer c, pl_scheduler = ck_scheduler c,
      pl_cpu_rng = ck_cpu_rng c, pl_cuda_rng = ck_cuda_rng c, pl_extra = ck_extra c\<rparr>"

definition save_ops :: "'m checkpointer \<Rightarrow> int \<Rightarrow> int \<Rightarrow> 'm disk_op list" where
  "save_ops c step epoch = [WriteItem STAGING (Payload (payload_of c step epoch)), Rename STAGING STATE_PT] @ saved_ops step"

definition ck_save :: "'m checkpointer \<Rightarrow> int \<Rightarrow> int \<Rightarrow> 'm process \<Rightarrow> 'm checkpointer \<times> 'm process" where
  "ck_save c step epoch p = (c\<lparr>ck_last_saved := step\<rparr>, in_folder (save_ops c step epoch) p)"

definition save_is_due :: "'m checkpointer \<Rightarrow> int \<Rightarrow> bool" where
  "save_is_due c step = (ck_every c \<noteq> 0 \<and> 0 < step \<and> step mod ck_every c = 0 \<and> step \<noteq> ck_last_saved c)"

definition ck_step :: "'m checkpointer \<Rightarrow> int \<Rightarrow> int \<Rightarrow> 'm process \<Rightarrow> bool \<times> 'm checkpointer \<times> 'm process" where
  "ck_step c step epoch p =
     (let (asked, p) = preempted p
      in if asked then (let (c, p) = ck_save c step epoch p in (True, c, p))
         else if save_is_due c step then (let (c, p) = ck_save c step epoch p in (False, c, clear_saved p))
         else (False, c, p))"

definition load_payload :: "'m payload \<Rightarrow> 'm checkpointer \<Rightarrow> 'm checkpointer" where
  "load_payload pl c =
     c\<lparr>ck_model := pl_model pl,
       ck_optimizer := (if ck_optimizer c \<noteq> None \<and> pl_optimizer pl \<noteq> None then pl_optimizer pl else ck_optimizer c),
       ck_scheduler := (if ck_scheduler c \<noteq> None \<and> pl_scheduler pl \<noteq> None then pl_scheduler pl else ck_scheduler c),
       ck_cpu_rng := pl_cpu_rng pl,
       ck_cuda_rng := (if pl_cuda_rng pl \<noteq> None \<and> ck_cuda_rng c \<noteq> None then pl_cuda_rng pl else ck_cuda_rng c),
       ck_extra := pl_extra pl\<rparr>"

text \<open>The step to go on with. \<open>torch.load\<close> of what is not one of its files raises.\<close>

definition ck_resume :: "'m checkpointer \<Rightarrow> 'm process \<Rightarrow> (error, int) result \<times> 'm checkpointer" where
  "ck_resume c p =
     (case resume_dir p of
        None \<Rightarrow> (Inr 0, c)
      | Some path \<Rightarrow>
          (case map_of (the (folder_at p path)) STATE_PT of
             None \<Rightarrow> (Inr 0, c)
           | Some (Text t) \<Rightarrow> (Inl (PyException ''UnpicklingError'' []), c)
           | Some (Payload pl) \<Rightarrow> (Inr (pl_step pl + 1), load_payload pl c)))"

definition ck_epoch :: "('m \<Rightarrow> int) \<Rightarrow> 'm checkpointer \<Rightarrow> int" where
  "ck_epoch int_of c = (case map_of (ck_extra c) ''epoch'' of Some v \<Rightarrow> int_of v | None \<Rightarrow> 0)"

subsection \<open>The callback of the HuggingFace trainer\<close>

record hf_callback =
  hf_check_every :: int
  hf_triggered :: bool

record hf_control =
  hc_should_save :: bool
  hc_should_stop :: bool

definition hf_new :: "int \<Rightarrow> hf_callback" where
  "hf_new check_every = \<lparr>hf_check_every = max 1 check_every, hf_triggered = False\<rparr>"

definition hf_on_step_end :: "hf_callback \<Rightarrow> int \<Rightarrow> hf_control \<Rightarrow> 'm process \<Rightarrow> hf_callback \<times> hf_control \<times> 'm process" where
  "hf_on_step_end b global_step control p =
     (if hf_triggered b \<or> global_step mod hf_check_every b \<noteq> 0 then (b, control, p)
      else (let (asked, p) = preempted p
            in if asked then (b\<lparr>hf_triggered := True\<rparr>, control\<lparr>hc_should_save := True, hc_should_stop := True\<rparr>, p)
               else (b, control, p)))"

definition hf_on_save :: "hf_callback \<Rightarrow> int \<Rightarrow> 'm process \<Rightarrow> 'm process" where
  "hf_on_save b global_step p = (if hf_triggered b then in_folder (saved_ops global_step) p else p)"

text \<open>The names in the directory, with whether each is a directory, in the order of the listing.\<close>

definition last_part :: "string \<Rightarrow> string" where
  "last_part name = rev (takeWhile (\<lambda>c. c \<noteq> CHR ''-'') (rev name))"

fun with_numbers :: "string list \<Rightarrow> (error, (int \<times> string) list) result" where
  "with_numbers [] = Inr []"
| "with_numbers (name # names) =
     (case (if last_part name = [] then Some 0 else int_of_text (last_part name)) of
        None \<Rightarrow> Inl (ValueError ''invalid literal for int()'')
      | Some k \<Rightarrow> (case with_numbers names of Inl e \<Rightarrow> Inl e | Inr rest \<Rightarrow> Inr ((k, name) # rest)))"

definition hf_resume_from :: "string option \<Rightarrow> (string \<times> bool) list \<Rightarrow> (error, string option) result" where
  "hf_resume_from path entries =
     (case path of
        None \<Rightarrow> Inr None
      | Some dir \<Rightarrow>
          (case with_numbers (map fst (filter (\<lambda>(name, is_dir). is_dir \<and> starts_with name ''checkpoint-'') entries)) of
             Inl e \<Rightarrow> Inl e
           | Inr [] \<Rightarrow> Inr (if entries \<noteq> [] then Some dir else None)
           | Inr ks \<Rightarrow> Inr (Some (dir @ ''/'' @ snd (last (sort_key fst ks))))))"

subsection \<open>Losing the machine while saving\<close>

lemma names_differ [simp]: "STATE_PT \<noteq> STAGING" "STAGING \<noteq> STATE_PT" "SAVED_MARKER \<noteq> STAGING" "SAVED_MARKER \<noteq> STATE_PT"
    "STATE_PT \<noteq> SAVED_MARKER" "STAGING \<noteq> SAVED_MARKER"
  by (simp_all add: STATE_PT_def STAGING_def SAVED_MARKER_def)

lemma delete_other: "k \<noteq> n \<Longrightarrow> map_of (AList.delete n d) k = map_of d k"
  by (simp add: delete_conv')

lemma saved_folder:
  "map_of (do_ops (save_ops c step epoch) d) STATE_PT = Some (Payload (payload_of c step epoch))"
  "map_of (do_ops (save_ops c step epoch) d) SAVED_MARKER = Some (Text (show_int step))"
  by (simp_all add: do_ops_def save_ops_def saved_ops_def update_conv' delete_conv')


subsection \<open>Training\<close>

text \<open>What is saved of the training, and the loop of the documentation over an arbitrary training step that works on
  it. The notice may arrive during any step.\<close>

type_synonym 'm core = "'m \<times> 'm option \<times> 'm option \<times> 'm \<times> 'm option \<times> (string \<times> 'm) list"

definition core :: "'m checkpointer \<Rightarrow> 'm core" where
  "core c = (ck_model c, ck_optimizer c, ck_scheduler c, ck_cpu_rng c, ck_cuda_rng c, ck_extra c)"

definition with_core :: "'m core \<Rightarrow> 'm checkpointer \<Rightarrow> 'm checkpointer" where
  "with_core x c =
     (case x of (m, opt, sch, cpu, cuda, extra) \<Rightarrow>
        c\<lparr>ck_model := m, ck_optimizer := opt, ck_scheduler := sch, ck_cpu_rng := cpu, ck_cuda_rng := cuda, ck_extra := extra\<rparr>)"

lemma core_with_core [simp]: "core (with_core x c) = x"
  by (simp add: core_def with_core_def split: prod.split)

fun train_loop ::
  "(int \<Rightarrow> 'm core \<Rightarrow> 'm core) \<Rightarrow> (int \<Rightarrow> bool) \<Rightarrow> int list \<Rightarrow> 'm checkpointer \<Rightarrow> 'm process \<Rightarrow>
   int option \<times> 'm checkpointer \<times> 'm process"
where
  "train_loop train arrives [] c p = (None, c, p)"
| "train_loop train arrives (step # steps) c p =
     (case ck_step (with_core (train step (core c)) c) step 0 (if arrives step then notice_arrives p else p) of
        (stop, c', p') \<Rightarrow> (if stop then (Some step, c', p') else train_loop train arrives steps c' p'))"

lemma notice_frame [simp]: "jp_env (notice_arrives p) = jp_env p" "jp_folders (notice_arrives p) = jp_folders p"
  by (simp_all add: notice_arrives_def)

lemma install_frame [simp]: "jp_env (install p) = jp_env p" "jp_folders (install p) = jp_folders p"
  by (simp_all add: install_def)

lemma folder_frame: "jp_env q = jp_env p \<Longrightarrow> jp_folders q = jp_folders p \<Longrightarrow> checkpoint_folder q = checkpoint_folder p"
  by (simp add: checkpoint_folder_def folder_at_def checkpoint_path_def env_or_def)

lemma path_put [simp]: "checkpoint_path (put_folder path d p) = checkpoint_path p" "checkpoint_path (make_folder p) = checkpoint_path p"
  by (simp_all add: checkpoint_path_def env_or_def put_folder_def make_folder_def)

lemma folder_put [simp]: "checkpoint_folder (put_folder (checkpoint_path p) d p) = d"
  by (simp add: checkpoint_folder_def folder_at_def) (simp add: put_folder_def update_conv')

lemma folder_make [simp]: "checkpoint_folder (make_folder p) = checkpoint_folder p"
proof (cases "folder_at p (checkpoint_path p)")
  case None
  then show ?thesis by (simp add: make_folder_def) (simp add: checkpoint_folder_def)
qed (simp add: make_folder_def)

lemma folder_in [simp]: "checkpoint_folder (in_folder ops p) = do_ops ops (checkpoint_folder p)"
  using folder_put [of "make_folder p" "do_ops ops (checkpoint_folder (make_folder p))"] by (simp add: in_folder_def)

text \<open>One call of \<open>step\<close>: the marker is there afterwards exactly when the broker asked.\<close>

lemma ck_step_cases:
  assumes "map_of (checkpoint_folder p) SAVED_MARKER = None" and "ck_step c step epoch p = (stop, c', p')"
  shows "core c' = core c"
    and "stop \<Longrightarrow> map_of (checkpoint_folder p') SAVED_MARKER = Some (Text (show_int step)) \<and>
           map_of (checkpoint_folder p') STATE_PT = Some (Payload (payload_of c step epoch))"
    and "\<not> stop \<Longrightarrow> map_of (checkpoint_folder p') SAVED_MARKER = None"
proof -
  have same: "checkpoint_folder (install p) = checkpoint_folder p" by (rule folder_frame) simp_all
  show "core c' = core c" using assms(2)
    by (auto simp: ck_step_def preempted_def ck_save_def core_def split: if_splits)
  show "stop \<Longrightarrow> map_of (checkpoint_folder p') SAVED_MARKER = Some (Text (show_int step)) \<and>
      map_of (checkpoint_folder p') STATE_PT = Some (Payload (payload_of c step epoch))"
    using assms(2) by (auto simp: ck_step_def preempted_def ck_save_def saved_folder split: if_splits)
  show "\<not> stop \<Longrightarrow> map_of (checkpoint_folder p') SAVED_MARKER = None"
    using assms by (auto simp: ck_step_def preempted_def ck_save_def clear_saved_def same do_ops_def delete_conv' split: if_splits)
qed

lemma train_loop_result:
  assumes "map_of (checkpoint_folder p) SAVED_MARKER = None" and "train_loop train arrives steps c p = (r, c', p')"
  shows "(r = None \<longrightarrow> core c' = foldl (\<lambda>x s. train s x) (core c) steps \<and> map_of (checkpoint_folder p') SAVED_MARKER = None) \<and>
    (\<forall>s. r = Some s \<longrightarrow> (\<exists>before rest. steps = before @ s # rest \<and> core c' = foldl (\<lambda>x s. train s x) (core c) (before @ [s]) \<and>
       map_of (checkpoint_folder p') SAVED_MARKER = Some (Text (show_int s)) \<and>
       map_of (checkpoint_folder p') STATE_PT = Some (Payload (payload_of c' s 0))))"
  using assms
proof (induction steps arbitrary: c p)
  case (Cons step steps)
  let ?c = "with_core (train step (core c)) c" and ?p = "if arrives step then notice_arrives p else p"
  obtain stop c1 p1 where st: "ck_step ?c step 0 ?p = (stop, c1, p1)" by (metis prod_cases3)
  have "checkpoint_folder ?p = checkpoint_folder p" by (rule folder_frame) simp_all
  then have m: "map_of (checkpoint_folder ?p) SAVED_MARKER = None" using Cons.prems(1) by simp
  note one = ck_step_cases [OF m st]
  have same: "payload_of ?c step 0 = payload_of c1 step 0" if "core c1 = core ?c"
    using that by (simp add: payload_of_def core_def)
  show ?case
  proof (cases stop)
    case True
    then have "r = Some step" "c' = c1" "p' = p1" using Cons.prems(2) st by simp_all
    then show ?thesis using one(1) one(2) [OF True] same by (intro conjI allI impI exI [of _ "[]"] exI [of _ steps]) auto
  next
    case False
    then have l: "train_loop train arrives steps c1 p1 = (r, c', p')" using Cons.prems(2) st by simp
    note IH = Cons.IH [OF one(3) [OF False] l]
    show ?thesis
    proof (intro conjI impI allI)
      assume n: "r = None"
      show "core c' = foldl (\<lambda>x s. train s x) (core c) (step # steps)" using IH n one(1) by simp
      show "map_of (checkpoint_folder p') SAVED_MARKER = None" using IH n by simp
    next
      fix s assume "r = Some s"
      then obtain before rest where b: "steps = before @ s # rest" "core c' = foldl (\<lambda>x s. train s x) (core c1) (before @ [s])"
        "map_of (checkpoint_folder p') SAVED_MARKER = Some (Text (show_int s))"
        "map_of (checkpoint_folder p') STATE_PT = Some (Payload (payload_of c' s 0))" using IH by blast
      then show "\<exists>before rest. step # steps = before @ s # rest \<and> core c' = foldl (\<lambda>x s. train s x) (core c) (before @ [s]) \<and>
          map_of (checkpoint_folder p') SAVED_MARKER = Some (Text (show_int s)) \<and>
          map_of (checkpoint_folder p') STATE_PT = Some (Payload (payload_of c' s 0))"
        using one(1) by (intro exI [of _ "step # before"] exI [of _ rest]) simp
    qed
  qed
qed simp

text \<open>A run that is not asked to stop ends.\<close>

lemma unasked_run_ends:
  "\<not> jp_requested q \<Longrightarrow> \<exists>c2 q2. train_loop train (\<lambda>_. False) steps c q = (None, c2, q2)"
proof (induction steps arbitrary: c q)
  case (Cons step steps)
  obtain stop c1 q1 where st: "ck_step (with_core (train step (core c)) c) step 0 q = (stop, c1, q1)" by (metis prod_cases3)
  then have "\<not> stop" "\<not> jp_requested q1" using Cons.prems
    by (auto simp: ck_step_def preempted_def ck_save_def install_def clear_saved_def in_folder_def put_folder_def make_folder_def split: if_splits)
  then show ?case using Cons.IH [of q1 c1] st by simp
qed simp

text \<open>The second machine trains with the same parts as the first.\<close>

definition same_parts :: "'m checkpointer \<Rightarrow> 'm checkpointer \<Rightarrow> bool" where
  "same_parts c c' \<longleftrightarrow>
     (ck_optimizer c = None \<longleftrightarrow> ck_optimizer c' = None) \<and> (ck_scheduler c = None \<longleftrightarrow> ck_scheduler c' = None) \<and>
     (ck_cuda_rng c = None \<longleftrightarrow> ck_cuda_rng c' = None)"

lemma load_restores: "same_parts c0 c \<Longrightarrow> core (load_payload (payload_of c s e) c0) = core c"
  by (auto simp: same_parts_def load_payload_def payload_of_def core_def)


subsection \<open>The trainer's callback\<close>

text \<open>The callback says that a checkpoint is complete and puts nothing into it: unless the trainer was told to write to
  the directory of the broker, what is uploaded is the marker alone.\<close>

lemma hf_marks_an_empty_folder:
  "hf_triggered b \<Longrightarrow> checkpoint_folder p = [] \<Longrightarrow>
     checkpoint_folder (hf_on_save b step p) = [(SAVED_MARKER, Text (show_int step))]"
  by (simp add: hf_on_save_def saved_ops_def do_ops_def)

subsection \<open>Five steps on two machines\<close>

definition demo_train :: "int \<Rightarrow> nat core \<Rightarrow> nat core" where
  "demo_train step x = (case x of (m, opt, sch, cpu, cuda, extra) \<Rightarrow> (2 * m + nat step + cpu, opt, sch, cpu + 1, cuda, extra))"

definition demo_ck :: "nat checkpointer" where
  "demo_ck =
     \<lparr>ck_model = 1, ck_optimizer = Some 0, ck_scheduler = None, ck_cpu_rng = 3, ck_cuda_rng = None, ck_every = 1, ck_extra = [],
      ck_last_saved = -1\<rparr>"

definition demo_first :: "nat process" where
  "demo_first =
     \<lparr>jp_env = [(ENV_CHECKPOINT_DIR, ''ck'')], jp_time = 0, jp_can_install = True, jp_installed = False, jp_requested = False,
      jp_requested_at = 0, jp_folders = []\<rparr>"

definition demo_run :: "int option \<times> nat checkpointer \<times> nat process" where
  "demo_run = train_loop demo_train (\<lambda>s. s = 2) [0..4] demo_ck demo_first"

definition demo_second :: "nat process" where
  "demo_second =
     \<lparr>jp_env = [(ENV_CHECKPOINT_DIR, ''ck''), (ENV_RESUME_DIR, ''rs'')], jp_time = 0, jp_can_install = True, jp_installed = False,
      jp_requested = False, jp_requested_at = 0, jp_folders = [(''rs'', checkpoint_folder (snd (snd demo_run)))]\<rparr>"



end
