(* ===== verification/Auth.thy ===== *)
theory Auth
  imports Prices Commands PyLines
begin

text \<open>
  \<^verbatim>\<open>gpu_broker/web/auth.py\<close>: who is using the web app, and whether they are in the club. The environment of
  the process is a function from a variable's name to its value; the content of the allowlist file is an
  argument, \<^const>\<open>None\<close> when there is no such file; the HTTP client and the signer of cookies are
  parameters; new random texts are arguments.
\<close>

subsection \<open>Identities and settings\<close>

definition SESSION_COOKIE :: string where "SESSION_COOKIE = ''gpu_broker_session''"

definition STATE_COOKIE :: string where "STATE_COOKIE = ''gpu_broker_oauth_state''"

definition GITHUB_AUTHORIZE :: string where "GITHUB_AUTHORIZE = ''https://github.com/login/oauth/authorize''"

definition GITHUB_TOKEN :: string where "GITHUB_TOKEN = ''https://github.com/login/oauth/access_token''"

definition GITHUB_API :: string where "GITHUB_API = ''https://api.github.com''"

record identity =
  id_login :: string
  id_name :: string
  id_avatar :: string

definition id_display :: "identity \<Rightarrow> string" where
  "id_display i = (if id_name i \<noteq> [] then id_name i else id_login i)"

record web_config =
  wc_base_url :: string
  wc_client_id :: string
  wc_client_secret :: string
  wc_org :: string
  wc_allowlist :: "string list"
  wc_allowlist_file :: string
  wc_session_secret :: string
  wc_max_age :: int
  wc_admins :: "string list"
  wc_public_status :: bool
  wc_public_title :: string
  wc_public_cache :: pyfloat
  wc_metrics_token :: string
  wc_dev_login :: string

definition default_web :: web_config where
  "default_web =
     \<lparr>wc_base_url = ''http://localhost:8000'', wc_client_id = [], wc_client_secret = [], wc_org = [],
      wc_allowlist = [], wc_allowlist_file = [], wc_session_secret = [], wc_max_age = 60 * 60 * 24 * 14,
      wc_admins = [], wc_public_status = False, wc_public_title = ''GPU broker'', wc_public_cache = 15,
      wc_metrics_token = [], wc_dev_login = []\<rparr>"

definition first_of :: "string \<Rightarrow> string \<Rightarrow> string" where
  "first_of a b = (if a \<noteq> [] then a else b)"

definition resolved_secret :: "web_config \<Rightarrow> (string \<Rightarrow> string) \<Rightarrow> string" where
  "resolved_secret c env = first_of (wc_client_secret c) (env ''GPU_BROKER_GITHUB_CLIENT_SECRET'')"

definition resolved_metrics_token :: "web_config \<Rightarrow> (string \<Rightarrow> string) \<Rightarrow> string" where
  "resolved_metrics_token c env = first_of (wc_metrics_token c) (env ''GPU_BROKER_METRICS_TOKEN'')"

definition resolved_session_secret :: "web_config \<Rightarrow> (string \<Rightarrow> string) \<Rightarrow> string \<Rightarrow> string" where
  "resolved_session_secret c env fresh =
     first_of (first_of (wc_session_secret c) (env ''GPU_BROKER_SESSION_SECRET'')) fresh"

definition on_localhost :: "string \<Rightarrow> bool" where
  "on_localhost url = (starts_with url ''http://localhost'' \<or> starts_with url ''http://127.0.0.1'')"

definition validate_web :: "web_config \<Rightarrow> (error, unit) result" where
  "validate_web c =
     (if wc_dev_login c \<noteq> [] \<and> \<not> on_localhost (wc_base_url c)
      then Inl (ConfigError (ConfigText (''web.dev_login is set but base_url is '' @ py_repr (wc_base_url c) @
             ''. That would sign in anybody who found the page. Only allowed on localhost'')))
      else if wc_dev_login c = [] \<and> wc_client_id c = []
      then Inl (ConfigError (ConfigText (''web.github_client_id is not set. Register an OAuth app at '' @
             ''https://github.com/settings/developers, or set web.dev_login '' @
             ''to work on this locally without one'')))
      else if wc_dev_login c = [] \<and> wc_org c = [] \<and> wc_allowlist c = [] \<and> wc_allowlist_file c = []
      then Inl (ConfigError (ConfigText (''nobody could sign in: set web.github_org, or web.allowlist, or '' @
             ''web.allowlist_file'')))
      else Inr ())"

subsection \<open>Membership\<close>

text \<open>\<open>line.split("#", 1)[0].strip()\<close> of every line, blank ones left out.\<close>

definition roster_lines :: "string \<Rightarrow> string list" where
  "roster_lines text =
     filter (\<lambda>entry. entry \<noteq> []) (map (\<lambda>line. strip (fst (partition_at (CHR ''#'') line))) (splitlines text))"

definition allowed_logins :: "web_config \<Rightarrow> string option \<Rightarrow> string set" where
  "allowed_logins c roster =
     set (map text_lower (wc_allowlist c)) \<union>
     (if wc_dev_login c \<noteq> [] then {text_lower (wc_dev_login c)} else {}) \<union>
     (if wc_allowlist_file c \<noteq> []
      then (case roster of None \<Rightarrow> {} | Some text \<Rightarrow> set (map text_lower (roster_lines text)))
      else {})"

definition check_member :: "web_config \<Rightarrow> string option \<Rightarrow> identity \<Rightarrow> bool \<Rightarrow> (error, unit) result" where
  "check_member c roster i org_member =
     (if wc_org c \<noteq> [] \<and> org_member then Inr ()
      else if text_lower (id_login i) \<in> allowed_logins c roster then Inr ()
      else if wc_org c \<noteq> []
      then Inl (AuthError (id_login i @ '' is not a public member of the '' @ wc_org c @
             '' organisation. Ask an officer to add you, and make sure your membership is set to public in your GitHub '' @
             ''organisation settings -- private membership is invisible to us''))
      else Inl (AuthError (id_login i @ '' is not on the club allowlist. Ask an officer to add you'')))"

definition recheck_member :: "web_config \<Rightarrow> string option \<Rightarrow> string \<Rightarrow> (error, unit) result" where
  "recheck_member c roster login =
     (if wc_org c \<noteq> [] then Inr ()
      else if text_lower login \<in> allowed_logins c roster then Inr ()
      else Inl (AuthError (login @ '' is no longer on the club allowlist. Ask an officer to add you back'')))"

definition web_admin :: "web_config \<Rightarrow> string \<Rightarrow> bool" where
  "web_admin c login = (text_lower login \<in> text_lower ` set (wc_admins c))"

subsection \<open>Identity providers\<close>

text \<open>\<open>urlencode\<close> of pairs of texts.\<close>

definition upper_hex :: "nat \<Rightarrow> char" where
  "upper_hex n = ''0123456789ABCDEF'' ! n"

definition quote_byte :: "nat \<Rightarrow> string" where
  "quote_byte b =
     (if 65 \<le> b \<and> b \<le> 90 \<or> 97 \<le> b \<and> b \<le> 122 \<or> 48 \<le> b \<and> b \<le> 57 \<or> b \<in> {95, 46, 45, 126} then [char_of b]
      else if b = 32 then ''+'' else [CHR 0x25, upper_hex (b div 16), upper_hex (b mod 16)])"

definition quote_plus :: "string \<Rightarrow> string" where
  "quote_plus s = concat (map quote_byte (utf8 s))"

definition urlencode :: "(string \<times> string) list \<Rightarrow> string" where
  "urlencode kvs = join_with ''&'' (map (\<lambda>(k, v). quote_plus k @ ''='' @ quote_plus v) kvs)"

definition strip_slashes :: "string \<Rightarrow> string" where
  "strip_slashes s = rev (dropWhile (\<lambda>c. c = CHR ''/'') (rev s))"

definition redirect_uri :: "web_config \<Rightarrow> string" where
  "redirect_uri c = strip_slashes (wc_base_url c) @ ''/auth/callback''"

definition github_authorize_url :: "web_config \<Rightarrow> string \<Rightarrow> string" where
  "github_authorize_url c state =
     GITHUB_AUTHORIZE @ ''?'' @ urlencode
       [(''client_id'', wc_client_id c), (''redirect_uri'', redirect_uri c),
        (''scope'', if wc_org c \<noteq> [] then ''read:org'' else ''read:user''), (''state'', state)]"

text \<open>The client: posting a form, getting a JSON document, and the status of a request, each with its headers.
  \<open>str_of\<close> is Python's \<open>str\<close> of a JSON value that is not a text.\<close>

record 'n http_client =
  hc_post :: "string \<Rightarrow> (string \<times> string) list \<Rightarrow> ('n, pyval) ext_op"
  hc_json :: "string \<Rightarrow> string \<Rightarrow> ('n, pyval) ext_op"
  hc_status :: "string \<Rightarrow> string \<Rightarrow> ('n, int) ext_op"
  hc_str_of :: "pyval \<Rightarrow> string"

definition py_true :: "pyval \<Rightarrow> bool" where
  "py_true v =
     (case v of PNone \<Rightarrow> False | PBool b \<Rightarrow> b | PNum x \<Rightarrow> x \<noteq> 0 | PStr s \<Rightarrow> s \<noteq> [] | PList xs \<Rightarrow> xs \<noteq> [] | PDict kvs \<Rightarrow> kvs \<noteq> [])"

definition py_str :: "'n http_client \<Rightarrow> pyval \<Rightarrow> string" where
  "py_str h v = (case v of PStr s \<Rightarrow> s | _ \<Rightarrow> hc_str_of h v)"

definition x_field :: "pyval \<Rightarrow> string \<Rightarrow> pyval \<Rightarrow> ('n, pyval) ext_op" where
  "x_field v key dflt = x_of (py_get v key dflt)"

definition github_exchange ::
  "web_config \<Rightarrow> (string \<Rightarrow> string) \<Rightarrow> 'n http_client \<Rightarrow> string \<Rightarrow> ('n, identity \<times> bool) ext_op"
where
  "github_exchange c env h code' =
     (let secret = resolved_secret c env
      in if secret = []
         then x_raise (AuthError (''the GitHub client secret is not configured. Set '' @
                ''GPU_BROKER_GITHUB_CLIENT_SECRET in the environment''))
         else
           x_then (hc_post h GITHUB_TOKEN
             [(''client_id'', wc_client_id c), (''client_secret'', secret), (''code'', code'),
              (''redirect_uri'', redirect_uri c)]) (\<lambda>payload.
           x_then (x_field payload ''access_token'' PNone) (\<lambda>token.
           if \<not> py_true token
           then x_then (x_field payload ''error'' (PStr ''no token'')) (\<lambda>e.
                x_then (x_field payload ''error_description'' e) (\<lambda>d.
                x_raise (AuthError (''GitHub refused the sign-in: '' @ py_str h d))))
           else
             (let bearer = ''Bearer '' @ py_str h token
              in x_then (hc_json h (GITHUB_API @ ''/user'') bearer) (\<lambda>user.
                 x_then (x_field user ''login'' PNone) (\<lambda>login.
                 if \<not> py_true login then x_raise (AuthError ''GitHub did not tell us who you are'')
                 else
                   x_then (if wc_org c \<noteq> []
                           then x_then (hc_status h (GITHUB_API @ ''/orgs/'' @ wc_org c @ ''/members/'' @ py_str h login) bearer)
                                  (\<lambda>status. x_ret (status = 204))
                           else x_ret False) (\<lambda>org_member.
                   x_then (x_field user ''name'' PNone) (\<lambda>name.
                   x_then (x_field user ''avatar_url'' (PStr [])) (\<lambda>avatar.
                   x_ret (\<lparr>id_login = py_str h login, id_name = py_str h (if py_true name then name else login),
                           id_avatar = py_str h avatar\<rparr>, org_member))))))))))"

definition dev_authorize_url :: "string \<Rightarrow> string" where
  "dev_authorize_url state = ''/auth/callback?code=dev&state='' @ state"

definition dev_exchange :: "string \<Rightarrow> identity \<times> bool" where
  "dev_exchange login = (\<lparr>id_login = login, id_name = login @ '' (dev)'', id_avatar = []\<rparr>, True)"

text \<open>The provider the app is created with: the one of its development mode, or GitHub.\<close>

definition provider_url :: "web_config \<Rightarrow> string \<Rightarrow> string" where
  "provider_url c state = (if wc_dev_login c \<noteq> [] then dev_authorize_url state else github_authorize_url c state)"

definition provider_exchange ::
  "web_config \<Rightarrow> (string \<Rightarrow> string) \<Rightarrow> 'n http_client \<Rightarrow> string \<Rightarrow> ('n, identity \<times> bool) ext_op"
where
  "provider_exchange c env h code' =
     (if wc_dev_login c \<noteq> [] then x_ret (dev_exchange (wc_dev_login c)) else github_exchange c env h code')"

subsection \<open>Sessions\<close>

text \<open>The serializer signs a document with the time; reading gives nothing for a bad or an expired signature.\<close>

record signer =
  sg_dumps :: "moment \<Rightarrow> pyval \<Rightarrow> string"
  sg_loads :: "moment \<Rightarrow> int \<Rightarrow> string \<Rightarrow> pyval option"

definition session_document :: "identity \<Rightarrow> pyval" where
  "session_document i =
     PDict [(''login'', PStr (id_login i)), (''name'', PStr (id_name i)), (''avatar'', PStr (id_avatar i))]"

definition issue_session :: "signer \<Rightarrow> moment \<Rightarrow> identity \<Rightarrow> string" where
  "issue_session sg now i = sg_dumps sg now (session_document i)"

definition text_field :: "(string \<times> pyval) list \<Rightarrow> string \<Rightarrow> string" where
  "text_field kvs key = (case map_of kvs key of Some (PStr s) \<Rightarrow> s | _ \<Rightarrow> [])"

definition read_session :: "signer \<Rightarrow> int \<Rightarrow> moment \<Rightarrow> string option \<Rightarrow> identity option" where
  "read_session sg max_age now token =
     (if \<not> truthy token then None
      else case sg_loads sg now max_age (the token) of
             Some (PDict kvs) \<Rightarrow>
               (if text_field kvs ''login'' = [] then None
                else Some \<lparr>id_login = text_field kvs ''login'', id_name = text_field kvs ''name'',
                           id_avatar = text_field kvs ''avatar''\<rparr>)
           | _ \<Rightarrow> None)"

text \<open>A session that was issued is read back while it has not expired.\<close>

lemma session_round_trip:
  assumes "sg_loads sg now max_age (issue_session sg t i) = Some (session_document i)"
    and "issue_session sg t i \<noteq> []" and "id_login i \<noteq> []"
  shows "read_session sg max_age now (Some (issue_session sg t i)) = Some i"
  using assms by (simp add: read_session_def truthy_def session_document_def text_field_def)

subsection \<open>Who is let in\<close>

text \<open>Outside its development mode an app whose settings are valid lets in only members: of the organisation, as
  GitHub reported it, or on one of the lists.\<close>

lemma let_in_members:
  assumes "validate_web c = Inr ()" and "wc_dev_login c = []" and "check_member c roster i org_member = Inr ()"
  shows "wc_org c \<noteq> [] \<and> org_member \<or> text_lower (id_login i) \<in> text_lower ` set (wc_allowlist c) \<or>
    wc_allowlist_file c \<noteq> [] \<and> (\<exists>text. roster = Some text \<and> text_lower (id_login i) \<in> text_lower ` set (roster_lines text))"
  using assms by (auto simp: check_member_def allowed_logins_def split: if_splits option.splits)

lemma dev_mode_is_local:
  "validate_web c = Inr () \<Longrightarrow> wc_dev_login c \<noteq> [] \<Longrightarrow> on_localhost (wc_base_url c)"
  by (auto simp: validate_web_def split: if_splits)

text \<open>The test is of a prefix of the URL, so it also accepts hosts that only begin like the local one.\<close>

lemma localhost_prefix: "on_localhost ''http://localhost.example.org''"
  by code_simp

end
