(* ===== verification/Public.thy ===== *)
theory Public
  imports Forecast Telemetry Report "HOL-Library.While_Combinator"
begin

text \<open>
  \<^verbatim>\<open>gpu_broker/web/public.py\<close>: the aggregates of the page without a sign-in, and the cache of
  \<^verbatim>\<open>web/publicapp.py\<close> in front of them. What the page may depend on is proved by comparing it on two databases
  that differ in everything that identifies a person or their work.
\<close>

subsection \<open>A letter per member\<close>

text \<open>The loop that spells an index with the letters a to z.\<close>

definition letter :: "int \<Rightarrow> char" where
  "letter d = char_of (97 + nat d)"

definition spell_step :: "string \<times> int \<Rightarrow> string \<times> int" where
  "spell_step s = (case s of (suffix, n) \<Rightarrow> (letter (n mod 26) # suffix, n div 26 - 1))"

definition spell :: "nat \<Rightarrow> string option" where
  "spell index = map_option fst (while_option (\<lambda>(suffix, n). 0 \<le> n) spell_step ([], int index))"

definition member_label :: "nat \<Rightarrow> string" where
  "member_label index = ''user-'' @ (case spell index of None \<Rightarrow> [] | Some s \<Rightarrow> s)"

definition member_labels :: "store \<Rightarrow> (string \<times> string) list" where
  "member_labels st =
     map (\<lambda>(i, u). (u_id u, member_label i)) (enumerate 0 (sort_key (\<lambda>u. (u_created_at u, u_id u)) (list_users st)))"

definition label_of :: "store \<Rightarrow> string \<Rightarrow> string" where
  "label_of st uid = (case map_of (member_labels st) uid of None \<Rightarrow> ''user-?'' | Some l \<Rightarrow> l)"

subsection \<open>The parts of the page\<close>

record public_job =
  pj_member :: string
  pj_gpu_type :: string
  pj_state :: job_state
  pj_where :: string
  pj_hours :: pyfloat
  pj_utilization :: "pyfloat option"

record outcomes =
  oc_completed :: nat
  oc_preempted :: nat
  oc_interrupted :: nat
  oc_reclaimed :: nat
  oc_failed :: nat

definition oc_total :: "outcomes \<Rightarrow> nat" where
  "oc_total o' = oc_completed o' + oc_preempted o' + oc_reclaimed o' + oc_failed o'"

record backend_use =
  bu_name :: string
  bu_kind :: string
  bu_jobs :: nat
  bu_hours :: pyfloat
  bu_share :: pyfloat

record public_status =
  pb_generated_at :: moment
  pb_demo :: bool
  pb_pilot :: bool
  pb_members :: nat
  pb_members_week :: nat
  pb_repeat :: nat
  pb_week :: outcomes
  pb_month :: outcomes
  pb_jobs :: nat
  pb_queue_depth :: nat
  pb_running_now :: nat
  pb_running :: "public_job list"
  pb_spent :: decimal
  pb_reclaimed :: decimal
  pb_gpu_hours :: decimal
  pb_runway :: "pyfloat option"
  pb_burn :: decimal
  pb_remaining :: decimal
  pb_confident :: bool
  pb_util_7 :: "pyfloat option list"
  pb_util_30 :: "pyfloat option list"
  pb_queue_7 :: "pyfloat option list"
  pb_mean_7 :: "pyfloat option"
  pb_peak_7 :: "pyfloat option"
  pb_mean_30 :: "pyfloat option"
  pb_backends :: "backend_use list"
  pb_recent :: "public_job list"

definition pb_quiet :: "public_status \<Rightarrow> bool" where
  "pb_quiet p = (pb_jobs p = 0)"

definition kind_of :: "string option \<Rightarrow> currency \<Rightarrow> string" where
  "kind_of backend cur =
     (if cur = GPU_HOUR then ''local''
      else if truthy backend \<and> starts_with (the backend) ''local'' then ''local'' else ''cloud'')"

text \<open>\<open>_ran_for\<close> computes what \<open>Job.elapsed_hours\<close> does.\<close>

definition ran_for :: "job \<Rightarrow> moment \<Rightarrow> pyfloat" where
  "ran_for j now =
     (case j_started_at j of
        None \<Rightarrow> 0
      | Some s \<Rightarrow> max 0 (hours_of ((case j_finished_at j of Some e \<Rightarrow> e | None \<Rightarrow> now) - s)))"

definition outcomes_since :: "job list \<Rightarrow> moment \<Rightarrow> outcomes" where
  "outcomes_since jobs since =
     (let js = filter (\<lambda>j. \<not> j_submitted_at j < since) jobs
      in \<lparr>oc_completed = count_where (in_state COMPLETED) js, oc_preempted = count_where (in_state PREEMPTED) js,
          oc_interrupted = count_where (\<lambda>j. 0 < j_preemptions j) js,
          oc_reclaimed = count_where (in_state RECLAIMED) js, oc_failed = count_where (in_state FAILED) js\<rparr>)"

text \<open>\<open>round(x, d)\<close>.\<close>

definition round_to :: "nat \<Rightarrow> pyfloat \<Rightarrow> pyfloat" where
  "round_to d x = of_int (round_half_even (x * 10 ^ d)) / 10 ^ d"

definition backend_key :: "job \<Rightarrow> string \<times> string" where
  "backend_key j = (the (j_backend j), kind_of (j_backend j) (j_currency j))"

text \<open>The keys of the dictionary, in the order in which the jobs bring them.\<close>

definition backend_uses :: "job list \<Rightarrow> moment \<Rightarrow> backend_use list" where
  "backend_uses worked now =
     (let placed = filter (\<lambda>j. truthy (j_backend j)) worked;
          hours = (\<lambda>k. map (\<lambda>j. ran_for j now) (filter (\<lambda>j. backend_key j = k) placed));
          keys = rev (remdups (rev (map backend_key placed)));
          total = (\<Sum>k\<leftarrow>keys. sum_list (hours k));
          total' = (if total = 0 then 1 else total)
      in sort_key (\<lambda>b. - bu_hours b)
           (map (\<lambda>k. \<lparr>bu_name = fst k, bu_kind = snd k, bu_jobs = length (hours k), bu_hours = round_to 2 (sum_list (hours k)),
                      bu_share = round_to 1 (100 * sum_list (hours k) / total')\<rparr>) keys))"

definition peak_of :: "pyfloat list \<Rightarrow> pyfloat option" where
  "peak_of xs = (case xs of [] \<Rightarrow> None | x # xs \<Rightarrow> Some (foldl max x xs))"

definition public_job_of :: "store \<Rightarrow> job \<Rightarrow> public_job" where
  "public_job_of st j =
     \<lparr>pj_member = label_of st (j_user j), pj_gpu_type = j_gpu_type j, pj_state = j_state j,
      pj_where = kind_of (j_backend j) (j_currency j), pj_hours = round_to 2 (ran_for j (st_now st)),
      pj_utilization = peak_of (map sm_gpu_percent (samples_for st (j_id j) None 200))\<rparr>"

definition known_values :: "pyfloat option list \<Rightarrow> pyfloat list" where
  "known_values xs = map the (filter (\<lambda>x. x \<noteq> None) xs)"

definition WEEK :: pyfloat where "WEEK = 7"

definition MONTH :: pyfloat where "MONTH = 30"

definition real_jobs :: "store \<Rightarrow> job list" where
  "real_jobs st = filter not_refused (list_jobs st None None None)"

definition latest_finished :: "job list \<Rightarrow> job list" where
  "latest_finished worked = sort_key (\<lambda>j. - the (j_finished_at j)) (filter (\<lambda>j. j_finished_at j \<noteq> None) worked)"

definition public_page :: "store \<Rightarrow> nat \<Rightarrow> nat \<Rightarrow> outlook \<Rightarrow> public_status" where
  "public_page st recent buckets f =
     (let now = st_now st; worked = real_jobs st; users = users_of worked;
          ago = (\<lambda>days. now - timedelta_days days);
          jobs_of = (\<lambda>u. count_where (\<lambda>j. j_user j = u) worked);
          util = (\<lambda>days. bucketed st ''gpu_utilization_percent'' (ago days) now buckets);
          seen = known_values (util WEEK); seen_30 = known_values (util MONTH);
          running = filter (\<lambda>j. j_state j \<in> set ACTIVE) worked;
          origins = j_origin ` set worked;
          demo = (worked \<noteq> [] \<and> origins \<subseteq> {''seeded''})
      in \<lparr>pb_generated_at = now, pb_demo = demo,
          pb_pilot = (\<not> demo \<and> (origins \<subseteq> {''pilot''} \<or> length users \<le> 1) \<and> worked \<noteq> []),
          pb_members = length users,
          pb_members_week = length (users_of (filter (\<lambda>j. ago WEEK \<le> j_submitted_at j) worked)),
          pb_repeat = count_where (\<lambda>u. 1 < jobs_of u) users,
          pb_week = outcomes_since worked (ago WEEK), pb_month = outcomes_since worked (ago MONTH),
          pb_jobs = length worked, pb_queue_depth = count_where (in_state QUEUED) worked,
          pb_running_now = length running, pb_running = map (public_job_of st) (take recent running),
          pb_spent = spent_in st USD worked, pb_reclaimed = returned_dollars st worked,
          pb_gpu_hours = spent_in st GPU_HOUR worked,
          pb_runway = fc_days_left f, pb_burn = fc_burn_per_day f, pb_remaining = fc_available f,
          pb_confident = confident f,
          pb_util_7 = util WEEK, pb_util_30 = util MONTH,
          pb_queue_7 = bucketed st ''queue_depth'' (ago WEEK) now buckets,
          pb_mean_7 = mean_of seen, pb_peak_7 = peak_of seen, pb_mean_30 = mean_of seen_30,
          pb_backends = backend_uses worked now,
          pb_recent = map (public_job_of st) (take recent (latest_finished worked))\<rparr>)"

definition build_public :: "store \<Rightarrow> nat \<Rightarrow> nat \<Rightarrow> (error, public_status) result" where
  "build_public st recent buckets =
     (case forecast st USD of Inl e \<Rightarrow> Inl e | Inr f \<Rightarrow> Inr (public_page st recent buckets f))"

subsection \<open>The cache\<close>

record page_cache =
  pc_at :: "moment option"
  pc_value :: "public_status option"

definition cache_get ::
  "pyfloat \<Rightarrow> moment \<Rightarrow> (error, public_status) result \<Rightarrow> page_cache \<Rightarrow> (error, public_status) result \<times> page_cache"
where
  "cache_get seconds now produced c =
     (case (pc_value c, pc_at c) of
        (Some v, Some t) \<Rightarrow>
          if total_seconds (now - t) < seconds then (Inr v, c)
          else (case produced of Inl e \<Rightarrow> (Inl e, c) | Inr v' \<Rightarrow> (Inr v', c\<lparr>pc_at := Some now, pc_value := Some v'\<rparr>))
      | _ \<Rightarrow> (case produced of Inl e \<Rightarrow> (Inl e, c) | Inr v' \<Rightarrow> (Inr v', c\<lparr>pc_at := Some now, pc_value := Some v'\<rparr>)))"

definition cache_clear :: "page_cache \<Rightarrow> page_cache" where
  "cache_clear c = c\<lparr>pc_at := None, pc_value := None\<rparr>"

subsection \<open>Spelling an index\<close>

text \<open>What the loop leaves behind, as a recursion on the index.\<close>

function letters :: "nat \<Rightarrow> string" where
  "letters n = (if n < 26 then [] else letters (n div 26 - 1)) @ [letter (int n mod 26)]"
  by auto
termination by (relation "measure id") auto

declare letters.simps [simp del]

lemma spell_loop: "while_option (\<lambda>(suffix, n). 0 \<le> n) spell_step (acc, int n) = Some (letters n @ acc, - 1)"
proof (induction n arbitrary: acc rule: less_induct)
  case (less n)
  let ?b = "\<lambda>(suffix, n). 0 \<le> (n :: int)"
  have step: "while_option ?b spell_step (acc, int n) =
      while_option ?b spell_step (letter (int n mod 26) # acc, int n div 26 - 1)"
    by (subst while_option_unfold) (simp add: spell_step_def)
  show ?case
  proof (cases "n < 26")
    case True
    then have "int n div 26 - 1 = - 1" by simp
    with step True show ?thesis by (simp add: while_option_unfold letters.simps [of n])
  next
    case False
    then have i: "int n div 26 - 1 = int (n div 26 - 1)" by (simp add: of_nat_diff)
    have "n div 26 - 1 < n" using False by linarith
    from less.IH [OF this] False show ?thesis unfolding step i by (simp add: letters.simps [of n])
  qed
qed

lemma spell_ends: "spell n = Some (letters n)"
  by (simp add: spell_def spell_loop)

lemma letter_inj: "letter (int a mod 26) = letter (int b mod 26) \<longleftrightarrow> a mod 26 = b mod 26"
proof -
  have "letter (int c mod 26) = char_of (97 + c mod 26)" for c
    by (simp add: letter_def nat_mod_distrib)
  moreover have "of_char (char_of (97 + c mod 26)) = 97 + c mod 26" for c :: nat
    by (simp add: of_char_of)
  ultimately show ?thesis by (metis add_left_cancel)
qed

lemma letters_inj: "letters a = letters b \<Longrightarrow> a = b"
proof (induction a arbitrary: b rule: less_induct)
  case (less a)
  have nil: "letters n \<noteq> []" for n by (simp add: letters.simps [of n])
  from less.prems have eq: "(if a < 26 then [] else letters (a div 26 - 1)) = (if b < 26 then [] else letters (b div 26 - 1))"
    "a mod 26 = b mod 26"
    by (simp_all only: letters.simps [of a] letters.simps [of b] append1_eq_conv letter_inj)
  show ?case
  proof (cases "a < 26")
    case True
    with eq nil have "b < 26" by (metis (full_types))
    with True eq(2) show ?thesis by simp
  next
    case False
    with eq nil have b: "\<not> b < 26" by (metis (full_types))
    have "a div 26 - 1 < a" using False by linarith
    from less.IH [OF this, of "b div 26 - 1"] eq(1) False b have "a div 26 - 1 = b div 26 - 1" by simp
    with False b have "a div 26 = b div 26" by (metis One_nat_def Suc_pred div_greater_zero_iff not_less zero_less_numeral)
    with eq(2) show ?thesis by (metis div_mult_mod_eq)
  qed
qed

subsection \<open>Sorting under a change of names\<close>

lemma insort_key_rename:
  assumes "\<And>y. y \<in> set ys \<Longrightarrow> (k' (g x) \<le> k' (g y)) = (k x \<le> k y)"
  shows "insort_key k' (g x) (map g ys) = map g (insort_key k x ys)"
  using assms by (induction ys) auto

lemma sort_key_rename:
  assumes "\<And>x y. x \<in> set xs \<Longrightarrow> y \<in> set xs \<Longrightarrow> (k' (g x) \<le> k' (g y)) = (k x \<le> k y)"
  shows "sort_key k' (map g xs) = map g (sort_key k xs)"
  using assms
proof (induction xs)
  case (Cons x xs)
  then have "sort_key k' (map g xs) = map g (sort_key k xs)" by simp
  moreover have "insort_key k' (g x) (map g (sort_key k xs)) = map g (insort_key k x (sort_key k xs))"
    by (rule insort_key_rename) (use Cons.prems in simp)
  ultimately show ?case by simp
qed simp

lemma remdups_map_inj: "inj_on f (set xs) \<Longrightarrow> remdups (map f xs) = map f (remdups xs)"
  by (induction xs) (auto dest: inj_onD)

lemma filter_map_cong: "(\<And>x. x \<in> set xs \<Longrightarrow> P (g x) = Q x) \<Longrightarrow> filter P (map g xs) = map g (filter Q xs)"
  by (induction xs) auto

lemma map_of_rename:
  "inj_on f (insert x (fst ` set ps)) \<Longrightarrow> map_of (map (\<lambda>(k, v). (f k, v)) ps) (f x) = map_of ps x"
  by (induction ps) (auto dest: inj_onD)

subsection \<open>Two databases that look the same\<close>

text \<open>
  A copy of the database in which members and jobs have other names and everything else that the page must
  not show is gone: commands, handles, refusals, environments, display names, the log, notifications,
  transitions, labels of gauges, hosts and notes.
\<close>

definition blank_user :: "(string \<Rightarrow> string) \<Rightarrow> user \<Rightarrow> user" where
  "blank_user fu u = u\<lparr>u_id := fu (u_id u), u_display_name := [], u_suspended_reason := [], u_suspended_by := []\<rparr>"

definition blank_job :: "(string \<Rightarrow> string) \<Rightarrow> (string \<Rightarrow> string) \<Rightarrow> job \<Rightarrow> job" where
  "blank_job fu fj j =
     j\<lparr>j_id := fj (j_id j), j_user := fu (j_user j), j_command := [], j_handle := None, j_refusal_reason := None,
       j_checkpoint_key := None, j_environment := None, j_cancel_requested := None\<rparr>"

definition blank_entry :: "(string \<Rightarrow> string) \<Rightarrow> (string \<Rightarrow> string) \<Rightarrow> ledger_entry \<Rightarrow> ledger_entry" where
  "blank_entry fu fj e =
     e\<lparr>l_job := map_option fj (l_job e), l_user := map_option fu (l_user e), l_note := None, l_resource_handle := None\<rparr>"

definition disguise :: "(string \<Rightarrow> string) \<Rightarrow> (string \<Rightarrow> string) \<Rightarrow> store \<Rightarrow> store" where
  "disguise fu fj st =
     st\<lparr>st_users := map (blank_user fu) (st_users st), st_jobs := map (blank_job fu fj) (st_jobs st),
        st_ledger := map (blank_entry fu fj) (st_ledger st),
        st_samples := map (\<lambda>(j, s). (fj j, s\<lparr>sm_source := []\<rparr>)) (st_samples st),
        st_metrics := map (\<lambda>m. m\<lparr>mt_labels := []\<rparr>) (st_metrics st),
        st_transitions := [], st_logs := [], st_observations := [], st_notifications := [], st_drains := [],
        st_environments := [], st_builds := [], st_prices := []\<rparr>"

text \<open>The names in use: what a renaming has to keep apart and in order.\<close>

definition member_names :: "store \<Rightarrow> string set" where
  "member_names st = u_id ` set (st_users st) \<union> j_user ` set (st_jobs st)"

definition job_names :: "store \<Rightarrow> string set" where
  "job_names st = j_id ` set (st_jobs st) \<union> {i. Some i \<in> l_job ` set (st_ledger st)} \<union> fst ` set (st_samples st)"

lemma blank_simps [simp]:
  "u_id (blank_user fu u) = fu (u_id u)" "u_created_at (blank_user fu u) = u_created_at u"
  "j_id (blank_job fu fj j) = fj (j_id j)" "j_user (blank_job fu fj j) = fu (j_user j)"
  "j_gpu_type (blank_job fu fj j) = j_gpu_type j" "j_currency (blank_job fu fj j) = j_currency j"
  "j_reserved (blank_job fu fj j) = j_reserved j" "j_state (blank_job fu fj j) = j_state j"
  "j_submitted_at (blank_job fu fj j) = j_submitted_at j" "j_backend (blank_job fu fj j) = j_backend j"
  "j_started_at (blank_job fu fj j) = j_started_at j" "j_finished_at (blank_job fu fj j) = j_finished_at j"
  "j_preemptions (blank_job fu fj j) = j_preemptions j" "j_origin (blank_job fu fj j) = j_origin j"
  "l_kind (blank_entry fu fj e) = l_kind e" "l_amount (blank_entry fu fj e) = l_amount e"
  "l_currency (blank_entry fu fj e) = l_currency e" "l_period (blank_entry fu fj e) = l_period e"
  "l_at (blank_entry fu fj e) = l_at e" "l_job (blank_entry fu fj e) = map_option fj (l_job e)"
  "l_user (blank_entry fu fj e) = map_option fu (l_user e)"
  by (simp_all add: blank_user_def blank_job_def blank_entry_def)

lemma disguise_simps [simp]:
  "st_now (disguise fu fj st) = st_now st" "st_cfg (disguise fu fj st) = st_cfg st"
  "st_users (disguise fu fj st) = map (blank_user fu) (st_users st)"
  "st_jobs (disguise fu fj st) = map (blank_job fu fj) (st_jobs st)"
  "st_ledger (disguise fu fj st) = map (blank_entry fu fj) (st_ledger st)"
  "st_samples (disguise fu fj st) = map (\<lambda>(j, s). (fj j, s\<lparr>sm_source := []\<rparr>)) (st_samples st)"
  "st_metrics (disguise fu fj st) = map (\<lambda>m. m\<lparr>mt_labels := []\<rparr>) (st_metrics st)"
  by (simp_all add: disguise_def)

lemma aggregate_blank [simp]: "aggregate (map (blank_entry fu fj) rows) = aggregate rows"
proof -
  have "foldl aggregate_row p (map (blank_entry fu fj) rows) = foldl aggregate_row p rows" for p
    by (induction rows arbitrary: p) (auto simp: split_def split: ledger_kind.splits)
  then show ?thesis by (simp add: aggregate_def)
qed

text \<open>A renaming that keeps different names different and in the same order.\<close>

definition renames :: "(string \<Rightarrow> string) \<Rightarrow> (string \<Rightarrow> string) \<Rightarrow> store \<Rightarrow> bool" where
  "renames fu fj st \<longleftrightarrow> strict_mono_on (member_names st) fu \<and> strict_mono_on (job_names st) fj"

lemma ordered_names:
  fixes f :: "string \<Rightarrow> string"
  assumes "strict_mono_on A f" "a \<in> A" "b \<in> A"
  shows "(f a \<le> f b) = (a \<le> b)" "(f a < f b) = (a < b)" "(f a = f b) = (a = b)"
  using strict_mono_onD [OF assms] strict_mono_onD [OF assms(1,3,2)]
  by (cases a b rule: linorder_cases; force)+

lemma renames_user:
  assumes "renames fu fj st" "a \<in> member_names st" "b \<in> member_names st"
  shows "(fu a \<le> fu b) = (a \<le> b)" "(fu a < fu b) = (a < b)" "(fu a = fu b) = (a = b)"
  using assms ordered_names unfolding renames_def by blast+

lemma renames_job:
  assumes "renames fu fj st" "a \<in> job_names st" "b \<in> job_names st"
  shows "(fj a \<le> fj b) = (a \<le> b)" "(fj a < fj b) = (a < b)" "(fj a = fj b) = (a = b)"
  using assms ordered_names unfolding renames_def by blast+

lemma named:
  "u \<in> set (st_users st) \<Longrightarrow> u_id u \<in> member_names st"
  "j \<in> set (st_jobs st) \<Longrightarrow> j_user j \<in> member_names st"
  "j \<in> set (st_jobs st) \<Longrightarrow> j_id j \<in> job_names st"
  by (simp_all add: member_names_def job_names_def)

lemma list_jobs_set: "set (list_jobs st None states None) \<subseteq> set (st_jobs st)"
  by (auto simp: list_jobs_def Let_def)

lemma list_jobs_disguised:
  assumes "renames fu fj st"
  shows "list_jobs (disguise fu fj st) None states None = map (blank_job fu fj) (list_jobs st None states None)"
proof -
  let ?P = "\<lambda>j. case states of None \<Rightarrow> True | Some ss \<Rightarrow> j_state j \<in> set ss"
  have "filter ?P (map (blank_job fu fj) (st_jobs st)) = map (blank_job fu fj) (filter ?P (st_jobs st))"
    by (rule filter_map_cong) (simp split: option.splits)
  moreover have "sort_key job_order (map (blank_job fu fj) (filter ?P (st_jobs st))) =
      map (blank_job fu fj) (sort_key job_order (filter ?P (st_jobs st)))"
    by (rule sort_key_rename)
      (use renames_job [OF assms named(3) named(3)] in \<open>auto simp: job_order_def less_eq_prod_def\<close>)
  ultimately show ?thesis by (simp add: list_jobs_def Let_def)
qed

lemma job_rows_disguised:
  assumes "renames fu fj st" and "i \<in> job_names st"
  shows "filter (\<lambda>e. l_job e = Some (fj i) \<and> P e) (map (blank_entry fu fj) (st_ledger st)) =
         map (blank_entry fu fj) (filter (\<lambda>e. l_job e = Some i \<and> P (blank_entry fu fj e)) (st_ledger st))"
proof (rule filter_map_cong)
  fix e
  assume e: "e \<in> set (st_ledger st)"
  have "(map_option fj (l_job e) = Some (fj i)) = (l_job e = Some i)"
  proof (cases "l_job e")
    case (Some k)
    then have "k \<in> job_names st" using e by (force simp: job_names_def)
    then show ?thesis using renames_job(3) [OF assms(1) _ assms(2)] Some by simp
  qed simp
  then show "(l_job (blank_entry fu fj e) = Some (fj i) \<and> P (blank_entry fu fj e)) =
      (l_job e = Some i \<and> P (blank_entry fu fj e))" by simp
qed

lemma job_spend_disguised:
  "renames fu fj st \<Longrightarrow> i \<in> job_names st \<Longrightarrow> job_spend (disguise fu fj st) (fj i) = job_spend st i"
  using job_rows_disguised [of fu fj st i "\<lambda>_. True"] by (simp add: job_spend_def)

lemma job_holding_disguised:
  "renames fu fj st \<Longrightarrow> i \<in> job_names st \<Longrightarrow> job_holding (disguise fu fj st) (fj i) cur = job_holding st i cur"
  using job_rows_disguised [of fu fj st i "\<lambda>e. l_currency e = cur"] by (simp add: job_holding_def)

lemma samples_disguised:
  assumes "renames fu fj st" and "i \<in> job_names st"
  shows "map sm_gpu_percent (samples_for (disguise fu fj st) (fj i) None n) = map sm_gpu_percent (samples_for st i None n)"
proof -
  let ?g = "\<lambda>(j, s). (fj j, s\<lparr>sm_source := []\<rparr>)"
  have "filter (\<lambda>(j, s). j = fj i) (map ?g (st_samples st)) = map ?g (filter (\<lambda>(j, s). j = i) (st_samples st))"
  proof (rule filter_map_cong)
    fix p
    assume "p \<in> set (st_samples st)"
    then have "fst p \<in> job_names st" by (auto simp: job_names_def)
    then show "(case ?g p of (j, s) \<Rightarrow> j = fj i) = (case p of (j, s) \<Rightarrow> j = i)"
      using renames_job(3) [OF assms(1) _ assms(2)] by (auto split: prod.splits)
  qed
  moreover have "map sm_gpu_percent (map snd (map ?g xs)) = map sm_gpu_percent (map snd xs)" for xs
    by (induction xs) auto
  ultimately show ?thesis by (auto simp: samples_for_def rev_map take_map split: prod.splits)
qed

lemma bucketed_disguised: "bucketed (disguise fu fj st) name since until buckets = bucketed st name since until buckets"
proof -
  let ?P = "\<lambda>m. mt_name m = name \<and> since \<le> mt_at m"
  let ?g = "\<lambda>m :: metric_row. m\<lparr>mt_labels := []\<rparr>"
  have series: "metric_series (disguise fu fj st) name (Some since) None = map ?g (metric_series st name (Some since) None)"
    unfolding metric_series_def using filter_map_cong [of "st_metrics st" ?P ?g ?P] by simp
  have "map mt_value (filter (\<lambda>m. bucket_of since until buckets (mt_at m) = i) (map ?g ms)) =
      map mt_value (filter (\<lambda>m. bucket_of since until buckets (mt_at m) = i) ms)" for i ms
    by (induction ms) auto
  then show ?thesis by (simp add: bucketed_def series)
qed

lemma settlements_disguised:
  "settlements_since (disguise fu fj st) t cur = map (\<lambda>(u, a, w). (map_option fu u, a, w)) (settlements_since st t cur)"
proof -
  let ?P = "\<lambda>e. l_kind e = SETTLE \<and> l_currency e = cur \<and> t \<le> l_at e"
  have "filter ?P (map (blank_entry fu fj) (st_ledger st)) = map (blank_entry fu fj) (filter ?P (st_ledger st))"
    by (rule filter_map_cong) simp
  moreover have "sort_key l_at (map (blank_entry fu fj) (filter ?P (st_ledger st))) =
      map (blank_entry fu fj) (sort_key l_at (filter ?P (st_ledger st)))"
    by (rule sort_key_rename) simp
  ultimately show ?thesis by (simp add: settlements_since_def)
qed

lemma pool_balance_disguised: "pool_balance (disguise fu fj st) cur = pool_balance st cur"
proof -
  have "filter (\<lambda>e. l_currency e = cur \<and> l_period e = p) (map (blank_entry fu fj) rows) =
      map (blank_entry fu fj) (filter (\<lambda>e. l_currency e = cur \<and> l_period e = p) rows)" for p rows
    by (rule filter_map_cong) simp
  then show ?thesis by (simp add: pool_balance_def pool_balance_in_def period_now_def)
qed

lemma pool_committed_disguised:
  assumes "renames fu fj st"
  shows "pool_committed (disguise fu fj st) cur = pool_committed st cur"
proof -
  have rows: "filter (\<lambda>e. l_currency e = cur \<and> l_period e = p) (map (blank_entry fu fj) rows) =
      map (blank_entry fu fj) (filter (\<lambda>e. l_currency e = cur \<and> l_period e = p) rows)" for p rows
    by (rule filter_map_cong) simp
  have "foldl (\<lambda>acc j. if j_currency j = cur then acc + job_holding (disguise fu fj st) (j_id j) cur else acc) a (map (blank_job fu fj) js) =
      foldl (\<lambda>acc j. if j_currency j = cur then acc + job_holding st (j_id j) cur else acc) a js"
    if "set js \<subseteq> set (st_jobs st)" for a js
    using that by (induction js arbitrary: a) (simp_all add: job_holding_disguised [OF assms named(3)])
  from this [OF list_jobs_set] show ?thesis
    by (simp add: pool_committed_def period_now_def rows active_jobs_def list_jobs_disguised [OF assms])
qed

lemma forecast_disguised:
  assumes "renames fu fj st"
  shows "forecast (disguise fu fj st) cur = forecast st cur"
proof -
  have amounts: "(\<Sum>(_, amount, _) \<leftarrow> map (\<lambda>(u, a, w). (map_option fu u, a, w)) xs. amount) = (\<Sum>(_, amount, _) \<leftarrow> xs. amount)"
    for xs :: "(string option \<times> decimal \<times> moment) list"
    by (induction xs) auto
  have times: "map (snd \<circ> snd) (map (\<lambda>(u, a, w). (map_option fu u, a, w)) xs) = map (snd \<circ> snd) xs"
    for xs :: "(string option \<times> decimal \<times> moment) list"
    by (induction xs) auto
  have "observed_days (disguise fu fj st) cur = observed_days st cur"
    by (simp only: observed_days_def Let_def settlements_disguised times disguise_simps map_is_Nil_conv)
  moreover have "burned (disguise fu fj st) cur = burned st cur"
    by (simp only: burned_def Let_def settlements_disguised amounts disguise_simps)
  ultimately show ?thesis
    by (simp only: forecast_def burn_per_day_def Let_def pool_balance_disguised pool_committed_disguised [OF assms] disguise_simps)
qed

lemma labels_disguised:
  assumes "renames fu fj st"
  shows "member_labels (disguise fu fj st) = map (\<lambda>(k, v). (fu k, v)) (member_labels st)"
proof -
  have users: "list_users (disguise fu fj st) = map (blank_user fu) (list_users st)"
    by (simp add: list_users_def) (rule sort_key_rename, use renames_user [OF assms named(1) named(1)] in simp)
  let ?k = "\<lambda>u. (u_created_at u, u_id u)"
  have "sort_key ?k (map (blank_user fu) (list_users st)) = map (blank_user fu) (sort_key ?k (list_users st))"
    by (rule sort_key_rename)
      (use renames_user [OF assms named(1) named(1)] in \<open>auto simp: list_users_def less_eq_prod_def\<close>)
  moreover have "map (\<lambda>(i, u). (u_id u, member_label i)) (enumerate n (map (blank_user fu) us)) =
      map (\<lambda>(k, v). (fu k, v)) (map (\<lambda>(i, u). (u_id u, member_label i)) (enumerate n us))" for n us
    by (induction us arbitrary: n) auto
  ultimately show ?thesis by (simp add: member_labels_def users)
qed

lemma label_disguised:
  assumes "renames fu fj st" and "x \<in> member_names st"
  shows "label_of (disguise fu fj st) (fu x) = label_of st x"
proof -
  have "map fst (map (\<lambda>(i, u). (u_id u, member_label i)) (enumerate n us)) = map u_id us" for n us
    by (induction us arbitrary: n) auto
  then have "map fst (member_labels st) = map u_id (sort_key (\<lambda>u. (u_created_at u, u_id u)) (list_users st))"
    by (simp only: member_labels_def)
  then have "set (map fst (member_labels st)) = set (map u_id (sort_key (\<lambda>u. (u_created_at u, u_id u)) (list_users st)))"
    by (rule arg_cong)
  then have "fst ` set (member_labels st) \<subseteq> member_names st" by (auto simp: member_names_def list_users_def)
  then have "inj_on fu (insert x (fst ` set (member_labels st)))"
    by (intro inj_onI) (use renames_user(3) [OF assms(1)] assms(2) in blast)
  then show ?thesis by (simp only: label_of_def labels_disguised [OF assms(1)] map_of_rename)
qed

subsection \<open>Nothing that identifies anybody\<close>

lemma users_disguised:
  assumes "renames fu fj st" and "set js \<subseteq> set (st_jobs st)"
  shows "users_of (map (blank_job fu fj) js) = map fu (users_of js)"
proof -
  have "inj_on fu (set (map j_user js))"
    by (intro inj_onI) (use renames_user(3) [OF assms(1) named(2) named(2)] assms(2) in \<open>auto dest!: subsetD [OF assms(2)]\<close>)
  then have "remdups (map fu (map j_user js)) = map fu (remdups (map j_user js))" by (rule remdups_map_inj)
  then show ?thesis by (simp add: users_of_def comp_def)
qed

lemma count_disguised:
  "(\<And>x. x \<in> set xs \<Longrightarrow> P (g x) = Q x) \<Longrightarrow> count_where P (map g xs) = count_where Q xs"
  by (simp add: count_where_def filter_map_cong [of xs P g Q])

lemma repeat_disguised:
  assumes "renames fu fj st" and "set js \<subseteq> set (st_jobs st)"
  shows "count_where (\<lambda>u. 1 < count_where (\<lambda>j. j_user j = u) (map (blank_job fu fj) js)) (users_of (map (blank_job fu fj) js)) =
         count_where (\<lambda>u. 1 < count_where (\<lambda>j. j_user j = u) js) (users_of js)"
  unfolding users_disguised [OF assms]
proof (rule count_disguised)
  fix u
  assume "u \<in> set (users_of js)"
  then have u: "u \<in> member_names st" using assms(2) by (auto simp: users_of_def member_names_def)
  have "count_where (\<lambda>j. j_user j = fu u) (map (blank_job fu fj) js) = count_where (\<lambda>j. j_user j = u) js"
    by (rule count_disguised) (use renames_user(3) [OF assms(1) named(2) u] assms(2) in auto)
  then show "(1 < count_where (\<lambda>j. j_user j = fu u) (map (blank_job fu fj) js)) = (1 < count_where (\<lambda>j. j_user j = u) js)"
    by simp
qed

lemma money_disguised:
  assumes "renames fu fj st" and "set js \<subseteq> set (st_jobs st)"
  shows "spent_in (disguise fu fj st) cur (map (blank_job fu fj) js) = spent_in st cur js"
    and "returned_dollars (disguise fu fj st) (map (blank_job fu fj) js) = returned_dollars st js"
  using assms(2)
  by (induction js) (simp_all add: spent_in_def returned_dollars_def job_spend_disguised [OF assms(1) named(3)])

lemma ran_disguised [simp]: "ran_for (blank_job fu fj j) now = ran_for j now"
  by (cases "j_started_at j") (simp_all add: ran_for_def)

lemma public_job_disguised:
  assumes "renames fu fj st" and "j \<in> set (st_jobs st)"
  shows "public_job_of (disguise fu fj st) (blank_job fu fj j) = public_job_of st j"
  using assms
  by (simp add: public_job_of_def label_disguised named samples_disguised)

lemma uses_disguised: "backend_uses (map (blank_job fu fj) js) now = backend_uses js now"
proof -
  have placed: "filter (\<lambda>j. truthy (j_backend j)) (map (blank_job fu fj) js) =
      map (blank_job fu fj) (filter (\<lambda>j. truthy (j_backend j)) js)"
    by (rule filter_map_cong) simp
  have key: "backend_key (blank_job fu fj j) = backend_key j" "ran_for (blank_job fu fj j) now = ran_for j now" for j
    by (simp_all add: backend_key_def)
  have "map (\<lambda>j. ran_for j now) (filter (\<lambda>j. backend_key j = k) (map (blank_job fu fj) ps)) =
      map (\<lambda>j. ran_for j now) (filter (\<lambda>j. backend_key j = k) ps)" for k ps
    by (induction ps) (simp_all add: key)
  moreover have "map backend_key (map (blank_job fu fj) ps) = map backend_key ps" for ps
    by (induction ps) (simp_all add: key)
  ultimately show ?thesis by (simp only: backend_uses_def Let_def placed)
qed

lemma outcomes_disguised: "outcomes_since (map (blank_job fu fj) js) since = outcomes_since js since"
proof -
  have "filter (\<lambda>j. \<not> j_submitted_at j < since) (map (blank_job fu fj) js) =
      map (blank_job fu fj) (filter (\<lambda>j. \<not> j_submitted_at j < since) js)"
    by (rule filter_map_cong) simp
  moreover have "count_where (in_state s) (map (blank_job fu fj) js') = count_where (in_state s) js'" for s js'
    by (rule count_disguised) (simp add: in_state_def)
  moreover have "count_where (\<lambda>j. 0 < j_preemptions j) (map (blank_job fu fj) js') = count_where (\<lambda>j. 0 < j_preemptions j) js'" for js'
    by (rule count_disguised) simp
  ultimately show ?thesis by (simp only: outcomes_since_def Let_def)
qed

lemma real_jobs_disguised:
  assumes "renames fu fj st"
  shows "real_jobs (disguise fu fj st) = map (blank_job fu fj) (real_jobs st)"
proof -
  have "filter not_refused (map (blank_job fu fj) js) = map (blank_job fu fj) (filter not_refused js)" for js
    by (rule filter_map_cong) (simp add: not_refused_def)
  then show ?thesis by (simp add: real_jobs_def list_jobs_disguised [OF assms])
qed

lemma latest_disguised: "latest_finished (map (blank_job fu fj) js) = map (blank_job fu fj) (latest_finished js)"
proof -
  have "filter (\<lambda>j. j_finished_at j \<noteq> None) (map (blank_job fu fj) js) =
      map (blank_job fu fj) (filter (\<lambda>j. j_finished_at j \<noteq> None) js)"
    by (rule filter_map_cong) simp
  moreover have "sort_key (\<lambda>j. - the (j_finished_at j)) (map (blank_job fu fj) js') =
      map (blank_job fu fj) (sort_key (\<lambda>j. - the (j_finished_at j)) js')" for js'
    by (rule sort_key_rename) simp
  ultimately show ?thesis by (simp only: latest_finished_def)
qed

lemma rows_disguised:
  assumes "renames fu fj st" and "set js \<subseteq> set (st_jobs st)"
  shows "map (public_job_of (disguise fu fj st)) (take n (map (blank_job fu fj) js)) = map (public_job_of st) (take n js)"
proof -
  have "public_job_of (disguise fu fj st) (blank_job fu fj j) = public_job_of st j" if "j \<in> set (take n js)" for j
    using public_job_disguised [OF assms(1)] assms(2) in_set_takeD [OF that] by blast
  then show ?thesis by (simp add: take_map)
qed

lemma page_disguised:
  assumes "renames fu fj st"
  shows "public_page (disguise fu fj st) recent buckets f = public_page st recent buckets f"
proof -
  let ?js = "real_jobs st"
  have sub: "set ?js \<subseteq> set (st_jobs st)" using list_jobs_set by (auto simp: real_jobs_def)
  have late: "set (latest_finished ?js) \<subseteq> set (st_jobs st)" using sub by (auto simp: latest_finished_def)
  have act: "filter (\<lambda>j. j_state j \<in> set ACTIVE) (map (blank_job fu fj) ?js) =
      map (blank_job fu fj) (filter (\<lambda>j. j_state j \<in> set ACTIVE) ?js)"
    by (rule filter_map_cong) simp
  have recent: "filter (\<lambda>j. t \<le> j_submitted_at j) (map (blank_job fu fj) ?js) =
      map (blank_job fu fj) (filter (\<lambda>j. t \<le> j_submitted_at j) ?js)" for t
    by (rule filter_map_cong) simp
  have orig: "j_origin ` set (map (blank_job fu fj) ?js) = j_origin ` set ?js" by (force simp: image_iff)
  have queued: "count_where (in_state QUEUED) (map (blank_job fu fj) ?js) = count_where (in_state QUEUED) ?js"
    by (rule count_disguised) (simp add: in_state_def)
  have running: "map (public_job_of (disguise fu fj st)) (take recent (map (blank_job fu fj) (filter (\<lambda>j. j_state j \<in> set ACTIVE) ?js))) =
      map (public_job_of st) (take recent (filter (\<lambda>j. j_state j \<in> set ACTIVE) ?js))"
    by (rule rows_disguised [OF assms]) (use sub in auto)
  have week: "users_of (map (blank_job fu fj) (filter (\<lambda>j. t \<le> j_submitted_at j) ?js)) =
      map fu (users_of (filter (\<lambda>j. t \<le> j_submitted_at j) ?js))" for t
    by (rule users_disguised [OF assms]) (use sub in auto)
  note facts = real_jobs_disguised [OF assms] repeat_disguised [OF assms sub, unfolded users_disguised [OF assms sub]]
    users_disguised [OF assms sub]
    money_disguised [OF assms sub] uses_disguised outcomes_disguised bucketed_disguised latest_disguised
    rows_disguised [OF assms late] act recent orig queued running week
  show ?thesis unfolding public_page_def Let_def facts disguise_simps by (simp only: facts length_map map_is_Nil_conv)
qed

text \<open>
  C25. The public page shows nobody. Take any database and a copy of it in which every member and every job
  has another name (different ones staying different and in the same order) and all commands, handles,
  refusals, environments, display names, log lines, notifications, transitions, labels, hosts and notes are
  gone: the page built from the copy is the same page, or fails with the same exception.
\<close>

theorem public_page_hides_identities:
  assumes "renames fu fj st"
  shows "build_public (disguise fu fj st) recent buckets = build_public st recent buckets"
  by (simp only: build_public_def forecast_disguised [OF assms] page_disguised [OF assms])

text \<open>
  Every member has a label, and their own. The loop that spells the label of a member ends for every index,
  with letters from a to z, and no two members of the club share a label.
\<close>

theorem member_labels_terminate:
  "\<exists>s. spell i = Some s \<and> s \<noteq> [] \<and> set s \<subseteq> set ''abcdefghijklmnopqrstuvwxyz'' \<and>
       (member_label i = member_label k) = (i = k)"
proof -
  have one: "letter d \<in> set ''abcdefghijklmnopqrstuvwxyz''" if "0 \<le> d" "d < 26" for d
  proof -
    have "\<forall>d \<in> {0..<26}. letter (int d) \<in> set ''abcdefghijklmnopqrstuvwxyz''" by code_simp
    then show ?thesis using that by (metis atLeastLessThan_iff int_nat_eq nat_less_iff of_nat_numeral zero_le)
  qed
  have "set (letters n) \<subseteq> set ''abcdefghijklmnopqrstuvwxyz''" for n
  proof (induction n rule: less_induct)
    case (less n)
    have "set (letters (n div 26 - 1)) \<subseteq> set ''abcdefghijklmnopqrstuvwxyz''" if "\<not> n < 26"
      by (rule less) (use that in linarith)
    then show ?case using one [of "int n mod 26"] by (simp only: letters.simps [of n] set_append) (auto split: if_splits)
  qed
  moreover have "letters i \<noteq> []" by (simp add: letters.simps [of i])
  moreover have "(member_label i = member_label k) = (i = k)" using letters_inj by (auto simp: member_label_def spell_ends)
  ultimately show ?thesis by (simp add: spell_ends)
qed

text \<open>What the cache serves was produced now, or less than its lifetime ago.\<close>

lemma cache_is_fresh:
  assumes "cache_get seconds now produced c = (Inr v, c')"
  shows "produced = Inr v \<or> (\<exists>t. pc_at c = Some t \<and> pc_value c = Some v \<and> total_seconds (now - t) < seconds)"
  using assms by (auto simp: cache_get_def split: option.splits sum.splits if_splits)

definition demo_public :: store where
  "demo_public =
     (let st = snd (upsert_user demo_member ''bob'' None None None None)
      in st\<lparr>st_jobs := [demo_job ''j1'' ''ada'' 0, demo_job ''j2'' ''bob'' 1]\<rparr>)"

lemma demo_public_jobs: "st_jobs demo_public = [demo_job ''j1'' ''ada'' 0, demo_job ''j2'' ''bob'' 1]"
  and demo_public_ledger: "st_ledger demo_public = []"
  and demo_public_cfg: "st_cfg demo_public = default_config (\<lambda>_. 0)"
  by (simp_all add: demo_public_def demo_member_def upsert_user_def maybe_user_def empty_store_def Let_def)

lemma prefix_renames: "renames (\<lambda>s. p @ s) (\<lambda>s. q @ s) st"
proof -
  have "(p @ a < p @ b) = (a < b)" for p a b :: string by (induction p) auto
  then show ?thesis by (simp add: renames_def strict_mono_on_def)
qed

theorem public_page_hides_identities_witness:
  "map j_user (st_jobs (disguise (\<lambda>s. ''m-'' @ s) (\<lambda>s. ''x-'' @ s) demo_public)) = [''m-ada'', ''m-bob''] \<and>
   (\<exists>p. build_public demo_public 6 56 = Inr p \<and>
        build_public (disguise (\<lambda>s. ''m-'' @ s) (\<lambda>s. ''x-'' @ s) demo_public) 6 56 = Inr p)"
proof -
  let ?st = demo_public
  have none: "settlements_since ?st t USD = []" for t by (simp add: settlements_since_def demo_public_ledger)
  then have b: "burn_per_day ?st USD = Inr 0" by (simp add: burn_per_day_def burned_def)
  have act: "active_jobs ?st = []"
    by (simp add: active_jobs_def list_jobs_def demo_public_jobs Let_def ACTIVE_def)
  have "pool_committed ?st USD = 0"
    unfolding pool_committed_def by (simp add: act demo_public_ledger aggregate_def)
  moreover have "b_budget (pool_balance ?st USD) = 500"
    by (simp add: pool_balance_def pool_balance_in_def demo_public_ledger demo_public_cfg aggregate_def pool_budget_def default_config_def)
  ultimately obtain f where "forecast ?st USD = Inr f" by (simp add: forecast_def b)
  then have "build_public ?st 6 56 = Inr (public_page ?st 6 56 f)" by (simp add: build_public_def)
  moreover note public_page_hides_identities [OF prefix_renames [of "''m-''" "''x-''" demo_public], of 6 56]
  ultimately show ?thesis by (simp add: demo_public_jobs)
qed

end
