(* ===== verification/Web.thy ===== *)
theory Web
  imports Auth Public
begin

text \<open>
  \<^verbatim>\<open>gpu_broker/web/app.py\<close>: the routes of the club's web app as functions of a request and a world. The broker
  of this process has no backends; its external state is that of the machines, which belong to somebody
  else, together with that of the network to the identity provider. The content of the allowlist file is
  read with every request and is part of it. A page is the data its template is given; the templates, the
  charts and the tracing of requests are left out.
\<close>

subsection \<open>Requests and responses\<close>

record web_app =
  wa_config :: web_config
  wa_env :: "string \<Rightarrow> string"
  wa_signer :: signer

record web_request =
  rq_session :: "string option"
  rq_state :: "string option"
  rq_authorization :: string
  rq_roster :: "string option"
  rq_fresh :: string

datatype route =
    Login
  | Callback string string
  | Logout
  | Dashboard
  | Jobs bool
  | JobDetail string
  | CancelJob string
  | SubmitForm
  | SubmitJob string string pyfloat string string
  | AdminPage
  | SetBudget string string string
  | DrainHost string string string
  | MetricsText
  | ReportPage pyfloat
  | Health

datatype detail = Said string | Raised error

type_synonym balances = "(currency \<times> balance) list"

record holder =
  ho_job :: job
  ho_elapsed :: pyfloat
  ho_spent :: decimal
  ho_utilization :: "pyfloat option"

record dashboard =
  db_utilization :: "pyfloat option list"
  db_queue_series :: "pyfloat option list"
  db_holders :: "holder list"
  db_queue :: "(job \<times> priority) list"
  db_queue_depth :: nat
  db_forecasts :: "outlook list"
  db_idle :: "idle_verdict list"
  db_balances :: balances

record job_detail =
  jd_job :: job
  jd_spent :: decimal
  jd_history :: "transition_row list"
  jd_logs :: "log_row list"
  jd_samples :: "sample list"
  jd_peak :: "pyfloat option"
  jd_notices :: "notification list"
  jd_mine :: bool

record submit_page =
  sp_message :: "detail option"
  sp_gpus :: "gpu_type list"
  sp_prices :: "(string \<times> price) list"
  sp_balances :: balances
  sp_allowance :: pyfloat
  sp_environments :: "environment list"

datatype page =
    ErrorPage nat detail
  | DashboardPage dashboard
  | JobsPage "(job \<times> decimal \<times> pyfloat option) list" bool
  | JobPage job_detail
  | SubmitPage submit_page
  | OfficersPage "(user \<times> balances) list" balances
  | ReportText report pyfloat

text \<open>A redirect carries the cookies it sets (\<^const>\<open>Some\<close>) or deletes (\<^const>\<open>None\<close>).\<close>

datatype response =
    Redirect string "(string \<times> string option) list"
  | Html nat page
  | PlainText nat string
  | Healthy

text \<open>What the exception handlers make of an \<open>HTTPException\<close>, away from \<^verbatim>\<open>/metrics\<close>.\<close>

definition http_error :: "nat \<Rightarrow> detail \<Rightarrow> response" where
  "http_error status d = (if status = 401 then Redirect ''/auth/login'' [] else Html status (ErrorPage status d))"

subsection \<open>Who is asking\<close>

definition auth_text :: "error \<Rightarrow> string" where
  "auth_text e = (case e of AuthError s \<Rightarrow> s | _ \<Rightarrow> [])"

definition revocation :: "web_app \<Rightarrow> string option \<Rightarrow> store \<Rightarrow> string \<Rightarrow> string" where
  "revocation app roster st login =
     (case recheck_member (wa_config app) roster login of
        Inl e \<Rightarrow> auth_text e
      | Inr _ \<Rightarrow>
          (case maybe_user st login of
             Some u \<Rightarrow>
               if is_suspended u
               then login @ '' is suspended from the pool ('' @
                    (if u_suspended_reason u \<noteq> [] then u_suspended_reason u else ''no reason recorded'') @ ''). Ask an officer''
               else []
           | None \<Rightarrow> []))"

definition session_of :: "web_app \<Rightarrow> web_request \<Rightarrow> moment \<Rightarrow> identity option" where
  "session_of app rq now = read_session (wa_signer app) (wc_max_age (wa_config app)) now (rq_session rq)"

definition with_viewer ::
  "web_app \<Rightarrow> web_request \<Rightarrow> (identity \<Rightarrow> ('e, response) act) \<Rightarrow> ('e, response) act"
where
  "with_viewer app rq k w =
     (case session_of app rq (st_now (w_store w)) of
        None \<Rightarrow> (Inr (http_error 401 (Said ''sign in'')), w)
      | Some me \<Rightarrow>
          (let refusal = revocation app (rq_roster rq) (w_store w) (id_login me)
           in if refusal \<noteq> [] then (Inr (http_error 403 (Said refusal)), w) else k me w))"

definition is_web_admin :: "web_app \<Rightarrow> identity \<Rightarrow> bool" where
  "is_web_admin app me = web_admin (wa_config app) (id_login me)"

text \<open>\<open>open_broker\<close>: a broker that cannot touch a machine.\<close>

definition web_broker :: "'e checkpoint_reader option \<Rightarrow> 'e broker" where
  "web_broker cps = \<lparr>br_scheduler = \<lparr>sc_backends = [], sc_checkpoints = cps\<rparr>, br_local = None\<rparr>"

definition on_network :: "('n, 'a) ext_op \<Rightarrow> ('e \<times> 'n, 'a) act" where
  "on_network op = calls (\<lambda>now (e, n). case op now n of (r, n') \<Rightarrow> (r, (e, n')))"

subsection \<open>Signing in and out\<close>

definition login_route :: "web_app \<Rightarrow> web_request \<Rightarrow> ('e, response) act" where
  "login_route app rq = ret (Redirect (provider_url (wa_config app) (rq_fresh rq)) [(STATE_COOKIE, Some (rq_fresh rq))])"

definition is_auth_error :: "error \<Rightarrow> bool" where
  "is_auth_error e = (case e of AuthError _ \<Rightarrow> True | _ \<Rightarrow> False)"

definition callback_route ::
  "web_app \<Rightarrow> 'n http_client \<Rightarrow> web_request \<Rightarrow> string \<Rightarrow> string \<Rightarrow> ('e \<times> 'n, response) act"
where
  "callback_route app h rq code' state =
     (if \<not> truthy (rq_state rq) \<or> Some state \<noteq> rq_state rq
      then ret (Html 400 (ErrorPage 400 (Said ''that sign-in link has expired or was not started here. Try again.'')))
      else
        and_then
          (catching is_auth_error
             (and_then (on_network (provider_exchange (wa_config app) (wa_env app) h code')) (\<lambda>(me, org_member).
              and_then (reads_try (\<lambda>_. check_member (wa_config app) (rq_roster rq) me org_member)) (\<lambda>_. ret (Inr me))))
             (\<lambda>e. ret (Inl (Html 403 (ErrorPage 403 (Raised e))))))
          (\<lambda>signed. case signed of
             Inl r \<Rightarrow> ret r
           | Inr me \<Rightarrow>
               and_then (reads (\<lambda>st. maybe_user st (id_login me))) (\<lambda>known.
               and_then (if known = None
                         then and_then (add_user (id_login me) None False (Some (id_display me)) None None None) (\<lambda>_. ret ())
                         else ret ()) (\<lambda>_.
               and_then (reads st_now) (\<lambda>now.
               ret (Redirect ''/'' [(SESSION_COOKIE, Some (issue_session (wa_signer app) now me)), (STATE_COOKIE, None)]))))))"

definition logout_route :: "('e, response) act" where
  "logout_route = ret (Redirect ''/auth/login'' [(SESSION_COOKIE, None)])"

subsection \<open>Pages\<close>

definition budgets_of :: "store \<Rightarrow> string \<Rightarrow> (error, balances) result" where
  "budgets_of st uid =
     py_bind (user_balance st uid USD) (\<lambda>b. py_bind (user_balance st uid GPU_HOUR) (\<lambda>c. Inr [(USD, b), (GPU_HOUR, c)]))"

definition pool_of :: "store \<Rightarrow> balances" where
  "pool_of st = [(USD, pool_balance st USD), (GPU_HOUR, pool_balance st GPU_HOUR)]"

definition recent_utilization :: "store \<Rightarrow> string \<Rightarrow> pyfloat option" where
  "recent_utilization st jid = mean_of (map sm_gpu_percent (samples_for st jid None 5))"

definition peak_utilization :: "store \<Rightarrow> string \<Rightarrow> pyfloat option" where
  "peak_utilization st jid = peak_of (map sm_gpu_percent (samples_for st jid None 500))"

definition holder_row :: "store \<Rightarrow> job \<Rightarrow> holder" where
  "holder_row st j =
     \<lparr>ho_job = j, ho_elapsed = elapsed_hours j (st_now st), ho_spent = job_spend st (j_id j),
      ho_utilization = recent_utilization st (j_id j)\<rparr>"

definition dashboard_page :: "store \<Rightarrow> identity \<Rightarrow> (error, response) result" where
  "dashboard_page st me =
     (let now = st_now st; since = now - timedelta_days 1
      in py_bind (forecast st USD) (\<lambda>usd. py_bind (forecast st GPU_HOUR) (\<lambda>hours.
         py_bind (candidates st (st_cfg st)) (\<lambda>idle. py_bind (budgets_of st (id_login me)) (\<lambda>mine.
         Inr (Html 200 (DashboardPage
           \<lparr>db_utilization = bucketed st ''gpu_utilization_percent'' since now 48,
            db_queue_series = bucketed st ''queue_depth'' since now 48,
            db_holders = map (holder_row st) (who st), db_queue = take 10 (ordered_queue st now),
            db_queue_depth = length (queued_jobs st), db_forecasts = [usd, hours], db_idle = idle,
            db_balances = mine\<rparr>)))))))"

definition jobs_page :: "store \<Rightarrow> identity \<Rightarrow> bool \<Rightarrow> response" where
  "jobs_page st me everyone =
     Html 200 (JobsPage (map (\<lambda>j. (j, job_spend st (j_id j), peak_utilization st (j_id j)))
       (job_history st (if everyone then None else Some (id_login me)) 100)) everyone)"

definition last_of :: "nat \<Rightarrow> 'a list \<Rightarrow> 'a list" where
  "last_of n xs = drop (length xs - n) xs"

definition job_page :: "store \<Rightarrow> identity \<Rightarrow> string \<Rightarrow> (error, response) result" where
  "job_page st me jid =
     (case find_job st jid of
        Inl e \<Rightarrow> Inr (http_error 404 (Raised e))
      | Inr j \<Rightarrow>
          (let samples = samples_for st (j_id j) None 240
           in py_bind (broker_logs st (j_id j) 0) (\<lambda>logs.
              Inr (Html 200 (JobPage
                \<lparr>jd_job = j, jd_spent = job_spend st (j_id j), jd_history = history st (j_id j),
                 jd_logs = last_of 400 logs, jd_samples = samples, jd_peak = peak_of (map sm_gpu_percent samples),
                 jd_notices = notifications_for_job st (j_id j) None, jd_mine = (j_user j = id_login me)\<rparr>)))))"

definition web_prices :: "store \<Rightarrow> (string \<times> price) list" where
  "web_prices st = pb_prices (load_prices (stored_prices st) (new_book (st_cfg st) (st_now st)))"

definition submit_form :: "store \<Rightarrow> identity \<Rightarrow> detail option \<Rightarrow> (error, response) result" where
  "submit_form st me message =
     py_bind (budgets_of st (id_login me)) (\<lambda>mine.
     Inr (Html 200 (SubmitPage
       \<lparr>sp_message = message, sp_gpus = c_gpu_types (st_cfg st), sp_prices = web_prices st, sp_balances = mine,
        sp_allowance = c_startup_allowance_hours (st_cfg st), sp_environments = environments st\<rparr>)))"

fun with_budgets :: "store \<Rightarrow> user list \<Rightarrow> (error, (user \<times> balances) list) result" where
  "with_budgets st [] = Inr []"
| "with_budgets st (u # us) =
     py_bind (budgets_of st (u_id u)) (\<lambda>b. py_bind (with_budgets st us) (\<lambda>rest. Inr ((u, b) # rest)))"

definition officers_page :: "store \<Rightarrow> (error, response) result" where
  "officers_page st =
     py_bind (with_budgets st (list_users st)) (\<lambda>users. Inr (Html 200 (OfficersPage users (pool_of st))))"

text \<open>\<open>now - timedelta(days=days)\<close>.\<close>

definition FIRST_MOMENT :: moment where
  "FIRST_MOMENT = - 62135596800000000"

definition days_before :: "moment \<Rightarrow> pyfloat \<Rightarrow> (error, moment) result" where
  "days_before now days =
     (if 1000000000 * 86400000000 \<le> \<bar>timedelta_days days\<bar> \<or> now - timedelta_days days < FIRST_MOMENT \<or>
         LAST_MOMENT < now - timedelta_days days
      then Inl (OverflowError ''date value out of range'') else Inr (now - timedelta_days days))"

definition report_page :: "store \<Rightarrow> pyfloat \<Rightarrow> (error, response) result" where
  "report_page st days =
     py_bind (days_before (st_now st) days) (\<lambda>since. py_bind (build_report st (Some since)) (\<lambda>r.
     Inr (Html 200 (ReportText r days))))"

definition STALE_AFTER :: int where
  "STALE_AFTER = timedelta_minutes 15"

definition metrics_page :: "web_app \<Rightarrow> web_request \<Rightarrow> store \<Rightarrow> response" where
  "metrics_page app rq st =
     (let token = resolved_metrics_token (wa_config app) (wa_env app)
      in if token = []
         then PlainText 404 (''the metrics endpoint is off. Set web.metrics_token, or '' @
                ''GPU_BROKER_METRICS_TOKEN, to turn it on -- these series name people and jobs'')
         else if rq_authorization rq \<noteq> ''Bearer '' @ token then PlainText 401 ''bad or missing bearer token''
         else PlainText 200 (prometheus st (Some STALE_AFTER)))"

subsection \<open>Forms\<close>

definition is_broker_error :: "error \<Rightarrow> bool" where
  "is_broker_error e =
     (case e of ValueError _ \<Rightarrow> False | IntegrityError \<Rightarrow> False | OverflowError _ \<Rightarrow> False | TraceError _ \<Rightarrow> False
      | AssertionError \<Rightarrow> False | PyException _ _ \<Rightarrow> False | _ \<Rightarrow> True)"

text \<open>The exceptions below \<open>ArithmeticError\<close>, which the forms catch as well.\<close>

definition is_arithmetic_error :: "error \<Rightarrow> bool" where
  "is_arithmetic_error e =
     (case e of OverflowError _ \<Rightarrow> True | PyException name _ \<Rightarrow> name \<in> {''DivisionByZero'', ''InvalidOperation''} | _ \<Rightarrow> False)"

definition form_error :: "error \<Rightarrow> bool" where
  "form_error e = (is_broker_error e \<or> is_arithmetic_error e)"

text \<open>\<open>Decimal(text)\<close>, not given when the text is blank. The texts of infinities and of not-a-number, which
  quantising refuses with the same exception, count as malformed.\<close>

definition decimal_field :: "string \<Rightarrow> string \<Rightarrow> (error, decimal option) result" where
  "decimal_field raw body =
     (if strip raw = [] then Inr None
      else case float_of_text body of Fin x \<Rightarrow> Inr (Some x) | _ \<Rightarrow> Inl (PyException ''InvalidOperation'' []))"

definition undollar :: "string \<Rightarrow> string" where
  "undollar s = dropWhile (\<lambda>c. c = CHR ''$'') s"

definition none_if_empty :: "string \<Rightarrow> string option" where
  "none_if_empty s = (if s = [] then None else Some s)"

definition submit_route ::
  "web_app \<Rightarrow> web_request \<Rightarrow> identity \<Rightarrow> string \<Rightarrow> string \<Rightarrow> pyfloat \<Rightarrow> string \<Rightarrow> string \<Rightarrow> ('e, response) act"
where
  "submit_route app rq me command gpu hours budget env =
     and_then
       (catching form_error
          (and_then (reads_try (\<lambda>_. decimal_field budget (undollar budget))) (\<lambda>b.
           and_then (submit (rq_fresh rq) (id_login me) (strip command) gpu hours b (none_if_empty (strip env)) ''real'') (\<lambda>r.
           ret (Inr r))))
          (\<lambda>e. ret (Inl e)))
       (\<lambda>result. case result of
          Inl e \<Rightarrow> reads_try (\<lambda>st. submit_form st me (Some (Raised e)))
        | Inr r \<Rightarrow>
            (case sr_refusal r of
               Some f \<Rightarrow> reads_try (\<lambda>st. submit_form st me (Some (Said (rf_reason f))))
             | None \<Rightarrow> ret (Redirect (''/jobs/'' @ j_id (sr_job r)) [])))"

text \<open>Cancelling: first the job is read and the member checked, then it is acted on.\<close>

definition cancel_check :: "web_app \<Rightarrow> identity \<Rightarrow> string \<Rightarrow> store \<Rightarrow> response + job" where
  "cancel_check app me jid st =
     (case find_job st jid of
        Inl e \<Rightarrow> Inl (http_error 404 (Raised e))
      | Inr j \<Rightarrow>
          (if j_user j \<noteq> id_login me \<and> \<not> is_web_admin app me
           then Inl (http_error 403 (Said (''that job belongs to '' @ j_user j)))
           else if is_terminal j then Inl (http_error 400 (Said (''already '' @ py_lower (state_name (j_state j)))))
           else Inr j))"

definition cancel_act ::
  "'e checkpoint_reader option \<Rightarrow> web_app \<Rightarrow> identity \<Rightarrow> job \<Rightarrow> ('e, response) act"
where
  "cancel_act cps app me j =
     and_then
       (if j_state j = QUEUED
        then and_then (cancel (web_broker cps) (j_id j) (Some (id_login me)) (is_web_admin app me)) (\<lambda>_. ret ())
        else and_then (writes_with (\<lambda>st. request_cancel st j (id_login me))) (\<lambda>_. ret ()))
       (\<lambda>_. ret (Redirect (''/jobs/'' @ j_id j) []))"

definition cancel_route ::
  "'e checkpoint_reader option \<Rightarrow> web_app \<Rightarrow> identity \<Rightarrow> string \<Rightarrow> ('e, response) act"
where
  "cancel_route cps app me jid =
     and_then (reads (cancel_check app me jid)) (\<lambda>c. case c of Inl r \<Rightarrow> ret r | Inr j \<Rightarrow> cancel_act cps app me j)"

definition officers_only :: "web_app \<Rightarrow> identity \<Rightarrow> ('e, response) act \<Rightarrow> ('e, response) act" where
  "officers_only app me m =
     (if \<not> is_web_admin app me then ret (http_error 403 (Said ''that page is for club officers'')) else m)"

definition budget_route :: "web_app \<Rightarrow> identity \<Rightarrow> string \<Rightarrow> string \<Rightarrow> string \<Rightarrow> ('e, response) act" where
  "budget_route app me uid usd gpu_hours =
     officers_only app me
       (catching form_error
          (and_then (reads_try (\<lambda>_. decimal_field usd (undollar usd))) (\<lambda>b.
           and_then (reads_try (\<lambda>_. decimal_field gpu_hours gpu_hours)) (\<lambda>g.
           and_then (add_user uid None False None b g None) (\<lambda>_. ret (Redirect ''/admin'' [])))))
          (\<lambda>e. ret (http_error 400 (Raised e))))"

definition drain_route ::
  "'e checkpoint_reader option \<Rightarrow> web_app \<Rightarrow> identity \<Rightarrow> string \<Rightarrow> string \<Rightarrow> string \<Rightarrow> ('e, response) act"
where
  "drain_route cps app me hostname reason undrain =
     officers_only app me
       (catching is_broker_error
          (and_then (if undrain \<noteq> [] then undrain_host (web_broker cps) hostname (id_login me) True
                     else drain_host (web_broker cps) hostname reason (id_login me) True) (\<lambda>_.
           ret (Redirect ''/admin'' [])))
          (\<lambda>e. ret (http_error 400 (Raised e))))"

subsection \<open>The routes together\<close>

definition handle ::
  "('e \<times> 'n) checkpoint_reader option \<Rightarrow> web_app \<Rightarrow> 'n http_client \<Rightarrow> web_request \<Rightarrow> route \<Rightarrow> ('e \<times> 'n, response) act"
where
  "handle cps app h rq r =
     (case r of
        Login \<Rightarrow> login_route app rq
      | Callback code' state \<Rightarrow> callback_route app h rq code' state
      | Logout \<Rightarrow> logout_route
      | Dashboard \<Rightarrow> with_viewer app rq (\<lambda>me. reads_try (\<lambda>st. dashboard_page st me))
      | Jobs everyone \<Rightarrow> with_viewer app rq (\<lambda>me. reads (\<lambda>st. jobs_page st me everyone))
      | JobDetail jid \<Rightarrow> with_viewer app rq (\<lambda>me. reads_try (\<lambda>st. job_page st me jid))
      | CancelJob jid \<Rightarrow> with_viewer app rq (\<lambda>me. cancel_route cps app me jid)
      | SubmitForm \<Rightarrow> with_viewer app rq (\<lambda>me. reads_try (\<lambda>st. submit_form st me None))
      | SubmitJob command gpu hours budget env \<Rightarrow>
          with_viewer app rq (\<lambda>me. submit_route app rq me command gpu hours budget env)
      | AdminPage \<Rightarrow> with_viewer app rq (\<lambda>me. officers_only app me (reads_try officers_page))
      | SetBudget uid usd gpu_hours \<Rightarrow> with_viewer app rq (\<lambda>me. budget_route app me uid usd gpu_hours)
      | DrainHost hostname reason undrain \<Rightarrow> with_viewer app rq (\<lambda>me. drain_route cps app me hostname reason undrain)
      | MetricsText \<Rightarrow> reads (metrics_page app rq)
      | ReportPage days \<Rightarrow> with_viewer app rq (\<lambda>me. reads_try (\<lambda>st. report_page st days))
      | Health \<Rightarrow> ret Healthy)"

subsection \<open>The live log\<close>

datatype sse = LineEvent log_row | DoneEvent string | RevokedEvent string | KeepAlive

definition poll_logs :: "store \<Rightarrow> string \<Rightarrow> nat \<Rightarrow> log_row list \<times> string" where
  "poll_logs st jid after =
     (case find_job st jid of
        Inl _ \<Rightarrow> ([], ''gone'')
      | Inr j \<Rightarrow> (read_logs st (j_id j) after 200, if is_terminal j then state_name (j_state j) else []))"

text \<open>The loop, for what it finds in one round after the other: whether the reader is still there, the allowlist,
  and the database.\<close>

record stream_round =
  sr_gone :: bool
  sr_roster :: "string option"
  sr_store :: store

fun stream_events :: "web_app \<Rightarrow> string \<Rightarrow> string \<Rightarrow> nat \<Rightarrow> nat \<Rightarrow> stream_round list \<Rightarrow> sse list" where
  "stream_events app login jid after idle [] = []"
| "stream_events app login jid after idle (s # ss) =
     (let revoked = revocation app (sr_roster s) (sr_store s) login; (lines, over) = poll_logs (sr_store s) jid after;
          after' = (if lines = [] then after else lg_id (last lines));
          idle' = (if lines = [] then idle + 1 else 0)
      in if sr_gone s then []
         else if revoked \<noteq> [] then [RevokedEvent revoked]
         else map LineEvent lines @
           (if over \<noteq> [] then [DoneEvent over]
            else (if idle' \<noteq> 0 \<and> idle' mod 15 = 0 then [KeepAlive] else []) @ stream_events app login jid after' idle' ss))"

definition stream_route ::
  "web_app \<Rightarrow> web_request \<Rightarrow> string \<Rightarrow> nat \<Rightarrow> store \<Rightarrow> stream_round list \<Rightarrow> response + sse list"
where
  "stream_route app rq jid after st rounds =
     (case session_of app rq (st_now st) of
        None \<Rightarrow> Inl (http_error 401 (Said ''sign in''))
      | Some me \<Rightarrow>
          (let opening = revocation app (rq_roster rq) st (id_login me)
           in if opening \<noteq> [] then Inl (http_error 403 (Said opening))
              else Inr (stream_events app (id_login me) jid after 0 rounds)))"

subsection \<open>What a request leaves alone\<close>

text \<open>Code that leaves a part of the world as it is.\<close>

definition leaves :: "('e world \<Rightarrow> 'b) \<Rightarrow> ('e, 'a) act \<Rightarrow> bool" where
  "leaves part m \<longleftrightarrow> (\<forall>w. part (snd (m w)) = part w)"

lemma leavesD: "leaves part m \<Longrightarrow> m w = (r, w') \<Longrightarrow> part w' = part w"
  unfolding leaves_def by (metis snd_conv)

named_theorems leaves_rules \<open>code that leaves a part of the world alone\<close>

lemma leaves_basic [leaves_rules]:
  "leaves part (ret a)" "leaves part (raise e)" "leaves part (reads f)" "leaves part (reads_try g)"
  by (simp_all add: leaves_def ret_def raise_def reads_def reads_try_def)

lemma leaves_then [leaves_rules]: "leaves part m \<Longrightarrow> (\<And>a. leaves part (k a)) \<Longrightarrow> leaves part (and_then m k)"
  unfolding leaves_def and_then_def
  by (simp add: split_def split: sum.splits)

lemma leaves_catching [leaves_rules]: "leaves part m \<Longrightarrow> (\<And>e. leaves part (h e)) \<Longrightarrow> leaves part (catching c m h)"
  unfolding leaves_def catching_def by (auto simp: split_def split: sum.splits)

lemma leaves_if [leaves_rules]: "leaves part m \<Longrightarrow> leaves part n \<Longrightarrow> leaves part (if b then m else n)"
  by simp

lemma leaves_option [leaves_rules]: "leaves part m \<Longrightarrow> (\<And>a. leaves part (k a)) \<Longrightarrow> leaves part (case x of None \<Rightarrow> m | Some a \<Rightarrow> k a)"
  by (simp split: option.split)

lemma leaves_sum [leaves_rules]: "(\<And>a. leaves part (h a)) \<Longrightarrow> (\<And>a. leaves part (k a)) \<Longrightarrow> leaves part (case x of Inl a \<Rightarrow> h a | Inr a \<Rightarrow> k a)"
  by (simp split: sum.split)

lemma leaves_prod [leaves_rules]: "(\<And>a b. leaves part (k a b)) \<Longrightarrow> leaves part (case x of (a, b) \<Rightarrow> k a b)"
  by (simp split: prod.split)

lemma leaves_viewer [leaves_rules]: "(\<And>me. leaves part (k me)) \<Longrightarrow> leaves part (with_viewer app rq k)"
  by (simp add: leaves_def with_viewer_def Let_def split: option.split)

lemma leaves_officers [leaves_rules]: "leaves part m \<Longrightarrow> leaves part (officers_only app me m)"
  by (simp add: officers_only_def leaves_basic)

text \<open>Writing the store does not reach the machines, and neither does the network.\<close>

definition machines :: "('e \<times> 'n) world \<Rightarrow> 'e" where
  "machines w = fst (w_ext w)"

lemma leaves_writes [leaves_rules]:
  "leaves machines (writes f)" "leaves machines (writes_with f2)" "leaves machines (writes_try f3)"
  by (auto simp: leaves_def machines_def writes_def writes_with_def writes_try_def split: sum.splits)

lemma leaves_network [leaves_rules]: "leaves machines (on_network op)" "leaves w_store (on_network op)"
  by (simp_all add: leaves_def machines_def on_network_def calls_def split_def)

lemma web_terminate: "terminate_if_held (br_scheduler (web_broker cps)) j reason = ret ()"
  by (simp add: terminate_if_held_def web_broker_def scheduler_backend_def)

lemma no_local_pool: "br_local (web_broker cps) = None"
  by (simp add: web_broker_def)

lemma leaves_cancel [leaves_rules]: "leaves machines (cancel (web_broker cps) jid actor admin)"
  unfolding cancel_def web_terminate move_def by (intro leaves_rules)

lemma leaves_drains [leaves_rules]:
  "leaves part (drain_host (web_broker cps) hostname reason actor admin)"
  "leaves part (undrain_host (web_broker cps) hostname actor admin)"
  unfolding drain_host_def undrain_host_def no_local_pool option.case by (intro leaves_rules)+

lemma leaves_add_user [leaves_rules]: "leaves machines (add_user uid actor admin name b g officer)"
  unfolding add_user_def by (intro leaves_rules)

lemma leaves_submit [leaves_rules]: "leaves machines (submit fresh uid command gpu hours budget env origin)"
  unfolding submit_def by (intro leaves_rules)

lemma leaves_routes [leaves_rules]:
  "leaves machines (login_route app rq)" "leaves machines (callback_route app h rq c st)" "leaves machines logout_route"
  "leaves machines (cancel_act cps app me j)" "leaves machines (submit_route app rq me command gpu hours budget env)"
  "leaves machines (budget_route app me uid usd gh)"
  unfolding login_route_def callback_route_def logout_route_def cancel_act_def submit_route_def budget_route_def
  by (intro leaves_rules)+

lemma leaves_more_routes [leaves_rules]:
  "leaves machines (cancel_route cps app me jid)" "leaves part (drain_route cps app me hostname reason undrain)"
  unfolding cancel_route_def drain_route_def by (intro leaves_rules)+

text \<open>
  C21. The web process cannot touch a machine. Whatever is requested, by whom, and however it ends, the machines
  are as they were: nothing is launched, polled or terminated by this process.
\<close>

theorem web_never_touches_machines:
  "machines (snd (handle cps app h rq r w)) = machines w"
proof -
  have "leaves machines (handle cps app h rq r)"
    unfolding handle_def by (cases r; simp only: route.case) (intro leaves_rules)+
  then show ?thesis by (simp add: leaves_def)
qed

subsection \<open>Who may change anything\<close>

text \<open>What a signed-in member may change: submit a job of their own, cancel a job of their own or any job as an
  officer of the site, and set budgets as an officer.\<close>

definition authority :: "web_app \<Rightarrow> identity \<Rightarrow> route \<Rightarrow> store \<Rightarrow> bool" where
  "authority app me r st =
     (case r of
        SubmitJob command gpu hours budget env \<Rightarrow> True
      | CancelJob jid \<Rightarrow> (\<exists>j. find_job st jid = Inr j \<and> (j_user j = id_login me \<or> is_web_admin app me))
      | SetBudget uid usd gpu_hours \<Rightarrow> is_web_admin app me
      | _ \<Rightarrow> False)"

lemma viewer_writes:
  assumes "with_viewer app rq k w = (res, w')" and "w_store w' \<noteq> w_store w"
  shows "\<exists>me. session_of app rq (st_now (w_store w)) = Some me \<and>
    revocation app (rq_roster rq) (w_store w) (id_login me) = [] \<and> k me w = (res, w')"
  using assms by (auto simp: with_viewer_def Let_def split: option.splits if_splits)

lemma cancel_writes:
  assumes "cancel_route cps app me jid w = (res, w')" and "w_store w' \<noteq> w_store w"
  shows "\<exists>j. find_job (w_store w) jid = Inr j \<and> (j_user j = id_login me \<or> is_web_admin app me)"
proof (cases "cancel_check app me jid (w_store w)")
  case (Inl r)
  then show ?thesis using assms by (simp add: cancel_route_def and_then_def reads_def ret_def)
next
  case (Inr j)
  then show ?thesis by (auto simp: cancel_check_def split: sum.splits if_splits)
qed

lemma budget_writes:
  "budget_route app me uid usd gh w = (res, w') \<Longrightarrow> w_store w' \<noteq> w_store w \<Longrightarrow> is_web_admin app me"
  by (auto simp: budget_route_def officers_only_def ret_def split: if_splits)

definition writing :: "route \<Rightarrow> bool" where
  "writing r =
     (case r of Callback _ _ \<Rightarrow> True | SubmitJob _ _ _ _ _ \<Rightarrow> True | CancelJob _ \<Rightarrow> True | SetBudget _ _ _ \<Rightarrow> True | _ \<Rightarrow> False)"

lemma leaves_login [leaves_rules]: "leaves part (login_route app rq)" "leaves part logout_route"
  unfolding login_route_def logout_route_def by (intro leaves_rules)+

lemma reading_routes: "\<not> writing r \<Longrightarrow> leaves part (handle cps app h rq r)"
  unfolding handle_def writing_def
  by (cases r; simp only: route.case not_True_eq_False; (elim FalseE)?) (intro leaves_rules)+


subsection \<open>Who gets a session\<close>

lemma callback_session:
  assumes "callback_route app h rq c state w = (Inr (Redirect url cookies), w')" and "(SESSION_COOKIE, Some token) \<in> set cookies"
  shows "rq_state rq = Some state \<and> state \<noteq> [] \<and>
    (\<exists>me org n'. provider_exchange (wa_config app) (wa_env app) h c (st_now (w_store w)) (snd (w_ext w)) = (Inr (me, org), n') \<and>
       check_member (wa_config app) (rq_roster rq) me org = Inr () \<and> (\<exists>t. token = issue_session (wa_signer app) t me))"
proof -
  obtain r n where e: "provider_exchange (wa_config app) (wa_env app) h c (st_now (w_store w)) (snd (w_ext w)) = (r, n)"
    by fastforce
  have n: "on_network (provider_exchange (wa_config app) (wa_env app) h c) w = (r, w\<lparr>w_ext := (fst (w_ext w), n)\<rparr>)"
    by (simp add: on_network_def calls_def split_def e)
  have cookie: "STATE_COOKIE \<noteq> SESSION_COOKIE" by (simp add: STATE_COOKIE_def SESSION_COOKIE_def)
  have "truthy (rq_state rq) \<and> Some state = rq_state rq"
    by (rule ccontr) (use assms(1) in \<open>auto simp: callback_route_def ret_def\<close>)
  then have state: "rq_state rq = Some state" "state \<noteq> []" by (auto simp: truthy_def split: option.splits)
  then have run: "callback_route app h rq c state w = (Inr (Redirect url cookies), w')" "truthy (rq_state rq)" "Some state = rq_state rq"
    using assms(1) by (simp_all add: truthy_def)
  show ?thesis
  proof (cases r)
    case (Inl x)
    then show ?thesis using run cookie assms(2)
      by (auto simp: callback_route_def and_then_def catching_def n ret_def split: if_splits)
  next
    case (Inr mo)
    obtain me org where mo: "mo = (me, org)" by fastforce
    show ?thesis
    proof (cases "check_member (wa_config app) (rq_roster rq) me org")
      case (Inl x)
      then show ?thesis using run cookie assms(2)
        by (auto simp: callback_route_def and_then_def catching_def n ret_def reads_try_def Inr mo split: if_splits)
    next
      case ok: (Inr u)
      have "\<exists>t. token = issue_session (wa_signer app) t me"
        using run cookie assms(2) ok
        by (auto simp: callback_route_def and_then_def catching_def n ret_def reads_def reads_try_def Inr mo
            split: if_splits sum.splits prod.splits)
      then show ?thesis using state e Inr mo ok by auto
    qed
  qed
qed

text \<open>No other route sets the cookie.\<close>

definition signs_in :: "response \<Rightarrow> bool" where
  "signs_in r = (case r of Redirect url cookies \<Rightarrow> \<exists>t. (SESSION_COOKIE, Some t) \<in> set cookies | _ \<Rightarrow> False)"

lemma signs_in_simps [simp]:
  "signs_in (Redirect url cookies) \<longleftrightarrow> (\<exists>t. (SESSION_COOKIE, Some t) \<in> set cookies)" "\<not> signs_in (Html n p)"
  "\<not> signs_in (PlainText n t)" "\<not> signs_in Healthy" "\<not> signs_in (http_error n d)"
  by (simp_all add: signs_in_def http_error_def)

definition no_session :: "('e, response) act \<Rightarrow> bool" where
  "no_session m \<longleftrightarrow> (\<forall>w r w'. m w = (Inr r, w') \<longrightarrow> \<not> signs_in r)"

named_theorems no_session_rules \<open>code that does not answer with a session\<close>

lemma no_session_ret [no_session_rules]: "\<not> signs_in r \<Longrightarrow> no_session (ret r)"
  by (simp add: no_session_def ret_def)

lemma no_session_reads [no_session_rules]: "(\<And>st. \<not> signs_in (f st)) \<Longrightarrow> no_session (reads f)"
  by (simp add: no_session_def reads_def)

lemma no_session_reads_try [no_session_rules]:
  "(\<And>st r. f st = Inr r \<Longrightarrow> \<not> signs_in r) \<Longrightarrow> no_session (reads_try f)"
  by (auto simp: no_session_def reads_try_def)

lemma no_session_then [no_session_rules]: "(\<And>a. no_session (k a)) \<Longrightarrow> no_session (and_then m k)"
  unfolding no_session_def and_then_def by (auto split: prod.splits sum.splits)

lemma no_session_catching [no_session_rules]:
  "no_session m \<Longrightarrow> (\<And>e. no_session (h e)) \<Longrightarrow> no_session (catching c m h)"
  unfolding no_session_def catching_def by (auto split: prod.splits sum.splits if_splits)

lemma no_session_if [no_session_rules]: "no_session m \<Longrightarrow> no_session n \<Longrightarrow> no_session (if b then m else n)"
  by simp

lemma no_session_viewer [no_session_rules]: "(\<And>me. no_session (k me)) \<Longrightarrow> no_session (with_viewer app rq k)"
  by (auto simp: no_session_def with_viewer_def Let_def split: option.splits if_splits)

lemma no_session_officers [no_session_rules]: "no_session m \<Longrightarrow> no_session (officers_only app me m)"
  by (simp add: officers_only_def no_session_ret)

lemma no_session_cases [no_session_rules]:
  "(\<And>a. no_session (p a)) \<Longrightarrow> (\<And>a. no_session (q a)) \<Longrightarrow> no_session (case x of Inl a \<Rightarrow> p a | Inr a \<Rightarrow> q a)"
  "no_session m \<Longrightarrow> (\<And>a. no_session (k a)) \<Longrightarrow> no_session (case y of None \<Rightarrow> m | Some a \<Rightarrow> k a)"
  by (simp_all split: sum.split option.split)

lemma pages_sign_nobody_in:
  "dashboard_page st me = Inr r \<Longrightarrow> \<not> signs_in r"
  "job_page st me jid = Inr r \<Longrightarrow> \<not> signs_in r" "submit_form st me msg = Inr r \<Longrightarrow> \<not> signs_in r"
  "officers_page st = Inr r \<Longrightarrow> \<not> signs_in r" "report_page st days = Inr r \<Longrightarrow> \<not> signs_in r"
  by (auto simp: dashboard_page_def job_page_def submit_form_def officers_page_def report_page_def py_bind_def Let_def split: sum.splits if_splits)

lemma plain_pages_sign_nobody_in [simp]: "\<not> signs_in (jobs_page st me e)" "\<not> signs_in (metrics_page app rq st)"
  by (simp_all add: jobs_page_def metrics_page_def Let_def)

lemma no_session_act: "no_session (cancel_act cps app me j)"
  by (auto simp: cancel_act_def intro!: no_session_rules)

lemma no_session_cancel [no_session_rules]: "no_session (cancel_route cps app me jid)"
proof -
  have "\<not> signs_in r" if "cancel_check app me jid st = Inl r" for r st
    using that by (auto simp: cancel_check_def split: sum.splits if_splits)
  then show ?thesis using no_session_act [of cps app me]
    by (auto simp: no_session_def cancel_route_def and_then_def reads_def ret_def split: sum.splits)
qed

lemma session_cookie_routes:
  assumes "handle cps app h rq r w = (Inr (Redirect url cookies), w')" and "(SESSION_COOKIE, Some token) \<in> set cookies"
  shows "\<exists>c state. r = Callback c state"
proof -
  have "no_session (handle cps app h rq r)" if "\<And>c s. r \<noteq> Callback c s"
    using that unfolding handle_def
    by (cases r)
      (auto simp: login_route_def logout_route_def submit_route_def budget_route_def drain_route_def
        STATE_COOKIE_def SESSION_COOKIE_def intro!: no_session_rules dest: pages_sign_nobody_in)
  with assms show ?thesis unfolding no_session_def by fastforce
qed

text \<open>
  C23. Only members get a session. In an app with valid settings that is not in development mode, a response that
  sets the session cookie answers a sign-in that was started in the same browser, and the session is that of
  the identity GitHub reported, which is in the organisation or on one of the lists.
\<close>

theorem sessions_only_for_members:
  assumes "handle cps app h rq r w = (Inr (Redirect url cookies), w')" and "(SESSION_COOKIE, Some token) \<in> set cookies"
    and "validate_web (wa_config app) = Inr ()" and "wc_dev_login (wa_config app) = []"
  shows "\<exists>c state me org n'. r = Callback c state \<and> rq_state rq = Some state \<and>
    github_exchange (wa_config app) (wa_env app) h c (st_now (w_store w)) (snd (w_ext w)) = (Inr (me, org), n') \<and>
    (\<exists>t. token = issue_session (wa_signer app) t me) \<and>
    (wc_org (wa_config app) \<noteq> [] \<and> org \<or>
     text_lower (id_login me) \<in> text_lower ` set (wc_allowlist (wa_config app)) \<or>
     (\<exists>text. rq_roster rq = Some text \<and> text_lower (id_login me) \<in> text_lower ` set (roster_lines text)))"
proof -
  obtain c state where r: "r = Callback c state"
    using assms(1,2) session_cookie_routes by blast
  from callback_session [OF assms(1) [unfolded handle_def r route.case] assms(2)] assms(4)
  obtain me org n' t where x: "rq_state rq = Some state"
    "github_exchange (wa_config app) (wa_env app) h c (st_now (w_store w)) (snd (w_ext w)) = (Inr (me, org), n')"
    "check_member (wa_config app) (rq_roster rq) me org = Inr ()" "token = issue_session (wa_signer app) t me"
    unfolding provider_exchange_def by auto
  with let_in_members [OF assms(3,4) x(3)] r show ?thesis by blast
qed

subsection \<open>The live log shows every line once\<close>

definition shown :: "sse list \<Rightarrow> log_row list" where
  "shown es = concat (map (\<lambda>e. case e of LineEvent l \<Rightarrow> [l] | _ \<Rightarrow> []) es)"

lemma shown_simps [simp]:
  "shown [] = []" "shown (LineEvent l # es) = l # shown es" "shown (DoneEvent t # es) = shown es"
  "shown (RevokedEvent t # es) = shown es" "shown (KeepAlive # es) = shown es" "shown (es @ fs) = shown es @ shown fs"
  "shown (map LineEvent ls) = ls"
  by (simp_all add: shown_def comp_def)

text \<open>The identifiers of a log grow with its rows.\<close>

definition log_grows :: "store \<Rightarrow> bool" where
  "log_grows st \<longleftrightarrow> sorted_wrt (<) (map lg_id (st_logs st))"

lemma read_logs_sorted:
  assumes "log_grows st"
  shows "sorted_wrt (<) (map lg_id (read_logs st jid after n))" and "\<forall>l \<in> set (read_logs st jid after n). after < lg_id l"
proof -
  have "sorted_wrt (<) (map lg_id (filter P rows))" if "sorted_wrt (<) (map lg_id rows)" for P rows
    using that by (induction rows) auto
  then show "sorted_wrt (<) (map lg_id (read_logs st jid after n))"
    using assms unfolding read_logs_def log_grows_def take_map [symmetric] by (intro sorted_wrt_take)
  show "\<forall>l \<in> set (read_logs st jid after n). after < lg_id l"
    by (auto simp: read_logs_def dest: in_set_takeD)
qed

lemma poll_logs_sorted:
  assumes "log_grows st" and "poll_logs st jid after = (lines, over)"
  shows "sorted_wrt (<) (map lg_id lines)" and "\<forall>l \<in> set lines. after < lg_id l"
  using assms(2) read_logs_sorted [OF assms(1)] by (auto simp: poll_logs_def split: sum.splits)

lemma last_is_greatest: "sorted_wrt (<) (map lg_id ls) \<Longrightarrow> l \<in> set ls \<Longrightarrow> lg_id l \<le> lg_id (last ls)"
  by (induction ls) (auto simp: less_imp_le)

lemma shown_sorted:
  assumes "\<forall>s \<in> set ss. log_grows (sr_store s)"
  shows "sorted_wrt (<) (map lg_id (shown (stream_events app login jid after idle ss))) \<and>
    (\<forall>l \<in> set (shown (stream_events app login jid after idle ss)). after < lg_id l)"
  using assms
proof (induction ss arbitrary: after idle)
  case (Cons s ss)
  obtain lines over where p: "poll_logs (sr_store s) jid after = (lines, over)" by fastforce
  note sorted = poll_logs_sorted [OF _ p] and great = last_is_greatest
  have s: "sorted_wrt (<) (map lg_id lines)" "\<forall>l \<in> set lines. after < lg_id l"
    using sorted Cons.prems by simp_all
  let ?after = "if lines = [] then after else lg_id (last lines)"
  have bound: "\<forall>l \<in> set lines. lg_id l \<le> ?after" "after \<le> ?after" using s great by (auto intro: less_imp_le)
  have rest: "sorted_wrt (<) (map lg_id (shown (stream_events app login jid ?after i ss)))"
    "\<forall>l \<in> set (shown (stream_events app login jid ?after i ss)). ?after < lg_id l" for i
    using Cons.IH [of ?after i] Cons.prems by simp_all
  then have later: "\<forall>l \<in> set (shown (stream_events app login jid ?after i ss)). after < lg_id l \<and> (\<forall>k \<in> set lines. lg_id k < lg_id l)" for i
    using bound by (meson le_less_trans)
  have join: "sorted_wrt (<) (map lg_id (lines @ shown (stream_events app login jid ?after i ss))) \<and>
      (\<forall>l \<in> set (lines @ shown (stream_events app login jid ?after i ss)). after < lg_id l)" for i
    using s rest [of i] later [of i] by (auto simp: sorted_wrt_append)
  have alone: "sorted_wrt (<) (map lg_id lines) \<and> (\<forall>l \<in> set lines. after < lg_id l)" using s by simp
  define i where "i = (if lines = [] then idle + 1 else 0)"
  define r where "r = revocation app (sr_roster s) (sr_store s) login"
  have "shown (stream_events app login jid after idle (s # ss)) =
      (if sr_gone s \<or> r \<noteq> [] then [] else if over \<noteq> [] then lines else lines @ shown (stream_events app login jid ?after i ss))"
    by (auto simp: p Let_def i_def r_def)
  then show ?case using join [of i] alone by simp
qed simp


subsection \<open>Consequences of having no backends\<close>

text \<open>
  The job of a cancellation is read twice. When the daemon dispatches it in between, the second reading finds
  a machine, but this process has no backend to terminate it with: the job is moved to CANCELLED and its
  handle cleared while the machine runs on.
\<close>

lemma stale_cancel_skips_termination:
  assumes "j_state j = QUEUED" and "find_job (w_store w) (j_id j) = Inr k" and "\<not> is_terminal k"
    and "may_cancel (w_store w) k (Some (id_login me)) (is_web_admin app me)"
  shows "cancel_act cps app me j w =
    and_then (move k CANCELLED (''cancelled by '' @ actor_name (Some (id_login me)) k) None True)
      (\<lambda>_. ret (Redirect (''/jobs/'' @ j_id j) [])) w"
  using assms
  by (simp add: cancel_act_def cancel_def web_terminate and_then_def reads_try_def ret_def split: prod.splits sum.splits)

text \<open>An officer of the site can neither drain a host here nor undo it.\<close>

lemma web_drain_always_fails:
  assumes "is_web_admin app me"
  shows "drain_route cps app me hostname reason undrain w = (Inr (http_error 400 (Raised (BrokerError NoLocalPool))), w)"
  using assms
  by (simp add: drain_route_def officers_only_def catching_def and_then_def drain_host_def undrain_host_def
      no_local_pool reads_try_def require_officer_def raise_def ret_def is_broker_error_def)

text \<open>The end of a finished job's log is cut off after two hundred lines.\<close>

lemma finished_stream_is_cut:
  assumes "find_job (sr_store s) jid = Inr j" and "is_terminal j" and "\<not> sr_gone s"
    and "revocation app (sr_roster s) (sr_store s) login = []"
  shows "shown (stream_events app login jid after idle (s # ss)) = read_logs (sr_store s) (j_id j) after 200"
proof -
  have "state_name (j_state j) \<noteq> []" by (cases "j_state j") simp_all
  then show ?thesis using assms by (simp add: poll_logs_def Let_def)
qed

subsection \<open>Examples\<close>

definition demo_signer :: signer where
  "demo_signer =
     \<lparr>sg_dumps = (\<lambda>_ _. ''t''), sg_loads = (\<lambda>_ _ t. if t = ''t'' then Some (PDict [(''login'', PStr ''ada'')]) else None)\<rparr>"

definition demo_app :: web_app where
  "demo_app =
     \<lparr>wa_config = default_web\<lparr>wc_client_id := ''x'', wc_client_secret := ''y'', wc_allowlist_file := ''members'',
        wc_admins := [''ada'']\<rparr>, wa_env = (\<lambda>_. []), wa_signer = demo_signer\<rparr>"

definition demo_github :: "unit http_client" where
  "demo_github =
     \<lparr>hc_post = (\<lambda>_ _. x_ret (PDict [(''access_token'', PStr ''k'')])),
      hc_json = (\<lambda>_ _. x_ret (PDict [(''login'', PStr ''ada'')])), hc_status = (\<lambda>_ _. x_ret 404), hc_str_of = (\<lambda>_. [])\<rparr>"

definition demo_request :: web_request where
  "demo_request =
     \<lparr>rq_session = Some ''t'', rq_state = Some ''s'', rq_authorization = [], rq_roster = Some ''ada'', rq_fresh = ''f''\<rparr>"

definition demo_site :: "(unit \<times> unit) world" where
  "demo_site = \<lparr>w_store = empty_store 0 (default_config (\<lambda>_. 0)), w_ext = ((), ())\<rparr>"

lemma demo_lists: "allowed_logins (wa_config demo_app) (Some ''ada'') = {''ada''}" "allowed_logins (wa_config demo_app) (Some []) = {}"
proof -
  have "roster_lines ''ada'' = [''ada'']" "roster_lines [] = []" "text_lower ''ada'' = ''ada''" by code_simp+
  then show "allowed_logins (wa_config demo_app) (Some ''ada'') = {''ada''}" "allowed_logins (wa_config demo_app) (Some []) = {}"
    by (simp_all add: allowed_logins_def demo_app_def default_web_def)
qed

lemma demo_lower: "text_lower ''ada'' = ''ada''"
  by code_simp

lemma demo_revocation:
  assumes "st_users st = []"
  shows "revocation demo_app (Some ''ada'') st ''ada'' = []" "revocation demo_app (Some []) st ''ada'' \<noteq> []"
  by (simp_all add: revocation_def recheck_member_def demo_lists demo_lower maybe_user_def assms auth_text_def)
    (simp_all add: demo_app_def default_web_def)

lemma demo_session: "session_of demo_app demo_request t = Some \<lparr>id_login = ''ada'', id_name = [], id_avatar = []\<rparr>"
  by (simp add: session_of_def demo_app_def demo_request_def demo_signer_def read_session_def truthy_def text_field_def)

lemma demo_admin: "is_web_admin demo_app \<lparr>id_login = ''ada'', id_name = [], id_avatar = []\<rparr>"
  by (simp add: is_web_admin_def web_admin_def demo_app_def)


theorem sessions_only_for_members_witness:
  "\<exists>url cookies w'. handle None demo_app demo_github demo_request (Callback ''c'' ''s'') demo_site =
     (Inr (Redirect url cookies), w') \<and> (SESSION_COOKIE, Some ''t'') \<in> set cookies \<and>
     text_lower ''ada'' \<in> text_lower ` set (roster_lines ''ada'')"
proof -
  let ?c = "wa_config demo_app"
  have c: "validate_web ?c = Inr ()" "wc_dev_login ?c = []" "wc_org ?c = []" "wc_client_secret ?c = ''y''" "wc_allowlist ?c = []"
    by (simp_all add: demo_app_def default_web_def validate_web_def)
  let ?me = "\<lparr>id_login = ''ada'', id_name = ''ada'', id_avatar = []\<rparr>"
  have x: "provider_exchange ?c env demo_github code' t n = (Inr (?me, False), n)" for env code' t n
    by (simp add: provider_exchange_def c github_exchange_def resolved_secret_def first_of_def demo_github_def x_then_def
        x_ret_def x_field_def x_of_def py_get_def py_true_def py_str_def)
  have m: "check_member ?c (Some ''ada'') ?me False = Inr ()" by (simp add: check_member_def c demo_lists demo_lower)
  have t: "issue_session (wa_signer demo_app) n i = ''t''" for n i by (simp add: issue_session_def demo_app_def demo_signer_def)
  obtain res w' where run: "handle None demo_app demo_github demo_request (Callback ''c'' ''s'') demo_site = (res, w')" by fastforce
  then have r: "res = Inr (Redirect ''/'' [(SESSION_COOKIE, Some ''t''), (STATE_COOKIE, None)])"
    by (auto simp: handle_def callback_route_def demo_request_def truthy_def catching_def and_then_def on_network_def calls_def x m
        reads_try_def reads_def ret_def demo_site_def empty_store_def maybe_user_def add_user_def writes_with_def t)
  have cookie: "(SESSION_COOKIE, Some ''t'') \<in> set [(SESSION_COOKIE, Some ''t''), (STATE_COOKIE, None)]" by simp
  from sessions_only_for_members [OF run [unfolded r] cookie c(1,2)]
  obtain me org n' where "github_exchange ?c (wa_env demo_app) demo_github ''c'' 0 () = (Inr (me, org), n')"
    "\<exists>text. rq_roster demo_request = Some text \<and> text_lower (id_login me) \<in> text_lower ` set (roster_lines text)"
    by (auto simp: c demo_site_def empty_store_def)
  with x [of "wa_env demo_app" "''c''" 0 "()"] c(2) have "text_lower ''ada'' \<in> text_lower ` set (roster_lines ''ada'')"
    by (auto simp: provider_exchange_def demo_request_def)
  then show ?thesis using run r by auto
qed

definition demo_round :: "string \<Rightarrow> stream_round" where
  "demo_round roster =
     \<lparr>sr_gone = False, sr_roster = Some roster, sr_store = append_row ''a'' 0 ''stdout'' ''hi'' demo_store\<rparr>"

lemma demo_store_jobs: "\<exists>j. st_jobs demo_store = [j] \<and> j_id j = ''a'' \<and> j_state j = QUEUED \<and> st_logs demo_store = [] \<and>
    list_all (\<lambda>u. \<not> is_suspended u) (st_users demo_store)"
proof -
  have "whole_cents (225/100)" by (simp add: whole_cents_def)
  then show ?thesis
    by (simp add: demo_store_def demo_member_def upsert_user_def maybe_user_def get_user_def empty_store_def create_job_def
        Let_def insert_job_def new_job_def insert_transition_def insert_ledger_def is_suspended_def)
qed


end
