(* ===== verification/Gce.thy ===== *)
theory Gce
  imports Prices Commands
begin

text \<open>
  \<^verbatim>\<open>gpu_broker/backends/gce.py\<close>: Compute Engine. The instances client and the transport that runs a command
  on a machine are parameters; both act on one external state, that of the cloud and its machines. An
  instance is the message the client answers, with the fields the code reads; fields that are not set are
  empty. What the client raises is its text.
\<close>

subsection \<open>Settings\<close>

record gce_config =
  gg_project :: string
  gg_zone :: string
  gg_boot_image :: string
  gg_network :: string
  gg_subnetwork :: string
  gg_external_ip :: bool
  gg_service_account :: string
  gg_scopes :: "string list"
  gg_ssh_username :: string
  gg_ssh_private_key :: string
  gg_known_hosts :: string
  gg_ssh_timeout :: pyfloat
  gg_machine_types :: "(string \<times> string) list"
  gg_accelerator_types :: "(string \<times> string) list"
  gg_accelerator_counts :: "(string \<times> int) list"
  gg_max_instances :: "(string \<times> int) list"

definition default_gce :: gce_config where
  "default_gce =
     \<lparr>gg_project = [], gg_zone = ''us-central1-a'', gg_boot_image = [], gg_network = ''global/networks/default'',
      gg_subnetwork = [], gg_external_ip = False, gg_service_account = [],
      gg_scopes = [''https://www.googleapis.com/auth/cloud-platform''], gg_ssh_username = ''gpu-broker'',
      gg_ssh_private_key = [], gg_known_hosts = [], gg_ssh_timeout = 30, gg_machine_types = [],
      gg_accelerator_types = [], gg_accelerator_counts = [], gg_max_instances = []\<rparr>"

text \<open>\<open>sorted(set(a) - set(b))\<close> of two dicts.\<close>

definition missing_keys :: "(string \<times> 'a) list \<Rightarrow> (string \<times> 'b) list \<Rightarrow> string list" where
  "missing_keys a b = sort (filter (\<lambda>k. k \<notin> fst ` set b) (remdups (map fst a)))"

definition unset_settings :: "gce_config \<Rightarrow> string list" where
  "unset_settings c =
     map fst (filter (\<lambda>(name, v). v = [])
       [(''gce.project'', gg_project c), (''gce.boot_image'', gg_boot_image c),
        (''gce.ssh_private_key'', gg_ssh_private_key c), (''gce.known_hosts'', gg_known_hosts c)])"

definition require_launchable :: "gce_config \<Rightarrow> (error, unit) result" where
  "require_launchable c =
     (let missing = unset_settings c; limits = missing_keys (gg_machine_types c) (gg_max_instances c);
          accelerators = missing_keys (gg_machine_types c) (gg_accelerator_types c);
          refuse = (\<lambda>t. Inl (ConfigError (ConfigText t)))
      in if missing \<noteq> [] then refuse (''cannot launch GCE: '' @ join_with '', '' missing @ '' must be set'')
         else if gg_machine_types c = [] then refuse ''cannot launch GCE: gce.machine_types must map at least one GPU type''
         else if limits \<noteq> [] then refuse (''gce.max_instances is missing '' @ join_with '', '' limits)
         else if accelerators \<noteq> [] then refuse (''gce.accelerator_types is missing '' @ join_with '', '' accelerators)
         else if \<exists>m\<in>snd ` set (gg_machine_types c). m = [] then refuse ''gce.machine_types values cannot be empty''
         else if \<exists>m\<in>snd ` set (gg_accelerator_types c). m = [] then refuse ''gce.accelerator_types values cannot be empty''
         else if \<exists>n\<in>snd ` set (gg_max_instances c). n < 0 then refuse ''gce.max_instances values must be non-negative integers''
         else if \<exists>n\<in>snd ` set (gg_accelerator_counts c). n < 1 then refuse ''gce.accelerator_counts values must be positive integers''
         else Inr ())"

subsection \<open>Names\<close>

definition label_char :: "char \<Rightarrow> bool" where
  "label_char c = (97 \<le> code c \<and> code c \<le> 122 \<or> 48 \<le> code c \<and> code c \<le> 57 \<or> c \<in> set ''_-'')"

definition strip_set :: "string \<Rightarrow> string \<Rightarrow> string" where
  "strip_set cs s = rev (dropWhile (\<lambda>c. c \<in> set cs) (rev (dropWhile (\<lambda>c. c \<in> set cs) s)))"

definition gce_label :: "string \<Rightarrow> string" where
  "gce_label v =
     (let s = strip_set ''-_'' (map (\<lambda>c. if label_char c then c else CHR ''-'') (text_lower v));
          s' = (if s = [] \<or> \<not> ascii_letter (hd s) then ''x-'' @ s else s)
      in take 63 s')"

definition id_char :: "char \<Rightarrow> bool" where
  "id_char c = (ascii_letter c \<or> 48 \<le> code c \<and> code c \<le> 57 \<or> c = CHR ''-'')"

definition safe_id :: "string \<Rightarrow> (error, string) result" where
  "safe_id v =
     (if v \<noteq> [] \<and> length v \<le> 63 \<and> list_all id_char v then Inr v
      else Inl (ConfigError (ConfigText ''job id must contain only letters, digits, and hyphens for GCE'')))"

definition instance_name :: "string \<Rightarrow> (error, string) result" where
  "instance_name jid =
     py_bind (safe_id jid) (\<lambda>s.
     if 52 < length (text_lower s) then Inl (ConfigError (ConfigText ''job id is too long for a GCE instance name''))
     else Inr (''gpu-broker-'' @ text_lower s))"

subsection \<open>The client and the object\<close>

record gce_interface =
  gi_access :: "string list"
  gi_internal :: string

record gce_instance =
  vm_name :: string
  vm_status :: string
  vm_labels :: "(string \<times> string) list"
  vm_metadata :: "(string \<times> string) list"
  vm_interfaces :: "gce_interface list"

record 'n gce_client =
  gc_insert :: "string \<Rightarrow> string \<Rightarrow> pyval \<Rightarrow> 'n \<Rightarrow> (string + unit) \<times> 'n"
  gc_get :: "string \<Rightarrow> string \<Rightarrow> string \<Rightarrow> 'n \<Rightarrow> (string + gce_instance) \<times> 'n"
  gc_delete :: "string \<Rightarrow> string \<Rightarrow> string \<Rightarrow> 'n \<Rightarrow> (string + unit) \<times> 'n"
  gc_list :: "string \<Rightarrow> string \<Rightarrow> string \<Rightarrow> 'n \<Rightarrow> (string + gce_instance list) \<times> 'n"

record 'n gce =
  gb_config :: gce_config
  gb_client :: "'n gce_client"
  gb_transport :: "'n transport"

record 'n gce_state =
  gs_deleted_logs :: "(string \<times> (string \<times> string) list) list"
  gs_net :: 'n

text \<open>A call of the client, with what is done with the text of its exception and with its answer.\<close>

definition cloud ::
  "('n \<Rightarrow> (string + 'a) \<times> 'n) \<Rightarrow> (string \<Rightarrow> ('n gce_state, 'b) ext_op) \<Rightarrow> ('a \<Rightarrow> ('n gce_state, 'b) ext_op) \<Rightarrow>
     ('n gce_state, 'b) ext_op"
where
  "cloud f h k now s =
     (case f (gs_net s) of
        (Inl t, n) \<Rightarrow> h t now (s\<lparr>gs_net := n\<rparr>)
      | (Inr a, n) \<Rightarrow> k a now (s\<lparr>gs_net := n\<rparr>))"

definition contains_text :: "string \<Rightarrow> string \<Rightarrow> bool" where
  "contains_text needle hay = (\<exists>i<Suc (length hay). take (length needle) (drop i hay) = needle)"

definition not_found :: "string \<Rightarrow> bool" where
  "not_found t = (contains_text ''notFound'' t \<or> contains_text ''404'' t)"

definition gone_instance :: "string \<Rightarrow> gce_instance" where
  "gone_instance handle = \<lparr>vm_name = handle, vm_status = ''TERMINATED'', vm_labels = [], vm_metadata = [], vm_interfaces = []\<rparr>"

definition gce_get :: "'n gce \<Rightarrow> string \<Rightarrow> ('n gce_state, gce_instance) ext_op" where
  "gce_get b handle =
     cloud (gc_get (gb_client b) (gg_project (gb_config b)) (gg_zone (gb_config b)) handle)
       (\<lambda>t. if not_found t then x_ret (gone_instance handle)
            else x_raise (BackendError (''could not inspect GCE instance '' @ handle @ '': '' @ t)))
       x_ret"

definition host_from_instance :: "gce_config \<Rightarrow> gce_instance \<Rightarrow> (error, host_spec) result" where
  "host_from_instance c i =
     (case vm_interfaces i of
        [] \<Rightarrow> Inl (BackendError ''cannot reach GCE instance: list index out of range'')
      | iface # _ \<Rightarrow>
          (let nat = (case gi_access iface of a # _ \<Rightarrow> a | [] \<Rightarrow> []);
               address = (if nat \<noteq> [] then nat else gi_internal iface)
           in if address = [] then Inl (BackendError ''cannot reach GCE instance: instance has no reachable network address'')
              else Inr \<lparr>h_hostname = address, h_username = gg_ssh_username c, h_port = 22,
                        h_client_key = Some (gg_ssh_private_key c), h_known_hosts = Some (gg_known_hosts c)\<rparr>))"

definition gce_host :: "'n gce \<Rightarrow> string \<Rightarrow> ('n gce_state, host_spec) ext_op" where
  "gce_host b handle = x_then (gce_get b handle) (\<lambda>i. x_of (host_from_instance (gb_config b) i))"

text \<open>\<open>dict(...).get(key, default)\<close> over pairs of which the last with a key counts.\<close>

definition meta_get :: "(string \<times> string) list \<Rightarrow> string \<Rightarrow> string \<Rightarrow> string" where
  "meta_get kvs key dflt = (case map_of (rev kvs) key of Some v \<Rightarrow> v | None \<Rightarrow> dflt)"

definition gce_job_id :: "'n gce \<Rightarrow> string \<Rightarrow> ('n gce_state, string) ext_op" where
  "gce_job_id b handle =
     x_then (gce_get b handle) (\<lambda>i. x_ret (meta_get (vm_metadata i) ''broker-job-id'' (remove_prefix handle ''gpu-broker-'')))"

definition gce_run :: "'n gce \<Rightarrow> host_spec \<Rightarrow> string \<Rightarrow> string \<Rightarrow> ('n gce_state, command_result) ext_op" where
  "gce_run b h command action now s =
     (case gb_transport b h command (gg_ssh_timeout (gb_config b)) now (gs_net s) of
        (Inl x, n) \<Rightarrow> (Inl (BackendError (action @ '' failed on '' @ h_hostname h @ '': '' @ error_text x)), s\<lparr>gs_net := n\<rparr>)
      | (Inr r, n) \<Rightarrow>
          ((if cm_ok r then Inr r
            else Inl (BackendError (action @ '' failed on '' @ h_hostname h @ '': '' @
                   take 300 (strip (if cm_stderr r \<noteq> [] then cm_stderr r else cm_stdout r))))), s\<lparr>gs_net := n\<rparr>))"

subsection \<open>Listing and capacity\<close>

definition gone_states :: "string set" where
  "gone_states = {''DELETING'', ''TERMINATED'', ''STOPPING'', ''STOPPED''}"

definition gce_resource :: "gce_instance \<Rightarrow> resource" where
  "gce_resource i =
     \<lparr>rs_handle = vm_name i, rs_gpu_type = meta_get (vm_labels i) ''broker-gpu-type'' [],
      rs_status = (if vm_status i \<in> gone_states then BS_GONE else BS_RUNNING),
      rs_tags = [(''broker-job-id'', meta_get (vm_metadata i) ''broker-job-id'' []),
                 (''broker-user'', meta_get (vm_metadata i) ''broker-user'' [])]\<rparr>"

definition labelled :: "gce_instance \<Rightarrow> bool" where
  "labelled i = (''broker-job-id'' \<in> fst ` set (vm_labels i))"

definition gce_list_resources :: "'n gce \<Rightarrow> ('n gce_state, resource list) ext_op" where
  "gce_list_resources b =
     cloud (gc_list (gb_client b) (gg_project (gb_config b)) (gg_zone (gb_config b)) ''labels.broker-job-id:*'')
       (\<lambda>t. x_raise (BackendError (''could not list GCE instances: '' @ t)))
       (\<lambda>is. x_ret (map gce_resource (filter labelled is)))"

definition gce_supports :: "'n gce \<Rightarrow> string \<Rightarrow> bool" where
  "gce_supports b gpu_type = (gpu_type \<in> fst ` set (gg_machine_types (gb_config b)))"

definition occupies :: "string \<Rightarrow> resource \<Rightarrow> bool" where
  "occupies gpu_type r = (rs_gpu_type r = gpu_type \<and> rs_status r \<notin> {BS_GONE, BS_COMPLETED, BS_FAILED, BS_INTERRUPTED})"

definition gce_free_slots :: "'n gce \<Rightarrow> string \<Rightarrow> ('n gce_state, int) ext_op" where
  "gce_free_slots b gpu_type =
     (if \<not> gce_supports b gpu_type then x_ret 0
      else x_then (gce_list_resources b) (\<lambda>rs.
           x_ret (max 0 ((case map_of (gg_max_instances (gb_config b)) gpu_type of Some n \<Rightarrow> n | None \<Rightarrow> 0) -
                         int (length (filter (occupies gpu_type) rs))))))"

subsection \<open>Launching\<close>

text \<open>What \<open>launch\<close> and \<open>validate_launch\<close> check first.\<close>

definition launch_checks :: "'n gce \<Rightarrow> job \<Rightarrow> ('n gce_state, unit) ext_op" where
  "launch_checks b j =
     x_then (x_of (require_launchable (gb_config b))) (\<lambda>_.
     if resumable j \<or> truthy (j_environment j)
     then x_raise (BackendError ''GCE adapter does not support broker checkpoints or named container environments'')
     else if \<not> gce_supports b (j_gpu_type j)
     then x_raise (BackendError (''GCE has no '' @ j_gpu_type j @ '' machine type configured''))
     else x_then (gce_free_slots b (j_gpu_type j)) (\<lambda>free.
          if free < 1 then x_raise (BackendError (''GCE has no free '' @ j_gpu_type j @ '' slots'')) else x_ret ()))"

definition compact_time :: "moment \<Rightarrow> string" where
  "compact_time t = filter (\<lambda>c. c \<notin> set ''-:'') (show_date t @ show_time t)"

definition looked_up :: "(string \<times> string) list \<Rightarrow> string \<Rightarrow> string" where
  "looked_up kvs key = (case map_of kvs key of Some v \<Rightarrow> v | None \<Rightarrow> [])"

definition instance_labels :: "job \<Rightarrow> moment \<Rightarrow> (string \<times> string) list" where
  "instance_labels j now =
     [(''broker-job-id'', gce_label (j_id j)), (''broker-user'', gce_label (j_user j)),
      (''broker-gpu-type'', gce_label (j_gpu_type j)), (''broker-launched-at'', ''t-'' @ compact_time now)]"

definition text_dict :: "(string \<times> string) list \<Rightarrow> pyval" where
  "text_dict kvs = PDict (map (\<lambda>(k, v). (k, PStr v)) kvs)"

definition instance_body :: "gce_config \<Rightarrow> string \<Rightarrow> job \<Rightarrow> moment \<Rightarrow> pyval" where
  "instance_body c name j now =
     PDict
       [(''name'', PStr name),
        (''machine_type'', PStr (''zones/'' @ gg_zone c @ ''/machineTypes/'' @ looked_up (gg_machine_types c) (j_gpu_type j))),
        (''guest_accelerators'', PList [PDict
          [(''accelerator_type'',
              PStr (''zones/'' @ gg_zone c @ ''/acceleratorTypes/'' @ looked_up (gg_accelerator_types c) (j_gpu_type j))),
           (''accelerator_count'',
              PNum (of_int (case map_of (gg_accelerator_counts c) (j_gpu_type j) of Some n \<Rightarrow> n | None \<Rightarrow> 1)))]]),
        (''scheduling'', PDict [(''on_host_maintenance'', PStr ''TERMINATE''), (''automatic_restart'', PBool True)]),
        (''labels'', text_dict (instance_labels j now)),
        (''metadata'', PDict [(''items'', PList
          [text_dict [(''key'', ''broker-job-id''), (''value'', j_id j)],
           text_dict [(''key'', ''broker-user''), (''value'', j_user j)]])]),
        (''disks'', PList [PDict
          [(''boot'', PBool True), (''auto_delete'', PBool True),
           (''initialize_params'', text_dict [(''source_image'', gg_boot_image c)])]]),
        (''network_interfaces'', PList [PDict
          ([(''network'', PStr (gg_network c))] @
           (if gg_subnetwork c \<noteq> [] then [(''subnetwork'', PStr (gg_subnetwork c))] else []) @
           (if gg_external_ip c
            then [(''access_configs'', PList [text_dict [(''name'', ''External NAT''), (''type_'', ''ONE_TO_ONE_NAT'')]])]
            else []))]),
        (''service_accounts'', PList
          (if gg_service_account c \<noteq> []
           then [PDict [(''email'', PStr (gg_service_account c)), (''scopes'', PList (map PStr (gg_scopes c)))]]
           else []))]"

definition gce_launch :: "'n gce \<Rightarrow> job \<Rightarrow> ('n gce_state, allocation) ext_op" where
  "gce_launch b j =
     x_then (launch_checks b j) (\<lambda>_.
     x_then (x_of (instance_name (j_id j))) (\<lambda>name.
     x_then x_now (\<lambda>now.
     cloud (gc_insert (gb_client b) (gg_project (gb_config b)) (gg_zone (gb_config b)) (instance_body (gb_config b) name j now))
       (\<lambda>t. x_raise (BackendError (''could not create GCE instance: '' @ t)))
       (\<lambda>_. x_ret \<lparr>al_handle = name, al_gpu_type = j_gpu_type j, al_tags = tags_for j (to_iso now)\<rparr>))))"

definition gce_validate_launch :: "'n gce \<Rightarrow> job \<Rightarrow> ('n gce_state, string) ext_op" where
  "gce_validate_launch b j =
     x_then (launch_checks b j) (\<lambda>_.
     x_ret (''GCE request is locally configured for '' @ looked_up (gg_machine_types (gb_config b)) (j_gpu_type j) @ ''; '' @
            ''Compute Engine has no insert dry-run, so IAM/quota acceptance is unverified''))"

definition gce_validate_terminate :: "'n gce \<Rightarrow> string \<Rightarrow> ('n gce_state, string) ext_op" where
  "gce_validate_terminate b handle =
     x_then (gce_get b handle) (\<lambda>i.
     x_ret (if vm_status i = ''TERMINATED'' then ''GCE instance is already terminated''
            else ''GCE instance exists; delete permission is not provider-validated''))"

subsection \<open>Running the job\<close>

definition gce_root :: "string \<Rightarrow> string" where
  "gce_root safe = ''/tmp/gpu-broker/jobs/'' @ safe"

definition runner_script :: "string \<Rightarrow> string" where
  "runner_script dir =
     (let command_file = dir @ ''/command.sh''; status_file = dir @ ''/exit-code''
      in ''bash '' @ shlex_quote command_file @ ''; rc=$?; '' @
         ''printf '' @ sq (''%s'' @ BSN) @ '' '' @ dq ''$rc'' @ '' > '' @ shlex_quote (status_file @ ''.tmp'') @ '' && '' @
         ''mv '' @ shlex_quote (status_file @ ''.tmp'') @ '' '' @ shlex_quote status_file)"

definition start_script :: "string \<Rightarrow> string \<Rightarrow> string" where
  "start_script dir command =
     (let command_file = dir @ ''/command.sh''; output_file = dir @ ''/output.log''
      in ''mkdir -p '' @ shlex_quote dir @ '' || exit; '' @
         ''if mkdir '' @ shlex_quote (dir @ ''/started'') @ '' 2>/dev/null; then '' @
         ''if ! printf '' @ sq (''%s'' @ BSN) @ '' '' @ shlex_quote command @ '' > '' @ shlex_quote command_file @ ''; then '' @
         ''rmdir '' @ shlex_quote (dir @ ''/started'') @ ''; exit 1; fi; '' @
         ''nohup bash -lc '' @ shlex_quote (runner_script dir) @ '' >> '' @ shlex_quote output_file @ '' 2>&1 </dev/null & '' @
         ''else test -d '' @ shlex_quote (dir @ ''/started'') @ ''; fi'')"

definition gce_start :: "'n gce \<Rightarrow> string \<Rightarrow> job \<Rightarrow> ('n gce_state, unit) ext_op" where
  "gce_start b handle j =
     x_then (gce_host b handle) (\<lambda>h.
     x_then (x_of (safe_id (j_id j))) (\<lambda>safe.
     x_then (gce_run b h (start_script (gce_root safe) (j_command j)) ''start GCE job'') (\<lambda>_. x_ret ())))"

definition poll_script :: "string \<Rightarrow> string" where
  "poll_script dir =
     ''if test -f '' @ shlex_quote (dir @ ''/exit-code'') @ ''; then cat '' @ shlex_quote (dir @ ''/exit-code'') @
     ''; elif test -d '' @ shlex_quote (dir @ ''/started'') @ ''; then echo RUNNING; else echo READY; fi''"

text \<open>What the answer of the machine means.\<close>

definition read_marker :: "string \<Rightarrow> (error, observation) result" where
  "read_marker marker =
     (if marker = ''READY'' then Inr \<lparr>os_status = BS_READY, os_exit_code = None, os_detail = None\<rparr>
      else if marker = ''RUNNING'' then Inr \<lparr>os_status = BS_RUNNING, os_exit_code = None, os_detail = None\<rparr>
      else case int_of_text marker of
             None \<Rightarrow> Inl (BackendError (''GCE job status is invalid: '' @ take 80 marker))
           | Some n \<Rightarrow>
               Inr \<lparr>os_status = (if n = 0 then BS_COMPLETED else BS_FAILED), os_exit_code = Some n,
                    os_detail = Some (''remote process exited '' @ show_int n)\<rparr>)"

definition seen :: "backend_status \<Rightarrow> string \<Rightarrow> observation" where
  "seen status detail = \<lparr>os_status = status, os_exit_code = None, os_detail = Some detail\<rparr>"

definition gce_poll :: "'n gce \<Rightarrow> string \<Rightarrow> ('n gce_state, observation) ext_op" where
  "gce_poll b handle =
     x_then (gce_get b handle) (\<lambda>i.
     if vm_status i \<in> gone_states then x_ret (seen BS_GONE (''GCE instance is '' @ vm_status i))
     else if vm_status i \<noteq> ''RUNNING''
     then x_ret (seen BS_PENDING (''GCE instance is '' @ (if vm_status i \<noteq> [] then vm_status i else ''unknown'')))
     else
       x_then (x_of (host_from_instance (gb_config b) i)) (\<lambda>h.
       x_then (x_of (safe_id (meta_get (vm_metadata i) ''broker-job-id'' ''unknown''))) (\<lambda>safe.
       x_try (gce_run b h (poll_script (gce_root safe)) ''poll GCE job'')
         (\<lambda>t. x_ret (seen BS_PENDING (''waiting for SSH: '' @ t)))
         (\<lambda>r. x_of (read_marker (strip (cm_stdout r)))))))"

subsection \<open>Logs, samples and the end\<close>

definition log_script :: "string \<Rightarrow> nat \<Rightarrow> string" where
  "log_script output after =
     ''if test -f '' @ shlex_quote output @ ''; then awk '' @ sq (''NR > '' @ show_nat after) @ '' '' @ shlex_quote output @ ''; fi''"

definition gce_fetch_logs :: "'n gce \<Rightarrow> string \<Rightarrow> nat \<Rightarrow> ('n gce_state, (string \<times> string) list) ext_op" where
  "gce_fetch_logs b handle after =
     x_then (x_get (\<lambda>s. map_of (gs_deleted_logs s) handle)) (\<lambda>cached.
     case cached of
       Some ls \<Rightarrow> x_ret (drop after ls)
     | None \<Rightarrow>
         x_then (gce_host b handle) (\<lambda>h.
         x_then (gce_job_id b handle) (\<lambda>jid.
         x_then (x_of (safe_id jid)) (\<lambda>safe.
         x_then (gce_run b h (log_script (gce_root safe @ ''/output.log'') after) ''read GCE job logs'') (\<lambda>r.
         x_ret (map (\<lambda>l. (''combined'', l)) (splitlines (cm_stdout r))))))))"

definition keep_logs :: "string \<Rightarrow> (string \<times> string) list \<Rightarrow> 'n gce_state \<Rightarrow> 'n gce_state" where
  "keep_logs handle ls s = s\<lparr>gs_deleted_logs := AList.update handle ls (gs_deleted_logs s)\<rparr>"

definition gce_terminate :: "'n gce \<Rightarrow> string \<Rightarrow> string \<Rightarrow> ('n gce_state, unit) ext_op" where
  "gce_terminate b handle reason =
     x_then
       (x_try (gce_fetch_logs b handle 0)
          (\<lambda>t. x_set (keep_logs handle [(''broker'', ''final GCE log read failed: '' @ t)]))
          (\<lambda>ls. x_set (keep_logs handle ls)))
       (\<lambda>_. cloud (gc_delete (gb_client b) (gg_project (gb_config b)) (gg_zone (gb_config b)) handle)
          (\<lambda>t. if not_found t then x_ret ()
               else x_raise (BackendError (''could not delete GCE instance '' @ handle @ '': '' @ t)))
          x_ret)"

text \<open>The texts of infinities and of not-a-number, which \<open>float\<close> also reads, count as malformed here.\<close>

definition read_sample :: "string list \<Rightarrow> utilization_sample option" where
  "read_sample ls =
     (case ls of
        stamp # row # _ \<Rightarrow>
          (if CHR '','' \<notin> set row then None
           else case partition_at (CHR '','') row of
                  (u, m) \<Rightarrow>
                    (case (float_of_text stamp, int_of_text u, int_of_text m) of
                       (Fin t, Some pct, Some mb) \<Rightarrow> Some \<lparr>ut_at = t, ut_gpu_percent = of_int pct, ut_memory_mb = mb\<rparr>
                     | _ \<Rightarrow> None))
      | _ \<Rightarrow> None)"

definition sample_script :: string where
  "sample_script =
     ''date +%s; nvidia-smi --query-gpu=utilization.gpu,memory.used --format=csv,noheader,nounits''"

definition gce_sample_utilization :: "'n gce \<Rightarrow> string \<Rightarrow> ('n gce_state, utilization_sample list) ext_op" where
  "gce_sample_utilization b handle =
     x_then (gce_host b handle) (\<lambda>h.
     x_then (gce_run b h sample_script ''sample GCE GPU utilization'') (\<lambda>r.
     case read_sample (splitlines (cm_stdout r)) of
       None \<Rightarrow> x_raise (BackendError ''GCE nvidia-smi returned an unsupported response'')
     | Some u \<Rightarrow> x_ret [u]))"

definition gce_backend :: "'n gce \<Rightarrow> 'n gce_state backend" where
  "gce_backend b =
     \<lparr>bk_name = ''gce'', bk_currency = USD, bk_tier = Some ''ondemand'', bk_supports = gce_supports b,
      bk_free_slots = gce_free_slots b, bk_launch = gce_launch b, bk_start = gce_start b, bk_poll = gce_poll b,
      bk_validate_launch = gce_validate_launch b, bk_fetch_logs = gce_fetch_logs b, bk_terminate = gce_terminate b,
      bk_list_resources = gce_list_resources b, bk_sample_utilization = gce_sample_utilization b\<rparr>"


subsection \<open>What the shell on the machine sees\<close>

definition start_tokens :: "string \<Rightarrow> string \<Rightarrow> sh_token list" where
  "start_tokens dir command =
     [Word ''mkdir'', Word ''-p'', Word dir, Op ''|'', Op ''|'', Word ''exit'', Op '';'',
      Word ''if'', Word ''mkdir'', Word (dir @ ''/started''), Word ''2'', Op ''>'', Word ''/dev/null'', Op '';'', Word ''then'',
      Word ''if'', Op ''!'', Word ''printf'', Word (''%s'' @ BSN), Word command, Op ''>'', Word (dir @ ''/command.sh''), Op '';'', Word ''then'',
      Word ''rmdir'', Word (dir @ ''/started''), Op '';'', Word ''exit'', Word ''1'', Op '';'', Word ''fi'', Op '';'',
      Word ''nohup'', Word ''bash'', Word ''-lc'', Word (runner_script dir), Op ''>'', Op ''>'', Word (dir @ ''/output.log''),
      Word ''2'', Op ''>'', Op ''&'', Word ''1'', Op ''<'', Word ''/dev/null'', Op ''&'',
      Word ''else'', Word ''test'', Word ''-d'', Word (dir @ ''/started''), Op '';'', Word ''fi'']"

lemma start_reads: "sh_tokens (start_script dir command) = Some (start_tokens dir command)"
  by (simp add: start_script_def start_tokens_def Let_def sh_tokens_def read_quote sq_def SQ_def DQ_def BSN_def safe_char_def ascii_letter_def)

lemma safe_root: "safe_id v = Inr safe \<Longrightarrow> safe = v \<and> list_all safe_char (gce_root safe)"
  by (auto simp: safe_id_def gce_root_def id_char_def safe_char_def ascii_letter_def list_all_iff split: if_splits)

text \<open>
  C17. A member's command cannot break out of the script that starts it on Compute Engine. Once the machine is
  found, starting a job sends one script, or none when the identifier of the job is not one the paths may be
  built from. Whatever the command contains, the shell on the machine reads that script as the same fixed
  sequence of commands: it claims the directory of the job, writes the command, as one word, to a file, and
  runs that file; every path in it consists of characters no shell treats in a special way.
\<close>

theorem gce_start_is_injection_free:
  assumes "gce_host b handle now s = (Inr h, s1)"
  shows "case safe_id (j_id j) of
      Inl e \<Rightarrow> gce_start b handle j now s = (Inl e, s1)
    | Inr safe \<Rightarrow> \<exists>script. sh_tokens script = Some (start_tokens (gce_root safe) (j_command j)) \<and> list_all safe_char (gce_root safe) \<and>
        gce_start b handle j now s = x_then (gce_run b h script ''start GCE job'') (\<lambda>_. x_ret ()) now s1"
proof (cases "safe_id (j_id j)")
  case (Inl e)
  then show ?thesis using assms by (simp add: gce_start_def x_then_def x_of_def)
next
  case (Inr safe)
  then have "gce_start b handle j now s =
      x_then (gce_run b h (start_script (gce_root safe) (j_command j)) ''start GCE job'') (\<lambda>_. x_ret ()) now s1"
    using assms by (simp add: gce_start_def x_then_def x_of_def)
  then show ?thesis using start_reads safe_root [OF Inr] Inr by fastforce
qed

subsection \<open>The machines\<close>

text \<open>Fields of the body of a request.\<close>

definition body_field :: "pyval \<Rightarrow> string \<Rightarrow> pyval" where
  "body_field v key = (case v of PDict kvs \<Rightarrow> (case map_of kvs key of Some x \<Rightarrow> x | None \<Rightarrow> PNone) | _ \<Rightarrow> PNone)"

definition body_text :: "pyval \<Rightarrow> string" where
  "body_text v = (case v of PStr t \<Rightarrow> t | _ \<Rightarrow> [])"

definition body_pairs :: "pyval \<Rightarrow> (string \<times> string) list" where
  "body_pairs v = (case v of PDict kvs \<Rightarrow> map (\<lambda>(k, x). (k, body_text x)) kvs | _ \<Rightarrow> [])"

definition body_items :: "pyval \<Rightarrow> (string \<times> string) list" where
  "body_items v =
     (case body_field v ''items'' of
        PList xs \<Rightarrow> map (\<lambda>x. (body_text (body_field x ''key''), body_text (body_field x ''value''))) xs
      | _ \<Rightarrow> [])"

text \<open>What Compute Engine documents of these calls: an accepted insertion adds one instance with the name, labels
  and metadata of the request, under a name not in use; an accepted deletion removes the instance; a call that
  is refused changes nothing, and a deletion is answered with not found only for an instance that does not
  exist; a listing has the instances with the label, each once; looking and running commands create and delete
  nothing. \<open>view\<close> is the instances that exist.\<close>

definition faithful_cloud :: "'n gce \<Rightarrow> ('n \<Rightarrow> string \<Rightarrow> gce_instance option) \<Rightarrow> bool" where
  "faithful_cloud b view \<longleftrightarrow>
     (let cl = gb_client b; p = gg_project (gb_config b); z = gg_zone (gb_config b)
      in (\<forall>body n n'. gc_insert cl p z body n = (Inr (), n') \<longrightarrow>
            (let name = body_text (body_field body ''name'')
             in view n name = None \<and>
                (\<exists>i. view n' = (view n)(name \<mapsto> i) \<and> vm_name i = name \<and> vm_labels i = body_pairs (body_field body ''labels'') \<and>
                     vm_metadata i = body_items (body_field body ''metadata'')))) \<and>
         (\<forall>body n n' t. gc_insert cl p z body n = (Inl t, n') \<longrightarrow> view n' = view n) \<and>
         (\<forall>h n n'. gc_delete cl p z h n = (Inr (), n') \<longrightarrow> view n' = (view n)(h := None)) \<and>
         (\<forall>h n n' t. gc_delete cl p z h n = (Inl t, n') \<longrightarrow> view n' = view n \<and> (not_found t \<longrightarrow> view n h = None)) \<and>
         (\<forall>n n' is. gc_list cl p z ''labels.broker-job-id:*'' n = (Inr is, n') \<longrightarrow>
            view n' = view n \<and> distinct (map vm_name is) \<and> (\<forall>i. i \<in> set is \<longleftrightarrow> view n (vm_name i) = Some i \<and> labelled i)) \<and>
         (\<forall>n n' t. gc_list cl p z ''labels.broker-job-id:*'' n = (Inl t, n') \<longrightarrow> view n' = view n) \<and>
         (\<forall>h n. view (snd (gc_get cl p z h n)) = view n) \<and>
         (\<forall>h command tm now n. view (snd (gb_transport b h command tm now n)) = view n) \<and>
         (\<forall>n h i. view n h = Some i \<longrightarrow> vm_name i = h))"

text \<open>The machines of the broker, with the tags it reads back.\<close>

definition gce_held :: "('n \<Rightarrow> string \<Rightarrow> gce_instance option) \<Rightarrow> 'n gce_state \<Rightarrow> string \<Rightarrow> tags option" where
  "gce_held view s h =
     (case view (gs_net s) h of Some i \<Rightarrow> if labelled i then Some (rs_tags (gce_resource i)) else None | None \<Rightarrow> None)"

lemma cloudD:
  assumes "faithful_cloud b view"
  shows cloud_insert: "gc_insert (gb_client b) (gg_project (gb_config b)) (gg_zone (gb_config b)) body n = (Inr (), n') \<Longrightarrow>
      view n (body_text (body_field body ''name'')) = None \<and>
      (\<exists>i. view n' = (view n)(body_text (body_field body ''name'') \<mapsto> i) \<and> vm_labels i = body_pairs (body_field body ''labels'') \<and>
           vm_metadata i = body_items (body_field body ''metadata''))"
    and cloud_insert_fails: "gc_insert (gb_client b) (gg_project (gb_config b)) (gg_zone (gb_config b)) body n = (Inl t, n') \<Longrightarrow> view n' = view n"
    and cloud_delete: "gc_delete (gb_client b) (gg_project (gb_config b)) (gg_zone (gb_config b)) h n = (Inr (), n') \<Longrightarrow> view n' = (view n)(h := None)"
    and cloud_delete_fails: "gc_delete (gb_client b) (gg_project (gb_config b)) (gg_zone (gb_config b)) h n = (Inl t, n') \<Longrightarrow>
      view n' = view n \<and> (not_found t \<longrightarrow> view n h = None)"
    and cloud_list: "gc_list (gb_client b) (gg_project (gb_config b)) (gg_zone (gb_config b)) ''labels.broker-job-id:*'' n = (Inr is, n') \<Longrightarrow>
      view n' = view n \<and> distinct (map vm_name is) \<and> (\<forall>i. i \<in> set is \<longleftrightarrow> view n (vm_name i) = Some i \<and> labelled i)"
    and cloud_list_fails: "gc_list (gb_client b) (gg_project (gb_config b)) (gg_zone (gb_config b)) ''labels.broker-job-id:*'' n = (Inl t, n') \<Longrightarrow> view n' = view n"
    and cloud_get: "view (snd (gc_get (gb_client b) (gg_project (gb_config b)) (gg_zone (gb_config b)) h n)) = view n"
    and cloud_transport: "view (snd (gb_transport b hs command tm now n)) = view n"
    and cloud_names: "view n h = Some i \<Longrightarrow> vm_name i = h"
  using assms unfolding faithful_cloud_def Let_def by - (elim conjE, (blast | metis))+

text \<open>What only looks, or runs a command, leaves the machines as they are.\<close>

definition same_machines :: "('n \<Rightarrow> string \<Rightarrow> gce_instance option) \<Rightarrow> ('n gce_state, 'a) ext_op \<Rightarrow> bool" where
  "same_machines view m \<longleftrightarrow> (\<forall>v. keeps (\<lambda>s. view (gs_net s) = v) m)"

lemma same_intros [intro]:
  "same_machines view (x_ret a)" "same_machines view (x_raise x)" "same_machines view (x_get f)" "same_machines view x_now"
  "same_machines view (x_of q)" "same_machines view (x_set (keep_logs h ls))"
  by (auto simp: same_machines_def keep_logs_def intro: keeps_set)

lemma same_then [intro]: "same_machines view m \<Longrightarrow> (\<And>a. same_machines view (k a)) \<Longrightarrow> same_machines view (x_then m k)"
  unfolding same_machines_def by (blast intro: ext_keeps_then)

lemma same_try [intro]:
  "same_machines view m \<Longrightarrow> (\<And>t. same_machines view (h t)) \<Longrightarrow> (\<And>a. same_machines view (k a)) \<Longrightarrow> same_machines view (x_try m h k)"
  unfolding same_machines_def by (blast intro: keeps_try)

lemma same_if [intro]: "same_machines view m \<Longrightarrow> same_machines view n \<Longrightarrow> same_machines view (if c then m else n)"
  by simp

lemma same_option [intro]:
  "same_machines view m \<Longrightarrow> (\<And>a. same_machines view (k a)) \<Longrightarrow> same_machines view (case x of None \<Rightarrow> m | Some a \<Rightarrow> k a)"
  by (cases x) simp_all

lemma same_cloud:
  assumes "\<And>n. view (snd (f n)) = view n" and "\<And>t. same_machines view (h t)" and "\<And>a. same_machines view (k a)"
  shows "same_machines view (cloud f h k)"
  unfolding same_machines_def keeps_def
proof (intro allI impI)
  fix v now and s :: "'a gce_state" assume v: "view (gs_net s) = v"
  obtain r n where f: "f (gs_net s) = (r, n)" by fastforce
  have n: "view n = v" using assms(1) [of "gs_net s"] v f by simp
  show "view (gs_net (snd (cloud f h k now s))) = v"
  proof (cases r)
    case (Inl t)
    have "keeps (\<lambda>s. view (gs_net s) = v) (h t)" using assms(2) by (simp add: same_machines_def)
    then show ?thesis using n by (simp add: cloud_def f Inl keeps_def)
  next
    case (Inr a)
    have "keeps (\<lambda>s. view (gs_net s) = v) (k a)" using assms(3) by (simp add: same_machines_def)
    then show ?thesis using n by (simp add: cloud_def f Inr keeps_def)
  qed
qed

lemma looking:
  assumes "faithful_cloud b view"
  shows same_get: "same_machines view (gce_get b handle)" and same_list: "same_machines view (gce_list_resources b)"
    and same_run: "same_machines view (gce_run b h command action)"
proof -
  show "same_machines view (gce_get b handle)" unfolding gce_get_def
    by (rule same_cloud) (auto simp: cloud_get [OF assms])
  have "view (snd (gc_list (gb_client b) (gg_project (gb_config b)) (gg_zone (gb_config b)) ''labels.broker-job-id:*'' n)) = view n" for n
    using cloud_list [OF assms] cloud_list_fails [OF assms] by (metis old.sum.exhaust prod.collapse)
  then show "same_machines view (gce_list_resources b)" unfolding gce_list_resources_def by (rule same_cloud) auto
  show "same_machines view (gce_run b h command action)"
    using cloud_transport [OF assms, of h command "gg_ssh_timeout (gb_config b)"]
    by (auto simp: same_machines_def keeps_def gce_run_def split: prod.splits sum.splits) (metis snd_conv)+
qed

lemma reading_keeps_machines:
  assumes "faithful_cloud b view"
  shows "same_machines view (gce_poll b handle)" "same_machines view (gce_fetch_logs b handle after)"
    "same_machines view (gce_start b handle j)" "same_machines view (gce_sample_utilization b handle)"
    "same_machines view (launch_checks b j)"
  using looking [OF assms]
  unfolding gce_poll_def gce_fetch_logs_def gce_start_def gce_sample_utilization_def launch_checks_def gce_free_slots_def gce_host_def
    gce_job_id_def
  by (intro same_intros same_then same_try same_if same_option; blast)+

lemma same_held: "same_machines view m \<Longrightarrow> m now s = (r, s') \<Longrightarrow> view (gs_net s') = view (gs_net s)"
  unfolding same_machines_def keeps_def by (metis snd_conv)

lemma held_cong: "view (gs_net s') = view (gs_net s) \<Longrightarrow> gce_held view s' = gce_held view s"
  by (rule ext) (simp add: gce_held_def)

lemma same_gce_held: "same_machines view m \<Longrightarrow> m now s = (r, s') \<Longrightarrow> gce_held view s' = gce_held view s"
  by (rule held_cong) (rule same_held)

lemma pairs_of_texts [simp]: "body_pairs (text_dict kvs) = kvs"
  by (induction kvs) (auto simp: body_pairs_def text_dict_def body_text_def)

lemma body_of_job:
  "body_text (body_field (instance_body c name j now) ''name'') = name"
  "body_pairs (body_field (instance_body c name j now) ''labels'') = instance_labels j now"
  "body_items (body_field (instance_body c name j now) ''metadata'') = [(''broker-job-id'', j_id j), (''broker-user'', j_user j)]"
  by (simp_all add: instance_body_def body_field_def body_text_def) (simp add: body_items_def body_field_def text_dict_def body_text_def)

lemma launched_machine:
  assumes "faithful_cloud b view" and "gce_launch b j now s = (Inr a, s')"
  shows "view (gs_net s) (al_handle a) = None \<and>
    (\<exists>i. view (gs_net s') = (view (gs_net s))(al_handle a \<mapsto> i) \<and> vm_labels i = instance_labels j now \<and>
         vm_metadata i = [(''broker-job-id'', j_id j), (''broker-user'', j_user j)])"
proof -
  let ?c = "gb_config b"
  obtain s1 name where c: "launch_checks b j now s = (Inr (), s1)"
    and r: "cloud (gc_insert (gb_client b) (gg_project ?c) (gg_zone ?c) (instance_body ?c name j now))
       (\<lambda>t. x_raise (BackendError (''could not create GCE instance: '' @ t)))
       (\<lambda>_. x_ret \<lparr>al_handle = name, al_gpu_type = j_gpu_type j, al_tags = tags_for j (to_iso now)\<rparr>) now s1 = (Inr a, s')"
    using assms(2) by (auto simp: gce_launch_def x_simps)
  obtain n where i: "gc_insert (gb_client b) (gg_project ?c) (gg_zone ?c) (instance_body ?c name j now) (gs_net s1) = (Inr (), n)"
    and a: "al_handle a = name" "gs_net s' = n"
    using r by (auto simp: cloud_def x_simps split: prod.splits sum.splits)
  have "view (gs_net s1) = view (gs_net s)" by (rule same_held [OF reading_keeps_machines(5) [OF assms(1)] c])
  then show ?thesis using cloud_insert [OF assms(1) i] by (simp add: body_of_job a)
qed

lemma failed_launch:
  assumes "faithful_cloud b view" and "gce_launch b j now s = (Inl x, s')"
  shows "gce_held view s' = gce_held view s"
proof (rule held_cong)
  let ?c = "gb_config b"
  obtain q s1 where c: "launch_checks b j now s = (q, s1)" by fastforce
  have v: "view (gs_net s1) = view (gs_net s)" by (rule same_held [OF reading_keeps_machines(5) [OF assms(1)] c])
  have "s' = s1 \<or> (\<exists>name t. gc_insert (gb_client b) (gg_project ?c) (gg_zone ?c) (instance_body ?c name j now) (gs_net s1) = (Inl t, gs_net s'))"
    using assms(2) c by (cases q) (auto simp: gce_launch_def x_simps x_then_def cloud_def split: prod.splits sum.splits)
  then show "view (gs_net s') = view (gs_net s)" using cloud_insert_fails [OF assms(1)] v by metis
qed

lemma terminated_machine:
  assumes "faithful_cloud b view" and "gce_terminate b h why now s = (r, s')"
  shows "gce_held view s' = (case r of Inr _ \<Rightarrow> (gce_held view s)(h := None) | Inl _ \<Rightarrow> gce_held view s)"
proof -
  let ?c = "gb_config b"
  let ?del = "gc_delete (gb_client b) (gg_project ?c) (gg_zone ?c) h"
  let ?read = "x_try (gce_fetch_logs b h 0)
          (\<lambda>t. x_set (keep_logs h [(''broker'', ''final GCE log read failed: '' @ t)])) (\<lambda>ls. x_set (keep_logs h ls))"
  have same: "same_machines view ?read" using reading_keeps_machines(2) [OF assms(1)] by blast
  obtain q s1 where q: "?read now s = (q, s1)" by fastforce
  have v: "view (gs_net s1) = view (gs_net s)" by (rule same_held [OF same q])
  show ?thesis
  proof (cases q)
    case (Inl x)
    then have "r = Inl x \<and> s' = s1" using assms(2) q by (simp add: gce_terminate_def x_then_def)
    then show ?thesis using held_cong [OF v] by simp
  next
    case (Inr u)
    obtain d n where d: "?del (gs_net s1) = (d, n)" by fastforce
    show ?thesis
    proof (cases d)
      case (Inl t)
      then have n: "view n = view (gs_net s1) \<and> (not_found t \<longrightarrow> view (gs_net s1) h = None)" using cloud_delete_fails [OF assms(1)] d by blast
      then show ?thesis using assms(2) q Inr d Inl v
        by (cases "not_found t") (auto simp: gce_terminate_def x_then_def cloud_def x_ret_def x_raise_def gce_held_def)
    next
      case (Inr u')
      then have "view n = (view (gs_net s1))(h := None)" using cloud_delete [OF assms(1)] d by simp
      then show ?thesis using assms(2) q \<open>q = Inr u\<close> d Inr v
        by (auto simp: gce_terminate_def x_then_def cloud_def x_ret_def gce_held_def)
    qed
  qed
qed

lemma listed_machines:
  assumes "faithful_cloud b view" and "gce_list_resources b now s = (Inr rs, s')"
  shows "distinct (map rs_handle rs) \<and> map_of (map (\<lambda>r. (rs_handle r, rs_tags r)) rs) = gce_held view s"
proof -
  obtain vms n where l: "gc_list (gb_client b) (gg_project (gb_config b)) (gg_zone (gb_config b)) ''labels.broker-job-id:*'' (gs_net s) = (Inr vms, n)"
    and rs: "rs = map gce_resource (filter labelled vms)"
    using assms(2) by (auto simp: gce_list_resources_def cloud_def x_simps split: prod.splits sum.splits)
  have d: "distinct (map vm_name vms)" and m: "\<And>i. i \<in> set vms \<longleftrightarrow> view (gs_net s) (vm_name i) = Some i \<and> labelled i"
    using cloud_list [OF assms(1) l] by blast+
  have all: "filter labelled vms = vms" using m by (simp add: filter_id_conv)
  have names: "map rs_handle rs = map vm_name vms" by (simp add: rs all gce_resource_def comp_def)
  have "map_of (map (\<lambda>r. (rs_handle r, rs_tags r)) rs) h = gce_held view s h" for h
  proof (cases "\<exists>i\<in>set vms. vm_name i = h")
    case True
    then obtain i where i: "i \<in> set vms" "vm_name i = h" by blast
    then have "(h, rs_tags (gce_resource i)) \<in> set (map (\<lambda>r. (rs_handle r, rs_tags r)) rs)" by (force simp: rs all gce_resource_def)
    moreover have "distinct (map fst (map (\<lambda>r. (rs_handle r, rs_tags r)) rs))" using d names by (simp add: comp_def)
    ultimately have "map_of (map (\<lambda>r. (rs_handle r, rs_tags r)) rs) h = Some (rs_tags (gce_resource i))" by (simp add: map_of_is_SomeI)
    then show ?thesis using m i by (auto simp: gce_held_def)
  next
    case False
    then have "h \<notin> fst ` set (map (\<lambda>r. (rs_handle r, rs_tags r)) rs)" using names by (force simp: rs all gce_resource_def)
    then have "map_of (map (\<lambda>r. (rs_handle r, rs_tags r)) rs) h = None" by (simp add: map_of_eq_None_iff)
    then show ?thesis using False m cloud_names [OF assms(1)] by (force simp: gce_held_def split: option.splits)
  qed
  then show ?thesis using d names by auto
qed



subsection \<open>Where the adapter falls short\<close>

text \<open>When the provider refuses the deletion, the logs read before it are kept for good: the machine runs on, but
  what it prints from then on is never read.\<close>

lemma failed_delete_freezes_logs:
  assumes "gce_fetch_logs b h 0 now s = (Inr ls, s1)"
    and "gc_delete (gb_client b) (gg_project (gb_config b)) (gg_zone (gb_config b)) h (gs_net s1) = (Inl t, n)" and "\<not> not_found t"
  shows "\<exists>x s'. gce_terminate b h why now s = (Inl x, s') \<and> (\<forall>after now'. gce_fetch_logs b h after now' s' = (Inr (drop after ls), s'))"
proof -
  let ?s = "(keep_logs h ls s1)\<lparr>gs_net := n\<rparr>"
  have "\<exists>x. gce_terminate b h why now s = (Inl x, ?s)" using assms
    by (simp add: gce_terminate_def x_then_def x_try_def x_set_def cloud_def keep_logs_def x_raise_def)
  moreover have "gce_fetch_logs b h after now' ?s = (Inr (drop after ls), ?s)" for after now'
    by (simp add: gce_fetch_logs_def x_then_def x_get_def x_ret_def keep_logs_def update_conv)
  ultimately show ?thesis by blast
qed

text \<open>What a listing says of a machine has no launch time, although the machine has one as a label: what an
  orphan on Compute Engine has burned is unknown.\<close>

lemma orphans_have_no_age: "launched_at_of (rs_tags (gce_resource i)) = None"
  by (simp add: gce_resource_def launched_at_of_def)

text \<open>Of several accelerators, only the first is looked at.\<close>

lemma first_accelerator_only: "read_sample (stamp # row # rows) = read_sample [stamp, row]"
  by (simp add: read_sample_def)

text \<open>A GPU type that is not its own label never counts against its limit.\<close>

lemma odd_type_is_unlimited:
  assumes "gce_label (j_gpu_type j) \<noteq> j_gpu_type j" and "vm_labels i = instance_labels j now"
  shows "\<not> occupies (j_gpu_type j) (gce_resource i)"
  using assms by (simp add: occupies_def gce_resource_def instance_labels_def meta_get_def)

lemma odd_type: "gce_label ''A100'' = ''a100''"
  by code_simp

text \<open>A progress bar that rewrites its line with carriage returns is one line of the file, and several of the
  reader's: the cursor counts the reader's, so the next read skips lines of the file.\<close>

lemma carriage_return_miscounts:
  "length (splitlines (''10%'' @ [CHR 0x0D] @ ''20%'' @ [CHR 0x0A])) = 2 \<and>
   length (filter (\<lambda>c. c = CHR 0x0A) (''10%'' @ [CHR 0x0D] @ ''20%'' @ [CHR 0x0A])) = 1"
  by (simp add: splitlines_def line_break_def)

subsection \<open>An instance\<close>

text \<open>A cloud that is a list of instances.\<close>

definition demo_view :: "gce_instance list \<Rightarrow> string \<Rightarrow> gce_instance option" where
  "demo_view n h = find (\<lambda>i. vm_name i = h) n"

definition demo_gce_config :: gce_config where
  "demo_gce_config = default_gce\<lparr>gg_project  := ''club'', gg_boot_image := ''img'', gg_ssh_private_key := ''k'', gg_known_hosts := ''h'',
        gg_machine_types := [(''t4'', ''n1-standard-4'')], gg_accelerator_types := [(''t4'', ''nvidia-tesla-t4'')],
        gg_max_instances := [(''t4'', 1)]\<rparr>"

definition demo_cloud :: "gce_instance list gce" where
  "demo_cloud =
     \<lparr>gb_config = demo_gce_config,
 gb_client =
        \<lparr>gc_insert = (\<lambda>p z body n.
           if body_text (body_field body ''name'') \<in> vm_name ` set n then (Inl ''409 alreadyExists'', n)
           else (Inr (), \<lparr>vm_name = body_text (body_field body ''name''), vm_status = ''RUNNING'',
                         vm_labels = body_pairs (body_field body ''labels''), vm_metadata = body_items (body_field body ''metadata''),
                         vm_interfaces = [\<lparr>gi_access = [], gi_internal = ''10.0.0.2''\<rparr>]\<rparr> # n)),
         gc_get = (\<lambda>p z h n. (case demo_view n h of Some i \<Rightarrow> Inr i | None \<Rightarrow> Inl ''404 notFound'', n)),
         gc_delete = (\<lambda>p z h n. if h \<in> vm_name ` set n then (Inr (), filter (\<lambda>i. vm_name i \<noteq> h) n) else (Inl ''404 notFound'', n)),
         gc_list = (\<lambda>p z f n. (Inr (filter (\<lambda>i. labelled i \<and> demo_view n (vm_name i) = Some i) (remdups n)), n))\<rparr>,
      gb_transport = (\<lambda>h command tm now n. (Inr \<lparr>cm_exit_status = 0, cm_stdout = ''READY'', cm_stderr = []\<rparr>, n))\<rparr>"

definition demo_gce_job :: job where
  "demo_gce_job = new_job ''ab-1'' ''ada'' ''python t.py'' ''t4'' 1 USD 1 QUEUED 0 None ''real''"

lemma demo_view_simps:
  "demo_view (i # n) h = (if vm_name i = h then Some i else demo_view n h)"
  "demo_view n h = None \<longleftrightarrow> h \<notin> vm_name ` set n"
  "demo_view n h = Some i \<Longrightarrow> vm_name i = h \<and> i \<in> set n"
  by (auto simp: demo_view_def find_None_iff find_Some_iff)

lemma demo_view_delete: "demo_view (filter (\<lambda>i. vm_name i \<noteq> h) n) = (demo_view n)(h := None)"
  by (rule ext) (induction n, auto simp: demo_view_def)

lemma demo_listed: "distinct (map vm_name (filter (\<lambda>i. labelled i \<and> demo_view n (vm_name i) = Some i) (remdups n)))"
  unfolding distinct_map by (intro conjI inj_onI distinct_filter distinct_remdups) (simp only: set_filter mem_Collect_eq, metis option.inject)


lemma demo_cloud_faithful: "faithful_cloud demo_cloud demo_view"
  unfolding faithful_cloud_def Let_def
  by (intro conjI)
    (auto simp: demo_cloud_def demo_view_simps(1,2) demo_view_delete demo_listed fun_eq_iff not_found_def contains_text_def
      split: if_splits dest: demo_view_simps(3))

definition demo_gce_start :: "gce_instance list gce_state" where
  "demo_gce_start = \<lparr>gs_deleted_logs = [], gs_net = []\<rparr>"

definition demo_vm :: gce_instance where
  "demo_vm =
     \<lparr>vm_name = ''gpu-broker-ab-1'', vm_status = ''RUNNING'', vm_labels = instance_labels demo_gce_job 0,
      vm_metadata = [(''broker-job-id'', ''ab-1''), (''broker-user'', ''ada'')],
      vm_interfaces = [\<lparr>gi_access = [], gi_internal = ''10.0.0.2''\<rparr>]\<rparr>"

definition demo_gce_running :: "gce_instance list gce_state" where
  "demo_gce_running = \<lparr>gs_deleted_logs = [], gs_net = [demo_vm]\<rparr>"

lemma demo_gce_fields [simp]:
  "gb_config demo_cloud = demo_gce_config" "j_id demo_gce_job = ''ab-1''" "j_user demo_gce_job = ''ada''"
  "j_command demo_gce_job = ''python t.py''" "j_gpu_type demo_gce_job = ''t4''"
  by (simp_all add: demo_cloud_def demo_gce_job_def new_job_def)

lemma demo_gce_launch:
  "gce_launch demo_cloud demo_gce_job 0 demo_gce_start =
     (Inr \<lparr>al_handle = ''gpu-broker-ab-1'', al_gpu_type = ''t4'', al_tags = tags_for demo_gce_job (to_iso 0)\<rparr>, demo_gce_running)"
proof -
  have checks: "launch_checks demo_cloud demo_gce_job 0 demo_gce_start = (Inr (), demo_gce_start)" by code_simp
  have name: "instance_name ''ab-1'' = Inr ''gpu-broker-ab-1''" by code_simp
  have "gc_insert (gb_client demo_cloud) p z (instance_body c ''gpu-broker-ab-1'' demo_gce_job 0) [] = (Inr (), [demo_vm])" for p z c
    by (simp add: demo_cloud_def body_of_job demo_vm_def)
  then show ?thesis by (simp add: gce_launch_def x_then_def checks [unfolded demo_gce_start_def] name x_of_def x_now_def x_ret_def cloud_def demo_gce_start_def demo_gce_running_def)
qed


theorem gce_start_is_injection_free_witness:
  "\<exists>script. sh_tokens script = Some (start_tokens ''/tmp/gpu-broker/jobs/ab-1'' ''python t.py'') \<and>
     gce_start demo_cloud ''gpu-broker-ab-1'' demo_gce_job 0 demo_gce_running =
       x_then (gce_run demo_cloud \<lparr>h_hostname = ''10.0.0.2'', h_username = ''gpu-broker'', h_port = 22, h_client_key = Some ''k'',
         h_known_hosts = Some ''h''\<rparr> script ''start GCE job'') (\<lambda>_. x_ret ()) 0 demo_gce_running"
proof -
  let ?h = "\<lparr>h_hostname = ''10.0.0.2'', h_username = ''gpu-broker'', h_port = 22, h_client_key = Some ''k'', h_known_hosts = Some ''h''\<rparr>"
  have "gce_get demo_cloud ''gpu-broker-ab-1'' 0 demo_gce_running = (Inr demo_vm, demo_gce_running)"
    by (simp add: gce_get_def cloud_def demo_cloud_def demo_view_def demo_gce_running_def demo_vm_def x_ret_def)
  then have "gce_host demo_cloud ''gpu-broker-ab-1'' 0 demo_gce_running = (Inr ?h, demo_gce_running)"
    by (simp add: gce_host_def x_then_def x_of_def host_from_instance_def demo_vm_def demo_gce_config_def default_gce_def)
  moreover have "safe_id (j_id demo_gce_job) = Inr ''ab-1''" by (simp add: safe_id_def id_char_def ascii_letter_def)
  ultimately show ?thesis
    using gce_start_is_injection_free [of demo_cloud "''gpu-broker-ab-1''" 0 demo_gce_running ?h demo_gce_running demo_gce_job]
    by (auto simp: gce_root_def)
qed

end
