(* ===== verification/Aws.thy ===== *)
theory Aws
  imports Reaper Scheduler Commands
begin

text \<open>
  \<^verbatim>\<open>gpu_broker/aws.py\<close>: what the EC2 backend needs of an account, the scripts that run on an instance, and
  what is made of the errors of the AWS client. The scripts are texts, line by line as the code writes them.
\<close>

subsection \<open>Tags and constants\<close>

definition TAG_JOB_ID :: string where "TAG_JOB_ID = ''broker-job-id''"

definition TAG_USER :: string where "TAG_USER = ''broker-user''"

definition TAG_LAUNCHED_AT :: string where "TAG_LAUNCHED_AT = ''broker-launched-at''"

definition TAG_COMMAND_ID :: string where "TAG_COMMAND_ID = ''broker-command-id''"

definition TAG_SAMPLER_ID :: string where "TAG_SAMPLER_ID = ''broker-sampler-id''"

definition LIVE_INSTANCE_STATES :: "string list" where
  "LIVE_INSTANCE_STATES = [''pending'', ''running'', ''stopping'', ''stopped'']"

definition SSM_PLUGIN :: string where "SSM_PLUGIN = ''aws-runShellScript''"

definition parse_tags :: "(string \<times> string) list \<Rightarrow> tags" where
  "parse_tags raw = foldl (\<lambda>d (k, v). AList.update k v d) [] raw"

subsection \<open>Scripts\<close>

definition containerised ::
  "string \<Rightarrow> string \<Rightarrow> string \<Rightarrow> string \<Rightarrow> string \<Rightarrow> string \<Rightarrow> string \<Rightarrow> string \<Rightarrow> string"
where
  "containerised image_ref command checkpoint_dir resume_dir data_path registry region dockerfile_b64 =
     (let image = shlex_quote image_ref; quoted = shlex_quote command; ckpt = shlex_quote checkpoint_dir;
          resume = shlex_quote resume_dir; data = shlex_quote data_path; dockerfile = shlex_quote dockerfile_b64
      in join_with NL
       [''IMAGE='' @ image,
        ''if ! docker image inspect \"$IMAGE\" >/dev/null 2>&1; then'',
        ''  aws ecr get-login-password --region '' @ region @ '' 2>/dev/null     | docker login --username AWS --password-stdin '' @ registry @ '' >/dev/null 2>&1 || true'',
        ''  if ! docker pull \"$IMAGE\" >/dev/null 2>&1; then'',
        ''    echo \"gpu-broker: no cached image for this environment; building it once\" >&2'',
        ''    mkdir -p /tmp/gpu-broker-build'',
        ''    printf '%s' '' @ dockerfile @ '' | base64 -d > /tmp/gpu-broker-build/Dockerfile'',
        ''    docker build -t \"$IMAGE\" /tmp/gpu-broker-build || exit 1'',
        ''    docker push \"$IMAGE\" >/dev/null 2>&1       || echo \"gpu-broker: built it, but could not push; the next job rebuilds\" >&2'',
        ''  fi'',
        ''fi'',
        ''docker run --rm --gpus all --ipc=host   --name gpu-broker-job   -v '' @ ckpt @ '':'' @ ckpt @ ''   -v '' @ resume @ '':'' @ resume @ ''   -v '' @ data @ '':'' @ data @ ''   -e GPU_BROKER_CHECKPOINT_DIR -e GPU_BROKER_RESUME_DIR   -e GPU_BROKER_JOB_ID -e GPU_BROKER_CHECKPOINT_DEADLINE   -w '' @ data @ ''   \"$IMAGE\" bash -lc '' @ quoted])"

definition wrapper_lines ::
  "string \<Rightarrow> string \<Rightarrow> string \<Rightarrow> string \<Rightarrow> string \<Rightarrow> string \<Rightarrow> int \<Rightarrow> int \<Rightarrow> string \<Rightarrow> string list"
where
  "wrapper_lines command ckpt resume uri upload jid deadline_seconds poll_seconds setup =
     (let quoted = shlex_quote command; deadline = show_int deadline_seconds; poll = show_int poll_seconds
      in
       [''set -u'',
        ''CKPT='' @ ckpt,
        ''RESUME='' @ resume,
        ''mkdir -p \"$CKPT\" \"$RESUME\"'',
        [],
        ''if [ -n \"'' @ uri @ ''\" ]; then'',
        ''  aws s3 cp --recursive --quiet \"'' @ uri @ ''\" \"$RESUME\" ||     echo \"gpu-broker: could not restore a checkpoint, starting from the beginning\" >&2'',
        ''fi'',
        [],
        ''export GPU_BROKER_CHECKPOINT_DIR=\"$CKPT\"'',
        ''export GPU_BROKER_RESUME_DIR=\"$RESUME\"'',
        ''export GPU_BROKER_JOB_ID='' @ jid,
        ''export GPU_BROKER_CHECKPOINT_DEADLINE='' @ deadline,
        [],
        setup,
        [],
        ''bash -lc '' @ quoted @ '' &'',
        ''JOB=$!'',
        [],
        ''upload() {'',
        ''  STEP=$(cat \"$CKPT/CHECKPOINT_COMPLETE\" 2>/dev/null || echo 0)'',
        ''  DEST=\"'' @ upload @ ''/step-$(printf '%012d' \"$STEP\")\"'',
        ''  aws s3 cp --recursive --quiet --exclude CHECKPOINT_COMPLETE \"$CKPT\" \"$DEST\" || return 1'',
        ''  python3 - \"$CKPT\" \"$STEP\" > /tmp/MANIFEST.json <<'' @ [SQ] @ ''PYEOF'' @ [SQ],
        ''import json, os, sys, datetime'',
        ''root, step = sys.argv[1], int(sys.argv[2])'',
        ''files, total = [], 0'',
        ''for base, _, names in os.walk(root):'',
        ''    for name in names:'',
        ''        if name == \"CHECKPOINT_COMPLETE\":'',
        ''            continue'',
        ''        path = os.path.join(base, name)'',
        ''        files.append(os.path.relpath(path, root))'',
        ''        total += os.path.getsize(path)'',
        ''print(json.dumps({'',
        ''    \"step\": step,'',
        ''    \"written_at\": datetime.datetime.now(datetime.timezone.utc).isoformat(timespec=\"microseconds\"),'',
        ''    \"files\": sorted(files),'',
        ''    \"bytes\": total,'',
        ''}))'',
        ''PYEOF'',
        ''  aws s3 cp --quiet /tmp/MANIFEST.json \"$DEST/MANIFEST.json\"'',
        ''}'',
        [],
        ''while kill -0 $JOB 2>/dev/null; do'',
        ''  TOKEN=$(curl -sf -X PUT \"http://169.254.169.254/latest/api/token\"     -H \"X-aws-ec2-metadata-token-ttl-seconds: 60\" 2>/dev/null || true)'',
        ''  CODE=$(curl -sf -o /dev/null -w '%{http_code}'     -H \"X-aws-ec2-metadata-token: $TOKEN\"     http://169.254.169.254/latest/meta-data/spot/instance-action 2>/dev/null || echo 404)'',
        ''  if [ \"$CODE\" = \"200\" ]; then'',
        ''    echo \"gpu-broker: spot interruption notice; asking the job to checkpoint\" >&2'',
        ''    kill -USR1 $JOB 2>/dev/null || true'',
        ''    WAITED=0'',
        ''    while [ ! -f \"$CKPT/CHECKPOINT_COMPLETE\" ] && [ \"$WAITED\" -lt '' @ deadline @ '' ]; do'',
        ''      sleep 1'',
        ''      WAITED=$((WAITED + 1))'',
        ''    done'',
        ''    if [ -f \"$CKPT/CHECKPOINT_COMPLETE\" ]; then'',
        ''      upload && echo \"gpu-broker: checkpoint uploaded\" >&2'',
        ''    else'',
        ''      echo \"gpu-broker: the job did not checkpoint in '' @ deadline @ ''s; nothing to save\" >&2'',
        ''    fi'',
        ''    kill -TERM $JOB 2>/dev/null || true'',
        ''    exit 0'',
        ''  fi'',
        ''  sleep '' @ poll,
        ''done'',
        [],
        ''wait $JOB'',
        ''exit $?'',
        []])"

definition job_wrapper_script ::
  "string \<Rightarrow> string \<Rightarrow> string \<Rightarrow> string \<Rightarrow> string \<Rightarrow> string \<Rightarrow> int \<Rightarrow> int \<Rightarrow> string \<Rightarrow> string"
where
  "job_wrapper_script command checkpoint_dir resume_dir resume_uri upload_uri jid deadline_seconds poll_seconds setup =
     join_with NL (wrapper_lines command checkpoint_dir resume_dir resume_uri upload_uri jid deadline_seconds poll_seconds setup)"

definition sampler_script :: "int \<Rightarrow> int \<Rightarrow> string" where
  "sampler_script duration_seconds interval_seconds =
     ''end=$(( $(date +%s) + '' @ show_int duration_seconds @ '' )); '' @
     ''while [ $(date +%s) -lt $end ]; do '' @
     ''printf '' @ dq (''%s,%s'' @ NL) @ '' '' @ dq ''$(date +%s)'' @ '' '' @
     dq (''$(nvidia-smi --query-gpu=utilization.gpu,memory.used '' @
         ''--format=csv,noheader,nounits 2>/dev/null | head -1)'') @ ''; '' @
     ''sleep '' @ show_int interval_seconds @ ''; done''"

text \<open>A line of the sampler: \<^const>\<open>None\<close> when it is unusable. Infinite and not-a-number texts in the first two
  fields, which \<open>float\<close> also reads, count as unusable; in the third the conversion to an integer raises.\<close>

definition parse_sample_line :: "string \<Rightarrow> (error, (pyfloat \<times> pyfloat \<times> int) option) result" where
  "parse_sample_line line =
     (case map strip (split_at (CHR '','') [] line) of
        stamp # percent # memory # _ \<Rightarrow>
          (case (float_of_text stamp, float_of_text percent, float_of_text memory) of
             (Fin t, Fin p, Fin m) \<Rightarrow> Inr (Some (t, p, py_int m))
           | (Fin t, Fin p, Infinite _) \<Rightarrow> Inl (OverflowError ''cannot convert float infinity to integer'')
           | _ \<Rightarrow> Inr None)
      | _ \<Rightarrow> Inr None)"

definition command_log_stream :: "string \<Rightarrow> string \<Rightarrow> string \<Rightarrow> string" where
  "command_log_stream command_id instance_id stream =
     command_id @ ''/'' @ instance_id @ ''/'' @ SSM_PLUGIN @ ''/'' @ stream"

subsection \<open>Settings\<close>

record aws_config =
  aw_region :: string
  aw_ami :: "string option"
  aw_instance_profile :: "string option"
  aw_log_group :: string
  aw_subnet_id :: "string option"
  aw_security_groups :: "string list"
  aw_instance_types :: "(string \<times> string) list"
  aw_spot_types :: "(string \<times> string list) list"
  aw_max_instances :: "(string \<times> int) list"
  aw_agent_timeout :: pyfloat
  aw_working_dir :: string
  aw_shutdown_behavior :: string

definition default_aws :: aws_config where
  "default_aws =
     \<lparr>aw_region = ''us-west-2'', aw_ami = None, aw_instance_profile = None, aw_log_group = ''/gpu-broker/jobs'',
      aw_subnet_id = None, aw_security_groups = [],
      aw_instance_types = [(''t4'', ''g4dn.xlarge''), (''a10g'', ''g5.xlarge''), (''l4'', ''g6.xlarge''), (''a100'', ''p4d.24xlarge'')],
      aw_spot_types =
        [(''t4'', [''g4dn.xlarge'', ''g4dn.2xlarge'']), (''a10g'', [''g5.xlarge'', ''g5.2xlarge'', ''g5.4xlarge'']),
         (''l4'', [''g6.xlarge'', ''g6.2xlarge''])],
      aw_max_instances = [(''t4'', 4), (''a10g'', 4), (''l4'', 2), (''a100'', 1)],
      aw_agent_timeout = 900, aw_working_dir = ''/home/ubuntu'', aw_shutdown_behavior = ''terminate''\<rparr>"

definition instance_type_for :: "aws_config \<Rightarrow> string \<Rightarrow> (error, string) result" where
  "instance_type_for c gpu_type =
     (case map_of (aw_instance_types c) gpu_type of
        Some t \<Rightarrow> Inr t
      | None \<Rightarrow> Inl (ConfigError (ConfigText (''no EC2 instance type mapped for gpu type '' @ py_repr gpu_type @ ''. '' @
          ''Add it under aws.instance_types in config.json. '' @
          ''Known: '' @ join_with '', '' (sort (map fst (aw_instance_types c)))))))"

definition aws_require_launchable :: "aws_config \<Rightarrow> (error, unit) result" where
  "aws_require_launchable c =
     (let missing = map fst (filter (\<lambda>(name, v). \<not> truthy v)
            [(''aws.ami'', aw_ami c), (''aws.instance_profile'', aw_instance_profile c)])
      in if missing = [] then Inr ()
         else Inl (ConfigError (ConfigText (''cannot launch: '' @ join_with '' and '' missing @ '' is not set in config.json. '' @
           ''The AMI needs the SSM agent; the instance profile needs '' @
           ''AmazonSSMManagedInstanceCore and logs:PutLogEvents.''))))"

subsection \<open>Errors\<close>

text \<open>What the client raises: the code and the message of its response, and its text.\<close>

record aws_failure =
  af_code :: "string option"
  af_message :: string
  af_text :: string

definition has_code :: "aws_failure \<Rightarrow> string list \<Rightarrow> bool" where
  "has_code x codes = (case af_code x of Some c \<Rightarrow> c \<in> set codes | None \<Rightarrow> False)"

definition is_dry_run_success :: "aws_failure \<Rightarrow> bool" where
  "is_dry_run_success x = has_code x [''DryRunOperation'']"

definition hints :: "(string \<times> string) list" where
  "hints =
     [(''UnauthorizedOperation'', ''the broker's IAM user is missing an EC2 permission for this call''),
      (''AccessDeniedException'', ''the broker's IAM user is missing a permission for this call''),
      (''VcpuLimitExceeded'', ''your G/P vCPU quota is exhausted. Request an increase in Service Quotas, or use the local pool''),
      (''InsufficientInstanceCapacity'',
         ''AWS has no capacity for this instance type in this AZ right now. The job stays queued and will be retried''),
      (''InvalidAMIID.NotFound'', ''aws.ami does not exist in this region''),
      (''InvalidParameterValue'', ''one of the aws.* settings in config.json is wrong''),
      (''RequestLimitExceeded'', ''AWS is throttling us; the job stays queued''),
      (''InvalidInstanceId'', ''the instance is gone, or the SSM agent never registered'')]"

definition explain :: "aws_failure \<Rightarrow> string" where
  "explain x =
     (let hint = map_of hints (or_empty (af_code x));
          t = (if truthy (af_code x) then the (af_code x) @ '': '' @ af_message x else af_text x)
      in case hint of Some h \<Rightarrow> t @ '' ('' @ h @ '')'' | None \<Rightarrow> t)"

text \<open>On a spot notice the wrapper ends with status 0, whatever became of the job.\<close>

lemma notice_ends_with_success:
  "take 3 (drop 60 (wrapper_lines command ckpt resume uri upload jid deadline poll setup)) =
     [''    kill -TERM $JOB 2>/dev/null || true'', ''    exit 0'', ''  fi'']"
  by (simp add: wrapper_lines_def Let_def)

end
