(* ===== verification/Bucket.thy ===== *)
theory Bucket
  imports Checkpoint PyText
begin

text \<open>
  \<^verbatim>\<open>gpu_broker/checkpoint.py\<close>: \<open>S3CheckpointStore\<close>, checkpoints in a bucket. The boto3 client is a record of calls on
  the state of S3, each of which can fail with a text; a listing comes in pages. The loop over the pages has
  no bound of its own, so an operation that lists is \<^const>\<open>None\<close> when it does not return; that it returns is proved
  for a bucket that pages the way S3 documents. What \<open>put\<close> uploads is a list of requests, so that an upload can be
  cut off after any of them. The source of an upload is read without failures.
\<close>

subsection \<open>The client\<close>

record s3_page =
  pg_keys :: "string list"
  pg_truncated :: bool
  pg_next :: "string option"

record 'n s3_client =
  s3_put_object :: "string \<Rightarrow> string \<Rightarrow> content \<Rightarrow> 'n \<Rightarrow> (string + unit) \<times> 'n"
  s3_get_object :: "string \<Rightarrow> string \<Rightarrow> 'n \<Rightarrow> (string + content) \<times> 'n"
  s3_list_objects :: "string \<Rightarrow> string \<Rightarrow> string option \<Rightarrow> 'n \<Rightarrow> (string + s3_page) \<times> 'n"
  s3_delete_object :: "string \<Rightarrow> string \<Rightarrow> 'n \<Rightarrow> (string + unit) \<times> 'n"

record 'n s3_store =
  bs_client :: "'n s3_client"
  bs_bucket :: string
  bs_prefix :: string

text \<open>\<open>str.strip('/')\<close>.\<close>

definition stripped_prefix :: "string \<Rightarrow> string" where
  "stripped_prefix s = rev (dropWhile (\<lambda>c. c = CHR ''/'') (rev (dropWhile (\<lambda>c. c = CHR ''/'') s)))"

definition s3_open :: "'n s3_client \<Rightarrow> string \<Rightarrow> string \<Rightarrow> 'n s3_store" where
  "s3_open client bucket prefix = \<lparr>bs_client = client, bs_bucket = bucket, bs_prefix = stripped_prefix prefix\<rparr>"

definition s3_key :: "'n s3_store \<Rightarrow> string \<Rightarrow> int \<Rightarrow> string \<Rightarrow> string" where
  "s3_key b job step name =
     (let base = ckpt_dir (bs_prefix b) job step in if name \<noteq> [] then base @ ''/'' @ name else base)"

subsection \<open>Uploading\<close>

fun upload :: "'n s3_store \<Rightarrow> (string \<times> content) list \<Rightarrow> 'n \<Rightarrow> (string + unit) \<times> 'n" where
  "upload b [] n = (Inr (), n)"
| "upload b ((key, body) # rest) n =
     (case s3_put_object (bs_client b) (bs_bucket b) key body n of
        (Inl t, n') \<Rightarrow> (Inl t, n')
      | (Inr _, n') \<Rightarrow> upload b rest n')"

definition s3_requests :: "(content \<Rightarrow> int) \<Rightarrow> 'n s3_store \<Rightarrow> string \<Rightarrow> int \<Rightarrow> directory \<Rightarrow> moment \<Rightarrow> (string \<times> content) list" where
  "s3_requests size_of b job step files stamp =
     map (\<lambda>(name, body). (s3_key b job step name, body)) files @
     [(s3_key b job step MANIFEST, manifest_body (map fst files) step stamp (sum_list (map (size_of \<circ> snd) files)))]"

definition s3_put ::
  "(content \<Rightarrow> int) \<Rightarrow> 'n s3_store \<Rightarrow> string \<Rightarrow> int \<Rightarrow> directory option \<Rightarrow> moment \<Rightarrow> 'n \<Rightarrow> (error, checkpoint_ref) result \<times> 'n"
where
  "s3_put size_of b job step source stamp n =
     (case source of
        None \<Rightarrow> (Inl (CheckpointError ''nothing to checkpoint''), n)
      | Some files \<Rightarrow>
          (case upload b (s3_requests size_of b job step files stamp) n of
             (Inl t, n') \<Rightarrow> (Inl (CheckpointError (''could not upload checkpoint '' @ show_int step @ '': '' @ t)), n')
           | (Inr _, n') \<Rightarrow>
               (Inr \<lparr>cr_job = job, cr_step = step, cr_key = s3_key b job step [], cr_written_at = stamp,
                     cr_files = sort (map fst files), cr_bytes = sum_list (map (size_of \<circ> snd) files)\<rparr>, n')))"

subsection \<open>Listing and reading\<close>

partial_function (option) s3_pages ::
  "'n s3_store \<Rightarrow> string \<Rightarrow> string option \<Rightarrow> string list \<Rightarrow> 'n \<Rightarrow> ((string + string list) \<times> 'n) option"
where
  "s3_pages b prefix token keys n =
     (case s3_list_objects (bs_client b) (bs_bucket b) prefix (if truthy token then token else None) n of
        (Inl t, n') \<Rightarrow> Some (Inl t, n')
      | (Inr p, n') \<Rightarrow>
          (if pg_truncated p
           then s3_pages b prefix (pg_next p) (keys @ filter (\<lambda>k. ends_with k MANIFEST) (pg_keys p)) n'
           else Some (Inr (keys @ filter (\<lambda>k. ends_with k MANIFEST) (pg_keys p)), n')))"

declare s3_pages.simps [code]

definition s3_manifests :: "'n s3_store \<Rightarrow> string \<Rightarrow> 'n \<Rightarrow> ((error, string list) result \<times> 'n) option" where
  "s3_manifests b job n =
     map_option (\<lambda>(r, n'). (case r of
         Inl t \<Rightarrow> Inl (CheckpointError (''could not list checkpoints for '' @ job @ '': '' @ t)) | Inr ks \<Rightarrow> Inr ks, n'))
       (s3_pages b (job_prefix (bs_prefix b) job) None [] n)"

text \<open>\<open>key.rsplit('/', 1)[0]\<close> and \<open>key.rsplit('/', 2)[-2]\<close>; every key that is listed has the two separators of the
  prefix.\<close>

definition dir_of :: "string \<Rightarrow> string" where
  "dir_of key = (if CHR ''/'' \<in> set key then rev (tl (dropWhile (\<lambda>c. c \<noteq> CHR ''/'') (rev key))) else key)"

definition step_name_of :: "string \<Rightarrow> string" where
  "step_name_of key = rev (takeWhile (\<lambda>c. c \<noteq> CHR ''/'') (rev (dir_of key)))"

fun newest_of :: "'n s3_store \<Rightarrow> string \<Rightarrow> string list \<Rightarrow> checkpoint_ref option \<Rightarrow> 'n \<Rightarrow> checkpoint_ref option \<times> 'n" where
  "newest_of b job [] best n = (best, n)"
| "newest_of b job (key # keys) best n =
     (case s3_get_object (bs_client b) (bs_bucket b) key n of
        (Inl _, n') \<Rightarrow> newest_of b job keys best n'
      | (Inr body, n') \<Rightarrow> newest_of b job keys (better best (read_manifest job (dir_of key) body)) n')"

definition s3_latest :: "'n s3_store \<Rightarrow> string \<Rightarrow> 'n \<Rightarrow> ((error, checkpoint_ref option) result \<times> 'n) option" where
  "s3_latest b job n =
     map_option (\<lambda>(r, n'). case r of
         Inl e \<Rightarrow> (Inl e, n') | Inr keys \<Rightarrow> (let (best, n'') = newest_of b job keys None n' in (Inr best, n'')))
       (s3_manifests b job n)"

fun s3_fetch_files :: "'n s3_store \<Rightarrow> string \<Rightarrow> string list \<Rightarrow> 'n \<Rightarrow> (error, directory) result \<times> 'n" where
  "s3_fetch_files b key [] n = (Inr [], n)"
| "s3_fetch_files b key (name # names) n =
     (case s3_get_object (bs_client b) (bs_bucket b) (key @ ''/'' @ name) n of
        (Inl t, n') \<Rightarrow> (Inl (CheckpointError (''checkpoint '' @ key @ '' is missing '' @ name @ '': '' @ t)), n')
      | (Inr body, n') \<Rightarrow>
          (case s3_fetch_files b key names n' of
             (Inl e, n'') \<Rightarrow> (Inl e, n'')
           | (Inr rest, n'') \<Rightarrow> (Inr ((name, body) # rest), n'')))"

definition s3_fetch :: "'n s3_store \<Rightarrow> checkpoint_ref \<Rightarrow> 'n \<Rightarrow> (error, directory) result \<times> 'n" where
  "s3_fetch b ref n = s3_fetch_files b (cr_key ref) (cr_files ref) n"

subsection \<open>Pruning\<close>

text \<open>Only the listing of the manifests is guarded; the calls that follow raise what the client raises.\<close>

fun delete_keys :: "'n s3_store \<Rightarrow> string list \<Rightarrow> 'n \<Rightarrow> (string + unit) \<times> 'n" where
  "delete_keys b [] n = (Inr (), n)"
| "delete_keys b (key # keys) n =
     (case s3_delete_object (bs_client b) (bs_bucket b) key n of
        (Inl t, n') \<Rightarrow> (Inl t, n')
      | (Inr _, n') \<Rightarrow> delete_keys b keys n')"

definition delete_step :: "'n s3_store \<Rightarrow> string \<Rightarrow> string \<Rightarrow> 'n \<Rightarrow> (string + unit) \<times> 'n" where
  "delete_step b job step_name n =
     (case s3_list_objects (bs_client b) (bs_bucket b) (job_prefix (bs_prefix b) job @ step_name @ ''/'') None n of
        (Inl t, n') \<Rightarrow> (Inl t, n')
      | (Inr p, n') \<Rightarrow> delete_keys b (pg_keys p) n')"

fun delete_steps :: "'n s3_store \<Rightarrow> string \<Rightarrow> string list \<Rightarrow> 'n \<Rightarrow> (error, unit) result \<times> 'n" where
  "delete_steps b job [] n = (Inr (), n)"
| "delete_steps b job (step_name # rest) n =
     (case delete_step b job step_name n of
        (Inl t, n') \<Rightarrow> (Inl (PyException ''ClientError'' t), n')
      | (Inr _, n') \<Rightarrow> delete_steps b job rest n')"

definition doomed_steps :: "string list \<Rightarrow> int \<Rightarrow> string list" where
  "doomed_steps keys keep =
     (let steps = sort (remdups (map step_name_of keys))
      in if keep > 0 then take (length steps - nat keep) steps else steps)"

definition s3_prune :: "'n s3_store \<Rightarrow> string \<Rightarrow> int \<Rightarrow> 'n \<Rightarrow> ((error, nat) result \<times> 'n) option" where
  "s3_prune b job keep n =
     map_option (\<lambda>(r, n'). case r of
         Inl e \<Rightarrow> (Inl e, n')
       | Inr keys \<Rightarrow>
           (case delete_steps b job (doomed_steps keys keep) n' of
              (Inl e, n'') \<Rightarrow> (Inl e, n'')
            | (Inr _, n'') \<Rightarrow> (Inr (length (doomed_steps keys keep)), n'')))
       (s3_manifests b job n)"

subsection \<open>A bucket that does what S3 documents\<close>

text \<open>\<open>objs\<close> is what is stored under the keys, \<open>after\<close> the last key a continuation token has been past. A put is
  atomic, and one that is reported as failed may have been stored all the same; listings are complete, in the order
  of the keys, and every page but the last has a key and a token.\<close>

definition keys_after :: "(string \<Rightarrow> content option) \<Rightarrow> string \<Rightarrow> string option \<Rightarrow> string list" where
  "keys_after m prefix a = sorted_list_of_set {k \<in> dom m. starts_with k prefix \<and> (\<forall>x. a = Some x \<longrightarrow> x < k)}"

definition page_ok :: "(string \<Rightarrow> string) \<Rightarrow> string list \<Rightarrow> s3_page \<Rightarrow> bool" where
  "page_ok after ks p \<longleftrightarrow>
     (\<exists>i. pg_keys p = take i ks \<and> (pg_truncated p \<longleftrightarrow> i < length ks) \<and>
       (i < length ks \<longrightarrow> 0 < i \<and> (\<exists>t. pg_next p = Some t \<and> t \<noteq> [] \<and> after t = ks ! (i - 1))))"

definition faithful_s3 :: "'n s3_store \<Rightarrow> ('n \<Rightarrow> string \<Rightarrow> content option) \<Rightarrow> (string \<Rightarrow> string) \<Rightarrow> bool" where
  "faithful_s3 b objs after \<longleftrightarrow>
     (\<forall>n. finite (dom (objs n))) \<and>
     (\<forall>k c n r n'. s3_put_object (bs_client b) (bs_bucket b) k c n = (r, n') \<longrightarrow>
        objs n' = (objs n)(k \<mapsto> c) \<or> (r \<noteq> Inr () \<and> objs n' = objs n)) \<and>
     (\<forall>k n r n'. s3_get_object (bs_client b) (bs_bucket b) k n = (r, n') \<longrightarrow>
        objs n' = objs n \<and> (\<forall>c. r = Inr c \<longrightarrow> objs n k = Some c)) \<and>
     (\<forall>prefix t n r n'. s3_list_objects (bs_client b) (bs_bucket b) prefix t n = (r, n') \<longrightarrow>
        objs n' = objs n \<and> (\<forall>p. r = Inr p \<longrightarrow> page_ok after (keys_after (objs n) prefix (map_option after t)) p))"

text \<open>Nothing that is only read fails.\<close>

definition answering :: "'n s3_store \<Rightarrow> ('n \<Rightarrow> string \<Rightarrow> content option) \<Rightarrow> bool" where
  "answering b objs \<longleftrightarrow>
     (\<forall>k n. objs n k \<noteq> None \<longrightarrow> (\<exists>c n'. s3_get_object (bs_client b) (bs_bucket b) k n = (Inr c, n'))) \<and>
     (\<forall>prefix t n. \<exists>p n'. s3_list_objects (bs_client b) (bs_bucket b) prefix t n = (Inr p, n'))"

lemma faithful_parts:
  assumes "faithful_s3 b objs after"
  shows "finite (dom (objs n))"
    and "s3_put_object (bs_client b) (bs_bucket b) k c n = (r, n') \<Longrightarrow> objs n' = (objs n)(k \<mapsto> c) \<or> (r \<noteq> Inr () \<and> objs n' = objs n)"
    and "s3_get_object (bs_client b) (bs_bucket b) k n = (q, n') \<Longrightarrow> objs n' = objs n"
    and "s3_get_object (bs_client b) (bs_bucket b) k n = (Inr c, n') \<Longrightarrow> objs n k = Some c"
    and "s3_list_objects (bs_client b) (bs_bucket b) prefix t n = (l, n') \<Longrightarrow> objs n' = objs n"
    and "s3_list_objects (bs_client b) (bs_bucket b) prefix t n = (Inr p, n') \<Longrightarrow>
           page_ok after (keys_after (objs n) prefix (map_option after t)) p"
proof -
  note a = assms [unfolded faithful_s3_def]
  show "finite (dom (objs n))" using a by (rule conjunct1 [THEN spec])
  show "s3_put_object (bs_client b) (bs_bucket b) k c n = (r, n') \<Longrightarrow> objs n' = (objs n)(k \<mapsto> c) \<or> (r \<noteq> Inr () \<and> objs n' = objs n)"
    using a [THEN conjunct2, THEN conjunct1] by blast
  show "s3_get_object (bs_client b) (bs_bucket b) k n = (q, n') \<Longrightarrow> objs n' = objs n"
    "s3_get_object (bs_client b) (bs_bucket b) k n = (Inr c, n') \<Longrightarrow> objs n k = Some c"
    using a [THEN conjunct2, THEN conjunct2, THEN conjunct1] by blast+
  show "s3_list_objects (bs_client b) (bs_bucket b) prefix t n = (l, n') \<Longrightarrow> objs n' = objs n"
    "s3_list_objects (bs_client b) (bs_bucket b) prefix t n = (Inr p, n') \<Longrightarrow>
       page_ok after (keys_after (objs n) prefix (map_option after t)) p"
    using a [THEN conjunct2, THEN conjunct2, THEN conjunct2] by blast+
qed

lemma keys_after_facts:
  assumes "finite (dom m)"
  shows "set (keys_after m prefix a) = {k \<in> dom m. starts_with k prefix \<and> (\<forall>x. a = Some x \<longrightarrow> x < k)}"
    and "sorted_wrt (<) (keys_after m prefix a)"
proof -
  have "finite {k \<in> dom m. starts_with k prefix \<and> (\<forall>x. a = Some x \<longrightarrow> x < k)}" using assms by simp
  then show "set (keys_after m prefix a) = {k \<in> dom m. starts_with k prefix \<and> (\<forall>x. a = Some x \<longrightarrow> x < k)}"
    by (simp add: keys_after_def)
  show "sorted_wrt (<) (keys_after m prefix a)" by (simp add: keys_after_def)
qed

lemma sorted_set_eq: "sorted_wrt (<) xs \<Longrightarrow> sorted_wrt (<) ys \<Longrightarrow> set xs = set ys \<Longrightarrow> xs = (ys :: string list)"
  by (rule strict_sorted_equal)

lemma sorted_split_less: "sorted_wrt (<) (xs @ ys) \<Longrightarrow> x \<in> set xs \<Longrightarrow> y \<in> set ys \<Longrightarrow> x < (y :: string)"
  by (simp add: sorted_wrt_append)

text \<open>What comes after a page is the rest of the listing.\<close>

lemma keys_after_page:
  assumes "finite (dom m)" and "0 < i" and "i < length (keys_after m prefix a)"
  shows "keys_after m prefix (Some (keys_after m prefix a ! (i - 1))) = drop i (keys_after m prefix a)"
proof (rule sorted_set_eq)
  let ?ks = "keys_after m prefix a" and ?x = "keys_after m prefix a ! (i - 1)"
  note f = keys_after_facts [OF assms(1), of prefix a]
  have split: "sorted_wrt (<) (take i ?ks @ drop i ?ks)" using f(2) by simp
  have x: "?x \<in> set (take i ?ks)"
    using assms(2,3) nth_mem [of "i - 1" "take i ?ks"] by simp
  have before: "\<And>y. y \<in> set (take i ?ks) \<Longrightarrow> y \<le> ?x"
  proof -
    fix y assume "y \<in> set (take i ?ks)"
    then obtain j where j: "j < i" "y = ?ks ! j" using assms(3) by (auto simp: in_set_conv_nth)
    show "y \<le> ?x" using f(2) j assms(2,3) by (simp add: strict_sorted_iff sorted_nth_mono)
  qed
  have parts: "set ?ks = set (take i ?ks) \<union> set (drop i ?ks)" by (metis append_take_drop_id set_append)
  have xa: "?x \<in> set ?ks" using x by (meson in_set_takeD)
  have "set (keys_after m prefix (Some ?x)) = {k \<in> set ?ks. ?x < k}"
    using f(1) xa keys_after_facts(1) [OF assms(1), of prefix "Some ?x"] by auto
  also have "\<dots> = set (drop i ?ks)" using sorted_split_less [OF split x] before parts by force
  finally show "set (keys_after m prefix (Some ?x)) = set (drop i ?ks)" .
  show "sorted_wrt (<) (keys_after m prefix (Some ?x))" by (rule keys_after_facts(2) [OF assms(1)])
  show "sorted_wrt (<) (drop i ?ks)" using split by (simp add: sorted_wrt_append)
qed

text \<open>The loop over the pages ends, and has then seen every key.\<close>

lemma pages_end:
  assumes "faithful_s3 b objs after"
  shows "\<exists>r n'. s3_pages b prefix token keys n = Some (r, n') \<and> objs n' = objs n \<and>
    (\<forall>ks. r = Inr ks \<longrightarrow> ks = keys @ filter (\<lambda>k. ends_with k MANIFEST)
       (keys_after (objs n) prefix (map_option after (if truthy token then token else None)))) \<and>
    (answering b objs \<longrightarrow> (\<exists>ks. r = Inr ks))"
proof (induction "length (keys_after (objs n) prefix (map_option after (if truthy token then token else None)))"
    arbitrary: token keys n rule: less_induct)
  case less
  let ?t = "if truthy token then token else None"
  let ?all = "keys_after (objs n) prefix (map_option after ?t)"
  obtain l n1 where l: "s3_list_objects (bs_client b) (bs_bucket b) prefix ?t n = (l, n1)" by fastforce
  have same: "objs n1 = objs n" by (rule faithful_parts(5) [OF assms l])
  show ?case
  proof (cases l)
    case (Inl t)
    have "\<not> answering b objs" using l Inl unfolding answering_def by (metis Inl_Inr_False prod.inject)
    then show ?thesis using l Inl same by (subst s3_pages.simps) simp
  next
    case (Inr p)
    obtain i where i: "pg_keys p = take i ?all" "pg_truncated p \<longleftrightarrow> i < length ?all"
        "i < length ?all \<longrightarrow> 0 < i \<and> (\<exists>t. pg_next p = Some t \<and> t \<noteq> [] \<and> after t = ?all ! (i - 1))"
      using faithful_parts(6) [OF assms l [unfolded Inr]] unfolding page_ok_def by blast
    show ?thesis
    proof (cases "i < length ?all")
      case False
      then show ?thesis using l Inr same i by (subst s3_pages.simps) simp
    next
      case True
      then obtain t where t: "0 < i" "pg_next p = Some t" "t \<noteq> []" "after t = ?all ! (i - 1)" using i(3) by blast
      let ?keys = "keys @ filter (\<lambda>k. ends_with k MANIFEST) (pg_keys p)"
      have rest: "keys_after (objs n1) prefix (map_option after (if truthy (Some t) then Some t else None)) = drop i ?all"
        using keys_after_page [OF faithful_parts(1) [OF assms] t(1) True] t(3,4) same by (simp add: truthy_def)
      have "length (drop i ?all) < length ?all" using True t(1) by simp
      then have IH: "\<exists>r n'. s3_pages b prefix (Some t) ?keys n1 = Some (r, n') \<and> objs n' = objs n1 \<and>
          (\<forall>ks. r = Inr ks \<longrightarrow> ks = ?keys @ filter (\<lambda>k. ends_with k MANIFEST) (drop i ?all)) \<and>
          (answering b objs \<longrightarrow> (\<exists>ks. r = Inr ks))"
        using less.hyps [of n1 "Some t" ?keys] rest by simp
      have step: "s3_pages b prefix token keys n = s3_pages b prefix (Some t) ?keys n1"
        using l Inr i(2) True t(2) by (subst s3_pages.simps) simp
      have join: "?keys @ filter (\<lambda>k. ends_with k MANIFEST) (drop i ?all) = keys @ filter (\<lambda>k. ends_with k MANIFEST) ?all"
        using i(1) by (metis append.assoc append_take_drop_id filter_append)
      show ?thesis unfolding step using IH unfolding join same by blast
    qed
  qed
qed

subsection \<open>The newest complete checkpoint\<close>

definition manifest_keys :: "'n s3_store \<Rightarrow> (string \<Rightarrow> content option) \<Rightarrow> string \<Rightarrow> string list" where
  "manifest_keys b m job = filter (\<lambda>k. ends_with k MANIFEST) (keys_after m (job_prefix (bs_prefix b) job) None)"

definition ref_at :: "(string \<Rightarrow> content option) \<Rightarrow> string \<Rightarrow> string \<Rightarrow> checkpoint_ref option" where
  "ref_at m job key = Option.bind (m key) (read_manifest job (dir_of key))"

definition bucket_latest :: "'n s3_store \<Rightarrow> (string \<Rightarrow> content option) \<Rightarrow> string \<Rightarrow> checkpoint_ref option" where
  "bucket_latest b m job = foldl better None (map (ref_at m job) (manifest_keys b m job))"

lemma manifests_listed:
  assumes "faithful_s3 b objs after"
  shows "\<exists>r n'. s3_manifests b job n = Some (r, n') \<and> objs n' = objs n \<and>
    (\<forall>ks. r = Inr ks \<longrightarrow> ks = manifest_keys b (objs n) job) \<and> (answering b objs \<longrightarrow> (\<exists>ks. r = Inr ks)) \<and>
    (\<forall>e. r = Inl e \<longrightarrow> (\<exists>t. e = CheckpointError t))"
proof -
  obtain r n' where p: "s3_pages b (job_prefix (bs_prefix b) job) None [] n = Some (r, n')" "objs n' = objs n"
      "\<forall>ks. r = Inr ks \<longrightarrow> ks = manifest_keys b (objs n) job" "answering b objs \<longrightarrow> (\<exists>ks. r = Inr ks)"
    using pages_end [OF assms, of "job_prefix (bs_prefix b) job" None "[]" n] by (auto simp: manifest_keys_def truthy_def)
  then show ?thesis by (cases r) (auto simp: s3_manifests_def)
qed

lemma newest_read:
  assumes "faithful_s3 b objs after"
  shows "\<exists>best' n'. newest_of b job keys best n = (best', n') \<and> objs n' = objs n \<and>
    (answering b objs \<longrightarrow> set keys \<subseteq> dom (objs n) \<longrightarrow> best' = foldl better best (map (ref_at (objs n) job) keys)) \<and>
    (\<forall>x. best' = Some x \<longrightarrow> best = Some x \<or> (\<exists>k\<in>set keys. ref_at (objs n) job k = Some x))"
proof (induction keys arbitrary: best n)
  case (Cons k keys)
  obtain g n1 where g: "s3_get_object (bs_client b) (bs_bucket b) k n = (g, n1)" by fastforce
  have same: "objs n1 = objs n" by (rule faithful_parts(3) [OF assms g])
  show ?case
  proof (cases g)
    case (Inl t)
    have "\<not> (answering b objs \<and> k \<in> dom (objs n))"
    proof
      assume "answering b objs \<and> k \<in> dom (objs n)"
      then obtain c n' where "s3_get_object (bs_client b) (bs_bucket b) k n = (Inr c, n')" unfolding answering_def by blast
      then show False using g Inl by simp
    qed
    then show ?thesis using Cons.IH [of best n1] g Inl same by auto
  next
    case (Inr c)
    have at: "objs n k = Some c" by (rule faithful_parts(4) [OF assms g [unfolded Inr]])
    then have r: "read_manifest job (dir_of k) c = ref_at (objs n) job k" by (simp add: ref_at_def)
    have new: "better best (ref_at (objs n) job k) = Some x \<Longrightarrow> best = Some x \<or> ref_at (objs n) job k = Some x" for x
      by (auto simp: better_def split: option.splits if_splits)
    show ?thesis using Cons.IH [of "better best (ref_at (objs n) job k)" n1] g Inr same r new by auto
  qed
qed simp

lemma manifest_keys_facts:
  assumes "finite (dom m)"
  shows "set (manifest_keys b m job) = {k \<in> dom m. starts_with k (job_prefix (bs_prefix b) job) \<and> ends_with k MANIFEST}"
    and "sorted_wrt (<) (manifest_keys b m job)"
  using keys_after_facts [OF assms, of "job_prefix (bs_prefix b) job" None]
  by (auto simp: manifest_keys_def sorted_wrt_filter)

text \<open>The result of \<open>latest\<close> is one of the manifests that can be read, and nothing is newer; there is none when there
  is no manifest.\<close>

lemma bucket_latest_newest:
  assumes "finite (dom m)"
  shows "bucket_latest b m job = Some r \<Longrightarrow>
      (\<exists>k\<in>set (manifest_keys b m job). ref_at m job k = Some r) \<and>
      (\<forall>k\<in>set (manifest_keys b m job). \<forall>x. ref_at m job k = Some x \<longrightarrow> cr_step x \<le> cr_step r)"
    and "bucket_latest b m job = None \<longleftrightarrow> (\<forall>k\<in>set (manifest_keys b m job). ref_at m job k = None)"
proof -
  let ?refs = "filter (\<lambda>x. x \<noteq> None) (map (ref_at m job) (manifest_keys b m job))"
  let ?rs = "map the ?refs"
  have some: "map Some ?rs = ?refs" unfolding map_map by (rule map_idI) auto
  have l: "bucket_latest b m job = foldl better None (map Some ?rs)"
    unfolding bucket_latest_def some by (rule foldl_better_filter)
  have s: "x \<in> set ?rs \<longleftrightarrow> (\<exists>k\<in>set (manifest_keys b m job). ref_at m job k = Some x)" for x
    by (force simp: image_iff)
  show "bucket_latest b m job = Some r \<Longrightarrow>
      (\<exists>k\<in>set (manifest_keys b m job). ref_at m job k = Some r) \<and>
      (\<forall>k\<in>set (manifest_keys b m job). \<forall>x. ref_at m job k = Some x \<longrightarrow> cr_step x \<le> cr_step r)"
    unfolding l using foldl_better [of None ?rs r] s by blast
  show "bucket_latest b m job = None \<longleftrightarrow> (\<forall>k\<in>set (manifest_keys b m job). ref_at m job k = None)"
    unfolding l foldl_better_None by (auto simp: filter_empty_conv)
qed

lemma latest_runs:
  assumes "faithful_s3 b objs after"
  shows "\<exists>r n'. s3_latest b job n = Some (r, n') \<and> objs n' = objs n \<and>
    (\<forall>e. r = Inl e \<longrightarrow> (\<exists>t. e = CheckpointError t)) \<and>
    (\<forall>x. r = Inr (Some x) \<longrightarrow> (\<exists>k\<in>set (manifest_keys b (objs n) job). ref_at (objs n) job k = Some x)) \<and>
    (answering b objs \<longrightarrow> r = Inr (bucket_latest b (objs n) job))"
proof -
  obtain r n1 where m: "s3_manifests b job n = Some (r, n1)" "objs n1 = objs n"
      "\<forall>ks. r = Inr ks \<longrightarrow> ks = manifest_keys b (objs n) job" "answering b objs \<longrightarrow> (\<exists>ks. r = Inr ks)"
      "\<forall>e. r = Inl e \<longrightarrow> (\<exists>t. e = CheckpointError t)"
    using manifests_listed [OF assms, of job n] by blast
  show ?thesis
  proof (cases r)
    case (Inl e)
    then show ?thesis using m by (simp add: s3_latest_def)
  next
    case (Inr ks)
    then have ks: "ks = manifest_keys b (objs n) job" using m(3) by simp
    obtain best n2 where b: "newest_of b job ks None n1 = (best, n2)" "objs n2 = objs n1"
      "answering b objs \<longrightarrow> set ks \<subseteq> dom (objs n1) \<longrightarrow> best = foldl better None (map (ref_at (objs n1) job) ks)"
      "\<forall>x. best = Some x \<longrightarrow> (\<exists>k\<in>set ks. ref_at (objs n1) job k = Some x)"
      using newest_read [OF assms, of job ks None n1] by auto
    have "set ks \<subseteq> dom (objs n)" unfolding ks by (auto simp: manifest_keys_facts(1) [OF faithful_parts(1) [OF assms]])
    then have "answering b objs \<longrightarrow> best = bucket_latest b (objs n) job" using b(3) m(2) by (simp add: ks bucket_latest_def)
    then show ?thesis using m(1,2) Inr b ks by (simp add: s3_latest_def)
  qed
qed

text \<open>
  C29. Looking for the newest checkpoint in a bucket ends. For every bucket that pages its listings the way S3 documents,
  however many pages there are and whatever fails, \<open>latest\<close> returns: the failure of a listing as a checkpoint
  error, or a checkpoint whose manifest is in the bucket. And when what is read does not fail, it is
  a newest one, and none only when no manifest of the job can be read.
\<close>

theorem s3_latest_returns:
  assumes "faithful_s3 b objs after"
  shows "\<exists>r n'. s3_latest b job n = Some (r, n') \<and> objs n' = objs n \<and>
    (\<forall>e. r = Inl e \<longrightarrow> (\<exists>t. e = CheckpointError t)) \<and>
    (\<forall>x. r = Inr (Some x) \<longrightarrow> (\<exists>k\<in>set (manifest_keys b (objs n) job). ref_at (objs n) job k = Some x)) \<and>
    (answering b objs \<longrightarrow>
       (\<forall>x. r = Inr (Some x) \<longrightarrow> (\<forall>k\<in>set (manifest_keys b (objs n) job). \<forall>y. ref_at (objs n) job k = Some y \<longrightarrow> cr_step y \<le> cr_step x)) \<and>
       (r = Inr None \<longrightarrow> (\<forall>k\<in>set (manifest_keys b (objs n) job). ref_at (objs n) job k = None)))"
proof -
  obtain r n' where l: "s3_latest b job n = Some (r, n')" "objs n' = objs n" "\<forall>e. r = Inl e \<longrightarrow> (\<exists>t. e = CheckpointError t)"
    "\<forall>x. r = Inr (Some x) \<longrightarrow> (\<exists>k\<in>set (manifest_keys b (objs n) job). ref_at (objs n) job k = Some x)"
    "answering b objs \<longrightarrow> r = Inr (bucket_latest b (objs n) job)"
    using latest_runs [OF assms, of job n] by blast
  note newest = bucket_latest_newest [OF faithful_parts(1) [OF assms, of n], of b job]
  have "answering b objs \<longrightarrow> (\<forall>x. r = Inr (Some x) \<longrightarrow>
      (\<forall>k\<in>set (manifest_keys b (objs n) job). \<forall>y. ref_at (objs n) job k = Some y \<longrightarrow> cr_step y \<le> cr_step x))"
    using l(5) newest(1) by auto
  moreover have "answering b objs \<longrightarrow> r = Inr None \<longrightarrow> (\<forall>k\<in>set (manifest_keys b (objs n) job). ref_at (objs n) job k = None)"
    using l(5) newest(2) by auto
  ultimately show ?thesis using l(1-4) by blast
qed

subsection \<open>An upload that is cut off\<close>

lemma ends_with_MANIFEST: "ends_with (p @ ''/'' @ name) MANIFEST = ends_with name MANIFEST"
proof (cases "length MANIFEST \<le> length name")
  case True
  then show ?thesis by (simp add: ends_with_def Suc_diff_le)
next
  case False
  have "CHR ''/'' \<notin> set MANIFEST" by (simp add: MANIFEST_def)
  moreover have "CHR ''/'' \<in> set (drop (length (p @ ''/'' @ name) - length MANIFEST) (p @ ''/'' @ name))"
    using False by (simp add: drop_append)
  ultimately have "drop (length (p @ ''/'' @ name) - length MANIFEST) (p @ ''/'' @ name) \<noteq> MANIFEST" by metis
  then show ?thesis using False by (simp add: ends_with_def)
qed

lemma key_of_name: "name \<noteq> [] \<Longrightarrow> s3_key b job step name = ckpt_dir (bs_prefix b) job step @ ''/'' @ name"
  by (simp add: s3_key_def)

text \<open>Only manifests matter to \<open>latest\<close>.\<close>

lemma bucket_latest_cong:
  assumes "finite (dom m)" and "finite (dom m')" and "\<And>k. ends_with k MANIFEST \<Longrightarrow> m' k = m k"
  shows "bucket_latest b m' job = bucket_latest b m job"
proof -
  have "k \<in> set (manifest_keys b m' job) \<longleftrightarrow> k \<in> set (manifest_keys b m job)" for k
    using assms(3) by (auto simp: manifest_keys_facts(1) [OF assms(1)] manifest_keys_facts(1) [OF assms(2)])
  then have k: "manifest_keys b m' job = manifest_keys b m job"
    by (intro sorted_set_eq manifest_keys_facts(2) assms(1,2)) blast
  have "map (ref_at m' job) (manifest_keys b m job) = map (ref_at m job) (manifest_keys b m job)"
    using assms(3) by (auto simp: ref_at_def manifest_keys_facts(1) [OF assms(1)])
  then show ?thesis unfolding bucket_latest_def k by (simp only:)
qed

text \<open>Every put of an upload but the last one has happened; the last one may have.\<close>

lemma upload_effect:
  assumes "faithful_s3 b objs after" and "upload b rs n = (r, n')"
  shows "(r = Inr () \<and> objs n' = objs n ++ map_of (rev rs)) \<or> (\<exists>i<length rs. r \<noteq> Inr () \<and>
    (objs n' = objs n ++ map_of (rev (take i rs)) \<or> objs n' = objs n ++ map_of (rev (take (Suc i) rs))))"
  using assms(2)
proof (induction rs arbitrary: n)
  case (Cons q rs)
  obtain k c where q: "q = (k, c)" by fastforce
  obtain u n1 where p: "s3_put_object (bs_client b) (bs_bucket b) k c n = (u, n1)" by fastforce
  note e = faithful_parts(2) [OF assms(1) p]
  show ?case
  proof (cases u)
    case (Inl t)
    then have r: "r \<noteq> Inr ()" "n' = n1" using Cons.prems q p by auto
    have "objs n ++ map_of (rev (take 0 (q # rs))) = objs n" "objs n ++ map_of (rev (take (Suc 0) (q # rs))) = (objs n)(k \<mapsto> c)"
      using q by (simp_all add: map_add_def fun_eq_iff)
    then have "objs n' = objs n ++ map_of (rev (take 0 (q # rs))) \<or> objs n' = objs n ++ map_of (rev (take (Suc 0) (q # rs)))"
      using e unfolding r(2) by (elim disjE conjE) (simp_all only: simp_thms)
    moreover have "0 < length (q # rs)" by simp
    ultimately show ?thesis using r(1) by blast
  next
    case (Inr x)
    then have u: "upload b rs n1 = (r, n')" and m: "objs n1 = (objs n)(k \<mapsto> c)" using Cons.prems q p e by auto
    have add: "objs n ++ map_of (rev (take (Suc i) (q # rs))) = objs n1 ++ map_of (rev (take i rs))" for i
      using m q by (simp add: map_add_assoc [symmetric])
    have all: "objs n ++ map_of (rev (q # rs)) = objs n1 ++ map_of (rev rs)" using add [of "length rs"] by simp
    consider "r = Inr ()" "objs n' = objs n1 ++ map_of (rev rs)"
      | i where "i < length rs" "r \<noteq> Inr ()"
          "objs n' = objs n1 ++ map_of (rev (take i rs)) \<or> objs n' = objs n1 ++ map_of (rev (take (Suc i) rs))"
      using Cons.IH [OF u] by blast
    then show ?thesis
    proof cases
      case 1
      then show ?thesis using all by simp
    next
      case 2
      then show ?thesis using add [of i] add [of "Suc i"] by (intro disjI2 exI [of _ "Suc i"]) auto
    qed
  qed
qed simp

lemma requests_prefix:
  assumes "\<forall>name\<in>set (map fst files). name \<noteq> [] \<and> \<not> ends_with name MANIFEST" and "i \<le> length files" and "ends_with k MANIFEST"
  shows "map_of (rev (take i (s3_requests size_of b job step files stamp))) k = None"
proof -
  have "k \<noteq> s3_key b job step name" if "name \<in> set (map fst files)" for name
    using assms(1,3) that ends_with_MANIFEST [of "ckpt_dir (bs_prefix b) job step" name] key_of_name by metis
  then have "k \<notin> fst ` set (map (\<lambda>(name, body). (s3_key b job step name, body)) files)" by force
  then have "k \<notin> fst ` set (take i (map (\<lambda>(name, body). (s3_key b job step name, body)) files))"
    by (meson image_mono set_take_subset subsetD)
  then show ?thesis using assms(2) by (simp add: s3_requests_def map_of_eq_None_iff image_set [symmetric] del: image_set) 
qed


subsection \<open>Saving and restoring\<close>

lemma dir_of_key: "CHR ''/'' \<notin> set name \<Longrightarrow> dir_of (p @ ''/'' @ name) = p"
proof -
  assume n: "CHR ''/'' \<notin> set name"
  have "dropWhile (\<lambda>c. c \<noteq> CHR ''/'') (rev name @ CHR ''/'' # rev p) = CHR ''/'' # rev p"
    using n by (subst dropWhile_append2) auto
  then show ?thesis by (simp add: dir_of_def)
qed

lemma fetch_answered:
  assumes "faithful_s3 b objs after" and "answering b objs"
    and "\<And>name. name \<in> set names \<Longrightarrow> objs n (key @ ''/'' @ name) = map_of files name \<and> map_of files name \<noteq> None"
  shows "\<exists>n'. s3_fetch_files b key names n = (Inr (map (\<lambda>name. (name, the (map_of files name))) names), n')"
  using assms(3)
proof (induction names arbitrary: n)
  case (Cons name names)
  then obtain c where c: "map_of files name = Some c" "objs n (key @ ''/'' @ name) = Some c" by force
  then obtain c' n1 where g: "s3_get_object (bs_client b) (bs_bucket b) (key @ ''/'' @ name) n = (Inr c', n1)"
    using assms(2) unfolding answering_def by blast
  have "c' = c" "objs n1 = objs n" using faithful_parts(3,4) [OF assms(1) g] c(2) by simp_all
  moreover from this have "\<exists>n'. s3_fetch_files b key names n1 = (Inr (map (\<lambda>name. (name, the (map_of files name))) names), n')"
    using Cons.prems by (intro Cons.IH) simp
  ultimately show ?case using g c(1) by auto
qed simp

lemma requests_stored:
  assumes "distinct (map fst files)" and "\<forall>name\<in>set (map fst files). name \<noteq> [] \<and> \<not> ends_with name MANIFEST"
  shows "map_of (rev (s3_requests size_of b job step files stamp)) (s3_key b job step MANIFEST) =
      Some (manifest_body (map fst files) step stamp (sum_list (map (size_of \<circ> snd) files)))"
    and "name \<in> set (map fst files) \<Longrightarrow> map_of (rev (s3_requests size_of b job step files stamp)) (s3_key b job step name) = map_of files name"
proof -
  let ?p = "ckpt_dir (bs_prefix b) job step"
  show "map_of (rev (s3_requests size_of b job step files stamp)) (s3_key b job step MANIFEST) =
      Some (manifest_body (map fst files) step stamp (sum_list (map (size_of \<circ> snd) files)))"
    by (simp add: s3_requests_def)
  assume name: "name \<in> set (map fst files)"
  have full: "x \<noteq> []" if "x \<in> set (map fst files)" for x using assms(2) that by blast
  have m: "MANIFEST \<notin> set (map fst files)" using assms(2) by (auto simp: ends_with_def)
  have other: "s3_key b job step name \<noteq> s3_key b job step MANIFEST"
    using m name full [OF name] by (metis MANIFEST_def append_same_eq key_of_name list.discI same_append_eq)
  have keys: "map_of (map (\<lambda>(x, body). (s3_key b job step x, body)) fs) (s3_key b job step name) = map_of fs name"
    if "\<forall>x\<in>set (map fst fs). x \<noteq> []" for fs :: directory
    using that full [OF name] by (induction fs) (auto simp: key_of_name)
  have "map_of (rev files) = map_of files" using assms(1) by (intro map_of_inject_set [THEN iffD2]) (simp_all add: rev_map [symmetric])
  then show "map_of (rev (s3_requests size_of b job step files stamp)) (s3_key b job step name) = map_of files name"
    using keys [of "rev files"] other full by (auto simp: s3_requests_def rev_map)
qed


subsection \<open>Where the store falls short\<close>

text \<open>A manifest that is there but cannot be read just now counts as if it were not there: the job starts over.\<close>

lemma failed_read_starts_over:
  assumes "s3_manifests b job n = Some (Inr [key], n1)" and "s3_get_object (bs_client b) (bs_bucket b) key n1 = (Inl t, n2)"
  shows "s3_latest b job n = Some (Inr None, n2)"
  using assms by (simp add: s3_latest_def)

text \<open>Pruning deletes what the first page of a listing has; what is on later pages stays, without its manifest, and is
  not found again.\<close>

lemma prune_leaves_later_pages:
  assumes "\<forall>x n r n'. s3_delete_object (bs_client b) (bs_bucket b) x n = (r, n') \<longrightarrow> objs n' = objs n \<or> objs n' = (objs n)(x := None)"
    and "s3_list_objects (bs_client b) (bs_bucket b) (job_prefix (bs_prefix b) job @ name @ ''/'') None n = (Inr p, n1)"
    and "objs n1 = objs n" and "key \<notin> set (pg_keys p)"
  shows "objs (snd (delete_step b job name n)) key = objs n key"
proof -
  have "objs (snd (delete_keys b keys x)) key = objs x key" if "key \<notin> set keys" for keys x
    using that
  proof (induction keys arbitrary: x)
    case (Cons k keys)
    obtain r y where d: "s3_delete_object (bs_client b) (bs_bucket b) k x = (r, y)" by fastforce
    then have "objs y key = objs x key" using assms(1) Cons.prems by (metis fun_upd_apply list.set_intros(1))
    then show ?case using Cons d by (cases r) auto
  qed simp
  then show ?thesis using assms by (simp add: delete_step_def)
qed

subsection \<open>A bucket with one key to a page\<close>

type_synonym demo_bucket = "(string \<times> content) list"

definition demo_page :: "string \<Rightarrow> string option \<Rightarrow> demo_bucket \<Rightarrow> s3_page" where
  "demo_page prefix token n =
     (let ks = sort (remdups (filter (\<lambda>k. starts_with k prefix \<and> (case token of None \<Rightarrow> True | Some t \<Rightarrow> tl t < k)) (map fst n)))
      in \<lparr>pg_keys = take 1 ks, pg_truncated = (1 < length ks), pg_next = (if ks = [] then None else Some (''t'' @ hd ks))\<rparr>)"

definition demo_s3 :: "demo_bucket s3_store" where
  "demo_s3 =
     s3_open
       \<lparr>s3_put_object = (\<lambda>_ k c n. (Inr (), AList.update k c n)),
        s3_get_object = (\<lambda>_ k n. (case map_of n k of None \<Rightarrow> Inl ''NoSuchKey'' | Some c \<Rightarrow> Inr c, n)),
        s3_list_objects = (\<lambda>_ prefix t n. (Inr (demo_page prefix t n), n)),
        s3_delete_object = (\<lambda>_ k n. (Inr (), AList.delete k n))\<rparr>
       ''club'' ''/checkpoints/''"

lemma demo_page_ok: "page_ok tl (keys_after (map_of n) prefix (map_option tl t)) (demo_page prefix t n)"
proof -
  let ?ks = "sort (remdups (filter (\<lambda>k. starts_with k prefix \<and> (case t of None \<Rightarrow> True | Some t \<Rightarrow> tl t < k)) (map fst n)))"
  have "finite (dom (map_of n))" by (rule finite_dom_map_of)
  then have e: "keys_after (map_of n) prefix (map_option tl t) = ?ks"
    by (intro sorted_set_eq keys_after_facts(2))
      (auto simp: keys_after_facts(1) dom_map_of_conv_image_fst strict_sorted_iff split: option.splits)
  have "page_ok tl ks \<lparr>pg_keys = take 1 ks, pg_truncated = (1 < length ks), pg_next = (if ks = [] then None else Some (''t'' @ hd ks))\<rparr>"
    for ks unfolding page_ok_def by (intro exI [of _ 1]) (auto simp: hd_conv_nth)
  then show ?thesis by (simp only: demo_page_def Let_def e)
qed

lemma demo_s3_faithful: "faithful_s3 demo_s3 map_of tl" "answering demo_s3 map_of"
proof -
  have c: "s3_put_object (bs_client demo_s3) bk k c n = (Inr (), AList.update k c n)"
    "s3_get_object (bs_client demo_s3) bk k n = (case map_of n k of None \<Rightarrow> Inl ''NoSuchKey'' | Some c \<Rightarrow> Inr c, n)"
    "s3_list_objects (bs_client demo_s3) bk prefix t n = (Inr (demo_page prefix t n), n)" for bk k c n prefix t
    by (simp_all add: demo_s3_def s3_open_def)
  show "faithful_s3 demo_s3 map_of tl" unfolding faithful_s3_def c
    by (auto simp: update_conv' finite_dom_map_of demo_page_ok split: option.splits)
  show "answering demo_s3 map_of" unfolding answering_def c by auto
qed

definition demo_put :: "error + checkpoint_ref" where
  "demo_put = fst (s3_put (\<lambda>_. 10) demo_s3 ''a'' 5 (Some (demo_state 5)) 0 [])"

definition demo_stored :: demo_bucket where
  "demo_stored = snd (s3_put (\<lambda>_. 10) demo_s3 ''a'' 5 (Some (demo_state 5)) 0 [])"

lemma demo_file_names: "\<forall>name\<in>set (map fst (demo_state k)). name \<noteq> [] \<and> \<not> ends_with name MANIFEST"
  by (simp add: demo_state_def ends_with_def MANIFEST_def)

theorem s3_latest_returns_witness:
  "\<exists>x n'. s3_latest demo_s3 ''a'' demo_stored = Some (Inr (Some x), n') \<and> cr_step x = 5 \<and>
     (\<exists>k\<in>set (manifest_keys demo_s3 (map_of demo_stored) ''a''). ref_at (map_of demo_stored) ''a'' k = Some x)"
proof -
  obtain r n' where r: "s3_latest demo_s3 ''a'' demo_stored = Some (r, n')"
    "\<forall>x. r = Inr (Some x) \<longrightarrow> (\<exists>k\<in>set (manifest_keys demo_s3 (map_of demo_stored) ''a''). ref_at (map_of demo_stored) ''a'' k = Some x)"
    using s3_latest_returns [OF demo_s3_faithful(1), of "''a''" demo_stored] by blast
  have "map_option fst (s3_latest demo_s3 ''a'' demo_stored) =
      Some (Inr (Some \<lparr>cr_job = ''a'', cr_step = 5, cr_key = ckpt_dir ''checkpoints'' ''a'' 5, cr_written_at = 0,
        cr_files = [''state.json''], cr_bytes = 10\<rparr>))" by code_simp
  then show ?thesis using r by auto
qed



end
