(* ===== verification/Ec2.thy ===== *)
theory Ec2
  imports Aws Broker Volumes Environments Transport Bucket
begin

text \<open>
  \<^verbatim>\<open>gpu_broker/backends/ec2.py\<close>: EC2 instances that run a job through SSM and log to CloudWatch. The AWS
  clients are a record of calls on the state of the account; the fields of their answers that the code reads are
  given, and what they raise is a failure with its code. The object's attributes are a record: the count of
  failed launches, the cooldown, the cached listing, and what was read of each log stream. The tags of an
  instance are always present in an answer, possibly none.
\<close>

subsection \<open>What AWS answers and is asked\<close>

record ec2_instance =
  ei_id :: string
  ei_type :: string
  ei_state :: string
  ei_tags :: "(string \<times> string) list"
  ei_lifecycle :: string
  ei_reason :: string

record run_params =
  rp_image_id :: string
  rp_instance_type :: string
  rp_count :: nat
  rp_profile :: string
  rp_shutdown :: string
  rp_tag_specs :: "(string \<times> tags) list"
  rp_http_tokens :: string
  rp_subnet :: "string option"
  rp_security_groups :: "string list"
  rp_spot_options :: "(string \<times> string) list"

record send_params =
  sp_instance :: string
  sp_document :: string
  sp_commands :: "string list"
  sp_working_dir :: "string option"
  sp_timeout :: string
  sp_log_group :: string
  sp_comment :: string

record invocation =
  iv_status :: "string option"
  iv_code :: "int option"
  iv_details :: string
  iv_error :: string

type_synonym ('n, 'a) aws_call = "'n \<Rightarrow> (aws_failure + 'a) \<times> 'n"

text \<open>\<open>run_instances\<close> and \<open>terminate_instances\<close> take \<open>DryRun\<close>; listings come in pages of reservations.\<close>

record 'n aws_api =
  ap_run :: "run_params \<Rightarrow> bool \<Rightarrow> ('n, ec2_instance) aws_call"
  ap_list :: "string \<Rightarrow> string list \<Rightarrow> ('n, ec2_instance list list list) aws_call"
  ap_describe :: "string \<Rightarrow> ('n, ec2_instance list list) aws_call"
  ap_terminate :: "string \<Rightarrow> bool \<Rightarrow> ('n, unit) aws_call"
  ap_create_tags :: "string \<Rightarrow> tags \<Rightarrow> ('n, unit) aws_call"
  ap_spot_history :: "string list \<Rightarrow> nat \<Rightarrow> ('n, (string option \<times> string) list) aws_call"
  ap_send :: "send_params \<Rightarrow> ('n, string) aws_call"
  ap_cancel :: "string \<Rightarrow> string \<Rightarrow> ('n, unit) aws_call"
  ap_invocation :: "string \<Rightarrow> string \<Rightarrow> ('n, invocation) aws_call"
  ap_agents :: "string \<Rightarrow> ('n, string list) aws_call"
  ap_log_events :: "string \<Rightarrow> string \<Rightarrow> string option \<Rightarrow> ('n, string list \<times> string option) aws_call"
  ap_repository :: "string \<Rightarrow> ('n, string) aws_call"
  ap_create_repository :: "string \<Rightarrow> ('n, string) aws_call"
  ap_image :: "string \<Rightarrow> string \<Rightarrow> ('n, unit) aws_call"

subsection \<open>The object\<close>

record 'n ec2 =
  eb_name :: string
  eb_tier :: string
  eb_aws :: aws_config
  eb_api :: "'n aws_api"
  eb_cache_seconds :: pyfloat
  eb_sample_interval :: int
  eb_spot :: bool
  eb_bucket :: string
  eb_prefix :: string
  eb_deadline :: int
  eb_max_failures :: nat
  eb_cooldown :: pyfloat
  eb_environments :: "(string \<Rightarrow> environment option) option"
  eb_volumes :: volume_config
  eb_ecr_repository :: string
  eb_has_ecr :: bool
  eb_sha256 :: "string \<Rightarrow> string"

record 'n ec2_state =
  es_failures :: nat
  es_cooling_until :: "moment option"
  es_registry :: "string option"
  es_cache :: "ec2_instance list option"
  es_cached_at :: "moment option"
  es_log_lines :: "(string \<times> (string \<times> string) list) list"
  es_log_tokens :: "(string \<times> string) list"
  es_agent_error :: "string option"
  es_net :: 'n

definition new_ec2_state :: "'n \<Rightarrow> 'n ec2_state" where
  "new_ec2_state n =
     \<lparr>es_failures = 0, es_cooling_until = None, es_registry = None, es_cache = None, es_cached_at = None, es_log_lines = [],
      es_log_tokens = [], es_agent_error = None, es_net = n\<rparr>"

text \<open>The tier the constructor gives when none is passed.\<close>

definition ec2_tier :: "string option \<Rightarrow> bool \<Rightarrow> string" where
  "ec2_tier tier spot = (case tier of Some t \<Rightarrow> t | None \<Rightarrow> if spot then ''spot'' else ''ondemand'')"

text \<open>A call, with what is done with what it raises and with its answer.\<close>

definition aws :: "('n, 'a) aws_call \<Rightarrow> (aws_failure \<Rightarrow> ('n ec2_state, 'b) ext_op) \<Rightarrow> ('a \<Rightarrow> ('n ec2_state, 'b) ext_op) \<Rightarrow>
    ('n ec2_state, 'b) ext_op" where
  "aws f h k now s =
     (case f (es_net s) of
        (Inl x, n) \<Rightarrow> h x now (s\<lparr>es_net := n\<rparr>)
      | (Inr a, n) \<Rightarrow> k a now (s\<lparr>es_net := n\<rparr>))"

definition aws_error :: "string \<Rightarrow> aws_failure \<Rightarrow> ('n ec2_state, 'a) ext_op" where
  "aws_error what x = x_raise (BackendError (what @ '': '' @ explain x))"

subsection \<open>Instances\<close>

definition invalidate :: "('n ec2_state, unit) ext_op" where
  "invalidate = x_set (\<lambda>s. s\<lparr>es_cache := None, es_cached_at := None\<rparr>)"

definition cache_fresh :: "'n ec2 \<Rightarrow> moment \<Rightarrow> 'n ec2_state \<Rightarrow> ec2_instance list option" where
  "cache_fresh b now s =
     (case (es_cache s, es_cached_at s) of
        (Some is, Some t) \<Rightarrow> if total_seconds (now - t) < eb_cache_seconds b then Some is else None
      | _ \<Rightarrow> None)"

definition ec2_instances :: "'n ec2 \<Rightarrow> ('n ec2_state, ec2_instance list) ext_op" where
  "ec2_instances b =
     x_then x_now (\<lambda>now. x_then (x_get (cache_fresh b now)) (\<lambda>cached.
     case cached of
       Some is \<Rightarrow> x_ret is
     | None \<Rightarrow>
         aws (ap_list (eb_api b) TAG_JOB_ID LIVE_INSTANCE_STATES) (aws_error ''could not list instances'') (\<lambda>pages.
         x_then (x_set (\<lambda>s. s\<lparr>es_cache := Some (concat (concat pages)), es_cached_at := Some now\<rparr>)) (\<lambda>_.
         x_ret (concat (concat pages))))))"

definition GONE_CODES :: "string list" where
  "GONE_CODES = [''InvalidInstanceID.NotFound'', ''InvalidInstanceID.Malformed'']"

definition describe_one :: "'n ec2 \<Rightarrow> string \<Rightarrow> ('n ec2_state, ec2_instance option) ext_op" where
  "describe_one b handle =
     aws (ap_describe (eb_api b) handle)
       (\<lambda>x. if has_code x GONE_CODES then x_ret None else aws_error (''could not describe '' @ handle) x)
       (\<lambda>rs. x_ret (case concat rs of [] \<Rightarrow> None | i # _ \<Rightarrow> Some i))"

definition ec2_instance_of :: "'n ec2 \<Rightarrow> string \<Rightarrow> ('n ec2_state, ec2_instance option) ext_op" where
  "ec2_instance_of b handle =
     x_then (ec2_instances b) (\<lambda>is.
     case find (\<lambda>i. ei_id i = handle) is of Some i \<Rightarrow> x_ret (Some i) | None \<Rightarrow> describe_one b handle)"

definition tag_of :: "ec2_instance \<Rightarrow> string \<Rightarrow> string option" where
  "tag_of i key = map_of (parse_tags (ei_tags i)) key"

definition command_id_of :: "'n ec2 \<Rightarrow> string \<Rightarrow> ('n ec2_state, string option) ext_op" where
  "command_id_of b handle =
     x_then (ec2_instance_of b handle) (\<lambda>i. x_ret (case i of None \<Rightarrow> None | Some i \<Rightarrow> tag_of i TAG_COMMAND_ID))"

definition put_tags :: "'n ec2 \<Rightarrow> string \<Rightarrow> tags \<Rightarrow> ('n ec2_state, unit) ext_op" where
  "put_tags b handle ts = aws (ap_create_tags (eb_api b) handle ts) (aws_error (''could not tag '' @ handle)) x_ret"

subsection \<open>Capacity\<close>

definition spot_types :: "'n ec2 \<Rightarrow> string \<Rightarrow> string list" where
  "spot_types b gpu_type = (case map_of (aw_spot_types (eb_aws b)) gpu_type of Some ts \<Rightarrow> ts | None \<Rightarrow> [])"

definition ec2_supports :: "'n ec2 \<Rightarrow> string \<Rightarrow> bool" where
  "ec2_supports b gpu_type =
     (if eb_spot b then spot_types b gpu_type \<noteq> [] else gpu_type \<in> fst ` set (aw_instance_types (eb_aws b)))"

definition ec2_limit :: "'n ec2 \<Rightarrow> string \<Rightarrow> int" where
  "ec2_limit b gpu_type = (case map_of (aw_max_instances (eb_aws b)) gpu_type of Some n \<Rightarrow> n | None \<Rightarrow> 0)"

definition cooling :: "moment \<Rightarrow> 'n ec2_state \<Rightarrow> bool" where
  "cooling now s = (case es_cooling_until s of Some t \<Rightarrow> now < t | None \<Rightarrow> False)"

definition cooled_off :: "'n ec2_state \<Rightarrow> 'n ec2_state" where
  "cooled_off s = (case es_cooling_until s of None \<Rightarrow> s | Some _ \<Rightarrow> s\<lparr>es_cooling_until := None, es_failures := 0\<rparr>)"

definition ec2_free_slots :: "'n ec2 \<Rightarrow> string \<Rightarrow> ('n ec2_state, int) ext_op" where
  "ec2_free_slots b gpu_type =
     (if \<not> ec2_supports b gpu_type then x_ret 0
      else x_then x_now (\<lambda>now. x_then (x_get (cooling now)) (\<lambda>wait.
        if wait then x_ret 0
        else x_then (x_set cooled_off) (\<lambda>_.
             x_then (x_of (instance_type_for (eb_aws b) gpu_type)) (\<lambda>wanted.
             x_then (ec2_instances b) (\<lambda>is.
             x_ret (max 0 (ec2_limit b gpu_type - int (length (filter (\<lambda>i. ei_type i = wanted) is))))))))))"

definition note_failure :: "'n ec2 \<Rightarrow> ('n ec2_state, unit) ext_op" where
  "note_failure b =
     (if \<not> eb_spot b then x_ret ()
      else x_then x_now (\<lambda>now. x_set (\<lambda>s.
        (let s = s\<lparr>es_failures := es_failures s + 1\<rparr>
         in if eb_max_failures b \<le> es_failures s then s\<lparr>es_cooling_until := Some (now + timedelta_seconds (eb_cooldown b))\<rparr> else s))))"

definition guard_capacity :: "'n ec2 \<Rightarrow> job \<Rightarrow> ('n ec2_state, unit) ext_op" where
  "guard_capacity b j =
     x_then (x_of (aws_require_launchable (eb_aws b))) (\<lambda>_.
     if \<not> ec2_supports b (j_gpu_type j)
     then x_raise (BackendError (eb_name b @ '' has no instance type mapped for '' @ j_gpu_type j))
     else x_then (ec2_free_slots b (j_gpu_type j)) (\<lambda>free.
          if free \<le> 0
          then x_raise (BackendError (eb_name b @ '' is at its '' @ j_gpu_type j @ '' limit of '' @
                 show_int (ec2_limit b (j_gpu_type j)) @ '' instances''))
          else x_ret ()))"

subsection \<open>Launching\<close>

text \<open>The lowest price seen of every type. The texts of infinities count as malformed.\<close>

definition best_price :: "(string \<times> decimal) list \<Rightarrow> string option \<times> string \<Rightarrow> (string \<times> decimal) list" where
  "best_price best entry =
     (case fst entry of
        None \<Rightarrow> best
      | Some t \<Rightarrow>
          (case float_of_text t of
             Fin p \<Rightarrow>
               (if snd entry \<noteq> [] \<and> (case map_of best (snd entry) of None \<Rightarrow> True | Some q \<Rightarrow> p < q)
                then AList.update (snd entry) p best else best)
           | _ \<Rightarrow> best))"

definition index_of :: "string list \<Rightarrow> string \<Rightarrow> nat" where
  "index_of xs x = length (takeWhile (\<lambda>y. y \<noteq> x) xs)"

definition cheapest_of :: "string list \<Rightarrow> (string option \<times> string) list \<Rightarrow> (error, string) result" where
  "cheapest_of types entries =
     (let best = foldl best_price [] entries
      in if best = [] then Inr (hd types)
         else if \<exists>n\<in>fst ` set best. n \<notin> set types then Inl (ValueError ''not in list'')
         else Inr (hd (sort_key (\<lambda>n. (the (map_of best n), index_of types n)) (map fst best))))"

definition cheapest_type :: "'n ec2 \<Rightarrow> string \<Rightarrow> ('n ec2_state, string) ext_op" where
  "cheapest_type b gpu_type =
     (let types = spot_types b gpu_type
      in if types = [] then x_raise (BackendError (''no spot instance types configured for '' @ gpu_type))
         else if length types = 1 then x_ret (hd types)
         else aws (ap_spot_history (eb_api b) types (length types * 6))
                (\<lambda>_. x_ret (hd types)) (\<lambda>h. x_of (cheapest_of types h)))"

definition run_request :: "aws_config \<Rightarrow> bool \<Rightarrow> string \<Rightarrow> job \<Rightarrow> moment \<Rightarrow> run_params" where
  "run_request c spot itype j now =
     (let ts = tags_for j (to_iso now)
      in \<lparr>rp_image_id = or_empty (aw_ami c), rp_instance_type = itype, rp_count = 1,
          rp_profile = or_empty (aw_instance_profile c), rp_shutdown = aw_shutdown_behavior c,
          rp_tag_specs = [(''instance'', ts), (''volume'', ts)], rp_http_tokens = ''required'',
          rp_subnet = (if truthy (aw_subnet_id c) then aw_subnet_id c else None),
          rp_security_groups = aw_security_groups c,
          rp_spot_options =
            (if spot
             then [(''MarketType'', ''spot''), (''SpotInstanceType'', ''one-time''), (''InstanceInterruptionBehavior'', ''terminate'')]
             else [])\<rparr>)"

definition run_params_for :: "'n ec2 \<Rightarrow> job \<Rightarrow> ('n ec2_state, run_params) ext_op" where
  "run_params_for b j =
     x_then (if eb_spot b then cheapest_type b (j_gpu_type j) else x_of (instance_type_for (eb_aws b) (j_gpu_type j))) (\<lambda>itype.
     x_then x_now (\<lambda>now. x_ret (run_request (eb_aws b) (eb_spot b) itype j now)))"

definition ec2_launch :: "'n ec2 \<Rightarrow> job \<Rightarrow> ('n ec2_state, allocation) ext_op" where
  "ec2_launch b j =
     x_then (guard_capacity b j) (\<lambda>_.
     x_then (run_params_for b j) (\<lambda>p.
     aws (ap_run (eb_api b) p False)
       (\<lambda>x. x_then (note_failure b) (\<lambda>_. aws_error (''could not launch '' @ j_gpu_type j) x))
       (\<lambda>i. x_then (x_set (\<lambda>s. s\<lparr>es_failures := 0\<rparr>)) (\<lambda>_. x_then invalidate (\<lambda>_.
            x_ret \<lparr>al_handle = ei_id i, al_gpu_type = j_gpu_type j, al_tags = parse_tags (ei_tags i)\<rparr>)))))"

definition DRY_RUN_IGNORED :: "string \<Rightarrow> error" where
  "DRY_RUN_IGNORED call =
     BackendError (call @ ''(DryRun=True) returned without raising DryRunOperation. Refusing to trust this dry run.'')"

definition ec2_validate_launch :: "'n ec2 \<Rightarrow> job \<Rightarrow> ('n ec2_state, string) ext_op" where
  "ec2_validate_launch b j =
     x_then (guard_capacity b j) (\<lambda>_.
     x_then (run_params_for b j) (\<lambda>p.
     aws (ap_run (eb_api b) p True)
       (\<lambda>x. if is_dry_run_success x
            then x_ret (''would launch a '' @ rp_instance_type p @ '' ('' @ j_gpu_type j @ '') in '' @ aw_region (eb_aws b) @
                        '' from '' @ or_empty (aw_ami (eb_aws b)) @ '', tagged to '' @ j_user j)
            else aws_error (''would fail to launch '' @ j_gpu_type j) x)
       (\<lambda>_. x_raise (DRY_RUN_IGNORED ''run_instances''))))"

subsection \<open>Starting the job\<close>

definition MAX_EXECUTION_TIMEOUT :: int where
  "MAX_EXECUTION_TIMEOUT = 172800"

definition run_seconds :: "job \<Rightarrow> int" where
  "run_seconds j = py_int (j_requested_hours j * 3600) + 3600"

definition repository_uri :: "'n ec2 \<Rightarrow> ('n ec2_state, string option) ext_op" where
  "repository_uri b =
     (if eb_ecr_repository b = [] \<or> \<not> eb_has_ecr b then x_ret None
      else x_then (x_get es_registry) (\<lambda>known.
        let forget = x_then (x_set (\<lambda>s. s\<lparr>es_registry := Some []\<rparr>)) (\<lambda>_. x_ret None);
            found = (\<lambda>uri. x_then (x_set (\<lambda>s. s\<lparr>es_registry := Some uri\<rparr>)) (\<lambda>_. x_ret (Some uri)))
        in case known of
             Some uri \<Rightarrow> x_ret (if uri \<noteq> [] then Some uri else None)
           | None \<Rightarrow>
               aws (ap_repository (eb_api b) (eb_ecr_repository b))
                 (\<lambda>x. if \<not> has_code x [''RepositoryNotFoundException''] then forget
                      else aws (ap_create_repository (eb_api b) (eb_ecr_repository b)) (\<lambda>_. forget) found)
                 found))"

definition image_for :: "'n ec2 \<Rightarrow> environment \<Rightarrow> ('n ec2_state, string option) ext_op" where
  "image_for b e =
     x_then (repository_uri b) (\<lambda>uri. x_ret (if truthy uri then Some (the uri @ '':'' @ digest (eb_sha256 b) e) else None))"

definition image_cached :: "'n ec2 \<Rightarrow> environment \<Rightarrow> ('n ec2_state, bool) ext_op" where
  "image_cached b e =
     (if \<not> eb_has_ecr b \<or> eb_ecr_repository b = [] then x_ret False
      else aws (ap_image (eb_api b) (eb_ecr_repository b) (digest (eb_sha256 b) e)) (\<lambda>_. x_ret False) (\<lambda>_. x_ret True))"

definition environment_for :: "'n ec2 \<Rightarrow> job \<Rightarrow> environment option" where
  "environment_for b j =
     (if truthy (j_environment j) then Option.bind (eb_environments b) (\<lambda>f. f (the (j_environment j))) else None)"

text \<open>\<open>image.rsplit('/', 1)[0].split(':')[0]\<close>.\<close>

definition registry_of :: "string \<Rightarrow> string" where
  "registry_of img =
     takeWhile (\<lambda>c. c \<noteq> CHR '':'')
       (if CHR ''/'' \<in> set img then rev (drop 1 (dropWhile (\<lambda>c. c \<noteq> CHR ''/'') (rev img))) else img)"

definition CHECKPOINT_DIR :: string where "CHECKPOINT_DIR = ''/tmp/gpu-broker/checkpoint''"

definition RESUME_DIR :: string where "RESUME_DIR = ''/tmp/gpu-broker/resume''"

definition inner_command :: "'n ec2 \<Rightarrow> job \<Rightarrow> environment option \<Rightarrow> string option \<Rightarrow> string" where
  "inner_command b j env tag =
     (case (env, tag) of
        (Some e, Some img) \<Rightarrow>
          (if img = [] then j_command j
           else containerised img (j_command j) CHECKPOINT_DIR RESUME_DIR DATA_PATH (registry_of img) (aw_region (eb_aws b))
                  (b64_encode (utf8 (dockerfile (eb_sha256 b) e))))
      | _ \<Rightarrow> j_command j)"

definition wrapped_command :: "'n ec2 \<Rightarrow> job \<Rightarrow> string \<Rightarrow> string" where
  "wrapped_command b j inner =
     (let setup = (if vc_enabled (eb_volumes b) then efs_mount_script (eb_volumes b) (j_user j) (aw_region (eb_aws b)) else [])
      in if eb_bucket b = []
         then (if setup \<noteq> [] then setup @ NL @ inner else inner)
         else job_wrapper_script inner CHECKPOINT_DIR RESUME_DIR
                (if truthy (j_checkpoint_key j) then ''s3://'' @ eb_bucket b @ ''/'' @ the (j_checkpoint_key j) else [])
                (''s3://'' @ eb_bucket b @ ''/'' @ eb_prefix b @ ''/'' @ j_id j) (j_id j) (eb_deadline b) 5 setup)"

definition ec2_command_for :: "'n ec2 \<Rightarrow> job \<Rightarrow> ('n ec2_state, string) ext_op" where
  "ec2_command_for b j =
     x_then (case environment_for b j of None \<Rightarrow> x_ret None | Some e \<Rightarrow> image_for b e) (\<lambda>img.
     x_ret (wrapped_command b j (inner_command b j (environment_for b j) img)))"

definition job_request :: "'n ec2 \<Rightarrow> string \<Rightarrow> job \<Rightarrow> string \<Rightarrow> send_params" where
  "job_request b handle j command =
     \<lparr>sp_instance = handle, sp_document = ''AWS-RunShellScript'', sp_commands = [command],
      sp_working_dir = Some (aw_working_dir (eb_aws b)), sp_timeout = show_int (min (run_seconds j) MAX_EXECUTION_TIMEOUT),
      sp_log_group = aw_log_group (eb_aws b), sp_comment = take 100 (''gpu-broker '' @ short_id j @ '' for '' @ j_user j)\<rparr>"

definition sampler_request :: "'n ec2 \<Rightarrow> string \<Rightarrow> job \<Rightarrow> send_params" where
  "sampler_request b handle j =
     \<lparr>sp_instance = handle, sp_document = ''AWS-RunShellScript'',
      sp_commands = [sampler_script (run_seconds j) (eb_sample_interval b)], sp_working_dir = None,
      sp_timeout = show_int (min (run_seconds j) MAX_EXECUTION_TIMEOUT), sp_log_group = aw_log_group (eb_aws b),
      sp_comment = take 100 (''gpu-broker sampler '' @ short_id j)\<rparr>"

definition start_sampler :: "'n ec2 \<Rightarrow> string \<Rightarrow> job \<Rightarrow> ('n ec2_state, string option) ext_op" where
  "start_sampler b handle j = aws (ap_send (eb_api b) (sampler_request b handle j)) (\<lambda>_. x_ret None) (\<lambda>c. x_ret (Some c))"

definition ec2_start :: "'n ec2 \<Rightarrow> string \<Rightarrow> job \<Rightarrow> ('n ec2_state, unit) ext_op" where
  "ec2_start b handle j =
     x_then (command_id_of b handle) (\<lambda>known.
     if truthy known then x_ret ()
     else x_then (ec2_command_for b j) (\<lambda>command.
          aws (ap_send (eb_api b) (job_request b handle j command)) (aws_error (''could not start job on '' @ handle)) (\<lambda>cid.
          x_then (start_sampler b handle j) (\<lambda>sampler.
          x_then (put_tags b handle ((TAG_COMMAND_ID, cid) # (if truthy sampler then [(TAG_SAMPLER_ID, the sampler)] else []))) (\<lambda>_.
          invalidate)))))"

subsection \<open>Watching\<close>

definition SSM_STATUS :: "(string \<times> backend_status) list" where
  "SSM_STATUS =
     [(''Pending'', BS_RUNNING), (''InProgress'', BS_RUNNING), (''Delayed'', BS_RUNNING), (''Success'', BS_COMPLETED),
      (''Cancelled'', BS_FAILED), (''TimedOut'', BS_FAILED), (''Failed'', BS_FAILED), (''Cancelling'', BS_RUNNING),
      (''Undeliverable'', BS_FAILED), (''Terminated'', BS_FAILED)]"

definition ssm_status :: "string \<Rightarrow> backend_status" where
  "ssm_status t = (case map_of SSM_STATUS t of Some s \<Rightarrow> s | None \<Rightarrow> BS_RUNNING)"

definition noticed :: "backend_status \<Rightarrow> string \<Rightarrow> observation" where
  "noticed status detail = \<lparr>os_status = status, os_exit_code = None, os_detail = Some detail\<rparr>"

definition read_invocation :: "invocation \<Rightarrow> observation" where
  "read_invocation v =
     (let status = (case iv_status v of Some t \<Rightarrow> t | None \<Rightarrow> ''InProgress'');
          detail = (if iv_details v \<noteq> [] then iv_details v else status)
      in \<lparr>os_status = ssm_status status,
          os_exit_code = (case iv_code v of Some n \<Rightarrow> if 0 \<le> n then Some n else None | None \<Rightarrow> None),
          os_detail = Some (take 500
            (if ssm_status status = BS_FAILED
             then strip (status @ '': '' @ (if iv_error v \<noteq> [] then iv_error v else detail)) else detail))\<rparr>)"

definition ec2_invocation :: "'n ec2 \<Rightarrow> string \<Rightarrow> string \<Rightarrow> ('n ec2_state, observation) ext_op" where
  "ec2_invocation b handle cid =
     aws (ap_invocation (eb_api b) cid handle)
       (\<lambda>x. if has_code x [''InvocationDoesNotExist'', ''InvalidCommandId'']
            then x_ret (noticed BS_RUNNING ''command dispatching'')
            else aws_error (''could not poll '' @ handle) x)
       (\<lambda>v. x_ret (read_invocation v))"

definition agent_online :: "'n ec2 \<Rightarrow> string \<Rightarrow> ('n ec2_state, bool) ext_op" where
  "agent_online b handle =
     aws (ap_agents (eb_api b) handle)
       (\<lambda>x. x_then (x_set (\<lambda>s. s\<lparr>es_agent_error := Some (if truthy (af_code x) then explain x else af_text x)\<rparr>)) (\<lambda>_. x_ret False))
       (\<lambda>pings. x_then (x_set (\<lambda>s. s\<lparr>es_agent_error := None\<rparr>)) (\<lambda>_. x_ret (''Online'' \<in> set pings)))"

definition seconds_since_launch :: "moment \<Rightarrow> tags \<Rightarrow> pyfloat option" where
  "seconds_since_launch now ts = map_option (\<lambda>t. total_seconds (now - t)) (launched_at_of ts)"

text \<open>What an instance that has gone away means, when its command says nothing.\<close>

definition lost_instance :: "ec2_instance \<Rightarrow> observation" where
  "lost_instance i =
     (if ei_reason i = ''Server.SpotInstanceTermination'' then noticed BS_INTERRUPTED ''spot capacity was reclaimed''
      else if ei_lifecycle i = ''spot''
      then noticed BS_INTERRUPTED (''spot instance '' @ ei_state i @ '' before the job finished'')
      else noticed BS_FAILED (''the instance was '' @ ei_state i @ '' outside the broker before the job '' @
             ''finished. On-demand capacity is not reclaimed, so somebody terminated it''))"

definition agent_missing :: "'n ec2 \<Rightarrow> pyfloat \<Rightarrow> string option \<Rightarrow> observation" where
  "agent_missing b waited last_error =
     noticed BS_FAILED (''the SSM agent never registered after '' @ show_fixed 0 (waited / 60) @ '' minutes. '' @
       ''Check that '' @ or_empty (aw_ami (eb_aws b)) @ '' has the agent and that '' @
       or_empty (aw_instance_profile (eb_aws b)) @ '' grants AmazonSSMManagedInstanceCore.'' @
       (if truthy last_error then '' Last error from SSM: '' @ the last_error @ ''.'' else []))"

definition poll_running :: "'n ec2 \<Rightarrow> string \<Rightarrow> ec2_instance \<Rightarrow> ('n ec2_state, observation) ext_op" where
  "poll_running b handle i =
     (case tag_of i TAG_COMMAND_ID of
        Some cid \<Rightarrow> ec2_invocation b handle cid
      | None \<Rightarrow>
          x_then (agent_online b handle) (\<lambda>online.
          if online then x_ret (noticed BS_READY ''ssm agent registered'')
          else x_then x_now (\<lambda>now. x_then (x_get es_agent_error) (\<lambda>last_error.
               x_ret (case seconds_since_launch now (parse_tags (ei_tags i)) of
                        Some waited \<Rightarrow>
                          if aw_agent_timeout (eb_aws b) < waited then agent_missing b waited last_error
                          else noticed BS_PENDING ''waiting for the ssm agent''
                      | None \<Rightarrow> noticed BS_PENDING ''waiting for the ssm agent'')))))"

definition ec2_poll :: "'n ec2 \<Rightarrow> string \<Rightarrow> ('n ec2_state, observation) ext_op" where
  "ec2_poll b handle =
     x_then (ec2_instance_of b handle) (\<lambda>found.
     case found of
       None \<Rightarrow> x_ret (noticed BS_GONE ''no such instance'')
     | Some i \<Rightarrow>
         (if ei_state i \<in> {''shutting-down'', ''terminated''}
          then
            (case (if truthy (tag_of i TAG_COMMAND_ID) then tag_of i TAG_COMMAND_ID else None) of
               Some cid \<Rightarrow>
                 x_then (ec2_invocation b handle cid) (\<lambda>o'.
                 x_ret (if os_status o' \<in> {BS_COMPLETED, BS_FAILED} then o' else lost_instance i))
             | None \<Rightarrow> x_ret (lost_instance i))
          else if ei_state i \<in> {''stopping'', ''stopped''}
          then x_ret (noticed BS_FAILED (''instance '' @ ei_state i @ ''; it was stopped outside the broker''))
          else if ei_state i = ''pending'' then x_ret (noticed BS_PENDING ''instance booting'')
          else poll_running b handle i))"

subsection \<open>Logs and samples\<close>

definition rstrip_newlines :: "string \<Rightarrow> string" where
  "rstrip_newlines s = rev (dropWhile (\<lambda>c. c = CHR 0x0A) (rev s))"

definition read_stream :: "'n ec2 \<Rightarrow> string \<Rightarrow> string \<Rightarrow> string \<Rightarrow> ('n ec2_state, (string \<times> string) list) ext_op" where
  "read_stream b cid handle stream =
     (let name = command_log_stream cid handle stream
      in x_then (x_get (\<lambda>s. map_of (es_log_tokens s) name)) (\<lambda>token.
         aws (ap_log_events (eb_api b) (aw_log_group (eb_aws b)) name token)
           (\<lambda>x. if has_code x [''ResourceNotFoundException''] then x_ret [] else aws_error (''could not read logs for '' @ handle) x)
           (\<lambda>(events, forward).
              x_then (if truthy forward then x_set (\<lambda>s. s\<lparr>es_log_tokens := AList.update name (the forward) (es_log_tokens s)\<rparr>)
                      else x_ret ()) (\<lambda>_.
              x_ret (map (\<lambda>m. (stream, rstrip_newlines m)) events)))))"

definition lines_of :: "string \<Rightarrow> 'n ec2_state \<Rightarrow> (string \<times> string) list" where
  "lines_of handle s = (case map_of (es_log_lines s) handle of Some ls \<Rightarrow> ls | None \<Rightarrow> [])"

definition add_lines :: "string \<Rightarrow> (string \<times> string) list \<Rightarrow> 'n ec2_state \<Rightarrow> 'n ec2_state" where
  "add_lines handle ls s = s\<lparr>es_log_lines := AList.update handle (lines_of handle s @ ls) (es_log_lines s)\<rparr>"

definition ec2_fetch_logs :: "'n ec2 \<Rightarrow> string \<Rightarrow> nat \<Rightarrow> ('n ec2_state, (string \<times> string) list) ext_op" where
  "ec2_fetch_logs b handle after =
     x_then (command_id_of b handle) (\<lambda>known.
     if \<not> truthy known then x_ret []
     else x_then (read_stream b (the known) handle ''stdout'') (\<lambda>out.
          x_then (x_set (add_lines handle out)) (\<lambda>_.
          x_then (read_stream b (the known) handle ''stderr'') (\<lambda>err.
          x_then (x_set (add_lines handle err)) (\<lambda>_.
          x_get (\<lambda>s. drop after (lines_of handle s)))))))"

fun samples_in :: "(string \<times> string) list \<Rightarrow> (error, utilization_sample list) result" where
  "samples_in [] = Inr []"
| "samples_in (l # ls) =
     (case parse_sample_line (snd l) of
        Inl e \<Rightarrow> Inl e
      | Inr p \<Rightarrow>
          (case samples_in ls of
             Inl e \<Rightarrow> Inl e
           | Inr us \<Rightarrow>
               Inr ((case p of None \<Rightarrow> [] | Some (t, pct, mb) \<Rightarrow> [\<lparr>ut_at = t, ut_gpu_percent = pct, ut_memory_mb = mb\<rparr>]) @ us)))"

definition ec2_sample_utilization :: "'n ec2 \<Rightarrow> string \<Rightarrow> ('n ec2_state, utilization_sample list) ext_op" where
  "ec2_sample_utilization b handle =
     x_then (ec2_instance_of b handle) (\<lambda>found.
     case found of
       None \<Rightarrow> x_ret []
     | Some i \<Rightarrow>
         (if \<not> truthy (tag_of i TAG_SAMPLER_ID) then x_ret []
          else x_then (read_stream b (the (tag_of i TAG_SAMPLER_ID)) handle ''stdout'') (\<lambda>ls. x_of (samples_in ls))))"

subsection \<open>The end, and what there is\<close>

definition ec2_terminate :: "'n ec2 \<Rightarrow> string \<Rightarrow> string \<Rightarrow> ('n ec2_state, unit) ext_op" where
  "ec2_terminate b handle reason =
     x_then (command_id_of b handle) (\<lambda>known.
     x_then (if truthy known then aws (ap_cancel (eb_api b) (the known) handle) (\<lambda>_. x_ret ()) x_ret else x_ret ()) (\<lambda>_.
     aws (ap_terminate (eb_api b) handle False)
       (\<lambda>x. x_then invalidate (\<lambda>_. if has_code x GONE_CODES then x_ret () else aws_error (''could not terminate '' @ handle) x))
       (\<lambda>_. invalidate)))"

definition ec2_validate_terminate :: "'n ec2 \<Rightarrow> string \<Rightarrow> ('n ec2_state, string) ext_op" where
  "ec2_validate_terminate b handle =
     x_then (ec2_instance_of b handle) (\<lambda>found.
     if found = None then x_ret (handle @ '' is already gone'')
     else aws (ap_terminate (eb_api b) handle True)
            (\<lambda>x. if is_dry_run_success x then x_ret (''would terminate '' @ handle)
                 else if has_code x GONE_CODES then x_ret (handle @ '' is already gone'')
                 else aws_error (''would fail to terminate '' @ handle) x)
            (\<lambda>_. x_raise (DRY_RUN_IGNORED ''terminate_instances'')))"

definition coarse_status :: "ec2_instance \<Rightarrow> backend_status" where
  "coarse_status i =
     (if ei_state i = ''pending'' then BS_PENDING
      else if ei_state i \<in> {''stopping'', ''stopped''} then BS_FAILED
      else if truthy (tag_of i TAG_COMMAND_ID) then BS_RUNNING else BS_READY)"

definition gpu_type_of :: "aws_config \<Rightarrow> string \<Rightarrow> string" where
  "gpu_type_of c itype = (case find (\<lambda>(g, mapped). mapped = itype) (aw_instance_types c) of Some (g, _) \<Rightarrow> g | None \<Rightarrow> itype)"

definition ec2_resource :: "aws_config \<Rightarrow> ec2_instance \<Rightarrow> resource" where
  "ec2_resource c i =
     \<lparr>rs_handle = ei_id i, rs_gpu_type = gpu_type_of c (ei_type i), rs_status = coarse_status i, rs_tags = parse_tags (ei_tags i)\<rparr>"

definition ec2_list_resources :: "'n ec2 \<Rightarrow> ('n ec2_state, resource list) ext_op" where
  "ec2_list_resources b = x_then (ec2_instances b) (\<lambda>is. x_ret (map (ec2_resource (eb_aws b)) is))"

definition ec2_backend :: "'n ec2 \<Rightarrow> 'n ec2_state backend" where
  "ec2_backend b =
     \<lparr>bk_name = eb_name b, bk_currency = USD, bk_tier = Some (eb_tier b), bk_supports = ec2_supports b,
      bk_free_slots = ec2_free_slots b, bk_launch = ec2_launch b, bk_start = ec2_start b, bk_poll = ec2_poll b,
      bk_validate_launch = ec2_validate_launch b, bk_fetch_logs = ec2_fetch_logs b, bk_terminate = ec2_terminate b,
      bk_list_resources = ec2_list_resources b, bk_sample_utilization = ec2_sample_utilization b\<rparr>"

end
