(* ===== verification/Ec2Pool.thy ===== *)
theory Ec2Pool
  imports Ec2
begin

text \<open>
  What the EC2 backend promises of the machines it is paid for, given that AWS does what it documents: which
  instances exist and who they belong to, that a job is sent to an instance once, that a pool stays within
  its limit, that spot stands down after refusals, and that a log is read once. Then where it falls short.
\<close>

subsection \<open>An account that does what AWS documents\<close>

definition untouched :: "('n \<Rightarrow> 'v) \<Rightarrow> ('n, 'a) aws_call \<Rightarrow> bool" where
  "untouched v f \<longleftrightarrow> (\<forall>n. v (snd (f n)) = v n)"

definition add_tags :: "tags \<Rightarrow> ec2_instance \<Rightarrow> ec2_instance" where
  "add_tags ts i = i\<lparr>ei_tags := foldl (\<lambda>d (k, v). AList.update k v d) (ei_tags i) ts\<rparr>"

definition tagged :: "ec2_instance \<Rightarrow> bool" where
  "tagged i = (TAG_JOB_ID \<in> fst ` set (ei_tags i))"

text \<open>A listing of the instances that exist and carry the broker's tag.\<close>

definition listing_of :: "(string \<Rightarrow> ec2_instance option) \<Rightarrow> ec2_instance list \<Rightarrow> bool" where
  "listing_of live is \<longleftrightarrow> distinct (map ei_id is) \<and> (\<forall>i. i \<in> set is \<longleftrightarrow> live (ei_id i) = Some i \<and> tagged i)"

text \<open>\<open>live\<close> is the instances that are not terminated, \<open>sent\<close> how many commands were sent to instances. An
  accepted launch adds one instance with the tags and the type of the request, an accepted termination removes
  one, tagging adds the tags; what is refused changes nothing, and a termination is refused as not found only
  for an instance that does not exist; a dry run and a question change nothing. Listings are complete.\<close>

definition runs_ok :: "'n ec2 \<Rightarrow> ('n \<Rightarrow> string \<Rightarrow> ec2_instance option) \<Rightarrow> ('n \<Rightarrow> nat) \<Rightarrow> bool" where
  "runs_ok b live sent \<longleftrightarrow>
     (\<forall>p n i n'. ap_run (eb_api b) p False n = (Inr i, n') \<longrightarrow>
        live n (ei_id i) = None \<and> live n' = (live n)(ei_id i \<mapsto> i) \<and> sent n' = sent n \<and>
        map_of (rp_tag_specs p) ''instance'' = Some (ei_tags i) \<and> ei_type i = rp_instance_type p) \<and>
     (\<forall>p n x n'. ap_run (eb_api b) p False n = (Inl x, n') \<longrightarrow> live n' = live n \<and> sent n' = sent n) \<and>
     (\<forall>p. untouched (\<lambda>n. (live n, sent n)) (ap_run (eb_api b) p True))"

definition ends_ok :: "'n ec2 \<Rightarrow> ('n \<Rightarrow> string \<Rightarrow> ec2_instance option) \<Rightarrow> ('n \<Rightarrow> nat) \<Rightarrow> bool" where
  "ends_ok b live sent \<longleftrightarrow>
     (\<forall>h n n'. ap_terminate (eb_api b) h False n = (Inr (), n') \<longrightarrow> live n' = (live n)(h := None) \<and> sent n' = sent n) \<and>
     (\<forall>h n x n'. ap_terminate (eb_api b) h False n = (Inl x, n') \<longrightarrow>
        live n' = live n \<and> sent n' = sent n \<and> (has_code x GONE_CODES \<longrightarrow> live n h = None)) \<and>
     (\<forall>h. untouched (\<lambda>n. (live n, sent n)) (ap_terminate (eb_api b) h True))"

definition marks_ok :: "'n ec2 \<Rightarrow> ('n \<Rightarrow> string \<Rightarrow> ec2_instance option) \<Rightarrow> ('n \<Rightarrow> nat) \<Rightarrow> bool" where
  "marks_ok b live sent \<longleftrightarrow>
     (\<forall>h ts n n'. ap_create_tags (eb_api b) h ts n = (Inr (), n') \<longrightarrow>
        live n' = (live n)(h := map_option (add_tags ts) (live n h)) \<and> sent n' = sent n) \<and>
     (\<forall>h ts n x n'. ap_create_tags (eb_api b) h ts n = (Inl x, n') \<longrightarrow> live n' = live n \<and> sent n' = sent n) \<and>
     (\<forall>p n. live (snd (ap_send (eb_api b) p n)) = live n) \<and>
     (\<forall>p n c n'. ap_send (eb_api b) p n = (Inr c, n') \<longrightarrow> c \<noteq> [])"

definition looks_ok :: "'n ec2 \<Rightarrow> ('n \<Rightarrow> string \<Rightarrow> ec2_instance option) \<Rightarrow> ('n \<Rightarrow> nat) \<Rightarrow> bool" where
  "looks_ok b live sent \<longleftrightarrow>
     (let api = eb_api b; v = (\<lambda>n. (live n, sent n))
      in untouched v (ap_list api TAG_JOB_ID LIVE_INSTANCE_STATES) \<and> (\<forall>h. untouched v (ap_describe api h)) \<and>
         (\<forall>ts k. untouched v (ap_spot_history api ts k)) \<and> (\<forall>c h. untouched v (ap_cancel api c h)) \<and>
         (\<forall>c h. untouched v (ap_invocation api c h)) \<and> (\<forall>h. untouched v (ap_agents api h)) \<and>
         (\<forall>g s t. untouched v (ap_log_events api g s t)) \<and> (\<forall>r. untouched v (ap_repository api r)) \<and>
         (\<forall>r. untouched v (ap_create_repository api r)) \<and>
         (\<forall>n pages n'. ap_list api TAG_JOB_ID LIVE_INSTANCE_STATES n = (Inr pages, n') \<longrightarrow> listing_of (live n) (concat (concat pages))) \<and>
         (\<forall>n h i. live n h = Some i \<longrightarrow> ei_id i = h \<and> distinct (map fst (ei_tags i))))"

definition faithful_aws :: "'n ec2 \<Rightarrow> ('n \<Rightarrow> string \<Rightarrow> ec2_instance option) \<Rightarrow> ('n \<Rightarrow> nat) \<Rightarrow> bool" where
  "faithful_aws b live sent \<longleftrightarrow> runs_ok b live sent \<and> ends_ok b live sent \<and> marks_ok b live sent \<and> looks_ok b live sent"

text \<open>The cached listing is the one AWS would give: nobody but the broker launches, tags or ends its instances.\<close>

definition cache_ok :: "('n \<Rightarrow> string \<Rightarrow> ec2_instance option) \<Rightarrow> 'n ec2_state \<Rightarrow> bool" where
  "cache_ok live s = (\<forall>is. es_cache s = Some is \<longrightarrow> listing_of (live (es_net s)) is)"

lemma same_cache: "live n = live (es_net s) \<Longrightarrow> cache_ok live (s\<lparr>es_net := n\<rparr>) = cache_ok live s"
  by (simp add: cache_ok_def)

subsection \<open>Operations that only look\<close>

definition steady :: "('n \<Rightarrow> string \<Rightarrow> ec2_instance option) \<Rightarrow> ('n \<Rightarrow> nat) \<Rightarrow> ('n ec2_state, 'a) ext_op \<Rightarrow> bool" where
  "steady live sent m \<longleftrightarrow> (\<forall>v c. keeps (\<lambda>s. cache_ok live s \<and> live (es_net s) = v \<and> sent (es_net s) = c) m)"

named_theorems steady_rules \<open>operations that change no instance and send no command\<close>

lemma steadyD: "steady live sent m \<Longrightarrow> cache_ok live s \<Longrightarrow> m now s = (r, s') \<Longrightarrow>
    cache_ok live s' \<and> live (es_net s') = live (es_net s) \<and> sent (es_net s') = sent (es_net s)"
  unfolding steady_def keeps_def by (metis snd_conv)

lemma steady_basic [steady_rules]:
  "steady live sent (x_ret a)" "steady live sent (x_raise x)" "steady live sent (x_get f)" "steady live sent x_now"
  "steady live sent (x_of q)" "steady live sent invalidate" "steady live sent (aws_error what y)"
  by (auto simp: steady_def invalidate_def cache_ok_def aws_error_def intro: keeps_set)

lemma steady_then [steady_rules]: "steady live sent m \<Longrightarrow> (\<And>a. steady live sent (k a)) \<Longrightarrow> steady live sent (x_then m k)"
  unfolding steady_def by (blast intro: ext_keeps_then)

lemma steady_if [steady_rules]: "steady live sent m \<Longrightarrow> steady live sent n \<Longrightarrow> steady live sent (if c then m else n)"
  by simp

lemma steady_option [steady_rules]:
  "steady live sent m \<Longrightarrow> (\<And>a. steady live sent (k a)) \<Longrightarrow> steady live sent (case x of None \<Rightarrow> m | Some a \<Rightarrow> k a)"
  by (cases x) simp_all

lemma steady_prod [steady_rules]: "(\<And>a c. steady live sent (k a c)) \<Longrightarrow> steady live sent (case x of (a, c) \<Rightarrow> k a c)"
  by (cases x) simp

lemma steady_set [steady_rules]:
  "(\<And>s. es_cache (f s) = es_cache s \<and> es_net (f s) = es_net s) \<Longrightarrow> steady live sent (x_set f)"
  unfolding steady_def cache_ok_def by (auto intro!: keeps_set)

lemma steady_aws [steady_rules]:
  assumes "untouched (\<lambda>n. (live n, sent n)) f" and "\<And>x. steady live sent (h x)" and "\<And>a. steady live sent (k a)"
  shows "steady live sent (aws f h k)"
  unfolding steady_def keeps_def
proof (intro allI impI)
  fix v c now and s :: "'a ec2_state"
  let ?I = "\<lambda>s. cache_ok live s \<and> live (es_net s) = v \<and> sent (es_net s) = c"
  assume i: "?I s"
  obtain r n where f: "f (es_net s) = (r, n)" by fastforce
  have n: "live n = live (es_net s)" "sent n = sent (es_net s)" using assms(1) f unfolding untouched_def by (metis prod.inject snd_conv)+
  then have s: "?I (s\<lparr>es_net := n\<rparr>)" using i by (simp add: same_cache)
  show "?I (snd (aws f h k now s))"
  proof (cases r)
    case (Inl x)
    have "keeps ?I (h x)" using assms(2) by (simp add: steady_def)
    then show ?thesis using s by (simp add: aws_def f Inl keeps_def)
  next
    case (Inr a)
    have "keeps ?I (k a)" using assms(3) by (simp add: steady_def)
    then show ?thesis using s by (simp add: aws_def f Inr keeps_def)
  qed
qed

text \<open>The listing, from the cache or not.\<close>

lemma instances_listed:
  assumes "faithful_aws b live sent" and "cache_ok live s" and "ec2_instances b now s = (r, s')"
  shows "cache_ok live s'" and "live (es_net s') = live (es_net s)" and "sent (es_net s') = sent (es_net s)"
    and "r = Inr vms \<Longrightarrow> listing_of (live (es_net s)) vms" and "es_failures s' = es_failures s"
    and "es_cooling_until s' = es_cooling_until s"
proof -
  let ?list = "ap_list (eb_api b) TAG_JOB_ID LIVE_INSTANCE_STATES"
  have u: "untouched (\<lambda>n. (live n, sent n)) ?list"
    and full: "\<And>n pages n'. ?list n = (Inr pages, n') \<Longrightarrow> listing_of (live n) (concat (concat pages))"
    using assms(1) unfolding faithful_aws_def looks_ok_def Let_def by blast+
  have "cache_ok live s' \<and> live (es_net s') = live (es_net s) \<and> sent (es_net s') = sent (es_net s) \<and>
      (\<forall>vms. r = Inr vms \<longrightarrow> listing_of (live (es_net s)) vms) \<and> es_failures s' = es_failures s \<and> es_cooling_until s' = es_cooling_until s"
  proof (cases "cache_fresh b now s")
    case (Some vms)
    then have "es_cache s = Some vms" by (auto simp: cache_fresh_def split: option.splits if_splits)
    moreover have "r = Inr vms \<and> s' = s" using assms(3) Some by (simp add: ec2_instances_def x_then_def x_now_def x_get_def x_ret_def)
    ultimately show ?thesis using assms(2) by (auto simp: cache_ok_def)
  next
    case None
    obtain q n where q: "?list (es_net s) = (q, n)" by fastforce
    have n: "live n = live (es_net s)" "sent n = sent (es_net s)" using u q unfolding untouched_def by (metis prod.inject snd_conv)+
    show ?thesis
    proof (cases q)
      case (Inl x)
      then have "\<exists>e. r = Inl e" "s' = s\<lparr>es_net := n\<rparr>" using assms(3) None q
        by (auto simp: ec2_instances_def x_then_def x_now_def x_get_def aws_def aws_error_def x_raise_def)
      then show ?thesis using assms(2) n by (auto simp: cache_ok_def)
    next
      case (Inr pages)
      then have "r = Inr (concat (concat pages))" "s' = s\<lparr>es_net := n, es_cache := Some (concat (concat pages)), es_cached_at := Some now\<rparr>"
        using assms(3) None q by (auto simp: ec2_instances_def x_then_def x_now_def x_get_def aws_def x_set_def x_ret_def)
      then show ?thesis using full q Inr n by (auto simp: cache_ok_def)
    qed
  qed
  then show "cache_ok live s'" and "live (es_net s') = live (es_net s)" and "sent (es_net s') = sent (es_net s)"
    and "r = Inr vms \<Longrightarrow> listing_of (live (es_net s)) vms" and "es_failures s' = es_failures s"
    and "es_cooling_until s' = es_cooling_until s" by blast+
qed

lemma steady_instances [steady_rules]: "faithful_aws b live sent \<Longrightarrow> steady live sent (ec2_instances b)"
  unfolding steady_def keeps_def
proof (intro allI impI)
  fix v c now s assume "faithful_aws b live sent" and i: "cache_ok live s \<and> live (es_net s) = v \<and> sent (es_net s) = c"
  then show "cache_ok live (snd (ec2_instances b now s)) \<and> live (es_net (snd (ec2_instances b now s))) = v \<and>
      sent (es_net (snd (ec2_instances b now s))) = c"
    using instances_listed(1-3) [of b live sent s now "fst (ec2_instances b now s)" "snd (ec2_instances b now s)"] by simp
qed

lemma looks:
  assumes "faithful_aws b live sent"
  shows "untouched (\<lambda>n. (live n, sent n)) (ap_describe (eb_api b) h)" "untouched (\<lambda>n. (live n, sent n)) (ap_spot_history (eb_api b) ts k)"
    "untouched (\<lambda>n. (live n, sent n)) (ap_cancel (eb_api b) c h)" "untouched (\<lambda>n. (live n, sent n)) (ap_invocation (eb_api b) c h)"
    "untouched (\<lambda>n. (live n, sent n)) (ap_agents (eb_api b) h)" "untouched (\<lambda>n. (live n, sent n)) (ap_log_events (eb_api b) g str t)"
    "untouched (\<lambda>n. (live n, sent n)) (ap_repository (eb_api b) r)" "untouched (\<lambda>n. (live n, sent n)) (ap_create_repository (eb_api b) r)"
    "untouched (\<lambda>n. (live n, sent n)) (ap_run (eb_api b) p True)" "untouched (\<lambda>n. (live n, sent n)) (ap_terminate (eb_api b) h True)"
  using assms unfolding faithful_aws_def looks_ok_def runs_ok_def ends_ok_def Let_def by simp_all

lemma steady_reading:
  assumes "faithful_aws b live sent"
  shows "steady live sent (describe_one b h)" and steady_find: "steady live sent (ec2_instance_of b h)"
    and steady_command: "steady live sent (command_id_of b h)" and "steady live sent (cheapest_type b gpu)"
    and "steady live sent (read_stream b cid h str)" and "steady live sent (ec2_invocation b h cid)" and "steady live sent (agent_online b h)"
    and "steady live sent (repository_uri b)"
proof -
  note rules = steady_rules looks [OF assms] steady_instances [OF assms]
  show d: "steady live sent (describe_one b h)" for h unfolding describe_one_def by (intro rules)
  show f: "steady live sent (ec2_instance_of b h)" for h unfolding ec2_instance_of_def by (intro rules d)
  show "steady live sent (command_id_of b h)" unfolding command_id_of_def by (intro rules f)
  show "steady live sent (cheapest_type b gpu)" unfolding cheapest_type_def Let_def by (intro rules)
  show "steady live sent (read_stream b cid h str)" unfolding read_stream_def Let_def by (intro rules) simp
  show "steady live sent (ec2_invocation b h cid)" unfolding ec2_invocation_def by (intro rules)
  show "steady live sent (agent_online b h)" unfolding agent_online_def by (intro rules) simp_all
  show "steady live sent (repository_uri b)" unfolding repository_uri_def Let_def by (intro rules) simp_all
qed

lemma steady_operations:
  assumes "faithful_aws b live sent"
  shows steady_slots: "steady live sent (ec2_free_slots b gpu)" and steady_guard: "steady live sent (guard_capacity b j)"
    and steady_params: "steady live sent (run_params_for b j)" and steady_script: "steady live sent (ec2_command_for b j)"
    and steady_poll: "steady live sent (ec2_poll b h)" and steady_logs: "steady live sent (ec2_fetch_logs b h after)"
    and steady_samples: "steady live sent (ec2_sample_utilization b h)" and steady_list: "steady live sent (ec2_list_resources b)"
    and steady_dry_launch: "steady live sent (ec2_validate_launch b j)"
    and steady_dry_end: "steady live sent (ec2_validate_terminate b h)"
proof -
  note rules = steady_rules looks [OF assms] steady_instances [OF assms] steady_reading [OF assms]
  show f: "steady live sent (ec2_free_slots b gpu)" for gpu
    unfolding ec2_free_slots_def by (intro rules) (simp add: cooled_off_def split: option.splits)
  show g: "steady live sent (guard_capacity b j)" unfolding guard_capacity_def by (intro rules f)
  show p: "steady live sent (run_params_for b j)" unfolding run_params_for_def by (intro rules)
  have i: "steady live sent (image_for b e)" for e unfolding image_for_def by (intro rules)
  show "steady live sent (ec2_command_for b j)" unfolding ec2_command_for_def by (intro rules i)
  have r: "steady live sent (poll_running b h i)" for i unfolding poll_running_def by (intro rules)
  show "steady live sent (ec2_poll b h)" unfolding ec2_poll_def by (intro rules r)
  show "steady live sent (ec2_fetch_logs b h after)" unfolding ec2_fetch_logs_def by (intro rules) (simp_all add: add_lines_def)
  show "steady live sent (ec2_sample_utilization b h)" unfolding ec2_sample_utilization_def by (intro rules)
  show "steady live sent (ec2_list_resources b)" unfolding ec2_list_resources_def by (intro rules)
  show "steady live sent (ec2_validate_launch b j)" unfolding ec2_validate_launch_def by (intro rules g p)
  show "steady live sent (ec2_validate_terminate b h)" unfolding ec2_validate_terminate_def by (intro rules)
qed

subsection \<open>Machines and their owners\<close>

definition owner :: "ec2_instance \<Rightarrow> (string option \<times> string option) option" where
  "owner i = (if tagged i then Some (tag_of i TAG_JOB_ID, tag_of i TAG_USER) else None)"

definition ec2_held ::
  "('n \<Rightarrow> string \<Rightarrow> ec2_instance option) \<Rightarrow> 'n ec2_state \<Rightarrow> string \<Rightarrow> (string option \<times> string option) option"
where
  "ec2_held live s h = Option.bind (live (es_net s) h) owner"

lemma steady_held: "steady live sent m \<Longrightarrow> cache_ok live s \<Longrightarrow> m now s = (r, s') \<Longrightarrow> cache_ok live s' \<and> ec2_held live s' = ec2_held live s"
  using steadyD by (fastforce simp: ec2_held_def)

text \<open>Tags of a list are those of its dictionary.\<close>

lemma dict_of_pairs: "map_of (foldl (\<lambda>d (k, v). AList.update k v d) d raw) = map_of d ++ map_of (rev raw)"
  by (induction raw arbitrary: d) (auto simp: update_conv' fun_eq_iff map_add_def split: option.splits)

lemma dict_keys: "fst ` set (foldl (\<lambda>d (k, v). AList.update k v d) d raw) = fst ` set d \<union> fst ` set raw"
proof (induction raw arbitrary: d)
  case (Cons kv raw)
  obtain k v where kv: "kv = (k, v)" by fastforce
  show ?case using Cons [of "AList.update k v d"] by (simp add: kv dom_update insert_commute)
qed simp

lemma dict_distinct: "distinct (map fst d) \<Longrightarrow> distinct (map fst (foldl (\<lambda>d (k, v). AList.update k v d) d raw))"
  by (induction raw arbitrary: d) (auto simp: distinct_update)

lemma tagged_add: "tagged i \<Longrightarrow> tagged (add_tags ts i)"
  by (simp add: tagged_def add_tags_def dict_keys)

lemma same_lookup: "distinct (map fst xs) \<Longrightarrow> map_of (rev xs) = map_of xs"
  by (rule map_of_eqI) (auto simp: rev_map [symmetric] intro!: map_of_is_SomeI dest: map_of_SomeD)

lemma tag_of_map: "tag_of i k = map_of (rev (ei_tags i)) k"
  by (simp add: tag_of_def parse_tags_def dict_of_pairs)

lemma launched_tags:
  "parse_tags (tags_for j t) = tags_for j t" "map_of (rev (tags_for j t)) = map_of (tags_for j t)"
  by (simp_all add: tags_for_def parse_tags_def fun_eq_iff)

lemma owner_of_launch: "ei_tags i = tags_for j t \<Longrightarrow> owner i = Some (Some (j_id j), Some (j_user j))"
  by (simp add: owner_def tagged_def tag_of_map launched_tags TAG_JOB_ID_def TAG_USER_def) (simp add: tags_for_def)

lemma owner_kept:
  assumes "TAG_JOB_ID \<notin> fst ` set ts" and "TAG_USER \<notin> fst ` set ts" and "distinct (map fst (ei_tags i))"
  shows "owner (add_tags ts i) = owner i"
proof -
  have t: "tag_of (add_tags ts i) k = tag_of i k" if "k \<notin> fst ` set ts" for k
  proof -
    let ?d = "foldl (\<lambda>d (k, v). AList.update k v d) (ei_tags i) ts"
    have "distinct (map fst ?d)" by (rule dict_distinct [OF assms(3)])
    then have "map_of (rev ?d) k = map_of ?d k" by (simp add: same_lookup)
    also have "\<dots> = map_of (ei_tags i) k"
    proof -
      have "map_of (rev ts) k = None" using that by (simp add: map_of_eq_None_iff)
      then show ?thesis by (simp add: dict_of_pairs map_add_def)
    qed
    also have "\<dots> = map_of (rev (ei_tags i)) k" using assms(3) by (simp add: same_lookup)
    finally show ?thesis by (simp add: tag_of_map add_tags_def)
  qed
  have "tagged (add_tags ts i) = tagged i" using assms(1) by (auto simp: tagged_def add_tags_def dict_keys)
  then show ?thesis using t assms(1,2) by (simp add: owner_def)
qed

text \<open>Launching.\<close>

lemma launch_request:
  assumes "run_params_for b j now s = (Inr p, s')"
  shows "map_of (rp_tag_specs p) ''instance'' = Some (tags_for j (to_iso now)) \<and>
    (\<not> eb_spot b \<longrightarrow> instance_type_for (eb_aws b) (j_gpu_type j) = Inr (rp_instance_type p))"
  using assms by (auto simp: run_params_for_def run_request_def Let_def x_simps split: if_splits)

lemma ec2_launch_cases:
  assumes "faithful_aws b live sent" and "cache_ok live s" and "ec2_launch b j now s = (r, s')"
  shows "case r of
      Inr a \<Rightarrow> cache_ok live s' \<and> live (es_net s) (al_handle a) = None \<and>
        (\<exists>i s1. guard_capacity b j now s = (Inr (), s1) \<and> live (es_net s') = (live (es_net s))(al_handle a \<mapsto> i) \<and>
           ei_tags i = tags_for j (to_iso now) \<and> (\<not> eb_spot b \<longrightarrow> instance_type_for (eb_aws b) (j_gpu_type j) = Inr (ei_type i)))
    | Inl x \<Rightarrow> cache_ok live s' \<and> live (es_net s') = live (es_net s)"
proof -
  obtain g s1 where g: "guard_capacity b j now s = (g, s1)" by fastforce
  note s1 = steadyD [OF steady_guard [OF assms(1)] assms(2) g]
  show ?thesis
  proof (cases g)
    case (Inl x)
    then have "r = Inl x \<and> s' = s1" using assms(3) g by (simp add: ec2_launch_def x_then_def)
    then show ?thesis using s1 by simp
  next
    case (Inr u)
    obtain q s2 where q: "run_params_for b j now s1 = (q, s2)" by fastforce
    note s2 = steadyD [OF steady_params [OF assms(1)] conjunct1 [OF s1] q]
    show ?thesis
    proof (cases q)
      case (Inl x)
      then have "r = Inl x \<and> s' = s2" using assms(3) g q \<open>g = Inr u\<close> by (simp add: ec2_launch_def x_then_def)
      then show ?thesis using s1 s2 by simp
    next
      case (Inr p)
      obtain z n where z: "ap_run (eb_api b) p False (es_net s2) = (z, n)" by fastforce
      have runs: "z = Inr i \<Longrightarrow> live (es_net s2) (ei_id i) = None \<and> live n = (live (es_net s2))(ei_id i \<mapsto> i) \<and>
          map_of (rp_tag_specs p) ''instance'' = Some (ei_tags i) \<and> ei_type i = rp_instance_type p"
        "z = Inl x \<Longrightarrow> live n = live (es_net s2)" for i x
        using assms(1) z unfolding faithful_aws_def runs_ok_def by blast+
      show ?thesis
      proof (cases z)
        case (Inl x)
        have rest: "(r, s') = x_then (note_failure b) (\<lambda>_. aws_error (''could not launch '' @ j_gpu_type j) x) now (s2\<lparr>es_net := n\<rparr>)"
          using assms(3) g q z \<open>g = Inr u\<close> \<open>q = Inr p\<close> Inl by (simp add: ec2_launch_def x_then_def aws_def)
        have quiet: "steady live sent (x_then (note_failure b) (\<lambda>_. aws_error (''could not launch '' @ j_gpu_type j) x :: ('a ec2_state, allocation) ext_op))"
          unfolding note_failure_def by (intro steady_rules) (simp add: Let_def)
        have ok: "cache_ok live (s2\<lparr>es_net := n\<rparr>)" using s2 runs(2) [OF Inl] by (simp add: same_cache)
        have "cache_ok live s' \<and> live (es_net s') = live (es_net s)"
          using steadyD [OF quiet ok rest [symmetric]] runs(2) [OF Inl] s1 s2 by simp
        moreover have "\<exists>e. r = Inl e"
          using rest by (auto simp: x_then_def aws_error_def x_raise_def split: prod.splits sum.splits)
        ultimately show ?thesis by auto
      next
        case (Inr i)
        then have "al_handle a = ei_id i \<and> live (es_net s') = live n \<and> es_cache s' = None" if "r = Inr a" for a
          using assms(3) g q z \<open>g = Inr u\<close> \<open>q = Inr p\<close> that
          by (auto simp: ec2_launch_def x_then_def aws_def x_set_def invalidate_def x_ret_def)
        moreover have "\<exists>a. r = Inr a"
          using assms(3) g q z \<open>g = Inr u\<close> \<open>q = Inr p\<close> Inr
          by (auto simp: ec2_launch_def x_then_def aws_def x_set_def invalidate_def x_ret_def)
        ultimately obtain a where "r = Inr a" "al_handle a = ei_id i" "live (es_net s') = live n" "es_cache s' = None" by blast
        then show ?thesis using runs(1) [OF Inr] launch_request [OF q [unfolded \<open>q = Inr p\<close>]] s1 s2 g \<open>g = Inr u\<close>
          by (auto simp: cache_ok_def)
      qed
    qed
  qed
qed

text \<open>Ending.\<close>

lemma ec2_terminate_cases:
  assumes "faithful_aws b live sent" and "cache_ok live s" and "ec2_terminate b h why now s = (r, s')"
  shows "cache_ok live s' \<and> ec2_held live s' = (case r of Inr _ \<Rightarrow> (ec2_held live s)(h := None) | Inl _ \<Rightarrow> ec2_held live s)"
proof -
  obtain c s1 where c: "command_id_of b h now s = (c, s1)" by fastforce
  note s1 = steadyD [OF steady_command [OF assms(1)] assms(2) c]
  show ?thesis
  proof (cases c)
    case (Inl x)
    then have "r = Inl x \<and> s' = s1" using assms(3) c by (simp add: ec2_terminate_def x_then_def)
    then show ?thesis using s1 by (simp add: ec2_held_def fun_eq_iff)
  next
    case (Inr known)
    let ?stop = "if truthy known then aws (ap_cancel (eb_api b) (the known) h) (\<lambda>_. x_ret ()) x_ret else x_ret ()"
    obtain q s2 where q: "?stop now s1 = (q, s2)" by fastforce
    have "steady live sent ?stop" by (intro steady_rules looks [OF assms(1)])
    note s2 = steadyD [OF this conjunct1 [OF s1] q]
    have "q = Inr ()" using q by (auto simp: aws_def x_ret_def split: if_splits prod.splits sum.splits)
    obtain z n where z: "ap_terminate (eb_api b) h False (es_net s2) = (z, n)" by fastforce
    have ends: "z = Inr () \<Longrightarrow> live n = (live (es_net s2))(h := None)"
      "z = Inl x \<Longrightarrow> live n = live (es_net s2) \<and> (has_code x GONE_CODES \<longrightarrow> live (es_net s2) h = None)" for x
      using assms(1) z unfolding faithful_aws_def ends_ok_def by blast+
    have rest: "(r, s') = (case z of
        Inl x \<Rightarrow> (if has_code x GONE_CODES then Inr () else Inl (BackendError ((''could not terminate '' @ h) @ '': '' @ explain x)))
      | Inr _ \<Rightarrow> Inr (), s2\<lparr>es_net := n, es_cache := None, es_cached_at := None\<rparr>)"
      using assms(3) c q z Inr \<open>q = Inr ()\<close>
      by (auto simp: ec2_terminate_def x_then_def aws_def invalidate_def x_set_def x_ret_def aws_error_def x_raise_def split: sum.splits)
    show ?thesis
    proof (cases z)
      case (Inl x)
      then show ?thesis using rest ends(2) [OF Inl] s1 s2 by (auto simp: cache_ok_def ec2_held_def fun_eq_iff)
    next
      case (Inr u)
      then show ?thesis using rest ends(1) s1 s2 by (auto simp: cache_ok_def ec2_held_def fun_eq_iff)
    qed
  qed
qed

text \<open>Starting.\<close>

lemma aws_facts:
  assumes "faithful_aws b live sent"
  shows "live n h = Some i \<Longrightarrow> ei_id i = h" and "live n h = Some i \<Longrightarrow> distinct (map fst (ei_tags i))"
    and "live (snd (ap_send (eb_api b) p n)) = live n"
  using assms unfolding faithful_aws_def looks_ok_def marks_ok_def Let_def by simp_all

lemma sent_id: "faithful_aws b live sent \<Longrightarrow> ap_send (eb_api b) p n = (Inr c, n') \<Longrightarrow> c \<noteq> []"
  unfolding faithful_aws_def marks_ok_def by blast

lemma find_listed:
  assumes "listing_of live vms" and "live h = Some i" and "ei_id i = h" and "tagged i"
  shows "find (\<lambda>x. ei_id x = h) vms = Some i"
proof -
  have "i \<in> set vms" using assms by (simp add: listing_of_def)
  then obtain x where x: "find (\<lambda>x. ei_id x = h) vms = Some x" using assms(3) by (metis (mono_tags, lifting) find_None_iff option.exhaust)
  then have "x \<in> set vms" "ei_id x = h" by (auto simp: find_Some_iff)
  then have "live h = Some x" using assms(1) by (auto simp: listing_of_def)
  then show ?thesis using x assms(2) by simp
qed

lemma command_of_live:
  assumes "faithful_aws b live sent" and "cache_ok live s" and "live (es_net s) h = Some i" and "tagged i"
    and "command_id_of b h now s = (Inr c, s')"
  shows "c = tag_of i TAG_COMMAND_ID"
proof -
  obtain vms s1 where l: "ec2_instances b now s = (Inr vms, s1)"
    and k: "(case find (\<lambda>i. ei_id i = h) vms of Some i \<Rightarrow> x_ret (Some i) | None \<Rightarrow> describe_one b h) now s1 = (Inr x, s')
      \<Longrightarrow> c = (case x of None \<Rightarrow> None | Some i \<Rightarrow> tag_of i TAG_COMMAND_ID)" for x
    using assms(5) by (auto simp: command_id_of_def ec2_instance_of_def x_simps)
  have "listing_of (live (es_net s)) vms" using instances_listed(4) [OF assms(1,2) l] by simp
  then have f: "find (\<lambda>x. ei_id x = h) vms = Some i" by (rule find_listed) (use assms(3,4) aws_facts(1) [OF assms(1)] in auto)
  then have "s' = s1 \<and> c = tag_of i TAG_COMMAND_ID" using assms(5) l
    by (auto simp: command_id_of_def ec2_instance_of_def x_then_def x_ret_def)
  then show ?thesis by blast
qed

lemma put_tags_cases:
  assumes "faithful_aws b live sent" and "cache_ok live s" and "put_tags b h ts now s = (r, s1)"
  shows "case r of
      Inr _ \<Rightarrow> live (es_net s1) = (live (es_net s))(h := map_option (add_tags ts) (live (es_net s) h))
    | Inl _ \<Rightarrow> cache_ok live s1 \<and> live (es_net s1) = live (es_net s)"
proof -
  obtain z n where z: "ap_create_tags (eb_api b) h ts (es_net s) = (z, n)" by fastforce
  have marks: "z = Inr () \<Longrightarrow> live n = (live (es_net s))(h := map_option (add_tags ts) (live (es_net s) h))"
    "z = Inl x \<Longrightarrow> live n = live (es_net s)" for x
    using assms(1) z unfolding faithful_aws_def marks_ok_def by blast+
  show ?thesis using assms(2,3) z marks
    by (cases z) (auto simp: put_tags_def aws_def aws_error_def x_raise_def x_ret_def same_cache)
qed

text \<open>What a start has done: nothing to any instance, or it sent a command and tagged the instance with it.\<close>

lemma ec2_start_cases:
  assumes "faithful_aws b live sent" and "cache_ok live s" and "ec2_start b h j now s = (r, s')"
  shows "cache_ok live s' \<and>
    ((\<exists>cid ts. cid \<noteq> [] \<and> set (map fst ts) \<subseteq> {TAG_SAMPLER_ID} \<and>
        live (es_net s') = (live (es_net s))(h := map_option (add_tags ((TAG_COMMAND_ID, cid) # ts)) (live (es_net s) h))) \<or>
     live (es_net s') = live (es_net s) \<and> (r = Inr () \<longrightarrow> (\<exists>c s1. command_id_of b h now s = (Inr c, s1) \<and> truthy c)))"
proof -
  obtain c s1 where c: "command_id_of b h now s = (c, s1)" by fastforce
  note s1 = steadyD [OF steady_command [OF assms(1)] assms(2) c]
  show ?thesis
  proof (cases "\<exists>known. c = Inr known \<and> \<not> truthy known")
    case False
    then have "s' = s1 \<and> (r = Inr () \<longrightarrow> (\<exists>known. c = Inr known \<and> truthy known))" using assms(3) c
      by (cases c) (auto simp: ec2_start_def x_then_def x_ret_def)
    then show ?thesis using s1 c by auto
  next
    case True
    then obtain known where known: "c = Inr known" "\<not> truthy known" by blast
    obtain q s2 where q: "ec2_command_for b j now s1 = (q, s2)" by fastforce
    note s2 = steadyD [OF steady_script [OF assms(1)] conjunct1 [OF s1] q]
    show ?thesis
    proof (cases q)
      case (Inl x)
      then have "r = Inl x \<and> s' = s2" using assms(3) c q known by (simp add: ec2_start_def x_then_def)
      then show ?thesis using s1 s2 by simp
    next
      case (Inr command)
      let ?send = "ap_send (eb_api b) (job_request b h j command)"
      obtain z n where z: "?send (es_net s2) = (z, n)" by fastforce
      have n: "live n = live (es_net s2)" using aws_facts(3) [OF assms(1), of "job_request b h j command" "es_net s2"] z by simp
      then have ok: "cache_ok live (s2\<lparr>es_net := n\<rparr>)" using s2 by (simp add: same_cache)
      show ?thesis
      proof (cases z)
        case (Inl x)
        then have "(\<exists>e. r = Inl e) \<and> s' = s2\<lparr>es_net := n\<rparr>" using assms(3) c q known z \<open>q = Inr command\<close>
          by (auto simp: ec2_start_def x_then_def aws_def aws_error_def x_raise_def)
        then show ?thesis using s1 s2 n ok by auto
      next
        case (Inr cid)
        have cid: "cid \<noteq> []" using sent_id [OF assms(1)] z Inr by blast
        obtain y n2 where y: "ap_send (eb_api b) (sampler_request b h j) n = (y, n2)" by fastforce
        have n2: "live n2 = live n" using aws_facts(3) [OF assms(1), of "sampler_request b h j" n] y by simp
        define smp where "smp = (case y of Inl _ \<Rightarrow> None | Inr c \<Rightarrow> Some c)"
        have smp: "start_sampler b h j now (s2\<lparr>es_net := n\<rparr>) = (Inr smp, s2\<lparr>es_net := n2\<rparr>)"
          using y by (cases y) (simp_all add: start_sampler_def aws_def x_ret_def smp_def)
        let ?ts = "if truthy smp then [(TAG_SAMPLER_ID, the smp)] else []"
        obtain t s3 where t: "put_tags b h ((TAG_COMMAND_ID, cid) # ?ts) now (s2\<lparr>es_net := n2\<rparr>) = (t, s3)" by fastforce
        have ok2: "cache_ok live (s2\<lparr>es_net := n2\<rparr>)" using s2 n n2 by (simp add: same_cache)
        note put = put_tags_cases [OF assms(1) ok2 t]
        have rest: "(r, s') = (case t of Inl x \<Rightarrow> (Inl x, s3) | Inr _ \<Rightarrow> invalidate now s3)"
          using assms(3) c q known z \<open>q = Inr command\<close> Inr smp t
          by (simp add: ec2_start_def x_then_def aws_def split: sum.splits)
        show ?thesis
        proof (cases t)
          case (Inl x)
          then show ?thesis using rest put s1 s2 n n2 by simp
        next
          case (Inr u)
          then have "s' = s3\<lparr>es_cache := None, es_cached_at := None\<rparr>" using rest by (simp add: invalidate_def x_set_def)
          then have "cache_ok live s' \<and> live (es_net s') = (live (es_net s))(h := map_option (add_tags ((TAG_COMMAND_ID, cid) # ?ts)) (live (es_net s) h))"
            using put Inr s1 s2 n n2 by (simp add: cache_ok_def)
          moreover have "set (map fst ?ts) \<subseteq> {TAG_SAMPLER_ID}" by auto
          ultimately show ?thesis using cid by blast
        qed
      qed
    qed
  qed
qed

lemma listed_owners:
  assumes "listing_of live vms" and "\<And>h i. live h = Some i \<Longrightarrow> ei_id i = h"
  shows "distinct (map rs_handle (map (ec2_resource c) vms)) \<and>
    map_of (map (\<lambda>i. (rs_handle (ec2_resource c i), (rs_job_id (ec2_resource c i), rs_user_id (ec2_resource c i)))) vms) h =
      Option.bind (live h) owner"
proof -
  let ?f = "\<lambda>i. (rs_handle (ec2_resource c i), (rs_job_id (ec2_resource c i), rs_user_id (ec2_resource c i)))"
  have f: "?f i = (ei_id i, (tag_of i TAG_JOB_ID, tag_of i TAG_USER))" for i
    by (simp add: ec2_resource_def rs_job_id_def rs_user_id_def tag_of_def TAG_JOB_ID_def TAG_USER_def)
  have d: "distinct (map ei_id vms)" and m: "\<And>i. i \<in> set vms \<longleftrightarrow> live (ei_id i) = Some i \<and> tagged i"
    using assms(1) by (simp_all add: listing_of_def)
  have "map_of (map ?f vms) h = Option.bind (live h) owner"
  proof (cases "\<exists>i\<in>set vms. ei_id i = h")
    case True
    then obtain i where i: "i \<in> set vms" "ei_id i = h" by blast
    then have "(h, (tag_of i TAG_JOB_ID, tag_of i TAG_USER)) \<in> set (map ?f vms)" by (force simp: f)
    moreover have "distinct (map fst (map ?f vms))" using d by (simp add: f comp_def)
    ultimately have "map_of (map ?f vms) h = Some (tag_of i TAG_JOB_ID, tag_of i TAG_USER)" by (simp add: map_of_is_SomeI)
    then show ?thesis using m i by (auto simp: owner_def)
  next
    case False
    then have "map_of (map ?f vms) h = None" by (auto simp: map_of_eq_None_iff f)
    then show ?thesis using False m assms(2) by (cases "live h") (auto simp: owner_def)
  qed
  then show ?thesis using d by (simp add: ec2_resource_def comp_def)
qed

lemma start_keeps_owner:
  assumes "faithful_aws b live sent" and "cache_ok live s" and "ec2_start b h j now s = (r, s')"
  shows "cache_ok live s' \<and> ec2_held live s' = ec2_held live s"
proof -
  note start = ec2_start_cases [OF assms]
  have "ec2_held live s' = ec2_held live s"
    if cid: "cid \<noteq> []" "set (map fst ts) \<subseteq> {TAG_SAMPLER_ID}"
      "live (es_net s') = (live (es_net s))(h := map_option (add_tags ((TAG_COMMAND_ID, cid) # ts)) (live (es_net s) h))" for cid ts
  proof (rule ext)
    fix k
    let ?ts = "(TAG_COMMAND_ID, cid) # ts"
    have "TAG_JOB_ID \<notin> fst ` set ?ts" "TAG_USER \<notin> fst ` set ?ts"
      using cid(2) by (auto simp: TAG_JOB_ID_def TAG_USER_def TAG_COMMAND_ID_def TAG_SAMPLER_ID_def)
    then have "owner (add_tags ?ts i) = owner i" if "live (es_net s) h = Some i" for i
      by (rule owner_kept) (rule aws_facts(2) [OF assms(1) that])
    then show "ec2_held live s' k = ec2_held live s k" unfolding ec2_held_def cid(3)
      by (cases "k = h"; cases "live (es_net s) h") simp_all
  qed
  moreover have "ec2_held live s' = ec2_held live s" if "live (es_net s') = live (es_net s)" using that by (simp add: ec2_held_def fun_eq_iff)
  ultimately show ?thesis using start by blast
qed

lemma command_tag_after:
  assumes "distinct (map fst (ei_tags i))" and "set (map fst ts) \<subseteq> {TAG_SAMPLER_ID}"
  shows "tag_of (add_tags ((TAG_COMMAND_ID, cid) # ts) i) TAG_COMMAND_ID = Some cid"
proof -
  let ?ts = "(TAG_COMMAND_ID, cid) # ts"
  let ?d = "foldl (\<lambda>d (k, v). AList.update k v d) (ei_tags i) ?ts"
  have "distinct (map fst ?d)" by (rule dict_distinct [OF assms(1)])
  then have "map_of (rev ?d) TAG_COMMAND_ID = map_of ?d TAG_COMMAND_ID" by (simp only: same_lookup)
  also have "\<dots> = (map_of (ei_tags i) ++ map_of (rev ?ts)) TAG_COMMAND_ID" by (simp only: dict_of_pairs)
  also have "\<dots> = Some cid"
  proof -
    have "TAG_COMMAND_ID \<notin> fst ` set (rev ts)" using assms(2) by (auto simp: TAG_COMMAND_ID_def TAG_SAMPLER_ID_def)
    then have "map_of (rev ts) TAG_COMMAND_ID = None" by (simp add: map_of_eq_None_iff)
    then show ?thesis by (simp add: map_add_def)
  qed
  finally show ?thesis by (simp add: tag_of_map add_tags_def)
qed



end
