(* ===== verification/Ec2Limits.thy ===== *)
theory Ec2Limits
  imports Ec2Pool
begin

text \<open>
  The limits of the EC2 backend: how many instances a type may have, when spot stands down, and how often a line of
  a log is handed out. Then the cases in which \<^verbatim>\<open>backends/ec2.py\<close> does not do what its comments say, and an
  account on which the theorems about EC2 are applied.
\<close>

subsection \<open>The limit of a type\<close>

lemma free_slots_counted:
  assumes "faithful_aws b live sent" and "cache_ok live s" and "ec2_free_slots b gpu now s = (Inr k, s')" and "0 < k"
  shows "\<exists>itype vms. instance_type_for (eb_aws b) gpu = Inr itype \<and> listing_of (live (es_net s)) vms \<and>
    int (length (filter (\<lambda>i. ei_type i = itype) vms)) + k = ec2_limit b gpu"
proof -
  have sup: "ec2_supports b gpu" using assms(3,4) by (cases "ec2_supports b gpu") (simp_all add: ec2_free_slots_def x_ret_def)
  have "\<not> cooling now s" using assms(3,4) sup
    by (auto simp: ec2_free_slots_def x_then_def x_now_def x_get_def x_ret_def split: if_splits)
  then obtain itype vms s1 where t: "instance_type_for (eb_aws b) gpu = Inr itype" and l: "ec2_instances b now (cooled_off s) = (Inr vms, s1)"
    and k: "k = max 0 (ec2_limit b gpu - int (length (filter (\<lambda>i. ei_type i = itype) vms)))"
    using assms(3) sup by (auto simp: ec2_free_slots_def x_simps)
  have "cache_ok live (cooled_off s)" "es_net (cooled_off s) = es_net s"
    using assms(2) by (simp_all add: cooled_off_def cache_ok_def split: option.splits)
  then have "listing_of (live (es_net s)) vms" using instances_listed(4) [OF assms(1) _ l] by simp
  then show ?thesis using t k assms(4) by auto
qed

lemma listing_grows:
  assumes "listing_of live vms" and "live h = None" and "ei_id i = h" and "tagged i"
  shows "listing_of (live(h \<mapsto> i)) (i # vms)"
proof -
  have "ei_id x \<noteq> h" if "x \<in> set vms" for x using assms(1,2) that by (auto simp: listing_of_def)
  then show ?thesis using assms by (auto simp: listing_of_def)
qed


subsection \<open>Standing down\<close>

lemma instances_keep_count:
  "ec2_instances b now s = (r, s') \<Longrightarrow> es_failures s' = es_failures s \<and> es_cooling_until s' = es_cooling_until s"
  by (auto simp: ec2_instances_def x_then_def x_now_def x_get_def x_ret_def aws_def aws_error_def x_raise_def x_set_def
    split: option.splits prod.splits sum.splits)

text \<open>
  C16. Spot stands down after refusals in a row. When AWS refuses a spot request and that is at least the set number
  of refusals in a row, then until the cooldown is over no kind of GPU has a free slot on spot, which is
  found out without asking AWS; and the first question after that starts counting anew.
\<close>

theorem spot_stands_down:
  assumes "eb_spot b" and "guard_capacity b j now s = (Inr (), s1)" and "run_params_for b j now s1 = (Inr p, s2)"
    and "ap_run (eb_api b) p False (es_net s2) = (Inl x, n)" and "eb_max_failures b \<le> Suc (es_failures s2)"
    and "ec2_launch b j now s = (r, s')"
  shows "(\<forall>gpu t. t < now + timedelta_seconds (eb_cooldown b) \<longrightarrow> ec2_free_slots b gpu t s' = (Inr 0, s')) \<and>
    (\<forall>gpu t q s''. now + timedelta_seconds (eb_cooldown b) \<le> t \<longrightarrow> ec2_supports b gpu \<longrightarrow> ec2_free_slots b gpu t s' = (q, s'') \<longrightarrow>
       es_failures s'' = 0 \<and> es_cooling_until s'' = None)"
proof -
  let ?till = "now + timedelta_seconds (eb_cooldown b)"
  have c: "es_cooling_until s' = Some ?till" using assms
    by (auto simp: ec2_launch_def x_then_def aws_def note_failure_def x_now_def x_set_def aws_error_def x_raise_def Let_def)
  have "ec2_free_slots b gpu t s' = (Inr 0, s')" if "t < ?till" for gpu t
    using that by (simp add: ec2_free_slots_def x_then_def x_now_def x_get_def x_ret_def cooling_def c)
  moreover have "es_failures s'' = 0 \<and> es_cooling_until s'' = None"
    if "?till \<le> t" and "ec2_supports b gpu" and f: "ec2_free_slots b gpu t s' = (q, s'')" for gpu t q s''
  proof -
    have off: "es_failures (cooled_off s') = 0 \<and> es_cooling_until (cooled_off s') = None" by (simp add: cooled_off_def c)
    have rest: "(q, s'') = x_then (x_of (instance_type_for (eb_aws b) gpu)) (\<lambda>wanted. x_then (ec2_instances b) (\<lambda>is.
        x_ret (max 0 (ec2_limit b gpu - int (length (filter (\<lambda>i. ei_type i = wanted) is)))))) t (cooled_off s')"
      using f that(1,2) by (simp add: ec2_free_slots_def x_then_def x_now_def x_get_def x_set_def cooling_def c)
    obtain z s3 where z: "ec2_instances b t (cooled_off s') = (z, s3)" by fastforce
    have "s'' = cooled_off s' \<or> s'' = s3" using rest z
      by (cases "instance_type_for (eb_aws b) gpu"; cases z) (auto simp: x_then_def x_of_def x_ret_def)
    then show ?thesis using off instances_keep_count [OF z] by auto
  qed
  ultimately show ?thesis by blast
qed

subsection \<open>Logs\<close>

text \<open>Asking and reading leave the lines that were kept alone.\<close>

definition lines_kept :: "('n ec2_state, 'a) ext_op \<Rightarrow> bool" where
  "lines_kept m \<longleftrightarrow> (\<forall>now s. es_log_lines (snd (m now s)) = es_log_lines s)"

lemma kept_basic:
  "lines_kept (x_ret a)" "lines_kept (x_raise x)" "lines_kept (x_get f)" "lines_kept x_now" "lines_kept (aws_error what y)"
  by (simp_all add: lines_kept_def x_ret_def x_raise_def x_get_def x_now_def aws_error_def)

lemma kept_set: "(\<And>s. es_log_lines (f s) = es_log_lines s) \<Longrightarrow> lines_kept (x_set f)"
  by (simp add: lines_kept_def x_set_def)

lemma kept_then: "lines_kept m \<Longrightarrow> (\<And>a. lines_kept (k a)) \<Longrightarrow> lines_kept (x_then m k)"
  unfolding lines_kept_def x_then_def by (simp split: prod.splits sum.splits) (metis snd_conv)

lemma kept_aws: "(\<And>x. lines_kept (h x)) \<Longrightarrow> (\<And>a. lines_kept (k a)) \<Longrightarrow> lines_kept (aws f h k)"
  unfolding lines_kept_def aws_def by (simp split: prod.splits sum.splits)

lemma kept_cases:
  "lines_kept m \<Longrightarrow> lines_kept n \<Longrightarrow> lines_kept (if c then m else n)"
  "lines_kept m \<Longrightarrow> (\<And>a. lines_kept (k a)) \<Longrightarrow> lines_kept (case x of None \<Rightarrow> m | Some a \<Rightarrow> k a)"
  "(\<And>a c. lines_kept (k2 a c)) \<Longrightarrow> lines_kept (case y of (a, c) \<Rightarrow> k2 a c)"
  by (simp_all split: option.split prod.split)

lemmas kept_rules = kept_basic kept_set kept_then kept_aws kept_cases

lemma reading_keeps_lines:
  shows ask_keeps_lines: "command_id_of b h now s = (r, s') \<Longrightarrow> es_log_lines s' = es_log_lines s"
    and stream_keeps_lines: "read_stream b cid h str now s = (q, s'') \<Longrightarrow> es_log_lines s'' = es_log_lines s"
proof -
  have "lines_kept (command_id_of b h)"
    unfolding command_id_of_def ec2_instance_of_def ec2_instances_def describe_one_def by (intro kept_rules) simp
  then show "command_id_of b h now s = (r, s') \<Longrightarrow> es_log_lines s' = es_log_lines s" unfolding lines_kept_def by (metis snd_conv)
  have "lines_kept (read_stream b cid h str)" unfolding read_stream_def Let_def by (intro kept_rules) simp
  then show "read_stream b cid h str now s = (q, s'') \<Longrightarrow> es_log_lines s'' = es_log_lines s" unfolding lines_kept_def by (metis snd_conv)
qed

lemma lines_of_add [simp]: "lines_of h (add_lines h ls s) = lines_of h s @ ls"
  by (simp add: lines_of_def add_lines_def update_conv)

text \<open>
  A line of a log is handed out once. A reader that asks, each time, for what comes after the number of lines it
  has, gets what was read from the two streams since, and what the process keeps is then exactly what the reader
  has: nothing is left out and nothing comes twice, for as long as the process lives.
\<close>

theorem ec2_log_cursor_reads_once:
  assumes "ec2_fetch_logs b h (length (lines_of h s)) now s = (Inr ls, s')"
  shows "lines_of h s' = lines_of h s @ ls"
proof -
  obtain known s1 where c: "command_id_of b h now s = (Inr known, s1)" using assms by (auto simp: ec2_fetch_logs_def x_simps)
  have l1: "lines_of h s1 = lines_of h s" using ask_keeps_lines [OF c] by (simp add: lines_of_def)
  show ?thesis
  proof (cases "truthy known")
    case False
    then have "ls = [] \<and> s' = s1" using assms c by (simp add: ec2_fetch_logs_def x_then_def x_ret_def)
    then show ?thesis using l1 by simp
  next
    case True
    then obtain out s2 err s3 where out: "read_stream b (the known) h ''stdout'' now s1 = (Inr out, s2)"
      and err: "read_stream b (the known) h ''stderr'' now (add_lines h out s2) = (Inr err, s3)"
      and e: "s' = add_lines h err s3" "ls = drop (length (lines_of h s)) (lines_of h s')"
      using assms c by (auto simp: ec2_fetch_logs_def x_then_def x_set_def x_get_def split: prod.splits sum.splits)
    have "lines_of h s2 = lines_of h s" using stream_keeps_lines [OF out] l1 by (simp add: lines_of_def)
    moreover have "lines_of h s3 = lines_of h (add_lines h out s2)" using stream_keeps_lines [OF err] by (simp add: lines_of_def)
    ultimately show ?thesis using e by simp
  qed
qed

subsection \<open>Where the backend falls short\<close>

text \<open>When the instance cannot be looked up, it is not terminated, although the comment in \<open>terminate\<close> says that nothing
  before the call may stop it.\<close>

lemma failed_lookup_stops_terminate:
  "command_id_of b h now s = (Inl x, s') \<Longrightarrow> ec2_terminate b h why now s = (Inl x, s')"
  by (simp add: ec2_terminate_def x_then_def)

text \<open>Spot instances of another type than the one on-demand capacity would use do not count against the limit.\<close>

lemma spot_counts_one_type:
  assumes "ec2_supports b gpu" and "\<not> cooling now s" and "instance_type_for (eb_aws b) gpu = Inr wanted"
    and "es_cooling_until s = None" and "cache_fresh b now s = Some vms" and "\<forall>i\<in>set vms. ei_type i \<noteq> wanted"
  shows "fst (ec2_free_slots b gpu now s) = Inr (max 0 (ec2_limit b gpu))"
proof -
  have none: "filter (\<lambda>i. ei_type i = wanted) vms = []" using assms(6) by (simp add: filter_empty_conv)
  have "cooled_off s = s" using assms(4) by (simp add: cooled_off_def)
  then have "ec2_instances b now (cooled_off s) = (Inr vms, s)"
    using assms(5) by (simp add: ec2_instances_def x_then_def x_now_def x_get_def x_ret_def)
  then show ?thesis using assms(1-3) none
    by (simp add: ec2_free_slots_def x_then_def x_now_def x_get_def x_set_def x_of_def x_ret_def)
qed

text \<open>A command that ended with status 0 is a finished job, also on a spot instance that was just given notice; and
  with status 0 the wrapper ends on notice (\<open>notice_ends_with_success\<close>).\<close>

lemma noticed_job_counts_as_done:
  "iv_status v = Some ''Success'' \<Longrightarrow> os_status (read_invocation v) = BS_COMPLETED"
  by (simp add: read_invocation_def ssm_status_def SSM_STATUS_def Let_def)

text \<open>The on-demand and the spot backend list the same machines: each sees those of the other as its own.\<close>

lemma backends_list_alike: "ec2_list_resources (b\<lparr>eb_name := n, eb_tier := t, eb_spot := sp\<rparr>) = ec2_list_resources b"
proof -
  let ?b = "b\<lparr>eb_name := n, eb_tier := t, eb_spot := sp\<rparr>"
  have same: "eb_cache_seconds ?b = eb_cache_seconds b" "eb_api ?b = eb_api b" "eb_aws ?b = eb_aws b" by simp_all
  show ?thesis unfolding ec2_list_resources_def ec2_instances_def cache_fresh_def same by (rule refl)
qed

text \<open>A process that reads a log from its head has the lines of one stream before those of the other, and not in the
  order in which an earlier process handed them out: the cursor of the earlier one points elsewhere.\<close>

lemma restarted_reader_order:
  assumes "command_id_of b h now s = (Inr (Some cid), s1)" and "cid \<noteq> []" and "lines_of h s = []"
    and "read_stream b cid h ''stdout'' now s1 = (Inr out, s2)"
    and "read_stream b cid h ''stderr'' now (add_lines h out s2) = (Inr err, s3)"
  shows "fst (ec2_fetch_logs b h after now s) = Inr (drop after (out @ err))"
proof -
  have "lines_of h s2 = []" using ask_keeps_lines [OF assms(1)] stream_keeps_lines [OF assms(4)] assms(3) by (simp add: lines_of_def)
  moreover have "lines_of h s3 = lines_of h (add_lines h out s2)" using stream_keeps_lines [OF assms(5)] by (simp add: lines_of_def)
  ultimately show ?thesis using assms(1,2,4,5)
    by (simp add: ec2_fetch_logs_def x_then_def x_set_def x_get_def truthy_def)
qed

text \<open>The command is sent before the instance is tagged with it: when tagging fails, the next start sends it again.\<close>

lemma failed_tag_sends_again:
  assumes "command_id_of b h now s = (Inr None, s1)" and "ec2_command_for b j now s1 = (Inr command, s2)"
    and "ap_send (eb_api b) (job_request b h j command) (es_net s2) = (Inr cid, n)"
    and "start_sampler b h j now (s2\<lparr>es_net := n\<rparr>) = (Inr smp, s3)"
    and "put_tags b h ((TAG_COMMAND_ID, cid) # (if truthy smp then [(TAG_SAMPLER_ID, the smp)] else [])) now s3 = (Inl x, s4)"
    and "command_id_of b h now' s4 = (Inr None, s5)" and "ec2_command_for b j now' s5 = (Inr command', s6)"
  shows "ec2_start b h j now s = (Inl x, s4) \<and>
    ec2_start b h j now' s4 = aws (ap_send (eb_api b) (job_request b h j command')) (aws_error (''could not start job on '' @ h)) (\<lambda>cid.
      x_then (start_sampler b h j) (\<lambda>smp.
      x_then (put_tags b h ((TAG_COMMAND_ID, cid) # (if truthy smp then [(TAG_SAMPLER_ID, the smp)] else []))) (\<lambda>_. invalidate))) now' s6"
  using assms by (simp add: ec2_start_def x_then_def aws_def truthy_def)

subsection \<open>An account\<close>

text \<open>The instances, and how many commands were sent. It has no spot capacity.\<close>

type_synonym demo_account = "ec2_instance list \<times> nat"

definition demo_live :: "demo_account \<Rightarrow> string \<Rightarrow> ec2_instance option" where
  "demo_live n h = find (\<lambda>i. ei_id i = h \<and> distinct (map fst (ei_tags i))) (fst n)"

definition demo_refusal :: "string \<Rightarrow> aws_failure" where
  "demo_refusal code' = \<lparr>af_code = Some code', af_message = [], af_text = []\<rparr>"

definition demo_run_instances :: "run_params \<Rightarrow> bool \<Rightarrow> (demo_account, ec2_instance) aws_call" where
  "demo_run_instances p dry n =
     (if dry then (Inl (demo_refusal ''DryRunOperation''), n)
      else if rp_spot_options p \<noteq> [] then (Inl (demo_refusal ''InsufficientInstanceCapacity''), n)
      else case map_of (rp_tag_specs p) ''instance'' of
             None \<Rightarrow> (Inl (demo_refusal ''InvalidParameterValue''), n)
           | Some ts \<Rightarrow>
               (if demo_live n ''i-1'' \<noteq> None \<or> \<not> distinct (map fst ts) then (Inl (demo_refusal ''InvalidParameterValue''), n)
                else (let i = \<lparr>ei_id = ''i-1'', ei_type = rp_instance_type p, ei_state = ''running'', ei_tags = ts,
                              ei_lifecycle = [], ei_reason = []\<rparr>
                      in (Inr i, (i # fst n, snd n)))))"

definition demo_mark :: "string \<Rightarrow> tags \<Rightarrow> (demo_account, unit) aws_call" where
  "demo_mark h ts n =
     (Inr (), (map (\<lambda>i. if ei_id i = h \<and> distinct (map fst (ei_tags i)) then add_tags ts i else i) (fst n), snd n))"

definition demo_end :: "string \<Rightarrow> bool \<Rightarrow> (demo_account, unit) aws_call" where
  "demo_end h dry n =
     (if dry then (Inl (demo_refusal ''DryRunOperation''), n)
      else if demo_live n h = None then (Inl (demo_refusal ''InvalidInstanceID.NotFound''), n)
      else (Inr (), (filter (\<lambda>i. ei_id i \<noteq> h) (fst n), snd n)))"

definition demo_api :: "demo_account aws_api" where
  "demo_api =
     \<lparr>ap_run = demo_run_instances,
      ap_list = (\<lambda>key states n. (Inr [[filter (\<lambda>i. demo_live n (ei_id i) = Some i \<and> tagged i) (remdups (fst n))]], n)),
      ap_describe = (\<lambda>h n. (Inr [case demo_live n h of Some i \<Rightarrow> [i] | None \<Rightarrow> []], n)),
      ap_terminate = demo_end, ap_create_tags = demo_mark,
      ap_spot_history = (\<lambda>ts k n. (Inr [], n)),
      ap_send = (\<lambda>p n. (Inr ''cmd-1'', (fst n, Suc (snd n)))),
      ap_cancel = (\<lambda>c h n. (Inr (), n)),
      ap_invocation = (\<lambda>c h n. (Inr \<lparr>iv_status = Some ''InProgress'', iv_code = None, iv_details = [], iv_error = []\<rparr>, n)),
      ap_agents = (\<lambda>h n. (Inr [''Online''], n)),
      ap_log_events = (\<lambda>g str t n. (case t of None \<Rightarrow> (Inr ([''epoch 1''], Some ''end''), n) | Some u \<Rightarrow> (Inr ([], Some u), n))),
      ap_repository = (\<lambda>r n. (Inr r, n)), ap_create_repository = (\<lambda>r n. (Inr r, n)), ap_image = (\<lambda>r d n. (Inr (), n))\<rparr>"

definition demo_ec2 :: "bool \<Rightarrow> demo_account ec2" where
  "demo_ec2 spot =
     \<lparr>eb_name = ''ec2'', eb_tier = ec2_tier None spot,
      eb_aws = default_aws\<lparr>aw_ami := Some ''ami-1'', aw_instance_profile := Some ''runner''\<rparr>, eb_api = demo_api,
      eb_cache_seconds = 5, eb_sample_interval = 60, eb_spot = spot, eb_bucket = [], eb_prefix = ''checkpoints'',
      eb_deadline = 90, eb_max_failures = 1, eb_cooldown = 900, eb_environments = None, eb_volumes = default_volumes,
      eb_ecr_repository = [], eb_has_ecr = False, eb_sha256 = (\<lambda>t. t)\<rparr>"

lemma demo_ec2_api [simp]: "eb_api (demo_ec2 spot) = demo_api"
  by (simp add: demo_ec2_def)

lemma demo_live_cases:
  "demo_live (i # is', k) h = (if ei_id i = h \<and> distinct (map fst (ei_tags i)) then Some i else demo_live (is', k) h)"
  "demo_live n h = Some i \<Longrightarrow> ei_id i = h \<and> distinct (map fst (ei_tags i)) \<and> i \<in> set (fst n)"
  "demo_live (xs, k) h = demo_live (xs, k') h"
  by (auto simp: demo_live_def find_Some_iff)

lemma demo_live_end: "demo_live (filter (\<lambda>i. ei_id i \<noteq> h) xs, k) = (demo_live (xs, k))(h := None)"
  by (rule ext) (induction xs, auto simp: demo_live_def)

lemma demo_live_mark:
  "demo_live (map (\<lambda>i. if ei_id i = h \<and> distinct (map fst (ei_tags i)) then add_tags ts i else i) xs, k) =
     (demo_live (xs, k))(h := map_option (add_tags ts) (demo_live (xs, k) h))"
  by (rule ext) (induction xs, auto simp: demo_live_def add_tags_def dict_distinct)

lemma demo_account_lists:
  "listing_of (demo_live n) (filter (\<lambda>i. demo_live n (ei_id i) = Some i \<and> tagged i) (remdups (fst n)))"
  unfolding listing_of_def distinct_map
  by (intro conjI inj_onI distinct_filter distinct_remdups; (simp only: set_filter mem_Collect_eq, metis option.inject)?)
     (auto dest: demo_live_cases(2))

lemma demo_ec2_faithful: "faithful_aws (demo_ec2 spot) demo_live snd"
  unfolding faithful_aws_def
proof (intro conjI)
  show "runs_ok (demo_ec2 spot) demo_live snd"
    by (auto simp: runs_ok_def untouched_def demo_api_def demo_run_instances_def demo_live_cases(1) Let_def fun_eq_iff
      split: if_splits option.splits)
  show "ends_ok (demo_ec2 spot) demo_live snd"
    by (auto simp: ends_ok_def untouched_def demo_api_def demo_end_def demo_live_end demo_refusal_def split: if_splits)
  show "marks_ok (demo_ec2 spot) demo_live snd"
    by (auto simp: marks_ok_def demo_api_def demo_mark_def demo_live_mark demo_live_cases(3))
  have "listing_of (demo_live (xs, k)) (filter (\<lambda>i. demo_live (xs, k) (ei_id i) = Some i \<and> tagged i) (remdups xs))" for xs k
    using demo_account_lists [of "(xs, k)"] by simp
  then show "looks_ok (demo_ec2 spot) demo_live snd"
    by (auto simp: looks_ok_def untouched_def demo_api_def Let_def demo_live_cases(2) split: option.splits)
qed


text \<open>A job is launched and started on it, and its log read.\<close>

definition demo_ec2_job :: job where
  "demo_ec2_job = new_job ''ab-1'' ''ada'' ''python t.py'' ''t4'' 1 USD 1 QUEUED 0 None ''real''"

definition demo_machine :: ec2_instance where
  "demo_machine =
     \<lparr>ei_id = ''i-1'', ei_type = ''g4dn.xlarge'', ei_state = ''running'', ei_tags = tags_for demo_ec2_job (to_iso 0),
      ei_lifecycle = [], ei_reason = []\<rparr>"

definition demo_empty :: "demo_account ec2_state" where
  "demo_empty = new_ec2_state ([], 0)"

definition demo_launched :: "demo_account ec2_state" where
  "demo_launched = new_ec2_state ([demo_machine], 0)"

definition demo_commanded :: ec2_instance where
  "demo_commanded = add_tags [(TAG_COMMAND_ID, ''cmd-1''), (TAG_SAMPLER_ID, ''cmd-1'')] demo_machine"

definition demo_started :: "demo_account ec2_state" where
  "demo_started = new_ec2_state ([demo_commanded], 2)"

lemma demo_ec2_fields [simp]:
  "j_id demo_ec2_job = ''ab-1''" "j_user demo_ec2_job = ''ada''" "j_gpu_type demo_ec2_job = ''t4''"
  "j_command demo_ec2_job = ''python t.py''" "j_environment demo_ec2_job = None"
  "eb_spot (demo_ec2 spot) = spot" "eb_bucket (demo_ec2 spot) = []" "eb_volumes (demo_ec2 spot) = default_volumes"
  by (simp_all add: demo_ec2_job_def new_job_def demo_ec2_def)

lemma demo_states [simp]:
  "es_net demo_empty = ([], 0)" "es_failures demo_empty = 0" "es_cooling_until demo_empty = None"
  "demo_empty\<lparr>es_cache := x, es_cached_at := y, es_net := n, es_failures := 0, es_cache := None, es_cached_at := None\<rparr> = new_ec2_state n"
  by (simp_all add: demo_empty_def new_ec2_state_def)

lemma demo_guard:
  "guard_capacity (demo_ec2 spot) demo_ec2_job 0 demo_empty = (Inr (), demo_empty\<lparr>es_cache := Some [], es_cached_at := Some 0\<rparr>)"
proof -
  have "guard_capacity (demo_ec2 True) demo_ec2_job 0 demo_empty = (Inr (), demo_empty\<lparr>es_cache := Some [], es_cached_at := Some 0\<rparr>)"
    by code_simp
  moreover have "guard_capacity (demo_ec2 False) demo_ec2_job 0 demo_empty = (Inr (), demo_empty\<lparr>es_cache := Some [], es_cached_at := Some 0\<rparr>)"
    by code_simp
  ultimately show ?thesis by (cases spot) simp_all
qed

lemma demo_ec2_launch:
  "ec2_launch (demo_ec2 False) demo_ec2_job 0 demo_empty =
     (Inr \<lparr>al_handle = ''i-1'', al_gpu_type = ''t4'', al_tags = parse_tags (ei_tags demo_machine)\<rparr>, demo_launched)"
proof -
  let ?s = "demo_empty\<lparr>es_cache := Some [], es_cached_at := Some 0\<rparr>"
  have t: "instance_type_for (eb_aws (demo_ec2 False)) ''t4'' = Inr ''g4dn.xlarge''" by code_simp
  have p: "run_params_for (demo_ec2 False) demo_ec2_job 0 ?s = (Inr (run_request (eb_aws (demo_ec2 False)) False ''g4dn.xlarge'' demo_ec2_job 0), ?s)"
    by (simp add: run_params_for_def x_then_def x_of_def t x_now_def x_ret_def)
  have r: "demo_run_instances (run_request c False ''g4dn.xlarge'' demo_ec2_job 0) False ([], 0) = (Inr demo_machine, ([demo_machine], 0))" for c
    by (simp add: demo_run_instances_def run_request_def Let_def demo_live_def demo_machine_def tags_for_def)
  have i: "ei_id demo_machine = ''i-1''" by (simp add: demo_machine_def)
  show ?thesis
    by (simp add: ec2_launch_def x_then_def demo_guard p aws_def demo_api_def r x_set_def invalidate_def x_ret_def i demo_launched_def)
      (simp add: demo_empty_def new_ec2_state_def)
qed



text \<open>Spot capacity is refused, and spot stands down.\<close>

theorem spot_stands_down_witness:
  "fst (ec2_free_slots (demo_ec2 True) ''t4'' 1 (snd (ec2_launch (demo_ec2 True) demo_ec2_job 0 demo_empty))) = Inr 0"
proof -
  let ?s = "demo_empty\<lparr>es_cache := Some [], es_cached_at := Some 0\<rparr>"
  let ?p = "run_request (eb_aws (demo_ec2 True)) True ''g4dn.xlarge'' demo_ec2_job 0"
  have t: "cheapest_type (demo_ec2 True) ''t4'' 0 ?s = (Inr ''g4dn.xlarge'', ?s)" by code_simp
  have p: "run_params_for (demo_ec2 True) demo_ec2_job 0 ?s = (Inr ?p, ?s)"
    by (simp add: run_params_for_def x_then_def t x_now_def x_ret_def)
  have r: "ap_run (eb_api (demo_ec2 True)) ?p False (es_net ?s) = (Inl (demo_refusal ''InsufficientInstanceCapacity''), ([], 0))"
    by (simp add: demo_api_def demo_run_instances_def run_request_def Let_def)
  obtain q s' where l: "ec2_launch (demo_ec2 True) demo_ec2_job 0 demo_empty = (q, s')" by fastforce
  have b: "eb_max_failures (demo_ec2 True) = 1" "eb_cooldown (demo_ec2 True) = 900" by (simp_all add: demo_ec2_def)
  have "ec2_free_slots (demo_ec2 True) ''t4'' 1 s' = (Inr 0, s')"
    using spot_stands_down [OF _ demo_guard p r _ l] by (simp add: b timedelta_seconds_def round_half_even_def)
  then show ?thesis by (simp add: l)
qed

text \<open>The job is started once, and what its log has is read.\<close>

lemma demo_lists_launched:
  "ec2_instances (demo_ec2 False) now demo_launched = (Inr [demo_machine], demo_launched\<lparr>es_cache := Some [demo_machine], es_cached_at := Some now\<rparr>)"
  "ec2_instances (demo_ec2 False) now demo_started = (Inr [demo_commanded], demo_started\<lparr>es_cache := Some [demo_commanded], es_cached_at := Some now\<rparr>)"
  by (simp_all add: ec2_instances_def x_then_def x_now_def x_get_def x_set_def x_ret_def cache_fresh_def demo_launched_def demo_started_def
    new_ec2_state_def aws_def demo_api_def demo_live_def demo_machine_def demo_commanded_def add_tags_def tagged_def tags_for_def
    TAG_JOB_ID_def TAG_COMMAND_ID_def TAG_SAMPLER_ID_def)

lemma demo_ec2_start: "ec2_start (demo_ec2 False) ''i-1'' demo_ec2_job 0 demo_launched = (Inr (), demo_started)"
proof -
  let ?s = "demo_launched\<lparr>es_cache := Some [demo_machine], es_cached_at := Some 0\<rparr>"
  have c: "command_id_of (demo_ec2 False) ''i-1'' 0 demo_launched = (Inr None, ?s)"
    by (simp add: command_id_of_def ec2_instance_of_def x_then_def demo_lists_launched x_ret_def demo_machine_def tag_of_def
      parse_tags_def tags_for_def TAG_COMMAND_ID_def)
  have n: "es_net demo_launched = ([demo_machine], 0)" by (simp add: demo_launched_def new_ec2_state_def)
  have k: "ec2_command_for (demo_ec2 False) demo_ec2_job 0 s = (Inr ''python t.py'', s)" for s
    by (simp add: ec2_command_for_def x_then_def x_ret_def environment_for_def truthy_def wrapped_command_def inner_command_def
      default_volumes_def)
  show ?thesis
    by (simp add: ec2_start_def x_then_def c k aws_def demo_api_def truthy_def start_sampler_def put_tags_def invalidate_def x_set_def
      x_ret_def demo_mark_def n)
      (simp add: demo_launched_def demo_started_def new_ec2_state_def demo_commanded_def demo_machine_def tags_for_def)
qed


theorem ec2_log_cursor_reads_once_witness:
  "lines_of ''i-1'' (snd (ec2_fetch_logs (demo_ec2 False) ''i-1'' 0 0 demo_started)) = [(''stdout'', ''epoch 1''), (''stderr'', ''epoch 1'')]"
proof -
  have none: "lines_of ''i-1'' demo_started = []" by (simp add: lines_of_def demo_started_def new_ec2_state_def)
  have r: "fst (ec2_fetch_logs (demo_ec2 False) ''i-1'' 0 0 demo_started) = Inr [(''stdout'', ''epoch 1''), (''stderr'', ''epoch 1'')]"
    by code_simp
  then obtain s' where f: "ec2_fetch_logs (demo_ec2 False) ''i-1'' (length (lines_of ''i-1'' demo_started)) 0 demo_started =
      (Inr [(''stdout'', ''epoch 1''), (''stderr'', ''epoch 1'')], s')" by (metis none list.size(3) surjective_pairing fst_conv)
  show ?thesis using ec2_log_cursor_reads_once [OF f] f none by simp
qed

end
