(* ===== verification/ConfigFile.thy ===== *)
theory ConfigFile
  imports Config Gce Ec2 Hosts Volumes Auth
begin

text \<open>
  \<open>load_config\<close> of \<^verbatim>\<open>gpu_broker/config.py\<close> with the loaders of the nested sections: defaults, then the file, then
  overrides, with unknown keys refused, values converted and the result validated. The text of the file is
  read by \<^verbatim>\<open>json.loads\<close>, so its outcome is given; \<open>str_of\<close> is Python's \<open>str\<close> of a value that is not a text,
  \<open>zone_of\<close> the time zone of a name. The configuration that the rest of the development reads is extended by the
  settings that only the wiring and the command line read. Python keeps a value of a nested section as it is,
  whatever its type, and fails where it is used; here a value of another type than its field is refused
  when it is read.
\<close>

subsection \<open>The whole configuration\<close>

record club_config = broker_config +
  k_price_refresh_days :: pyfloat
  k_spot_max_launch_failures :: int
  k_spot_cooldown_seconds :: pyfloat
  k_checkpoint_deadline_seconds :: pyfloat
  k_checkpoint_root :: string
  k_checkpoint_prefix :: string
  k_environment_root :: string
  k_ecr_repository :: string
  k_digest_webhook :: string
  k_metrics_retention_days :: pyfloat
  k_aws :: aws_config
  k_gce :: gce_config
  k_local :: local_config
  k_volumes :: volume_config
  k_web :: web_config

definition default_club :: "tz \<Rightarrow> club_config" where
  "default_club zone =
     broker_config.extend (default_config zone)
       \<lparr>k_price_refresh_days = 7, k_spot_max_launch_failures = 3, k_spot_cooldown_seconds = 900,
        k_checkpoint_deadline_seconds = 90, k_checkpoint_root = [], k_checkpoint_prefix = ''checkpoints'',
        k_environment_root = ''~/.gpu-broker/envs'', k_ecr_repository = [], k_digest_webhook = [],
        k_metrics_retention_days = 90, k_aws = default_aws, k_gce = default_gce, k_local = default_local_config,
        k_volumes = default_volumes, k_web = default_web\<rparr>"

subsection \<open>Reading values\<close>

text \<open>A setting has a name and a way to put a value into the configuration.\<close>

type_synonym 'c setting = "string \<times> (pyval \<Rightarrow> 'c \<Rightarrow> (error, 'c) result)"

text \<open>The converters of the flat settings. The texts of infinities and of not-a-number count as malformed, and so does
  the conversion of such a number.\<close>

definition text_as :: "(pyval \<Rightarrow> string) \<Rightarrow> (string \<Rightarrow> 'c \<Rightarrow> 'c) \<Rightarrow> pyval \<Rightarrow> 'c \<Rightarrow> (error, 'c) result" where
  "text_as str_of put v c = Inr (put (case v of PStr s \<Rightarrow> s | _ \<Rightarrow> str_of v) c)"

definition float_as :: "(pyfloat \<Rightarrow> 'c \<Rightarrow> 'c) \<Rightarrow> pyval \<Rightarrow> 'c \<Rightarrow> (error, 'c) result" where
  "float_as put v c =
     (case v of
        PNum x \<Rightarrow> Inr (put x c)
      | PBool b \<Rightarrow> Inr (put (if b then 1 else 0) c)
      | PStr s \<Rightarrow> (case float_of_text s of Fin x \<Rightarrow> Inr (put x c) | _ \<Rightarrow> Inl (ValueError ''could not convert string to float''))
      | _ \<Rightarrow> Inl (PyException ''TypeError'' ''float''))"

definition int_as :: "(int \<Rightarrow> 'c \<Rightarrow> 'c) \<Rightarrow> pyval \<Rightarrow> 'c \<Rightarrow> (error, 'c) result" where
  "int_as put v c =
     (case v of
        PNum x \<Rightarrow> Inr (put (py_int x) c)
      | PBool b \<Rightarrow> Inr (put (if b then 1 else 0) c)
      | PStr s \<Rightarrow> (case int_of_text s of Some n \<Rightarrow> Inr (put n c) | None \<Rightarrow> Inl (ValueError ''invalid literal for int()''))
      | _ \<Rightarrow> Inl (PyException ''TypeError'' ''int''))"

definition money_as :: "(decimal \<Rightarrow> 'c \<Rightarrow> 'c) \<Rightarrow> pyval \<Rightarrow> 'c \<Rightarrow> (error, 'c) result" where
  "money_as put v c = (case money_of v of Some x \<Rightarrow> Inr (put x c) | None \<Rightarrow> Inl (PyException ''InvalidOperation'' []))"

definition bool_as :: "(bool \<Rightarrow> 'c \<Rightarrow> 'c) \<Rightarrow> pyval \<Rightarrow> 'c \<Rightarrow> (error, 'c) result" where
  "bool_as put v c = Inr (put (py_true v) c)"

text \<open>\<open>list\<close> of a text is its characters, of an object its keys. Elements that are not texts are compared with texts
  only, and stand for their own texts.\<close>

definition list_as :: "(pyval \<Rightarrow> string) \<Rightarrow> (string list \<Rightarrow> 'c \<Rightarrow> 'c) \<Rightarrow> pyval \<Rightarrow> 'c \<Rightarrow> (error, 'c) result" where
  "list_as str_of put v c =
     (case v of
        PList vs \<Rightarrow> Inr (put (map (\<lambda>x. case x of PStr s \<Rightarrow> s | _ \<Rightarrow> str_of x) vs) c)
      | PStr s \<Rightarrow> Inr (put (map (\<lambda>ch. [ch]) s) c)
      | PDict kvs \<Rightarrow> Inr (put (map fst kvs) c)
      | _ \<Rightarrow> Inl (PyException ''TypeError'' ''list''))"

text \<open>The values of the nested sections, which are not converted; \<open>tuple\<close> of a text is its characters.\<close>

definition typed :: "(pyval \<Rightarrow> 'a option) \<Rightarrow> ('a \<Rightarrow> 'c \<Rightarrow> 'c) \<Rightarrow> pyval \<Rightarrow> 'c \<Rightarrow> (error, 'c) result" where
  "typed rd put v c = (case rd v of Some a \<Rightarrow> Inr (put a c) | None \<Rightarrow> Inl (PyException ''ill-typed'' []))"

definition rd_text :: "pyval \<Rightarrow> string option" where
  "rd_text v = (case v of PStr s \<Rightarrow> Some s | _ \<Rightarrow> None)"

definition rd_maybe :: "pyval \<Rightarrow> string option option" where
  "rd_maybe v = (case v of PStr s \<Rightarrow> Some (Some s) | PNone \<Rightarrow> Some None | _ \<Rightarrow> None)"

definition rd_number :: "pyval \<Rightarrow> pyfloat option" where
  "rd_number v = (case v of PNum x \<Rightarrow> Some x | _ \<Rightarrow> None)"

definition rd_int :: "pyval \<Rightarrow> int option" where
  "rd_int v = (case v of PNum x \<Rightarrow> if of_int \<lfloor>x\<rfloor> = x then Some \<lfloor>x\<rfloor> else None | _ \<Rightarrow> None)"

definition rd_bool :: "pyval \<Rightarrow> bool option" where
  "rd_bool v = (case v of PBool b \<Rightarrow> Some b | _ \<Rightarrow> None)"

fun rd_all :: "(pyval \<Rightarrow> 'a option) \<Rightarrow> pyval list \<Rightarrow> 'a list option" where
  "rd_all rd [] = Some []"
| "rd_all rd (v # vs) = (case (rd v, rd_all rd vs) of (Some a, Some r) \<Rightarrow> Some (a # r) | _ \<Rightarrow> None)"

definition rd_texts :: "pyval \<Rightarrow> string list option" where
  "rd_texts v = (case v of PList vs \<Rightarrow> rd_all rd_text vs | PStr s \<Rightarrow> Some (map (\<lambda>ch. [ch]) s) | PDict kvs \<Rightarrow> Some (map fst kvs) | _ \<Rightarrow> None)"

definition rd_dict :: "(pyval \<Rightarrow> 'a option) \<Rightarrow> pyval \<Rightarrow> (string \<times> 'a) list option" where
  "rd_dict rd v =
     (case v of
        PDict kvs \<Rightarrow> (case rd_all rd (map snd kvs) of Some vs \<Rightarrow> Some (zip (map fst kvs) vs) | None \<Rightarrow> None)
      | _ \<Rightarrow> None)"

subsection \<open>Sections\<close>

definition unknown_keys :: "'c setting list \<Rightarrow> (string \<times> pyval) list \<Rightarrow> string list" where
  "unknown_keys known kvs = sort (filter (\<lambda>k. k \<notin> fst ` set known) (map fst kvs))"

fun set_all :: "'c setting list \<Rightarrow> (string \<times> pyval) list \<Rightarrow> 'c \<Rightarrow> (error, 'c) result" where
  "set_all known [] c = Inr c"
| "set_all known ((k, v) # kvs) c =
     (case map_of known k of
        None \<Rightarrow> set_all known kvs c
      | Some put \<Rightarrow> (case put v c of Inl e \<Rightarrow> Inl e | Inr c' \<Rightarrow> set_all known kvs c'))"

definition load_section :: "string \<Rightarrow> 'c setting list \<Rightarrow> 'c \<Rightarrow> (string \<times> pyval) list option \<Rightarrow> (error, 'c) result" where
  "load_section where_at known dflt raw =
     (case raw of
        None \<Rightarrow> Inr dflt
      | Some kvs \<Rightarrow>
          (if unknown_keys known kvs \<noteq> []
           then Inl (ConfigError (ConfigText (''unknown keys '' @ where_at @ '': '' @ join_with '', '' (unknown_keys known kvs) @
                  ''. Known: '' @ join_with '', '' (sort (map fst known)))))
           else set_all known kvs dflt))"

definition aws_settings :: "aws_config setting list" where
  "aws_settings =
    [(''region'', typed rd_text (\<lambda>x. aw_region_update (\<lambda>_. x))),
     (''ami'', typed rd_maybe (\<lambda>x. aw_ami_update (\<lambda>_. x))),
     (''instance_profile'', typed rd_maybe (\<lambda>x. aw_instance_profile_update (\<lambda>_. x))),
     (''log_group'', typed rd_text (\<lambda>x. aw_log_group_update (\<lambda>_. x))),
     (''subnet_id'', typed rd_maybe (\<lambda>x. aw_subnet_id_update (\<lambda>_. x))),
     (''security_group_ids'', typed rd_texts (\<lambda>x. aw_security_groups_update (\<lambda>_. x))),
     (''instance_types'', typed (rd_dict rd_text) (\<lambda>x. aw_instance_types_update (\<lambda>_. x))),
     (''spot_instance_types'', typed (rd_dict rd_texts) (\<lambda>x. aw_spot_types_update (\<lambda>_. x))),
     (''max_instances'', typed (rd_dict rd_int) (\<lambda>x. aw_max_instances_update (\<lambda>_. x))),
     (''agent_timeout_seconds'', typed rd_number (\<lambda>x. aw_agent_timeout_update (\<lambda>_. x))),
     (''working_dir'', typed rd_text (\<lambda>x. aw_working_dir_update (\<lambda>_. x))),
     (''shutdown_behavior'', typed rd_text (\<lambda>x. aw_shutdown_behavior_update (\<lambda>_. x)))]"

definition load_aws :: "(string \<times> pyval) list option \<Rightarrow> (error, aws_config) result" where
  "load_aws = load_section ''under 'aws' in config.json'' aws_settings default_aws"

definition gce_settings :: "gce_config setting list" where
  "gce_settings =
    [(''project'', typed rd_text (\<lambda>x. gg_project_update (\<lambda>_. x))),
     (''zone'', typed rd_text (\<lambda>x. gg_zone_update (\<lambda>_. x))),
     (''boot_image'', typed rd_text (\<lambda>x. gg_boot_image_update (\<lambda>_. x))),
     (''network'', typed rd_text (\<lambda>x. gg_network_update (\<lambda>_. x))),
     (''subnetwork'', typed rd_text (\<lambda>x. gg_subnetwork_update (\<lambda>_. x))),
     (''external_ip'', typed rd_bool (\<lambda>x. gg_external_ip_update (\<lambda>_. x))),
     (''service_account'', typed rd_text (\<lambda>x. gg_service_account_update (\<lambda>_. x))),
     (''service_account_scopes'', typed rd_texts (\<lambda>x. gg_scopes_update (\<lambda>_. x))),
     (''ssh_username'', typed rd_text (\<lambda>x. gg_ssh_username_update (\<lambda>_. x))),
     (''ssh_private_key'', typed rd_text (\<lambda>x. gg_ssh_private_key_update (\<lambda>_. x))),
     (''known_hosts'', typed rd_text (\<lambda>x. gg_known_hosts_update (\<lambda>_. x))),
     (''ssh_timeout_seconds'', typed rd_number (\<lambda>x. gg_ssh_timeout_update (\<lambda>_. x))),
     (''machine_types'', typed (rd_dict rd_text) (\<lambda>x. gg_machine_types_update (\<lambda>_. x))),
     (''accelerator_types'', typed (rd_dict rd_text) (\<lambda>x. gg_accelerator_types_update (\<lambda>_. x))),
     (''accelerator_counts'', typed (rd_dict rd_int) (\<lambda>x. gg_accelerator_counts_update (\<lambda>_. x))),
     (''max_instances'', typed (rd_dict rd_int) (\<lambda>x. gg_max_instances_update (\<lambda>_. x)))]"

definition load_gce :: "(string \<times> pyval) list option \<Rightarrow> (error, gce_config) result" where
  "load_gce = load_section ''under 'gce' in config.json'' gce_settings default_gce"

definition host_settings :: "host_spec setting list" where
  "host_settings =
     [(''hostname'', typed rd_text (\<lambda>x. h_hostname_update (\<lambda>_. x))), (''username'', typed rd_text (\<lambda>x. h_username_update (\<lambda>_. x))),
      (''port'', typed rd_int (\<lambda>x. h_port_update (\<lambda>_. x))), (''client_key'', typed rd_maybe (\<lambda>x. h_client_key_update (\<lambda>_. x))),
      (''known_hosts'', typed rd_maybe (\<lambda>x. h_known_hosts_update (\<lambda>_. x)))]"

text \<open>A host without a name is refused by the constructor.\<close>

definition host_from :: "pyval \<Rightarrow> (error, host_spec) result" where
  "host_from v =
     (case v of
        PStr s \<Rightarrow> Inr (host_named s)
      | PDict kvs \<Rightarrow>
          (if unknown_keys host_settings kvs = [] \<and> map_of kvs ''hostname'' = None then Inl (PyException ''TypeError'' ''hostname'')
           else load_section ''in a local.hosts entry'' host_settings (host_named []) (Some kvs))
      | _ \<Rightarrow> Inl (PyException ''ill-typed'' []))"

fun hosts_from :: "pyval list \<Rightarrow> (error, host_spec list) result" where
  "hosts_from [] = Inr []"
| "hosts_from (v # vs) =
     (case host_from v of
        Inl e \<Rightarrow> Inl e
      | Inr h \<Rightarrow> (case hosts_from vs of Inl e \<Rightarrow> Inl e | Inr hs \<Rightarrow> Inr (h # hs)))"

definition put_hosts :: "pyval \<Rightarrow> local_config \<Rightarrow> (error, local_config) result" where
  "put_hosts v c =
     (case v of
        PList vs \<Rightarrow> (case hosts_from vs of Inl e \<Rightarrow> Inl e | Inr hs \<Rightarrow> Inr (c\<lparr>lc_hosts := hs\<rparr>))
      | _ \<Rightarrow> Inl (PyException ''ill-typed'' []))"

definition local_settings :: "local_config setting list" where
  "local_settings =
    [(''hosts'', put_hosts),
     (''gpu_type'', typed rd_text (\<lambda>x. lc_gpu_type_update (\<lambda>_. x))),
     (''max_jobs_per_gpu'', typed rd_int (\<lambda>x. lc_max_jobs_per_gpu_update (\<lambda>_. x))),
     (''job_root'', typed rd_text (\<lambda>x. lc_job_root_update (\<lambda>_. x))),
     (''working_dir'', typed rd_text (\<lambda>x. lc_working_dir_update (\<lambda>_. x))),
     (''mps_pipe_dir'', typed rd_text (\<lambda>x. lc_mps_pipe_dir_update (\<lambda>_. x))),
     (''mps_log_dir'', typed rd_text (\<lambda>x. lc_mps_log_dir_update (\<lambda>_. x))),
     (''default_gpu_memory_mb'', typed rd_int (\<lambda>x. lc_default_gpu_memory_mb_update (\<lambda>_. x))),
     (''default_memory_max_mb'', typed rd_int (\<lambda>x. lc_default_memory_max_mb_update (\<lambda>_. x))),
     (''default_cpu_quota_percent'', typed rd_int (\<lambda>x. lc_default_cpu_quota_percent_update (\<lambda>_. x))),
     (''use_sudo'', typed rd_bool (\<lambda>x. lc_use_sudo_update (\<lambda>_. x))),
     (''run_as'', typed rd_text (\<lambda>x. lc_run_as_update (\<lambda>_. x))),
     (''health_interval_seconds'', typed rd_number (\<lambda>x. lc_health_interval_seconds_update (\<lambda>_. x))),
     (''command_timeout_seconds'', typed rd_number (\<lambda>x. lc_command_timeout_seconds_update (\<lambda>_. x))),
     (''poll_timeout_seconds'', typed rd_number (\<lambda>x. lc_poll_timeout_seconds_update (\<lambda>_. x)))]"

definition load_local :: "(string \<times> pyval) list option \<Rightarrow> (error, local_config) result" where
  "load_local raw =
     (case load_section ''under 'local' in config.json'' local_settings default_local_config raw of
        Inl e \<Rightarrow> Inl e
      | Inr c \<Rightarrow> if raw = None then Inr c else (case validate_local c of Inl e \<Rightarrow> Inl e | Inr _ \<Rightarrow> Inr c))"

definition volume_settings :: "volume_config setting list" where
  "volume_settings =
    [(''enabled'', typed rd_bool (\<lambda>x. vc_enabled_update (\<lambda>_. x))),
     (''efs_id'', typed rd_text (\<lambda>x. vc_efs_id_update (\<lambda>_. x))),
     (''region'', typed rd_text (\<lambda>x. vc_region_update (\<lambda>_. x))),
     (''local_root'', typed rd_text (\<lambda>x. vc_local_root_update (\<lambda>_. x))),
     (''quota_gb'', typed rd_number (\<lambda>x. vc_quota_gb_update (\<lambda>_. x)))]"

definition load_volumes :: "(string \<times> pyval) list option \<Rightarrow> (error, volume_config) result" where
  "load_volumes raw =
     (case load_section ''under 'volumes' in config.json'' volume_settings default_volumes raw of
        Inl e \<Rightarrow> Inl e
      | Inr c \<Rightarrow> if raw = None then Inr c else (case validate_volumes c of Inl e \<Rightarrow> Inl e | Inr _ \<Rightarrow> Inr c))"

definition web_settings :: "web_config setting list" where
  "web_settings =
    [(''base_url'', typed rd_text (\<lambda>x. wc_base_url_update (\<lambda>_. x))),
     (''github_client_id'', typed rd_text (\<lambda>x. wc_client_id_update (\<lambda>_. x))),
     (''github_client_secret'', typed rd_text (\<lambda>x. wc_client_secret_update (\<lambda>_. x))),
     (''github_org'', typed rd_text (\<lambda>x. wc_org_update (\<lambda>_. x))),
     (''allowlist'', typed rd_texts (\<lambda>x. wc_allowlist_update (\<lambda>_. x))),
     (''allowlist_file'', typed rd_text (\<lambda>x. wc_allowlist_file_update (\<lambda>_. x))),
     (''session_secret'', typed rd_text (\<lambda>x. wc_session_secret_update (\<lambda>_. x))),
     (''session_max_age_seconds'', typed rd_int (\<lambda>x. wc_max_age_update (\<lambda>_. x))),
     (''admins'', typed rd_texts (\<lambda>x. wc_admins_update (\<lambda>_. x))),
     (''public_status'', typed rd_bool (\<lambda>x. wc_public_status_update (\<lambda>_. x))),
     (''public_status_title'', typed rd_text (\<lambda>x. wc_public_title_update (\<lambda>_. x))),
     (''public_status_cache_seconds'', typed rd_number (\<lambda>x. wc_public_cache_update (\<lambda>_. x))),
     (''metrics_token'', typed rd_text (\<lambda>x. wc_metrics_token_update (\<lambda>_. x))),
     (''dev_login'', typed rd_text (\<lambda>x. wc_dev_login_update (\<lambda>_. x)))]"

definition load_web :: "(string \<times> pyval) list option \<Rightarrow> (error, web_config) result" where
  "load_web = load_section ''under 'web' in config.json'' web_settings default_web"

subsection \<open>The file\<close>

definition flat_settings :: "(string \<Rightarrow> tz) \<Rightarrow> (pyval \<Rightarrow> string) \<Rightarrow> club_config setting list" where
  "flat_settings zone_of str_of =
     [(''timezone'', text_as str_of (\<lambda>x. c_timezone_update (\<lambda>_. zone_of x))),
      (''w_fair'', float_as (\<lambda>x. c_w_fair_update (\<lambda>_. x))),
      (''w_age'', float_as (\<lambda>x. c_w_age_update (\<lambda>_. x))),
      (''age_max_hours'', float_as (\<lambda>x. c_age_max_hours_update (\<lambda>_. x))),
      (''fairshare_window_days'', float_as (\<lambda>x. c_fairshare_window_days_update (\<lambda>_. x))),
      (''fairshare_half_life_days'', float_as (\<lambda>x. c_fairshare_half_life_days_update (\<lambda>_. x))),
      (''w_usd_share'', float_as (\<lambda>x. c_w_usd_share_update (\<lambda>_. x))),
      (''w_gpu_hour_share'', float_as (\<lambda>x. c_w_gpu_hour_share_update (\<lambda>_. x))),
      (''default_budget_usd'', money_as (\<lambda>x. c_default_budget_usd_update (\<lambda>_. x))),
      (''default_budget_gpu_hours'', money_as (\<lambda>x. c_default_budget_gpu_hours_update (\<lambda>_. x))),
      (''pool_budget_usd'', money_as (\<lambda>x. c_pool_budget_usd_update (\<lambda>_. x))),
      (''pool_budget_gpu_hours'', money_as (\<lambda>x. c_pool_budget_gpu_hours_update (\<lambda>_. x))),
      (''max_job_usd'', money_as (\<lambda>x. c_max_job_usd_update (\<lambda>_. x))),
      (''max_job_gpu_hours'', money_as (\<lambda>x. c_max_job_gpu_hours_update (\<lambda>_. x))),
      (''max_job_hours'', float_as (\<lambda>x. c_max_job_hours_update (\<lambda>_. x))),
      (''max_command_bytes'', int_as (\<lambda>x. c_max_command_bytes_update (\<lambda>_. x))),
      (''max_queued_jobs_per_user'', int_as (\<lambda>x. c_max_queued_jobs_per_user_update (\<lambda>_. x))),
      (''max_running_jobs_per_user'', int_as (\<lambda>x. c_max_running_jobs_per_user_update (\<lambda>_. x))),
      (''max_log_lines_per_job'', int_as (\<lambda>x. c_max_log_lines_per_job_update (\<lambda>_. x))),
      (''max_log_line_bytes'', int_as (\<lambda>x. c_max_log_line_bytes_update (\<lambda>_. x))),
      (''startup_allowance_hours'', float_as (\<lambda>x. c_startup_allowance_hours_update (\<lambda>_. x))),
      (''backends'', list_as str_of (\<lambda>x. c_backends_update (\<lambda>_. x))),
      (''placement_order'', list_as str_of (\<lambda>x. c_placement_order_update (\<lambda>_. x))),
      (''forecast_window_days'', float_as (\<lambda>x. c_forecast_window_days_update (\<lambda>_. x))),
      (''forecast_min_days'', float_as (\<lambda>x. c_forecast_min_days_update (\<lambda>_. x))),
      (''forecast_warning_days'', float_as (\<lambda>x. c_forecast_warning_days_update (\<lambda>_. x))),
      (''forecast_critical_days'', float_as (\<lambda>x. c_forecast_critical_days_update (\<lambda>_. x))),
      (''idle_threshold_percent'', float_as (\<lambda>x. c_idle_threshold_percent_update (\<lambda>_. x))),
      (''idle_window_minutes'', float_as (\<lambda>x. c_idle_window_minutes_update (\<lambda>_. x))),
      (''idle_min_samples'', int_as (\<lambda>x. c_idle_min_samples_update (\<lambda>_. x))),
      (''idle_grace_minutes'', float_as (\<lambda>x. c_idle_grace_minutes_update (\<lambda>_. x))),
      (''idle_sample_interval_seconds'', float_as (\<lambda>x. c_idle_sample_interval_seconds_update (\<lambda>_. x))),
      (''reclaim_enabled'', bool_as (\<lambda>x. c_reclaim_enabled_update (\<lambda>_. x))),
      (''price_refresh_days'', float_as (\<lambda>x. k_price_refresh_days_update (\<lambda>_. x))),
      (''spot_max_preemptions_without_progress'', int_as (\<lambda>x. c_spot_max_preemptions_without_progress_update (\<lambda>_. x))),
      (''spot_max_launch_failures'', int_as (\<lambda>x. k_spot_max_launch_failures_update (\<lambda>_. x))),
      (''spot_cooldown_seconds'', float_as (\<lambda>x. k_spot_cooldown_seconds_update (\<lambda>_. x))),
      (''checkpoint_deadline_seconds'', float_as (\<lambda>x. k_checkpoint_deadline_seconds_update (\<lambda>_. x))),
      (''checkpoint_store'', text_as str_of (\<lambda>x. c_checkpoint_store_update (\<lambda>_. x))),
      (''checkpoint_root'', text_as str_of (\<lambda>x. k_checkpoint_root_update (\<lambda>_. x))),
      (''checkpoint_bucket'', text_as str_of (\<lambda>x. c_checkpoint_bucket_update (\<lambda>_. x))),
      (''checkpoint_prefix'', text_as str_of (\<lambda>x. k_checkpoint_prefix_update (\<lambda>_. x))),
      (''environment_root'', text_as str_of (\<lambda>x. k_environment_root_update (\<lambda>_. x))),
      (''ecr_repository'', text_as str_of (\<lambda>x. k_ecr_repository_update (\<lambda>_. x))),
      (''digest_webhook'', text_as str_of (\<lambda>x. k_digest_webhook_update (\<lambda>_. x))),
      (''metrics_retention_days'', float_as (\<lambda>x. k_metrics_retention_days_update (\<lambda>_. x)))]"

datatype config_text = NoFile | NotJson string | Parsed pyval

definition file_settings :: "string \<Rightarrow> config_text \<Rightarrow> (error, (string \<times> pyval) list) result" where
  "file_settings path f =
     (case f of
        NoFile \<Rightarrow> Inr []
      | NotJson t \<Rightarrow> Inl (ConfigError (ConfigText (path @ '' is not valid JSON: '' @ t)))
      | Parsed (PDict kvs) \<Rightarrow> Inr kvs
      | Parsed _ \<Rightarrow> Inl (ConfigError (ConfigText (path @ '' must contain a JSON object''))))"

definition SECTIONS :: "string list" where
  "SECTIONS = [''aws'', ''gce'', ''local'', ''volumes'', ''web'']"

text \<open>A nested section, not given when it is missing, null or empty.\<close>

definition section_of :: "(string \<times> pyval) list \<Rightarrow> string \<Rightarrow> (error, (string \<times> pyval) list option) result" where
  "section_of settings name =
     (case map_of settings name of
        None \<Rightarrow> Inr None
      | Some PNone \<Rightarrow> Inr None
      | Some (PDict kvs) \<Rightarrow> Inr (if kvs = [] then None else Some kvs)
      | Some _ \<Rightarrow> Inl (ConfigError (ConfigText ([CHR 0x27] @ name @ [CHR 0x27] @ '' in config.json must be an object''))))"

definition load_flat ::
  "(string \<Rightarrow> tz) \<Rightarrow> (pyval \<Rightarrow> string) \<Rightarrow> string \<Rightarrow> (string \<times> pyval) list \<Rightarrow> (error, club_config) result"
where
  "load_flat zone_of str_of path kvs =
     (let known = flat_settings zone_of str_of; unknown = unknown_keys known kvs
      in if unknown \<noteq> []
         then Inl (ConfigError (ConfigText (''unknown config keys in '' @ path @ '': '' @ join_with '', '' unknown @
                ''. Known keys: '' @ join_with '', '' (sort (map fst known)))))
         else set_all known kvs (default_club (zone_of ''America/Los_Angeles'')))"

text \<open>The two parts of the AWS settings that the price book reads are repeated where it reads them.\<close>

definition with_sections ::
  "club_config \<Rightarrow> aws_config \<Rightarrow> gce_config \<Rightarrow> local_config \<Rightarrow> web_config \<Rightarrow> volume_config \<Rightarrow> club_config"
where
  "with_sections c a g l w v =
     c\<lparr>c_region := aw_region a, c_instance_types := aw_instance_types a, k_aws := a, k_gce := g, k_local := l, k_web := w,
       k_volumes := v\<rparr>"

text \<open>\<open>settings.update\<close>: an override takes the place of the file's setting of the same name.\<close>

definition merged :: "(string \<times> pyval) list \<Rightarrow> (string \<times> pyval) list \<Rightarrow> (string \<times> pyval) list" where
  "merged kvs overrides = foldl (\<lambda>d (k, v). AList.update k v d) kvs overrides"

definition load_config ::
  "(string \<Rightarrow> tz) \<Rightarrow> (pyval \<Rightarrow> string) \<Rightarrow> string \<Rightarrow> config_text \<Rightarrow> (string \<times> pyval) list \<Rightarrow> (error, club_config) result"
where
  "load_config zone_of str_of path f overrides =
     py_bind (file_settings path f) (\<lambda>kvs.
     let settings = merged kvs overrides
     in py_bind (section_of settings ''aws'') (\<lambda>aws.
        py_bind (section_of settings ''gce'') (\<lambda>gce.
        py_bind (section_of settings ''local'') (\<lambda>local.
        py_bind (section_of settings ''volumes'') (\<lambda>volumes.
        py_bind (section_of settings ''web'') (\<lambda>web.
        py_bind (load_flat zone_of str_of path (filter (\<lambda>(k, _). k \<notin> set SECTIONS) settings)) (\<lambda>c.
        py_bind (load_aws aws) (\<lambda>a.
        py_bind (load_gce gce) (\<lambda>g.
        py_bind (load_local local) (\<lambda>l.
        py_bind (load_web web) (\<lambda>w.
        py_bind (load_volumes volumes) (\<lambda>v.
        let whole = with_sections c a g l w v
        in py_bind (validate_config (broker_config.truncate whole)) (\<lambda>_. Inr whole)))))))))))))"

subsection \<open>What a loaded configuration guarantees\<close>

lemma py_bind_Inr: "py_bind r f = Inr b \<longleftrightarrow> (\<exists>a. r = Inr a \<and> f a = Inr b)"
  unfolding py_bind_def by (cases r) auto

lemma update_keys: "fst ` set (AList.update k v kvs) = insert k (fst ` set kvs)"
  using dom_update[of k v kvs] by simp

lemma merged_keys: "fst ` set (merged kvs overrides) = fst ` set kvs \<union> fst ` set overrides"
proof (induction overrides arbitrary: kvs)
  case Nil
  then show ?case by (simp add: merged_def)
next
  case (Cons o1 os)
  obtain k v where o1: "o1 = (k, v)" by (cases o1)
  have "merged kvs (o1 # os) = merged (AList.update k v kvs) os" by (simp add: merged_def o1)
  then show ?case using Cons[of "AList.update k v kvs"] by (simp add: update_keys o1)
qed

lemma merged_distinct: "distinct (map fst kvs) \<Longrightarrow> distinct (map fst (merged kvs overrides))"
  unfolding merged_def by (induction overrides arbitrary: kvs) (auto simp: distinct_update)

lemma no_unknown_keys: "unknown_keys known kvs = [] \<longleftrightarrow> fst ` set kvs \<subseteq> fst ` set known"
proof -
  have "unknown_keys known kvs = [] \<longleftrightarrow> set (unknown_keys known kvs) = {}" by simp
  also have "\<dots> \<longleftrightarrow> fst ` set kvs \<subseteq> fst ` set known" unfolding unknown_keys_def by auto
  finally show ?thesis .
qed

lemma load_section_known:
  "load_section w known dflt (Some kvs) = Inr c \<Longrightarrow> fst ` set kvs \<subseteq> fst ` set known"
  unfolding load_section_def no_unknown_keys by (simp split: if_splits)

text \<open>What one field holds after all the settings were put, when only one setting writes it.\<close>

lemma set_all_field:
  assumes others: "\<And>k put v c c'. (k, put) \<in> set known \<Longrightarrow> k \<noteq> key \<Longrightarrow> put v c = Inr c' \<Longrightarrow> field c' = field c"
    and own: "map_of known key = Some put0" "\<And>v c c'. put0 v c = Inr c' \<Longrightarrow> field c' = rd v"
  shows "set_all known kvs c0 = Inr c \<Longrightarrow> distinct (map fst kvs) \<Longrightarrow>
    field c = (case map_of kvs key of None \<Rightarrow> field c0 | Some v \<Rightarrow> rd v)"
proof (induction kvs arbitrary: c0)
  case Nil
  then show ?case by simp
next
  case (Cons kv kvs)
  obtain k v where kv: "kv = (k, v)" by (cases kv)
  show ?case
  proof (cases "map_of known k")
    case None
    then have "k \<noteq> key" using own(1) by auto
    then show ?thesis using Cons None by (simp add: kv)
  next
    case (Some put)
    obtain c1 where c1: "put v c0 = Inr c1" "set_all known kvs c1 = Inr c"
      using Cons.prems(1) Some by (auto simp: kv split: sum.splits)
    have rest: "field c = (case map_of kvs key of None \<Rightarrow> field c1 | Some v \<Rightarrow> rd v)"
      using Cons.IH[OF c1(2)] Cons.prems(2) by simp
    show ?thesis
    proof (cases "k = key")
      case True
      then have "put = put0" "map_of kvs key = None"
        using Some own(1) Cons.prems(2) by (auto simp: kv map_of_eq_None_iff)
      then show ?thesis using rest own(2)[of v c0 c1] c1(1) True by (simp add: kv)
    next
      case False
      then have "field c1 = field c0" using others[of k put v c0 c1] c1(1) Some map_of_SomeD by fastforce
      then show ?thesis using rest False by (simp add: kv split: option.splits)
    qed
  qed
qed

lemma text_as_Inr: "text_as str_of put v c = Inr c' \<Longrightarrow> \<exists>x. c' = put x c"
  unfolding text_as_def by auto
lemma float_as_Inr: "float_as put v c = Inr c' \<Longrightarrow> \<exists>x. c' = put x c"
  unfolding float_as_def by (auto split: pyval.splits float_text.splits)
lemma int_as_Inr: "int_as put v c = Inr c' \<Longrightarrow> \<exists>x. c' = put x c"
  unfolding int_as_def by (auto split: pyval.splits option.splits)
lemma money_as_Inr: "money_as put v c = Inr c' \<Longrightarrow> \<exists>x. c' = put x c"
  unfolding money_as_def by (auto split: option.splits)
lemma list_as_Inr: "list_as str_of put v c = Inr c' \<Longrightarrow> \<exists>x. c' = put x c"
  unfolding list_as_def by (auto split: pyval.splits)

lemmas converted = text_as_Inr float_as_Inr int_as_Inr money_as_Inr list_as_Inr

lemma reclaim_written_once:
  "list_all (\<lambda>(k, put). k = ''reclaim_enabled'' \<or> (\<forall>v c c'. put v c = Inr c' \<longrightarrow> c_reclaim_enabled c' = c_reclaim_enabled c))
     (flat_settings zone_of str_of)"
  unfolding flat_settings_def
  apply simp
  apply (intro conjI allI impI)
  apply (drule converted, elim exE, simp)+
  done

lemma reclaim_setting: "map_of (flat_settings zone_of str_of) ''reclaim_enabled'' = Some (bool_as (\<lambda>x. c_reclaim_enabled_update (\<lambda>_. x)))"
  unfolding flat_settings_def by simp

lemma load_flat_facts:
  assumes "load_flat zone_of str_of path kvs = Inr c" and "distinct (map fst kvs)"
  shows "fst ` set kvs \<subseteq> fst ` set (flat_settings zone_of str_of)"
    and "c_reclaim_enabled c = (case map_of kvs ''reclaim_enabled'' of None \<Rightarrow> False | Some v \<Rightarrow> py_true v)"
proof -
  have ok: "unknown_keys (flat_settings zone_of str_of) kvs = []"
    "set_all (flat_settings zone_of str_of) kvs (default_club (zone_of ''America/Los_Angeles'')) = Inr c"
    using assms(1) unfolding load_flat_def Let_def by (auto split: if_splits)
  show "fst ` set kvs \<subseteq> fst ` set (flat_settings zone_of str_of)" using ok(1) no_unknown_keys by blast
  have "c_reclaim_enabled (default_club (zone_of ''America/Los_Angeles'')) = False"
    by (simp add: default_club_def default_config_def broker_config.extend_def)
  moreover have "c_reclaim_enabled c = (case map_of kvs ''reclaim_enabled'' of
      None \<Rightarrow> c_reclaim_enabled (default_club (zone_of ''America/Los_Angeles'')) | Some v \<Rightarrow> py_true v)"
  proof (rule set_all_field[OF _ reclaim_setting _ ok(2) assms(2)])
    fix k put v c c'
    assume "(k, put) \<in> set (flat_settings zone_of str_of)" "k \<noteq> ''reclaim_enabled''" "put v c = Inr c'"
    then show "c_reclaim_enabled c' = c_reclaim_enabled c"
      using reclaim_written_once[of zone_of str_of] unfolding list_all_iff by blast
  next
    fix v and c c' :: club_config
    assume "bool_as (\<lambda>x. c_reclaim_enabled_update (\<lambda>_. x)) v c = Inr c'"
    then show "c_reclaim_enabled c' = py_true v" unfolding bool_as_def by auto
  qed
  ultimately show "c_reclaim_enabled c = (case map_of kvs ''reclaim_enabled'' of None \<Rightarrow> False | Some v \<Rightarrow> py_true v)"
    by (simp split: option.splits)
qed

lemma load_config_steps:
  assumes "load_config zone_of str_of path f overrides = Inr c"
  obtains kvs cf where "file_settings path f = Inr kvs"
    "load_flat zone_of str_of path (filter (\<lambda>(k, _). k \<notin> set SECTIONS) (merged kvs overrides)) = Inr cf"
    "c_reclaim_enabled c = c_reclaim_enabled cf" "c_region c = aw_region (k_aws c)"
    "c_instance_types c = aw_instance_types (k_aws c)" "validate_config (broker_config.truncate c) = Inr ()"
proof -
  from assms obtain kvs cf a g l w v u where run: "file_settings path f = Inr kvs"
    "load_flat zone_of str_of path (filter (\<lambda>(k, _). k \<notin> set SECTIONS) (merged kvs overrides)) = Inr cf"
    "validate_config (broker_config.truncate (with_sections cf a g l w v)) = Inr u" "with_sections cf a g l w v = c"
    unfolding load_config_def Let_def py_bind_Inr sum.inject(2) by (elim exE conjE) (rule that)
  then show thesis using that[OF run(1,2)] by (auto simp: with_sections_def)
qed

lemma map_of_filter_key: "P k \<Longrightarrow> map_of (filter (\<lambda>(k, _). P k) kvs) k = map_of kvs k"
  by (induction kvs) auto


text \<open>A file that turns reclaiming on and an override that turns it off again.\<close>

lemma demo_loads:
  "load_config zone_of str_of path (Parsed (PDict [(''reclaim_enabled'', PBool True), (''gce'', PNone)]))
     [(''reclaim_enabled'', PBool False)] =
   Inr (with_sections (default_club (zone_of ''America/Los_Angeles'')) default_aws default_gce default_local_config default_web
     default_volumes)"
proof -
  let ?c = "default_club (zone_of ''America/Los_Angeles'')"
  let ?all = "with_sections ?c default_aws default_gce default_local_config default_web default_volumes"
  have read: "file_settings path (Parsed (PDict [(''reclaim_enabled'', PBool True), (''gce'', PNone)])) =
      Inr [(''reclaim_enabled'', PBool True), (''gce'', PNone)]"
    by (simp add: file_settings_def)
  have kvs: "merged [(''reclaim_enabled'', PBool True), (''gce'', PNone)] [(''reclaim_enabled'', PBool False)] =
      [(''reclaim_enabled'', PBool False), (''gce'', PNone)]"
    by (simp add: merged_def)
  have off: "?c\<lparr>c_reclaim_enabled := False\<rparr> = ?c"
    by (simp add: default_club_def default_config_def broker_config.extend_def)
  have known: "unknown_keys (flat_settings zone_of str_of) [(''reclaim_enabled'', PBool False)] = []"
    unfolding no_unknown_keys using reclaim_setting[THEN map_of_SomeD] by force
  have flat: "load_flat zone_of str_of path [(''reclaim_enabled'', PBool False)] = Inr ?c"
    by (simp add: load_flat_def known reclaim_setting bool_as_def py_true_def off)
  have valid: "validate_config (broker_config.truncate ?all) = Inr ()"
    unfolding valid_config_def[symmetric]
    by (simp add: valid_config_iff config_checks_def limit_settings_def with_sections_def default_club_def default_config_def
          broker_config.extend_def broker_config.truncate_def DEFAULT_GPU_TYPES_def)
  show ?thesis
    unfolding load_config_def read py_bind_def sum.case kvs Let_def
    by (simp add: section_of_def SECTIONS_def flat load_aws_def load_gce_def load_local_def load_web_def load_volumes_def
          load_section_def valid)
qed


text \<open>A flag of another type than \<open>bool\<close> is converted by Python's \<open>bool\<close>: the text "false" turns reclaiming on.\<close>

lemma text_false_turns_on:
  "bool_as (\<lambda>x. c_reclaim_enabled_update (\<lambda>_. x)) (PStr ''false'') (c :: club_config) = Inr (c\<lparr>c_reclaim_enabled := True\<rparr>)"
  by (simp add: bool_as_def py_true_def)

text \<open>A malformed number leaves \<open>load_config\<close> as a ValueError, not as the ConfigError its callers catch.\<close>

lemma malformed_number_escapes:
  "load_flat zone_of str_of path [(''w_age'', PStr ''half'')] = Inl (ValueError ''could not convert string to float'')"
proof -
  have "map_of (flat_settings zone_of str_of) ''w_age'' = Some (float_as (\<lambda>x. c_w_age_update (\<lambda>_. x)))"
    by (simp add: flat_settings_def)
  moreover from map_of_SomeD[OF this] have "unknown_keys (flat_settings zone_of str_of) [(''w_age'', PStr ''half'')] = []"
    unfolding no_unknown_keys by force
  moreover have "float_of_text ''half'' = NotFloat" by code_simp
  ultimately show ?thesis by (simp add: load_flat_def float_as_def)
qed

text \<open>\<open>admins\<close> given as one name instead of a list makes an officer of everyone whose name is one of its letters.\<close>

lemma admins_from_a_name:
  "load_web (Some [(''admins'', PStr ''ada'')]) = Inr (default_web\<lparr>wc_admins := [''a'', ''d'', ''a'']\<rparr>)"
  by (simp add: load_web_def load_section_def unknown_keys_def web_settings_def typed_def rd_texts_def)

end
