(* ===== verification/Spec2Isabelle.thy ===== *)
theory Spec2Isabelle
  imports System Reclaim Pool Race Divergence LabPool Prices Forecast Trace Telemetry Report Digest Markdown Adapters Web Gce Ec2Limits ConfigFile
begin

text \<open>
  GPU broker: a verification development for the Python package \<^verbatim>\<open>src/gpu_broker\<close>.

  \<^bold>\<open>The program.\<close> A club shares cloud credits and lab machines. Members submit jobs with a budget; the
  broker admits or refuses them, orders the queue by fair share, places jobs on backends (lab hosts, EC2,
  GCE, or a simulated backend), charges them as they run, resumes preempted jobs from checkpoints,
  reclaims idle ones, and looks for machines that nothing accounts for. All state is in one SQLite
  database behind \<^verbatim>\<open>store.py\<close>; \<^verbatim>\<open>scheduler.py\<close> makes one pass (a tick) from committed state;
  \<^verbatim>\<open>broker.py\<close> is the facade the command line and the web pages call.

  \<^bold>\<open>How it is modelled.\<close> The database is the record \<open>store\<close>: one list per table, in insertion order, with
  the configuration and the current time, which is constant during an operation. A transaction is one
  step. A store method is a function that returns the new store, and \<open>Inl\<close> of an exception where it
  raises. The machines of all backends are an external state of an arbitrary type; a backend is a record
  of operations on it that may raise and may change it. Broker code is a function from a world (store and
  external state) to a result and a world, so that an exception keeps what was written before it. The
  generator \<open>decisions\<close> is a loop that hands each decision to its consumer before the next is made.
  Decimal amounts and floats are exact reals; moments are microseconds since the epoch; the time zone of
  the club is a function from moments to offsets; a new job identifier is an argument. Texts of messages
  and reasons are modelled where the code stores or returns them. Exceptions carry the data their texts are
  built from. Tracing spans are left out: they decide nothing.

  \<^bold>\<open>Theories, in the order of the imports.\<close>
  \<^item> \<open>Prelude\<close>: shared types, Python's truth and rounding, generic lemmas, the collections of simplification
    and invariant rules.
  \<^item> \<open>Lifecycle\<close> (\<^verbatim>\<open>states.py\<close>), \<open>Money\<close> (\<^verbatim>\<open>money.py\<close>, \<^verbatim>\<open>clock.py\<close>), \<open>Iso\<close> and \<open>IsoRoundTrip\<close>
    (\<^verbatim>\<open>to_iso\<close>, \<^verbatim>\<open>from_iso\<close>), \<open>Models\<close> (\<^verbatim>\<open>models.py\<close>, \<^verbatim>\<open>errors.py\<close>), \<open>Config\<close>
    (\<^verbatim>\<open>config.py\<close>): the data, the lifecycle graph, quantisation, time stamps that read back.
  \<^item> \<open>Store\<close> (\<^verbatim>\<open>store.py\<close>), \<open>Ledger\<close>, \<open>StoreInv\<close>: every table and its methods; how each method moves the
    sums over the ledger; the invariant \<open>store_inv\<close> (unique identifiers, amounts in whole cents, histories
    that are legal walks, holds that equal reservation less charges) and that each method keeps it.
  \<^item> \<open>Admission\<close> (\<^verbatim>\<open>admission.py\<close>), \<open>FairShare\<close> (\<^verbatim>\<open>fairshare.py\<close>), \<open>Placement\<close>
    (\<^verbatim>\<open>placement.py\<close>), \<open>Idle\<close> (\<^verbatim>\<open>idle.py\<close>), \<open>Metrics\<close> (\<^verbatim>\<open>metrics.py\<close>): the policies. The queue
    order is proved in the locale \<open>ranking\<close> and interpreted on the model's keys.
  \<^item> \<open>Backend\<close> (\<^verbatim>\<open>backends/base.py\<close>): the protocol, worlds, and a calculus of triples for broker code.
  \<^item> \<open>Scheduler\<close> (\<^verbatim>\<open>scheduler.py\<close>), \<open>SchedulerInv\<close>, \<open>Policy\<close>, \<open>Dispatch\<close>: the tick, the dry run and
    reconciliation; a tick keeps the store consistent whatever the backends do; a pass refines an abstract
    policy, and neither the pool cap nor the running limit of a member is exceeded.
  \<^item> \<open>Reaper\<close> (\<^verbatim>\<open>reaper.py\<close>), \<open>Broker\<close> (\<^verbatim>\<open>broker.py\<close>), \<open>Facade\<close>, \<open>Reclaim\<close>: orphans and what they
    burned; submitting, cancelling, officers' operations, the loop, reclaiming.
  \<^item> \<open>Checkpoint\<close> (\<^verbatim>\<open>checkpoint.py\<close>): the checkpoint store on a file system; \<open>put\<close> is a list of operations
    on the disk that can be cut off anywhere. \<open>Bucket\<close>: the same store over an S3 bucket, whose put is a list of
    requests. \<open>Adapters\<close> (\<^verbatim>\<open>adapters/\<close>): the helpers inside the job, which write what that store collects.
  \<^item> \<open>Fake\<close>, \<open>FakeWork\<close> (\<^verbatim>\<open>backends/fake.py\<close>): the simulated backend, its scripted work and checkpoints.
  \<^item> \<open>Pool\<close>: what the broker relies on a backend for, as the locale \<open>machine_pool\<close>, with the facade's promises
    about machines proved in it, interpreted on the simulated backend.
  \<^item> \<open>System\<close>: all facade operations, time, machines and reconfiguration as one step relation, its reachable
    worlds and their invariants. \<open>Race\<close>: two processes that read the same row. \<open>Divergence\<close>: where code
    and documentation differ.

  \<^item> \<open>PyText\<close>, \<open>PyLines\<close>, \<open>Json\<close>, \<open>Shell\<close>: Python's text methods, \<^verbatim>\<open>json.dumps\<close> and
    \<^verbatim>\<open>shlex.quote\<close> on texts, and a reader for the shell's words that undoes the quoting.
  \<^item> \<open>Commands\<close> (\<^verbatim>\<open>local/commands.py\<close>), \<open>Transport\<close> (\<^verbatim>\<open>local/transport.py\<close>), \<open>Hosts\<close>
    (\<^verbatim>\<open>local/hosts.py\<close>), \<open>Local\<close> and \<open>LabPool\<close> (\<^verbatim>\<open>backends/local.py\<close>): the lab machines. Every
    command with its quoting and every parser; the health check; the SSH connections with their retry; the
    backend's methods over an arbitrary transport; what holds after any history of operations.
  \<^item> \<open>Environments\<close> (\<^verbatim>\<open>environments.py\<close>), \<open>Volumes\<close> (\<^verbatim>\<open>volumes.py\<close>): specifications, their digest,
    the scripts made from them, and their tables.
  \<^item> \<open>Prices\<close> (\<^verbatim>\<open>pricing.py\<close> and the price paths of \<^verbatim>\<open>broker.py\<close>), \<open>Forecast\<close>
    (\<^verbatim>\<open>forecast.py\<close>), \<open>Trace\<close> (\<^verbatim>\<open>schedule_trace.py\<close>), \<open>Telemetry\<close> (the scrape text and
    the queries of \<^verbatim>\<open>metrics.py\<close>), \<open>Report\<close> and \<open>Markdown\<close> (\<^verbatim>\<open>report.py\<close>), \<open>Digest\<close>
    (\<^verbatim>\<open>digest.py\<close>): what the club reads.
  \<^item> \<open>Public\<close> (\<^verbatim>\<open>web/public.py\<close>, \<^verbatim>\<open>web/publicapp.py\<close>), \<open>Auth\<close> (\<^verbatim>\<open>web/auth.py\<close>), \<open>Web\<close>
    (\<^verbatim>\<open>web/app.py\<close>): the page anybody can read, which is the same for any two databases that differ only in
    what identifies people; signing in; every route, what may change the database, and the live log.
  \<^item> \<open>Aws\<close> (\<^verbatim>\<open>aws.py\<close>), \<open>Ec2\<close> (\<^verbatim>\<open>backends/ec2.py\<close>), \<open>Ec2Pool\<close>, \<open>Ec2Limits\<close>: tags,
    scripts and error hints; every method of the backend over a record of AWS calls; that a command is sent
    to an instance once, which machines exist and whose they are, limits, standing down, log cursors, for
    every account that does what AWS documents. \<open>Gce\<close> (\<^verbatim>\<open>backends/gce.py\<close>): the same for Compute
    Engine, with the shell words its scripts are read as.
  \<^item> \<open>ConfigFile\<close> (\<^verbatim>\<open>load_config\<close> and the loaders of the nested sections): what reaches the broker has
    passed \<open>validate\<close> and came from settings it knows.

  \<^bold>\<open>Loops and bounds.\<close> Almost all loops run over lists and are structural; \<open>run_until_idle\<close> counts its ticks
  down as the code does and raises when they are used up. Reading all pages of an S3 listing may never end, so
  \<open>s3_pages\<close> is a partial function, and that it ends is a theorem about services whose pages end. Waiting for a
  preemption notice is a loop over the sleeps it gets. No fuel is needed anywhere. Limits such as the number
  of log lines are the configuration's. The twelve digits of a checkpoint's directory name and the years
  1 to 9999 of a time stamp are hypotheses where they matter.

  \<^bold>\<open>Parameters.\<close> Code outside the package is an argument: asyncssh's connections and what machines answer,
  the clients of AWS (EC2, SSM, logs, ECR, S3, Cost Explorer) and of Compute Engine, the price client, the
  webhook, what a torch model saves, SHA-256, HMAC and the digest of a trace bundle, the HTTP client of the
  sign-in and the signer of its cookies, and reading JSON where a text becomes a value.

  \<^bold>\<open>Not modelled.\<close> The command line and its doctor, which print; the HTML templates of the web pages with their
  filters and charts; making the cloud clients; SQL, connections and migrations; tracing, which decides
  nothing; the scripted demonstration.
\<close>

end
